(* ===== verification/Ase_Prelude.thy ===== *)
theory Ase_Prelude
  imports Main "HOL-Library.Multiset" "HOL-Library.Char_ord" "HOL-Library.List_Lexorder" "HOL-Library.Product_Lexorder"
begin

section \<open>Prelude: shared types, identifier patterns and generic lemmas\<close>

text \<open>
  What every component of the development shares: the result type of fallible code, Python
  datetimes, JSON values, the identifier patterns of \<^verbatim>\<open>domain/identity.py\<close>, the helper
  \<^verbatim>\<open>ensure_unique\<close> of \<^verbatim>\<open>domain/model.py\<close>, and lemmas on lists, keyed tables and sorting.

  Conventions used throughout:
  \<^item> an \<open>AwareDatetime\<close> field is its instant, an \<open>int\<close> counting microseconds; a \<open>datetime\<close>
    argument that the code checks for awareness is a \<open>py_datetime\<close>;
  \<^item> fallible code returns \<open>'e + 'a\<close> with the exception class on the left; exception texts are
    not modelled;
  \<^item> a Pydantic class is a record, and \<open>valid_X\<close> is the conjunction of its field constraints and
    its validators: constructing or decoding an \<open>X\<close> succeeds exactly when \<open>valid_X\<close> holds, while
    \<^verbatim>\<open>model_copy\<close> is a record update that checks nothing;
  \<^item> Python's \<open>sorted(xs, key=f)\<close> is \<open>sort_key f xs\<close> (both are stable); text is compared by code
    point, tuples lexicographically.
\<close>

named_theorems validity_simps "unfolding rules of the field constraints and model validators"

named_theorems table_simps "lookup and update laws of the keyed tables"

type_synonym instant = int

datatype py_datetime = Aware instant | Naive instant

definition is_aware :: "py_datetime \<Rightarrow> bool" where
  "is_aware d = (case d of Aware _ \<Rightarrow> True | Naive _ \<Rightarrow> False)"

lemma is_aware_simps [simp]: "is_aware (Aware t)" "\<not> is_aware (Naive t)"
  by (simp_all add: is_aware_def)

datatype json_value =
    JStr string
  | JInt int
  | JFloat string
  | JBool bool
  | JList "json_value list"
  | JDict "(string \<times> json_value) list"
  | JNull

subsection \<open>The helper \<open>ensure_unique\<close>\<close>

text \<open>
  The loop of \<^verbatim>\<open>ensure_unique\<close>: a value already seen is added to the duplicates. The function
  raises exactly when the duplicates are non-empty, so the model returns whether it passes.
\<close>

fun ensure_unique_loop :: "'a list \<Rightarrow> 'a list \<Rightarrow> 'a list \<Rightarrow> 'a list" where
  "ensure_unique_loop [] seen duplicates = duplicates"
| "ensure_unique_loop (v # vs) seen duplicates =
     ensure_unique_loop vs (List.insert v seen)
       (if v \<in> set seen then List.insert v duplicates else duplicates)"

definition ensure_unique :: "'a list \<Rightarrow> bool" where
  "ensure_unique vs = (ensure_unique_loop vs [] [] = [])"

lemma ensure_unique_loop_Nil:
  "ensure_unique_loop vs seen dups = [] \<longleftrightarrow>
     dups = [] \<and> distinct vs \<and> set vs \<inter> set seen = {}"
proof (induction vs arbitrary: seen dups)
  case Nil
  then show ?case by simp
next
  case (Cons v vs)
  show ?case
  proof (cases "v \<in> set seen")
    case True
    have "List.insert v dups \<noteq> []"
      by (simp add: List.insert_def) auto
    with True show ?thesis
      using Cons.IH [of "List.insert v seen" "List.insert v dups"] by auto
  next
    case False
    then show ?thesis
      using Cons.IH [of "List.insert v seen" dups] by auto
  qed
qed

lemma ensure_unique_iff [simp, validity_simps]: "ensure_unique vs \<longleftrightarrow> distinct vs"
  by (simp add: ensure_unique_def ensure_unique_loop_Nil)

subsection \<open>Identifier patterns\<close>

text \<open>
  The patterns \<open>^<prefix>[a-z0-9][a-z0-9_-]{lo,hi}$\<close> of the identifier types, and lower-case
  hexadecimal digests of a fixed length.
\<close>

definition lower_or_digit :: "char \<Rightarrow> bool" where
  "lower_or_digit c \<longleftrightarrow>
     CHR ''a'' \<le> c \<and> c \<le> CHR ''z'' \<or> CHR ''0'' \<le> c \<and> c \<le> CHR ''9''"

definition id_tail_char :: "char \<Rightarrow> bool" where
  "id_tail_char c \<longleftrightarrow> lower_or_digit c \<or> c = CHR ''_'' \<or> c = CHR ''-''"

definition match_id :: "string \<Rightarrow> nat \<Rightarrow> nat \<Rightarrow> string \<Rightarrow> bool" where
  "match_id prefix lo hi s \<longleftrightarrow>
     take (length prefix) s = prefix \<and>
     (case drop (length prefix) s of
        [] \<Rightarrow> False
      | c # cs \<Rightarrow> lower_or_digit c \<and> list_all id_tail_char cs \<and> lo \<le> length cs \<and> length cs \<le> hi)"

definition hex_char :: "char \<Rightarrow> bool" where
  "hex_char c \<longleftrightarrow>
     CHR ''a'' \<le> c \<and> c \<le> CHR ''f'' \<or> CHR ''0'' \<le> c \<and> c \<le> CHR ''9''"

definition match_hex :: "nat \<Rightarrow> nat \<Rightarrow> string \<Rightarrow> bool" where
  "match_hex lo hi s \<longleftrightarrow> lo \<le> length s \<and> length s \<le> hi \<and> list_all hex_char s"

definition non_empty :: "string \<Rightarrow> bool" where
  "non_empty s \<longleftrightarrow> s \<noteq> []"

definition opt_all :: "('a \<Rightarrow> bool) \<Rightarrow> 'a option \<Rightarrow> bool" where
  "opt_all p x = (case x of None \<Rightarrow> True | Some y \<Rightarrow> p y)"

lemma opt_all_simps [simp]: "opt_all p None" "opt_all p (Some y) \<longleftrightarrow> p y"
  by (simp_all add: opt_all_def)

definition in_range :: "int \<Rightarrow> int \<Rightarrow> int \<Rightarrow> bool" where
  "in_range lo hi n \<longleftrightarrow> lo \<le> n \<and> n \<le> hi"

lemmas pattern_defs =
  match_id_def match_hex_def lower_or_digit_def id_tail_char_def hex_char_def
  non_empty_def in_range_def opt_all_def

subsection \<open>Fallible computations\<close>

text \<open>
  Sequencing of code that may raise: \<open>bind_res\<close> passes the value on and stops at the first
  error; \<open>guard_res ok e\<close> is \<open>if not ok: raise e\<close>.
\<close>

definition bind_res :: "'e + 'a \<Rightarrow> ('a \<Rightarrow> 'e + 'b) \<Rightarrow> 'e + 'b" where
  "bind_res m f = (case m of Inl e \<Rightarrow> Inl e | Inr a \<Rightarrow> f a)"

definition guard_res :: "bool \<Rightarrow> 'e \<Rightarrow> 'e + unit" where
  "guard_res ok e = (if ok then Inr () else Inl e)"

fun map_res :: "('a \<Rightarrow> 'e + 'b) \<Rightarrow> 'a list \<Rightarrow> 'e + 'b list" where
  "map_res f [] = Inr []"
| "map_res f (x # xs) = bind_res (f x) (\<lambda>y. bind_res (map_res f xs) (\<lambda>ys. Inr (y # ys)))"

lemma bind_res_simps [simp]: "bind_res (Inl e) f = Inl e" "bind_res (Inr a) f = f a"
  by (simp_all add: bind_res_def)

lemma bind_res_Inr_iff: "bind_res m f = Inr b \<longleftrightarrow> (\<exists>a. m = Inr a \<and> f a = Inr b)"
  by (cases m) auto

lemma bind_res_Inl_iff:
  "bind_res m f = Inl e \<longleftrightarrow> m = Inl e \<or> (\<exists>a. m = Inr a \<and> f a = Inl e)"
  by (cases m) auto

lemma bind_res_cong [fundef_cong]:
  "m = m' \<Longrightarrow> (\<And>a. m' = Inr a \<Longrightarrow> f a = g a) \<Longrightarrow> bind_res m f = bind_res m' g"
  by (cases m') auto

lemma guard_res_Inr_iff [simp]: "guard_res ok e = Inr u \<longleftrightarrow> ok"
  by (auto simp: guard_res_def)

lemma guard_res_Inl_iff [simp]: "guard_res ok e = Inl e' \<longleftrightarrow> \<not> ok \<and> e' = e"
  by (auto simp: guard_res_def)

lemma bind_guard_simps [simp]:
  "bind_res (guard_res True e) f = f ()" "bind_res (guard_res False e) f = Inl e"
  by (simp_all add: guard_res_def)

lemma map_res_Inr_iff:
  "map_res f xs = Inr ys \<longleftrightarrow> list_all2 (\<lambda>x y. f x = Inr y) xs ys"
  by (induction xs arbitrary: ys) (auto simp: bind_res_Inr_iff list_all2_Cons1)

lemma map_res_member:
  "map_res f xs = Inr ys \<Longrightarrow> x \<in> set xs \<Longrightarrow> \<exists>y \<in> set ys. f x = Inr y"
  by (induction xs arbitrary: ys) (auto simp: bind_res_Inr_iff)

lemma map_res_all: "(\<And>x. x \<in> set xs \<Longrightarrow> f x = Inr (g x)) \<Longrightarrow> map_res f xs = Inr (map g xs)"
  by (induction xs) auto

lemmas res_iffs = bind_res_Inr_iff bind_res_Inl_iff

subsection \<open>Keyed tables\<close>

text \<open>
  A database table is the list of its rows in insertion order. \<open>row_of key k rows\<close> is the
  \<open>SELECT ... WHERE key = k\<close> of a primary-key lookup, \<open>put_row\<close> the \<open>UPDATE ... WHERE key = k\<close>
  that replaces the selected row.
\<close>

definition row_of :: "('r \<Rightarrow> 'k) \<Rightarrow> 'k \<Rightarrow> 'r list \<Rightarrow> 'r option" where
  "row_of key k rows = find (\<lambda>r. key r = k) rows"

definition put_row :: "('r \<Rightarrow> 'k) \<Rightarrow> 'k \<Rightarrow> 'r \<Rightarrow> 'r list \<Rightarrow> 'r list" where
  "put_row key k r' rows = map (\<lambda>r. if key r = k then r' else r) rows"

definition unique_key :: "('r \<Rightarrow> 'k) \<Rightarrow> 'r list \<Rightarrow> bool" where
  "unique_key key rows \<longleftrightarrow> distinct (map key rows)"

lemma row_of_Nil [simp]: "row_of key k [] = None"
  by (simp add: row_of_def)

lemma row_of_Cons [simp]:
  "row_of key k (r # rs) = (if key r = k then Some r else row_of key k rs)"
  by (simp add: row_of_def)

lemma row_of_append [simp]:
  "row_of key k (rs @ ss) = (case row_of key k rs of None \<Rightarrow> row_of key k ss | Some r \<Rightarrow> Some r)"
  by (induction rs) auto

lemma row_of_SomeD [dest]: "row_of key k rows = Some r \<Longrightarrow> r \<in> set rows \<and> key r = k"
  by (induction rows) (auto split: if_splits)

lemma row_of_None_iff: "row_of key k rows = None \<longleftrightarrow> k \<notin> key ` set rows"
  by (induction rows) auto

lemma unique_keyD:
  "unique_key key rows \<Longrightarrow> x \<in> set rows \<Longrightarrow> y \<in> set rows \<Longrightarrow> key x = key y \<Longrightarrow> x = y"
  by (auto simp: unique_key_def distinct_map dest: inj_onD)

lemma row_of_unique:
  "unique_key key rows \<Longrightarrow> r \<in> set rows \<Longrightarrow> row_of key (key r) rows = Some r"
  by (induction rows) (auto simp: unique_key_def rev_image_eqI)

lemma row_of_Some_iff:
  "unique_key key rows \<Longrightarrow> row_of key k rows = Some r \<longleftrightarrow> r \<in> set rows \<and> key r = k"
  using row_of_unique by fastforce

lemma put_row_keys [simp]: "key r' = k \<Longrightarrow> map key (put_row key k r' rows) = map key rows"
  by (induction rows) (auto simp: put_row_def)

lemma put_row_key_set [simp]: "key r' = k \<Longrightarrow> key ` set (put_row key k r' rows) = key ` set rows"
  by (metis list.set_map put_row_keys)

lemma unique_key_put_row [simp]:
  "key r' = k \<Longrightarrow> unique_key key (put_row key k r' rows) \<longleftrightarrow> unique_key key rows"
  by (simp add: unique_key_def)

lemma unique_key_append_one [simp]:
  "unique_key key (rows @ [r]) \<longleftrightarrow> unique_key key rows \<and> key r \<notin> key ` set rows"
  by (auto simp: unique_key_def)

lemma row_of_put_row [table_simps]:
  "key r' = k \<Longrightarrow>
   row_of key j (put_row key k r' rows) =
     (if j = k then map_option (\<lambda>_. r') (row_of key k rows) else row_of key j rows)"
  by (induction rows) (auto simp: put_row_def)

lemma set_put_row_subset: "set (put_row key k r' rows) \<subseteq> insert r' (set rows)"
  by (auto simp: put_row_def)

lemma in_set_put_row:
  "x \<in> set (put_row key k r' rows) \<longleftrightarrow>
     x \<in> set rows \<and> key x \<noteq> k \<or> x = r' \<and> k \<in> key ` set rows"
  by (auto simp: put_row_def image_iff)

lemma put_row_id: "row_of key k rows = Some r \<Longrightarrow> unique_key key rows \<Longrightarrow> put_row key k r rows = rows"
  by (induction rows) (auto simp: put_row_def unique_key_def image_iff intro!: map_idI split: if_splits)

lemma length_put_row [simp]: "length (put_row key k r rows) = length rows"
  by (simp add: put_row_def)

lemma list_all2_put_row:
  "(\<And>r. r \<in> set rows \<Longrightarrow> key r = k \<Longrightarrow> P r r') \<Longrightarrow> (\<And>r. P r r) \<Longrightarrow>
   list_all2 P rows (put_row key k r' rows)"
  by (induction rows) (auto simp: put_row_def)

lemma list_all2_member: "list_all2 P xs ys \<Longrightarrow> x \<in> set xs \<Longrightarrow> \<exists>y \<in> set ys. P x y"
  by (induction rule: list_all2_induct) auto

lemma list_all2_member2: "list_all2 P xs ys \<Longrightarrow> y \<in> set ys \<Longrightarrow> \<exists>x \<in> set xs. P x y"
  by (induction rule: list_all2_induct) auto

subsection \<open>Sorting and minimal elements\<close>

lemma find_Some_mem: "find P xs = Some x \<Longrightarrow> P x \<and> x \<in> set xs"
  by (induction xs) (auto split: if_splits)

lemma hd_sort_key_minimal:
  assumes "sort_key f xs = y # ys" and "x \<in> set xs"
  shows "f y \<le> f x"
proof -
  have "sorted (map f (y # ys))"
    using sorted_sort_key [of f xs] assms(1) by simp
  moreover have "x \<in> set (y # ys)"
    using assms by (metis set_sort)
  ultimately show ?thesis by auto
qed

lemma sort_key_perm_eq:
  assumes "mset xs = mset ys" and "inj_on f (set xs)"
  shows "sort_key f xs = sort_key f ys"
proof (rule properties_for_sort_key)
  show "mset (sort_key f ys) = mset xs" using assms(1) by simp
  show "sorted (map f (sort_key f ys))" by simp
  fix k assume "k \<in> set (sort_key f ys)"
  then have k: "k \<in> set xs"
    using mset_eq_setD [OF assms(1)] by simp
  have "filter (\<lambda>x. f k = f x) zs = replicate (count_list zs k) k"
    if "set zs \<subseteq> set xs" for zs
    using that
  proof (induction zs)
    case (Cons z zs)
    moreover have "f k = f z \<longleftrightarrow> z = k"
      using Cons.prems k assms(2) by (auto dest: inj_onD)
    ultimately show ?case by auto
  qed simp
  moreover have "set (sort_key f ys) \<subseteq> set xs"
    using mset_eq_setD [OF assms(1)] by simp
  moreover have "count_list (sort_key f ys) k = count_list xs k"
    using assms(1) by (metis count_mset mset_sort)
  ultimately show "filter (\<lambda>x. f k = f x) (sort_key f ys) = filter (\<lambda>x. f k = f x) xs"
    by simp
qed

lemma sum_list_filter_le:
  fixes f :: "'a \<Rightarrow> int"
  assumes "\<And>x. x \<in> set xs \<Longrightarrow> 0 \<le> f x"
  shows "sum_list (map f (filter p xs)) \<le> sum_list (map f xs)"
  using assms
proof (induction xs)
  case (Cons a xs)
  then have "0 \<le> f a" "sum_list (map f (filter p xs)) \<le> sum_list (map f xs)"
    by auto
  then show ?case by auto
qed simp

subsection \<open>Invariants of runs\<close>

text \<open>
  A component whose operations change a state and may fail: a run applies a list of operations;
  an operation that fails leaves the state as it was, as a rolled-back transaction does.
\<close>

fun run_ops :: "('op \<Rightarrow> 's \<Rightarrow> 's option) \<Rightarrow> 's \<Rightarrow> 'op list \<Rightarrow> 's" where
  "run_ops apply_op s [] = s"
| "run_ops apply_op s (op # ops) =
     run_ops apply_op (case apply_op op s of None \<Rightarrow> s | Some s' \<Rightarrow> s') ops"

fun ok_run :: "('op \<Rightarrow> 's \<Rightarrow> 's option) \<Rightarrow> ('s \<Rightarrow> 'op \<Rightarrow> bool) \<Rightarrow> 's \<Rightarrow> 'op list \<Rightarrow> bool" where
  "ok_run apply_op ok s [] = True"
| "ok_run apply_op ok s (op # ops) \<longleftrightarrow>
     ok s op \<and> ok_run apply_op ok (case apply_op op s of None \<Rightarrow> s | Some s' \<Rightarrow> s') ops"

text \<open>\<open>tuple(dict.fromkeys(xs))\<close>: the first occurrence of every entry, in order.\<close>

fun dict_fromkeys_loop :: "'a list \<Rightarrow> 'a list \<Rightarrow> 'a list" where
  "dict_fromkeys_loop seen [] = seen"
| "dict_fromkeys_loop seen (x # xs) = dict_fromkeys_loop (if x \<in> set seen then seen else seen @ [x]) xs"

definition dict_fromkeys :: "'a list \<Rightarrow> 'a list" where
  "dict_fromkeys xs = dict_fromkeys_loop [] xs"

definition res_to_option :: "'e + 'a \<Rightarrow> 'a option" where
  "res_to_option r = (case r of Inl _ \<Rightarrow> None | Inr a \<Rightarrow> Some a)"

lemma res_to_option_simps [simp]:
  "res_to_option (Inl e) = None" "res_to_option (Inr a) = Some a"
  "res_to_option r = Some a \<longleftrightarrow> r = Inr a"
  by (auto simp: res_to_option_def split: sum.splits)

lemma run_ops_append: "run_ops f s (xs @ ys) = run_ops f (run_ops f s xs) ys"
  by (induction xs arbitrary: s) auto

locale guarded_run =
  fixes apply_op :: "'op \<Rightarrow> 's \<Rightarrow> 's option"
    and ok :: "'s \<Rightarrow> 'op \<Rightarrow> bool"
    and inv :: "'s \<Rightarrow> bool"
  assumes step_inv: "inv s \<Longrightarrow> ok s op \<Longrightarrow> apply_op op s = Some s' \<Longrightarrow> inv s'"
begin

lemma run_inv: "inv s \<Longrightarrow> ok_run apply_op ok s ops \<Longrightarrow> inv (run_ops apply_op s ops)"
  by (induction ops arbitrary: s) (auto intro: step_inv split: option.splits)

lemma run_relation:
  assumes "\<And>s op s'. inv s \<Longrightarrow> ok s op \<Longrightarrow> apply_op op s = Some s' \<Longrightarrow> rel s s'"
    and "\<And>s. rel s s" and "\<And>a b c. rel a b \<Longrightarrow> rel b c \<Longrightarrow> rel a c"
  shows "inv s \<Longrightarrow> ok_run apply_op ok s ops \<Longrightarrow> rel s (run_ops apply_op s ops)"
proof (induction ops arbitrary: s)
  case Nil
  then show ?case by (simp add: assms(2))
next
  case (Cons op ops)
  show ?case
  proof (cases "apply_op op s")
    case None
    with Cons show ?thesis by simp
  next
    case (Some s')
    with Cons.prems have "rel s s'" "inv s'" by (auto intro: assms(1) step_inv)
    with Some Cons show ?thesis by (auto intro: assms(3))
  qed
qed

end

end
