(* ===== verification/Branch_Name.thy ===== *)
theory Branch_Name
  imports Ase_Prelude
begin

section \<open>Branch vocabulary\<close>

text \<open>
  \<^verbatim>\<open>domain/branch.py\<close>: the type \<open>BranchName\<close> (a length bound, a pattern and a validator that
  refuses identifiers and attempt numbers) and the names of successor branches. The regular
  expressions are modelled on the segments between \<open>-\<close> signs: the pattern admits only lower-case
  letters, digits and single hyphens, so both searches of \<^verbatim>\<open>_semantic_name\<close> match whole segments.
\<close>

fun split_on :: "char \<Rightarrow> string \<Rightarrow> string list" where
  "split_on c [] = [[]]"
| "split_on c (x # xs) =
     (if x = c then [] # split_on c xs
      else (case split_on c xs of [] \<Rightarrow> [[x]] | y # ys \<Rightarrow> (x # y) # ys))"

text \<open>Python's \<open>str.split(sep, maxsplit)\<close> for a one-character separator.\<close>

fun split_max :: "char \<Rightarrow> nat \<Rightarrow> string \<Rightarrow> string list" where
  "split_max c 0 s = [s]"
| "split_max c (Suc n) s =
     (case dropWhile (\<lambda>x. x \<noteq> c) s of
        [] \<Rightarrow> [s]
      | _ # rest \<Rightarrow> takeWhile (\<lambda>x. x \<noteq> c) s # split_max c n rest)"

definition slug_pattern :: "string \<Rightarrow> bool" where
  "slug_pattern slug \<longleftrightarrow>
     (let segs = split_on (CHR ''-'') slug in
      list_all (\<lambda>s. s \<noteq> [] \<and> list_all lower_or_digit s) segs \<and>
      (case segs of (c # _) # _ \<Rightarrow> CHR ''a'' \<le> c \<and> c \<le> CHR ''z'' | _ \<Rightarrow> False))"

definition branch_pattern :: "string \<Rightarrow> bool" where
  "branch_pattern v =
     (case split_max (CHR ''/'') 2 v of
        [ai, kind, slug] \<Rightarrow> ai = ''ai'' \<and> (kind = ''feature'' \<or> kind = ''bugfix'') \<and> slug_pattern slug
      | _ \<Rightarrow> False)"

definition digit_char :: "char \<Rightarrow> bool" where
  "digit_char c \<longleftrightarrow> CHR ''0'' \<le> c \<and> c \<le> CHR ''9''"

fun attempt_segment :: "string list \<Rightarrow> bool" where
  "attempt_segment (a # n # rest) \<longleftrightarrow>
     a = ''attempt'' \<and> n \<noteq> [] \<and> list_all digit_char n \<or> attempt_segment (n # rest)"
| "attempt_segment _ = False"

definition hash_segment :: "string list \<Rightarrow> bool" where
  "hash_segment segs = list_ex (\<lambda>s. 16 \<le> length s \<and> list_all hex_char s) segs"

definition semantic_name :: "string \<Rightarrow> bool" where
  "semantic_name v =
     (case split_max (CHR ''/'') 2 v of
        [_, _, slug] \<Rightarrow>
          (let segs = split_on (CHR ''-'') slug in \<not> attempt_segment segs \<and> \<not> hash_segment segs)
      | _ \<Rightarrow> False)"

definition valid_BranchName :: "string \<Rightarrow> bool" where
  "valid_BranchName v \<longleftrightarrow>
     11 \<le> length v \<and> length v \<le> 240 \<and> branch_pattern v \<and> semantic_name v"

subsection \<open>Successor names\<close>

datatype successor_purpose = Recovery | ReviewFixes | PrerequisiteRepair

fun purpose_text :: "successor_purpose \<Rightarrow> string" where
  "purpose_text Recovery = ''recovery''"
| "purpose_text ReviewFixes = ''review-fixes''"
| "purpose_text PrerequisiteRepair = ''prerequisite-repair''"

definition SUCCESSOR_SUFFIXES :: "string list" where
  "SUCCESSOR_SUFFIXES = [''recovery'', ''review-fixes'', ''prerequisite-repair'']"

text \<open>
  The expression \<open>(?:-(?:recovery|review-fixes|prerequisite-repair))+$\<close>: a text is matched by the
  repetition when it is a non-empty concatenation of hyphenated suffixes. \<open>sub\<close> removes the
  leftmost, longest such match that reaches the end.
\<close>

fun suffix_run :: "nat \<Rightarrow> string \<Rightarrow> bool" where
  "suffix_run 0 s = False"
| "suffix_run (Suc n) s =
     list_ex (\<lambda>p. take (length p + 1) s = CHR ''-'' # p \<and>
        (drop (length p + 1) s = [] \<or> suffix_run n (drop (length p + 1) s))) SUCCESSOR_SUFFIXES"

definition strip_successor_suffixes :: "string \<Rightarrow> string" where
  "strip_successor_suffixes slug =
     (case find (\<lambda>i. suffix_run (length slug) (drop i slug)) [0..<length slug] of
        None \<Rightarrow> slug
      | Some i \<Rightarrow> take i slug)"

definition successor_root :: "string \<Rightarrow> string" where
  "successor_root original =
     (case split_max (CHR ''/'') 2 original of
        [_, kind, slug] \<Rightarrow> ''ai/'' @ kind @ ''/'' @ strip_successor_suffixes slug
      | _ \<Rightarrow> original)"

text \<open>
  \<open>Inl ()\<close> is the \<open>ValidationError\<close> of the type adapter. The argument is a \<open>BranchName\<close>, so the
  split has three parts; the last case of \<open>successor_root\<close> is not reached.
\<close>

definition validate_branch :: "string \<Rightarrow> unit + string" where
  "validate_branch v = (if valid_BranchName v then Inr v else Inl ())"

definition successor_branch :: "string option \<Rightarrow> successor_purpose \<Rightarrow> unit + string option" where
  "successor_branch original purpose =
     (case original of
        None \<Rightarrow> Inr None
      | Some v \<Rightarrow>
          map_sum id Some (validate_branch (successor_root v @ ''-'' @ purpose_text purpose)))"

fun decimal :: "nat \<Rightarrow> string" where
  "decimal n = (if n < 10 then [char_of (48 + n)] else decimal (n div 10) @ [char_of (48 + n mod 10)])"

declare decimal.simps [simp del]

fun first_free :: "(string \<Rightarrow> bool) \<Rightarrow> string \<Rightarrow> nat list \<Rightarrow> unit + string option" where
  "first_free is_occupied base [] = Inl ()"
| "first_free is_occupied base (n # ns) =
     (case validate_branch (base @ ''-'' @ decimal n) of
        Inl e \<Rightarrow> Inl e
      | Inr candidate \<Rightarrow>
          if \<not> is_occupied candidate then Inr (Some candidate) else first_free is_occupied base ns)"

definition available_successor_branch ::
  "string option \<Rightarrow> successor_purpose \<Rightarrow> (string \<Rightarrow> bool) \<Rightarrow> unit + string option" where
  "available_successor_branch original purpose is_occupied =
     (case successor_branch original purpose of
        Inl e \<Rightarrow> Inl e
      | Inr None \<Rightarrow> Inr None
      | Inr (Some candidate) \<Rightarrow>
          if \<not> is_occupied candidate then Inr (Some candidate)
          else (case original of
              None \<Rightarrow> Inr None
            | Some v \<Rightarrow>
                first_free is_occupied (successor_root v @ ''-'' @ purpose_text purpose) [2..<1000]))"

end
