(* ===== verification/Domain_Enums.thy ===== *)
theory Domain_Enums
  imports Ase_Prelude
begin

section \<open>Canonical enumerations\<close>

text \<open>
  The string enumerations of \<^verbatim>\<open>domain/enums.py\<close> that the modelled components use, one datatype
  per class with the members in the order of the source. A constructor is the member name behind
  a two-letter tag of its class. Where the code goes through the member's string value, the value
  is given by a function (\<open>AgentRole_value\<close>, \<open>TeamRole_of_value\<close>).
\<close>

datatype TaskStatus =
    TS_NEW | TS_PLANNING | TS_IMPLEMENTING | TS_CONTINUE_REQUIRED | TS_QUEUED
  | TS_QA | TS_REVIEW | TS_DONE | TS_BLOCKED | TS_FAILED

datatype AgentRole = AR_ORCHESTRATOR | AR_CODER | AR_QA | AR_REVIEWER

datatype TeamRole =
    TR_MANAGER | TR_PRODUCT | TR_DESIGNER | TR_PLANNER | TR_CODER | TR_QA | TR_REVIEWER

datatype BrainTier = BT_ECONOMY | BT_STANDARD | BT_REASONING | BT_CRITICAL

datatype RiskTier = RT_LOW | RT_NORMAL | RT_HIGH | RT_CRITICAL

datatype WorkItemStatus =
    WI_READY | WI_LEASED | WI_RUNNING | WI_WAITING_HUMAN | WI_WAITING_DEPENDENCY
  | WI_RETRY_SCHEDULED | WI_CLOSED

datatype ModelRouteReason =
    MR_DEFAULT | MR_TASK_COMPLEXITY | MR_RISK_FLOOR | MR_ROLE_FLOOR | MR_CONTEXT_CAPACITY
  | MR_OBJECTIVE_ESCALATION | MR_BUDGET_CONSTRAINT | MR_OPERATOR_OVERRIDE

datatype ArtifactKind =
    AK_PLAN | AK_CODER_PROGRESS | AK_IMPLEMENTATION_REPORT | AK_QA_REPORT | AK_REVIEW_REPORT

datatype NetworkAccess = NW_NONE | NW_MODEL_ENDPOINT_ONLY | NW_ALLOWLIST

datatype EvidenceType = ET_TEST | ET_COMMAND | ET_DIFF | ET_FILE | ET_LOG | ET_METRIC

datatype FindingSeverity = FS_INFO | FS_MINOR | FS_MAJOR | FS_BLOCKER

datatype ChangeType = CT_ADDED | CT_MODIFIED | CT_DELETED | CT_RENAMED

datatype ImplementationTestStatus = IT_PASS | IT_FAIL | IT_NOT_RUN

datatype CoderProgressStatus = CP_CONTINUE_REQUIRED

datatype QaReportStatus = QR_PASS | QR_FAIL

datatype QaCriterionStatus = QC_PASS | QC_FAIL | QC_NOT_TESTED

datatype QaTestStatus = QT_PASS | QT_FAIL | QT_ERROR

datatype QaFailureDisposition = QD_REMEDIATE_CANDIDATE | QD_RETRY_VERIFICATION

datatype ReviewVerdict = RV_APPROVE | RV_REJECT

datatype ReviewDimension =
    RD_CORRECTNESS | RD_ACCEPTANCE | RD_REGRESSION | RD_SECURITY | RD_MAINTAINABILITY
  | RD_PERFORMANCE | RD_CONTRACT_CONSISTENCY

fun AgentRole_value :: "AgentRole \<Rightarrow> string" where
  "AgentRole_value AR_ORCHESTRATOR = ''orchestrator''"
| "AgentRole_value AR_CODER = ''coder''"
| "AgentRole_value AR_QA = ''qa''"
| "AgentRole_value AR_REVIEWER = ''reviewer''"

fun TeamRole_value :: "TeamRole \<Rightarrow> string" where
  "TeamRole_value TR_MANAGER = ''manager''"
| "TeamRole_value TR_PRODUCT = ''product''"
| "TeamRole_value TR_DESIGNER = ''designer''"
| "TeamRole_value TR_PLANNER = ''planner''"
| "TeamRole_value TR_CODER = ''coder''"
| "TeamRole_value TR_QA = ''qa''"
| "TeamRole_value TR_REVIEWER = ''reviewer''"

text \<open>The constructor call \<open>TeamRole(value)\<close>: \<open>None\<close> is its \<open>ValueError\<close>.\<close>

definition TeamRole_of_value :: "string \<Rightarrow> TeamRole option" where
  "TeamRole_of_value v =
     find (\<lambda>r. TeamRole_value r = v)
       [TR_MANAGER, TR_PRODUCT, TR_DESIGNER, TR_PLANNER, TR_CODER, TR_QA, TR_REVIEWER]"

lemma TeamRole_of_AgentRole [simp]:
  "TeamRole_of_value (AgentRole_value r) =
     (case r of AR_ORCHESTRATOR \<Rightarrow> None | AR_CODER \<Rightarrow> Some TR_CODER | AR_QA \<Rightarrow> Some TR_QA
      | AR_REVIEWER \<Rightarrow> Some TR_REVIEWER)"
  by (cases r) (simp_all add: TeamRole_of_value_def)

lemma TeamRole_of_delivery_role:
  "r \<noteq> AR_ORCHESTRATOR \<longleftrightarrow> (\<exists>tr. TeamRole_of_value (AgentRole_value r) = Some tr)"
  by (cases r) (simp_all add: TeamRole_of_value_def)

lemma TeamRole_roundtrip: "TeamRole_of_value (TeamRole_value r) = Some r"
  by (cases r) (simp_all add: TeamRole_of_value_def)

text \<open>The total order of risk tiers that the scheduler, the queue and the planning gate use.\<close>

fun risk_rank :: "RiskTier \<Rightarrow> int" where
  "risk_rank RT_LOW = 0"
| "risk_rank RT_NORMAL = 1"
| "risk_rank RT_HIGH = 2"
| "risk_rank RT_CRITICAL = 3"

lemma risk_rank_inj: "risk_rank a = risk_rank b \<longleftrightarrow> a = b"
  by (cases a; cases b) simp_all

end
