(* ===== verification/Retry_Policy.thy ===== *)
theory Retry_Policy
  imports Domain_Enums
begin

section \<open>Retry budgets and frozen engineering authority\<close>

text \<open>
  \<^verbatim>\<open>domain/retry_policy.py\<close> (work and transient budgets, execution windows),
  \<^verbatim>\<open>domain/continuation.py\<close> (the interruption-continuation authority) and the policy part of
  \<^verbatim>\<open>domain/engineering_authority.py\<close>. The lemmas at the end bound every budget.
\<close>

definition MAX_EXECUTION_ATTEMPTS :: int where
  "MAX_EXECUTION_ATTEMPTS = 400"

definition valid_ExecutionAttempt :: "int \<Rightarrow> bool" where
  "valid_ExecutionAttempt n = in_range 1 MAX_EXECUTION_ATTEMPTS n"

definition valid_ExecutionCount :: "int \<Rightarrow> bool" where
  "valid_ExecutionCount n = in_range 0 MAX_EXECUTION_ATTEMPTS n"

definition valid_RetryLimit :: "int \<Rightarrow> bool" where
  "valid_RetryLimit n = in_range 1 100 n"

datatype TransientCode = TC_TIMEOUT | TC_QUOTA_EXHAUSTED | TC_RATE_LIMITED | TC_PROVIDER_UNAVAILABLE

subsection \<open>Execution windows\<close>

record ExecutionTimePolicy =
  initial_seconds :: int
  max_seconds :: int
  max_capacity_timeouts :: int

definition valid_ExecutionTimePolicy :: "ExecutionTimePolicy \<Rightarrow> bool" where
  "valid_ExecutionTimePolicy p \<longleftrightarrow>
     in_range 1 86400 (initial_seconds p) \<and> in_range 1 86400 (max_seconds p) \<and>
     valid_RetryLimit (max_capacity_timeouts p) \<and> \<not> max_seconds p < initial_seconds p"

definition window :: "ExecutionTimePolicy \<Rightarrow> int \<Rightarrow> unit + int" where
  "window p capacity_timeouts =
     (if \<not> (0 \<le> capacity_timeouts \<and> capacity_timeouts < max_capacity_timeouts p) then Inl ()
      else Inr (min (initial_seconds p * 2 ^ nat capacity_timeouts) (max_seconds p)))"

subsection \<open>Delivery budgets\<close>

record TransientRetryPolicy =
  max_transient_failures :: int

definition valid_TransientRetryPolicy :: "TransientRetryPolicy \<Rightarrow> bool" where
  "valid_TransientRetryPolicy p = valid_RetryLimit (max_transient_failures p)"

record DeliveryRetryPolicy =
  max_work_attempts :: int
  drp_coder :: TransientRetryPolicy
  drp_qa :: TransientRetryPolicy
  drp_reviewer :: TransientRetryPolicy

definition valid_DeliveryRetryPolicy :: "DeliveryRetryPolicy \<Rightarrow> bool" where
  "valid_DeliveryRetryPolicy p \<longleftrightarrow>
     valid_RetryLimit (max_work_attempts p) \<and> valid_TransientRetryPolicy (drp_coder p) \<and>
     valid_TransientRetryPolicy (drp_qa p) \<and> valid_TransientRetryPolicy (drp_reviewer p)"

fun transient_limit :: "DeliveryRetryPolicy \<Rightarrow> AgentRole \<Rightarrow> unit + int" where
  "transient_limit p AR_ORCHESTRATOR = Inl ()"
| "transient_limit p AR_CODER = Inr (max_transient_failures (drp_coder p))"
| "transient_limit p AR_QA = Inr (max_transient_failures (drp_qa p))"
| "transient_limit p AR_REVIEWER = Inr (max_transient_failures (drp_reviewer p))"

text \<open>The three delivery roles, for which \<open>transient_limit\<close> is defined.\<close>

datatype DeliveryRole = DR_CODER | DR_QA | DR_REVIEWER

fun agent_role :: "DeliveryRole \<Rightarrow> AgentRole" where
  "agent_role DR_CODER = AR_CODER"
| "agent_role DR_QA = AR_QA"
| "agent_role DR_REVIEWER = AR_REVIEWER"

fun delivery_limit :: "DeliveryRetryPolicy \<Rightarrow> DeliveryRole \<Rightarrow> int" where
  "delivery_limit p DR_CODER = max_transient_failures (drp_coder p)"
| "delivery_limit p DR_QA = max_transient_failures (drp_qa p)"
| "delivery_limit p DR_REVIEWER = max_transient_failures (drp_reviewer p)"

lemma transient_limit_agent_role [simp]:
  "transient_limit p (agent_role r) = Inr (delivery_limit p r)"
  by (cases r) simp_all

definition execution_limit :: "DeliveryRetryPolicy \<Rightarrow> int" where
  "execution_limit p =
     max_work_attempts p + sum_list (map (delivery_limit p) [DR_CODER, DR_QA, DR_REVIEWER])"

record DeliveryRetryFailure =
  rf_role :: DeliveryRole
  rf_attempt :: int
  rf_code :: TransientCode
  rf_run_id :: "string option"

definition valid_RunId :: "string \<Rightarrow> bool" where
  "valid_RunId = match_id ''run_'' 2 63"

definition valid_DeliveryRetryFailure :: "DeliveryRetryFailure \<Rightarrow> bool" where
  "valid_DeliveryRetryFailure f \<longleftrightarrow>
     valid_ExecutionAttempt (rf_attempt f) \<and> opt_all valid_RunId (rf_run_id f)"

subsection \<open>Interruption continuation authority\<close>

datatype ContinuationVersion = CV_v1 | CV_v2

datatype ContinuationCapability = GitTextMutationInventoryV1 | GitRegularTextMutationInventoryV2

datatype ContinuationChange = TextAdded | TextModified | TextDeleted | RegularModeChanged

record InterruptionContinuationPolicy =
  icp_schema_version :: ContinuationVersion
  icp_capability_id :: ContinuationCapability
  icp_max_continuations :: int
  icp_allowed_changes :: "ContinuationChange list"

definition valid_InterruptionContinuationPolicy :: "InterruptionContinuationPolicy \<Rightarrow> bool" where
  "valid_InterruptionContinuationPolicy p \<longleftrightarrow>
     in_range 1 199 (icp_max_continuations p) \<and>
     (if icp_schema_version p = CV_v1 then
        \<not> (icp_capability_id p \<noteq> GitTextMutationInventoryV1 \<or> icp_max_continuations p \<noteq> 1 \<or>
           icp_allowed_changes p \<noteq> [TextAdded, TextModified])
      else
        \<not> (icp_capability_id p \<noteq> GitRegularTextMutationInventoryV2 \<or>
           icp_allowed_changes p \<noteq> [TextAdded, TextModified, TextDeleted, RegularModeChanged]))"

definition for_retry_budget :: "int \<Rightarrow> int \<Rightarrow> InterruptionContinuationPolicy option" where
  "for_retry_budget max_work max_coder_transient =
     (let p = \<lparr>icp_schema_version = CV_v2,
               icp_capability_id = GitRegularTextMutationInventoryV2,
               icp_max_continuations = max 1 (max_work + max_coder_transient - 1),
               icp_allowed_changes = [TextAdded, TextModified, TextDeleted, RegularModeChanged]\<rparr>
      in if valid_InterruptionContinuationPolicy p then Some p else None)"

subsection \<open>Engineering policy\<close>

datatype OperatorDuty = OD_PRODUCT | OD_ENGINEERING

datatype EngineeringCapability =
    EC_DELIVERY_WAIT_RESOLUTION | EC_VERIFICATION_REFRESH | EC_SWIFT_SANDBOX
  | EC_PYTHON_MYSQL_SANDBOX | EC_NATIVE_UI_SANDBOX | EC_IN_SCOPE_PREREQUISITE_REPAIR
  | EC_PRE_EXECUTION_REBIND | EC_EXECUTION_BASELINE_REBIND | EC_OWNED_MYSQL_CLEANUP

record LocalOperatorPrincipal =
  operator_id :: string
  duties :: "OperatorDuty list"

definition valid_LocalOperatorPrincipal :: "LocalOperatorPrincipal \<Rightarrow> bool" where
  "valid_LocalOperatorPrincipal p \<longleftrightarrow>
     non_empty (operator_id p) \<and> duties p \<noteq> [] \<and> ensure_unique (duties p)"

record EngineeringScope =
  es_team_id :: string
  es_project_id :: string
  es_repository_id :: string
  es_repository_root :: string

fun path_parts :: "string \<Rightarrow> string list" where
  "path_parts [] = []"
| "path_parts (c # cs) =
     (if c = CHR ''/'' then path_parts cs
      else (case cs of
              [] \<Rightarrow> [[c]]
            | d # _ \<Rightarrow>
                (if d = CHR ''/'' then [c] # path_parts cs
                 else (case path_parts cs of [] \<Rightarrow> [[c]] | p # ps \<Rightarrow> (c # p) # ps))))"

definition valid_EngineeringScope :: "EngineeringScope \<Rightarrow> bool" where
  "valid_EngineeringScope s \<longleftrightarrow>
     non_empty (es_team_id s) \<and> non_empty (es_project_id s) \<and> non_empty (es_repository_id s) \<and>
     non_empty (es_repository_root s) \<and>
     \<not> (take 1 (es_repository_root s) \<noteq> ''/'' \<or>
        ''..'' \<in> set (path_parts (es_repository_root s)) \<or>
        list_ex (\<lambda>c. of_char c < (32::nat)) (es_repository_root s))"

record EngineeringGrant =
  eg_capability :: EngineeringCapability
  eg_max_admissions :: int

record EngineeringPolicy =
  ep_policy_id :: string
  ep_policy_version :: int
  ep_scope :: EngineeringScope
  ep_issued_by :: LocalOperatorPrincipal
  ep_grants :: "EngineeringGrant list"
  ep_max_total_admissions :: int

definition require_duty :: "LocalOperatorPrincipal \<Rightarrow> OperatorDuty \<Rightarrow> bool" where
  "require_duty p duty \<longleftrightarrow> duty \<in> set (duties p)"

definition valid_EngineeringPolicy :: "EngineeringPolicy \<Rightarrow> bool" where
  "valid_EngineeringPolicy p \<longleftrightarrow>
     non_empty (ep_policy_id p) \<and> 1 \<le> ep_policy_version p \<and> valid_EngineeringScope (ep_scope p) \<and>
     valid_LocalOperatorPrincipal (ep_issued_by p) \<and> ep_grants p \<noteq> [] \<and>
     list_all (\<lambda>g. in_range 1 20 (eg_max_admissions g)) (ep_grants p) \<and>
     in_range 1 100 (ep_max_total_admissions p) \<and>
     require_duty (ep_issued_by p) OD_ENGINEERING \<and>
     ensure_unique (map eg_capability (ep_grants p))"

definition allowance :: "EngineeringPolicy \<Rightarrow> EngineeringCapability \<Rightarrow> int" where
  "allowance p capability =
     (case find (\<lambda>g. eg_capability g = capability) (ep_grants p) of
        None \<Rightarrow> 0
      | Some g \<Rightarrow> eg_max_admissions g)"

subsection \<open>Bounds of the budgets\<close>

lemma delivery_limit_bounds:
  "valid_DeliveryRetryPolicy p \<Longrightarrow> 1 \<le> delivery_limit p r \<and> delivery_limit p r \<le> 100"
  by (cases r) (simp_all add: valid_DeliveryRetryPolicy_def valid_TransientRetryPolicy_def
      valid_RetryLimit_def in_range_def)

lemma execution_limit_bounds:
  assumes "valid_DeliveryRetryPolicy p"
  shows "4 \<le> execution_limit p \<and> execution_limit p \<le> MAX_EXECUTION_ATTEMPTS"
proof -
  have "1 \<le> max_work_attempts p" "max_work_attempts p \<le> 100"
    using assms by (simp_all add: valid_DeliveryRetryPolicy_def valid_RetryLimit_def in_range_def)
  then show ?thesis
    using delivery_limit_bounds [OF assms, of DR_CODER] delivery_limit_bounds [OF assms, of DR_QA]
      delivery_limit_bounds [OF assms, of DR_REVIEWER]
    by (simp add: execution_limit_def MAX_EXECUTION_ATTEMPTS_def)
qed

text \<open>
  The widest continuation authority the constructor can be asked for: with both limits at most
  100, the number of continuations stays within the field's bound of 199.
\<close>

lemma for_retry_budget_total:
  "valid_RetryLimit w \<Longrightarrow> valid_RetryLimit c \<Longrightarrow> for_retry_budget w c \<noteq> None"
  by (auto simp: for_retry_budget_def Let_def valid_InterruptionContinuationPolicy_def
      valid_RetryLimit_def in_range_def)

lemma window_mono:
  assumes "valid_ExecutionTimePolicy p" and "window p i = Inr a" and "window p j = Inr b"
    and "i \<le> j"
  shows "a \<le> b"
proof -
  have ij: "0 \<le> i" "0 \<le> j" and a: "a = min (initial_seconds p * 2 ^ nat i) (max_seconds p)"
    and b: "b = min (initial_seconds p * 2 ^ nat j) (max_seconds p)"
    using assms(2,3) by (auto simp: window_def split: if_splits)
  have "(2::int) ^ nat i \<le> 2 ^ nat j"
    using assms(4) ij by (intro power_increasing) auto
  moreover have "0 \<le> initial_seconds p"
    using assms(1) by (simp add: valid_ExecutionTimePolicy_def in_range_def)
  ultimately show ?thesis
    unfolding a b by (meson min.mono mult_left_mono order_refl)
qed

lemma window_bounds:
  assumes "valid_ExecutionTimePolicy p" and "window p i = Inr s"
  shows "initial_seconds p \<le> s \<and> s \<le> max_seconds p"
proof -
  have s: "s = min (initial_seconds p * 2 ^ nat i) (max_seconds p)"
    using assms(2) by (auto simp: window_def split: if_splits)
  have le: "1 \<le> initial_seconds p" "initial_seconds p \<le> max_seconds p"
    using assms(1) by (simp_all add: valid_ExecutionTimePolicy_def in_range_def)
  have "initial_seconds p * 1 \<le> initial_seconds p * 2 ^ nat i"
    using le by (intro mult_left_mono) auto
  with s le show ?thesis by simp
qed

lemma allowance_bounds:
  assumes "valid_EngineeringPolicy p"
  shows "0 \<le> allowance p c \<and> allowance p c \<le> 20"
proof (cases "find (\<lambda>g. eg_capability g = c) (ep_grants p)")
  case None
  then show ?thesis by (simp add: allowance_def)
next
  case (Some g)
  then have "g \<in> set (ep_grants p)" by (auto simp: find_Some_iff)
  with assms Some show ?thesis
    by (auto simp: allowance_def valid_EngineeringPolicy_def list_all_iff in_range_def)
qed

end
