(* ===== verification/Domain_Task.thy ===== *)
theory Domain_Task
  imports Branch_Name Retry_Policy
begin

section \<open>The Task aggregate and its state events\<close>

text \<open>
  \<^verbatim>\<open>domain/task.py\<close> and \<^verbatim>\<open>domain/event.py\<close>: the Task record with its validators, the work and
  transient accounting, \<^verbatim>\<open>with_retry_failure\<close>, \<^verbatim>\<open>task_matches_dispatch\<close> and the state event.
\<close>

definition valid_TaskId :: "string \<Rightarrow> bool" where
  "valid_TaskId = match_id ''task_'' 2 63"

definition valid_AcceptanceCriterionId :: "string \<Rightarrow> bool" where
  "valid_AcceptanceCriterionId = match_id ''ac_'' 1 63"

definition valid_ArtifactId :: "string \<Rightarrow> bool" where
  "valid_ArtifactId = match_id ''art_'' 2 63"

definition valid_EventId :: "string \<Rightarrow> bool" where
  "valid_EventId = match_id ''evt_'' 2 63"

record AcceptanceCriterion =
  ac_id :: string
  ac_description :: string
  ac_required :: bool
  ac_verification :: string
  ac_test_ids :: "string list"

definition valid_AcceptanceCriterion :: "AcceptanceCriterion \<Rightarrow> bool" where
  "valid_AcceptanceCriterion c \<longleftrightarrow>
     valid_AcceptanceCriterionId (ac_id c) \<and> non_empty (ac_description c) \<and>
     non_empty (ac_verification c) \<and> list_all non_empty (ac_test_ids c) \<and>
     ensure_unique (ac_test_ids c)"

record TaskConstraints =
  tc_allowed_paths :: "string list"
  tc_denied_paths :: "string list"
  tc_allowed_commands :: "string list"
  tc_max_attempts :: "int option"
  tc_notes :: "string option"

definition valid_TaskConstraints :: "TaskConstraints \<Rightarrow> bool" where
  "valid_TaskConstraints c \<longleftrightarrow>
     list_all non_empty (tc_allowed_paths c) \<and> list_all non_empty (tc_denied_paths c) \<and>
     list_all non_empty (tc_allowed_commands c) \<and>
     opt_all valid_ExecutionAttempt (tc_max_attempts c) \<and> opt_all non_empty (tc_notes c) \<and>
     ensure_unique (tc_allowed_paths c) \<and> ensure_unique (tc_denied_paths c) \<and>
     ensure_unique (tc_allowed_commands c)"

record Task =
  t_id :: string
  t_title :: string
  t_description :: string
  t_repository :: string
  t_base_ref :: string
  t_branch_name :: "string option"
  t_acceptance_criteria :: "AcceptanceCriterion list"
  t_constraints :: "TaskConstraints option"
  t_status :: TaskStatus
  t_max_attempts :: int
  t_attempts :: int
  t_owner :: "string option"
  t_labels :: "string list"
  t_created_at :: instant
  t_updated_at :: instant
  t_metadata :: "(string \<times> json_value) list"
  t_retry_policy :: "DeliveryRetryPolicy option"
  t_retry_failures :: "DeliveryRetryFailure list option"
  t_interruption_continuation_policy :: "InterruptionContinuationPolicy option"
  t_engineering_policy :: "EngineeringPolicy option"

definition failures :: "Task \<Rightarrow> DeliveryRetryFailure list" where
  "failures t = (case t_retry_failures t of None \<Rightarrow> [] | Some fs \<Rightarrow> fs)"

definition transient_failures :: "Task \<Rightarrow> AgentRole \<Rightarrow> int" where
  "transient_failures t role =
     int (length (filter (\<lambda>f. agent_role (rf_role f) = role) (failures t)))"

definition work_attempt :: "Task \<Rightarrow> int" where
  "work_attempt t =
     t_attempts t - int (length (filter (\<lambda>f. rf_attempt f < t_attempts t) (failures t)))"

definition work_budget_exhausted :: "Task \<Rightarrow> bool" where
  "work_budget_exhausted t =
     (let limit = (case t_retry_policy t of
                     Some p \<Rightarrow> max_work_attempts p
                   | None \<Rightarrow> t_max_attempts t)
      in limit \<le> work_attempt t)"

text \<open>The validator of the aggregate, check by check in the order of the source.\<close>

definition validate_task_invariants :: "Task \<Rightarrow> bool" where
  "validate_task_invariants t \<longleftrightarrow>
     ensure_unique (map ac_id (t_acceptance_criteria t)) \<and>
     ensure_unique (t_labels t) \<and>
     (case t_engineering_policy t of
        None \<Rightarrow> True
      | Some ep \<Rightarrow> es_repository_root (ep_scope ep) = t_repository t) \<and>
     \<not> t_max_attempts t < t_attempts t \<and>
     (case t_retry_policy t of
        None \<Rightarrow> True
      | Some rp \<Rightarrow> t_max_attempts t = execution_limit rp) \<and>
     (case t_interruption_continuation_policy t of
        None \<Rightarrow> True
      | Some cp \<Rightarrow>
          icp_schema_version cp = CV_v2 \<longrightarrow>
          (case t_retry_policy t of
             None \<Rightarrow> False
           | Some rp \<Rightarrow>
               \<not> max 1 (max_work_attempts rp + delivery_limit rp DR_CODER - 1)
                  < icp_max_continuations cp)) \<and>
     (case t_retry_failures t of
        None \<Rightarrow> True
      | Some fs \<Rightarrow>
          (case t_retry_policy t of
             None \<Rightarrow> False
           | Some rp \<Rightarrow>
               ensure_unique (map rf_attempt fs) \<and>
               \<not> list_ex (\<lambda>f. t_attempts t < rf_attempt f) fs \<and>
               list_all (\<lambda>r. \<not> delivery_limit rp r < transient_failures t (agent_role r))
                 [DR_CODER, DR_QA, DR_REVIEWER])) \<and>
     (case t_constraints t of
        None \<Rightarrow> True
      | Some c \<Rightarrow>
          (case tc_max_attempts c of None \<Rightarrow> True | Some m \<Rightarrow> m = t_max_attempts t)) \<and>
     \<not> t_updated_at t < t_created_at t"

definition valid_Task :: "Task \<Rightarrow> bool" where
  "valid_Task t \<longleftrightarrow>
     valid_TaskId (t_id t) \<and> 1 \<le> length (t_title t) \<and> length (t_title t) \<le> 200 \<and>
     non_empty (t_description t) \<and> non_empty (t_repository t) \<and> non_empty (t_base_ref t) \<and>
     opt_all valid_BranchName (t_branch_name t) \<and>
     t_acceptance_criteria t \<noteq> [] \<and> list_all valid_AcceptanceCriterion (t_acceptance_criteria t) \<and>
     opt_all valid_TaskConstraints (t_constraints t) \<and>
     valid_ExecutionAttempt (t_max_attempts t) \<and> valid_ExecutionCount (t_attempts t) \<and>
     opt_all non_empty (t_owner t) \<and> list_all non_empty (t_labels t) \<and>
     opt_all valid_DeliveryRetryPolicy (t_retry_policy t) \<and>
     opt_all (list_all valid_DeliveryRetryFailure) (t_retry_failures t) \<and>
     opt_all valid_InterruptionContinuationPolicy (t_interruption_continuation_policy t) \<and>
     opt_all valid_EngineeringPolicy (t_engineering_policy t) \<and>
     validate_task_invariants t"

subsection \<open>Recording a transient failure\<close>

fun expected_status :: "DeliveryRole \<Rightarrow> TaskStatus" where
  "expected_status DR_CODER = TS_IMPLEMENTING"
| "expected_status DR_QA = TS_QA"
| "expected_status DR_REVIEWER = TS_REVIEW"

text \<open>The payload that is validated: the fact appended and the next identity reserved.\<close>

definition append_retry_failure :: "Task \<Rightarrow> DeliveryRetryFailure \<Rightarrow> int \<Rightarrow> int \<Rightarrow> Task" where
  "append_retry_failure t f cnt limit =
     t\<lparr>t_retry_failures := Some (failures t @ [f]),
       t_attempts := t_attempts t +
         (if cnt < limit \<and> t_attempts t < t_max_attempts t then 1 else 0)\<rparr>"

text \<open>\<open>Inl ()\<close> is the \<open>ValueError\<close> (a \<open>ValidationError\<close> is one) that the method raises.\<close>

definition with_retry_failure :: "Task \<Rightarrow> DeliveryRetryFailure \<Rightarrow> unit + Task" where
  "with_retry_failure t f =
     (case find (\<lambda>prior. rf_attempt prior = rf_attempt f) (failures t) of
        Some prior \<Rightarrow> if prior = f then Inr t else Inl ()
      | None \<Rightarrow>
          (case t_retry_policy t of
             None \<Rightarrow> Inl ()
           | Some rp \<Rightarrow>
               if t_status t \<noteq> expected_status (rf_role f) \<or> rf_attempt f \<noteq> t_attempts t then Inl ()
               else
                 (let cnt = transient_failures t (agent_role (rf_role f)) + 1;
                      limit = delivery_limit rp (rf_role f)
                  in if limit < cnt then Inl ()
                     else
                       (let t' = append_retry_failure t f cnt limit
                        in if valid_Task t' then Inr t' else Inl ()))))"

subsection \<open>Frozen intent\<close>

definition task_matches_dispatch :: "Task \<Rightarrow> Task \<Rightarrow> bool \<Rightarrow> bool" where
  "task_matches_dispatch current dispatched allow_legacy_retry_policy \<longleftrightarrow>
     t_id current = t_id dispatched \<and> t_title current = t_title dispatched \<and>
     t_description current = t_description dispatched \<and>
     t_repository current = t_repository dispatched \<and> t_base_ref current = t_base_ref dispatched \<and>
     t_branch_name current = t_branch_name dispatched \<and>
     t_acceptance_criteria current = t_acceptance_criteria dispatched \<and>
     t_constraints current = t_constraints dispatched \<and>
     t_max_attempts current = t_max_attempts dispatched \<and> t_owner current = t_owner dispatched \<and>
     t_labels current = t_labels dispatched \<and> t_created_at current = t_created_at dispatched \<and>
     t_metadata current = t_metadata dispatched \<and>
     (if allow_legacy_retry_policy \<and> t_retry_policy dispatched = None then True
      else t_retry_policy current = t_retry_policy dispatched) \<and>
     t_interruption_continuation_policy current = t_interruption_continuation_policy dispatched \<and>
     t_engineering_policy current = t_engineering_policy dispatched"

subsection \<open>State events\<close>

record StateEvent =
  ev_event_id :: string
  ev_task_id :: string
  ev_from_status :: TaskStatus
  ev_to_status :: TaskStatus
  ev_actor :: AgentRole
  ev_attempt :: int
  ev_reason :: string
  ev_artifact_ids :: "string list"
  ev_source_revision :: string
  ev_occurred_at :: instant

definition valid_StateEvent :: "StateEvent \<Rightarrow> bool" where
  "valid_StateEvent e \<longleftrightarrow>
     valid_EventId (ev_event_id e) \<and> valid_TaskId (ev_task_id e) \<and>
     ev_actor e = AR_ORCHESTRATOR \<and> valid_ExecutionAttempt (ev_attempt e) \<and>
     non_empty (ev_reason e) \<and> list_all valid_ArtifactId (ev_artifact_ids e) \<and>
     non_empty (ev_source_revision e) \<and> ensure_unique (ev_artifact_ids e)"

subsection \<open>Lemmas\<close>

lemma valid_Task_attempts:
  assumes "valid_Task t"
  shows "0 \<le> t_attempts t" "t_attempts t \<le> t_max_attempts t" "1 \<le> t_max_attempts t"
    "t_max_attempts t \<le> MAX_EXECUTION_ATTEMPTS"
  using assms by (auto simp: valid_Task_def validate_task_invariants_def valid_ExecutionAttempt_def
      valid_ExecutionCount_def in_range_def)

lemma valid_Task_times: "valid_Task t \<Longrightarrow> t_created_at t \<le> t_updated_at t"
  by (simp add: valid_Task_def validate_task_invariants_def)

lemma failures_update [simp]:
  "failures (t\<lparr>t_status := s\<rparr>) = failures t"
  "failures (t\<lparr>t_updated_at := u\<rparr>) = failures t"
  "failures (t\<lparr>t_attempts := a\<rparr>) = failures t"
  by (simp_all add: failures_def)

lemma transient_failures_update [simp]:
  "transient_failures (t\<lparr>t_status := s\<rparr>) r = transient_failures t r"
  "transient_failures (t\<lparr>t_updated_at := u\<rparr>) r = transient_failures t r"
  "transient_failures (t\<lparr>t_attempts := a\<rparr>) r = transient_failures t r"
  by (simp_all add: transient_failures_def)

lemma valid_Task_advance:
  "valid_Task t \<Longrightarrow> t_created_at t \<le> u \<Longrightarrow> valid_Task (t\<lparr>t_status := s, t_updated_at := u\<rparr>)"
  unfolding valid_Task_def validate_task_invariants_def
  by (simp cong: option.case_cong)

lemma valid_Task_record_attempt:
  assumes "valid_Task t" and "t_attempts t \<le> a" and "a \<le> t_max_attempts t"
  shows "valid_Task (t\<lparr>t_attempts := a\<rparr>)"
proof -
  have "\<not> list_ex (\<lambda>f. a < rf_attempt f) fs"
    if "\<not> list_ex (\<lambda>f. t_attempts t < rf_attempt f) fs" for fs
    using that assms(2) by (fastforce simp: list_ex_iff)
  moreover have "valid_ExecutionCount a"
    using assms valid_Task_attempts [OF assms(1)]
    by (simp add: valid_ExecutionCount_def in_range_def)
  ultimately show ?thesis
    using assms unfolding valid_Task_def validate_task_invariants_def
    by (auto split: option.splits)
qed

lemma with_retry_failure_cases:
  assumes "with_retry_failure t f = Inr t'"
  obtains (replay) "t' = t" "f \<in> set (failures t)"
  | (fresh) rp where "t_retry_policy t = Some rp" "t_status t = expected_status (rf_role f)"
      "rf_attempt f = t_attempts t" "rf_attempt f \<notin> rf_attempt ` set (failures t)"
      "transient_failures t (agent_role (rf_role f)) + 1 \<le> delivery_limit rp (rf_role f)"
      "t' = append_retry_failure t f (transient_failures t (agent_role (rf_role f)) + 1)
              (delivery_limit rp (rf_role f))"
      "valid_Task t'"
proof (cases "find (\<lambda>prior. rf_attempt prior = rf_attempt f) (failures t)")
  case None
  then have notin: "rf_attempt f \<notin> rf_attempt ` set (failures t)"
    by (auto simp: find_None_iff)
  obtain rp where rp: "t_retry_policy t = Some rp"
    using None assms by (auto simp: with_retry_failure_def split: option.splits)
  from assms None rp notin show thesis
    by (intro fresh [OF rp]) (auto simp: with_retry_failure_def Let_def split: if_splits)
next
  case (Some prior)
  with assms have "prior = f" "t' = t"
    by (auto simp: with_retry_failure_def split: if_splits)
  moreover have "prior \<in> set (failures t)"
    using Some by (auto simp: find_Some_iff)
  ultimately show thesis by (auto intro: replay)
qed

lemma with_retry_failure_valid:
  "valid_Task t \<Longrightarrow> with_retry_failure t f = Inr t' \<Longrightarrow> valid_Task t'"
  by (erule with_retry_failure_cases) auto

lemma with_retry_failure_frozen:
  "with_retry_failure t f = Inr t' \<Longrightarrow> task_matches_dispatch t' t legacy"
  by (erule with_retry_failure_cases) (auto simp: task_matches_dispatch_def append_retry_failure_def)

lemma task_matches_dispatch_refl [simp]: "task_matches_dispatch t t legacy"
  by (simp add: task_matches_dispatch_def)

lemma task_matches_dispatch_trans:
  "task_matches_dispatch a b False \<Longrightarrow> task_matches_dispatch b c False \<Longrightarrow>
   task_matches_dispatch a c False"
  by (simp add: task_matches_dispatch_def)

end
