(* ===== verification/Disposition.thy ===== *)
theory Disposition
  imports Domain_Enums
begin

section \<open>Delivery dispositions\<close>

text \<open>
  \<^verbatim>\<open>domain/delivery_disposition.py\<close>: the failure facts, the disposition record with its validators
  and the decision table \<^verbatim>\<open>decide_delivery_disposition\<close>. The digest of the canonical JSON of the
  facts (\<^verbatim>\<open>_digest\<close>, SHA-256) is the parameter \<open>facts_sha256\<close>. The explanatory texts are named by
  the branch that writes them; any other text is \<open>OtherText\<close>.
\<close>

datatype DeliveryResponsibility = RES_PRODUCT | RES_TEAM | RES_ENGINEERING

datatype DeliveryNextAction =
    NA_RETRY | NA_REMEDIATE_CANDIDATE | NA_REQUEST_PRODUCT_DECISION
  | NA_REQUEST_ENGINEERING_AUTHORIZATION | NA_WAIT_DEPENDENCY | NA_INVESTIGATE_EXECUTION
  | NA_RESUME_EXECUTION_BASELINE | NA_TERMINATE

datatype FailureClassification =
    FC_TRANSIENT_INFRA | FC_NONTRANSIENT_INFRA | FC_INVALID_OUTPUT | FC_QA_FINDING
  | FC_VERIFICATION_INCONCLUSIVE | FC_REVIEW_FINDING | FC_POLICY_VIOLATION
  | FC_REQUIREMENT_AMBIGUITY | FC_BUDGET_EXHAUSTED | FC_CONTEXT_CAPACITY | FC_PLATFORM_BUG
  | FC_EXECUTION_UNCERTAIN | FC_ENVIRONMENT_UNAVAILABLE | FC_ENGINEERING_AUTHORIZATION
  | FC_SOURCE_PREPARATION_DRIFT | FC_EXECUTION_BASELINE_PAUSED | FC_KNOWLEDGE_PREPARATION_LIMIT
  | FC_SERVICE_PAUSED

datatype ResumeCondition =
    RC_fresh_role_claim | RC_product_resolution | RC_engineering_authorization
  | RC_verified_prerequisites | RC_verified_execution_resolution
  | RC_explicit_baseline_continuation | RC_none

record DeliveryFailureFacts =
  ff_task_id :: string
  ff_work_item_id :: "string option"
  ff_role :: AgentRole
  ff_classification :: FailureClassification
  ff_source_revision :: string
  ff_task_intent_sha256 :: string
  ff_checkpoint_sequence :: int
  ff_budget_available :: bool
  ff_retry_authorized :: bool
  ff_evidence_ids :: "string list"
  ff_execution_baseline_sha256 :: "string option"

definition valid_DeliveryFailureFacts :: "DeliveryFailureFacts \<Rightarrow> bool" where
  "valid_DeliveryFailureFacts f \<longleftrightarrow>
     non_empty (ff_task_id f) \<and> opt_all non_empty (ff_work_item_id f) \<and>
     non_empty (ff_source_revision f) \<and> match_hex 64 64 (ff_task_intent_sha256 f) \<and>
     0 \<le> ff_checkpoint_sequence f \<and> list_all non_empty (ff_evidence_ids f) \<and>
     opt_all (match_hex 64 64) (ff_execution_baseline_sha256 f) \<and>
     (ff_classification f = FC_EXECUTION_BASELINE_PAUSED \<longleftrightarrow> ff_execution_baseline_sha256 f \<noteq> None) \<and>
     \<not> (ff_classification f = FC_EXECUTION_BASELINE_PAUSED \<and>
        (ff_role f \<noteq> AR_CODER \<or> ff_work_item_id f = None \<or> ff_retry_authorized f))"

datatype disposition_branch =
    B_PREREQUISITES | B_SERVICE_PAUSED | B_BASELINE_PAUSED | B_POLICY | B_CONTEXT
  | B_KNOWLEDGE_REJECTED | B_BUDGET | B_AMBIGUITY | B_TRANSIENT | B_FINDING | B_KNOWLEDGE_LIMIT
  | B_NONTRANSIENT | B_UNSAFE_RESULT | B_AUTHORIZATION

datatype disposition_text = ReasonText disposition_branch | NextText disposition_branch | OtherText string

fun text_non_empty :: "disposition_text \<Rightarrow> bool" where
  "text_non_empty (OtherText s) \<longleftrightarrow> s \<noteq> []"
| "text_non_empty (ReasonText b) = True"
| "text_non_empty (NextText b) = True"

record DeliveryDisposition =
  dd_facts :: DeliveryFailureFacts
  dd_source_facts_sha256 :: string
  dd_responsibility :: DeliveryResponsibility
  dd_action :: DeliveryNextAction
  dd_reason :: disposition_text
  dd_next_action :: disposition_text
  dd_detail :: "string option"
  dd_resume_condition :: ResumeCondition

definition validate_facts_binding :: "(DeliveryFailureFacts \<Rightarrow> string) \<Rightarrow> DeliveryDisposition \<Rightarrow> bool" where
  "validate_facts_binding facts_sha256 d \<longleftrightarrow>
     dd_source_facts_sha256 d = facts_sha256 (dd_facts d) \<and>
     \<not> (dd_action d = NA_TERMINATE \<and> dd_resume_condition d \<noteq> RC_none) \<and>
     \<not> (dd_action d = NA_REQUEST_PRODUCT_DECISION \<and> dd_responsibility d \<noteq> RES_PRODUCT) \<and>
     \<not> (ff_classification (dd_facts d) = FC_EXECUTION_BASELINE_PAUSED \<and>
        (dd_action d \<noteq> NA_RESUME_EXECUTION_BASELINE \<or> dd_responsibility d \<noteq> RES_ENGINEERING \<or>
         dd_resume_condition d \<noteq> RC_explicit_baseline_continuation)) \<and>
     \<not> (ff_classification (dd_facts d) \<noteq> FC_EXECUTION_BASELINE_PAUSED \<and>
        (dd_action d = NA_RESUME_EXECUTION_BASELINE \<or>
         dd_resume_condition d = RC_explicit_baseline_continuation))"

definition valid_DeliveryDisposition ::
  "(DeliveryFailureFacts \<Rightarrow> string) \<Rightarrow> DeliveryDisposition \<Rightarrow> bool" where
  "valid_DeliveryDisposition facts_sha256 d \<longleftrightarrow>
     valid_DeliveryFailureFacts (dd_facts d) \<and> match_hex 64 64 (dd_source_facts_sha256 d) \<and>
     text_non_empty (dd_reason d) \<and> text_non_empty (dd_next_action d) \<and>
     opt_all non_empty (dd_detail d) \<and> validate_facts_binding facts_sha256 d"

subsection \<open>The decision table\<close>

definition knowledge_rejection_prefix :: string where
  "knowledge_rejection_prefix = ''knowledge-assessment-rejection://''"

definition starts_with :: "string \<Rightarrow> string \<Rightarrow> bool" where
  "starts_with p s \<longleftrightarrow> take (length p) s = p"

definition single_knowledge_rejection :: "DeliveryFailureFacts \<Rightarrow> bool" where
  "single_knowledge_rejection f \<longleftrightarrow>
     (case ff_evidence_ids f of
        [e] \<Rightarrow> starts_with knowledge_rejection_prefix e
      | _ \<Rightarrow> False)"

definition disposition_row ::
  "DeliveryFailureFacts \<Rightarrow>
   disposition_branch \<times> DeliveryResponsibility \<times> DeliveryNextAction \<times> ResumeCondition" where
  "disposition_row f =
     (let code = ff_classification f in
      if code = FC_SERVICE_PAUSED then
        (B_SERVICE_PAUSED, RES_ENGINEERING, NA_INVESTIGATE_EXECUTION, RC_verified_execution_resolution)
      else if code = FC_EXECUTION_BASELINE_PAUSED then
        (B_BASELINE_PAUSED, RES_ENGINEERING, NA_RESUME_EXECUTION_BASELINE,
         RC_explicit_baseline_continuation)
      else if code = FC_POLICY_VIOLATION then
        (B_POLICY, RES_ENGINEERING, NA_TERMINATE, RC_none)
      else if code = FC_CONTEXT_CAPACITY then
        (B_CONTEXT, RES_ENGINEERING, NA_WAIT_DEPENDENCY, RC_verified_prerequisites)
      else if code = FC_INVALID_OUTPUT \<and> single_knowledge_rejection f then
        (B_KNOWLEDGE_REJECTED, RES_ENGINEERING, NA_INVESTIGATE_EXECUTION,
         RC_verified_execution_resolution)
      else if code = FC_BUDGET_EXHAUSTED \<or>
          \<not> ff_budget_available f \<and>
          code \<in> {FC_TRANSIENT_INFRA, FC_NONTRANSIENT_INFRA, FC_QA_FINDING, FC_REVIEW_FINDING,
                   FC_INVALID_OUTPUT} then
        (B_BUDGET, RES_ENGINEERING, NA_TERMINATE, RC_none)
      else if code = FC_REQUIREMENT_AMBIGUITY then
        (B_AMBIGUITY, RES_PRODUCT, NA_REQUEST_PRODUCT_DECISION, RC_product_resolution)
      else if code = FC_TRANSIENT_INFRA \<and> ff_retry_authorized f then
        (B_TRANSIENT, RES_TEAM, NA_RETRY, RC_fresh_role_claim)
      else if code \<in> {FC_QA_FINDING, FC_REVIEW_FINDING} \<and> ff_retry_authorized f then
        (B_FINDING, RES_TEAM, NA_REMEDIATE_CANDIDATE, RC_fresh_role_claim)
      else if code = FC_KNOWLEDGE_PREPARATION_LIMIT then
        (B_KNOWLEDGE_LIMIT, RES_ENGINEERING, NA_INVESTIGATE_EXECUTION,
         RC_verified_execution_resolution)
      else if code = FC_NONTRANSIENT_INFRA then
        (B_NONTRANSIENT, RES_ENGINEERING, NA_INVESTIGATE_EXECUTION, RC_verified_execution_resolution)
      else if code \<in> {FC_EXECUTION_UNCERTAIN, FC_PLATFORM_BUG, FC_INVALID_OUTPUT} then
        (B_UNSAFE_RESULT, RES_ENGINEERING, NA_INVESTIGATE_EXECUTION,
         RC_verified_execution_resolution)
      else if code \<in> {FC_ENGINEERING_AUTHORIZATION, FC_SOURCE_PREPARATION_DRIFT} then
        (B_AUTHORIZATION, RES_ENGINEERING, NA_REQUEST_ENGINEERING_AUTHORIZATION,
         RC_engineering_authorization)
      else (B_PREREQUISITES, RES_ENGINEERING, NA_WAIT_DEPENDENCY, RC_verified_prerequisites))"

text \<open>\<open>Inl ()\<close> is the \<open>ValidationError\<close> of the final construction.\<close>

definition decide_delivery_disposition ::
  "(DeliveryFailureFacts \<Rightarrow> string) \<Rightarrow> DeliveryFailureFacts \<Rightarrow> unit + DeliveryDisposition" where
  "decide_delivery_disposition facts_sha256 f =
     (case disposition_row f of
        (b, responsibility, action, condition) \<Rightarrow>
          (let d = \<lparr>dd_facts = f, dd_source_facts_sha256 = facts_sha256 f,
                    dd_responsibility = responsibility, dd_action = action,
                    dd_reason = ReasonText b, dd_next_action = NextText b, dd_detail = None,
                    dd_resume_condition = condition\<rparr>
           in if valid_DeliveryDisposition facts_sha256 d then Inr d else Inl ()))"

lemma disposition_row_shape:
  assumes "disposition_row f = (b, r, a, c)"
  shows "a = NA_TERMINATE \<longleftrightarrow> c = RC_none"
    "a = NA_REQUEST_PRODUCT_DECISION \<longleftrightarrow> r = RES_PRODUCT"
    "a = NA_RESUME_EXECUTION_BASELINE \<longleftrightarrow> ff_classification f = FC_EXECUTION_BASELINE_PAUSED"
    "c = RC_explicit_baseline_continuation \<longleftrightarrow> a = NA_RESUME_EXECUTION_BASELINE"
    "a = NA_RESUME_EXECUTION_BASELINE \<Longrightarrow> r = RES_ENGINEERING"
    "r = RES_TEAM \<longleftrightarrow> c = RC_fresh_role_claim"
  using assms unfolding disposition_row_def Let_def by (auto split: if_splits)

lemma disposition_row_actions:
  assumes "disposition_row f = (b, r, a, c)"
  shows "a = NA_RETRY \<longleftrightarrow>
      ff_classification f = FC_TRANSIENT_INFRA \<and> ff_budget_available f \<and> ff_retry_authorized f"
    "a = NA_REMEDIATE_CANDIDATE \<longleftrightarrow>
      ff_classification f \<in> {FC_QA_FINDING, FC_REVIEW_FINDING} \<and> ff_budget_available f \<and> ff_retry_authorized f"
    "r = RES_TEAM \<longleftrightarrow> a \<in> {NA_RETRY, NA_REMEDIATE_CANDIDATE}"
    "a = NA_REQUEST_PRODUCT_DECISION \<longleftrightarrow> ff_classification f = FC_REQUIREMENT_AMBIGUITY"
    "a = NA_TERMINATE \<longleftrightarrow>
      ff_classification f \<in> {FC_POLICY_VIOLATION, FC_BUDGET_EXHAUSTED} \<or>
      \<not> ff_budget_available f \<and>
        (ff_classification f \<in> {FC_TRANSIENT_INFRA, FC_NONTRANSIENT_INFRA, FC_QA_FINDING, FC_REVIEW_FINDING} \<or>
         ff_classification f = FC_INVALID_OUTPUT \<and> \<not> single_knowledge_rejection f)"
    "a = NA_REQUEST_ENGINEERING_AUTHORIZATION \<longleftrightarrow>
      ff_classification f \<in> {FC_ENGINEERING_AUTHORIZATION, FC_SOURCE_PREPARATION_DRIFT}"
  using assms unfolding disposition_row_def Let_def by (auto split: if_splits)

lemma decide_Inr_iff:
  assumes "valid_DeliveryFailureFacts f" and "match_hex 64 64 (facts_sha256 f)"
  shows "\<exists>d. decide_delivery_disposition facts_sha256 f = Inr d \<and> dd_facts d = f \<and>
     valid_DeliveryDisposition facts_sha256 d \<and>
     (\<exists>b. disposition_row f = (b, dd_responsibility d, dd_action d, dd_resume_condition d))"
proof -
  obtain b r a c where row: "disposition_row f = (b, r, a, c)"
    by (metis prod_cases4)
  note S = disposition_row_shape [OF row]
  have "valid_DeliveryDisposition facts_sha256
     \<lparr>dd_facts = f, dd_source_facts_sha256 = facts_sha256 f, dd_responsibility = r, dd_action = a,
      dd_reason = ReasonText b, dd_next_action = NextText b, dd_detail = None,
      dd_resume_condition = c\<rparr>"
    using assms S by (auto simp: valid_DeliveryDisposition_def validate_facts_binding_def)
  then show ?thesis
    by (simp add: decide_delivery_disposition_def row Let_def)
qed

text \<open>
  C26. The disposition decision is total and fail-closed: for valid facts it always produces a
  valid disposition that binds them. The action is an automatic retry exactly for a transient failure, and a
  remediation exactly for a verifier finding, with budget left and retry authorized; these are the only
  actions the team carries out by itself and the only ones that a fresh claim resumes, and each other one
  waits for a product or an engineering decision. A product decision is asked exactly for an ambiguous requirement. Work is
  terminated exactly for a policy violation or an exhausted budget, and then advertises no resume condition;
  resuming an execution baseline is offered exactly for a preserved baseline pause.
\<close>

theorem disposition_total_and_fail_closed:
  assumes "valid_DeliveryFailureFacts f" and "match_hex 64 64 (facts_sha256 f)"
  shows "\<exists>d. decide_delivery_disposition facts_sha256 f = Inr d \<and>
     valid_DeliveryDisposition facts_sha256 d \<and> dd_facts d = f \<and>
     (dd_action d = NA_RETRY \<longleftrightarrow>
        ff_classification f = FC_TRANSIENT_INFRA \<and> ff_budget_available f \<and> ff_retry_authorized f) \<and>
     (dd_action d = NA_REMEDIATE_CANDIDATE \<longleftrightarrow>
        ff_classification f \<in> {FC_QA_FINDING, FC_REVIEW_FINDING} \<and> ff_budget_available f \<and> ff_retry_authorized f) \<and>
     (dd_responsibility d = RES_TEAM \<longleftrightarrow> dd_action d \<in> {NA_RETRY, NA_REMEDIATE_CANDIDATE}) \<and>
     (dd_resume_condition d = RC_fresh_role_claim \<longleftrightarrow> dd_action d \<in> {NA_RETRY, NA_REMEDIATE_CANDIDATE}) \<and>
     (dd_responsibility d = RES_PRODUCT \<longleftrightarrow> dd_action d = NA_REQUEST_PRODUCT_DECISION) \<and>
     (dd_action d = NA_REQUEST_PRODUCT_DECISION \<longleftrightarrow> ff_classification f = FC_REQUIREMENT_AMBIGUITY) \<and>
     (dd_action d = NA_TERMINATE \<longleftrightarrow>
        ff_classification f \<in> {FC_POLICY_VIOLATION, FC_BUDGET_EXHAUSTED} \<or>
        \<not> ff_budget_available f \<and>
          (ff_classification f \<in> {FC_TRANSIENT_INFRA, FC_NONTRANSIENT_INFRA, FC_QA_FINDING, FC_REVIEW_FINDING} \<or>
           ff_classification f = FC_INVALID_OUTPUT \<and> \<not> single_knowledge_rejection f)) \<and>
     (dd_action d = NA_TERMINATE \<longleftrightarrow> dd_resume_condition d = RC_none) \<and>
     (dd_action d = NA_RESUME_EXECUTION_BASELINE \<longleftrightarrow> ff_classification f = FC_EXECUTION_BASELINE_PAUSED)"
proof -
  obtain d b where d: "decide_delivery_disposition facts_sha256 f = Inr d" "dd_facts d = f"
      "valid_DeliveryDisposition facts_sha256 d"
      "disposition_row f = (b, dd_responsibility d, dd_action d, dd_resume_condition d)"
    using decide_Inr_iff [of f facts_sha256, OF assms] by blast
  show ?thesis
    unfolding disposition_row_actions(1,2,4,5) [OF d(4), symmetric]
    using d(1-3) disposition_row_shape [OF d(4)] disposition_row_actions(3) [OF d(4)]
    by (intro exI [of _ d]) simp
qed

definition sample_facts :: "FailureClassification \<Rightarrow> DeliveryFailureFacts" where
  "sample_facts code = \<lparr>ff_task_id = ''task_a01'', ff_work_item_id = None, ff_role = AR_QA,
     ff_classification = code, ff_source_revision = ''rev'',
     ff_task_intent_sha256 = replicate 64 (CHR ''a''), ff_checkpoint_sequence = 0,
     ff_budget_available = True, ff_retry_authorized = True, ff_evidence_ids = [],
     ff_execution_baseline_sha256 = None\<rparr>"

theorem disposition_total_and_fail_closed_witness:
  "\<exists>d e g. decide_delivery_disposition (\<lambda>_. replicate 64 (CHR ''0'')) (sample_facts FC_TRANSIENT_INFRA) = Inr d \<and>
     dd_action d = NA_RETRY \<and>
     decide_delivery_disposition (\<lambda>_. replicate 64 (CHR ''0'')) (sample_facts FC_QA_FINDING) = Inr e \<and>
     dd_action e = NA_REMEDIATE_CANDIDATE \<and>
     decide_delivery_disposition (\<lambda>_. replicate 64 (CHR ''0'')) (sample_facts FC_NONTRANSIENT_INFRA) = Inr g \<and>
     dd_action g \<noteq> NA_RETRY \<and> dd_responsibility g \<noteq> RES_TEAM"
proof -
  have valid: "valid_DeliveryFailureFacts (sample_facts FC_TRANSIENT_INFRA)" "valid_DeliveryFailureFacts (sample_facts FC_QA_FINDING)"
    "valid_DeliveryFailureFacts (sample_facts FC_NONTRANSIENT_INFRA)"
    by code_simp+
  have "match_hex 64 64 (replicate 64 (CHR ''0''))"
    by code_simp
  then have h: "match_hex 64 64 ((\<lambda>_. replicate 64 (CHR ''0'')) f)" for f :: DeliveryFailureFacts
    by simp
  note D = disposition_total_and_fail_closed [of _ "\<lambda>_. replicate 64 (CHR ''0'')", OF _ h]
  show ?thesis
    using D [OF valid(1)] D [OF valid(2)] D [OF valid(3)] by (auto simp: sample_facts_def)
qed

end
