(* ===== verification/Workforce.thy ===== *)
theory Workforce
  imports Domain_Task Disposition
begin

section \<open>Workforce contracts\<close>

text \<open>
  \<^verbatim>\<open>domain/workforce.py\<close>: Agent profiles, model policies, work items, role assignments and leases,
  each as a record with its validator, and the pure helpers \<^verbatim>\<open>is_waiting\<close>, \<^verbatim>\<open>lease_is_active\<close>
  and \<^verbatim>\<open>validate_assignment_independence\<close>. The literal types of \<^verbatim>\<open>domain/model.py\<close> are datatypes
  with their string values. Lemmas: every risk tier has exactly one floor in a valid policy, a
  valid policy resolves all its role routes, and the independence check is symmetric.
\<close>

definition valid_AgentId :: "string \<Rightarrow> bool" where
  "valid_AgentId = match_id ''agent_'' 2 63"

definition valid_ModelPolicyId :: "string \<Rightarrow> bool" where
  "valid_ModelPolicyId = match_id ''model_policy_'' 2 63"

definition valid_AssignmentId :: "string \<Rightarrow> bool" where
  "valid_AssignmentId = match_id ''assignment_'' 2 63"

definition valid_LeaseId :: "string \<Rightarrow> bool" where
  "valid_LeaseId = match_id ''lease_'' 2 63"

definition valid_RepositoryId :: "string \<Rightarrow> bool" where
  "valid_RepositoryId = match_id ''repository_'' 2 63"

definition valid_NonNegativeCount :: "int \<Rightarrow> bool" where
  "valid_NonNegativeCount = in_range 0 10000000"

definition WAITING_STATUSES :: "WorkItemStatus list" where
  "WAITING_STATUSES = [WI_WAITING_HUMAN, WI_WAITING_DEPENDENCY, WI_RETRY_SCHEDULED]"

definition INDEPENDENT_DELIVERY_ROLES :: "AgentRole list" where
  "INDEPENDENT_DELIVERY_ROLES = [AR_CODER, AR_QA, AR_REVIEWER]"

record AgentProfile =
  ap_id :: string
  ap_version :: string
  ap_display_name :: string
  ap_capabilities :: "string list"
  ap_eligible_roles :: "TeamRole list"
  ap_max_parallel_assignments :: int
  ap_default_model_policy_id :: string
  ap_active :: bool
  ap_metadata :: "(string \<times> json_value) list"

definition valid_AgentProfile :: "AgentProfile \<Rightarrow> bool" where
  "valid_AgentProfile a \<longleftrightarrow>
     valid_AgentId (ap_id a) \<and> non_empty (ap_version a) \<and> non_empty (ap_display_name a) \<and>
     ap_capabilities a \<noteq> [] \<and> list_all non_empty (ap_capabilities a) \<and> ap_eligible_roles a \<noteq> [] \<and>
     in_range 1 16 (ap_max_parallel_assignments a) \<and>
     valid_ModelPolicyId (ap_default_model_policy_id a) \<and>
     ensure_unique (ap_capabilities a) \<and> ensure_unique (ap_eligible_roles a)"

subsection \<open>Model policies\<close>

datatype ReasoningEffort = RE_low | RE_medium | RE_high | RE_xhigh

fun ReasoningEffort_value :: "ReasoningEffort \<Rightarrow> string" where
  "ReasoningEffort_value RE_low = ''low''"
| "ReasoningEffort_value RE_medium = ''medium''"
| "ReasoningEffort_value RE_high = ''high''"
| "ReasoningEffort_value RE_xhigh = ''xhigh''"

datatype ProviderRouteKind = PK_codex_cli | PK_responses

fun ProviderRouteKind_value :: "ProviderRouteKind \<Rightarrow> string" where
  "ProviderRouteKind_value PK_codex_cli = ''codex_cli''"
| "ProviderRouteKind_value PK_responses = ''responses''"

datatype CodexConnectionMode = CM_direct | CM_proxy

fun CodexConnectionMode_value :: "CodexConnectionMode \<Rightarrow> string" where
  "CodexConnectionMode_value CM_direct = ''direct''"
| "CodexConnectionMode_value CM_proxy = ''proxy''"

record ModelRoute =
  mr_provider :: string
  mr_model :: string
  mr_reasoning_effort :: "ReasoningEffort option"
  mr_route_kind :: "ProviderRouteKind option"
  mr_connection_mode :: "CodexConnectionMode option"
  mr_tier :: BrainTier
  mr_capabilities :: "string list"

definition valid_ModelRoute :: "ModelRoute \<Rightarrow> bool" where
  "valid_ModelRoute r \<longleftrightarrow>
     non_empty (mr_provider r) \<and> non_empty (mr_model r) \<and>
     list_all non_empty (mr_capabilities r) \<and> ensure_unique (mr_capabilities r)"

type_synonym route_key =
  "string \<times> string \<times> ReasoningEffort option \<times> ProviderRouteKind option \<times> CodexConnectionMode option"

definition route_key :: "ModelRoute \<Rightarrow> route_key" where
  "route_key r =
     (mr_provider r, mr_model r, mr_reasoning_effort r, mr_route_kind r, mr_connection_mode r)"

record RiskModelFloor =
  rmf_risk :: RiskTier
  rmf_minimum_tier :: BrainTier

record ModelRouteReference =
  ref_provider :: string
  ref_model :: string
  ref_reasoning_effort :: "ReasoningEffort option"
  ref_route_kind :: "ProviderRouteKind option"
  ref_connection_mode :: "CodexConnectionMode option"

definition valid_ModelRouteReference :: "ModelRouteReference \<Rightarrow> bool" where
  "valid_ModelRouteReference r \<longleftrightarrow> non_empty (ref_provider r) \<and> non_empty (ref_model r)"

definition reference_key :: "ModelRouteReference \<Rightarrow> route_key" where
  "reference_key r =
     (ref_provider r, ref_model r, ref_reasoning_effort r, ref_route_kind r, ref_connection_mode r)"

record RoleModelRoutes =
  rr_role :: AgentRole
  rr_routes :: "ModelRouteReference list"

definition valid_RoleModelRoutes :: "RoleModelRoutes \<Rightarrow> bool" where
  "valid_RoleModelRoutes rr \<longleftrightarrow>
     rr_routes rr \<noteq> [] \<and> list_all valid_ModelRouteReference (rr_routes rr) \<and>
     ensure_unique (map reference_key (rr_routes rr))"

record ModelPolicy =
  mp_id :: string
  mp_version :: string
  mp_default_tier :: BrainTier
  mp_routes :: "ModelRoute list"
  mp_risk_floors :: "RiskModelFloor list"
  mp_role_routes :: "RoleModelRoutes list"
  mp_metadata :: "(string \<times> json_value) list"

text \<open>An absent field of the reference matches every route; \<open>None\<close> is the \<open>ValueError\<close>.\<close>

definition reference_matches :: "ModelRouteReference \<Rightarrow> ModelRoute \<Rightarrow> bool" where
  "reference_matches reference route \<longleftrightarrow>
     mr_provider route = ref_provider reference \<and> mr_model route = ref_model reference \<and>
     (ref_reasoning_effort reference = None \<or>
      mr_reasoning_effort route = ref_reasoning_effort reference) \<and>
     (ref_route_kind reference = None \<or> mr_route_kind route = ref_route_kind reference) \<and>
     (ref_connection_mode reference = None \<or>
      mr_connection_mode route = ref_connection_mode reference)"

definition resolve_route_reference :: "ModelPolicy \<Rightarrow> ModelRouteReference \<Rightarrow> ModelRoute option" where
  "resolve_route_reference policy reference =
     (case filter (reference_matches reference) (mp_routes policy) of
        [r] \<Rightarrow> Some r
      | _ \<Rightarrow> None)"

definition RISK_TIERS :: "RiskTier list" where
  "RISK_TIERS = [RT_LOW, RT_NORMAL, RT_HIGH, RT_CRITICAL]"

definition role_routes_resolve :: "ModelPolicy \<Rightarrow> RoleModelRoutes \<Rightarrow> bool" where
  "role_routes_resolve p rr \<longleftrightarrow>
     (let resolved = map (resolve_route_reference p) (rr_routes rr)
      in list_all (\<lambda>r. r \<noteq> None) resolved \<and> ensure_unique (map (route_key \<circ> the) resolved))"

definition validate_policy :: "ModelPolicy \<Rightarrow> bool" where
  "validate_policy p \<longleftrightarrow>
     ensure_unique (map route_key (mp_routes p)) \<and>
     mp_default_tier p \<in> set (map mr_tier (mp_routes p)) \<and>
     ensure_unique (map rmf_risk (mp_risk_floors p)) \<and>
     set (map rmf_risk (mp_risk_floors p)) = set RISK_TIERS \<and>
     list_all (\<lambda>t. t \<in> set (map mr_tier (mp_routes p))) (map rmf_minimum_tier (mp_risk_floors p)) \<and>
     ensure_unique (map rr_role (mp_role_routes p)) \<and>
     list_all (role_routes_resolve p) (mp_role_routes p)"

definition valid_ModelPolicy :: "ModelPolicy \<Rightarrow> bool" where
  "valid_ModelPolicy p \<longleftrightarrow>
     valid_ModelPolicyId (mp_id p) \<and> non_empty (mp_version p) \<and>
     mp_routes p \<noteq> [] \<and> list_all valid_ModelRoute (mp_routes p) \<and>
     length (mp_risk_floors p) = 4 \<and> list_all valid_RoleModelRoutes (mp_role_routes p) \<and>
     validate_policy p"

record ModelSelection =
  ms_policy_id :: string
  ms_policy_version :: string
  ms_provider :: string
  ms_model :: string
  ms_reasoning_effort :: "ReasoningEffort option"
  ms_route_kind :: "ProviderRouteKind option"
  ms_connection_mode :: "CodexConnectionMode option"
  ms_tier :: BrainTier
  ms_reasons :: "ModelRouteReason list"
  ms_selected_at :: instant

definition valid_ModelSelection :: "ModelSelection \<Rightarrow> bool" where
  "valid_ModelSelection m \<longleftrightarrow>
     valid_ModelPolicyId (ms_policy_id m) \<and> non_empty (ms_policy_version m) \<and>
     non_empty (ms_provider m) \<and> non_empty (ms_model m) \<and>
     ms_reasons m \<noteq> [] \<and> ensure_unique (ms_reasons m)"

record RunDemand =
  rd_task_id :: string
  rd_role :: AgentRole
  rd_risk :: RiskTier
  rd_required_capabilities :: "string list"
  rd_context_tokens :: int
  rd_planned_files :: int
  rd_affected_layers :: "string list"
  rd_failed_runs :: int
  rd_qa_failures :: int
  rd_review_rejections :: int
  rd_touches_critical_paths :: bool

definition valid_RunDemand :: "RunDemand \<Rightarrow> bool" where
  "valid_RunDemand d \<longleftrightarrow>
     valid_TaskId (rd_task_id d) \<and> list_all non_empty (rd_required_capabilities d) \<and>
     valid_NonNegativeCount (rd_context_tokens d) \<and> valid_NonNegativeCount (rd_planned_files d) \<and>
     list_all non_empty (rd_affected_layers d) \<and> valid_NonNegativeCount (rd_failed_runs d) \<and>
     valid_NonNegativeCount (rd_qa_failures d) \<and> valid_NonNegativeCount (rd_review_rejections d) \<and>
     ensure_unique (rd_required_capabilities d) \<and> ensure_unique (rd_affected_layers d)"

subsection \<open>Work items, assignments and leases\<close>

record WorkItem =
  wi_task_id :: string
  wi_repository_id :: string
  wi_status :: WorkItemStatus
  wi_priority :: int
  wi_risk :: RiskTier
  wi_required_capabilities :: "string list"
  wi_preferred_agent_id :: "string option"
  wi_wait_reason :: "string option"
  wi_wait_disposition :: "DeliveryDisposition option"
  wi_available_at :: "instant option"
  wi_created_at :: instant
  wi_updated_at :: instant

definition is_waiting :: "WorkItemStatus \<Rightarrow> bool" where
  "is_waiting status \<longleftrightarrow> status \<in> set WAITING_STATUSES"

definition validate_scheduling_state :: "'a WorkItem_scheme \<Rightarrow> bool" where
  "validate_scheduling_state w \<longleftrightarrow>
     ensure_unique (wi_required_capabilities w) \<and>
     \<not> wi_updated_at w < wi_created_at w \<and>
     \<not> (wi_status w \<in> set WAITING_STATUSES \<and> wi_wait_reason w = None) \<and>
     \<not> (wi_status w \<notin> set WAITING_STATUSES \<and> wi_wait_reason w \<noteq> None) \<and>
     (case wi_wait_disposition w of
        None \<Rightarrow> True
      | Some d \<Rightarrow> wi_status w \<in> set WAITING_STATUSES \<and> ff_task_id (dd_facts d) = wi_task_id w) \<and>
     (wi_status w = WI_RETRY_SCHEDULED \<longrightarrow>
        (case wi_available_at w of None \<Rightarrow> False | Some a \<Rightarrow> \<not> a \<le> wi_updated_at w))"

definition valid_WorkItem :: "(DeliveryFailureFacts \<Rightarrow> string) \<Rightarrow> 'a WorkItem_scheme \<Rightarrow> bool" where
  "valid_WorkItem facts_sha256 w \<longleftrightarrow>
     valid_TaskId (wi_task_id w) \<and> valid_RepositoryId (wi_repository_id w) \<and>
     in_range 0 1000 (wi_priority w) \<and> list_all non_empty (wi_required_capabilities w) \<and>
     opt_all valid_AgentId (wi_preferred_agent_id w) \<and> opt_all non_empty (wi_wait_reason w) \<and>
     opt_all (valid_DeliveryDisposition facts_sha256) (wi_wait_disposition w) \<and>
     validate_scheduling_state w"

record RoleAssignment =
  ra_id :: string
  ra_repository_id :: string
  ra_task_id :: string
  ra_agent_id :: string
  ra_role :: AgentRole
  ra_attempt :: int
  ra_lease_id :: string
  ra_capacity_units :: int
  ra_assigned_at :: instant

definition valid_RoleAssignment :: "RoleAssignment \<Rightarrow> bool" where
  "valid_RoleAssignment a \<longleftrightarrow>
     valid_AssignmentId (ra_id a) \<and> valid_RepositoryId (ra_repository_id a) \<and>
     valid_TaskId (ra_task_id a) \<and> valid_AgentId (ra_agent_id a) \<and>
     valid_ExecutionCount (ra_attempt a) \<and> valid_LeaseId (ra_lease_id a) \<and>
     in_range 1 16 (ra_capacity_units a) \<and> \<not> ra_attempt a < 1"

record TaskLease =
  tl_id :: string
  tl_assignment_id :: string
  tl_task_id :: string
  tl_agent_id :: string
  tl_capacity_units :: int
  tl_acquired_at :: instant
  tl_expires_at :: instant

definition valid_TaskLease :: "TaskLease \<Rightarrow> bool" where
  "valid_TaskLease l \<longleftrightarrow>
     valid_LeaseId (tl_id l) \<and> valid_AssignmentId (tl_assignment_id l) \<and>
     valid_TaskId (tl_task_id l) \<and> valid_AgentId (tl_agent_id l) \<and>
     in_range 1 16 (tl_capacity_units l) \<and> \<not> tl_expires_at l \<le> tl_acquired_at l"

text \<open>The evaluation time has been checked to be aware by every caller modelled here.\<close>

definition lease_is_active :: "TaskLease \<Rightarrow> instant \<Rightarrow> bool" where
  "lease_is_active lease at \<longleftrightarrow> tl_acquired_at lease \<le> at \<and> at < tl_expires_at lease"

definition roles_conflict :: "RoleAssignment \<Rightarrow> RoleAssignment \<Rightarrow> bool" where
  "roles_conflict candidate assignment \<longleftrightarrow>
     ra_task_id assignment = ra_task_id candidate \<and>
     ra_agent_id assignment = ra_agent_id candidate \<and>
     ra_role assignment \<noteq> ra_role candidate \<and>
     ra_role assignment \<in> set INDEPENDENT_DELIVERY_ROLES \<and>
     ra_role candidate \<in> set INDEPENDENT_DELIVERY_ROLES"

text \<open>The first conflicting assignment, which the \<open>AssignmentConflict\<close> names.\<close>

definition validate_assignment_independence ::
  "RoleAssignment \<Rightarrow> RoleAssignment list \<Rightarrow> RoleAssignment option" where
  "validate_assignment_independence candidate existing = find (roles_conflict candidate) existing"

subsection \<open>Lemmas\<close>

lemma roles_conflict_sym: "roles_conflict a b \<longleftrightarrow> roles_conflict b a"
  by (auto simp: roles_conflict_def)

lemma roles_conflict_irrefl [simp]: "\<not> roles_conflict a a"
  by (simp add: roles_conflict_def)

lemma independence_None_iff:
  "validate_assignment_independence a existing = None \<longleftrightarrow> (\<forall>b \<in> set existing. \<not> roles_conflict a b)"
  by (auto simp: validate_assignment_independence_def find_None_iff)

lemma resolve_route_referenceD:
  "resolve_route_reference p ref = Some r \<Longrightarrow> r \<in> set (mp_routes p) \<and> reference_matches ref r"
  by (auto simp: resolve_route_reference_def filter_eq_Cons_iff split: list.splits)

lemma valid_policy_resolves:
  assumes "valid_ModelPolicy p" and "rr \<in> set (mp_role_routes p)" and "ref \<in> set (rr_routes rr)"
  obtains r where "resolve_route_reference p ref = Some r" "r \<in> set (mp_routes p)"
  using assms resolve_route_referenceD
  by (fastforce simp: valid_ModelPolicy_def validate_policy_def role_routes_resolve_def list_all_iff
      Let_def)

lemma valid_policy_floor:
  assumes "valid_ModelPolicy p"
  shows "\<exists>f \<in> set (mp_risk_floors p). rmf_risk f = risk"
proof -
  have "risk \<in> rmf_risk ` set (mp_risk_floors p)"
    using assms by (cases risk) (simp_all add: valid_ModelPolicy_def validate_policy_def RISK_TIERS_def)
  then show ?thesis by auto
qed

lemma role_routes_key_inj:
  assumes "valid_ModelPolicy p" and "rr \<in> set (mp_role_routes p)"
  shows "distinct (map (route_key \<circ> the \<circ> resolve_route_reference p) (rr_routes rr))"
  using assms
  by (auto simp: valid_ModelPolicy_def validate_policy_def role_routes_resolve_def list_all_iff Let_def
      comp_assoc)

end
