(* ===== verification/Model_Router.thy ===== *)
theory Model_Router
  imports Workforce
begin

section \<open>The model router\<close>

text \<open>
  \<^verbatim>\<open>scheduling/model_router.py\<close> and the routing half of \<^verbatim>\<open>scheduling/models.py\<close>: one model route is
  chosen per run from the policy, or a structured refusal is returned. A refusal message is the
  format it is rendered from, with the values it interpolates. \<open>Inl RouteValueError\<close> stands for
  every \<open>ValueError\<close> the code raises (a naive time, a role without a team role, a value that
  fails validation).
\<close>

datatype ModelRejectionCode =
    MC_INACTIVE_AGENT | MC_ROLE_NOT_ELIGIBLE | MC_CAPABILITY_MISMATCH | MC_POLICY_MISMATCH
  | MC_NO_CONTEXT_CAPACITY | MC_NO_ELIGIBLE_ROUTE

datatype refusal_message =
    MsgInactive string
  | MsgRoleNotEligible string AgentRole
  | MsgLacksCapabilities string "string list"
  | MsgPolicyMismatch string string string
  | MsgNoContext int
  | MsgNoTier BrainTier
  | MsgBelowPlanMinimum BrainTier BrainTier

record ModelRoutingRefusal =
  mf_code :: ModelRejectionCode
  mf_message :: refusal_message
  mf_required_tier :: "BrainTier option"
  mf_missing_capabilities :: "string list"
  mf_considered_routes :: "string list"

definition valid_ModelRoutingRefusal :: "ModelRoutingRefusal \<Rightarrow> bool" where
  "valid_ModelRoutingRefusal f \<longleftrightarrow>
     list_all non_empty (mf_missing_capabilities f) \<and> list_all non_empty (mf_considered_routes f) \<and>
     ensure_unique (mf_missing_capabilities f) \<and> ensure_unique (mf_considered_routes f) \<and>
     (if mf_code f = MC_CAPABILITY_MISMATCH then mf_missing_capabilities f \<noteq> []
      else mf_missing_capabilities f = [])"

datatype ModelRoutingDecisionStatus = MD_SELECTED | MD_REJECTED

record ModelRoutingDecision =
  md_status :: ModelRoutingDecisionStatus
  md_task_id :: string
  md_agent_id :: string
  md_role :: AgentRole
  md_selection :: "ModelSelection option"
  md_refusal :: "ModelRoutingRefusal option"
  md_decided_at :: instant

definition valid_ModelRoutingDecision :: "ModelRoutingDecision \<Rightarrow> bool" where
  "valid_ModelRoutingDecision d \<longleftrightarrow>
     valid_TaskId (md_task_id d) \<and> valid_AgentId (md_agent_id d) \<and>
     opt_all valid_ModelSelection (md_selection d) \<and> opt_all valid_ModelRoutingRefusal (md_refusal d) \<and>
     (if md_status d = MD_SELECTED then md_selection d \<noteq> None \<and> md_refusal d = None
      else md_selection d = None \<and> md_refusal d \<noteq> None)"

datatype route_error = RouteValueError

subsection \<open>Tiers\<close>

definition TIER_ORDER :: "BrainTier list" where
  "TIER_ORDER = [BT_ECONOMY, BT_STANDARD, BT_REASONING, BT_CRITICAL]"

fun TIER_RANK :: "BrainTier \<Rightarrow> nat" where
  "TIER_RANK BT_ECONOMY = 0"
| "TIER_RANK BT_STANDARD = 1"
| "TIER_RANK BT_REASONING = 2"
| "TIER_RANK BT_CRITICAL = 3"

definition next_tier :: "BrainTier \<Rightarrow> BrainTier" where
  "next_tier tier = TIER_ORDER ! min (TIER_RANK tier + 1) (length TIER_ORDER - 1)"

definition route_name :: "ModelRoute \<Rightarrow> string" where
  "route_name r =
     mr_provider r @ ''/'' @ mr_model r @
     (case mr_reasoning_effort r of None \<Rightarrow> [] | Some e \<Rightarrow> ''@'' @ ReasoningEffort_value e) @
     (case mr_route_kind r of None \<Rightarrow> [] | Some k \<Rightarrow> ''#'' @ ProviderRouteKind_value k) @
     (case mr_connection_mode r of None \<Rightarrow> [] | Some c \<Rightarrow> '':'' @ CodexConnectionMode_value c)"

record ModelRouter =
  router_capacities :: "((string \<times> string) \<times> int) list"
  complexity_file_threshold :: int
  complexity_layer_threshold :: int
  complexity_context_threshold :: int

definition valid_ModelRouter :: "ModelRouter \<Rightarrow> bool" where
  "valid_ModelRouter r \<longleftrightarrow>
     distinct (map fst (router_capacities r)) \<and>
     \<not> list_ex (\<lambda>c. c < 0) (map snd (router_capacities r)) \<and>
     \<not> complexity_file_threshold r < 1 \<and> \<not> complexity_layer_threshold r < 1 \<and>
     \<not> complexity_context_threshold r < 1"

definition is_complex :: "ModelRouter \<Rightarrow> RunDemand \<Rightarrow> bool" where
  "is_complex r d \<longleftrightarrow>
     complexity_file_threshold r \<le> rd_planned_files d \<or>
     complexity_layer_threshold r \<le> int (length (rd_affected_layers d)) \<or>
     complexity_context_threshold r \<le> rd_context_tokens d"

definition has_objective_escalation :: "RunDemand \<Rightarrow> bool" where
  "has_objective_escalation d \<longleftrightarrow>
     0 < rd_failed_runs d \<or> 0 < rd_qa_failures d \<or> 0 < rd_review_rejections d \<or>
     rd_touches_critical_paths d"

definition fits_context :: "ModelRouter \<Rightarrow> ModelRoute \<Rightarrow> int \<Rightarrow> bool" where
  "fits_context r route context_tokens =
     (case map_of (router_capacities r) (mr_provider route, mr_model route) of
        None \<Rightarrow> context_tokens = 0
      | Some limit \<Rightarrow> context_tokens \<le> limit)"

definition missing_capabilities :: "string list \<Rightarrow> string list \<Rightarrow> string list" where
  "missing_capabilities required available =
     sort (remdups (filter (\<lambda>c. c \<notin> set available) required))"

definition route_sort_key ::
  "ModelRoute \<Rightarrow> nat \<times> string \<times> string \<times> string \<times> string \<times> string" where
  "route_sort_key r =
     (TIER_RANK (mr_tier r), mr_provider r, mr_model r,
      (case mr_reasoning_effort r of None \<Rightarrow> [] | Some e \<Rightarrow> ReasoningEffort_value e),
      (case mr_route_kind r of None \<Rightarrow> [] | Some k \<Rightarrow> ProviderRouteKind_value k),
      (case mr_connection_mode r of None \<Rightarrow> [] | Some c \<Rightarrow> CodexConnectionMode_value c))"

definition risk_floor :: "ModelPolicy \<Rightarrow> RiskTier \<Rightarrow> BrainTier option" where
  "risk_floor p risk = map_of (rev (map (\<lambda>f. (rmf_risk f, rmf_minimum_tier f)) (mp_risk_floors p))) risk"

definition base_tier :: "ModelPolicy \<Rightarrow> BrainTier \<Rightarrow> BrainTier" where
  "base_tier p floor_tier =
     TIER_ORDER ! max (TIER_RANK (mp_default_tier p)) (TIER_RANK floor_tier)"

definition target_tier :: "ModelRouter \<Rightarrow> RunDemand \<Rightarrow> ModelPolicy \<Rightarrow> BrainTier \<Rightarrow> BrainTier" where
  "target_tier r d p floor_tier =
     (let base = base_tier p floor_tier
      in if is_complex r d \<or> has_objective_escalation d then next_tier base else base)"

text \<open>
  The candidate routes in preference order: the whole policy by tier when the role has no entry,
  otherwise the role's own list in its order.
\<close>

definition candidate_routes :: "ModelPolicy \<Rightarrow> AgentRole \<Rightarrow> route_error + ModelRoute list" where
  "candidate_routes p role =
     (case find (\<lambda>item. rr_role item = role) (mp_role_routes p) of
        None \<Rightarrow> Inr (sort_key route_sort_key (mp_routes p))
      | Some item \<Rightarrow>
          map_res (\<lambda>ref. case resolve_route_reference p ref of
                      None \<Rightarrow> Inl RouteValueError | Some route \<Rightarrow> Inr route) (rr_routes item))"

definition route_reasons ::
  "ModelRouter \<Rightarrow> RunDemand \<Rightarrow> ModelPolicy \<Rightarrow> BrainTier \<Rightarrow> ModelRoute \<Rightarrow> bool \<Rightarrow> ModelRouteReason list" where
  "route_reasons r d p floor_tier selected narrowed =
     (let complexity = is_complex r d; escalation = has_objective_escalation d;
          reasons =
            (if \<not> complexity \<and> \<not> escalation \<and> mr_tier selected = mp_default_tier p then [MR_DEFAULT] else []) @
            (if TIER_RANK (mp_default_tier p) \<le> TIER_RANK floor_tier then [MR_RISK_FLOOR] else []) @
            (if complexity then [MR_TASK_COMPLEXITY] else []) @
            (if escalation then [MR_OBJECTIVE_ESCALATION] else []) @
            (if narrowed then [MR_CONTEXT_CAPACITY] else [])
      in if reasons = [] then [MR_DEFAULT] else reasons)"

definition reject_route ::
  "RunDemand \<Rightarrow> AgentProfile \<Rightarrow> instant \<Rightarrow> ModelRoutingRefusal \<Rightarrow> route_error + ModelRoutingDecision" where
  "reject_route d a now refusal =
     (let dec = \<lparr>md_status = MD_REJECTED, md_task_id = rd_task_id d, md_agent_id = ap_id a,
                 md_role = rd_role d, md_selection = None, md_refusal = Some refusal,
                 md_decided_at = now\<rparr>
      in if valid_ModelRoutingDecision dec then Inr dec else Inl RouteValueError)"

definition selected_decision ::
  "RunDemand \<Rightarrow> AgentProfile \<Rightarrow> ModelPolicy \<Rightarrow> instant \<Rightarrow> ModelRoute \<Rightarrow> ModelRouteReason list \<Rightarrow>
   route_error + ModelRoutingDecision" where
  "selected_decision d a p now selected reasons =
     (let sel = \<lparr>ms_policy_id = mp_id p, ms_policy_version = mp_version p,
                 ms_provider = mr_provider selected, ms_model = mr_model selected,
                 ms_reasoning_effort = mr_reasoning_effort selected,
                 ms_route_kind = mr_route_kind selected,
                 ms_connection_mode = mr_connection_mode selected, ms_tier = mr_tier selected,
                 ms_reasons = reasons, ms_selected_at = now\<rparr>;
          dec = \<lparr>md_status = MD_SELECTED, md_task_id = rd_task_id d, md_agent_id = ap_id a,
                 md_role = rd_role d, md_selection = Some sel, md_refusal = None,
                 md_decided_at = now\<rparr>
      in if valid_ModelRoutingDecision dec then Inr dec else Inl RouteValueError)"

definition capacity_routes :: "ModelRouter \<Rightarrow> RunDemand \<Rightarrow> ModelRoute list \<Rightarrow> ModelRoute list" where
  "capacity_routes r d routes = filter (\<lambda>x. fits_context r x (rd_context_tokens d)) routes"

definition eligible_routes ::
  "ModelRouter \<Rightarrow> RunDemand \<Rightarrow> BrainTier \<Rightarrow> ModelRoute list \<Rightarrow> ModelRoute list" where
  "eligible_routes r d target routes =
     filter (\<lambda>x. TIER_RANK target \<le> TIER_RANK (mr_tier x)) (capacity_routes r d routes)"

text \<open>The part of \<^verbatim>\<open>route\<close> after the Agent and policy checks.\<close>

definition choose_route ::
  "ModelRouter \<Rightarrow> RunDemand \<Rightarrow> AgentProfile \<Rightarrow> ModelPolicy \<Rightarrow> instant \<Rightarrow>
   route_error + ModelRoutingDecision" where
  "choose_route r d a p now =
     (case risk_floor p (rd_risk d) of
        None \<Rightarrow> Inl RouteValueError
      | Some floor_tier \<Rightarrow>
          (let target = target_tier r d p floor_tier in
           bind_res (candidate_routes p (rd_role d)) (\<lambda>routes.
           let within = capacity_routes r d routes; eligible = eligible_routes r d target routes
           in if within = [] then
                reject_route d a now
                  \<lparr>mf_code = MC_NO_CONTEXT_CAPACITY, mf_message = MsgNoContext (rd_context_tokens d),
                   mf_required_tier = Some target, mf_missing_capabilities = [],
                   mf_considered_routes = map route_name routes\<rparr>
              else if eligible = [] then
                reject_route d a now
                  \<lparr>mf_code = MC_NO_ELIGIBLE_ROUTE, mf_message = MsgNoTier target,
                   mf_required_tier = Some target, mf_missing_capabilities = [],
                   mf_considered_routes = map route_name within\<rparr>
              else
                selected_decision d a p now (hd eligible)
                  (route_reasons r d p floor_tier (hd eligible)
                     (length within \<noteq> length routes)))))"

definition route ::
  "ModelRouter \<Rightarrow> RunDemand \<Rightarrow> AgentProfile \<Rightarrow> ModelPolicy \<Rightarrow> py_datetime \<Rightarrow>
   route_error + ModelRoutingDecision" where
  "route r d a p now =
     (case now of
        Naive _ \<Rightarrow> Inl RouteValueError
      | Aware t \<Rightarrow>
          if \<not> ap_active a then
            reject_route d a t
              \<lparr>mf_code = MC_INACTIVE_AGENT, mf_message = MsgInactive (ap_id a), mf_required_tier = None,
               mf_missing_capabilities = [], mf_considered_routes = []\<rparr>
          else
            (case TeamRole_of_value (AgentRole_value (rd_role d)) of
               None \<Rightarrow> Inl RouteValueError
             | Some team_role \<Rightarrow>
                 if team_role \<notin> set (ap_eligible_roles a) then
                   reject_route d a t
                     \<lparr>mf_code = MC_ROLE_NOT_ELIGIBLE,
                      mf_message = MsgRoleNotEligible (ap_id a) (rd_role d), mf_required_tier = None,
                      mf_missing_capabilities = [], mf_considered_routes = []\<rparr>
                 else
                   (let missing = missing_capabilities (rd_required_capabilities d) (ap_capabilities a)
                    in if missing \<noteq> [] then
                         reject_route d a t
                           \<lparr>mf_code = MC_CAPABILITY_MISMATCH,
                            mf_message = MsgLacksCapabilities (ap_id a) missing,
                            mf_required_tier = None, mf_missing_capabilities = missing,
                            mf_considered_routes = []\<rparr>
                       else if ap_default_model_policy_id a \<noteq> mp_id p then
                         reject_route d a t
                           \<lparr>mf_code = MC_POLICY_MISMATCH,
                            mf_message = MsgPolicyMismatch (ap_id a) (ap_default_model_policy_id a) (mp_id p),
                            mf_required_tier = None, mf_missing_capabilities = [],
                            mf_considered_routes = []\<rparr>
                       else choose_route r d a p t)))"

text \<open>The selection-only API: a refusal raises \<open>ModelRoutingRejected\<close>.\<close>

definition select ::
  "ModelRouter \<Rightarrow> RunDemand \<Rightarrow> AgentProfile \<Rightarrow> ModelPolicy \<Rightarrow> py_datetime \<Rightarrow>
   (route_error + ModelRoutingRefusal option) + ModelSelection" where
  "select r d a p now =
     (case route r d a p now of
        Inl e \<Rightarrow> Inl (Inl e)
      | Inr dec \<Rightarrow>
          (case md_selection dec of
             None \<Rightarrow> Inl (Inr (md_refusal dec))
           | Some sel \<Rightarrow> Inr sel))"

subsection \<open>Lemmas\<close>

lemma TIER_RANK_le: "TIER_RANK t \<le> 3"
  by (cases t) simp_all

lemma TIER_ORDER_rank [simp]: "n \<le> 3 \<Longrightarrow> TIER_RANK (TIER_ORDER ! n) = n"
proof -
  assume "n \<le> 3"
  then have "n = 0 \<or> n = 1 \<or> n = 2 \<or> n = 3" by arith
  then show ?thesis by (auto simp: TIER_ORDER_def)
qed

lemma TIER_RANK_next: "TIER_RANK (next_tier t) = min (TIER_RANK t + 1) 3"
  by (cases t) (simp_all add: next_tier_def TIER_ORDER_def)

lemma TIER_RANK_base: "TIER_RANK (base_tier p f) = max (TIER_RANK (mp_default_tier p)) (TIER_RANK f)"
  using TIER_RANK_le by (simp add: base_tier_def)

lemma TIER_RANK_target:
  "TIER_RANK (target_tier r d p f) =
     (if is_complex r d \<or> has_objective_escalation d
      then min (max (TIER_RANK (mp_default_tier p)) (TIER_RANK f) + 1) 3
      else max (TIER_RANK (mp_default_tier p)) (TIER_RANK f))"
  by (simp add: target_tier_def TIER_RANK_next TIER_RANK_base)

lemma risk_floor_valid:
  assumes "valid_ModelPolicy p"
  obtains f where "risk_floor p risk = Some f" "\<exists>x \<in> set (mp_risk_floors p). rmf_risk x = risk \<and> rmf_minimum_tier x = f"
proof -
  let ?kv = "map (\<lambda>f. (rmf_risk f, rmf_minimum_tier f)) (mp_risk_floors p)"
  obtain x where x: "x \<in> set (mp_risk_floors p)" "rmf_risk x = risk"
    using valid_policy_floor [OF assms] by blast
  then have "risk \<in> fst ` set (rev ?kv)" by force
  then obtain f where f: "map_of (rev ?kv) risk = Some f"
    by (metis map_of_eq_None_iff not_None_eq)
  then have "(risk, f) \<in> set (rev ?kv)" by (rule map_of_SomeD)
  then have "\<exists>x \<in> set (mp_risk_floors p). rmf_risk x = risk \<and> rmf_minimum_tier x = f" by auto
  with f that show thesis by (auto simp: risk_floor_def)
qed

lemma missing_Nil_iff [simp]: "missing_capabilities req av = [] \<longleftrightarrow> set req \<subseteq> set av"
proof -
  have "missing_capabilities req av = [] \<longleftrightarrow> set (missing_capabilities req av) = {}"
    by (simp only: set_empty)
  also have "\<dots> \<longleftrightarrow> set req \<subseteq> set av" by (auto simp: missing_capabilities_def)
  finally show ?thesis .
qed

lemma set_missing [simp]: "set (missing_capabilities req av) = set req - set av"
  by (auto simp: missing_capabilities_def)

lemma distinct_missing [simp]: "distinct (missing_capabilities req av)"
  by (simp add: missing_capabilities_def)

lemma candidate_routes_valid:
  assumes "valid_ModelPolicy p"
  obtains routes where "candidate_routes p role = Inr routes" "set routes \<subseteq> set (mp_routes p)"
    "distinct (map route_key routes)" "routes \<noteq> []"
proof (cases "find (\<lambda>item. rr_role item = role) (mp_role_routes p)")
  case None
  have "distinct (mp_routes p)" "inj_on route_key (set (mp_routes p))" "mp_routes p \<noteq> []"
    using assms by (auto simp: valid_ModelPolicy_def validate_policy_def distinct_map)
  moreover have "sort_key route_sort_key (mp_routes p) \<noteq> [] \<longleftrightarrow> mp_routes p \<noteq> []"
    by (metis length_0_conv length_sort)
  ultimately show thesis
    using that [of "sort_key route_sort_key (mp_routes p)"] None
    by (simp add: candidate_routes_def distinct_map)
next
  case (Some item)
  then have item: "item \<in> set (mp_role_routes p)"
    by (auto simp: find_Some_iff)
  let ?res = "\<lambda>ref. the (resolve_route_reference p ref)"
  have ok: "(case resolve_route_reference p ref of None \<Rightarrow> Inl RouteValueError | Some x \<Rightarrow> Inr x) = Inr (?res ref)"
    "?res ref \<in> set (mp_routes p)" if "ref \<in> set (rr_routes item)" for ref
    by (rule valid_policy_resolves [OF assms item that]; simp)+
  have "candidate_routes p role = Inr (map ?res (rr_routes item))"
    unfolding candidate_routes_def Some by (simp add: map_res_all [OF ok(1)])
  moreover have "distinct (map route_key (map ?res (rr_routes item)))"
    using role_routes_key_inj [OF assms item] by (simp add: comp_def)
  moreover have "rr_routes item \<noteq> []"
    using assms item by (auto simp: valid_ModelPolicy_def valid_RoleModelRoutes_def list_all_iff)
  ultimately show thesis
    using that [of "map ?res (rr_routes item)"] ok(2) by auto
qed

lemma route_name_non_empty [simp]: "non_empty (route_name r)"
  by (simp add: route_name_def non_empty_def)

lemma route_reasons_ok: "route_reasons r d p f x b \<noteq> []" "distinct (route_reasons r d p f x b)"
  by (auto simp: route_reasons_def Let_def)

lemma selected_decision_ok:
  assumes "valid_RunDemand d" "valid_AgentProfile a" "valid_ModelPolicy p" "x \<in> set (mp_routes p)"
    and "rs \<noteq> []" "distinct rs"
  shows "\<exists>dec. selected_decision d a p t x rs = Inr dec \<and> md_status dec = MD_SELECTED \<and>
    valid_ModelRoutingDecision dec"
  using assms
  by (auto simp: selected_decision_def Let_def valid_ModelRoutingDecision_def valid_ModelSelection_def
      valid_RunDemand_def valid_AgentProfile_def valid_ModelPolicy_def list_all_iff valid_ModelRoute_def)

lemma selected_decisionD:
  assumes "selected_decision d a p t x rs = Inr dec" "md_selection dec = Some sel"
  shows "ms_provider sel = mr_provider x" "ms_model sel = mr_model x"
    "ms_reasoning_effort sel = mr_reasoning_effort x" "ms_route_kind sel = mr_route_kind x"
    "ms_connection_mode sel = mr_connection_mode x" "ms_tier sel = mr_tier x"
  using assms by (auto simp: selected_decision_def Let_def split: if_splits)

lemma reject_route_ok:
  assumes "valid_RunDemand d" "valid_AgentProfile a" "valid_ModelRoutingRefusal f"
  shows "\<exists>dec. reject_route d a t f = Inr dec \<and> md_status dec = MD_REJECTED \<and>
    valid_ModelRoutingDecision dec"
  using assms
  by (auto simp: reject_route_def valid_ModelRoutingDecision_def valid_RunDemand_def valid_AgentProfile_def)

lemma reject_route_no_selection: "reject_route d a t f = Inr dec \<Longrightarrow> md_selection dec = None"
  by (auto simp: reject_route_def Let_def split: if_splits)

lemma set_eligible:
  "x \<in> set (eligible_routes r d target routes) \<longleftrightarrow>
     x \<in> set routes \<and> fits_context r x (rd_context_tokens d) \<and> TIER_RANK target \<le> TIER_RANK (mr_tier x)"
  by (auto simp: eligible_routes_def capacity_routes_def)

text \<open>The agent-side conditions of the router, in the order it checks them.\<close>

definition agent_admitted :: "RunDemand \<Rightarrow> AgentProfile \<Rightarrow> ModelPolicy \<Rightarrow> bool" where
  "agent_admitted d a p \<longleftrightarrow>
     ap_active a \<and>
     (case TeamRole_of_value (AgentRole_value (rd_role d)) of
        None \<Rightarrow> False | Some tr \<Rightarrow> tr \<in> set (ap_eligible_roles a)) \<and>
     set (rd_required_capabilities d) \<subseteq> set (ap_capabilities a) \<and>
     ap_default_model_policy_id a = mp_id p"

lemma route_selected_choose:
  assumes "route r d a p now = Inr dec" and "md_selection dec = Some sel"
  obtains t where "now = Aware t" "agent_admitted d a p" "choose_route r d a p t = Inr dec"
  using assms
  by (cases now)
    (auto simp: route_def agent_admitted_def Let_def split: if_splits option.splits
      dest: reject_route_no_selection)

lemma choose_route_selected:
  assumes "choose_route r d a p t = Inr dec" and "md_selection dec = Some sel"
  obtains f routes rs where "risk_floor p (rd_risk d) = Some f"
    "candidate_routes p (rd_role d) = Inr routes"
    "eligible_routes r d (target_tier r d p f) routes \<noteq> []"
    "selected_decision d a p t (hd (eligible_routes r d (target_tier r d p f) routes)) rs = Inr dec"
  using assms
  by (auto simp: choose_route_def bind_res_Inr_iff Let_def split: option.splits if_splits
      dest: reject_route_no_selection)

lemma selection_sound:
  assumes "valid_ModelPolicy p" and "route r d a p now = Inr dec" and "md_selection dec = Some sel"
  shows "agent_admitted d a p \<and>
     (\<exists>x \<in> set (mp_routes p).
        (ms_provider sel, ms_model sel, ms_reasoning_effort sel, ms_route_kind sel, ms_connection_mode sel)
          = route_key x \<and> ms_tier sel = mr_tier x \<and> fits_context r x (rd_context_tokens d)) \<and>
     (\<exists>f \<in> set (mp_risk_floors p). rmf_risk f = rd_risk d \<and>
        (let base = max (TIER_RANK (mp_default_tier p)) (TIER_RANK (rmf_minimum_tier f))
         in (if is_complex r d \<or> has_objective_escalation d then min (base + 1) 3 else base)
              \<le> TIER_RANK (ms_tier sel)))"
proof -
  obtain t where t: "agent_admitted d a p" "choose_route r d a p t = Inr dec"
    using assms(2,3) by (rule route_selected_choose)
  obtain f routes rs where c: "risk_floor p (rd_risk d) = Some f"
      "candidate_routes p (rd_role d) = Inr routes"
    and ne: "eligible_routes r d (target_tier r d p f) routes \<noteq> []"
    and sel: "selected_decision d a p t (hd (eligible_routes r d (target_tier r d p f) routes)) rs = Inr dec"
    using t(2) assms(3) by (rule choose_route_selected)
  let ?el = "eligible_routes r d (target_tier r d p f) routes"
  have hd: "hd ?el \<in> set routes" "fits_context r (hd ?el) (rd_context_tokens d)"
    "TIER_RANK (target_tier r d p f) \<le> TIER_RANK (mr_tier (hd ?el))"
    using hd_in_set [OF ne] by (auto simp: set_eligible)
  have "hd ?el \<in> set (mp_routes p)"
    using candidate_routes_valid [OF assms(1)] c(2) hd(1) by (metis subsetD sum.inject(2))
  then have "\<exists>x \<in> set (mp_routes p).
        (ms_provider sel, ms_model sel, ms_reasoning_effort sel, ms_route_kind sel, ms_connection_mode sel)
          = route_key x \<and> ms_tier sel = mr_tier x \<and> fits_context r x (rd_context_tokens d)"
    using selected_decisionD [OF sel assms(3)] hd(2) by (auto simp: route_key_def)
  moreover obtain x where "x \<in> set (mp_risk_floors p)" "rmf_risk x = rd_risk d" "rmf_minimum_tier x = f"
    using risk_floor_valid [OF assms(1), of "rd_risk d"] c(1) by auto
  ultimately show ?thesis
    using t(1) hd(3) selected_decisionD(6) [OF sel assms(3)] by (auto simp: TIER_RANK_target Let_def)
qed

subsection \<open>Properties\<close>

text \<open>
  C27. A selected model is admissible: the Agent is active, holds a team role for the demanded role,
  has every required capability and runs under this policy; the selected route is a route of the
  policy, its declared context capacity covers the demand, its tier is at least the default tier
  and the floor of the demand's risk, and one tier higher (up to the top) when the demand is complex
  or has failed before.
\<close>

theorem route_selection_sound:
  assumes "valid_ModelPolicy p" and "route r d a p now = Inr dec" and "md_selection dec = Some sel"
  shows "agent_admitted d a p \<and>
     (\<exists>x \<in> set (mp_routes p).
        (ms_provider sel, ms_model sel, ms_reasoning_effort sel, ms_route_kind sel, ms_connection_mode sel)
          = route_key x \<and> ms_tier sel = mr_tier x \<and> fits_context r x (rd_context_tokens d)) \<and>
     (\<exists>f \<in> set (mp_risk_floors p). rmf_risk f = rd_risk d \<and>
        (let base = max (TIER_RANK (mp_default_tier p)) (TIER_RANK (rmf_minimum_tier f))
         in (if is_complex r d \<or> has_objective_escalation d then min (base + 1) 3 else base)
              \<le> TIER_RANK (ms_tier sel)))"
  using assms by (rule selection_sound)

text \<open>
  Without a role-specific route list the router picks the least powerful model: no route of the
  policy that holds the context and reaches the required tier has a lower tier than the selected
  one.
\<close>

theorem route_selection_minimal:
  assumes "route r d a p now = Inr dec" and "md_selection dec = Some sel"
    and "rd_role d \<notin> rr_role ` set (mp_role_routes p)" and "risk_floor p (rd_risk d) = Some f"
    and "y \<in> set (mp_routes p)" and "fits_context r y (rd_context_tokens d)"
    and "TIER_RANK (target_tier r d p f) \<le> TIER_RANK (mr_tier y)"
  shows "TIER_RANK (ms_tier sel) \<le> TIER_RANK (mr_tier y)"
proof -
  obtain t where t: "choose_route r d a p t = Inr dec"
    using assms(1,2) by (rule route_selected_choose)
  obtain f' routes rs where c: "risk_floor p (rd_risk d) = Some f'"
      "candidate_routes p (rd_role d) = Inr routes"
    and ne: "eligible_routes r d (target_tier r d p f') routes \<noteq> []"
    and sel: "selected_decision d a p t (hd (eligible_routes r d (target_tier r d p f') routes)) rs = Inr dec"
    using t assms(2) by (rule choose_route_selected)
  let ?el = "eligible_routes r d (target_tier r d p f') routes"
  have "find (\<lambda>item. rr_role item = rd_role d) (mp_role_routes p) = None"
    using assms(3) by (force simp: find_None_iff)
  then have routes: "routes = sort_key route_sort_key (mp_routes p)"
    using c(2) by (simp add: candidate_routes_def)
  have f: "f' = f" using c(1) assms(4) by simp
  have "sorted (map route_sort_key routes)"
    unfolding routes by simp
  then have "sorted (map route_sort_key ?el)"
    unfolding eligible_routes_def capacity_routes_def by (intro sorted_filter)
  moreover have "y \<in> set ?el"
    using assms(5-7) by (simp add: routes f set_eligible)
  ultimately have "route_sort_key (hd ?el) \<le> route_sort_key y"
    using ne by (cases ?el) auto
  then have "TIER_RANK (mr_tier (hd ?el)) \<le> TIER_RANK (mr_tier y)"
    by (auto simp: route_sort_key_def)
  then show ?thesis
    using selected_decisionD(6) [OF sel assms(2)] by simp
qed

lemma names_distinct:
  assumes "distinct (map route_name (mp_routes p))" and "set routes \<subseteq> set (mp_routes p)"
    and "distinct (map route_key routes)"
  shows "distinct (map route_name routes)" "distinct (map route_name (filter q routes))"
proof -
  show "distinct (map route_name routes)"
    using assms by (auto simp: distinct_map intro: inj_on_subset)
  then show "distinct (map route_name (filter q routes))"
    by (auto simp: distinct_map intro: inj_on_subset)
qed

lemma choose_route_total:
  assumes v: "valid_RunDemand d" "valid_AgentProfile a" "valid_ModelPolicy p"
    and names: "distinct (map route_name (mp_routes p))"
  shows "\<exists>dec f routes. choose_route r d a p t = Inr dec \<and> valid_ModelRoutingDecision dec \<and>
     risk_floor p (rd_risk d) = Some f \<and> candidate_routes p (rd_role d) = Inr routes \<and>
     (md_status dec = MD_SELECTED \<longleftrightarrow>
        (\<exists>x \<in> set routes. fits_context r x (rd_context_tokens d) \<and>
           TIER_RANK (target_tier r d p f) \<le> TIER_RANK (mr_tier x)))"
proof -
  obtain f where f: "risk_floor p (rd_risk d) = Some f"
    using risk_floor_valid [OF v(3)] by blast
  obtain routes where c: "candidate_routes p (rd_role d) = Inr routes" "set routes \<subseteq> set (mp_routes p)"
      "distinct (map route_key routes)"
    using candidate_routes_valid [OF v(3)] by blast
  let ?el = "eligible_routes r d (target_tier r d p f) routes"
  have rej: "\<exists>dec. reject_route d a t \<lparr>mf_code = code, mf_message = m, mf_required_tier = rt,
      mf_missing_capabilities = [], mf_considered_routes = map route_name rs\<rparr> = Inr dec \<and>
      md_status dec = MD_REJECTED \<and> valid_ModelRoutingDecision dec"
    if "code \<noteq> MC_CAPABILITY_MISMATCH" "rs = routes \<or> rs = capacity_routes r d routes" for code m rt rs
    using names_distinct [OF names c(2,3)] that
    by (intro reject_route_ok [OF v(1,2)])
      (auto simp: valid_ModelRoutingRefusal_def list_all_iff capacity_routes_def)
  have ex: "(\<exists>x \<in> set routes. fits_context r x (rd_context_tokens d) \<and>
      TIER_RANK (target_tier r d p f) \<le> TIER_RANK (mr_tier x)) \<longleftrightarrow> ?el \<noteq> []"
    using set_eligible [of _ r d "target_tier r d p f" routes] by (metis list.set_intros(1) list.set_cases empty_iff list.set(1) neq_Nil_conv)
  have within: "capacity_routes r d routes \<noteq> []" if "?el \<noteq> []"
    using that by (auto simp: eligible_routes_def)
  show ?thesis
  proof (cases "?el = []")
    case True
    obtain dec where "choose_route r d a p t = Inr dec" "md_status dec = MD_REJECTED"
        "valid_ModelRoutingDecision dec"
      unfolding choose_route_def f c(1) option.case bind_res_simps Let_def
      using True rej by (atomize_elim) auto
    with ex f c(1) True show ?thesis
      by (intro exI [of _ dec] exI [of _ f] exI [of _ routes]) simp
  next
    case False
    have "hd ?el \<in> set (mp_routes p)"
      using hd_in_set [OF False] c(2) by (auto simp: set_eligible)
    then obtain dec where "choose_route r d a p t = Inr dec" "md_status dec = MD_SELECTED"
        "valid_ModelRoutingDecision dec"
      unfolding choose_route_def f c(1) option.case bind_res_simps Let_def
      using False within selected_decision_ok [OF v _ route_reasons_ok] by (atomize_elim) auto
    with ex f c(1) False show ?thesis
      by (intro exI [of _ dec] exI [of _ f] exI [of _ routes]) simp
  qed
qed

lemma route_not_admitted:
  assumes "\<not> agent_admitted d a p" and "valid_RunDemand d"
    and tr: "TeamRole_of_value (AgentRole_value (rd_role d)) = Some tr"
  shows "\<exists>rej. route r d a p (Aware t) = reject_route d a t rej \<and> valid_ModelRoutingRefusal rej"
proof -
  let ?missing = "missing_capabilities (rd_required_capabilities d) (ap_capabilities a)"
  have caps: "list_all non_empty ?missing"
    using assms(2) by (auto simp: list_all_iff valid_RunDemand_def)
  consider "\<not> ap_active a" | "ap_active a" "tr \<notin> set (ap_eligible_roles a)"
    | "ap_active a" "tr \<in> set (ap_eligible_roles a)" "?missing \<noteq> []"
    | "ap_active a" "tr \<in> set (ap_eligible_roles a)" "?missing = []" "ap_default_model_policy_id a \<noteq> mp_id p"
    using assms(1) tr by (fastforce simp: agent_admitted_def)
  then show ?thesis
    unfolding route_def tr option.case py_datetime.case Let_def
    by cases (simp_all only: if_True if_False simp_thms,
        (rule exI, rule conjI, rule refl,
         use caps in \<open>simp add: valid_ModelRoutingRefusal_def\<close>)+)
qed

lemma routing_total:
  assumes "valid_RunDemand d" and "valid_AgentProfile a" and "valid_ModelPolicy p"
    and "distinct (map route_name (mp_routes p))" and "rd_role d \<noteq> AR_ORCHESTRATOR"
  shows "\<exists>dec f routes. route r d a p (Aware t) = Inr dec \<and> valid_ModelRoutingDecision dec \<and>
     risk_floor p (rd_risk d) = Some f \<and> candidate_routes p (rd_role d) = Inr routes \<and>
     (md_status dec = MD_SELECTED \<longleftrightarrow>
        agent_admitted d a p \<and>
        (\<exists>x \<in> set routes. fits_context r x (rd_context_tokens d) \<and>
           TIER_RANK (target_tier r d p f) \<le> TIER_RANK (mr_tier x)))"
proof -
  obtain dec f routes where ch: "choose_route r d a p t = Inr dec" "valid_ModelRoutingDecision dec"
      "risk_floor p (rd_risk d) = Some f" "candidate_routes p (rd_role d) = Inr routes"
      "md_status dec = MD_SELECTED \<longleftrightarrow> (\<exists>x \<in> set routes. fits_context r x (rd_context_tokens d) \<and>
           TIER_RANK (target_tier r d p f) \<le> TIER_RANK (mr_tier x))"
    using choose_route_total [OF assms(1-4)] by blast
  obtain tr where tr: "TeamRole_of_value (AgentRole_value (rd_role d)) = Some tr"
    using assms(5) TeamRole_of_delivery_role by blast
  show ?thesis
  proof (cases "agent_admitted d a p")
    case True
    then have "route r d a p (Aware t) = Inr dec"
      using ch(1) tr by (simp add: route_def agent_admitted_def Let_def)
    with ch(2-5) True show ?thesis by auto
  next
    case False
    obtain rej where "route r d a p (Aware t) = reject_route d a t rej" "valid_ModelRoutingRefusal rej"
      using route_not_admitted [OF False assms(1) tr] by blast
    with reject_route_ok [OF assms(1,2)] obtain dec' where
      "route r d a p (Aware t) = Inr dec'" "md_status dec' = MD_REJECTED" "valid_ModelRoutingDecision dec'"
      by metis
    with ch(3,4) False show ?thesis by auto
  qed
qed

text \<open>
  The router always decides: for valid inputs, a role with a team role and a policy whose
  rendered route names are distinct, it returns a valid decision, and the decision is a selection
  exactly when the Agent is admitted and some candidate route holds the context and reaches the
  required tier.
\<close>

theorem route_decides:
  assumes "valid_RunDemand d" and "valid_AgentProfile a" and "valid_ModelPolicy p"
    and "distinct (map route_name (mp_routes p))" and "rd_role d \<noteq> AR_ORCHESTRATOR"
  shows "\<exists>dec f routes. route r d a p (Aware t) = Inr dec \<and> valid_ModelRoutingDecision dec \<and>
     risk_floor p (rd_risk d) = Some f \<and> candidate_routes p (rd_role d) = Inr routes \<and>
     (md_status dec = MD_SELECTED \<longleftrightarrow>
        agent_admitted d a p \<and>
        (\<exists>x \<in> set routes. fits_context r x (rd_context_tokens d) \<and>
           TIER_RANK (target_tier r d p f) \<le> TIER_RANK (mr_tier x)))"
  using assms by (rule routing_total)

subsection \<open>Concrete runs\<close>

definition sample_route :: "string \<Rightarrow> string \<Rightarrow> BrainTier \<Rightarrow> ModelRoute" where
  "sample_route provider model tier =
     \<lparr>mr_provider = provider, mr_model = model, mr_reasoning_effort = None, mr_route_kind = None,
      mr_connection_mode = None, mr_tier = tier, mr_capabilities = []\<rparr>"

definition sample_reference :: "string \<Rightarrow> string \<Rightarrow> ModelRouteReference" where
  "sample_reference provider model =
     \<lparr>ref_provider = provider, ref_model = model, ref_reasoning_effort = None,
      ref_route_kind = None, ref_connection_mode = None\<rparr>"

definition sample_floors :: "BrainTier \<Rightarrow> RiskModelFloor list" where
  "sample_floors tier = map (\<lambda>r. \<lparr>rmf_risk = r, rmf_minimum_tier = tier\<rparr>) RISK_TIERS"

definition sample_policy :: ModelPolicy where
  "sample_policy =
     \<lparr>mp_id = ''model_policy_a01'', mp_version = ''1'', mp_default_tier = BT_ECONOMY,
      mp_routes = [sample_route ''p'' ''big'' BT_CRITICAL, sample_route ''p'' ''mid'' BT_STANDARD,
                   sample_route ''p'' ''small'' BT_ECONOMY],
      mp_risk_floors = sample_floors BT_ECONOMY,
      mp_role_routes = [\<lparr>rr_role = AR_REVIEWER,
        rr_routes = [sample_reference ''p'' ''big'', sample_reference ''p'' ''small'']\<rparr>],
      mp_metadata = []\<rparr>"

definition sample_agent :: AgentProfile where
  "sample_agent =
     \<lparr>ap_id = ''agent_a01'', ap_version = ''1'', ap_display_name = ''A'', ap_capabilities = [''py''],
      ap_eligible_roles = [TR_CODER, TR_QA, TR_REVIEWER], ap_max_parallel_assignments = 1,
      ap_default_model_policy_id = ''model_policy_a01'', ap_active = True, ap_metadata = []\<rparr>"

definition sample_demand :: "AgentRole \<Rightarrow> int \<Rightarrow> RunDemand" where
  "sample_demand role tokens =
     \<lparr>rd_task_id = ''task_a01'', rd_role = role, rd_risk = RT_LOW,
      rd_required_capabilities = [''py''], rd_context_tokens = tokens, rd_planned_files = 0,
      rd_affected_layers = [], rd_failed_runs = 0, rd_qa_failures = 1, rd_review_rejections = 0,
      rd_touches_critical_paths = False\<rparr>"

definition sample_router :: ModelRouter where
  "sample_router =
     \<lparr>router_capacities = [((''p'', ''big''), 1000), ((''p'', ''mid''), 1000), ((''p'', ''small''), 10)],
      complexity_file_threshold = 8, complexity_layer_threshold = 3,
      complexity_context_threshold = 32000\<rparr>"

definition sample_selection :: "BrainTier \<Rightarrow> string \<Rightarrow> ModelRouteReason list \<Rightarrow> ModelSelection" where
  "sample_selection tier model reasons =
     \<lparr>ms_policy_id = ''model_policy_a01'', ms_policy_version = ''1'', ms_provider = ''p'',
      ms_model = model, ms_reasoning_effort = None, ms_route_kind = None,
      ms_connection_mode = None, ms_tier = tier, ms_reasons = reasons, ms_selected_at = 0\<rparr>"

definition sample_decision :: "AgentRole \<Rightarrow> ModelSelection \<Rightarrow> ModelRoutingDecision" where
  "sample_decision role sel =
     \<lparr>md_status = MD_SELECTED, md_task_id = ''task_a01'', md_agent_id = ''agent_a01'', md_role = role,
      md_selection = Some sel, md_refusal = None, md_decided_at = 0\<rparr>"

lemma sample_policy_valid: "valid_ModelPolicy sample_policy"
  by code_simp

lemma sample_agent_valid: "valid_AgentProfile sample_agent"
  by code_simp

lemma sample_demand_valid: "valid_RunDemand (sample_demand AR_CODER 5)"
  by code_simp

lemma sample_run:
  "route sample_router (sample_demand AR_CODER 5) sample_agent sample_policy (Aware 0) =
     Inr (sample_decision AR_CODER (sample_selection BT_STANDARD ''mid''
       [MR_RISK_FLOOR, MR_OBJECTIVE_ESCALATION]))"
  by code_simp

theorem route_selection_sound_witness:
  "agent_admitted (sample_demand AR_CODER 5) sample_agent sample_policy \<and>
   (\<exists>f \<in> set (mp_risk_floors sample_policy). rmf_risk f = RT_LOW)"
proof -
  have "rd_risk (sample_demand AR_CODER 5) = RT_LOW"
    by (simp add: sample_demand_def)
  then show ?thesis
    using route_selection_sound [OF sample_policy_valid sample_run, of
        "sample_selection BT_STANDARD ''mid'' [MR_RISK_FLOOR, MR_OBJECTIVE_ESCALATION]"]
    by (auto simp: sample_decision_def)
qed

theorem route_selection_minimal_witness:
  "TIER_RANK BT_STANDARD \<le> TIER_RANK (mr_tier (sample_route ''p'' ''big'' BT_CRITICAL))"
proof -
  let ?d = "sample_demand AR_CODER 5"
  have "md_selection (sample_decision AR_CODER (sample_selection BT_STANDARD ''mid''
       [MR_RISK_FLOOR, MR_OBJECTIVE_ESCALATION])) =
     Some (sample_selection BT_STANDARD ''mid'' [MR_RISK_FLOOR, MR_OBJECTIVE_ESCALATION])"
    by (simp add: sample_decision_def)
  moreover have "rd_role ?d \<notin> rr_role ` set (mp_role_routes sample_policy)"
    by code_simp
  moreover have "risk_floor sample_policy (rd_risk ?d) = Some BT_ECONOMY"
    by code_simp
  moreover have "sample_route ''p'' ''big'' BT_CRITICAL \<in> set (mp_routes sample_policy)"
    by (simp add: sample_policy_def)
  moreover have "fits_context sample_router (sample_route ''p'' ''big'' BT_CRITICAL) (rd_context_tokens ?d)"
    by code_simp
  moreover have "TIER_RANK (target_tier sample_router ?d sample_policy BT_ECONOMY)
     \<le> TIER_RANK (mr_tier (sample_route ''p'' ''big'' BT_CRITICAL))"
    by code_simp
  ultimately show ?thesis
    using route_selection_minimal [OF sample_run] by (fastforce simp: sample_selection_def)
qed

theorem route_decides_witness:
  "\<exists>dec. route sample_router (sample_demand AR_CODER 5) sample_agent sample_policy (Aware 7) = Inr dec \<and>
     valid_ModelRoutingDecision dec"
proof -
  have "distinct (map route_name (mp_routes sample_policy))"
    by code_simp
  moreover have "rd_role (sample_demand AR_CODER 5) \<noteq> AR_ORCHESTRATOR"
    by (simp add: sample_demand_def)
  ultimately show ?thesis
    using route_decides [OF sample_demand_valid sample_agent_valid sample_policy_valid,
        of sample_router 7] by blast
qed

text \<open>
  Two behaviours of the router that its documentation does not state, on valid inputs: with a
  role-specific list the first listed route that qualifies is taken although a less powerful one
  qualifies too; and a policy whose distinct routes render to the same name makes a refusal raise
  instead of being returned.
\<close>

definition collision_policy :: ModelPolicy where
  "collision_policy = sample_policy\<lparr>mp_routes := [sample_route ''a/b'' ''c'' BT_ECONOMY,
     sample_route ''a'' ''b/c'' BT_ECONOMY], mp_role_routes := []\<rparr>"

theorem router_edge_behaviours:
  "route sample_router ((sample_demand AR_REVIEWER 0)\<lparr>rd_qa_failures := 0\<rparr>) sample_agent sample_policy
     (Aware 0) = Inr (sample_decision AR_REVIEWER (sample_selection BT_CRITICAL ''big'' [MR_RISK_FLOOR])) \<and>
   valid_ModelPolicy collision_policy \<and>
   route sample_router (sample_demand AR_CODER 5) sample_agent collision_policy (Aware 0) =
     Inl RouteValueError"
  by (intro conjI; code_simp)

end
