(* ===== verification/Portfolio.thy ===== *)
theory Portfolio
  imports Model_Router
begin

section \<open>The portfolio scheduler\<close>

text \<open>
  \<^verbatim>\<open>scheduling/portfolio.py\<close> and the assignment half of \<^verbatim>\<open>scheduling/models.py\<close>: matching one work
  item to an Agent, and scheduling a batch. SHA-256 (as a hexadecimal digest of a text) is the
  parameter \<open>sha\<close>. Whether an item has a queue identity (\<^verbatim>\<open>getattr(item, "id", ...)\<close>) is decided by
  its class, so the function that gives the identity and dispatch sequence is the parameter
  \<open>ident\<close>. A rejection message is the format it is rendered from with its values.
\<close>

datatype AssignmentDecisionStatus = AD_ASSIGNED | AD_REJECTED

datatype AssignmentRejectionCode =
    AC_NOT_READY | AC_WAITING | AC_CLOSED | AC_INACTIVE_AGENT | AC_ROLE_NOT_ELIGIBLE
  | AC_CAPABILITY_MISMATCH | AC_CAPACITY_EXHAUSTED | AC_SELF_REVIEW | AC_INVALID_INPUT

datatype rejection_message =
    RM_closed string
  | RM_unavailable string "instant option"
  | RM_waiting string "string option"
  | RM_not_schedulable string WorkItemStatus
  | RM_inactive string
  | RM_not_eligible string AgentRole
  | RM_lacks string "string list"
  | RM_no_capacity string int int
  | RM_conflict string AgentRole AgentRole string
  | RM_no_agents

record AssignmentRejection =
  ar_code :: AssignmentRejectionCode
  ar_message :: rejection_message
  ar_agent_id :: "string option"
  ar_missing_capabilities :: "string list"

definition valid_AssignmentRejection :: "AssignmentRejection \<Rightarrow> bool" where
  "valid_AssignmentRejection r \<longleftrightarrow>
     opt_all valid_AgentId (ar_agent_id r) \<and> list_all non_empty (ar_missing_capabilities r) \<and>
     ensure_unique (ar_missing_capabilities r) \<and>
     (if ar_code r = AC_CAPABILITY_MISMATCH
      then ar_agent_id r \<noteq> None \<and> ar_missing_capabilities r \<noteq> []
      else ar_missing_capabilities r = [])"

record AssignmentDecision =
  ad_status :: AssignmentDecisionStatus
  ad_task_id :: string
  ad_repository_id :: string
  ad_role :: AgentRole
  ad_attempt :: int
  ad_agent_id :: "string option"
  ad_assignment :: "RoleAssignment option"
  ad_lease :: "TaskLease option"
  ad_reasons :: "AssignmentRejection list"
  ad_decided_at :: instant

definition decision_shape :: "AssignmentDecision \<Rightarrow> bool" where
  "decision_shape d \<longleftrightarrow>
     (if ad_status d = AD_ASSIGNED then
        (case (ad_agent_id d, ad_assignment d, ad_lease d) of
           (Some agent, Some a, Some l) \<Rightarrow>
             ad_reasons d = [] \<and>
             ra_task_id a = ad_task_id d \<and> ra_repository_id a = ad_repository_id d \<and>
             ra_agent_id a = agent \<and> ra_role a = ad_role d \<and> ra_attempt a = ad_attempt d \<and>
             tl_assignment_id l = ra_id a \<and> tl_task_id l = ad_task_id d \<and> tl_agent_id l = agent
         | _ \<Rightarrow> False)
      else
        ad_agent_id d = None \<and> ad_assignment d = None \<and> ad_lease d = None \<and> ad_reasons d \<noteq> []) \<and>
     ensure_unique (ad_reasons d)"

definition valid_AssignmentDecision :: "AssignmentDecision \<Rightarrow> bool" where
  "valid_AssignmentDecision d \<longleftrightarrow>
     valid_TaskId (ad_task_id d) \<and> valid_RepositoryId (ad_repository_id d) \<and>
     valid_ExecutionAttempt (ad_attempt d) \<and> opt_all valid_AgentId (ad_agent_id d) \<and>
     opt_all valid_RoleAssignment (ad_assignment d) \<and> opt_all valid_TaskLease (ad_lease d) \<and>
     list_all valid_AssignmentRejection (ad_reasons d) \<and> decision_shape d"

text \<open>\<open>SchedValueError\<close> is every other \<open>ValueError\<close>, a failed validation included.\<close>

datatype sched_error = SchedulerInputError | SchedValueError

definition construct :: "('a \<Rightarrow> bool) \<Rightarrow> 'a \<Rightarrow> sched_error + 'a" where
  "construct valid x = (if valid x then Inr x else Inl SchedValueError)"

subsection \<open>Identities and capacity\<close>

fun join_bar :: "string list \<Rightarrow> string" where
  "join_bar [] = []"
| "join_bar [s] = s"
| "join_bar (s # t # ss) = s @ ''|'' @ join_bar (t # ss)"

definition stable_id :: "(string \<Rightarrow> string) \<Rightarrow> string \<Rightarrow> string list \<Rightarrow> string" where
  "stable_id sha prefix parts = prefix @ ''_'' @ take 24 (sha (join_bar parts))"

definition py_str_int :: "int \<Rightarrow> string" where
  "py_str_int n = (if n < 0 then ''-'' @ decimal (nat (- n)) else decimal (nat n))"

definition waiting_tasks :: "'a WorkItem_scheme list \<Rightarrow> string list" where
  "waiting_tasks items = map wi_task_id (filter (\<lambda>i. is_waiting (wi_status i)) items)"

definition dict_get :: "('k \<Rightarrow> int option) \<Rightarrow> 'k \<Rightarrow> int" where
  "dict_get m k = (case m k of None \<Rightarrow> 0 | Some v \<Rightarrow> v)"

definition add_lease ::
  "string list \<Rightarrow> instant \<Rightarrow> (string \<Rightarrow> int option) \<Rightarrow> TaskLease \<Rightarrow> (string \<Rightarrow> int option)" where
  "add_lease waiting at totals lease =
     (if \<not> lease_is_active lease at \<or> tl_task_id lease \<in> set waiting then totals
      else totals(tl_agent_id lease \<mapsto> dict_get totals (tl_agent_id lease) + tl_capacity_units lease))"

definition active_capacity ::
  "AgentProfile list \<Rightarrow> TaskLease list \<Rightarrow> 'a WorkItem_scheme list \<Rightarrow> instant \<Rightarrow> (string \<Rightarrow> int option)" where
  "active_capacity agents leases items at =
     foldl (add_lease (waiting_tasks items) at)
       (\<lambda>k. if k \<in> set (map ap_id agents) then Some 0 else None) leases"

definition work_item_sort_key ::
  "instant \<Rightarrow> 'a WorkItem_scheme \<Rightarrow> int \<times> int \<times> int \<times> instant \<times> string" where
  "work_item_sort_key now item =
     (let ready = wi_status item \<in> {WI_READY, WI_RETRY_SCHEDULED} \<and>
            (case wi_available_at item of None \<Rightarrow> True | Some a \<Rightarrow> a \<le> now)
      in (if ready then 0 else 1, - wi_priority item, - risk_rank (wi_risk item),
          wi_created_at item, wi_task_id item))"

definition agent_sort_key ::
  "(string \<Rightarrow> int option) \<Rightarrow> string option \<Rightarrow> AgentProfile \<Rightarrow> int \<times> int \<times> int \<times> string" where
  "agent_sort_key capacity preferred_agent_id agent =
     (let available = ap_max_parallel_assignments agent - dict_get capacity (ap_id agent)
      in (if Some (ap_id agent) \<noteq> preferred_agent_id then 1 else 0, - available,
          - ap_max_parallel_assignments agent, ap_id agent))"

subsection \<open>Matching one item\<close>

definition plain_rejection :: "AssignmentRejectionCode \<Rightarrow> rejection_message \<Rightarrow> AssignmentRejection" where
  "plain_rejection code m =
     \<lparr>ar_code = code, ar_message = m, ar_agent_id = None, ar_missing_capabilities = []\<rparr>"

definition readiness_rejection :: "'a WorkItem_scheme \<Rightarrow> instant \<Rightarrow> AssignmentRejection option" where
  "readiness_rejection item now =
     (if wi_status item = WI_CLOSED then Some (plain_rejection AC_CLOSED (RM_closed (wi_task_id item)))
      else if wi_status item = WI_RETRY_SCHEDULED then
        (case wi_available_at item of
           Some a \<Rightarrow>
             if a \<le> now then None
             else Some (plain_rejection AC_NOT_READY (RM_unavailable (wi_task_id item) (Some a)))
         | None \<Rightarrow> Some (plain_rejection AC_NOT_READY (RM_unavailable (wi_task_id item) None)))
      else if is_waiting (wi_status item) then
        Some (plain_rejection AC_WAITING (RM_waiting (wi_task_id item) (wi_wait_reason item)))
      else if wi_status item \<notin> {WI_READY, WI_RETRY_SCHEDULED} then
        Some (plain_rejection AC_NOT_READY (RM_not_schedulable (wi_task_id item) (wi_status item)))
      else
        (case wi_available_at item of
           Some a \<Rightarrow>
             if now < a
             then Some (plain_rejection AC_NOT_READY (RM_unavailable (wi_task_id item) (Some a)))
             else None
         | None \<Rightarrow> None))"

definition build_assignment ::
  "(string \<Rightarrow> string) \<Rightarrow> ('a WorkItem_scheme \<Rightarrow> string \<times> int) \<Rightarrow> 'a WorkItem_scheme \<Rightarrow> AgentRole \<Rightarrow>
   string \<Rightarrow> int \<Rightarrow> instant \<Rightarrow> RoleAssignment" where
  "build_assignment sha ident item role agent_id attempt now =
     (let assignment_id = stable_id sha ''assignment''
            [fst (ident item), py_str_int (snd (ident item)), wi_task_id item, AgentRole_value role,
             agent_id, py_str_int attempt]
      in \<lparr>ra_id = assignment_id, ra_repository_id = wi_repository_id item,
          ra_task_id = wi_task_id item, ra_agent_id = agent_id, ra_role = role,
          ra_attempt = attempt, ra_lease_id = stable_id sha ''lease'' [assignment_id],
          ra_capacity_units = 1, ra_assigned_at = now\<rparr>)"

definition build_lease :: "int \<Rightarrow> RoleAssignment \<Rightarrow> string \<Rightarrow> string \<Rightarrow> instant \<Rightarrow> TaskLease" where
  "build_lease lease_duration assignment task_id agent_id now =
     \<lparr>tl_id = ra_lease_id assignment, tl_assignment_id = ra_id assignment, tl_task_id = task_id,
      tl_agent_id = agent_id, tl_capacity_units = 1, tl_acquired_at = now,
      tl_expires_at = now + lease_duration\<rparr>"

definition rejected ::
  "'a WorkItem_scheme \<Rightarrow> AgentRole \<Rightarrow> int \<Rightarrow> instant \<Rightarrow> AssignmentRejection list \<Rightarrow>
   sched_error + AssignmentDecision" where
  "rejected item role attempt now reasons =
     construct valid_AssignmentDecision
       \<lparr>ad_status = AD_REJECTED, ad_task_id = wi_task_id item,
        ad_repository_id = wi_repository_id item, ad_role = role, ad_attempt = attempt,
        ad_agent_id = None, ad_assignment = None, ad_lease = None, ad_reasons = reasons,
        ad_decided_at = now\<rparr>"

text \<open>
  One turn of the Agent loop: either the decision is made, or the Agent is rejected for a reason.
\<close>

datatype agent_outcome = Decides AssignmentDecision | Refuses AssignmentRejection

definition refuse ::
  "AgentProfile \<Rightarrow> AssignmentRejectionCode \<Rightarrow> rejection_message \<Rightarrow> string list \<Rightarrow>
   sched_error + agent_outcome" where
  "refuse agent code message missing =
     map_sum id Refuses (construct valid_AssignmentRejection
       \<lparr>ar_code = code, ar_message = message, ar_agent_id = Some (ap_id agent),
        ar_missing_capabilities = (if code = AC_CAPABILITY_MISMATCH then missing else [])\<rparr>)"

definition try_agent ::
  "(string \<Rightarrow> string) \<Rightarrow> int \<Rightarrow> ('a WorkItem_scheme \<Rightarrow> string \<times> int) \<Rightarrow> 'a WorkItem_scheme \<Rightarrow> AgentRole \<Rightarrow>
   (string \<Rightarrow> int option) \<Rightarrow> RoleAssignment list \<Rightarrow> instant \<Rightarrow> int \<Rightarrow> AgentProfile \<Rightarrow>
   sched_error + agent_outcome" where
  "try_agent sha lease_duration ident item role capacity assignments now attempt agent =
     (let missing = missing_capabilities (wi_required_capabilities item) (ap_capabilities agent) in
      if \<not> ap_active agent then refuse agent AC_INACTIVE_AGENT (RM_inactive (ap_id agent)) missing
      else
        (case TeamRole_of_value (AgentRole_value role) of
           None \<Rightarrow> Inl SchedValueError
         | Some team_role \<Rightarrow>
             if team_role \<notin> set (ap_eligible_roles agent) then
               refuse agent AC_ROLE_NOT_ELIGIBLE (RM_not_eligible (ap_id agent) role) missing
             else if missing \<noteq> [] then
               refuse agent AC_CAPABILITY_MISMATCH (RM_lacks (ap_id agent) missing) missing
             else if ap_max_parallel_assignments agent < dict_get capacity (ap_id agent) + 1 then
               refuse agent AC_CAPACITY_EXHAUSTED
                 (RM_no_capacity (ap_id agent) (dict_get capacity (ap_id agent))
                    (ap_max_parallel_assignments agent)) missing
             else
               bind_res (construct valid_RoleAssignment
                 (build_assignment sha ident item role (ap_id agent) attempt now)) (\<lambda>candidate.
               case validate_assignment_independence candidate assignments of
                 Some prior \<Rightarrow>
                   refuse agent AC_SELF_REVIEW
                     (RM_conflict (ra_agent_id candidate) (ra_role prior) (ra_role candidate)
                        (ra_task_id candidate)) missing
               | None \<Rightarrow>
                   bind_res (construct valid_TaskLease
                     (build_lease lease_duration candidate (wi_task_id item) (ap_id agent) now)) (\<lambda>lease.
                   map_sum id Decides (construct valid_AssignmentDecision
                     \<lparr>ad_status = AD_ASSIGNED, ad_task_id = wi_task_id item,
                      ad_repository_id = wi_repository_id item, ad_role = role,
                      ad_attempt = attempt, ad_agent_id = Some (ap_id agent),
                      ad_assignment = Some candidate, ad_lease = Some lease, ad_reasons = [],
                      ad_decided_at = now\<rparr>)))))"

fun agent_loop ::
  "(AgentProfile \<Rightarrow> sched_error + agent_outcome) \<Rightarrow> AgentProfile list \<Rightarrow> AssignmentRejection list \<Rightarrow>
   sched_error + (AssignmentDecision + AssignmentRejection list)" where
  "agent_loop attempt_one [] rejections = Inr (Inr rejections)"
| "agent_loop attempt_one (agent # agents) rejections =
     bind_res (attempt_one agent) (\<lambda>outcome.
     case outcome of
       Decides d \<Rightarrow> Inr (Inl d)
     | Refuses r \<Rightarrow> agent_loop attempt_one agents (rejections @ [r]))"

definition all_work_items :: "'a WorkItem_scheme list \<Rightarrow> 'a WorkItem_scheme \<Rightarrow> 'a WorkItem_scheme list" where
  "all_work_items items item =
     (let all_items = (if items = [] then [item] else items)
      in if item \<notin> set all_items then all_items @ [item] else all_items)"

definition match_agents ::
  "(string \<Rightarrow> string) \<Rightarrow> int \<Rightarrow> ('a WorkItem_scheme \<Rightarrow> string \<times> int) \<Rightarrow> 'a WorkItem_scheme \<Rightarrow> AgentRole \<Rightarrow>
   AgentProfile list \<Rightarrow> TaskLease list \<Rightarrow> RoleAssignment list \<Rightarrow> instant \<Rightarrow> int \<Rightarrow>
   'a WorkItem_scheme list \<Rightarrow> sched_error + AssignmentDecision" where
  "match_agents sha lease_duration ident item role agents leases assignments now attempt items =
     (let capacity = active_capacity agents leases (all_work_items items item) now;
          ordered = sort_key (agent_sort_key capacity (wi_preferred_agent_id item)) agents
      in bind_res (agent_loop
           (try_agent sha lease_duration ident item role capacity assignments now attempt) ordered [])
           (\<lambda>res. case res of
              Inl d \<Rightarrow> Inr d
            | Inr rejections \<Rightarrow>
                rejected item role attempt now
                  (if rejections = [] then [plain_rejection AC_INVALID_INPUT RM_no_agents]
                   else rejections)))"

definition match_item ::
  "(string \<Rightarrow> string) \<Rightarrow> int \<Rightarrow> ('a WorkItem_scheme \<Rightarrow> string \<times> int) \<Rightarrow> 'a WorkItem_scheme \<Rightarrow> AgentRole \<Rightarrow>
   AgentProfile list \<Rightarrow> TaskLease list \<Rightarrow> RoleAssignment list \<Rightarrow> py_datetime \<Rightarrow> int \<Rightarrow>
   'a WorkItem_scheme list \<Rightarrow> sched_error + AssignmentDecision" where
  "match_item sha lease_duration ident item role agents leases assignments now attempt items =
     (case now of
        Naive _ \<Rightarrow> Inl SchedulerInputError
      | Aware t \<Rightarrow>
          if attempt < 1 then Inl SchedulerInputError
          else
            (case readiness_rejection item t of
               Some early \<Rightarrow> rejected item role attempt t [early]
             | None \<Rightarrow>
                 match_agents sha lease_duration ident item role agents leases assignments t attempt items))"

subsection \<open>Scheduling a batch\<close>

fun schedule_loop ::
  "('a WorkItem_scheme \<Rightarrow> TaskLease list \<Rightarrow> sched_error + AssignmentDecision) \<Rightarrow>
   'a WorkItem_scheme list \<Rightarrow> TaskLease list \<Rightarrow> sched_error + AssignmentDecision list" where
  "schedule_loop match [] pending = Inr []"
| "schedule_loop match (item # items) pending =
     bind_res (match item pending) (\<lambda>decision.
     bind_res (schedule_loop match items
       (case ad_lease decision of None \<Rightarrow> pending | Some l \<Rightarrow> pending @ [l])) (\<lambda>decisions.
     Inr (decision # decisions)))"

definition schedule ::
  "(string \<Rightarrow> string) \<Rightarrow> int \<Rightarrow> ('a WorkItem_scheme \<Rightarrow> string \<times> int) \<Rightarrow> 'a WorkItem_scheme list \<Rightarrow>
   AgentRole \<Rightarrow> AgentProfile list \<Rightarrow> TaskLease list \<Rightarrow> RoleAssignment list \<Rightarrow> py_datetime \<Rightarrow> int \<Rightarrow>
   sched_error + AssignmentDecision list" where
  "schedule sha lease_duration ident items role agents leases assignments now attempt =
     (case now of
        Naive _ \<Rightarrow> Inl SchedulerInputError
      | Aware t \<Rightarrow>
          if \<not> distinct (map wi_task_id items) then Inl SchedulerInputError
          else schedule_loop
            (\<lambda>item pending.
               match_item sha lease_duration ident item role agents pending assignments now attempt items)
            (sort_key (work_item_sort_key t) items) leases)"

subsection \<open>Capacity as a sum\<close>

text \<open>The reference definition of the capacity an Agent has in use.\<close>

definition counted :: "'a WorkItem_scheme list \<Rightarrow> instant \<Rightarrow> string \<Rightarrow> TaskLease \<Rightarrow> bool" where
  "counted items at k l \<longleftrightarrow>
     lease_is_active l at \<and> tl_task_id l \<notin> set (waiting_tasks items) \<and> tl_agent_id l = k"

definition used_units :: "'a WorkItem_scheme list \<Rightarrow> instant \<Rightarrow> TaskLease list \<Rightarrow> string \<Rightarrow> int" where
  "used_units items at leases k = sum_list (map tl_capacity_units (filter (counted items at k) leases))"

lemma dict_get_update [simp]: "dict_get (m(k \<mapsto> v)) j = (if j = k then v else dict_get m j)"
  by (simp add: dict_get_def)

lemma dict_get_add_lease:
  "dict_get (add_lease (waiting_tasks items) at m l) k =
     dict_get m k + (if counted items at k l then tl_capacity_units l else 0)"
  by (auto simp: add_lease_def counted_def)

lemma active_capacity_sum:
  "dict_get (active_capacity agents leases items at) k = used_units items at leases k"
proof -
  have "dict_get (foldl (add_lease (waiting_tasks items) at) m leases) k =
      dict_get m k + used_units items at leases k" for m
    by (induction leases arbitrary: m) (auto simp: used_units_def dict_get_add_lease)
  moreover have "dict_get (\<lambda>k. if k \<in> set (map ap_id agents) then Some 0 else None) k = 0"
    by (simp add: dict_get_def)
  ultimately show ?thesis by (simp add: active_capacity_def)
qed

lemma used_units_append [simp]:
  "used_units items at (ls @ ms) k = used_units items at ls k + used_units items at ms k"
  by (simp add: used_units_def)

lemma used_units_single:
  "used_units items at [l] k = (if counted items at k l then tl_capacity_units l else 0)"
  by (simp add: used_units_def)

subsection \<open>One Agent\<close>

definition agent_qualified ::
  "'a WorkItem_scheme \<Rightarrow> AgentRole \<Rightarrow> (string \<Rightarrow> int option) \<Rightarrow> RoleAssignment list \<Rightarrow> AgentProfile \<Rightarrow> bool" where
  "agent_qualified item role capacity assignments agent \<longleftrightarrow>
     ap_active agent \<and>
     (case TeamRole_of_value (AgentRole_value role) of
        None \<Rightarrow> False | Some tr \<Rightarrow> tr \<in> set (ap_eligible_roles agent)) \<and>
     set (wi_required_capabilities item) \<subseteq> set (ap_capabilities agent) \<and>
     dict_get capacity (ap_id agent) + 1 \<le> ap_max_parallel_assignments agent \<and>
     \<not> list_ex (\<lambda>b. ra_task_id b = wi_task_id item \<and> ra_agent_id b = ap_id agent \<and> ra_role b \<noteq> role \<and>
          ra_role b \<in> set INDEPENDENT_DELIVERY_ROLES \<and> role \<in> set INDEPENDENT_DELIVERY_ROLES) assignments"

lemma build_assignment_fields [simp]:
  "ra_task_id (build_assignment sha ident item role agent n t) = wi_task_id item"
  "ra_repository_id (build_assignment sha ident item role agent n t) = wi_repository_id item"
  "ra_agent_id (build_assignment sha ident item role agent n t) = agent"
  "ra_role (build_assignment sha ident item role agent n t) = role"
  "ra_attempt (build_assignment sha ident item role agent n t) = n"
  "ra_capacity_units (build_assignment sha ident item role agent n t) = 1"
  "ra_assigned_at (build_assignment sha ident item role agent n t) = t"
  by (simp_all add: build_assignment_def Let_def)

lemma independence_built:
  "validate_assignment_independence (build_assignment sha ident item role agent n t) assignments = None \<longleftrightarrow>
     \<not> list_ex (\<lambda>b. ra_task_id b = wi_task_id item \<and> ra_agent_id b = agent \<and> ra_role b \<noteq> role \<and>
          ra_role b \<in> set INDEPENDENT_DELIVERY_ROLES \<and> role \<in> set INDEPENDENT_DELIVERY_ROLES) assignments"
  by (auto simp: independence_None_iff roles_conflict_def list_ex_iff)

lemma construct_Inr_iff [simp]: "construct valid x = Inr y \<longleftrightarrow> valid x \<and> y = x"
  by (auto simp: construct_def)

lemma map_sum_Inr_iff: "map_sum f g m = Inr y \<longleftrightarrow> (\<exists>x. m = Inr x \<and> y = g x)"
  by (cases m) auto

lemma refuse_not_decides [simp]: "refuse a c m ms \<noteq> Inr (Decides d)"
  by (auto simp: refuse_def map_sum_Inr_iff)

definition assigned_decision ::
  "(string \<Rightarrow> string) \<Rightarrow> int \<Rightarrow> ('a WorkItem_scheme \<Rightarrow> string \<times> int) \<Rightarrow> 'a WorkItem_scheme \<Rightarrow> AgentRole \<Rightarrow>
   instant \<Rightarrow> int \<Rightarrow> AgentProfile \<Rightarrow> AssignmentDecision" where
  "assigned_decision sha ld ident item role now attempt agent =
     (let candidate = build_assignment sha ident item role (ap_id agent) attempt now
      in \<lparr>ad_status = AD_ASSIGNED, ad_task_id = wi_task_id item,
          ad_repository_id = wi_repository_id item, ad_role = role, ad_attempt = attempt,
          ad_agent_id = Some (ap_id agent), ad_assignment = Some candidate,
          ad_lease = Some (build_lease ld candidate (wi_task_id item) (ap_id agent) now),
          ad_reasons = [], ad_decided_at = now\<rparr>)"

lemma try_agent_decides:
  assumes "try_agent sha ld ident item role capacity assignments now n agent = Inr (Decides d)"
  shows "agent_qualified item role capacity assignments agent"
    "d = assigned_decision sha ld ident item role now n agent" "valid_AssignmentDecision d"
  using assms
  unfolding try_agent_def agent_qualified_def assigned_decision_def Let_def
  by (auto simp: bind_res_Inr_iff map_sum_Inr_iff independence_built
      split: if_splits option.splits)

text \<open>What is used of SHA-256: a digest is 64 lower-case hexadecimal digits.\<close>

definition hex_digest :: "(string \<Rightarrow> string) \<Rightarrow> bool" where
  "hex_digest sha \<longleftrightarrow> (\<forall>x. match_hex 64 64 (sha x))"

lemma stable_id_valid:
  assumes "hex_digest sha"
  shows "match_id (prefix @ ''_'') 2 63 (stable_id sha prefix parts)"
proof -
  let ?h = "sha (join_bar parts)"
  have len: "length ?h = 64" and hex: "list_all hex_char ?h"
    using assms by (auto simp: hex_digest_def match_hex_def intro: antisym)
  obtain c cs where c: "take 24 ?h = c # cs" "length cs = 23"
    using len by (cases "take 24 ?h") (auto dest: arg_cong [where f = length])
  have "list_all hex_char (c # cs)"
    using hex unfolding c(1) [symmetric] by (auto simp: list_all_iff dest: in_set_takeD)
  moreover have "CHR ''f'' \<le> CHR ''z''"
    by code_simp
  then have "hex_char x \<Longrightarrow> lower_or_digit x" for x
    by (auto simp: hex_char_def lower_or_digit_def intro: order_trans)
  ultimately show ?thesis
    using c by (auto simp: match_id_def stable_id_def id_tail_char_def list_all_iff)
qed

lemma assigned_decision_valid:
  assumes "hex_digest sha" and "0 < ld" and "valid_TaskId (wi_task_id item)"
    and "valid_RepositoryId (wi_repository_id item)" and "valid_AgentProfile agent"
    and "valid_ExecutionAttempt n"
  shows "valid_RoleAssignment (build_assignment sha ident item role (ap_id agent) n now)"
    "valid_TaskLease (build_lease ld (build_assignment sha ident item role (ap_id agent) n now)
       (wi_task_id item) (ap_id agent) now)"
    "valid_AssignmentDecision (assigned_decision sha ld ident item role now n agent)"
proof -
  let ?a = "build_assignment sha ident item role (ap_id agent) n now"
  have agent: "valid_AgentId (ap_id agent)" using assms(5) by (simp add: valid_AgentProfile_def)
  have ids: "valid_AssignmentId (ra_id ?a)" "valid_LeaseId (ra_lease_id ?a)"
    using stable_id_valid [of sha "''assignment''", OF assms(1)]
      stable_id_valid [of sha "''lease''", OF assms(1)]
    by (simp_all add: build_assignment_def valid_AssignmentId_def valid_LeaseId_def Let_def)
  have n: "valid_ExecutionCount n" "\<not> n < 1"
    using assms(6) by (auto simp: valid_ExecutionAttempt_def valid_ExecutionCount_def in_range_def)
  show ra: "valid_RoleAssignment ?a"
    using assms(3,4) agent ids n by (simp add: valid_RoleAssignment_def in_range_def)
  show tl: "valid_TaskLease (build_lease ld ?a (wi_task_id item) (ap_id agent) now)"
    using assms(2,3) agent ids by (simp add: valid_TaskLease_def build_lease_def in_range_def)
  show "valid_AssignmentDecision (assigned_decision sha ld ident item role now n agent)"
    using assms(3,4,6) agent ra tl
    by (simp add: valid_AssignmentDecision_def assigned_decision_def decision_shape_def Let_def build_lease_def)
qed

lemma refuse_valid:
  assumes "valid_AgentId (ap_id agent)" and "list_all non_empty missing" and "distinct missing"
    and "code = AC_CAPABILITY_MISMATCH \<longrightarrow> missing \<noteq> []"
  shows "\<exists>r. refuse agent code m missing = Inr (Refuses r) \<and> valid_AssignmentRejection r \<and>
    ar_agent_id r = Some (ap_id agent)"
proof -
  let ?r = "\<lparr>ar_code = code, ar_message = m, ar_agent_id = Some (ap_id agent),
     ar_missing_capabilities = (if code = AC_CAPABILITY_MISMATCH then missing else [])\<rparr>"
  have "valid_AssignmentRejection ?r"
    using assms by (simp add: valid_AssignmentRejection_def)
  then show ?thesis
    by (auto simp: refuse_def construct_def)
qed

lemma try_agent_total:
  assumes sha: "hex_digest sha" and "0 < ld" and item: "valid_TaskId (wi_task_id item)"
    "valid_RepositoryId (wi_repository_id item)" "list_all non_empty (wi_required_capabilities item)"
    and agent: "valid_AgentProfile agent" and n: "valid_ExecutionAttempt n" and role: "role \<noteq> AR_ORCHESTRATOR"
  shows "if agent_qualified item role capacity assignments agent
     then try_agent sha ld ident item role capacity assignments now n agent =
       Inr (Decides (assigned_decision sha ld ident item role now n agent))
     else \<exists>r. try_agent sha ld ident item role capacity assignments now n agent = Inr (Refuses r) \<and>
       valid_AssignmentRejection r \<and> ar_agent_id r = Some (ap_id agent)"
proof -
  let ?missing = "missing_capabilities (wi_required_capabilities item) (ap_capabilities agent)"
  have ne: "list_all non_empty ?missing"
    using item(3) by (auto simp: list_all_iff)
  have aid: "valid_AgentId (ap_id agent)"
    using agent by (simp add: valid_AgentProfile_def)
  have ref: "\<exists>r. refuse agent code m ?missing = Inr (Refuses r) \<and> valid_AssignmentRejection r \<and>
      ar_agent_id r = Some (ap_id agent)" if "code = AC_CAPABILITY_MISMATCH \<longrightarrow> ?missing \<noteq> []" for code m
    using refuse_valid [OF aid ne distinct_missing that] .
  obtain tr where tr: "TeamRole_of_value (AgentRole_value role) = Some tr"
    using role TeamRole_of_delivery_role by blast
  note ok = assigned_decision_valid [OF sha assms(2) item(1,2) agent n]
  let ?cand = "build_assignment sha ident item role (ap_id agent) n now"
  show ?thesis
  proof (cases "agent_qualified item role capacity assignments agent")
    case True
    then have "validate_assignment_independence ?cand assignments = None"
      unfolding independence_built by (simp add: agent_qualified_def)
    with True tr ok show ?thesis
      by (simp add: try_agent_def agent_qualified_def assigned_decision_def Let_def construct_def)
  next
    case False
    consider "\<not> ap_active agent" | "tr \<notin> set (ap_eligible_roles agent)" | "?missing \<noteq> []"
      | "ap_max_parallel_assignments agent < dict_get capacity (ap_id agent) + 1"
      | prior where "validate_assignment_independence ?cand assignments = Some prior"
      using False tr independence_built [of sha ident item role "ap_id agent" n now assignments]
      by (fastforce simp: agent_qualified_def)
    then have "\<exists>code m. (code = AC_CAPABILITY_MISMATCH \<longrightarrow> ?missing \<noteq> []) \<and>
        try_agent sha ld ident item role capacity assignments now n agent = refuse agent code m ?missing"
      using tr ok(1) by cases (auto simp: try_agent_def Let_def construct_def split: option.splits)
    with False ref show ?thesis by fastforce
  qed
qed

subsection \<open>The Agent loop\<close>

lemma agent_loop_Inl:
  "agent_loop attempt_one agents rej = Inr (Inl d) \<Longrightarrow> \<exists>a \<in> set agents. attempt_one a = Inr (Decides d)"
proof (induction agents arbitrary: rej)
  case (Cons a agents)
  then obtain out where "attempt_one a = Inr out" "(case out of Decides d \<Rightarrow> Inr (Inl d)
      | Refuses r \<Rightarrow> agent_loop attempt_one agents (rej @ [r])) = Inr (Inl d)"
    by (auto simp: bind_res_Inr_iff)
  with Cons.IH show ?case by (cases out) auto
qed simp

lemma agent_loop_total:
  assumes "\<And>a. a \<in> set agents \<Longrightarrow> if q a then attempt_one a = Inr (Decides (dec a))
      else \<exists>r. attempt_one a = Inr (Refuses r) \<and> ok a r"
  shows "if \<exists>a \<in> set agents. q a
     then \<exists>a. find q agents = Some a \<and> agent_loop attempt_one agents rej = Inr (Inl (dec a))
     else \<exists>rs. list_all2 ok agents rs \<and> agent_loop attempt_one agents rej = Inr (Inr (rej @ rs))"
  using assms
proof (induction agents arbitrary: rej)
  case (Cons a agents)
  show ?case
  proof (cases "q a")
    case True
    with Cons.prems [of a] show ?thesis by simp
  next
    case False
    then obtain r where r: "attempt_one a = Inr (Refuses r)" "ok a r"
      using Cons.prems [of a] by auto
    show ?thesis
      using Cons.IH [of "rej @ [r]"] Cons.prems False r by (auto simp: list_all2_Cons1)
  qed
qed simp

lemma agent_sort_key_inj:
  "distinct (map ap_id agents) \<Longrightarrow> inj_on (agent_sort_key c pr) (set agents)"
  by (auto simp: inj_on_def agent_sort_key_def Let_def distinct_map)

lemma find_sort_key_minimal:
  assumes "find q (sort_key f xs) = Some a" and "b \<in> set xs" and "q b"
  shows "f a \<le> f b"
  using assms
proof (induction "sort_key f xs" arbitrary: xs)
  case (Cons y ys)
  have hd: "f y \<le> f x" if "x \<in> set xs" for x
    using hd_sort_key_minimal [OF Cons.hyps(2) [symmetric] that] .
  show ?case
  proof (cases "q y")
    case True
    with Cons hd show ?thesis by (metis find.simps(2) option.inject)
  next
    case False
    have ys: "sort_key f ys = ys"
      using sorted_sort_key [of f xs] Cons.hyps(2) by (metis list.simps(9) sort_key_id_if_sorted sorted_wrt.simps(2) sorted_simps(2))
    have "b \<in> set ys"
      using Cons.prems(2,3) Cons.hyps(2) False by (metis set_ConsD set_sort)
    with Cons.hyps(1) [of ys] ys Cons.prems False Cons.hyps(2) show ?thesis
      by (metis find.simps(2))
  qed
qed simp

definition ready_now :: "'a WorkItem_scheme \<Rightarrow> instant \<Rightarrow> bool" where
  "ready_now item now \<longleftrightarrow>
     wi_status item = WI_READY \<and> (case wi_available_at item of None \<Rightarrow> True | Some a \<Rightarrow> a \<le> now) \<or>
     wi_status item = WI_RETRY_SCHEDULED \<and> (case wi_available_at item of None \<Rightarrow> False | Some a \<Rightarrow> a \<le> now)"

lemma readiness_None_iff: "readiness_rejection item now = None \<longleftrightarrow> ready_now item now"
  by (cases "wi_status item")
    (auto simp: readiness_rejection_def ready_now_def is_waiting_def WAITING_STATUSES_def
      split: option.splits)

lemma readiness_rejection_valid:
  "readiness_rejection item now = Some r \<Longrightarrow> valid_AssignmentRejection r"
  by (auto simp: readiness_rejection_def plain_rejection_def valid_AssignmentRejection_def
      split: if_splits option.splits)

lemma rejected_no_lease: "rejected item role n now rs = Inr d \<Longrightarrow> ad_status d = AD_REJECTED \<and> ad_lease d = None"
  by (auto simp: rejected_def)

lemma match_cases:
  assumes "match_item sha ld ident item role agents leases assignments now n items = Inr d"
  obtains (decided) t agent where "now = Aware t" "ready_now item t" "1 \<le> n" "agent \<in> set agents"
      "try_agent sha ld ident item role (active_capacity agents leases (all_work_items items item) t)
         assignments t n agent = Inr (Decides d)"
  | (refused) t rs where "now = Aware t" "rejected item role n t rs = Inr d"
proof -
  obtain t where t: "now = Aware t" "1 \<le> n"
    using assms by (auto simp: match_item_def split: py_datetime.splits if_splits)
  show thesis
  proof (cases "readiness_rejection item t")
    case None
    let ?cap = "active_capacity agents leases (all_work_items items item) t"
    let ?attempt_one = "try_agent sha ld ident item role ?cap assignments t n"
    let ?ord = "sort_key (agent_sort_key ?cap (wi_preferred_agent_id item)) agents"
    obtain res where res: "agent_loop ?attempt_one ?ord [] = Inr res" "(case res of Inl d \<Rightarrow> Inr d
      | Inr rs \<Rightarrow> rejected item role n t
          (if rs = [] then [plain_rejection AC_INVALID_INPUT RM_no_agents] else rs)) = Inr d"
      using assms t None by (auto simp: match_item_def match_agents_def Let_def bind_res_Inr_iff)
    show thesis
    proof (cases res)
      case (Inl d')
      then obtain a where "a \<in> set ?ord" "?attempt_one a = Inr (Decides d)"
        using res agent_loop_Inl by force
      with t None show thesis by (intro decided) (auto simp: readiness_None_iff)
    next
      case (Inr rs)
      with res(2) show thesis using refused [OF t(1)] by simp
    qed
  next
    case (Some r)
    with assms t show thesis by (intro refused [OF t(1)]) (auto simp: match_item_def)
  qed
qed

lemma match_assigned:
  assumes "match_item sha ld ident item role agents leases assignments now n items = Inr d"
    and "ad_status d = AD_ASSIGNED"
  obtains t agent where "now = Aware t" "ready_now item t" "1 \<le> n" "agent \<in> set agents"
    "agent_qualified item role (active_capacity agents leases (all_work_items items item) t) assignments agent"
    "d = assigned_decision sha ld ident item role t n agent" "valid_AssignmentDecision d"
  using assms(1)
proof (cases rule: match_cases)
  case (decided t agent)
  then show thesis using try_agent_decides [OF decided(5)] by (intro that [of t agent])
next
  case (refused t rs)
  with assms(2) show thesis by (auto dest: rejected_no_lease)
qed

lemma assigned_sound:
  assumes "match_item sha ld ident item role agents leases assignments now n items = Inr d"
    and "ad_status d = AD_ASSIGNED"
  shows "\<exists>t a ra l. now = Aware t \<and> ready_now item t \<and> a \<in> set agents \<and> ap_active a \<and>
     ad_agent_id d = Some (ap_id a) \<and> ad_assignment d = Some ra \<and> ad_lease d = Some l \<and>
     (\<exists>tr \<in> set (ap_eligible_roles a). TeamRole_of_value (AgentRole_value role) = Some tr) \<and>
     set (wi_required_capabilities item) \<subseteq> set (ap_capabilities a) \<and>
     used_units (all_work_items items item) t leases (ap_id a) + tl_capacity_units l
       \<le> ap_max_parallel_assignments a \<and>
     validate_assignment_independence ra assignments = None \<and>
     tl_task_id l = wi_task_id item \<and> tl_agent_id l = ap_id a \<and> tl_assignment_id l = ra_id ra \<and>
     tl_acquired_at l = t \<and> valid_TaskLease l \<and> valid_RoleAssignment ra"
proof -
  obtain t a where m: "now = Aware t" "ready_now item t" "a \<in> set agents"
      "agent_qualified item role (active_capacity agents leases (all_work_items items item) t) assignments a"
      "d = assigned_decision sha ld ident item role t n a" "valid_AssignmentDecision d"
    using assms by (rule match_assigned)
  let ?ra = "build_assignment sha ident item role (ap_id a) n t"
  have "validate_assignment_independence ?ra assignments = None"
    using m(4) unfolding independence_built by (simp add: agent_qualified_def)
  with m show ?thesis
    by (intro exI [of _ t] exI [of _ a] exI [of _ ?ra]
        exI [of _ "build_lease ld ?ra (wi_task_id item) (ap_id a) t"])
      (auto simp: agent_qualified_def assigned_decision_def build_lease_def active_capacity_sum Let_def
        valid_AssignmentDecision_def split: option.splits)
qed

subsection \<open>Properties of matching\<close>

text \<open>
  C28. An assignment is always admissible and exact: the item is ready at the decision time, and the chosen
  Agent is one of those offered, is active, may hold the role, has all required capabilities, has a free
  unit of capacity beyond its active leases, and has held no other delivery role in the Task's history, so it
  reviews none of its own work. The decision, the assignment and the lease name exactly that item, Agent, role and
  attempt; the lease is the one of the assignment, uses one unit and runs from now for the configured time.
\<close>

theorem match_sound:
  assumes "match_item sha ld ident item role agents leases assignments now n items = Inr d"
    and "ad_status d = AD_ASSIGNED"
  shows "\<exists>t a ra l. now = Aware t \<and> ready_now item t \<and> a \<in> set agents \<and> ap_active a \<and>
     (\<exists>tr \<in> set (ap_eligible_roles a). TeamRole_of_value (AgentRole_value role) = Some tr) \<and>
     set (wi_required_capabilities item) \<subseteq> set (ap_capabilities a) \<and>
     used_units (all_work_items items item) t leases (ap_id a) + 1 \<le> ap_max_parallel_assignments a \<and>
     (\<forall>b \<in> set assignments. ra_task_id b = wi_task_id item \<and> ra_agent_id b = ap_id a \<and>
        {ra_role b, role} \<subseteq> {AR_CODER, AR_QA, AR_REVIEWER} \<longrightarrow> ra_role b = role) \<and>
     ad_task_id d = wi_task_id item \<and> ad_repository_id d = wi_repository_id item \<and> ad_role d = role \<and>
     ad_attempt d = n \<and> ad_agent_id d = Some (ap_id a) \<and> ad_assignment d = Some ra \<and> ad_lease d = Some l \<and>
     ra_task_id ra = wi_task_id item \<and> ra_repository_id ra = wi_repository_id item \<and> ra_agent_id ra = ap_id a \<and>
     ra_role ra = role \<and> ra_attempt ra = n \<and> ra_assigned_at ra = t \<and> ra_lease_id ra = tl_id l \<and>
     ra_capacity_units ra = 1 \<and>
     tl_task_id l = wi_task_id item \<and> tl_agent_id l = ap_id a \<and> tl_assignment_id l = ra_id ra \<and>
     tl_capacity_units l = 1 \<and> tl_acquired_at l = t \<and> tl_expires_at l = t + ld \<and>
     valid_TaskLease l \<and> valid_RoleAssignment ra"
proof -
  obtain t a where m: "now = Aware t" "ready_now item t" "a \<in> set agents"
      "agent_qualified item role (active_capacity agents leases (all_work_items items item) t) assignments a"
      "d = assigned_decision sha ld ident item role t n a" "valid_AssignmentDecision d"
    using assms by (rule match_assigned)
  let ?ra = "build_assignment sha ident item role (ap_id a) n t"
  let ?l = "build_lease ld ?ra (wi_task_id item) (ap_id a) t"
  have d: "ad_assignment d = Some ?ra" "ad_lease d = Some ?l" "ad_agent_id d = Some (ap_id a)"
    "ad_task_id d = wi_task_id item" "ad_repository_id d = wi_repository_id item" "ad_role d = role" "ad_attempt d = n"
    by (simp_all add: m(5) assigned_decision_def Let_def)
  have "valid_RoleAssignment ?ra" "valid_TaskLease ?l"
    using m(6) d by (simp_all add: valid_AssignmentDecision_def)
  with m d show ?thesis
    by (intro exI [of _ t] exI [of _ a] exI [of _ ?ra] exI [of _ ?l])
      (auto simp: agent_qualified_def active_capacity_sum build_lease_def list_ex_iff INDEPENDENT_DELIVERY_ROLES_def
        split: option.splits)
qed

text \<open>
  The conditions under which every value the scheduler builds passes validation.
\<close>

definition schedulable_input ::
  "(string \<Rightarrow> string) \<Rightarrow> int \<Rightarrow> 'a WorkItem_scheme \<Rightarrow> AgentRole \<Rightarrow> AgentProfile list \<Rightarrow> int \<Rightarrow> bool" where
  "schedulable_input sha ld item role agents n \<longleftrightarrow>
     hex_digest sha \<and> 0 < ld \<and> valid_TaskId (wi_task_id item) \<and>
     valid_RepositoryId (wi_repository_id item) \<and> list_all non_empty (wi_required_capabilities item) \<and>
     list_all valid_AgentProfile agents \<and> distinct (map ap_id agents) \<and> valid_ExecutionAttempt n \<and>
     role \<noteq> AR_ORCHESTRATOR"

lemma rejected_total:
  assumes "schedulable_input sha ld item role agents n" and "rs \<noteq> []" and "distinct rs"
    and "list_all valid_AssignmentRejection rs"
  shows "\<exists>d. rejected item role n t rs = Inr d \<and> ad_status d = AD_REJECTED \<and> ad_reasons d = rs"
  using assms
  by (simp add: rejected_def construct_def valid_AssignmentDecision_def decision_shape_def
      schedulable_input_def)

lemma rejections_distinct:
  assumes "list_all2 (\<lambda>a r. valid_AssignmentRejection r \<and> ar_agent_id r = Some (ap_id a)) agents rs"
    and "distinct (map ap_id agents)"
  shows "distinct rs" "list_all valid_AssignmentRejection rs" "map ar_agent_id rs = map (Some \<circ> ap_id) agents"
proof -
  show m: "map ar_agent_id rs = map (Some \<circ> ap_id) agents"
    using assms(1) by (induction rule: list_all2_induct) auto
  have "distinct (map (Some \<circ> ap_id) agents)"
    using assms(2) by (simp add: distinct_map comp_inj_on_iff [symmetric] inj_on_def)
  then show "distinct rs"
    unfolding m [symmetric] by (simp add: distinct_map)
  show "list_all valid_AssignmentRejection rs"
    using assms(1) by (induction rule: list_all2_induct) auto
qed

lemma match_agents_total:
  assumes ok: "schedulable_input sha ld item role agents n"
    and cap_def: "cap = active_capacity agents leases (all_work_items items item) t"
  shows "if \<exists>a \<in> set agents. agent_qualified item role cap assignments a
     then \<exists>a. find (agent_qualified item role cap assignments)
            (sort_key (agent_sort_key cap (wi_preferred_agent_id item)) agents) = Some a \<and>
          match_agents sha ld ident item role agents leases assignments t n items =
            Inr (assigned_decision sha ld ident item role t n a)
     else \<exists>d. match_agents sha ld ident item role agents leases assignments t n items = Inr d \<and>
          ad_status d = AD_REJECTED \<and> length (ad_reasons d) = max 1 (length agents)"
proof -
  let ?attempt_one = "try_agent sha ld ident item role cap assignments t n"
  let ?q = "agent_qualified item role cap assignments"
  let ?ord = "sort_key (agent_sort_key cap (wi_preferred_agent_id item)) agents"
  have one: "if ?q a then ?attempt_one a = Inr (Decides (assigned_decision sha ld ident item role t n a))
      else \<exists>r. ?attempt_one a = Inr (Refuses r) \<and> valid_AssignmentRejection r \<and> ar_agent_id r = Some (ap_id a)"
    if "a \<in> set ?ord" for a
    using ok that by (intro try_agent_total) (auto simp: schedulable_input_def list_all_iff)
  note loop = agent_loop_total [of ?ord ?q ?attempt_one "assigned_decision sha ld ident item role t n"
      "\<lambda>a r. valid_AssignmentRejection r \<and> ar_agent_id r = Some (ap_id a)" "[]", OF one]
  have M: "match_agents sha ld ident item role agents leases assignments t n items =
      bind_res (agent_loop ?attempt_one ?ord []) (\<lambda>res. case res of Inl d \<Rightarrow> Inr d
        | Inr rs \<Rightarrow> rejected item role n t
            (if rs = [] then [plain_rejection AC_INVALID_INPUT RM_no_agents] else rs))"
    by (simp add: match_agents_def cap_def Let_def)
  show ?thesis
  proof (cases "\<exists>a \<in> set agents. ?q a")
    case True
    with loop show ?thesis by (auto simp: M)
  next
    case False
    then obtain rs where rs: "list_all2 (\<lambda>a r. valid_AssignmentRejection r \<and> ar_agent_id r = Some (ap_id a)) ?ord rs"
        "agent_loop ?attempt_one ?ord [] = Inr (Inr rs)"
      using loop by auto
    have d: "distinct (map ap_id ?ord)"
      using ok by (simp add: schedulable_input_def distinct_map)
    have len: "length rs = length agents"
      using list_all2_lengthD [OF rs(1)] by simp
    let ?rs = "if rs = [] then [plain_rejection AC_INVALID_INPUT RM_no_agents] else rs"
    have "length ?rs = max 1 (length agents)"
      using len by (cases rs) auto
    moreover have "?rs \<noteq> []" "distinct ?rs" "list_all valid_AssignmentRejection ?rs"
      using rejections_distinct(1,2) [OF rs(1) d]
      by (auto simp: plain_rejection_def valid_AssignmentRejection_def)
    ultimately obtain d where "rejected item role n t ?rs = Inr d" "ad_status d = AD_REJECTED" "length (ad_reasons d) = max 1 (length agents)"
      using rejected_total [OF ok, of ?rs t] by auto
    with False rs(2) show ?thesis by (simp add: M)
  qed
qed

text \<open>
  The order of preference between Agents, apart from the sorting key of the code: \<open>used\<close> are the units an
  Agent has in use.
\<close>

definition free_units :: "(string \<Rightarrow> int) \<Rightarrow> AgentProfile \<Rightarrow> int" where
  "free_units used a = ap_max_parallel_assignments a - used (ap_id a)"

definition at_least_as_good :: "(string \<Rightarrow> int) \<Rightarrow> string option \<Rightarrow> AgentProfile \<Rightarrow> AgentProfile \<Rightarrow> bool" where
  "at_least_as_good used preferred a b \<longleftrightarrow>
     (if preferred = Some (ap_id a) then True
      else if preferred = Some (ap_id b) then False
      else if free_units used a \<noteq> free_units used b then free_units used a > free_units used b
      else if ap_max_parallel_assignments a \<noteq> ap_max_parallel_assignments b
        then ap_max_parallel_assignments a > ap_max_parallel_assignments b
      else ap_id a \<le> ap_id b)"

lemma sort_key_order:
  assumes "agent_sort_key cap preferred a \<le> agent_sort_key cap preferred b"
  shows "at_least_as_good (dict_get cap) preferred a b"
  using assms
  by (auto simp: agent_sort_key_def at_least_as_good_def free_units_def Let_def split: if_splits)

text \<open>
  C29. Matching is complete and picks the best Agent: for valid inputs a ready item is assigned
  exactly when some offered Agent qualifies. The item's preferred Agent is chosen whenever it qualifies; otherwise
  no qualified Agent has more free capacity than the chosen one, none with as much free has a larger
  limit, and none with the same limit as well has a smaller id. Otherwise the decision is a rejection, with one reason
  per Agent when the item is ready.
\<close>

theorem match_complete_and_optimal:
  assumes "schedulable_input sha ld item role agents n" and "ready_now item t"
    and "cap = active_capacity agents leases (all_work_items items item) t"
    and "used = used_units (all_work_items items item) t leases"
  shows "\<exists>d. match_item sha ld ident item role agents leases assignments (Aware t) n items = Inr d \<and>
     (ad_status d = AD_ASSIGNED \<longleftrightarrow> (\<exists>a \<in> set agents. agent_qualified item role cap assignments a)) \<and>
     (ad_status d = AD_ASSIGNED \<longrightarrow>
        (\<exists>a \<in> set agents. ad_agent_id d = Some (ap_id a) \<and> agent_qualified item role cap assignments a \<and>
          (\<forall>b \<in> set agents. agent_qualified item role cap assignments b \<longrightarrow>
             at_least_as_good used (wi_preferred_agent_id item) a b))) \<and>
     (ad_status d = AD_REJECTED \<longrightarrow> length (ad_reasons d) = max 1 (length agents))"
proof -
  have n: "\<not> n < 1"
    using assms(1) by (simp add: schedulable_input_def valid_ExecutionAttempt_def in_range_def)
  have M: "match_item sha ld ident item role agents leases assignments (Aware t) n items =
      match_agents sha ld ident item role agents leases assignments t n items"
    using n assms(2) by (simp add: match_item_def readiness_None_iff [symmetric])
  note T = match_agents_total [OF assms(1,3), of assignments ident]
  show ?thesis
  proof (cases "\<exists>a \<in> set agents. agent_qualified item role cap assignments a")
    case True
    then obtain a where a: "find (agent_qualified item role cap assignments)
          (sort_key (agent_sort_key cap (wi_preferred_agent_id item)) agents) = Some a"
        "match_agents sha ld ident item role agents leases assignments t n items =
            Inr (assigned_decision sha ld ident item role t n a)"
      using T by auto
    have "agent_qualified item role cap assignments a" "a \<in> set agents"
      using find_Some_mem [OF a(1)] by simp_all
    have used: "used = dict_get cap" by (rule ext) (simp add: assms(3,4) active_capacity_sum)
    have "at_least_as_good used (wi_preferred_agent_id item) a b"
      if "b \<in> set agents" "agent_qualified item role cap assignments b" for b
      unfolding used using find_sort_key_minimal [OF a(1) that] by (rule sort_key_order)
    with True M a(2) \<open>agent_qualified item role cap assignments a\<close> \<open>a \<in> set agents\<close> show ?thesis
      by (auto simp: assigned_decision_def Let_def)
  next
    case False
    with T obtain d where "match_agents sha ld ident item role agents leases assignments t n items = Inr d"
        "ad_status d = AD_REJECTED" "length (ad_reasons d) = max 1 (length agents)"
      by auto
    with False M show ?thesis by auto
  qed
qed

text \<open>
  The decision does not depend on the order in which the Agents are listed.
\<close>

theorem match_order_independent:
  assumes "mset agents = mset agents'" and "distinct (map ap_id agents)"
  shows "match_item sha ld ident item role agents leases assignments now n items =
    match_item sha ld ident item role agents' leases assignments now n items"
proof -
  have "set agents = set agents'"
    using assms(1) by (rule mset_eq_setD)
  then have "active_capacity agents leases its t = active_capacity agents' leases its t"
    for its :: "'a WorkItem_scheme list" and t
    by (simp add: active_capacity_def)
  moreover have "sort_key (agent_sort_key c pr) agents = sort_key (agent_sort_key c pr) agents'" for c pr
    using assms by (intro sort_key_perm_eq agent_sort_key_inj)
  ultimately have "match_agents sha ld ident item role agents leases assignments t n items =
      match_agents sha ld ident item role agents' leases assignments t n items" for t
    by (simp add: match_agents_def)
  then show ?thesis
    by (auto simp: match_item_def split: py_datetime.splits option.splits)
qed

subsection \<open>Properties of a batch\<close>

lemma match_task_id:
  assumes "match_item sha ld ident item role agents leases assignments now n items = Inr d"
  shows "ad_task_id d = wi_task_id item \<and> (ad_lease d \<noteq> None \<longleftrightarrow> ad_status d = AD_ASSIGNED)"
  using assms
proof (cases rule: match_cases)
  case (decided t agent)
  then show ?thesis
    using try_agent_decides(2) [OF decided(5)] by (simp add: assigned_decision_def Let_def)
qed (auto simp: rejected_def)

definition emitted_leases :: "AssignmentDecision list \<Rightarrow> TaskLease list" where
  "emitted_leases ds = map (the \<circ> ad_lease) (filter (\<lambda>d. ad_lease d \<noteq> None) ds)"

lemma emitted_Cons:
  "emitted_leases (d # ds) =
     (case ad_lease d of None \<Rightarrow> emitted_leases ds | Some l \<Rightarrow> l # emitted_leases ds)"
  by (auto simp: emitted_leases_def split: option.splits)

definition lease_units :: "TaskLease list \<Rightarrow> string \<Rightarrow> int" where
  "lease_units ls k = sum_list (map tl_capacity_units (filter (\<lambda>l. tl_agent_id l = k) ls))"

lemma schedule_Inr:
  assumes "schedule sha ld ident items role agents leases assignments now n = Inr ds"
  obtains t where "now = Aware t" "distinct (map wi_task_id items)"
    "schedule_loop (\<lambda>item pending.
       match_item sha ld ident item role agents pending assignments now n items)
       (sort_key (work_item_sort_key t) items) leases = Inr ds"
  using assms by (auto simp: schedule_def split: py_datetime.splits if_splits)

lemma schedule_loop_tasks:
  assumes "\<And>item pending d. match item pending = Inr d \<Longrightarrow> ad_task_id d = wi_task_id item"
    and "schedule_loop match items pending = Inr ds"
  shows "map ad_task_id ds = map wi_task_id items"
  using assms(2)
  by (induction items arbitrary: pending ds) (auto simp: bind_res_Inr_iff assms(1))

text \<open>
  A batch yields exactly one decision per work item, in scheduling order: ready items first,
  then by descending priority, descending risk, age and id.
\<close>

theorem schedule_one_decision_per_item:
  assumes "schedule sha ld ident items role agents leases assignments now n = Inr ds"
  shows "\<exists>t. now = Aware t \<and>
     map ad_task_id ds = map wi_task_id (sort_key (work_item_sort_key t) items) \<and>
     mset (map ad_task_id ds) = mset (map wi_task_id items) \<and> distinct (map ad_task_id ds)"
proof -
  obtain t where t: "now = Aware t" "distinct (map wi_task_id items)"
    "schedule_loop (\<lambda>item pending.
       match_item sha ld ident item role agents pending assignments now n items)
       (sort_key (work_item_sort_key t) items) leases = Inr ds"
    using assms by (rule schedule_Inr)
  have ids: "map ad_task_id ds = map wi_task_id (sort_key (work_item_sort_key t) items)"
    using match_task_id t(3) by (intro schedule_loop_tasks [OF _ t(3)]) blast
  moreover have "distinct (map wi_task_id (sort_key (work_item_sort_key t) items))"
    using t(2) by (simp add: distinct_map)
  ultimately show ?thesis using t(1) by simp
qed

lemma match_lease_units:
  assumes "match_item sha ld ident item role agents pending assignments (Aware t) n items = Inr d"
    and "ad_lease d = Some l" and "item \<in> set items" and "distinct (map ap_id agents)" and "0 < ld"
  obtains a where "a \<in> set agents" "tl_agent_id l = ap_id a" "tl_capacity_units l = 1"
    "tl_task_id l = wi_task_id item" "lease_is_active l t"
    "used_units items t pending (ap_id a) + 1 \<le> ap_max_parallel_assignments a"
proof -
  have "ad_status d = AD_ASSIGNED"
    using match_task_id [OF assms(1)] assms(2) by auto
  with assms(1) obtain a where a: "a \<in> set agents"
      "agent_qualified item role (active_capacity agents pending (all_work_items items item) t) assignments a"
      "d = assigned_decision sha ld ident item role t n a"
    by (auto elim: match_assigned)
  have "all_work_items items item = items"
    using assms(3) by (auto simp: all_work_items_def)
  with a assms(2,5) show thesis
    by (intro that [OF a(1)])
      (auto simp: agent_qualified_def assigned_decision_def build_lease_def Let_def active_capacity_sum
        lease_is_active_def)
qed

lemma schedule_loop_capacity:
  assumes "schedule_loop (\<lambda>item pending.
      match_item sha ld ident item role agents pending assignments (Aware t) n items) its pending = Inr ds"
    and "set its \<subseteq> set items" and "distinct (map wi_task_id items)" and "distinct (map ap_id agents)"
    and "0 < ld" and "\<forall>i \<in> set its. wi_status i \<noteq> WI_RETRY_SCHEDULED"
    and "\<forall>a \<in> set agents. used_units items t pending (ap_id a) \<le> ap_max_parallel_assignments a"
    and "a \<in> set agents"
  shows "used_units items t pending (ap_id a) + lease_units (emitted_leases ds) (ap_id a)
    \<le> ap_max_parallel_assignments a"
  using assms(1,2,6,7)
proof (induction its arbitrary: pending ds)
  case Nil
  with assms(8) show ?case by (simp add: emitted_leases_def lease_units_def)
next
  case (Cons i its)
  let ?pending = "\<lambda>d. case ad_lease d of None \<Rightarrow> pending | Some l \<Rightarrow> pending @ [l]"
  obtain d ds' where d: "match_item sha ld ident i role agents pending assignments (Aware t) n items = Inr d"
    and ds: "ds = d # ds'" "schedule_loop (\<lambda>item pending.
      match_item sha ld ident item role agents pending assignments (Aware t) n items) its (?pending d) = Inr ds'"
    using Cons.prems(1) by (auto simp: bind_res_Inr_iff)
  show ?case
  proof (cases "ad_lease d")
    case None
    with Cons ds show ?thesis by (simp add: emitted_Cons)
  next
    case (Some l)
    obtain b where b: "b \<in> set agents" "tl_agent_id l = ap_id b" "tl_capacity_units l = 1"
        "tl_task_id l = wi_task_id i" "lease_is_active l t"
        "used_units items t pending (ap_id b) + 1 \<le> ap_max_parallel_assignments b"
      using match_lease_units [OF d Some _ assms(4,5)] Cons.prems(2) by auto
    have ready: "\<not> is_waiting (wi_status i)"
    proof -
      have "ad_status d = AD_ASSIGNED" using match_task_id [OF d] Some by auto
      with d have "ready_now i t" by (auto elim: match_assigned)
      with Cons.prems(3) show ?thesis
        by (auto simp: ready_now_def is_waiting_def WAITING_STATUSES_def)
    qed
    then have "wi_task_id i \<notin> set (waiting_tasks items)"
      using Cons.prems(2) assms(3) by (auto simp: waiting_tasks_def distinct_map inj_on_def)
    with b(2-5) have one: "used_units items t [l] k = (if k = ap_id b then 1 else 0)" for k
      by (auto simp: used_units_single counted_def)
    have same: "x = b" if "x \<in> set agents" "ap_id x = ap_id b" for x
      using that b(1) assms(4) by (auto simp: distinct_map dest: inj_onD)
    have "\<forall>x \<in> set agents. used_units items t (pending @ [l]) (ap_id x) \<le> ap_max_parallel_assignments x"
      using Cons.prems(4) b(6) same by (auto simp: one)
    then have "used_units items t (pending @ [l]) (ap_id a) + lease_units (emitted_leases ds') (ap_id a)
        \<le> ap_max_parallel_assignments a"
      using Cons.IH [of "pending @ [l]" ds'] ds(2) Some Cons.prems(2,3) by simp
    then show ?thesis
      using Some b(2,3) by (simp add: ds(1) emitted_Cons one lease_units_def split: if_splits)
  qed
qed

text \<open>
  A batch never overbooks an Agent when no presented item is a scheduled retry: if every Agent
  starts within its limit, the units already in use plus all units granted in this call stay within
  the limit.
\<close>

theorem schedule_respects_capacity:
  assumes "schedule sha ld ident items role agents leases assignments (Aware t) n = Inr ds"
    and "distinct (map ap_id agents)" and "0 < ld"
    and "list_all (\<lambda>i. wi_status i \<noteq> WI_RETRY_SCHEDULED) items"
    and "list_all (\<lambda>a. used_units items t leases (ap_id a) \<le> ap_max_parallel_assignments a) agents"
    and "a \<in> set agents"
  shows "used_units items t leases (ap_id a) + lease_units (emitted_leases ds) (ap_id a)
    \<le> ap_max_parallel_assignments a"
proof -
  obtain t' where t: "Aware t = Aware t'" "distinct (map wi_task_id items)"
    "schedule_loop (\<lambda>item pending.
       match_item sha ld ident item role agents pending assignments (Aware t) n items)
       (sort_key (work_item_sort_key t') items) leases = Inr ds"
    using assms(1) by (rule schedule_Inr)
  show ?thesis
    by (rule schedule_loop_capacity [OF t(3) _ t(2) assms(2,3) _ _ assms(6)])
      (use assms(4,5) in \<open>auto simp: list_all_iff\<close>)
qed

subsection \<open>Concrete runs\<close>

definition sample_item :: "string \<Rightarrow> WorkItemStatus \<Rightarrow> WorkItem" where
  "sample_item task status =
     \<lparr>wi_task_id = task, wi_repository_id = ''repository_a01'', wi_status = status, wi_priority = 5,
      wi_risk = RT_LOW, wi_required_capabilities = [''py''], wi_preferred_agent_id = None,
      wi_wait_reason = (if status = WI_RETRY_SCHEDULED then Some ''retry'' else None),
      wi_wait_disposition = None,
      wi_available_at = (if status = WI_RETRY_SCHEDULED then Some 50 else None),
      wi_created_at = 0, wi_updated_at = 0\<rparr>"

definition plain_ident :: "WorkItem \<Rightarrow> string \<times> int" where
  "plain_ident item = (wi_task_id item, 0)"

definition const_sha :: "string \<Rightarrow> string" where
  "const_sha s = replicate 64 (CHR ''a'')"

lemma const_sha_hex: "hex_digest const_sha"
proof -
  have "match_hex 64 64 (replicate 64 (CHR ''a''))" by code_simp
  then show ?thesis by (simp add: hex_digest_def const_sha_def)
qed

abbreviation sample_match :: "WorkItem \<Rightarrow> TaskLease list \<Rightarrow> sched_error + AssignmentDecision" where
  "sample_match item leases \<equiv>
     match_item const_sha 10 plain_ident item AR_CODER [sample_agent] leases [] (Aware 100) 1 []"

abbreviation sample_granted :: "string \<Rightarrow> WorkItemStatus \<Rightarrow> AssignmentDecision" where
  "sample_granted task status \<equiv>
     assigned_decision const_sha 10 plain_ident (sample_item task status) AR_CODER 100 1 sample_agent"

definition earlier_work :: "AgentRole \<Rightarrow> RoleAssignment" where
  "earlier_work role = build_assignment const_sha plain_ident (sample_item ''task_a01'' WI_READY) role ''agent_b01'' 1 0"

text \<open>Three Agents of which the second has coded the Task before, so that it may not review it.\<close>

definition sample_team :: "AgentProfile list" where
  "sample_team =
     [sample_agent, sample_agent\<lparr>ap_id := ''agent_b01'', ap_max_parallel_assignments := 2\<rparr>,
      sample_agent\<lparr>ap_id := ''agent_c01'', ap_max_parallel_assignments := 3\<rparr>]"

abbreviation team_match :: "string option \<Rightarrow> AgentRole \<Rightarrow> sched_error + AssignmentDecision" where
  "team_match preferred role \<equiv>
     match_item const_sha 10 plain_ident ((sample_item ''task_a01'' WI_READY)\<lparr>wi_preferred_agent_id := preferred\<rparr>) role
       sample_team [] [earlier_work AR_CODER] (Aware 100) 1 []"

theorem match_sound_witness:
  "\<exists>d ra. team_match (Some ''agent_b01'') AR_REVIEWER = Inr d \<and> ad_assignment d = Some ra \<and>
     ra_task_id ra = ''task_a01'' \<and> ra_role ra = AR_REVIEWER \<and> ra_agent_id ra \<noteq> ''agent_b01''"
proof -
  have "(case team_match (Some ''agent_b01'') AR_REVIEWER of Inl _ \<Rightarrow> False | Inr d \<Rightarrow> ad_status d = AD_ASSIGNED)"
    by code_simp
  then obtain d where d: "team_match (Some ''agent_b01'') AR_REVIEWER = Inr d" "ad_status d = AD_ASSIGNED"
    by (cases "team_match (Some ''agent_b01'') AR_REVIEWER") auto
  show ?thesis
    using match_sound [OF d] d(1) by (auto simp: sample_item_def earlier_work_def)
qed

theorem match_complete_and_optimal_witness:
  "\<exists>d e. team_match (Some ''agent_a01'') AR_CODER = Inr d \<and> ad_agent_id d = Some ''agent_a01'' \<and>
     team_match None AR_CODER = Inr e \<and> ad_agent_id e = Some ''agent_c01''"
proof -
  let ?item = "\<lambda>p. (sample_item ''task_a01'' WI_READY)\<lparr>wi_preferred_agent_id := p\<rparr>"
  let ?cap = "\<lambda>p. active_capacity sample_team [] (all_work_items [] (?item p)) 100"
  have team: "list_all valid_AgentProfile sample_team" by code_simp
  have ok: "schedulable_input const_sha 10 (?item p) AR_CODER sample_team 1" for p
  proof -
    have "valid_TaskId ''task_a01'' \<and> valid_RepositoryId ''repository_a01'' \<and> list_all non_empty [''py''] \<and>
        distinct (map ap_id sample_team) \<and> valid_ExecutionAttempt 1"
      by code_simp
    with team show ?thesis using const_sha_hex by (simp add: schedulable_input_def sample_item_def)
  qed
  have ready: "ready_now (?item p) 100" for p by (simp add: ready_now_def sample_item_def)
  have used: "used_units (all_work_items [] (?item p)) 100 [] = (\<lambda>_. 0)" for p
    by (simp add: used_units_def fun_eq_iff)
  have coder: "TeamRole_of_value ''coder'' = Some TR_CODER" by code_simp
  have all: "agent_qualified (?item p) AR_CODER (?cap p) [earlier_work AR_CODER] a" if "a \<in> set sample_team" for a p
    using that
    by (auto simp: agent_qualified_def sample_team_def sample_agent_def sample_item_def earlier_work_def
        active_capacity_sum used_units_def coder)
  note M = match_complete_and_optimal [where leases = "[]" and items = "[]" and ident = plain_ident
      and assignments = "[earlier_work AR_CODER]", OF ok ready refl refl, unfolded used]
  have "\<exists>a \<in> set sample_team. agent_qualified (?item p) AR_CODER (?cap p) [earlier_work AR_CODER] a" for p
    using all by (auto simp: sample_team_def)
  then have chosen: "\<exists>d a. team_match p AR_CODER = Inr d \<and> ad_agent_id d = Some (ap_id a) \<and> a \<in> set sample_team \<and>
      (\<forall>b \<in> set sample_team. at_least_as_good (\<lambda>_. 0) p a b)" for p
    using M [of p] all by (auto simp: sample_item_def)
  have best: "a \<in> set sample_team \<Longrightarrow> \<forall>b \<in> set sample_team. at_least_as_good (\<lambda>_. 0) (Some ''agent_a01'') a b \<Longrightarrow> ap_id a = ''agent_a01''"
    "a \<in> set sample_team \<Longrightarrow> \<forall>b \<in> set sample_team. at_least_as_good (\<lambda>_. 0) None a b \<Longrightarrow> ap_id a = ''agent_c01''" for a
    by (auto simp: sample_team_def sample_agent_def at_least_as_good_def free_units_def)
  show ?thesis
    using chosen [of "Some ''agent_a01''"] chosen [of None] best by metis
qed

theorem match_order_independent_witness:
  "match_item const_sha 10 plain_ident (sample_item ''task_a01'' WI_READY) AR_CODER
     [sample_agent, sample_agent\<lparr>ap_id := ''agent_b01''\<rparr>] [] [] (Aware 100) 1 [] =
   match_item const_sha 10 plain_ident (sample_item ''task_a01'' WI_READY) AR_CODER
     [sample_agent\<lparr>ap_id := ''agent_b01''\<rparr>, sample_agent] [] [] (Aware 100) 1 []"
  by (rule match_order_independent) (simp_all add: sample_agent_def)

abbreviation sample_schedule :: "WorkItemStatus \<Rightarrow> sched_error + AssignmentDecision list" where
  "sample_schedule status \<equiv>
     schedule const_sha 10 plain_ident [sample_item ''task_a01'' status, sample_item ''task_b01'' status]
       AR_CODER [sample_agent] [] [] (Aware 100) 1"

definition sample_full :: "string \<Rightarrow> AssignmentDecision" where
  "sample_full task =
     \<lparr>ad_status = AD_REJECTED, ad_task_id = task, ad_repository_id = ''repository_a01'',
      ad_role = AR_CODER, ad_attempt = 1, ad_agent_id = None, ad_assignment = None, ad_lease = None,
      ad_reasons = [\<lparr>ar_code = AC_CAPACITY_EXHAUSTED, ar_message = RM_no_capacity ''agent_a01'' 1 1,
        ar_agent_id = Some ''agent_a01'', ar_missing_capabilities = []\<rparr>],
      ad_decided_at = 100\<rparr>"

lemma sample_schedule_ready:
  "sample_schedule WI_READY = Inr [sample_granted ''task_a01'' WI_READY, sample_full ''task_b01'']"
  by code_simp

theorem schedule_one_decision_per_item_witness:
  "distinct (map ad_task_id [sample_granted ''task_a01'' WI_READY, sample_full ''task_b01''])"
  using schedule_one_decision_per_item [OF sample_schedule_ready] by blast

theorem schedule_respects_capacity_witness:
  "used_units [sample_item ''task_a01'' WI_READY, sample_item ''task_b01'' WI_READY] 100 [] (ap_id sample_agent) +
   lease_units (emitted_leases [sample_granted ''task_a01'' WI_READY, sample_full ''task_b01''])
     (ap_id sample_agent) \<le> ap_max_parallel_assignments sample_agent"
  by (rule schedule_respects_capacity [OF sample_schedule_ready])
    (simp_all add: used_units_def sample_agent_def sample_item_def)

text \<open>
  The batch guard fails for scheduled retries that have become due: the lease just granted
  belongs to an item whose snapshot status is still \<open>RETRY_SCHEDULED\<close>, is skipped as a lease of
  waiting work, and the same Agent with one unit of capacity is given both items.
\<close>

theorem schedule_overbooks_due_retries:
  "sample_schedule WI_RETRY_SCHEDULED =
     Inr [sample_granted ''task_a01'' WI_RETRY_SCHEDULED, sample_granted ''task_b01'' WI_RETRY_SCHEDULED] \<and>
   ap_max_parallel_assignments sample_agent <
     lease_units (emitted_leases [sample_granted ''task_a01'' WI_RETRY_SCHEDULED,
       sample_granted ''task_b01'' WI_RETRY_SCHEDULED]) (ap_id sample_agent)"
  by (rule conjI; code_simp)

end
