(* ===== verification/Queue_Model.thy ===== *)
theory Queue_Model
  imports Portfolio
begin

section \<open>The persistent work queue\<close>

text \<open>
  \<^verbatim>\<open>work_queue/models.py\<close>, the failures of \<^verbatim>\<open>work_queue/ports.py\<close> and every operation of
  \<^verbatim>\<open>work_queue/mysql.py\<close>: the tables \<open>work_queue_items\<close>, \<open>work_queue_claims\<close> and
  \<open>work_queue_events\<close>, publication, claiming, the owner-fenced lease lifecycle, waiting, retry,
  resumption and the reclaiming of expired leases. All operations hold the authority lock row, so
  each is one atomic step. A time column holds the ISO text of a UTC instant, whose order is the
  order of the instants; the model keeps the instant. The digests the code computes (of failure
  facts, of a disposition and of an owner token) are the fields of the parameter \<open>D\<close>.
\<close>

record digests =
  dg_facts :: "DeliveryFailureFacts \<Rightarrow> string"
  dg_disposition :: "DeliveryDisposition \<Rightarrow> string"
  dg_token :: "string \<Rightarrow> string"

datatype queue_error = QueueNotFound | QueueConflict | QueueLeaseLost | QueueCorruption | QueueValueError

subsection \<open>Contracts\<close>

definition valid_WorkItemId :: "string \<Rightarrow> bool" where
  "valid_WorkItemId = match_id ''work_'' 2 95"

definition valid_LeaseWorkerId :: "string \<Rightarrow> bool" where
  "valid_LeaseWorkerId = match_id ''worker_'' 2 63"

definition DELIVERY_ROLES :: "AgentRole list" where
  "DELIVERY_ROLES = [AR_CODER, AR_QA, AR_REVIEWER]"

record QueuedWorkItem = WorkItem +
  qi_id :: string
  qi_role :: AgentRole
  qi_attempt :: int
  qi_checkpoint_sequence :: int
  qi_dispatch_sequence :: int
  qi_repository_scopes :: "string list"
  qi_parent_work_item_id :: "string option"

definition validate_queue_identity :: "QueuedWorkItem \<Rightarrow> bool" where
  "validate_queue_identity w \<longleftrightarrow>
     qi_role w \<in> set DELIVERY_ROLES \<and> \<not> qi_attempt w < 1 \<and> ensure_unique (qi_repository_scopes w) \<and>
     (case wi_wait_disposition w of
        None \<Rightarrow> True
      | Some d \<Rightarrow>
          (ff_work_item_id (dd_facts d), ff_role (dd_facts d), ff_checkpoint_sequence (dd_facts d)) =
            (Some (qi_id w), qi_role w, qi_checkpoint_sequence w)) \<and>
     qi_parent_work_item_id w \<noteq> Some (qi_id w)"

definition valid_QueuedWorkItem :: "digests \<Rightarrow> QueuedWorkItem \<Rightarrow> bool" where
  "valid_QueuedWorkItem D w \<longleftrightarrow>
     valid_WorkItem (dg_facts D) w \<and> valid_WorkItemId (qi_id w) \<and>
     valid_ExecutionCount (qi_attempt w) \<and> in_range 0 10000 (qi_checkpoint_sequence w) \<and>
     in_range 0 10000 (qi_dispatch_sequence w) \<and> qi_repository_scopes w \<noteq> [] \<and>
     list_all non_empty (qi_repository_scopes w) \<and> opt_all valid_WorkItemId (qi_parent_work_item_id w) \<and>
     validate_queue_identity w"

record QueueArtifactReceipt =
  rc_artifact_id :: string
  rc_sha256 :: string

definition valid_QueueArtifactReceipt :: "QueueArtifactReceipt \<Rightarrow> bool" where
  "valid_QueueArtifactReceipt r \<longleftrightarrow> non_empty (rc_artifact_id r) \<and> match_hex 64 64 (rc_sha256 r)"

record QueueClaim =
  qc_work_item :: QueuedWorkItem
  qc_assignment :: RoleAssignment
  qc_lease :: TaskLease
  qc_model_selection :: ModelSelection
  qc_worker_id :: string
  qc_claimed_at :: instant

text \<open>Nested model instances are taken over as they are, so only the class validator runs.\<close>

definition validate_claim :: "QueueClaim \<Rightarrow> bool" where
  "validate_claim c \<longleftrightarrow>
     valid_LeaseWorkerId (qc_worker_id c) \<and> wi_status (qc_work_item c) = WI_LEASED \<and>
     \<not> (ra_task_id (qc_assignment c) \<noteq> wi_task_id (qc_work_item c) \<or>
        ra_repository_id (qc_assignment c) \<noteq> wi_repository_id (qc_work_item c) \<or>
        ra_role (qc_assignment c) \<noteq> qi_role (qc_work_item c) \<or>
        ra_attempt (qc_assignment c) \<noteq> qi_attempt (qc_work_item c) \<or>
        tl_assignment_id (qc_lease c) \<noteq> ra_id (qc_assignment c) \<or>
        tl_id (qc_lease c) \<noteq> ra_lease_id (qc_assignment c) \<or>
        tl_task_id (qc_lease c) \<noteq> wi_task_id (qc_work_item c) \<or>
        tl_agent_id (qc_lease c) \<noteq> ra_agent_id (qc_assignment c) \<or>
        qc_claimed_at c < ms_selected_at (qc_model_selection c))"

record QueueCompletion =
  qk_work_item :: QueuedWorkItem
  qk_artifacts :: "QueueArtifactReceipt list"
  qk_next_work_item :: "QueuedWorkItem option"
  qk_completed_at :: instant

definition validate_completion :: "QueueCompletion \<Rightarrow> bool" where
  "validate_completion c \<longleftrightarrow>
     wi_status (qk_work_item c) = WI_CLOSED \<and>
     ensure_unique (map rc_artifact_id (qk_artifacts c)) \<and>
     (case qk_next_work_item c of
        None \<Rightarrow> True
      | Some nxt \<Rightarrow>
          wi_task_id nxt = wi_task_id (qk_work_item c) \<and>
          qi_parent_work_item_id nxt = Some (qi_id (qk_work_item c)) \<and>
          wi_status nxt \<in> {WI_READY, WI_RETRY_SCHEDULED})"

subsection \<open>Tables\<close>

record item_row =
  ir_id :: string
  ir_task_id :: string
  ir_repository_id :: string
  ir_role :: AgentRole
  ir_attempt :: int
  ir_checkpoint_sequence :: int
  ir_status :: WorkItemStatus
  ir_priority :: int
  ir_risk_rank :: int
  ir_available_at :: "instant option"
  ir_payload :: QueuedWorkItem
  ir_version :: int
  ir_created_at :: instant
  ir_updated_at :: instant

datatype claim_state = CS_ACTIVE | CS_RELEASED | CS_EXPIRED

record claim_row =
  cr_lease_id :: string
  cr_work_item_id :: string
  cr_task_id :: string
  cr_agent_id :: string
  cr_worker_id :: string
  cr_owner_token_sha256 :: string
  cr_assignment :: RoleAssignment
  cr_lease :: TaskLease
  cr_model_selection :: ModelSelection
  cr_capacity_units :: int
  cr_state :: claim_state
  cr_acquired_at :: instant
  cr_expires_at :: instant
  cr_last_heartbeat_at :: instant
  cr_ended_at :: "instant option"

datatype queue_event_type =
    QE_ENQUEUED | QE_CLAIMED | QE_STARTED | QE_COMPLETED | QE_WAITING | QE_RETRY_SCHEDULED
  | QE_READY | QE_LEASE_EXPIRED

datatype event_detail =
    NoDetail
  | ClaimDetail QueueClaim
  | CompletionDetail "QueueArtifactReceipt list" "QueuedWorkItem option"

record queue_event_row =
  ev_sequence :: int
  ev_work_item_id :: string
  ev_event_type :: queue_event_type
  ev_row_from_status :: "WorkItemStatus option"
  ev_row_to_status :: WorkItemStatus
  ev_lease_id :: "string option"
  ev_work_item :: QueuedWorkItem
  ev_detail :: event_detail
  ev_row_occurred_at :: instant

record queue =
  q_authority :: bool
  q_items :: "item_row list"
  q_claims :: "claim_row list"
  q_events :: "queue_event_row list"

definition initialize_schema :: queue where
  "initialize_schema = \<lparr>q_authority = True, q_items = [], q_claims = [], q_events = []\<rparr>"

subsection \<open>Row operations\<close>

definition require_aware :: "py_datetime \<Rightarrow> queue_error + instant" where
  "require_aware d = (case d of Aware t \<Rightarrow> Inr t | Naive _ \<Rightarrow> Inl QueueValueError)"

definition lock_authority :: "queue \<Rightarrow> queue_error + unit" where
  "lock_authority q = guard_res (q_authority q) QueueCorruption"

definition decode_item :: "digests \<Rightarrow> item_row \<Rightarrow> queue_error + QueuedWorkItem" where
  "decode_item D row =
     (if \<not> valid_QueuedWorkItem D (ir_payload row) then Inl QueueCorruption
      else if ir_id row \<noteq> qi_id (ir_payload row) then Inl QueueCorruption
      else Inr (ir_payload row))"

definition decode_model :: "('a \<Rightarrow> bool) \<Rightarrow> 'a \<Rightarrow> queue_error + 'a" where
  "decode_model valid payload = (if valid payload then Inr payload else Inl QueueCorruption)"

definition get_locked :: "digests \<Rightarrow> queue \<Rightarrow> string \<Rightarrow> queue_error + QueuedWorkItem" where
  "get_locked D q work_item_id =
     (case row_of ir_id work_item_id (q_items q) of
        None \<Rightarrow> Inl QueueNotFound
      | Some row \<Rightarrow> decode_item D row)"

definition token_digest :: "digests \<Rightarrow> string \<Rightarrow> queue_error + string" where
  "token_digest D owner_token =
     (if length owner_token < 16 \<or> list_ex (\<lambda>c. of_char c < (32 :: nat)) owner_token
      then Inl QueueValueError else Inr (dg_token D owner_token))"

definition store_item :: "QueuedWorkItem \<Rightarrow> item_row \<Rightarrow> item_row" where
  "store_item item row =
     row\<lparr>ir_payload := item, ir_status := wi_status item, ir_available_at := wi_available_at item,
         ir_updated_at := wi_updated_at item, ir_version := ir_version row + 1\<rparr>"

definition update_item :: "queue \<Rightarrow> QueuedWorkItem \<Rightarrow> queue_error + queue" where
  "update_item q item =
     (case row_of ir_id (qi_id item) (q_items q) of
        None \<Rightarrow> Inl QueueCorruption
      | Some row \<Rightarrow>
          Inr (q\<lparr>q_items := put_row ir_id (qi_id item) (store_item item row) (q_items q)\<rparr>))"

definition release_claim ::
  "queue \<Rightarrow> string \<Rightarrow> claim_state \<Rightarrow> instant \<Rightarrow> queue_error + queue" where
  "release_claim q lease_id state ended_at =
     (case row_of cr_lease_id lease_id (q_claims q) of
        None \<Rightarrow> Inl QueueCorruption
      | Some row \<Rightarrow>
          Inr (q\<lparr>q_claims := put_row cr_lease_id lease_id
                   (row\<lparr>cr_state := state, cr_ended_at := Some ended_at\<rparr>) (q_claims q)\<rparr>))"

definition append_queue_event ::
  "queue \<Rightarrow> QueuedWorkItem \<Rightarrow> WorkItemStatus option \<Rightarrow> queue_event_type \<Rightarrow> string option \<Rightarrow> instant \<Rightarrow>
   event_detail \<Rightarrow> queue" where
  "append_queue_event q item from_status event_type lease_id occurred_at detail =
     q\<lparr>q_events := q_events q @
        [\<lparr>ev_sequence = int (length (q_events q)) + 1, ev_work_item_id = qi_id item,
          ev_event_type = event_type, ev_row_from_status = from_status,
          ev_row_to_status = wi_status item, ev_lease_id = lease_id, ev_work_item = item,
          ev_detail = detail, ev_row_occurred_at = occurred_at\<rparr>]\<rparr>"

definition active_claim_exists :: "queue \<Rightarrow> string \<Rightarrow> bool" where
  "active_claim_exists q work_item_id =
     list_ex (\<lambda>r. cr_work_item_id r = work_item_id \<and> cr_state r = CS_ACTIVE) (q_claims q)"

definition require_active_claim ::
  "digests \<Rightarrow> queue \<Rightarrow> string \<Rightarrow> string \<Rightarrow> string \<Rightarrow> instant \<Rightarrow> queue_error + claim_row" where
  "require_active_claim D q work_item_id lease_id owner_token now =
     (case row_of cr_lease_id lease_id (q_claims q) of
        None \<Rightarrow> Inl QueueConflict
      | Some row \<Rightarrow>
          if cr_work_item_id row \<noteq> work_item_id then Inl QueueConflict
          else
            bind_res (token_digest D owner_token) (\<lambda>digest.
            if cr_owner_token_sha256 row \<noteq> digest then Inl QueueConflict
            else if cr_state row \<noteq> CS_ACTIVE then Inl QueueLeaseLost
            else if cr_expires_at row \<le> now then Inl QueueLeaseLost
            else Inr row))"

definition ACTIVE_STATUSES :: "WorkItemStatus list" where
  "ACTIVE_STATUSES = [WI_LEASED, WI_RUNNING]"

definition WAIT_STATUSES :: "WorkItemStatus list" where
  "WAIT_STATUSES = [WI_WAITING_HUMAN, WI_WAITING_DEPENDENCY]"

definition validate_enqueue_status :: "QueuedWorkItem \<Rightarrow> queue_error + unit" where
  "validate_enqueue_status item =
     guard_res (wi_status item \<in> {WI_READY, WI_RETRY_SCHEDULED, WI_WAITING_HUMAN, WI_WAITING_DEPENDENCY})
       QueueValueError"

subsection \<open>Publication and reads\<close>

definition same_run :: "queue \<Rightarrow> QueuedWorkItem \<Rightarrow> string list" where
  "same_run q item =
     take 3 (map ir_id (filter (\<lambda>r. ir_task_id r = wi_task_id item \<and> ir_role r = qi_role item \<and>
       ir_attempt r = qi_attempt item \<and> ir_checkpoint_sequence r = qi_checkpoint_sequence item)
       (q_items q)))"

definition new_item_row :: "QueuedWorkItem \<Rightarrow> item_row" where
  "new_item_row item =
     \<lparr>ir_id = qi_id item, ir_task_id = wi_task_id item, ir_repository_id = wi_repository_id item,
      ir_role = qi_role item, ir_attempt = qi_attempt item,
      ir_checkpoint_sequence = qi_checkpoint_sequence item, ir_status = wi_status item,
      ir_priority = wi_priority item, ir_risk_rank = risk_rank (wi_risk item),
      ir_available_at = wi_available_at item, ir_payload = item, ir_version = 0,
      ir_created_at = wi_created_at item, ir_updated_at = wi_updated_at item\<rparr>"

text \<open>The unique run key of the table includes the parent, taken from the payload.\<close>

definition run_key_taken :: "queue \<Rightarrow> QueuedWorkItem \<Rightarrow> bool" where
  "run_key_taken q item =
     list_ex (\<lambda>r. ir_task_id r = wi_task_id item \<and> ir_role r = qi_role item \<and>
       ir_attempt r = qi_attempt item \<and> ir_checkpoint_sequence r = qi_checkpoint_sequence item \<and>
       qi_parent_work_item_id (ir_payload r) = qi_parent_work_item_id item) (q_items q)"

definition enqueue_locked ::
  "digests \<Rightarrow> bool \<Rightarrow> queue \<Rightarrow> QueuedWorkItem \<Rightarrow> queue_error + (QueuedWorkItem \<times> queue)" where
  "enqueue_locked D allow_rejected_static_qa_successor q item =
     (case row_of ir_id (qi_id item) (q_items q) of
        Some row \<Rightarrow>
          bind_res (decode_item D row) (\<lambda>existing.
          if existing \<noteq> item then Inl QueueConflict else Inr (existing, q))
      | None \<Rightarrow>
          let same = same_run q item in
          if same \<noteq> [] \<and>
             (\<not> allow_rejected_static_qa_successor \<or>
              map Some same \<noteq> [qi_parent_work_item_id item]) then Inl QueueConflict
          else if run_key_taken q item then Inl QueueConflict
          else
            Inr (item, append_queue_event (q\<lparr>q_items := q_items q @ [new_item_row item]\<rparr>) item None
                   QE_ENQUEUED None (wi_updated_at item) NoDetail))"

definition enqueue :: "digests \<Rightarrow> queue \<Rightarrow> QueuedWorkItem \<Rightarrow> queue_error + (QueuedWorkItem \<times> queue)" where
  "enqueue D q item =
     bind_res (validate_enqueue_status item) (\<lambda>_.
     bind_res (lock_authority q) (\<lambda>_. enqueue_locked D False q item))"

definition queue_get :: "digests \<Rightarrow> queue \<Rightarrow> string \<Rightarrow> queue_error + QueuedWorkItem" where
  "queue_get D q work_item_id = get_locked D q work_item_id"

definition schedulable_order :: "item_row \<Rightarrow> int \<times> int \<times> instant \<times> string" where
  "schedulable_order r = (- ir_priority r, - ir_risk_rank r, ir_created_at r, ir_id r)"

definition row_schedulable :: "instant \<Rightarrow> item_row \<Rightarrow> bool" where
  "row_schedulable now r \<longleftrightarrow>
     ir_status r = WI_READY \<or>
     ir_status r = WI_RETRY_SCHEDULED \<and>
       (case ir_available_at r of None \<Rightarrow> False | Some a \<Rightarrow> a \<le> now)"

definition list_schedulable ::
  "digests \<Rightarrow> queue \<Rightarrow> py_datetime \<Rightarrow> int \<Rightarrow> queue_error + QueuedWorkItem list" where
  "list_schedulable D q now limit =
     bind_res (require_aware now) (\<lambda>t.
     if limit < 1 \<or> 1000 < limit then Inl QueueValueError
     else map_res (decode_item D)
       (take (nat limit) (sort_key schedulable_order (filter (row_schedulable t) (q_items q)))))"

definition list_active_leases :: "queue \<Rightarrow> py_datetime \<Rightarrow> queue_error + TaskLease list" where
  "list_active_leases q now =
     bind_res (require_aware now) (\<lambda>t.
     map_res (\<lambda>r. decode_model valid_TaskLease (cr_lease r))
       (sort_key cr_lease_id (filter (\<lambda>r. cr_state r = CS_ACTIVE \<and> t < cr_expires_at r) (q_claims q))))"

definition list_assignments :: "queue \<Rightarrow> queue_error + RoleAssignment list" where
  "list_assignments q =
     map_res (\<lambda>r. decode_model valid_RoleAssignment (cr_assignment r)) (sort_key cr_lease_id (q_claims q))"

subsection \<open>Claiming\<close>

definition validate_allocation ::
  "QueuedWorkItem \<Rightarrow> RoleAssignment \<Rightarrow> TaskLease \<Rightarrow> ModelSelection \<Rightarrow> instant \<Rightarrow> queue_error + unit" where
  "validate_allocation item assignment lease selection now =
     guard_res (\<not> (ra_task_id assignment \<noteq> wi_task_id item \<or>
       ra_repository_id assignment \<noteq> wi_repository_id item \<or>
       ra_role assignment \<noteq> qi_role item \<or> ra_attempt assignment \<noteq> qi_attempt item \<or>
       tl_assignment_id lease \<noteq> ra_id assignment \<or> tl_id lease \<noteq> ra_lease_id assignment \<or>
       tl_task_id lease \<noteq> wi_task_id item \<or> tl_agent_id lease \<noteq> ra_agent_id assignment \<or>
       tl_acquired_at lease \<noteq> now \<or> tl_expires_at lease \<le> now \<or> now < ms_selected_at selection))
       QueueConflict"

definition is_schedulable :: "QueuedWorkItem \<Rightarrow> instant \<Rightarrow> bool" where
  "is_schedulable item now \<longleftrightarrow>
     wi_status item = WI_READY \<or>
     wi_status item = WI_RETRY_SCHEDULED \<and>
       (case wi_available_at item of None \<Rightarrow> False | Some a \<Rightarrow> a \<le> now)"

definition live_claim :: "instant \<Rightarrow> claim_row \<Rightarrow> bool" where
  "live_claim now r \<longleftrightarrow> cr_state r = CS_ACTIVE \<and> now < cr_expires_at r"

definition used_capacity :: "queue \<Rightarrow> string \<Rightarrow> instant \<Rightarrow> int" where
  "used_capacity q agent_id now =
     sum_list (map cr_capacity_units
       (filter (\<lambda>r. cr_agent_id r = agent_id \<and> live_claim now r) (q_claims q)))"

definition validate_capacity_locked ::
  "queue \<Rightarrow> RoleAssignment \<Rightarrow> int \<Rightarrow> instant \<Rightarrow> queue_error + unit" where
  "validate_capacity_locked q assignment agent_capacity now =
     (if list_ex (\<lambda>r. cr_task_id r = ra_task_id assignment \<and> live_claim now r) (q_claims q)
      then Inl QueueConflict
      else if agent_capacity < used_capacity q (ra_agent_id assignment) now + ra_capacity_units assignment
      then Inl QueueConflict
      else Inr ())"

definition validate_independence_locked :: "queue \<Rightarrow> RoleAssignment \<Rightarrow> queue_error + unit" where
  "validate_independence_locked q candidate =
     bind_res (map_res (\<lambda>r. decode_model valid_RoleAssignment (cr_assignment r))
       (sort_key cr_lease_id (filter (\<lambda>r. cr_task_id r = ra_task_id candidate) (q_claims q))))
       (\<lambda>existing. guard_res (validate_assignment_independence candidate existing = None) QueueConflict)"

definition new_claim_row ::
  "QueuedWorkItem \<Rightarrow> RoleAssignment \<Rightarrow> TaskLease \<Rightarrow> ModelSelection \<Rightarrow> string \<Rightarrow> string \<Rightarrow> instant \<Rightarrow> claim_row" where
  "new_claim_row item assignment lease selection worker_id token_sha now =
     \<lparr>cr_lease_id = tl_id lease, cr_work_item_id = qi_id item, cr_task_id = wi_task_id item,
      cr_agent_id = ra_agent_id assignment, cr_worker_id = worker_id,
      cr_owner_token_sha256 = token_sha, cr_assignment = assignment, cr_lease = lease,
      cr_model_selection = selection, cr_capacity_units = tl_capacity_units lease,
      cr_state = CS_ACTIVE, cr_acquired_at = tl_acquired_at lease,
      cr_expires_at = tl_expires_at lease, cr_last_heartbeat_at = now, cr_ended_at = None\<rparr>"

definition claimed_item :: "QueuedWorkItem \<Rightarrow> instant \<Rightarrow> QueuedWorkItem" where
  "claimed_item item now =
     item\<lparr>wi_status := WI_LEASED, wi_wait_reason := None, wi_wait_disposition := None,
          wi_available_at := None, wi_updated_at := now\<rparr>"

definition claim ::
  "digests \<Rightarrow> queue \<Rightarrow> QueuedWorkItem \<Rightarrow> RoleAssignment \<Rightarrow> TaskLease \<Rightarrow> ModelSelection \<Rightarrow> string \<Rightarrow> string \<Rightarrow>
   int \<Rightarrow> py_datetime \<Rightarrow> queue_error + (QueueClaim \<times> queue)" where
  "claim D q item assignment lease selection worker_id owner_token agent_capacity now =
     bind_res (require_aware now) (\<lambda>t.
     bind_res (guard_res (valid_LeaseWorkerId worker_id) QueueValueError) (\<lambda>_.
     bind_res (token_digest D owner_token) (\<lambda>token_sha.
     bind_res (guard_res (\<not> (agent_capacity < 1 \<or> 16 < agent_capacity)) QueueValueError) (\<lambda>_.
     bind_res (validate_allocation item assignment lease selection t) (\<lambda>_.
     bind_res (lock_authority q) (\<lambda>_.
     bind_res (get_locked D q (qi_id item)) (\<lambda>current.
     bind_res (guard_res (current = item) QueueConflict) (\<lambda>_.
     bind_res (guard_res (is_schedulable current t) QueueConflict) (\<lambda>_.
     bind_res (validate_capacity_locked q assignment agent_capacity t) (\<lambda>_.
     bind_res (validate_independence_locked q assignment) (\<lambda>_.
     bind_res (update_item q (claimed_item current t)) (\<lambda>q1.
     bind_res (guard_res (tl_id lease \<notin> cr_lease_id ` set (q_claims q1)) QueueConflict) (\<lambda>_.
     let q2 = q1\<lparr>q_claims := q_claims q1 @
                [new_claim_row (claimed_item current t) assignment lease selection worker_id token_sha t]\<rparr>;
         c = \<lparr>qc_work_item = claimed_item current t, qc_assignment = assignment, qc_lease = lease,
              qc_model_selection = selection, qc_worker_id = worker_id, qc_claimed_at = t\<rparr>
     in bind_res (guard_res (validate_claim c) QueueValueError) (\<lambda>_.
        Inr (c, append_queue_event q2 (claimed_item current t) (Some (wi_status current)) QE_CLAIMED
                  (Some (tl_id lease)) t (ClaimDetail c))))))))))))))))"

subsection \<open>The lease lifecycle\<close>

definition start ::
  "digests \<Rightarrow> queue \<Rightarrow> string \<Rightarrow> string \<Rightarrow> string \<Rightarrow> py_datetime \<Rightarrow> queue_error + (QueuedWorkItem \<times> queue)" where
  "start D q work_item_id lease_id owner_token now =
     bind_res (require_aware now) (\<lambda>t.
     bind_res (lock_authority q) (\<lambda>_.
     bind_res (get_locked D q work_item_id) (\<lambda>current.
     bind_res (require_active_claim D q (qi_id current) lease_id owner_token t) (\<lambda>_.
     if wi_status current = WI_RUNNING then Inr (current, q)
     else if wi_status current \<noteq> WI_LEASED then Inl QueueConflict
     else
       let started = current\<lparr>wi_status := WI_RUNNING, wi_updated_at := t\<rparr>
       in bind_res (update_item q started) (\<lambda>q1.
          Inr (started, append_queue_event q1 started (Some (wi_status current)) QE_STARTED
                 (Some lease_id) t NoDetail))))))"

definition renew ::
  "digests \<Rightarrow> queue \<Rightarrow> string \<Rightarrow> string \<Rightarrow> string \<Rightarrow> py_datetime \<Rightarrow> py_datetime \<Rightarrow>
   queue_error + (TaskLease \<times> queue)" where
  "renew D q work_item_id lease_id owner_token now expires_at =
     bind_res (require_aware now) (\<lambda>t.
     bind_res (require_aware expires_at) (\<lambda>e.
     bind_res (guard_res (\<not> e \<le> t) QueueValueError) (\<lambda>_.
     bind_res (lock_authority q) (\<lambda>_.
     bind_res (get_locked D q work_item_id) (\<lambda>current.
     bind_res (require_active_claim D q (qi_id current) lease_id owner_token t) (\<lambda>row.
     bind_res (guard_res (wi_status current \<in> set ACTIVE_STATUSES) QueueConflict) (\<lambda>_.
     bind_res (decode_model valid_TaskLease (cr_lease row)) (\<lambda>lease.
     let renewed = lease\<lparr>tl_expires_at := e\<rparr>
     in Inr (renewed, q\<lparr>q_claims := put_row cr_lease_id lease_id
          (row\<lparr>cr_lease := renewed, cr_expires_at := e, cr_last_heartbeat_at := t\<rparr>)
          (q_claims q)\<rparr>)))))))))"

text \<open>The latest completion event of a lease, which a repeated completion must match.\<close>

definition last_completion :: "queue \<Rightarrow> string \<Rightarrow> string \<Rightarrow> queue_event_row option" where
  "last_completion q work_item_id lease_id =
     find (\<lambda>e. ev_work_item_id e = work_item_id \<and> ev_lease_id e = Some lease_id \<and>
               ev_event_type e = QE_COMPLETED) (rev (q_events q))"

definition replay_completion ::
  "digests \<Rightarrow> queue \<Rightarrow> QueuedWorkItem \<Rightarrow> string \<Rightarrow> string \<Rightarrow> QueueArtifactReceipt list \<Rightarrow>
   QueuedWorkItem option \<Rightarrow> queue_error + QueueCompletion" where
  "replay_completion D q current lease_id owner_token artifacts next_work_item =
     (case find (\<lambda>r. cr_lease_id r = lease_id \<and> cr_work_item_id r = qi_id current) (q_claims q) of
        None \<Rightarrow> Inl QueueConflict
      | Some row \<Rightarrow>
          bind_res (token_digest D owner_token) (\<lambda>digest.
          if cr_owner_token_sha256 row \<noteq> digest \<or> cr_state row \<noteq> CS_RELEASED then Inl QueueConflict
          else
            (case last_completion q (qi_id current) lease_id of
               None \<Rightarrow> Inl QueueCorruption
             | Some event \<Rightarrow>
                 (case ev_detail event of
                    CompletionDetail stored_artifacts stored_next \<Rightarrow>
                      if \<not> list_all valid_QueueArtifactReceipt stored_artifacts \<or>
                         \<not> opt_all (valid_QueuedWorkItem D) stored_next then Inl QueueCorruption
                      else if stored_artifacts \<noteq> artifacts \<or> stored_next \<noteq> next_work_item
                      then Inl QueueConflict
                      else
                        (let c = \<lparr>qk_work_item = current, qk_artifacts = stored_artifacts,
                                  qk_next_work_item = stored_next,
                                  qk_completed_at = ev_row_occurred_at event\<rparr>
                         in if validate_completion c then Inr c else Inl QueueValueError)
                  | _ \<Rightarrow> Inl QueueCorruption))))"

definition check_next ::
  "QueuedWorkItem \<Rightarrow> QueuedWorkItem option \<Rightarrow> instant \<Rightarrow> queue_error + unit" where
  "check_next current next_work_item now =
     (case next_work_item of
        None \<Rightarrow> Inr ()
      | Some nxt \<Rightarrow>
          if wi_task_id nxt \<noteq> wi_task_id current \<or> qi_parent_work_item_id nxt \<noteq> Some (qi_id current) \<or>
             wi_created_at nxt < now then Inl QueueConflict
          else validate_enqueue_status nxt)"

definition publish_next ::
  "digests \<Rightarrow> queue \<Rightarrow> QueuedWorkItem option \<Rightarrow> queue_error + (QueuedWorkItem option \<times> queue)" where
  "publish_next D q next_work_item =
     (case next_work_item of
        None \<Rightarrow> Inr (None, q)
      | Some nxt \<Rightarrow> bind_res (enqueue_locked D False q nxt) (\<lambda>(published, q'). Inr (Some published, q')))"

definition complete_locked ::
  "digests \<Rightarrow> queue \<Rightarrow> string \<Rightarrow> string \<Rightarrow> string \<Rightarrow> QueueArtifactReceipt list \<Rightarrow> QueuedWorkItem option \<Rightarrow>
   instant \<Rightarrow> queue_error + (QueueCompletion \<times> queue)" where
  "complete_locked D q work_item_id lease_id owner_token receipts next_work_item now =
     bind_res (get_locked D q work_item_id) (\<lambda>current.
     if wi_status current = WI_CLOSED then
       bind_res (replay_completion D q current lease_id owner_token receipts next_work_item) (\<lambda>c.
       Inr (c, q))
     else
       bind_res (require_active_claim D q (qi_id current) lease_id owner_token now) (\<lambda>_.
       bind_res (guard_res (wi_status current \<in> set ACTIVE_STATUSES) QueueConflict) (\<lambda>_.
       bind_res (check_next current next_work_item now) (\<lambda>_.
       let closed = current\<lparr>wi_status := WI_CLOSED, wi_updated_at := now\<rparr> in
       bind_res (update_item q closed) (\<lambda>q1.
       bind_res (release_claim q1 lease_id CS_RELEASED now) (\<lambda>q2.
       bind_res (publish_next D q2 next_work_item) (\<lambda>(published, q3).
       let c = \<lparr>qk_work_item = closed, qk_artifacts = receipts, qk_next_work_item = published,
                qk_completed_at = now\<rparr>
       in bind_res (guard_res (validate_completion c) QueueValueError) (\<lambda>_.
          Inr (c, append_queue_event q3 closed (Some (wi_status current)) QE_COMPLETED (Some lease_id)
                    now (CompletionDetail receipts published))))))))))"

definition complete ::
  "digests \<Rightarrow> queue \<Rightarrow> string \<Rightarrow> string \<Rightarrow> string \<Rightarrow> QueueArtifactReceipt list \<Rightarrow> QueuedWorkItem option \<Rightarrow>
   py_datetime \<Rightarrow> queue_error + (QueueCompletion \<times> queue)" where
  "complete D q work_item_id lease_id owner_token artifacts next_work_item now =
     bind_res (require_aware now) (\<lambda>t.
     bind_res (guard_res (distinct (map rc_artifact_id artifacts)) QueueValueError) (\<lambda>_.
     bind_res (lock_authority q) (\<lambda>_.
     complete_locked D q work_item_id lease_id owner_token artifacts next_work_item t)))"

subsection \<open>Waiting, retrying and resuming\<close>

definition disposition_binds :: "DeliveryDisposition \<Rightarrow> QueuedWorkItem \<Rightarrow> bool" where
  "disposition_binds d current \<longleftrightarrow>
     (ff_task_id (dd_facts d), ff_work_item_id (dd_facts d), ff_role (dd_facts d),
      ff_checkpoint_sequence (dd_facts d)) =
     (wi_task_id current, Some (qi_id current), qi_role current, qi_checkpoint_sequence current)"

definition release_to_status ::
  "digests \<Rightarrow> queue \<Rightarrow> string \<Rightarrow> string \<Rightarrow> string \<Rightarrow> WorkItemStatus \<Rightarrow> string \<Rightarrow> py_datetime \<Rightarrow>
   instant option \<Rightarrow> queue_event_type \<Rightarrow> DeliveryDisposition option \<Rightarrow>
   queue_error + (QueuedWorkItem \<times> queue)" where
  "release_to_status D q work_item_id lease_id owner_token status reason now available_at event_type
     disposition =
     bind_res (require_aware now) (\<lambda>t.
     bind_res (lock_authority q) (\<lambda>_.
     bind_res (get_locked D q work_item_id) (\<lambda>current.
     bind_res (require_active_claim D q (qi_id current) lease_id owner_token t) (\<lambda>_.
     bind_res (guard_res (wi_status current \<in> set ACTIVE_STATUSES) QueueConflict) (\<lambda>_.
     bind_res (case disposition of
         None \<Rightarrow> Inr ()
       | Some d \<Rightarrow> guard_res (disposition_binds d current \<and> status \<in> set WAIT_STATUSES) QueueConflict) (\<lambda>_.
     let released = current\<lparr>wi_status := status,
           qi_dispatch_sequence := (if status = WI_RETRY_SCHEDULED then qi_dispatch_sequence current + 1
                                    else qi_dispatch_sequence current),
           wi_wait_reason := Some reason, wi_wait_disposition := disposition,
           wi_available_at := available_at, wi_updated_at := t\<rparr> in
     bind_res (update_item q released) (\<lambda>q1.
     bind_res (release_claim q1 lease_id CS_RELEASED t) (\<lambda>q2.
     Inr (released, append_queue_event q2 released (Some (wi_status current)) event_type (Some lease_id)
            t NoDetail)))))))))"

definition wait ::
  "digests \<Rightarrow> queue \<Rightarrow> string \<Rightarrow> string \<Rightarrow> string \<Rightarrow> WorkItemStatus \<Rightarrow> string \<Rightarrow> py_datetime \<Rightarrow>
   DeliveryDisposition option \<Rightarrow> queue_error + (QueuedWorkItem \<times> queue)" where
  "wait D q work_item_id lease_id owner_token status reason now disposition =
     (if status \<notin> set WAIT_STATUSES then Inl QueueValueError
      else if reason = [] then Inl QueueValueError
      else release_to_status D q work_item_id lease_id owner_token status reason now None QE_WAITING
             disposition)"

definition retry ::
  "digests \<Rightarrow> queue \<Rightarrow> string \<Rightarrow> string \<Rightarrow> string \<Rightarrow> string \<Rightarrow> py_datetime \<Rightarrow> py_datetime \<Rightarrow>
   queue_error + (QueuedWorkItem \<times> queue)" where
  "retry D q work_item_id lease_id owner_token reason now available_at =
     bind_res (require_aware available_at) (\<lambda>a.
     bind_res (require_aware now) (\<lambda>t.
     if a \<le> t then Inl QueueValueError
     else if reason = [] then Inl QueueValueError
     else release_to_status D q work_item_id lease_id owner_token WI_RETRY_SCHEDULED reason now (Some a)
            QE_RETRY_SCHEDULED None))"

definition resume_signal_ok :: "digests \<Rightarrow> QueuedWorkItem \<Rightarrow> string option \<Rightarrow> bool" where
  "resume_signal_ok D current expected =
     (case wi_wait_disposition current of
        Some d \<Rightarrow>
          ff_classification (dd_facts d) \<noteq> FC_EXECUTION_BASELINE_PAUSED \<and>
          expected = Some (dg_disposition D d)
      | None \<Rightarrow> expected = None)"

definition make_ready ::
  "digests \<Rightarrow> queue \<Rightarrow> string \<Rightarrow> py_datetime \<Rightarrow> string option \<Rightarrow> queue_error + (QueuedWorkItem \<times> queue)" where
  "make_ready D q work_item_id now expected_disposition_sha256 =
     bind_res (require_aware now) (\<lambda>t.
     bind_res (lock_authority q) (\<lambda>_.
     bind_res (get_locked D q work_item_id) (\<lambda>current.
     bind_res (guard_res (wi_status current \<in> set WAIT_STATUSES \<or>
                wi_status current = WI_RETRY_SCHEDULED) QueueConflict) (\<lambda>_.
     bind_res (guard_res (\<not> active_claim_exists q (qi_id current)) QueueCorruption) (\<lambda>_.
     bind_res (guard_res (resume_signal_ok D current expected_disposition_sha256) QueueConflict) (\<lambda>_.
     let ready = current\<lparr>wi_status := WI_READY, qi_dispatch_sequence := qi_dispatch_sequence current + 1,
           wi_wait_reason := None, wi_wait_disposition := None, wi_available_at := None,
           wi_updated_at := t\<rparr> in
     bind_res (update_item q ready) (\<lambda>q1.
     Inr (ready, append_queue_event q1 ready (Some (wi_status current)) QE_READY None t NoDetail))))))))"

subsection \<open>Reclaiming expired leases\<close>

definition lease_expired_reason :: "string \<Rightarrow> string" where
  "lease_expired_reason lease_id = ''lease_expired:'' @ lease_id"

definition reclaim_one ::
  "digests \<Rightarrow> instant \<Rightarrow> instant \<Rightarrow> claim_row \<Rightarrow> queue \<Rightarrow> queue_error + (QueuedWorkItem \<times> queue)" where
  "reclaim_one D now retry_at row q =
     bind_res (get_locked D q (cr_work_item_id row)) (\<lambda>current.
     bind_res (guard_res (wi_status current \<in> set ACTIVE_STATUSES) QueueCorruption) (\<lambda>_.
     let retried = current\<lparr>wi_status := WI_RETRY_SCHEDULED,
           qi_dispatch_sequence := qi_dispatch_sequence current + 1,
           wi_wait_reason := Some (lease_expired_reason (cr_lease_id row)),
           wi_available_at := Some retry_at, wi_updated_at := now\<rparr> in
     bind_res (update_item q retried) (\<lambda>q1.
     bind_res (release_claim q1 (cr_lease_id row) CS_EXPIRED now) (\<lambda>q2.
     Inr (retried, append_queue_event q2 retried (Some (wi_status current)) QE_LEASE_EXPIRED
            (Some (cr_lease_id row)) now NoDetail)))))"

fun reclaim_loop ::
  "digests \<Rightarrow> instant \<Rightarrow> instant \<Rightarrow> claim_row list \<Rightarrow> queue \<Rightarrow> queue_error + (QueuedWorkItem list \<times> queue)" where
  "reclaim_loop D now retry_at [] q = Inr ([], q)"
| "reclaim_loop D now retry_at (row # rows) q =
     bind_res (reclaim_one D now retry_at row q) (\<lambda>(item, q1).
     bind_res (reclaim_loop D now retry_at rows q1) (\<lambda>(items, q2). Inr (item # items, q2)))"

definition expired_claims :: "queue \<Rightarrow> instant \<Rightarrow> claim_row list" where
  "expired_claims q now =
     sort_key (\<lambda>r. (cr_expires_at r, cr_lease_id r))
       (filter (\<lambda>r. cr_state r = CS_ACTIVE \<and> cr_expires_at r \<le> now) (q_claims q))"

definition reclaim_expired ::
  "digests \<Rightarrow> queue \<Rightarrow> py_datetime \<Rightarrow> py_datetime \<Rightarrow> queue_error + (QueuedWorkItem list \<times> queue)" where
  "reclaim_expired D q now retry_at =
     bind_res (require_aware now) (\<lambda>t.
     bind_res (require_aware retry_at) (\<lambda>r.
     bind_res (guard_res (\<not> r \<le> t) QueueValueError) (\<lambda>_.
     bind_res (lock_authority q) (\<lambda>_.
     reclaim_loop D t r (expired_claims q t) q))))"

end
