(* ===== verification/Queue_Safety.thy ===== *)
theory Queue_Safety
  imports Queue_Model
begin

section \<open>Safety of the work queue\<close>

text \<open>
  The structural invariant of the queue tables and that every operation preserves it, for every
  clock, token and argument: identities are unique, columns agree with payloads, an item is
  \<open>LEASED\<close> or \<open>RUNNING\<close> exactly when it has exactly one \<open>ACTIVE\<close> claim, no two claims of a Task
  give one Agent two delivery roles, and every run identity is registered once.
\<close>

definition run_key :: "item_row \<Rightarrow> string \<times> AgentRole \<times> int \<times> int" where
  "run_key r = (ir_task_id r, ir_role r, ir_attempt r, ir_checkpoint_sequence r)"

definition item_row_ok :: "item_row \<Rightarrow> bool" where
  "item_row_ok r \<longleftrightarrow>
     ir_id r = qi_id (ir_payload r) \<and> ir_task_id r = wi_task_id (ir_payload r) \<and>
     ir_repository_id r = wi_repository_id (ir_payload r) \<and> ir_role r = qi_role (ir_payload r) \<and>
     ir_attempt r = qi_attempt (ir_payload r) \<and>
     ir_checkpoint_sequence r = qi_checkpoint_sequence (ir_payload r) \<and>
     ir_status r = wi_status (ir_payload r) \<and> ir_available_at r = wi_available_at (ir_payload r) \<and>
     ir_priority r = wi_priority (ir_payload r) \<and> ir_risk_rank r = risk_rank (wi_risk (ir_payload r)) \<and>
     ir_created_at r = wi_created_at (ir_payload r) \<and> ir_updated_at r = wi_updated_at (ir_payload r)"

definition claim_row_ok :: "item_row list \<Rightarrow> claim_row \<Rightarrow> bool" where
  "claim_row_ok items c \<longleftrightarrow>
     (\<exists>r \<in> set items. ir_id r = cr_work_item_id c \<and> ir_task_id r = cr_task_id c \<and>
        ir_role r = ra_role (cr_assignment c)) \<and>
     ra_role (cr_assignment c) \<in> set DELIVERY_ROLES \<and>
     ra_task_id (cr_assignment c) = cr_task_id c \<and> ra_agent_id (cr_assignment c) = cr_agent_id c \<and>
     tl_id (cr_lease c) = cr_lease_id c \<and> tl_agent_id (cr_lease c) = cr_agent_id c \<and>
     tl_task_id (cr_lease c) = cr_task_id c \<and> tl_capacity_units (cr_lease c) = cr_capacity_units c \<and>
     tl_expires_at (cr_lease c) = cr_expires_at c \<and> (cr_state c = CS_ACTIVE \<longleftrightarrow> cr_ended_at c = None)"

definition active_on :: "claim_row list \<Rightarrow> string \<Rightarrow> claim_row set" where
  "active_on claims wid = {c \<in> set claims. cr_state c = CS_ACTIVE \<and> cr_work_item_id c = wid}"

definition activity_ok :: "claim_row list \<Rightarrow> item_row \<Rightarrow> bool" where
  "activity_ok claims r \<longleftrightarrow>
     (if ir_status r \<in> set ACTIVE_STATUSES then \<exists>c. active_on claims (ir_id r) = {c}
      else active_on claims (ir_id r) = {})"

definition no_conflicts :: "claim_row list \<Rightarrow> bool" where
  "no_conflicts claims \<longleftrightarrow>
     (\<forall>c \<in> set claims. \<forall>c' \<in> set claims. \<not> roles_conflict (cr_assignment c) (cr_assignment c'))"

definition queue_inv :: "queue \<Rightarrow> bool" where
  "queue_inv q \<longleftrightarrow>
     unique_key ir_id (q_items q) \<and> unique_key cr_lease_id (q_claims q) \<and>
     (\<forall>r \<in> set (q_items q). item_row_ok r \<and> activity_ok (q_claims q) r) \<and>
     (\<forall>c \<in> set (q_claims q). claim_row_ok (q_items q) c) \<and>
     no_conflicts (q_claims q) \<and> distinct (map run_key (q_items q))"

lemma queue_inv_init: "queue_inv initialize_schema"
  by (simp add: queue_inv_def initialize_schema_def unique_key_def no_conflicts_def)

subsection \<open>Elementary changes of the tables\<close>

definition same_identity :: "QueuedWorkItem \<Rightarrow> QueuedWorkItem \<Rightarrow> bool" where
  "same_identity a b \<longleftrightarrow>
     qi_id b = qi_id a \<and> wi_task_id b = wi_task_id a \<and> wi_repository_id b = wi_repository_id a \<and>
     qi_role b = qi_role a \<and> qi_attempt b = qi_attempt a \<and>
     qi_checkpoint_sequence b = qi_checkpoint_sequence a \<and> wi_priority b = wi_priority a \<and>
     wi_risk b = wi_risk a \<and> wi_created_at b = wi_created_at a \<and>
     qi_parent_work_item_id b = qi_parent_work_item_id a"

definition set_item :: "queue \<Rightarrow> item_row \<Rightarrow> QueuedWorkItem \<Rightarrow> queue" where
  "set_item q row item = q\<lparr>q_items := put_row ir_id (ir_id row) (store_item item row) (q_items q)\<rparr>"

definition set_claim :: "queue \<Rightarrow> claim_row \<Rightarrow> queue" where
  "set_claim q c = q\<lparr>q_claims := put_row cr_lease_id (cr_lease_id c) c (q_claims q)\<rparr>"

lemma store_item_fields [simp]:
  "ir_id (store_item item row) = ir_id row" "ir_task_id (store_item item row) = ir_task_id row"
  "ir_role (store_item item row) = ir_role row" "ir_status (store_item item row) = wi_status item"
  "ir_payload (store_item item row) = item" "run_key (store_item item row) = run_key row"
  by (simp_all add: store_item_def run_key_def)

lemma item_row_ok_store:
  "item_row_ok row \<Longrightarrow> same_identity (ir_payload row) item \<Longrightarrow> item_row_ok (store_item item row)"
  by (simp add: item_row_ok_def store_item_def same_identity_def)

lemma get_locked_Inr_iff:
  "get_locked D q wid = Inr w \<longleftrightarrow>
     (\<exists>row. row_of ir_id wid (q_items q) = Some row \<and> ir_payload row = w \<and> valid_QueuedWorkItem D w \<and>
        ir_id row = qi_id w)"
  by (auto simp: get_locked_def decode_item_def split: option.splits)

lemma get_locked_id: "get_locked D q wid = Inr w \<Longrightarrow> qi_id w = wid"
  by (auto simp: get_locked_Inr_iff)

lemma get_lockedE:
  assumes "queue_inv q" and "get_locked D q wid = Inr w"
  obtains row where "row_of ir_id wid (q_items q) = Some row" "row \<in> set (q_items q)" "ir_id row = wid"
    "ir_payload row = w" "qi_id w = wid" "valid_QueuedWorkItem D w" "item_row_ok row"
    "activity_ok (q_claims q) row" "ir_status row = wi_status w"
proof -
  obtain row where row: "row_of ir_id wid (q_items q) = Some row" "ir_payload row = w"
      "valid_QueuedWorkItem D w" "ir_id row = qi_id w"
    using assms(2) by (auto simp: get_locked_Inr_iff)
  have mem: "row \<in> set (q_items q)" "ir_id row = wid"
    using row(1) by auto
  have ok: "item_row_ok row" "activity_ok (q_claims q) row"
    using assms(1) mem(1) by (auto simp: queue_inv_def)
  have "ir_status row = wi_status w"
    using ok(1) row(2) by (simp add: item_row_ok_def)
  with row mem ok show thesis by (intro that [of row]) auto
qed

lemma update_item_eq:
  assumes "row_of ir_id (qi_id item) (q_items q) = Some row"
  shows "update_item q item = Inr (set_item q row item)"
  using assms by (auto simp: update_item_def set_item_def)

lemma release_claim_eq:
  assumes "row_of cr_lease_id lid (q_claims q) = Some c"
  shows "release_claim q lid st t = Inr (set_claim q (c\<lparr>cr_state := st, cr_ended_at := Some t\<rparr>))"
  using assms by (auto simp: release_claim_def set_claim_def)

lemma append_event_tables [simp]:
  "q_items (append_queue_event q i f e l t d) = q_items q"
  "q_claims (append_queue_event q i f e l t d) = q_claims q"
  "q_authority (append_queue_event q i f e l t d) = q_authority q"
  by (simp_all add: append_queue_event_def)

lemma queue_inv_event [simp]: "queue_inv (append_queue_event q i f e l t d) = queue_inv q"
  by (simp add: queue_inv_def)

lemma set_item_tables [simp]:
  "q_claims (set_item q row item) = q_claims q" "q_authority (set_item q row item) = q_authority q"
  "q_events (set_item q row item) = q_events q"
  by (simp_all add: set_item_def)

lemma set_claim_tables [simp]:
  "q_items (set_claim q c) = q_items q" "q_authority (set_claim q c) = q_authority q"
  "q_events (set_claim q c) = q_events q"
  by (simp_all add: set_claim_def)

lemma in_set_item:
  assumes "row \<in> set (q_items q)"
  shows "r \<in> set (q_items (set_item q row item)) \<longleftrightarrow>
    r \<in> set (q_items q) \<and> ir_id r \<noteq> ir_id row \<or> r = store_item item row"
  using assms by (auto simp: set_item_def in_set_put_row)

lemma in_set_claim:
  assumes "c0 \<in> set (q_claims q)" "cr_lease_id c0 = cr_lease_id c"
  shows "x \<in> set (q_claims (set_claim q c)) \<longleftrightarrow>
    x \<in> set (q_claims q) \<and> cr_lease_id x \<noteq> cr_lease_id c \<or> x = c"
proof -
  have "cr_lease_id c \<in> cr_lease_id ` set (q_claims q)"
    using assms by (metis imageI)
  then show ?thesis
    by (simp add: set_claim_def in_set_put_row)
qed

lemma set_item_keys:
  "unique_key ir_id (q_items q) \<Longrightarrow> unique_key ir_id (q_items (set_item q row item))"
  "row \<in> set (q_items q) \<Longrightarrow> unique_key ir_id (q_items q) \<Longrightarrow>
   map run_key (q_items (set_item q row item)) = map run_key (q_items q)"
proof -
  show "unique_key ir_id (q_items q) \<Longrightarrow> unique_key ir_id (q_items (set_item q row item))"
    by (simp add: set_item_def)
  show "map run_key (q_items (set_item q row item)) = map run_key (q_items q)"
    if "row \<in> set (q_items q)" "unique_key ir_id (q_items q)"
    using that by (auto simp: set_item_def put_row_def unique_key_def distinct_map dest: inj_onD)
qed

lemma claim_row_ok_set_item:
  assumes "row \<in> set (q_items q)" and "unique_key ir_id (q_items q)" and "claim_row_ok (q_items q) c"
  shows "claim_row_ok (q_items (set_item q row item)) c"
proof -
  obtain r where r: "r \<in> set (q_items q)" "ir_id r = cr_work_item_id c" "ir_task_id r = cr_task_id c"
      "ir_role r = ra_role (cr_assignment c)"
    using assms(3) by (auto simp: claim_row_ok_def)
  have "ir_id r = ir_id row \<Longrightarrow> r = row"
    using r(1) assms(1,2) by (auto simp: unique_key_def distinct_map dest: inj_onD)
  then have "\<exists>r' \<in> set (q_items (set_item q row item)). ir_id r' = cr_work_item_id c \<and>
      ir_task_id r' = cr_task_id c \<and> ir_role r' = ra_role (cr_assignment c)"
    using r by (intro bexI [of _ "if ir_id r = ir_id row then store_item item row else r"])
      (auto simp: in_set_item [OF assms(1)])
  with assms(3) show ?thesis by (auto simp: claim_row_ok_def)
qed

subsection \<open>Steps that keep the invariant\<close>

text \<open>An item changes without entering or leaving the active statuses.\<close>

lemma set_item_inv:
  assumes inv: "queue_inv q" and row: "row \<in> set (q_items q)"
    and item: "same_identity (ir_payload row) item"
    and act: "wi_status item \<in> set ACTIVE_STATUSES \<longleftrightarrow> ir_status row \<in> set ACTIVE_STATUSES"
  shows "queue_inv (set_item q row item)"
proof -
  have U: "unique_key ir_id (q_items q)" using inv by (simp add: queue_inv_def)
  have rowok: "item_row_ok row" "activity_ok (q_claims q) row"
    using inv row by (auto simp: queue_inv_def)
  have "item_row_ok (store_item item row)" "activity_ok (q_claims q) (store_item item row)"
    using rowok item act by (auto intro: item_row_ok_store simp: activity_ok_def)
  then have "\<forall>r \<in> set (q_items (set_item q row item)). item_row_ok r \<and> activity_ok (q_claims q) r"
    using inv by (auto simp: in_set_item [OF row] queue_inv_def)
  moreover have "\<forall>c \<in> set (q_claims q). claim_row_ok (q_items (set_item q row item)) c"
    using inv claim_row_ok_set_item [OF row U] by (simp add: queue_inv_def)
  ultimately show ?thesis
    using inv set_item_keys(1) [OF U, of row item] set_item_keys(2) [OF row U, of item]
    by (simp add: queue_inv_def)
qed

text \<open>The active claim of an item ends and the item leaves the active statuses.\<close>

lemma release_inv:
  assumes inv: "queue_inv q" and row: "row \<in> set (q_items q)"
    and item: "same_identity (ir_payload row) item" and out: "wi_status item \<notin> set ACTIVE_STATUSES"
    and c: "c \<in> set (q_claims q)" "cr_state c = CS_ACTIVE" "cr_work_item_id c = ir_id row"
    and st: "st \<noteq> CS_ACTIVE"
  shows "queue_inv (set_claim (set_item q row item) (c\<lparr>cr_state := st, cr_ended_at := Some t\<rparr>))"
    (is "queue_inv ?q")
proof -
  let ?c = "c\<lparr>cr_state := st, cr_ended_at := Some t\<rparr>"
  have U: "unique_key ir_id (q_items q)" "unique_key cr_lease_id (q_claims q)"
    using inv by (auto simp: queue_inv_def)
  have c': "c \<in> set (q_claims (set_item q row item))" "cr_lease_id c = cr_lease_id ?c"
    using c(1) by auto
  note in_claims = in_set_claim [OF c']
  have claims: "x \<in> set (q_claims ?q) \<longleftrightarrow> x \<in> set (q_claims q) \<and> x \<noteq> c \<and> cr_lease_id x \<noteq> cr_lease_id c \<or> x = ?c" for x
    using in_claims by auto
  have uniq: "x = c" if "x \<in> set (q_claims q)" "cr_lease_id x = cr_lease_id c" for x
    using that c(1) U(2) by (auto simp: unique_key_def distinct_map dest: inj_onD)
  have "?c \<noteq> c"
    using st c(2) by (auto dest: arg_cong [where f = cr_state])
  then have act: "active_on (q_claims ?q) wid = active_on (q_claims q) wid - {c}" for wid
    using uniq st by (auto simp: active_on_def claims)
  have "active_on (q_claims q) (ir_id row) = {c}"
  proof -
    have "c \<in> active_on (q_claims q) (ir_id row)" using c by (simp add: active_on_def)
    moreover have "activity_ok (q_claims q) row" using inv row by (simp add: queue_inv_def)
    ultimately show ?thesis by (auto simp: activity_ok_def split: if_splits)
  qed
  then have 1: "activity_ok (q_claims ?q) (store_item item row)"
    using out by (simp add: activity_ok_def act)
  have 2: "activity_ok (q_claims ?q) r" if "r \<in> set (q_items q)" "ir_id r \<noteq> ir_id row" for r
  proof -
    have "c \<notin> active_on (q_claims q) (ir_id r)" using c(3) that(2) by (auto simp: active_on_def)
    moreover have "activity_ok (q_claims q) r" using inv that(1) by (simp add: queue_inv_def)
    ultimately show ?thesis by (simp add: activity_ok_def act)
  qed
  have "item_row_ok (store_item item row)"
    using inv row item by (auto simp: queue_inv_def intro: item_row_ok_store)
  then have "\<forall>r \<in> set (q_items ?q). item_row_ok r \<and> activity_ok (q_claims ?q) r"
    using inv 1 2 by (auto simp: in_set_item [OF row] queue_inv_def)
  moreover have "claim_row_ok (q_items ?q) x" if "x \<in> set (q_claims ?q)" for x
  proof -
    have old: "claim_row_ok (q_items ?q) y" if "y \<in> set (q_claims q)" for y
      using inv that claim_row_ok_set_item [OF row U(1)] by (simp add: queue_inv_def)
    show ?thesis
      using that old [of x] old [OF c(1)] st by (auto simp: claims claim_row_ok_def)
  qed
  moreover have "no_conflicts (q_claims ?q)"
    using inv c(1) by (auto simp: queue_inv_def no_conflicts_def claims)
  moreover have "unique_key cr_lease_id (q_claims ?q)"
    using U(2) by (simp add: set_claim_def)
  ultimately show ?thesis
    using inv set_item_keys(1) [OF U(1), of row item] set_item_keys(2) [OF row U(1), of item]
    by (simp add: queue_inv_def)
qed

text \<open>A new item is published with a fresh identity outside the active statuses.\<close>

lemma publish_inv:
  assumes inv: "queue_inv q" and fresh: "qi_id item \<notin> ir_id ` set (q_items q)"
    and run: "run_key (new_item_row item) \<notin> run_key ` set (q_items q)"
    and out: "wi_status item \<notin> set ACTIVE_STATUSES"
  shows "queue_inv (q\<lparr>q_items := q_items q @ [new_item_row item]\<rparr>)"
proof -
  have claims: "claim_row_ok (q_items q @ [new_item_row item]) c" if "c \<in> set (q_claims q)" for c
    using inv that by (auto simp: queue_inv_def claim_row_ok_def)
  have "active_on (q_claims q) (qi_id item) = {}"
    using inv fresh by (force simp: active_on_def queue_inv_def claim_row_ok_def)
  then have "activity_ok (q_claims q) (new_item_row item)"
    using out by (simp add: activity_ok_def new_item_row_def)
  moreover have "item_row_ok (new_item_row item)"
    by (simp add: item_row_ok_def new_item_row_def)
  moreover have "ir_id (new_item_row item) = qi_id item"
    by (simp add: new_item_row_def)
  ultimately show ?thesis
    using inv fresh run claims by (auto simp: queue_inv_def)
qed

text \<open>An inactive item is leased to one new claim that conflicts with no earlier one.\<close>

lemma claim_step_inv:
  assumes inv: "queue_inv q" and row: "row \<in> set (q_items q)"
    and item: "same_identity (ir_payload row) item" and act: "wi_status item \<in> set ACTIVE_STATUSES"
    and was: "ir_status row \<notin> set ACTIVE_STATUSES"
    and c: "cr_lease_id c \<notin> cr_lease_id ` set (q_claims q)" "cr_state c = CS_ACTIVE"
      "cr_work_item_id c = ir_id row" "claim_row_ok (q_items q) c"
    and free: "\<And>x. x \<in> set (q_claims q) \<Longrightarrow> \<not> roles_conflict (cr_assignment c) (cr_assignment x)"
  shows "queue_inv ((set_item q row item)\<lparr>q_claims := q_claims q @ [c]\<rparr>)" (is "queue_inv ?q")
proof -
  have U: "unique_key ir_id (q_items q)" "unique_key cr_lease_id (q_claims q)"
    using inv by (auto simp: queue_inv_def)
  have act': "active_on (q_claims ?q) wid = active_on (q_claims q) wid \<union> (if wid = ir_id row then {c} else {})" for wid
    using c(2,3) by (auto simp: active_on_def)
  have "active_on (q_claims q) (ir_id row) = {}"
    using inv row was by (auto simp: queue_inv_def activity_ok_def)
  then have 1: "activity_ok (q_claims ?q) (store_item item row)"
    using act unfolding activity_ok_def act' by simp
  have 2: "activity_ok (q_claims ?q) r" if "r \<in> set (q_items q)" "ir_id r \<noteq> ir_id row" for r
    using inv that unfolding activity_ok_def act' by (auto simp: queue_inv_def activity_ok_def)
  have "item_row_ok (store_item item row)"
    using inv row item by (auto simp: queue_inv_def intro: item_row_ok_store)
  then have "\<forall>r \<in> set (q_items ?q). item_row_ok r \<and> activity_ok (q_claims ?q) r"
    using inv 1 2 by (auto simp: in_set_item [OF row] queue_inv_def)
  moreover have "\<forall>x \<in> set (q_claims ?q). claim_row_ok (q_items ?q) x"
    using inv c(4) claim_row_ok_set_item [OF row U(1)] by (auto simp: queue_inv_def)
  moreover have "no_conflicts (q_claims ?q)"
    using inv free roles_conflict_sym [of "cr_assignment c"]
    by (auto simp: queue_inv_def no_conflicts_def)
  ultimately show ?thesis
    using inv c(1) set_item_keys(1) [OF U(1), of row item] set_item_keys(2) [OF row U(1), of item]
    by (simp add: queue_inv_def)
qed

text \<open>A claim is extended: only its lease times change.\<close>

lemma renew_step_inv:
  assumes inv: "queue_inv q" and c: "c \<in> set (q_claims q)"
  shows "queue_inv (set_claim q (c\<lparr>cr_lease := (cr_lease c)\<lparr>tl_expires_at := e\<rparr>, cr_expires_at := e,
    cr_last_heartbeat_at := t\<rparr>))" (is "queue_inv ?q")
proof -
  let ?c = "c\<lparr>cr_lease := (cr_lease c)\<lparr>tl_expires_at := e\<rparr>, cr_expires_at := e, cr_last_heartbeat_at := t\<rparr>"
  have U: "unique_key cr_lease_id (q_claims q)" using inv by (simp add: queue_inv_def)
  have claims: "x \<in> set (q_claims ?q) \<longleftrightarrow> x \<in> set (q_claims q) \<and> cr_lease_id x \<noteq> cr_lease_id c \<or> x = ?c" for x
    using in_set_claim [OF c, of ?c x] by simp
  have uniq: "x = c" if "x \<in> set (q_claims q)" "cr_lease_id x = cr_lease_id c" for x
    using that c U by (auto simp: unique_key_def distinct_map dest: inj_onD)
  have "active_on (q_claims ?q) wid =
      (\<lambda>x. if x = c then ?c else x) ` active_on (q_claims q) wid" for wid
    using uniq c by (fastforce simp: active_on_def claims)
  then obtain f where act: "\<And>wid. active_on (q_claims ?q) wid = f ` active_on (q_claims q) wid"
    by blast
  have "activity_ok (q_claims ?q) r" if "activity_ok (q_claims q) r" for r
    using that by (auto simp: activity_ok_def act)
  moreover have "claim_row_ok (q_items q) ?c"
    using inv c by (auto simp: queue_inv_def claim_row_ok_def)
  moreover have "no_conflicts (q_claims ?q)"
    using inv c by (auto simp: queue_inv_def no_conflicts_def claims)
  moreover have "unique_key cr_lease_id (q_claims ?q)"
    using U by (simp add: set_claim_def)
  ultimately show ?thesis
    using inv by (auto simp: queue_inv_def claims)
qed

subsection \<open>Every operation preserves the invariant\<close>

lemma require_active_claim_Inr_iff:
  "require_active_claim D q wid lid tok now = Inr c \<longleftrightarrow>
     row_of cr_lease_id lid (q_claims q) = Some c \<and> cr_work_item_id c = wid \<and>
     token_digest D tok = Inr (cr_owner_token_sha256 c) \<and> cr_state c = CS_ACTIVE \<and> now < cr_expires_at c"
  by (auto simp: require_active_claim_def res_iffs split: option.splits if_splits)

lemma require_active_claimE:
  assumes "require_active_claim D q wid lid tok now = Inr c"
  obtains "row_of cr_lease_id lid (q_claims q) = Some c" "c \<in> set (q_claims q)" "cr_lease_id c = lid"
    "cr_work_item_id c = wid" "token_digest D tok = Inr (cr_owner_token_sha256 c)"
    "cr_state c = CS_ACTIVE" "now < cr_expires_at c"
  using assms by (auto simp: require_active_claim_Inr_iff)

lemma enqueue_locked_cases:
  assumes "enqueue_locked D allow q item = Inr (item', q')"
  obtains (replayed) row where "row_of ir_id (qi_id item) (q_items q) = Some row" "decode_item D row = Inr item"
      "item' = item" "q' = q"
  | (published) "qi_id item \<notin> ir_id ` set (q_items q)" "item' = item"
      "same_run q item = [] \<or> allow \<and> map Some (same_run q item) = [qi_parent_work_item_id item]"
      "q' = append_queue_event (q\<lparr>q_items := q_items q @ [new_item_row item]\<rparr>) item None
              QE_ENQUEUED None (wi_updated_at item) NoDetail"
proof (cases "row_of ir_id (qi_id item) (q_items q)")
  case None
  then have "qi_id item \<notin> ir_id ` set (q_items q)" by (simp add: row_of_None_iff)
  then show thesis
    by (rule published) (use assms None in \<open>auto simp: enqueue_locked_def Let_def split: if_splits\<close>)
next
  case (Some row)
  then show thesis
    by (rule replayed)
      (use assms Some in \<open>auto simp: enqueue_locked_def Let_def bind_res_Inr_iff split: if_splits\<close>)
qed

lemma same_run_Nil_iff:
  "same_run q item = [] \<longleftrightarrow> run_key (new_item_row item) \<notin> run_key ` set (q_items q)"
  by (auto simp: same_run_def filter_empty_conv run_key_def new_item_row_def image_iff)

lemma enqueue_locked_inv:
  assumes "queue_inv q" and "enqueue_locked D False q item = Inr (item', q')"
    and "wi_status item \<notin> set ACTIVE_STATUSES"
  shows "queue_inv q'"
  using assms(2)
proof (cases rule: enqueue_locked_cases)
  case published
  then show ?thesis using publish_inv [OF assms(1) published(1) _ assms(3)] by (simp add: same_run_Nil_iff)
qed (use assms(1) in simp)

lemma validate_enqueue_status_inactive:
  "validate_enqueue_status item = Inr u \<Longrightarrow> wi_status item \<notin> set ACTIVE_STATUSES"
  by (auto simp: validate_enqueue_status_def ACTIVE_STATUSES_def)

lemma enqueue_inv: "queue_inv q \<Longrightarrow> enqueue D q item = Inr (item', q') \<Longrightarrow> queue_inv q'"
  by (auto simp: enqueue_def bind_res_Inr_iff dest: validate_enqueue_status_inactive
      intro: enqueue_locked_inv)

lemma is_schedulable_inactive: "is_schedulable w t \<Longrightarrow> wi_status w \<notin> set ACTIVE_STATUSES"
  by (auto simp: is_schedulable_def ACTIVE_STATUSES_def)

lemma claimed_item_identity: "same_identity w (claimed_item w t)" "wi_status (claimed_item w t) = WI_LEASED"
  "qi_id (claimed_item w t) = qi_id w"
  by (simp_all add: same_identity_def claimed_item_def)

lemma claim_cases:
  assumes "claim D q item asg lease sel wk tok cap now = Inr (c, q')"
  obtains t tsha where "now = Aware t" "token_digest D tok = Inr tsha" "1 \<le> cap" "cap \<le> 16"
    "validate_allocation item asg lease sel t = Inr ()" "get_locked D q (qi_id item) = Inr item"
    "is_schedulable item t" "validate_capacity_locked q asg cap t = Inr ()"
    "validate_independence_locked q asg = Inr ()" "tl_id lease \<notin> cr_lease_id ` set (q_claims q)"
    "c = \<lparr>qc_work_item = claimed_item item t, qc_assignment = asg, qc_lease = lease,
          qc_model_selection = sel, qc_worker_id = wk, qc_claimed_at = t\<rparr>"
    "\<exists>row. row_of ir_id (qi_id item) (q_items q) = Some row \<and>
      q' = append_queue_event ((set_item q row (claimed_item item t))\<lparr>q_claims := q_claims q @
             [new_claim_row (claimed_item item t) asg lease sel wk tsha t]\<rparr>) (claimed_item item t)
             (Some (wi_status item)) QE_CLAIMED (Some (tl_id lease)) t (ClaimDetail c)"
proof -
  obtain t tsha q1 where *: "now = Aware t" "token_digest D tok = Inr tsha" "1 \<le> cap" "cap \<le> 16"
      "validate_allocation item asg lease sel t = Inr ()" "get_locked D q (qi_id item) = Inr item"
      "is_schedulable item t" "validate_capacity_locked q asg cap t = Inr ()"
      "validate_independence_locked q asg = Inr ()" "update_item q (claimed_item item t) = Inr q1"
      "tl_id lease \<notin> cr_lease_id ` set (q_claims q1)"
      "c = \<lparr>qc_work_item = claimed_item item t, qc_assignment = asg, qc_lease = lease,
          qc_model_selection = sel, qc_worker_id = wk, qc_claimed_at = t\<rparr>"
      "q' = append_queue_event (q1\<lparr>q_claims := q_claims q1 @
             [new_claim_row (claimed_item item t) asg lease sel wk tsha t]\<rparr>) (claimed_item item t)
             (Some (wi_status item)) QE_CLAIMED (Some (tl_id lease)) t (ClaimDetail c)"
    using assms by (cases now) (auto simp: claim_def bind_res_Inr_iff require_aware_def Let_def)
  obtain row where row: "row_of ir_id (qi_id item) (q_items q) = Some row"
    using *(6) by (auto simp: get_locked_Inr_iff)
  then have "q1 = set_item q row (claimed_item item t)"
    using *(10) update_item_eq [of "claimed_item item t" q row] by (simp add: claimed_item_identity(3))
  with * row show thesis by (intro that [of t tsha]) auto
qed

lemma independence_lockedD:
  assumes "validate_independence_locked q asg = Inr ()" and "x \<in> set (q_claims q)"
    and "cr_task_id x = ra_task_id (cr_assignment x)"
  shows "\<not> roles_conflict asg (cr_assignment x)"
proof (cases "cr_task_id x = ra_task_id asg")
  case True
  let ?rows = "sort_key cr_lease_id (filter (\<lambda>r. cr_task_id r = ra_task_id asg) (q_claims q))"
  obtain existing where e: "map_res (\<lambda>r. decode_model valid_RoleAssignment (cr_assignment r)) ?rows = Inr existing"
      "validate_assignment_independence asg existing = None"
    using assms(1) by (auto simp: validate_independence_locked_def bind_res_Inr_iff)
  have "x \<in> set ?rows" using True assms(2) by simp
  then have "cr_assignment x \<in> set existing"
    using map_res_member [OF e(1)] by (fastforce simp: decode_model_def split: if_splits)
  with e(2) show ?thesis by (simp add: independence_None_iff)
next
  case False
  with assms(3) show ?thesis by (simp add: roles_conflict_def)
qed

lemma claim_inv:
  assumes inv: "queue_inv q" and ok: "claim D q item asg lease sel wk tok cap now = Inr (c, q')"
  shows "queue_inv q'"
  using ok
proof (cases rule: claim_cases)
  case (1 t tsha)
  obtain row where row: "row_of ir_id (qi_id item) (q_items q) = Some row" "row \<in> set (q_items q)"
      "ir_id row = qi_id item" "ir_payload row = item" "item_row_ok row" "ir_status row = wi_status item"
      "valid_QueuedWorkItem D item"
    using inv 1(6) by (rule get_lockedE)
  have role: "qi_role item \<in> set DELIVERY_ROLES"
    using row(7) by (simp add: valid_QueuedWorkItem_def validate_queue_identity_def)
  let ?c = "new_claim_row (claimed_item item t) asg lease sel wk tsha t"
  have alloc: "ra_task_id asg = wi_task_id item" "ra_role asg = qi_role item" "tl_id lease = ra_lease_id asg"
      "tl_task_id lease = wi_task_id item" "tl_agent_id lease = ra_agent_id asg"
    using 1(5) by (auto simp: validate_allocation_def)
  have cok: "claim_row_ok (q_items q) ?c"
    using row(2-5) alloc role
    by (auto simp: claim_row_ok_def new_claim_row_def claimed_item_def item_row_ok_def intro!: bexI [of _ row])
  have "\<not> roles_conflict (cr_assignment ?c) (cr_assignment x)" if "x \<in> set (q_claims q)" for x
    using independence_lockedD [OF 1(9) that] inv that
    by (auto simp: new_claim_row_def queue_inv_def claim_row_ok_def)
  then have "queue_inv ((set_item q row (claimed_item item t))\<lparr>q_claims := q_claims q @ [?c]\<rparr>)"
    using inv row 1(10) cok is_schedulable_inactive [OF 1(7)]
    by (intro claim_step_inv) (auto simp: claimed_item_identity ACTIVE_STATUSES_def new_claim_row_def)
  then show ?thesis
    using 1(12) row(1) by auto
qed

text \<open>
  What a successful lifecycle call has checked: the item and the live claim of the caller's token.
\<close>

definition owns :: "digests \<Rightarrow> queue \<Rightarrow> string \<Rightarrow> string \<Rightarrow> string \<Rightarrow> instant \<Rightarrow> bool" where
  "owns D q wid lid tok t \<longleftrightarrow>
     (\<exists>c \<in> set (q_claims q). cr_lease_id c = lid \<and> cr_work_item_id c = wid \<and>
        token_digest D tok = Inr (cr_owner_token_sha256 c) \<and> cr_state c = CS_ACTIVE \<and>
        t < cr_expires_at c)"

lemma ownsI: "require_active_claim D q wid lid tok t = Inr c \<Longrightarrow> owns D q wid lid tok t"
  by (auto simp: owns_def require_active_claim_Inr_iff)

lemma start_cases:
  assumes "start D q wid lid tok now = Inr (w, q')"
  obtains t current c where "now = Aware t" "get_locked D q wid = Inr current"
    "require_active_claim D q (qi_id current) lid tok t = Inr c"
    "(wi_status current = WI_RUNNING \<and> w = current \<and> q' = q) \<or>
     (wi_status current = WI_LEASED \<and> w = current\<lparr>wi_status := WI_RUNNING, wi_updated_at := t\<rparr> \<and>
      (\<exists>q1. update_item q w = Inr q1 \<and>
        q' = append_queue_event q1 w (Some WI_LEASED) QE_STARTED (Some lid) t NoDetail))"
  using assms
  by (cases now) (auto simp: start_def require_aware_def bind_res_Inr_iff Let_def split: if_splits)

lemma update_item_get:
  assumes "queue_inv q" and "get_locked D q wid = Inr current" and "same_identity current w"
    and "update_item q w = Inr q1"
  obtains row where "row \<in> set (q_items q)" "ir_payload row = current" "ir_status row = wi_status current"
    "ir_id row = qi_id current" "qi_id current = wid" "q1 = set_item q row w"
proof -
  obtain row where row: "row_of ir_id wid (q_items q) = Some row" "row \<in> set (q_items q)"
      "ir_id row = wid" "ir_payload row = current" "qi_id current = wid" "ir_status row = wi_status current"
    using assms(1,2) by (rule get_lockedE)
  moreover have "q1 = set_item q row w"
    using update_item_eq [of w q row] row(1,5) assms(3,4) by (simp add: same_identity_def)
  ultimately show thesis by (intro that) auto
qed

lemma start_inv: "queue_inv q \<Longrightarrow> start D q wid lid tok now = Inr (w, q') \<Longrightarrow> queue_inv q'"
proof (elim start_cases disjE)
  fix t current c
  assume inv: "queue_inv q" and g: "get_locked D q wid = Inr current"
    and st: "wi_status current = WI_LEASED \<and> w = current\<lparr>wi_status := WI_RUNNING, wi_updated_at := t\<rparr> \<and>
      (\<exists>q1. update_item q w = Inr q1 \<and>
        q' = append_queue_event q1 w (Some WI_LEASED) QE_STARTED (Some lid) t NoDetail)"
  then obtain q1 where q1: "update_item q w = Inr q1" "queue_inv q' = queue_inv q1" by auto
  have same: "same_identity current w" using st by (simp add: same_identity_def)
  obtain row where row: "row \<in> set (q_items q)" "ir_payload row = current"
      "ir_status row = wi_status current" "q1 = set_item q row w"
    using inv g same q1(1) by (rule update_item_get)
  then show "queue_inv q'"
    using inv same st unfolding q1(2) row(4) by (intro set_item_inv) (auto simp: ACTIVE_STATUSES_def)
qed simp

lemma renew_cases:
  assumes "renew D q wid lid tok now ex = Inr (l, q')"
  obtains t e current c where "now = Aware t" "ex = Aware e" "t < e" "get_locked D q wid = Inr current"
    "require_active_claim D q (qi_id current) lid tok t = Inr c" "valid_TaskLease (cr_lease c)"
    "l = (cr_lease c)\<lparr>tl_expires_at := e\<rparr>"
    "q' = set_claim q (c\<lparr>cr_lease := l, cr_expires_at := e, cr_last_heartbeat_at := t\<rparr>)"
proof -
  obtain t e current c where *: "now = Aware t" "ex = Aware e" "t < e" "get_locked D q wid = Inr current"
    "require_active_claim D q (qi_id current) lid tok t = Inr c" "valid_TaskLease (cr_lease c)"
    "l = (cr_lease c)\<lparr>tl_expires_at := e\<rparr>"
    "q' = q\<lparr>q_claims := put_row cr_lease_id lid
       (c\<lparr>cr_lease := l, cr_expires_at := e, cr_last_heartbeat_at := t\<rparr>) (q_claims q)\<rparr>"
    using assms
    by (cases now; cases ex)
      (auto simp: renew_def require_aware_def bind_res_Inr_iff decode_model_def Let_def split: if_splits)
  moreover have "cr_lease_id c = lid"
    using *(5) by (auto simp: require_active_claim_Inr_iff)
  ultimately show thesis by (intro that) (auto simp: set_claim_def)
qed

lemma renew_inv: "queue_inv q \<Longrightarrow> renew D q wid lid tok now ex = Inr (l, q') \<Longrightarrow> queue_inv q'"
  by (elim renew_cases) (auto simp: require_active_claim_Inr_iff intro!: renew_step_inv)

lemma release_steps:
  assumes inv: "queue_inv q" and g: "get_locked D q wid = Inr current"
    and claim: "require_active_claim D q (qi_id current) lid tok t = Inr c"
    and same: "same_identity current w" and out: "wi_status w \<notin> set ACTIVE_STATUSES"
    and st: "st \<noteq> CS_ACTIVE" and steps: "update_item q w = Inr q1" "release_claim q1 lid st t' = Inr q2"
  shows "queue_inv q2" "\<exists>row. q2 = set_claim (set_item q row w) (c\<lparr>cr_state := st, cr_ended_at := Some t'\<rparr>) \<and>
    row \<in> set (q_items q) \<and> ir_payload row = current"
proof -
  obtain row where row: "row \<in> set (q_items q)" "ir_payload row = current"
      "ir_id row = qi_id current" "q1 = set_item q row w"
    using inv g same steps(1) by (rule update_item_get)
  have c: "row_of cr_lease_id lid (q_claims q1) = Some c" "c \<in> set (q_claims q)"
      "cr_state c = CS_ACTIVE" "cr_work_item_id c = ir_id row"
    using claim row(3,4) by (auto simp: require_active_claim_Inr_iff)
  have q2: "q2 = set_claim (set_item q row w) (c\<lparr>cr_state := st, cr_ended_at := Some t'\<rparr>)"
    using steps(2) release_claim_eq [OF c(1)] row(4) by simp
  then show "queue_inv q2"
    using inv row same out c st by (auto intro!: release_inv)
  show "\<exists>row. q2 = set_claim (set_item q row w) (c\<lparr>cr_state := st, cr_ended_at := Some t'\<rparr>) \<and>
    row \<in> set (q_items q) \<and> ir_payload row = current"
    using q2 row by blast
qed

lemma release_to_status_cases:
  assumes "release_to_status D q wid lid tok st reason now av et disp = Inr (w, q')"
  obtains t current c q1 q2 where "now = Aware t" "get_locked D q wid = Inr current"
    "require_active_claim D q (qi_id current) lid tok t = Inr c"
    "wi_status current \<in> set ACTIVE_STATUSES"
    "case disp of None \<Rightarrow> True | Some d \<Rightarrow> disposition_binds d current \<and> st \<in> set WAIT_STATUSES"
    "w = current\<lparr>wi_status := st,
           qi_dispatch_sequence := (if st = WI_RETRY_SCHEDULED then qi_dispatch_sequence current + 1
                                    else qi_dispatch_sequence current),
           wi_wait_reason := Some reason, wi_wait_disposition := disp,
           wi_available_at := av, wi_updated_at := t\<rparr>"
    "update_item q w = Inr q1" "release_claim q1 lid CS_RELEASED t = Inr q2"
    "q' = append_queue_event q2 w (Some (wi_status current)) et (Some lid) t NoDetail"
  using assms
  by (cases now)
    (auto simp: release_to_status_def require_aware_def bind_res_Inr_iff Let_def split: option.splits)

lemma release_to_status_inv:
  assumes "queue_inv q" and "release_to_status D q wid lid tok st reason now av et disp = Inr (w, q')"
    and "st \<notin> set ACTIVE_STATUSES"
  shows "queue_inv q'"
  using assms(2)
proof (cases rule: release_to_status_cases)
  case (1 t current c q1 q2)
  have "same_identity current w" "wi_status w = st"
    using 1(6) by (simp_all add: same_identity_def)
  then show ?thesis
    using release_steps(1) [OF assms(1) 1(2,3) _ _ _ 1(7,8)] assms(3) 1(9) by simp
qed

lemma wait_Inr:
  assumes "wait D q wid lid tok st reason now disp = Inr (w, q')"
  shows "st \<in> set WAIT_STATUSES" "reason \<noteq> []" "st \<notin> set ACTIVE_STATUSES"
    "release_to_status D q wid lid tok st reason now None QE_WAITING disp = Inr (w, q')"
  using assms by (auto simp: wait_def WAIT_STATUSES_def ACTIVE_STATUSES_def split: if_splits)

lemma wait_inv: "queue_inv q \<Longrightarrow> wait D q wid lid tok st reason now disp = Inr (w, q') \<Longrightarrow> queue_inv q'"
  by (rule release_to_status_inv) (auto dest: wait_Inr)

lemma retry_Inr:
  assumes "retry D q wid lid tok reason now av = Inr (w, q')"
  obtains t a where "now = Aware t" "av = Aware a" "t < a" "reason \<noteq> []"
    "release_to_status D q wid lid tok WI_RETRY_SCHEDULED reason now (Some a) QE_RETRY_SCHEDULED None = Inr (w, q')"
  using assms by (cases now; cases av) (auto simp: retry_def require_aware_def split: if_splits)

lemma retry_inv: "queue_inv q \<Longrightarrow> retry D q wid lid tok reason now av = Inr (w, q') \<Longrightarrow> queue_inv q'"
  by (auto simp: retry_def bind_res_Inr_iff ACTIVE_STATUSES_def split: if_splits
      elim!: release_to_status_inv)

lemma make_ready_cases:
  assumes "make_ready D q wid now exp = Inr (w, q')"
  obtains t current q1 where "now = Aware t" "get_locked D q wid = Inr current"
    "wi_status current \<in> set WAIT_STATUSES \<or> wi_status current = WI_RETRY_SCHEDULED"
    "\<not> active_claim_exists q (qi_id current)" "resume_signal_ok D current exp"
    "w = current\<lparr>wi_status := WI_READY, qi_dispatch_sequence := qi_dispatch_sequence current + 1,
           wi_wait_reason := None, wi_wait_disposition := None, wi_available_at := None,
           wi_updated_at := t\<rparr>"
    "update_item q w = Inr q1"
    "q' = append_queue_event q1 w (Some (wi_status current)) QE_READY None t NoDetail"
  using assms
  by (cases now) (auto simp: make_ready_def require_aware_def bind_res_Inr_iff Let_def)

lemma make_ready_inv:
  assumes "queue_inv q" and "make_ready D q wid now exp = Inr (w, q')"
  shows "queue_inv q'"
  using assms(2)
proof (cases rule: make_ready_cases)
  case (1 t current q1)
  have same: "same_identity current w" using 1(6) by (simp add: same_identity_def)
  obtain row where row: "row \<in> set (q_items q)" "ir_payload row = current"
      "ir_status row = wi_status current" "q1 = set_item q row w"
    using assms(1) 1(2) same 1(7) by (rule update_item_get)
  have "queue_inv (set_item q row w)"
    using assms(1) row same 1(3,6)
    by (intro set_item_inv) (auto simp: ACTIVE_STATUSES_def WAIT_STATUSES_def)
  with row(4) 1(8) show ?thesis by simp
qed

lemma reclaim_one_cases:
  assumes inv: "queue_inv q" and row: "c \<in> set (q_claims q)" "cr_state c = CS_ACTIVE"
    and ok: "reclaim_one D t rt c q = Inr (w, q')"
  obtains current row where "get_locked D q (cr_work_item_id c) = Inr current"
    "wi_status current \<in> set ACTIVE_STATUSES" "row \<in> set (q_items q)" "ir_payload row = current"
    "ir_id row = cr_work_item_id c"
    "w = current\<lparr>wi_status := WI_RETRY_SCHEDULED, qi_dispatch_sequence := qi_dispatch_sequence current + 1,
           wi_wait_reason := Some (lease_expired_reason (cr_lease_id c)),
           wi_available_at := Some rt, wi_updated_at := t\<rparr>"
    "q' = append_queue_event (set_claim (set_item q row w) (c\<lparr>cr_state := CS_EXPIRED, cr_ended_at := Some t\<rparr>))
            w (Some (wi_status current)) QE_LEASE_EXPIRED (Some (cr_lease_id c)) t NoDetail"
    "queue_inv q'"
proof -
  obtain current q1 q2 where 1: "get_locked D q (cr_work_item_id c) = Inr current"
      "wi_status current \<in> set ACTIVE_STATUSES"
      "w = current\<lparr>wi_status := WI_RETRY_SCHEDULED, qi_dispatch_sequence := qi_dispatch_sequence current + 1,
           wi_wait_reason := Some (lease_expired_reason (cr_lease_id c)),
           wi_available_at := Some rt, wi_updated_at := t\<rparr>"
      "update_item q w = Inr q1" "release_claim q1 (cr_lease_id c) CS_EXPIRED t = Inr q2"
      "q' = append_queue_event q2 w (Some (wi_status current)) QE_LEASE_EXPIRED (Some (cr_lease_id c)) t NoDetail"
    using ok by (auto simp: reclaim_one_def bind_res_Inr_iff Let_def)
  have same: "same_identity current w" using 1(3) by (simp add: same_identity_def)
  obtain row where r: "row \<in> set (q_items q)" "ir_payload row = current" "ir_id row = qi_id current"
      "qi_id current = cr_work_item_id c" "q1 = set_item q row w"
    using inv 1(1) same 1(4) by (rule update_item_get)
  have "row_of cr_lease_id (cr_lease_id c) (q_claims q1) = Some c"
    using inv row(1) r(5) by (simp add: queue_inv_def row_of_unique)
  then have q2: "q2 = set_claim (set_item q row w) (c\<lparr>cr_state := CS_EXPIRED, cr_ended_at := Some t\<rparr>)"
    using 1(5) release_claim_eq r(5) by force
  have "queue_inv q2"
    unfolding q2 using inv r row same 1(3) by (intro release_inv) (auto simp: ACTIVE_STATUSES_def)
  with 1 r q2 show thesis by (intro that [of current row]) auto
qed

lemma set_claim_other:
  assumes "x \<in> set (q_claims q)" and "cr_lease_id x \<noteq> cr_lease_id c"
  shows "x \<in> set (q_claims (set_claim q c))"
  using assms by (auto simp: set_claim_def in_set_put_row)

lemma reclaim_loop_inv:
  assumes "queue_inv q" and "set rows \<subseteq> set (q_claims q)" and "distinct (map cr_lease_id rows)"
    and "\<forall>c \<in> set rows. cr_state c = CS_ACTIVE" and "reclaim_loop D t rt rows q = Inr (ws, q')"
  shows "queue_inv q'"
  using assms
proof (induction rows arbitrary: q ws)
  case (Cons c rows)
  obtain w q1 ws' where s: "reclaim_one D t rt c q = Inr (w, q1)" "reclaim_loop D t rt rows q1 = Inr (ws', q')"
    using Cons.prems(5) by (auto simp: bind_res_Inr_iff)
  have c: "c \<in> set (q_claims q)" "cr_state c = CS_ACTIVE" using Cons.prems by auto
  obtain current :: QueuedWorkItem and row where q1: "q1 = append_queue_event (set_claim (set_item q row w)
        (c\<lparr>cr_state := CS_EXPIRED, cr_ended_at := Some t\<rparr>))
        w (Some (wi_status current)) QE_LEASE_EXPIRED (Some (cr_lease_id c)) t NoDetail" and inv1: "queue_inv q1"
    by (rule reclaim_one_cases [OF Cons.prems(1) c s(1)]) blast
  have "set rows \<subseteq> set (q_claims q1)"
    using Cons.prems(2,3) by (auto simp: q1 intro!: set_claim_other) (metis imageI)
  with Cons.IH [OF inv1 _ _ _ s(2)] Cons.prems show ?case by auto
qed simp

lemma set_expired_claims:
  "set (expired_claims q t) = {c \<in> set (q_claims q). cr_state c = CS_ACTIVE \<and> cr_expires_at c \<le> t}"
  by (auto simp: expired_claims_def)

lemma distinct_expired_claims: "queue_inv q \<Longrightarrow> distinct (map cr_lease_id (expired_claims q t))"
  by (auto simp: queue_inv_def expired_claims_def unique_key_def distinct_map intro: inj_on_subset)

lemma reclaim_expired_inv:
  assumes "queue_inv q" and "reclaim_expired D q now rt = Inr (ws, q')"
  shows "queue_inv q'"
proof -
  obtain t r where "reclaim_loop D t r (expired_claims q t) q = Inr (ws, q')"
    using assms(2) by (auto simp: reclaim_expired_def bind_res_Inr_iff)
  then show ?thesis
    using assms(1) distinct_expired_claims [OF assms(1)]
    by (intro reclaim_loop_inv [OF assms(1)]) (auto simp: set_expired_claims)
qed

lemma complete_locked_cases:
  assumes "complete_locked D q wid lid tok rs nxt t = Inr (k, q')"
  obtains (replayed) current where "get_locked D q wid = Inr current" "wi_status current = WI_CLOSED"
      "replay_completion D q current lid tok rs nxt = Inr k" "q' = q"
  | (closed) current c w q1 q2 published q3 where "get_locked D q wid = Inr current"
      "require_active_claim D q (qi_id current) lid tok t = Inr c"
      "wi_status current \<in> set ACTIVE_STATUSES" "check_next current nxt t = Inr ()"
      "w = current\<lparr>wi_status := WI_CLOSED, wi_updated_at := t\<rparr>"
      "update_item q w = Inr q1" "release_claim q1 lid CS_RELEASED t = Inr q2"
      "publish_next D q2 nxt = Inr (published, q3)"
      "k = \<lparr>qk_work_item = w, qk_artifacts = rs, qk_next_work_item = published, qk_completed_at = t\<rparr>"
      "validate_completion k"
      "q' = append_queue_event q3 w (Some (wi_status current)) QE_COMPLETED (Some lid) t
              (CompletionDetail rs published)"
proof -
  obtain current where g: "get_locked D q wid = Inr current"
    using assms by (auto simp: complete_locked_def bind_res_Inr_iff)
  show thesis
  proof (cases "wi_status current = WI_CLOSED")
    case True
    with g assms show thesis
      by (intro replayed [OF g]) (auto simp: complete_locked_def bind_res_Inr_iff)
  next
    case False
    with g assms show thesis
      by (auto simp: complete_locked_def bind_res_Inr_iff Let_def intro: closed [OF g])
  qed
qed

lemma complete_locked_inv:
  assumes "queue_inv q" and "complete_locked D q wid lid tok rs nxt t = Inr (k, q')"
  shows "queue_inv q'"
  using assms(2)
proof (cases rule: complete_locked_cases)
  case (closed current c w q1 q2 published q3)
  have "same_identity current w" "wi_status w = WI_CLOSED"
    using closed(5) by (simp_all add: same_identity_def)
  then have "queue_inv q2"
    using release_steps(1) [OF assms(1) closed(1,2) _ _ _ closed(6,7)] by (simp add: ACTIVE_STATUSES_def)
  moreover have "wi_status n \<notin> set ACTIVE_STATUSES" if "nxt = Some n" for n
    using closed(4) that by (auto simp: check_next_def split: if_splits dest: validate_enqueue_status_inactive)
  ultimately have "queue_inv q3"
    using closed(8) by (auto simp: publish_next_def bind_res_Inr_iff split: option.splits
        intro: enqueue_locked_inv)
  with closed(11) show ?thesis by simp
qed (use assms(1) in simp)

lemma complete_inv:
  "queue_inv q \<Longrightarrow> complete D q wid lid tok rs nxt now = Inr (k, q') \<Longrightarrow> queue_inv q'"
  by (auto simp: complete_def bind_res_Inr_iff intro: complete_locked_inv)

subsection \<open>Runs\<close>

text \<open>Every mutating call of the queue protocol as data, with its arguments.\<close>

datatype queue_op =
    OpEnqueue QueuedWorkItem
  | OpClaim QueuedWorkItem RoleAssignment TaskLease ModelSelection string string int py_datetime
  | OpStart string string string py_datetime
  | OpRenew string string string py_datetime py_datetime
  | OpComplete string string string "QueueArtifactReceipt list" "QueuedWorkItem option" py_datetime
  | OpWait string string string WorkItemStatus string py_datetime "DeliveryDisposition option"
  | OpRetry string string string string py_datetime py_datetime
  | OpMakeReady string py_datetime "string option"
  | OpReclaim py_datetime py_datetime

definition new_state :: "'e + ('a \<times> queue) \<Rightarrow> queue option" where
  "new_state r = (case r of Inl _ \<Rightarrow> None | Inr (_, q) \<Rightarrow> Some q)"

lemma new_state_Some [simp]: "new_state r = Some q \<longleftrightarrow> (\<exists>a. r = Inr (a, q))"
  by (auto simp: new_state_def split: sum.splits prod.splits)

fun queue_apply :: "digests \<Rightarrow> queue_op \<Rightarrow> queue \<Rightarrow> queue option" where
  "queue_apply D (OpEnqueue item) q = new_state (enqueue D q item)"
| "queue_apply D (OpClaim item asg lease sel wk tok cap now) q =
     new_state (claim D q item asg lease sel wk tok cap now)"
| "queue_apply D (OpStart wid lid tok now) q = new_state (start D q wid lid tok now)"
| "queue_apply D (OpRenew wid lid tok now ex) q = new_state (renew D q wid lid tok now ex)"
| "queue_apply D (OpComplete wid lid tok rs nxt now) q = new_state (complete D q wid lid tok rs nxt now)"
| "queue_apply D (OpWait wid lid tok st reason now disp) q =
     new_state (wait D q wid lid tok st reason now disp)"
| "queue_apply D (OpRetry wid lid tok reason now av) q = new_state (retry D q wid lid tok reason now av)"
| "queue_apply D (OpMakeReady wid now ex) q = new_state (make_ready D q wid now ex)"
| "queue_apply D (OpReclaim now rt) q = new_state (reclaim_expired D q now rt)"

lemma queue_apply_inv: "queue_inv q \<Longrightarrow> queue_apply D op q = Some q' \<Longrightarrow> queue_inv q'"
  by (cases op)
    (auto intro: enqueue_inv claim_inv start_inv renew_inv complete_inv wait_inv retry_inv
      make_ready_inv reclaim_expired_inv)

interpretation queue_run: guarded_run "queue_apply D" "\<lambda>q op. True" queue_inv for D
  by unfold_locales (rule queue_apply_inv)

lemma ok_run_True [simp]: "ok_run f (\<lambda>q op. True) s ops"
  by (induction ops arbitrary: s) (auto split: option.splits)

lemmas queue_reachable_inv = queue_run.run_inv [OF queue_inv_init ok_run_True]

end
