(* ===== verification/Queue_Samples.thy ===== *)
theory Queue_Samples
  imports Queue_Safety
begin

section \<open>A concrete queue\<close>

text \<open>
  One item, its assignment, lease and model selection, and the queue after publishing, claiming and
  starting it: the states at which the properties of the queue are evaluated.
\<close>

definition sample_digests :: digests where
  "sample_digests =
     \<lparr>dg_facts = (\<lambda>_. replicate 64 (CHR ''a'')), dg_disposition = (\<lambda>_. replicate 64 (CHR ''b'')),
      dg_token = (\<lambda>t. t)\<rparr>"

definition sample_token :: string where
  "sample_token = ''token-0123456789''"

definition sample_work :: "string \<Rightarrow> string \<Rightarrow> instant \<Rightarrow> QueuedWorkItem" where
  "sample_work wid task created =
     \<lparr>wi_task_id = task, wi_repository_id = ''repository_a01'', wi_status = WI_READY, wi_priority = 5,
      wi_risk = RT_LOW, wi_required_capabilities = [''py''], wi_preferred_agent_id = None,
      wi_wait_reason = None, wi_wait_disposition = None, wi_available_at = None,
      wi_created_at = created, wi_updated_at = created,
      qi_id = wid, qi_role = AR_CODER, qi_attempt = 1, qi_checkpoint_sequence = 0,
      qi_dispatch_sequence = 0, qi_repository_scopes = [''src''], qi_parent_work_item_id = None\<rparr>"

definition sample_assignment :: "string \<Rightarrow> RoleAssignment" where
  "sample_assignment task =
     \<lparr>ra_id = ''assignment_a01'', ra_repository_id = ''repository_a01'', ra_task_id = task,
      ra_agent_id = ''agent_a01'', ra_role = AR_CODER, ra_attempt = 1, ra_lease_id = ''lease_a01'',
      ra_capacity_units = 1, ra_assigned_at = 100\<rparr>"

definition sample_lease :: "string \<Rightarrow> TaskLease" where
  "sample_lease task =
     \<lparr>tl_id = ''lease_a01'', tl_assignment_id = ''assignment_a01'', tl_task_id = task,
      tl_agent_id = ''agent_a01'', tl_capacity_units = 1, tl_acquired_at = 100, tl_expires_at = 200\<rparr>"

abbreviation item_a :: QueuedWorkItem where
  "item_a \<equiv> sample_work ''work_a01'' ''task_a01'' 0"

definition publish_op :: queue_op where
  "publish_op = OpEnqueue item_a"

definition claim_op :: queue_op where
  "claim_op = OpClaim item_a (sample_assignment ''task_a01'') (sample_lease ''task_a01'')
     (sample_selection BT_ECONOMY ''small'' [MR_RISK_FLOOR]) ''worker_a01'' sample_token 1 (Aware 100)"

definition start_op :: queue_op where
  "start_op = OpStart ''work_a01'' ''lease_a01'' sample_token (Aware 110)"

abbreviation sample_queue :: "queue_op list \<Rightarrow> queue" where
  "sample_queue ops \<equiv> run_ops (queue_apply sample_digests) initialize_schema ops"

abbreviation published_queue :: queue where
  "published_queue \<equiv> sample_queue [publish_op]"

abbreviation claimed_queue :: queue where
  "claimed_queue \<equiv> sample_queue [publish_op, claim_op]"

abbreviation started_queue :: queue where
  "started_queue \<equiv> sample_queue [publish_op, claim_op, start_op]"

definition sample_claim_row :: claim_row where
  "sample_claim_row =
     new_claim_row (claimed_item item_a 100) (sample_assignment ''task_a01'') (sample_lease ''task_a01'')
       (sample_selection BT_ECONOMY ''small'' [MR_RISK_FLOOR]) ''worker_a01'' sample_token 100"

lemma sample_work_valid:
  "valid_QueuedWorkItem sample_digests item_a"
  by code_simp

lemma published_items: "map ir_payload (q_items published_queue) = [item_a]"
  by code_simp

lemma claimed_claims: "q_claims claimed_queue = [sample_claim_row]"
  by code_simp

lemma started_item:
  "get_locked sample_digests started_queue ''work_a01'' =
     Inr (item_a\<lparr>wi_status := WI_RUNNING, wi_updated_at := 110\<rparr>)"
  by code_simp

lemma started_claims: "q_claims started_queue = [sample_claim_row]"
  by code_simp

end
