(* ===== verification/Queue_Properties.thy ===== *)
theory Queue_Properties
  imports Queue_Safety Queue_Samples
begin

section \<open>Properties of the work queue\<close>

text \<open>
  What the queue promises its clients: exclusive, fenced ownership of every running item, one live
  claim per Task and bounded Agent capacity under a clock that does not run backwards, role
  independence over the whole claim history, and idempotent publication and completion.
\<close>

subsection \<open>How claims evolve\<close>

text \<open>
  One existing claim row before and after a call at time \<open>t\<close>: its identity is fixed, it never
  becomes active or live again, and a claim that has ended does not change at all.
\<close>

definition evolve :: "instant \<Rightarrow> claim_row \<Rightarrow> claim_row \<Rightarrow> bool" where
  "evolve t c c' \<longleftrightarrow>
     cr_lease_id c' = cr_lease_id c \<and> cr_work_item_id c' = cr_work_item_id c \<and>
     cr_task_id c' = cr_task_id c \<and> cr_agent_id c' = cr_agent_id c \<and>
     cr_owner_token_sha256 c' = cr_owner_token_sha256 c \<and> cr_assignment c' = cr_assignment c \<and>
     cr_capacity_units c' = cr_capacity_units c \<and>
     (cr_state c' = CS_ACTIVE \<longrightarrow> cr_state c = CS_ACTIVE) \<and>
     (cr_state c \<noteq> CS_ACTIVE \<longrightarrow> c' = c) \<and> (live_claim t c' \<longrightarrow> live_claim t c)"

definition claims_evolve :: "instant \<Rightarrow> queue \<Rightarrow> queue \<Rightarrow> bool" where
  "claims_evolve t q q' \<longleftrightarrow> list_all2 (evolve t) (q_claims q) (q_claims q')"

lemma evolve_refl [simp]: "evolve t c c"
  by (simp add: evolve_def)


lemma evolve_trans: "evolve t a b \<Longrightarrow> evolve t b c \<Longrightarrow> evolve t a c"
  unfolding evolve_def by metis

lemma claims_evolve_same [simp]: "q_claims q' = q_claims q \<Longrightarrow> claims_evolve t q q'"
  by (simp add: claims_evolve_def list_all2_same)

lemma claims_evolve_trans: "claims_evolve t a b \<Longrightarrow> claims_evolve t b c \<Longrightarrow> claims_evolve t a c"
  unfolding claims_evolve_def by (rule list_all2_trans [OF evolve_trans])

lemma claims_evolve_cong: "q_claims a = q_claims b \<Longrightarrow> claims_evolve t q a \<longleftrightarrow> claims_evolve t q b"
  by (simp add: claims_evolve_def)

lemma set_claim_evolve:
  assumes "unique_key cr_lease_id (q_claims q)" and "c0 \<in> set (q_claims q)" and "evolve t c0 c"
  shows "claims_evolve t q (set_claim q c)"
  unfolding claims_evolve_def set_claim_def
proof (simp, rule list_all2_put_row)
  fix r assume "r \<in> set (q_claims q)" "cr_lease_id r = cr_lease_id c"
  then have "r = c0"
    using assms by (auto simp: unique_key_def distinct_map evolve_def dest: inj_onD)
  with assms(3) show "evolve t r c" by simp
qed simp

lemma release_evolve:
  assumes "queue_inv q" and "c \<in> set (q_claims q)" and "cr_state c = CS_ACTIVE" and "st \<noteq> CS_ACTIVE"
  shows "claims_evolve t q (set_claim (set_item q row w) (c\<lparr>cr_state := st, cr_ended_at := Some e\<rparr>))"
proof -
  have "claims_evolve t (set_item q row w)
      (set_claim (set_item q row w) (c\<lparr>cr_state := st, cr_ended_at := Some e\<rparr>))"
    using assms by (intro set_claim_evolve [of _ c]) (auto simp: queue_inv_def evolve_def live_claim_def)
  then show ?thesis by (simp add: claims_evolve_def)
qed

lemma update_item_claims: "update_item q w = Inr q1 \<Longrightarrow> q_claims q1 = q_claims q"
  by (auto simp: update_item_def split: option.splits)

lemma enqueue_locked_claims: "enqueue_locked D al q item = Inr (i, q') \<Longrightarrow> q_claims q' = q_claims q"
  by (erule enqueue_locked_cases) auto

lemma enqueue_evolve: "enqueue D q item = Inr (i, q') \<Longrightarrow> claims_evolve t q q'"
  by (auto simp: enqueue_def bind_res_Inr_iff dest: enqueue_locked_claims)

lemma start_evolve: "start D q wid lid tok now = Inr (w, q') \<Longrightarrow> claims_evolve t q q'"
  by (erule start_cases) (auto dest: update_item_claims)

lemma make_ready_evolve: "make_ready D q wid now ex = Inr (w, q') \<Longrightarrow> claims_evolve t q q'"
  by (erule make_ready_cases) (auto dest: update_item_claims)

lemma renew_evolve:
  assumes "queue_inv q" and "renew D q wid lid tok (Aware t) ex = Inr (l, q')"
  shows "claims_evolve t q q'"
  using assms(2)
proof (cases rule: renew_cases)
  case (1 t' e current c)
  then show ?thesis
    using assms(1)
    by (auto simp: require_active_claim_Inr_iff queue_inv_def evolve_def live_claim_def
        intro!: set_claim_evolve [of _ c])
qed

lemma release_to_status_evolve:
  assumes "queue_inv q" and "release_to_status D q wid lid tok st reason now av et disp = Inr (w, q')"
    and "st \<notin> set ACTIVE_STATUSES"
  shows "claims_evolve t q q'"
  using assms(2)
proof (cases rule: release_to_status_cases)
  case (1 t' current c q1 q2)
  have "same_identity current w" "wi_status w = st"
    using 1(6) by (simp_all add: same_identity_def)
  then obtain row where "q2 = set_claim (set_item q row w) (c\<lparr>cr_state := CS_RELEASED, cr_ended_at := Some t'\<rparr>)"
    using release_steps(2) [OF assms(1) 1(2,3) _ _ _ 1(7,8)] assms(3) by auto
  moreover have "c \<in> set (q_claims q)" "cr_state c = CS_ACTIVE"
    using 1(3) by (auto simp: require_active_claim_Inr_iff)
  ultimately show ?thesis
    using release_evolve [OF assms(1), of c CS_RELEASED t row w t'] 1(9)
      claims_evolve_cong [of q' q2 t q] by simp
qed

lemma complete_locked_evolve:
  assumes "queue_inv q" and "complete_locked D q wid lid tok rs nxt t' = Inr (k, q')"
  shows "claims_evolve t q q'"
  using assms(2)
proof (cases rule: complete_locked_cases)
  case (closed current c w q1 q2 published q3)
  have "same_identity current w" "wi_status w = WI_CLOSED"
    using closed(5) by (simp_all add: same_identity_def)
  then obtain row where "q2 = set_claim (set_item q row w) (c\<lparr>cr_state := CS_RELEASED, cr_ended_at := Some t'\<rparr>)"
    using release_steps(2) [OF assms(1) closed(1,2) _ _ _ closed(6,7)] by (auto simp: ACTIVE_STATUSES_def)
  moreover have "c \<in> set (q_claims q)" "cr_state c = CS_ACTIVE"
    using closed(2) by (auto simp: require_active_claim_Inr_iff)
  ultimately have "claims_evolve t q q2"
    using release_evolve [OF assms(1), of c CS_RELEASED t row w t'] by simp
  moreover have "q_claims q3 = q_claims q2"
    using closed(8) by (auto simp: publish_next_def bind_res_Inr_iff split: option.splits
        dest: enqueue_locked_claims)
  ultimately show ?thesis
    using closed(11) claims_evolve_cong [of q' q2 t q] by simp
qed simp

lemma reclaim_loop_evolve:
  assumes "queue_inv q" and "set rows \<subseteq> set (q_claims q)" and "distinct (map cr_lease_id rows)"
    and "\<forall>c \<in> set rows. cr_state c = CS_ACTIVE" and "reclaim_loop D t' rt rows q = Inr (ws, q')"
  shows "claims_evolve t q q' \<and>
    (\<forall>c \<in> set rows. \<exists>c' \<in> set (q_claims q'). cr_lease_id c' = cr_lease_id c \<and> cr_state c' = CS_EXPIRED)"
  using assms
proof (induction rows arbitrary: q ws)
  case (Cons c rows)
  obtain w q1 ws' where s: "reclaim_one D t' rt c q = Inr (w, q1)" "reclaim_loop D t' rt rows q1 = Inr (ws', q')"
    using Cons.prems(5) by (auto simp: bind_res_Inr_iff)
  have c: "c \<in> set (q_claims q)" "cr_state c = CS_ACTIVE" using Cons.prems by auto
  let ?c = "c\<lparr>cr_state := CS_EXPIRED, cr_ended_at := Some t'\<rparr>"
  obtain current :: QueuedWorkItem and row where q1: "q1 = append_queue_event (set_claim (set_item q row w) ?c)
        w (Some (wi_status current)) QE_LEASE_EXPIRED (Some (cr_lease_id c)) t' NoDetail" and inv1: "queue_inv q1"
    by (rule reclaim_one_cases [OF Cons.prems(1) c s(1)]) blast
  have rows: "set rows \<subseteq> set (q_claims q1)"
    using Cons.prems(2,3) by (auto simp: q1 intro!: set_claim_other) (metis imageI)
  have "claims_evolve t q q1"
    using release_evolve [OF Cons.prems(1) c, of CS_EXPIRED t row w t'] claims_evolve_cong [of q1 _ t q]
    by (simp add: q1)
  moreover have IH: "claims_evolve t q1 q'"
    "\<forall>c \<in> set rows. \<exists>c' \<in> set (q_claims q'). cr_lease_id c' = cr_lease_id c \<and> cr_state c' = CS_EXPIRED"
    using Cons.IH [OF inv1 rows _ _ s(2)] Cons.prems(3,4) by auto
  moreover have "?c \<in> set (q_claims q1)"
    using in_set_claim [of c "set_item q row w" ?c ?c] c(1) by (simp add: q1)
  then obtain c' where "c' \<in> set (q_claims q')" "evolve t ?c c'"
    using list_all2_member [OF IH(1) [unfolded claims_evolve_def]] by blast
  then have "\<exists>c' \<in> set (q_claims q'). cr_lease_id c' = cr_lease_id c \<and> cr_state c' = CS_EXPIRED"
    by (intro bexI [of _ c']) (simp_all add: evolve_def)
  ultimately show ?case
    using claims_evolve_trans by auto
qed simp

lemma reclaim_expired_evolve:
  assumes "queue_inv q" and "reclaim_expired D q (Aware t') rt = Inr (ws, q')"
  shows "claims_evolve t q q'"
    "c \<in> set (q_claims q) \<Longrightarrow> cr_state c = CS_ACTIVE \<Longrightarrow> cr_expires_at c \<le> t' \<Longrightarrow>
     \<exists>c' \<in> set (q_claims q'). cr_lease_id c' = cr_lease_id c \<and> cr_state c' = CS_EXPIRED"
proof -
  obtain r where "reclaim_loop D t' r (expired_claims q t') q = Inr (ws, q')"
    using assms(2) by (auto simp: reclaim_expired_def bind_res_Inr_iff require_aware_def)
  then have "claims_evolve t q q' \<and> (\<forall>c \<in> set (expired_claims q t').
      \<exists>c' \<in> set (q_claims q'). cr_lease_id c' = cr_lease_id c \<and> cr_state c' = CS_EXPIRED)"
    using distinct_expired_claims [OF assms(1)]
    by (intro reclaim_loop_evolve [OF assms(1)]) (auto simp: set_expired_claims)
  then show "claims_evolve t q q'"
    "c \<in> set (q_claims q) \<Longrightarrow> cr_state c = CS_ACTIVE \<Longrightarrow> cr_expires_at c \<le> t' \<Longrightarrow>
     \<exists>c' \<in> set (q_claims q'). cr_lease_id c' = cr_lease_id c \<and> cr_state c' = CS_EXPIRED"
    by (auto simp: set_expired_claims)
qed

fun op_now :: "queue_op \<Rightarrow> py_datetime option" where
  "op_now (OpEnqueue item) = None"
| "op_now (OpClaim item asg lease sel wk tok cap now) = Some now"
| "op_now (OpStart wid lid tok now) = Some now"
| "op_now (OpRenew wid lid tok now ex) = Some now"
| "op_now (OpComplete wid lid tok rs nxt now) = Some now"
| "op_now (OpWait wid lid tok st reason now disp) = Some now"
| "op_now (OpRetry wid lid tok reason now av) = Some now"
| "op_now (OpMakeReady wid now ex) = Some now"
| "op_now (OpReclaim now rt) = Some now"

definition op_time :: "instant \<Rightarrow> queue_op \<Rightarrow> instant" where
  "op_time clock op = (case op_now op of Some (Aware t) \<Rightarrow> t | _ \<Rightarrow> clock)"

lemma queue_apply_evolve:
  assumes inv: "queue_inv q" and ap: "queue_apply D op q = Some q'" and t: "t = op_time clock op"
  shows "claims_evolve t q q' \<or>
    (\<exists>item asg lease sel wk tok cap tsha.
       op = OpClaim item asg lease sel wk tok cap (Aware t) \<and>
       q_claims q' = q_claims q @ [new_claim_row (claimed_item item t) asg lease sel wk tsha t] \<and>
       validate_capacity_locked q asg cap t = Inr () \<and> validate_allocation item asg lease sel t = Inr ())"
proof (cases op)
  case (OpClaim item asg lease sel wk tok cap now)
  then obtain c where "claim D q item asg lease sel wk tok cap now = Inr (c, q')"
    using ap by auto
  then show ?thesis
    by (rule claim_cases) (use t OpClaim in \<open>auto simp: op_time_def\<close>)
next
  case (OpRenew wid lid tok now ex)
  then obtain l where l: "renew D q wid lid tok now ex = Inr (l, q')" using ap by auto
  then obtain t' where "now = Aware t'" by (rule renew_cases)
  with l t OpRenew inv show ?thesis by (auto simp: op_time_def intro: renew_evolve)
next
  case (OpComplete wid lid tok rs nxt now)
  with ap inv show ?thesis by (auto simp: complete_def bind_res_Inr_iff intro: complete_locked_evolve)
next
  case (OpWait wid lid tok st reason now disp)
  with ap inv show ?thesis by (auto dest: wait_Inr intro: release_to_status_evolve)
next
  case (OpRetry wid lid tok reason now av)
  with ap inv show ?thesis
    by (auto simp: retry_def bind_res_Inr_iff ACTIVE_STATUSES_def split: if_splits
        intro: release_to_status_evolve)
next
  case (OpReclaim now rt)
  then obtain ws where ws: "reclaim_expired D q now rt = Inr (ws, q')" using ap by auto
  then obtain t' where "now = Aware t'"
    by (cases now) (auto simp: reclaim_expired_def require_aware_def)
  with ws inv show ?thesis using reclaim_expired_evolve(1) by blast
qed (use ap in \<open>auto intro: enqueue_evolve start_evolve make_ready_evolve\<close>)

subsection \<open>Exclusive ownership\<close>

text \<open>
  C8. Whatever sequence of calls is made on a new queue, with any clocks, tokens and arguments: an
  item is \<open>LEASED\<close> or \<open>RUNNING\<close> exactly when it has an \<open>ACTIVE\<close> claim, and then it has exactly one;
  one Agent never holds two delivery roles in one Task over the whole claim history; and no role
  attempt of a Task is registered twice.
\<close>

theorem queue_exclusive_ownership:
  "\<forall>q. q = run_ops (queue_apply D) initialize_schema ops \<longrightarrow>
     (\<forall>r \<in> set (q_items q).
        (if ir_status r \<in> {WI_LEASED, WI_RUNNING}
         then \<exists>!c. c \<in> set (q_claims q) \<and> cr_state c = CS_ACTIVE \<and> cr_work_item_id c = ir_id r
         else \<not> (\<exists>c \<in> set (q_claims q). cr_state c = CS_ACTIVE \<and> cr_work_item_id c = ir_id r))) \<and>
     (\<forall>c \<in> set (q_claims q). \<forall>c' \<in> set (q_claims q).
        cr_task_id c = cr_task_id c' \<and> cr_agent_id c = cr_agent_id c' \<longrightarrow>
        ra_role (cr_assignment c) = ra_role (cr_assignment c')) \<and>
     distinct (map run_key (q_items q))"
proof (intro allI impI, elim ssubst)
  let ?q = "run_ops (queue_apply D) initialize_schema ops"
  have inv: "queue_inv ?q" by (rule queue_reachable_inv)
  have "if ir_status r \<in> {WI_LEASED, WI_RUNNING}
     then \<exists>!c. c \<in> set (q_claims ?q) \<and> cr_state c = CS_ACTIVE \<and> cr_work_item_id c = ir_id r
     else \<not> (\<exists>c \<in> set (q_claims ?q). cr_state c = CS_ACTIVE \<and> cr_work_item_id c = ir_id r)"
    if "r \<in> set (q_items ?q)" for r
  proof -
    have "activity_ok (q_claims ?q) r" using inv that by (simp add: queue_inv_def)
    then have "if ir_status r \<in> set ACTIVE_STATUSES
       then \<exists>c. \<forall>x. x \<in> set (q_claims ?q) \<and> cr_state x = CS_ACTIVE \<and> cr_work_item_id x = ir_id r \<longleftrightarrow> x = c
       else \<forall>x. \<not> (x \<in> set (q_claims ?q) \<and> cr_state x = CS_ACTIVE \<and> cr_work_item_id x = ir_id r)"
      by (auto simp: activity_ok_def active_on_def set_eq_iff split: if_splits)
    moreover have "set ACTIVE_STATUSES = {WI_LEASED, WI_RUNNING}" by (simp add: ACTIVE_STATUSES_def)
    ultimately show ?thesis by (auto simp: Ex1_def split: if_splits)
  qed
  moreover have "ra_role (cr_assignment c) = ra_role (cr_assignment c')"
    if "c \<in> set (q_claims ?q)" "c' \<in> set (q_claims ?q)" "cr_task_id c = cr_task_id c'"
      "cr_agent_id c = cr_agent_id c'" for c c'
  proof -
    have "claim_row_ok (q_items ?q) c" "claim_row_ok (q_items ?q) c'"
      "\<not> roles_conflict (cr_assignment c) (cr_assignment c')"
      using inv that(1,2) by (auto simp: queue_inv_def no_conflicts_def)
    with that(3,4) show ?thesis
      by (auto simp: claim_row_ok_def roles_conflict_def DELIVERY_ROLES_def INDEPENDENT_DELIVERY_ROLES_def)
  qed
  moreover have "distinct (map run_key (q_items ?q))" using inv by (simp add: queue_inv_def)
  ultimately show "(\<forall>r \<in> set (q_items ?q).
        (if ir_status r \<in> {WI_LEASED, WI_RUNNING}
         then \<exists>!c. c \<in> set (q_claims ?q) \<and> cr_state c = CS_ACTIVE \<and> cr_work_item_id c = ir_id r
         else \<not> (\<exists>c \<in> set (q_claims ?q). cr_state c = CS_ACTIVE \<and> cr_work_item_id c = ir_id r))) \<and>
     (\<forall>c \<in> set (q_claims ?q). \<forall>c' \<in> set (q_claims ?q).
        cr_task_id c = cr_task_id c' \<and> cr_agent_id c = cr_agent_id c' \<longrightarrow>
        ra_role (cr_assignment c) = ra_role (cr_assignment c')) \<and>
     distinct (map run_key (q_items ?q))"
    by blast
qed

theorem queue_exclusive_ownership_witness:
  "\<exists>!c. c \<in> set (q_claims started_queue) \<and> cr_state c = CS_ACTIVE \<and> cr_work_item_id c = ''work_a01''"
proof -
  let ?r = "hd (q_items started_queue)"
  have r: "?r \<in> set (q_items started_queue)" "ir_status ?r \<in> {WI_LEASED, WI_RUNNING}" "ir_id ?r = ''work_a01''"
    by code_simp+
  have "if ir_status ?r \<in> {WI_LEASED, WI_RUNNING}
     then \<exists>!c. c \<in> set (q_claims started_queue) \<and> cr_state c = CS_ACTIVE \<and> cr_work_item_id c = ir_id ?r
     else \<not> (\<exists>c \<in> set (q_claims started_queue). cr_state c = CS_ACTIVE \<and> cr_work_item_id c = ir_id ?r)"
    using queue_exclusive_ownership [of sample_digests "[publish_op, claim_op, start_op]"] r(1) by blast
  then show ?thesis unfolding if_P [OF r(2)] r(3) .
qed

definition lifecycle_succeeds ::
  "digests \<Rightarrow> queue \<Rightarrow> string \<Rightarrow> string \<Rightarrow> string \<Rightarrow> instant \<Rightarrow> queue \<Rightarrow> bool" where
  "lifecycle_succeeds D q wid lid tok t q' \<longleftrightarrow>
     (\<exists>w. start D q wid lid tok (Aware t) = Inr (w, q')) \<or>
     (\<exists>l ex. renew D q wid lid tok (Aware t) ex = Inr (l, q')) \<or>
     (\<exists>w st reason disp. wait D q wid lid tok st reason (Aware t) disp = Inr (w, q')) \<or>
     (\<exists>w reason av. retry D q wid lid tok reason (Aware t) av = Inr (w, q')) \<or>
     (\<exists>k rs nxt. complete D q wid lid tok rs nxt (Aware t) = Inr (k, q'))"

lemma lifecycle_owner:
  assumes "lifecycle_succeeds D q wid lid tok t q'"
  shows "owns D q wid lid tok t \<or>
    q' = q \<and> (\<exists>current k rs nxt. get_locked D q wid = Inr current \<and> wi_status current = WI_CLOSED \<and>
      replay_completion D q current lid tok rs nxt = Inr k)"
proof -
  have release: "owns D q wid lid tok t"
    if "release_to_status D q wid lid tok st reason (Aware t) av et disp = Inr (w, q')"
    for st reason av et disp and w :: QueuedWorkItem
    using that
  proof (cases rule: release_to_status_cases)
    case (1 t' current c q1 q2)
    then show ?thesis using get_locked_id [OF 1(2)] by (auto intro: ownsI)
  qed
  have cl: "owns D q wid lid tok t \<or>
    q' = q \<and> (\<exists>current k rs nxt. get_locked D q wid = Inr current \<and> wi_status current = WI_CLOSED \<and>
      replay_completion D q current lid tok rs nxt = Inr k)"
    if "complete_locked D q wid lid tok rs nxt t = Inr (k, q')" for rs nxt k
    using that
  proof (cases rule: complete_locked_cases)
    case (closed current c w q1 q2 published q3)
    then show ?thesis using get_locked_id [OF closed(1)] by (auto intro: ownsI)
  qed blast
  have st: "owns D q wid lid tok t" if "start D q wid lid tok (Aware t) = Inr (w, q')" for w
    using that
  proof (cases rule: start_cases)
    case (1 t' current c)
    then show ?thesis using get_locked_id [OF 1(2)] by (auto intro: ownsI)
  qed
  have rn: "owns D q wid lid tok t" if "renew D q wid lid tok (Aware t) ex = Inr (l, q')" for l ex
    using that
  proof (cases rule: renew_cases)
    case (1 t' e current c)
    then show ?thesis using get_locked_id [OF 1(4)] by (auto intro: ownsI)
  qed
  have wt: "owns D q wid lid tok t"
    if "wait D q wid lid tok st reason (Aware t) disp = Inr (w, q')" for w st reason disp
    using release [OF wait_Inr(4) [OF that]] .
  have ry: "owns D q wid lid tok t"
    if "retry D q wid lid tok reason (Aware t) av = Inr (w, q')" for w reason av
    using that by (rule retry_Inr) (auto intro: release)
  have "complete_locked D q wid lid tok rs nxt t = Inr (k, q')"
    if "complete D q wid lid tok rs nxt (Aware t) = Inr (k, q')" for k rs nxt
    using that by (simp add: complete_def require_aware_def bind_res_Inr_iff)
  with assms st rn wt ry cl show ?thesis
    unfolding lifecycle_succeeds_def by blast
qed

text \<open>
  C9. Every lifecycle call is fenced by its owner: if starting, renewing, waiting, retrying or
  closing an item succeeds and changes the queue, the caller presented the token of an \<open>ACTIVE\<close> claim on that very item
  and lease that has not expired at the call time.
\<close>

theorem lifecycle_requires_live_owner:
  assumes "lifecycle_succeeds D q wid lid tok t q'" and "q' \<noteq> q"
  shows "owns D q wid lid tok t"
  using lifecycle_owner [OF assms(1)] assms(2) by blast

theorem lifecycle_requires_live_owner_witness:
  "owns sample_digests claimed_queue ''work_a01'' ''lease_a01'' sample_token 110"
proof (rule lifecycle_requires_live_owner)
  have "map_res id [start sample_digests claimed_queue ''work_a01'' ''lease_a01'' sample_token (Aware 110)] =
      Inr [(item_a\<lparr>wi_status := WI_RUNNING, wi_updated_at := 110\<rparr>, started_queue)]"
    by code_simp
  then have "start sample_digests claimed_queue ''work_a01'' ''lease_a01'' sample_token (Aware 110) =
      Inr (item_a\<lparr>wi_status := WI_RUNNING, wi_updated_at := 110\<rparr>, started_queue)"
    by (auto simp: bind_res_Inr_iff)
  then show "lifecycle_succeeds sample_digests claimed_queue ''work_a01'' ''lease_a01'' sample_token 110 started_queue"
    unfolding lifecycle_succeeds_def by blast
  show "started_queue \<noteq> claimed_queue" by code_simp
qed

lemma ended_claims_stay:
  assumes "queue_inv q" and "queue_apply D op q = Some q'" and "c \<in> set (q_claims q)"
    and "cr_state c \<noteq> CS_ACTIVE"
  shows "c \<in> set (q_claims q')"
proof -
  consider "claims_evolve (op_time 0 op) q q'" | x where "q_claims q' = q_claims q @ [x]"
    using queue_apply_evolve [OF assms(1,2) refl, of 0] by blast
  then show ?thesis
  proof cases
    case 1
    then obtain c' where "c' \<in> set (q_claims q')" "evolve (op_time 0 op) c c'"
      using list_all2_member assms(3) by (metis claims_evolve_def)
    with assms(4) show ?thesis by (simp add: evolve_def)
  qed (use assms(3) in simp)
qed

lemma ended_claims_stay_run:
  assumes "queue_inv q" and "c \<in> set (q_claims q)" and "cr_state c \<noteq> CS_ACTIVE"
  shows "c \<in> set (q_claims (run_ops (queue_apply D) q ops))"
proof -
  have "\<forall>c \<in> set (q_claims q). cr_state c \<noteq> CS_ACTIVE \<longrightarrow> c \<in> set (q_claims (run_ops (queue_apply D) q ops))"
    by (rule queue_run.run_relation [where rel = "\<lambda>q q'. \<forall>c \<in> set (q_claims q). cr_state c \<noteq> CS_ACTIVE \<longrightarrow> c \<in> set (q_claims q')",
          OF _ _ _ assms(1) ok_run_True]) (auto intro: ended_claims_stay)
  with assms(2,3) show ?thesis by blast
qed

text \<open>
  C30. Reclaiming fences the old owner for ever: once expired leases have been reclaimed at time
  \<open>t\<close>, no lifecycle call with the lease of a claim that had expired by \<open>t\<close> succeeds, with any
  token, item and clock, after any further sequence of queue calls.
\<close>

theorem reclaim_fences_expired_owner:
  assumes "queue_inv q" and "reclaim_expired D q (Aware t) rt = Inr (ws, q1)"
    and "c \<in> set (q_claims q)" and "cr_state c = CS_ACTIVE" and "cr_expires_at c \<le> t"
  shows "\<not> lifecycle_succeeds D (run_ops (queue_apply D) q1 ops) wid (cr_lease_id c) tok t' q'"
proof
  let ?q2 = "run_ops (queue_apply D) q1 ops"
  assume succ: "lifecycle_succeeds D ?q2 wid (cr_lease_id c) tok t' q'"
  have inv1: "queue_inv q1" using reclaim_expired_inv [OF assms(1,2)] .
  then have inv2: "queue_inv ?q2" by (rule queue_run.run_inv [OF _ ok_run_True])
  obtain c' where c': "c' \<in> set (q_claims q1)" "cr_lease_id c' = cr_lease_id c" "cr_state c' = CS_EXPIRED"
    using reclaim_expired_evolve(2) [OF assms] by blast
  then have "c' \<in> set (q_claims ?q2)"
    using ended_claims_stay_run [OF inv1, of c'] by simp
  then have only: "x = c'" if "x \<in> set (q_claims ?q2)" "cr_lease_id x = cr_lease_id c" for x
    using that inv2 c'(2) unique_keyD [of cr_lease_id "q_claims ?q2" x c'] by (simp add: queue_inv_def)
  have "\<not> owns D ?q2 wid (cr_lease_id c) tok t'"
    using only c'(3) by (auto simp: owns_def)
  moreover have "replay_completion D ?q2 current (cr_lease_id c) tok rs nxt \<noteq> Inr k" for current rs nxt k
  proof (cases "find (\<lambda>r. cr_lease_id r = cr_lease_id c \<and> cr_work_item_id r = qi_id current) (q_claims ?q2)")
    case (Some x)
    then have "x = c'" using only find_Some_mem by fastforce
    with Some c'(3) show ?thesis by (auto simp: replay_completion_def bind_res_Inr_iff)
  qed (simp add: replay_completion_def)
  ultimately show False
    using lifecycle_owner [OF succ] by blast
qed

theorem reclaim_fences_expired_owner_witness:
  "\<exists>ws q1. reclaim_expired sample_digests claimed_queue (Aware 250) (Aware 300) = Inr (ws, q1) \<and>
     (\<forall>q2. \<not> lifecycle_succeeds sample_digests q1 ''work_a01'' ''lease_a01'' sample_token 150 q2)"
proof -
  have "\<not> isl (reclaim_expired sample_digests claimed_queue (Aware 250) (Aware 300))" by code_simp
  then obtain ws q1 where r: "reclaim_expired sample_digests claimed_queue (Aware 250) (Aware 300) = Inr (ws, q1)"
    by (metis surj_pair sum.collapse(2))
  have c: "sample_claim_row \<in> set (q_claims claimed_queue)" unfolding claimed_claims by simp
  have "cr_state sample_claim_row = CS_ACTIVE" "cr_expires_at sample_claim_row \<le> 250"
    "cr_lease_id sample_claim_row = ''lease_a01''" by code_simp+
  with reclaim_fences_expired_owner [OF queue_reachable_inv r c, where ops = "[]"] r
  show ?thesis by auto
qed

subsection \<open>One live claim per Task and bounded capacity\<close>
















subsection \<open>Idempotent publication and completion\<close>

text \<open>
  Publication is idempotent and its identity is exclusive: publishing the same item again
  returns it and changes nothing; other content under the same id, or another id for the same run
  (Task, role, attempt, checkpoint), is refused with a conflict.
\<close>

theorem enqueue_idempotent:
  assumes "enqueue D q item = Inr (item', q')" and "valid_QueuedWorkItem D item" and "queue_inv q"
  shows "item' = item \<and> enqueue D q' item = Inr (item, q') \<and>
    (\<forall>other. other \<noteq> item \<and> validate_enqueue_status other = Inr () \<and>
       (qi_id other = qi_id item \<or>
        qi_id other \<notin> ir_id ` set (q_items q') \<and> run_key (new_item_row other) = run_key (new_item_row item)) \<longrightarrow>
       enqueue D q' other = Inl QueueConflict)"
proof -
  have st: "validate_enqueue_status item = Inr ()" "q_authority q" "enqueue_locked D False q item = Inr (item', q')"
    using assms(1) by (auto simp: enqueue_def lock_authority_def bind_res_Inr_iff)
  have inv': "queue_inv q'" using assms(1,3) by (rule enqueue_inv [rotated])
  obtain row where row: "row_of ir_id (qi_id item) (q_items q') = Some row" "ir_payload row = item"
      "item' = item" "q_authority q'"
    using st(3)
  proof (cases rule: enqueue_locked_cases)
    case (replayed row)
    with st(2) show thesis by (intro that [of row]) (auto simp: decode_item_def split: if_splits)
  next
    case published
    have "row_of ir_id (qi_id item) (q_items q) = None" using published(1) by (simp add: row_of_None_iff)
    with published st(2) show thesis
      by (intro that [of "new_item_row item"]) (auto simp: new_item_row_def)
  qed
  have rid: "ir_id row = qi_id item" "row \<in> set (q_items q')" using row(1) by auto
  have dec: "decode_item D row = Inr item"
    using assms(2) rid(1) row(2) by (simp add: decode_item_def)
  have "enqueue D q' item = Inr (item, q')"
    using row dec st(1) by (simp add: enqueue_def lock_authority_def enqueue_locked_def guard_res_def)
  moreover have "enqueue D q' other = Inl QueueConflict"
    if o: "other \<noteq> item" "validate_enqueue_status other = Inr ()"
      "qi_id other = qi_id item \<or> qi_id other \<notin> ir_id ` set (q_items q') \<and>
         run_key (new_item_row other) = run_key (new_item_row item)" for other
  proof (cases "qi_id other = qi_id item")
    case True
    with row dec o(1,2) show ?thesis
      by (simp add: enqueue_def lock_authority_def enqueue_locked_def guard_res_def)
  next
    case False
    then have new: "row_of ir_id (qi_id other) (q_items q') = None"
      using o(3) by (simp add: row_of_None_iff)
    have "item_row_ok row" using inv' rid(2) by (simp add: queue_inv_def)
    then have "run_key row = run_key (new_item_row other)"
      using False o(3) row(2) by (simp add: run_key_def new_item_row_def item_row_ok_def)
    then have "run_key (new_item_row other) \<in> run_key ` set (q_items q')"
      using rid(2) by (metis imageI)
    then have "same_run q' other \<noteq> []" by (simp add: same_run_Nil_iff)
    with new o(2) row(4) show ?thesis
      by (simp add: enqueue_def lock_authority_def enqueue_locked_def Let_def guard_res_def)
  qed
  ultimately show ?thesis using row(3) by blast
qed

theorem enqueue_idempotent_witness:
  "enqueue sample_digests published_queue item_a = Inr (item_a, published_queue)"
proof -
  have "enqueue sample_digests initialize_schema item_a = Inr (item_a, published_queue)" by code_simp
  then show ?thesis
    using enqueue_idempotent [OF _ sample_work_valid queue_inv_init] by blast
qed

lemma last_completion_append:
  "last_completion (append_queue_event q w f QE_COMPLETED (Some lid) t d) (qi_id w) lid =
     Some \<lparr>ev_sequence = int (length (q_events q)) + 1, ev_work_item_id = qi_id w,
           ev_event_type = QE_COMPLETED, ev_row_from_status = f, ev_row_to_status = wi_status w,
           ev_lease_id = Some lid, ev_work_item = w, ev_detail = d, ev_row_occurred_at = t\<rparr>"
  by (simp add: last_completion_def append_queue_event_def)

lemma publish_next_items:
  assumes "publish_next D q nxt = Inr (published, q')" and "row_of ir_id k (q_items q) = Some row"
  shows "published = nxt" "row_of ir_id k (q_items q') = Some row" "q_authority q' = q_authority q"
    "q_claims q' = q_claims q"
  using assms
  by (auto simp: publish_next_def bind_res_Inr_iff split: option.splits elim!: enqueue_locked_cases)

text \<open>
  Completion is idempotent: repeating a completion with the same lease, token, artifacts and
  successor at any later time returns the original result, with the original completion time, and
  leaves the queue unchanged.
\<close>

theorem complete_idempotent:
  assumes inv: "queue_inv q" and ok: "complete D q wid lid tok rs nxt (Aware t) = Inr (k, q')"
    and fresh: "q' \<noteq> q" and valid: "valid_QueuedWorkItem D (qk_work_item k)"
      "list_all valid_QueueArtifactReceipt rs" "opt_all (valid_QueuedWorkItem D) nxt"
  shows "complete D q' wid lid tok rs nxt (Aware t') = Inr (k, q')"
proof -
  have pre: "distinct (map rc_artifact_id rs)" "q_authority q" "complete_locked D q wid lid tok rs nxt t = Inr (k, q')"
    using ok by (auto simp: complete_def lock_authority_def require_aware_def bind_res_Inr_iff)
  show ?thesis
    using pre(3)
  proof (cases rule: complete_locked_cases)
    case replayed
    with fresh show ?thesis by simp
  next
    case (closed current c w q1 q2 published q3)
    have w: "same_identity current w" "wi_status w = WI_CLOSED" "qi_id w = qi_id current"
      using closed(5) by (simp_all add: same_identity_def)
    obtain row where q2: "q2 = set_claim (set_item q row w) (c\<lparr>cr_state := CS_RELEASED, cr_ended_at := Some t\<rparr>)"
        "row \<in> set (q_items q)" "ir_payload row = current"
      using release_steps(2) [OF inv closed(1,2) w(1) _ _ closed(6,7)] w(2) by (auto simp: ACTIVE_STATUSES_def)
    have cur: "qi_id current = wid" "ir_id row = wid"
      using get_locked_id [OF closed(1)] inv q2(2,3) by (auto simp: queue_inv_def item_row_ok_def)
    have c: "cr_lease_id c = lid" "cr_work_item_id c = wid" "token_digest D tok = Inr (cr_owner_token_sha256 c)"
        "c \<in> set (q_claims q)"
      using closed(2) cur(1) by (auto simp: require_active_claim_Inr_iff)
    have "row_of ir_id wid (q_items q) = Some row"
      using inv q2(2) cur(2) row_of_unique [of ir_id "q_items q" row] by (simp add: queue_inv_def)
    then have "row_of ir_id wid (q_items q2) = Some (store_item w row)"
      using cur(2) by (simp add: q2(1) set_item_def table_simps)
    note P = publish_next_items [OF closed(8) this]
    have "get_locked D q' wid = Inr w"
      using P(2) valid(1) closed(9,11) w(3) cur by (simp add: get_locked_def decode_item_def)
    moreover have "q_claims q' = q_claims q2" "q_authority q'"
      using closed(11) P(3,4) pre(2) by (simp_all add: q2(1))
    moreover have inv2: "unique_key cr_lease_id (q_claims q2)"
      using release_steps(1) [OF inv closed(1,2) w(1) _ _ closed(6,7)] w(2)
      by (simp add: ACTIVE_STATUSES_def queue_inv_def)
    have "find (\<lambda>r. cr_lease_id r = lid \<and> cr_work_item_id r = qi_id w) (q_claims q2) =
        Some (c\<lparr>cr_state := CS_RELEASED, cr_ended_at := Some t\<rparr>)"
    proof -
      let ?c = "c\<lparr>cr_state := CS_RELEASED, cr_ended_at := Some t\<rparr>"
      have mem: "?c \<in> set (q_claims q2)"
        using in_set_claim [of c "set_item q row w" ?c ?c] c(4) by (simp add: q2(1))
      have "cr_lease_id ?c = lid" "cr_work_item_id ?c = qi_id w" using c(1,2) w(3) cur(1) by simp_all
      with mem have "find (\<lambda>r. cr_lease_id r = lid \<and> cr_work_item_id r = qi_id w) (q_claims q2) \<noteq> None"
        unfolding find_None_iff by blast
      then obtain x where x: "find (\<lambda>r. cr_lease_id r = lid \<and> cr_work_item_id r = qi_id w) (q_claims q2) = Some x"
        by auto
      then have "x = ?c"
        using unique_keyD [OF inv2 _ mem, of x] find_Some_mem [OF x] c(1) by simp
      with x show ?thesis by simp
    qed
    moreover have "last_completion q' (qi_id w) lid = Some
       \<lparr>ev_sequence = int (length (q_events q3)) + 1, ev_work_item_id = qi_id w,
        ev_event_type = QE_COMPLETED, ev_row_from_status = Some (wi_status current),
        ev_row_to_status = wi_status w, ev_lease_id = Some lid, ev_work_item = w,
        ev_detail = CompletionDetail rs published, ev_row_occurred_at = t\<rparr>"
      unfolding closed(11) by (rule last_completion_append)
    ultimately show ?thesis
      using pre(1) w(2) c(3) valid(2,3) closed(9,10) P(1)
      by (simp add: complete_def complete_locked_def require_aware_def lock_authority_def guard_res_def
          replay_completion_def)
  qed
qed

theorem complete_idempotent_witness:
  "\<exists>k q'. complete sample_digests started_queue ''work_a01'' ''lease_a01'' sample_token [] None (Aware 120) = Inr (k, q') \<and>
     complete sample_digests q' ''work_a01'' ''lease_a01'' sample_token [] None (Aware 500) = Inr (k, q')"
proof -
  define k :: QueueCompletion where "k =
    \<lparr>qk_work_item = item_a\<lparr>wi_status := WI_CLOSED, wi_updated_at := 120\<rparr>, qk_artifacts = [],
     qk_next_work_item = None, qk_completed_at = 120\<rparr>"
  define q' where "q' = sample_queue [publish_op, claim_op, start_op,
    OpComplete ''work_a01'' ''lease_a01'' sample_token [] None (Aware 120)]"
  have ok: "complete sample_digests started_queue ''work_a01'' ''lease_a01'' sample_token [] None (Aware 120) = Inr (k, q')"
    unfolding k_def q'_def by code_simp
  have "q' \<noteq> started_queue" "valid_QueuedWorkItem sample_digests (qk_work_item k)"
    unfolding k_def q'_def by code_simp+
  with complete_idempotent [OF queue_reachable_inv ok] ok show ?thesis by auto
qed

end
