(* ===== verification/Queue_Validity.thy ===== *)
theory Queue_Validity
  imports Queue_Properties
begin

section \<open>Readable payloads\<close>

text \<open>
  The queue rewrites an item with \<^verbatim>\<open>model_copy\<close>, which checks nothing, and validates the payload
  again on every read. The lemmas show under which calls every stored payload stays readable: no
  call at a time before the creation of a stored item, room in the dispatch counter, and arguments
  that are instances of their classes. The last section shows what happens without the first.
\<close>

definition payloads_valid :: "digests \<Rightarrow> queue \<Rightarrow> bool" where
  "payloads_valid D q \<longleftrightarrow> (\<forall>r \<in> set (q_items q). valid_QueuedWorkItem D (ir_payload r))"

definition items_created_by :: "queue \<Rightarrow> instant \<Rightarrow> bool" where
  "items_created_by q t \<longleftrightarrow> (\<forall>r \<in> set (q_items q). wi_created_at (ir_payload r) \<le> t)"

definition dispatch_room :: "queue \<Rightarrow> bool" where
  "dispatch_room q \<longleftrightarrow>
     (\<forall>r \<in> set (q_items q). wi_status (ir_payload r) \<noteq> WI_READY \<longrightarrow> qi_dispatch_sequence (ir_payload r) < 10000)"

fun arguments_valid :: "digests \<Rightarrow> queue_op \<Rightarrow> bool" where
  "arguments_valid D (OpEnqueue item) = valid_QueuedWorkItem D item"
| "arguments_valid D (OpComplete wid lid tok rs nxt now) = opt_all (valid_QueuedWorkItem D) nxt"
| "arguments_valid D (OpWait wid lid tok st reason now disp) =
     opt_all (valid_DeliveryDisposition (dg_facts D)) disp"
| "arguments_valid D _ = True"

definition call_ok :: "digests \<Rightarrow> queue \<Rightarrow> queue_op \<Rightarrow> bool" where
  "call_ok D q op \<longleftrightarrow>
     arguments_valid D op \<and> dispatch_room q \<and>
     (case op_now op of Some (Aware t) \<Rightarrow> items_created_by q t | _ \<Rightarrow> True)"

subsection \<open>Rewriting an item\<close>

definition moved ::
  "QueuedWorkItem \<Rightarrow> WorkItemStatus \<Rightarrow> int \<Rightarrow> string option \<Rightarrow> DeliveryDisposition option \<Rightarrow>
   instant option \<Rightarrow> instant \<Rightarrow> QueuedWorkItem" where
  "moved w st n reason disp av t =
     w\<lparr>wi_status := st, qi_dispatch_sequence := n, wi_wait_reason := reason,
       wi_wait_disposition := disp, wi_available_at := av, wi_updated_at := t\<rparr>"

lemma moved_valid:
  assumes "valid_QueuedWorkItem D w" and "wi_created_at w \<le> t" and "0 \<le> n" and "n \<le> 10000"
    and "opt_all non_empty reason" and "opt_all (valid_DeliveryDisposition (dg_facts D)) disp"
    and "reason \<noteq> None \<longleftrightarrow> st \<in> set WAITING_STATUSES"
    and "opt_all (\<lambda>d. st \<in> set WAITING_STATUSES \<and> disposition_binds d w) disp"
    and "st = WI_RETRY_SCHEDULED \<Longrightarrow> \<exists>a. av = Some a \<and> t < a"
  shows "valid_QueuedWorkItem D (moved w st n reason disp av t)"
proof -
  have "validate_scheduling_state (moved w st n reason disp av t)"
    using assms
    by (auto simp: valid_QueuedWorkItem_def valid_WorkItem_def validate_scheduling_state_def moved_def
        disposition_binds_def opt_all_def split: option.splits)
  moreover have "validate_queue_identity (moved w st n reason disp av t)"
    using assms
    by (auto simp: valid_QueuedWorkItem_def validate_queue_identity_def moved_def
        disposition_binds_def opt_all_def split: option.splits)
  ultimately show ?thesis
    using assms by (simp add: valid_QueuedWorkItem_def valid_WorkItem_def moved_def in_range_def)
qed

lemma valid_wait_fields:
  assumes "valid_QueuedWorkItem D w" and "wi_status w \<notin> set WAITING_STATUSES"
  shows "wi_wait_reason w = None" "wi_wait_disposition w = None"
  using assms
  by (auto simp: valid_QueuedWorkItem_def valid_WorkItem_def validate_scheduling_state_def
      split: option.splits)

lemma valid_dispatch: "valid_QueuedWorkItem D w \<Longrightarrow> 0 \<le> qi_dispatch_sequence w \<and> qi_dispatch_sequence w \<le> 10000"
  by (simp add: valid_QueuedWorkItem_def in_range_def)

lemmas status_lists = WAITING_STATUSES_def ACTIVE_STATUSES_def WAIT_STATUSES_def

lemma stored_current:
  assumes "get_locked D q wid = Inr w" and "call_ok D q op" and "op_now op = Some (Aware t)"
  shows "valid_QueuedWorkItem D w" "wi_created_at w \<le> t"
    "wi_status w \<noteq> WI_READY \<Longrightarrow> qi_dispatch_sequence w < 10000"
  using assms
  by (auto simp: get_locked_Inr_iff call_ok_def dispatch_room_def items_created_by_def decode_item_def
      dest: row_of_SomeD split: if_splits option.splits)

lemma update_item_payloads:
  assumes "update_item q w = Inr q1" and "payloads_valid D q" and "valid_QueuedWorkItem D w"
  shows "payloads_valid D q1"
  using assms
  by (auto simp: update_item_def payloads_valid_def put_row_def store_item_def split: option.splits)

lemma release_claim_items: "release_claim q lid st t = Inr q1 \<Longrightarrow> q_items q1 = q_items q"
  by (auto simp: release_claim_def split: option.splits)

lemma payloads_valid_items: "q_items q = q_items q' \<Longrightarrow> payloads_valid D q = payloads_valid D q'"
  by (simp add: payloads_valid_def)

lemma enqueue_locked_payloads:
  assumes "enqueue_locked D al q item = Inr (i, q')" and "payloads_valid D q" and "valid_QueuedWorkItem D item"
  shows "payloads_valid D q'"
  using assms by (elim enqueue_locked_cases) (auto simp: payloads_valid_def new_item_row_def)

subsection \<open>Every operation\<close>

lemma claim_payloads:
  assumes "claim D q item asg lease sel wk tok cap now = Inr (c, q')" and "payloads_valid D q"
    and ok: "call_ok D q (OpClaim item asg lease sel wk tok cap now)"
  shows "payloads_valid D q'"
  using assms(1)
proof (cases rule: claim_cases)
  case (1 t tsha)
  note cur = stored_current [OF 1(6) ok, of t, simplified, OF 1(1)]
  have "claimed_item item t = moved item WI_LEASED (qi_dispatch_sequence item) None None None t"
    by (simp add: claimed_item_def moved_def)
  then have "valid_QueuedWorkItem D (claimed_item item t)"
    using moved_valid [OF cur(1,2), of "qi_dispatch_sequence item" None None WI_LEASED None] valid_dispatch [OF cur(1)]
    by (simp add: status_lists)
  with 1(12) assms(2) show ?thesis
    by (auto simp: payloads_valid_def set_item_def put_row_def store_item_def)
qed

lemma start_payloads:
  assumes "start D q wid lid tok now = Inr (w, q')" and "payloads_valid D q"
    and ok: "call_ok D q (OpStart wid lid tok now)"
  shows "payloads_valid D q'"
  using assms(1)
proof (cases rule: start_cases)
  case (1 t current c)
  note cur = stored_current [OF 1(2) ok, of t, simplified, OF 1(1)]
  from 1(4) show ?thesis
  proof (elim disjE conjE exE)
    fix q1
    assume a: "wi_status current = WI_LEASED" "w = current\<lparr>wi_status := WI_RUNNING, wi_updated_at := t\<rparr>"
      "update_item q w = Inr q1" "q' = append_queue_event q1 w (Some WI_LEASED) QE_STARTED (Some lid) t NoDetail"
    have "w = moved current WI_RUNNING (qi_dispatch_sequence current) None None (wi_available_at current) t"
      using a(1,2) valid_wait_fields [OF cur(1)] by (simp add: moved_def status_lists)
    then have "valid_QueuedWorkItem D w"
      using moved_valid [OF cur(1,2), of "qi_dispatch_sequence current" None None WI_RUNNING] valid_dispatch [OF cur(1)]
      by (simp add: status_lists)
    with a(3,4) assms(2) show ?thesis
      using update_item_payloads payloads_valid_items [of q' q1] by simp
  qed (use assms(2) in simp)
qed

lemma release_payloads:
  assumes "release_to_status D q wid lid tok st reason now av et disp = Inr (w, q')"
    and "payloads_valid D q" and ok: "call_ok D q op" "op_now op = Some now"
    and "st \<in> set WAITING_STATUSES" and "reason \<noteq> []"
    and "opt_all (valid_DeliveryDisposition (dg_facts D)) disp"
    and "st = WI_RETRY_SCHEDULED \<Longrightarrow> \<exists>a t. now = Aware t \<and> av = Some a \<and> t < a"
  shows "payloads_valid D q'"
  using assms(1)
proof (cases rule: release_to_status_cases)
  case (1 t current c q1 q2)
  note cur = stored_current [OF 1(2) ok(1), of t]
  let ?n = "if st = WI_RETRY_SCHEDULED then qi_dispatch_sequence current + 1 else qi_dispatch_sequence current"
  have "w = moved current st ?n (Some reason) disp av t"
    using 1(6) by (simp add: moved_def)
  moreover have "valid_QueuedWorkItem D (moved current st ?n (Some reason) disp av t)"
  proof (rule moved_valid)
    show "valid_QueuedWorkItem D current" "wi_created_at current \<le> t" using cur(1,2) ok(2) 1(1) by auto
    show "0 \<le> ?n" "?n \<le> 10000"
      using cur(1,3) ok(2) 1(1,4) valid_dispatch [of D current] by (auto simp: status_lists)
    show "opt_all (\<lambda>d. st \<in> set WAITING_STATUSES \<and> disposition_binds d current) disp"
      using 1(5) assms(5) by (cases disp) auto
  qed (use assms(5-8) 1(1) in \<open>auto simp: non_empty_def\<close>)
  ultimately show ?thesis
    using 1(7-9) assms(2) update_item_payloads release_claim_items payloads_valid_items [of q' q1] by simp
qed

lemma make_ready_payloads:
  assumes "make_ready D q wid now exp = Inr (w, q')" and "payloads_valid D q"
    and ok: "call_ok D q (OpMakeReady wid now exp)"
  shows "payloads_valid D q'"
  using assms(1)
proof (cases rule: make_ready_cases)
  case (1 t current q1)
  note cur = stored_current [OF 1(2) ok, of t, simplified, OF 1(1)]
  have "w = moved current WI_READY (qi_dispatch_sequence current + 1) None None None t"
    using 1(6) by (simp add: moved_def)
  moreover have "wi_status current \<noteq> WI_READY" using 1(3) by (auto simp: status_lists)
  ultimately have "valid_QueuedWorkItem D w"
    using moved_valid [OF cur(1,2), of "qi_dispatch_sequence current + 1" None None WI_READY None]
      valid_dispatch [OF cur(1)] cur(3) by (simp add: status_lists)
  with 1(7,8) assms(2) show ?thesis
    using update_item_payloads payloads_valid_items [of q' q1] by simp
qed

lemma complete_payloads:
  assumes "complete_locked D q wid lid tok rs nxt t = Inr (k, q')" and "payloads_valid D q"
    and ok: "call_ok D q (OpComplete wid lid tok rs nxt (Aware t))"
  shows "payloads_valid D q'"
  using assms(1)
proof (cases rule: complete_locked_cases)
  case replayed
  with assms(2) show ?thesis by simp
next
  case (closed current c w q1 q2 published q3)
  note cur = stored_current [OF closed(1) ok, of t, simplified]
  have "w = moved current WI_CLOSED (qi_dispatch_sequence current) None None (wi_available_at current) t"
    using closed(3,5) valid_wait_fields [OF cur(1)] by (auto simp: moved_def status_lists)
  then have "valid_QueuedWorkItem D w"
    using moved_valid [OF cur(1,2), of "qi_dispatch_sequence current" None None WI_CLOSED] valid_dispatch [OF cur(1)]
    by (simp add: status_lists)
  then have "payloads_valid D q2"
    using closed(6,7) assms(2) update_item_payloads release_claim_items payloads_valid_items [of q2 q1] by simp
  moreover have "opt_all (valid_QueuedWorkItem D) nxt" using ok by (simp add: call_ok_def)
  ultimately have "payloads_valid D q3"
    using closed(8) by (auto simp: publish_next_def bind_res_Inr_iff split: option.splits
        intro: enqueue_locked_payloads)
  with closed(11) show ?thesis using payloads_valid_items [of q' q3] by simp
qed

text \<open>
  The loop of the reclaimer rewrites only items that are still active, so each dispatch counter
  moves by at most one.
\<close>

definition reclaimable :: "queue \<Rightarrow> instant \<Rightarrow> bool" where
  "reclaimable q t \<longleftrightarrow>
     items_created_by q t \<and>
     (\<forall>r \<in> set (q_items q). wi_status (ir_payload r) \<in> set ACTIVE_STATUSES \<longrightarrow> qi_dispatch_sequence (ir_payload r) < 10000)"

lemma reclaim_one_payloads:
  assumes "reclaim_one D t rt c q = Inr (w, q')" and "payloads_valid D q" and "reclaimable q t" and "t < rt"
  shows "payloads_valid D q' \<and> reclaimable q' t"
proof -
  obtain current q1 q2 where s: "get_locked D q (cr_work_item_id c) = Inr current"
      "wi_status current \<in> set ACTIVE_STATUSES"
      "w = current\<lparr>wi_status := WI_RETRY_SCHEDULED, qi_dispatch_sequence := qi_dispatch_sequence current + 1,
           wi_wait_reason := Some (lease_expired_reason (cr_lease_id c)),
           wi_available_at := Some rt, wi_updated_at := t\<rparr>"
      "update_item q w = Inr q1" "release_claim q1 (cr_lease_id c) CS_EXPIRED t = Inr q2"
      "q' = append_queue_event q2 w (Some (wi_status current)) QE_LEASE_EXPIRED (Some (cr_lease_id c)) t NoDetail"
    using assms(1) by (auto simp: reclaim_one_def bind_res_Inr_iff Let_def)
  have cur: "valid_QueuedWorkItem D current" "wi_created_at current \<le> t" "qi_dispatch_sequence current < 10000"
    using s(1,2) assms(2,3)
    by (auto simp: get_locked_Inr_iff reclaimable_def items_created_by_def dest: row_of_SomeD)
  have "w = moved current WI_RETRY_SCHEDULED (qi_dispatch_sequence current + 1)
      (Some (lease_expired_reason (cr_lease_id c))) None (Some rt) t"
    using s(2,3) valid_wait_fields [OF cur(1)] by (auto simp: moved_def status_lists)
  then have "valid_QueuedWorkItem D w"
    using moved_valid [OF cur(1,2), of "qi_dispatch_sequence current + 1"
        "Some (lease_expired_reason (cr_lease_id c))" None WI_RETRY_SCHEDULED "Some rt"]
      valid_dispatch [OF cur(1)] cur(3) assms(4)
    by (simp add: status_lists lease_expired_reason_def non_empty_def)
  then have "payloads_valid D q1" using update_item_payloads [OF s(4) assms(2)] by simp
  moreover have "reclaimable q1 t"
    using s(3,4) assms(3) cur(2)
    by (auto simp: update_item_def reclaimable_def items_created_by_def put_row_def store_item_def
        status_lists split: option.splits)
  moreover have "q_items q' = q_items q1" using release_claim_items [OF s(5)] s(6) by simp
  ultimately show ?thesis
    by (simp add: payloads_valid_def reclaimable_def items_created_by_def)
qed

lemma reclaim_loop_payloads:
  "reclaim_loop D t rt rows q = Inr (ws, q') \<Longrightarrow> payloads_valid D q \<Longrightarrow> reclaimable q t \<Longrightarrow> t < rt \<Longrightarrow>
   payloads_valid D q'"
proof (induction rows arbitrary: q ws)
  case (Cons c rows)
  then obtain w q1 ws' where "reclaim_one D t rt c q = Inr (w, q1)" "reclaim_loop D t rt rows q1 = Inr (ws', q')"
    by (auto simp: bind_res_Inr_iff)
  with Cons show ?case using reclaim_one_payloads by blast
qed simp

lemma queue_apply_payloads:
  assumes "payloads_valid D q" and ok: "call_ok D q op" and ap: "queue_apply D op q = Some q'"
  shows "payloads_valid D q'"
proof (cases op)
  case (OpEnqueue item)
  with assms show ?thesis
    by (auto simp: enqueue_def bind_res_Inr_iff call_ok_def intro: enqueue_locked_payloads)
next
  case (OpRenew wid lid tok now ex)
  with assms show ?thesis by (auto elim!: renew_cases simp: payloads_valid_def)
next
  case (OpComplete wid lid tok rs nxt now)
  then obtain t k where "now = Aware t" "complete_locked D q wid lid tok rs nxt t = Inr (k, q')"
    using ap by (cases now) (auto simp: complete_def require_aware_def bind_res_Inr_iff)
  with assms OpComplete show ?thesis using complete_payloads by blast
next
  case (OpWait wid lid tok st reason now disp)
  then obtain w where "wait D q wid lid tok st reason now disp = Inr (w, q')" using ap by auto
  then have w: "st \<in> set WAIT_STATUSES" "reason \<noteq> []"
      "release_to_status D q wid lid tok st reason now None QE_WAITING disp = Inr (w, q')"
    by (simp_all add: wait_def split: if_splits)
  show ?thesis
    by (rule release_payloads [OF w(3) assms(1) ok]) (use OpWait w ok in \<open>auto simp: status_lists call_ok_def\<close>)
next
  case (OpRetry wid lid tok reason now av)
  then obtain w a t where w: "now = Aware t" "t < a" "reason \<noteq> []"
      "release_to_status D q wid lid tok WI_RETRY_SCHEDULED reason now (Some a) QE_RETRY_SCHEDULED None = Inr (w, q')"
    using ap by (cases now; cases av) (auto simp: retry_def require_aware_def bind_res_Inr_iff not_le split: if_splits)
  show ?thesis
    by (rule release_payloads [OF w(4) assms(1) ok]) (use OpRetry w in \<open>auto simp: status_lists\<close>)
next
  case (OpReclaim now rt)
  then obtain t r ws where "now = Aware t" "t < r" "reclaim_loop D t r (expired_claims q t) q = Inr (ws, q')"
    using ap by (cases now; cases rt) (auto simp: reclaim_expired_def require_aware_def bind_res_Inr_iff not_le)
  moreover have "reclaimable q t"
    using ok OpReclaim \<open>now = Aware t\<close>
    by (auto simp: call_ok_def reclaimable_def dispatch_room_def ACTIVE_STATUSES_def)
  ultimately show ?thesis using assms(1) reclaim_loop_payloads by blast
qed (use assms in \<open>auto intro: claim_payloads start_payloads make_ready_payloads\<close>)

definition readable_inv :: "digests \<Rightarrow> queue \<Rightarrow> bool" where
  "readable_inv D q \<longleftrightarrow> queue_inv q \<and> payloads_valid D q"

interpretation readable_run: guarded_run "queue_apply D" "call_ok D" "readable_inv D" for D
  by unfold_locales (auto simp: readable_inv_def intro: queue_apply_inv queue_apply_payloads)

text \<open>
  When every timed call is made no earlier than the creation of the stored items, no item has
  used up its dispatch counter and the arguments are instances of their classes, every item the
  queue ever stored can be read back as it was written, whatever calls succeeded or failed.
\<close>

theorem queue_items_stay_readable:
  assumes "ok_run (queue_apply D) (call_ok D) initialize_schema ops"
    and "q = run_ops (queue_apply D) initialize_schema ops"
  shows "\<forall>r \<in> set (q_items q). queue_get D q (ir_id r) = Inr (ir_payload r) \<and> decode_item D r = Inr (ir_payload r)"
proof
  fix r assume r: "r \<in> set (q_items q)"
  have "readable_inv D q"
    unfolding assms(2)
    by (rule readable_run.run_inv [OF _ assms(1)])
      (use queue_inv_init in \<open>simp add: readable_inv_def payloads_valid_def initialize_schema_def\<close>)
  with r have "valid_QueuedWorkItem D (ir_payload r)" "ir_id r = qi_id (ir_payload r)"
      "unique_key ir_id (q_items q)"
    by (auto simp: readable_inv_def payloads_valid_def queue_inv_def item_row_ok_def)
  then show "queue_get D q (ir_id r) = Inr (ir_payload r) \<and> decode_item D r = Inr (ir_payload r)"
    using row_of_unique [OF _ r, of ir_id] by (simp add: queue_get_def get_locked_def decode_item_def)
qed

theorem queue_items_stay_readable_witness:
  "queue_get sample_digests started_queue (ir_id (hd (q_items started_queue))) =
     Inr (ir_payload (hd (q_items started_queue)))"
proof -
  have "ok_run (queue_apply sample_digests) (call_ok sample_digests) initialize_schema
      [publish_op, claim_op, start_op]"
    by code_simp
  moreover have "hd (q_items started_queue) \<in> set (q_items started_queue)" by code_simp
  ultimately show ?thesis
    using queue_items_stay_readable [OF _ refl] by blast
qed

subsection \<open>Claiming before the creation time\<close>

text \<open>
  The creation time is the publisher's clock and the claim time the worker's, and \<^verbatim>\<open>claim\<close>
  never compares them: an item created at time 150 can be claimed at time 100. The claim succeeds,
  and from then on the item cannot be read, started or reclaimed: every call fails as corrupt.
\<close>

theorem claim_before_creation_corrupts:
  "\<exists>q c q'. enqueue sample_digests initialize_schema (sample_work ''work_a01'' ''task_a01'' 150) =
        Inr (sample_work ''work_a01'' ''task_a01'' 150, q) \<and>
     claim sample_digests q (sample_work ''work_a01'' ''task_a01'' 150) (sample_assignment ''task_a01'')
       (sample_lease ''task_a01'') (sample_selection BT_ECONOMY ''small'' [MR_RISK_FLOOR]) ''worker_a01''
       sample_token 1 (Aware 100) = Inr (c, q') \<and>
     queue_get sample_digests q' ''work_a01'' = Inl QueueCorruption \<and>
     start sample_digests q' ''work_a01'' ''lease_a01'' sample_token (Aware 160) = Inl QueueCorruption \<and>
     reclaim_expired sample_digests q' (Aware 250) (Aware 300) = Inl QueueCorruption"
proof -
  let ?w = "sample_work ''work_a01'' ''task_a01'' 150"
  let ?claim = "\<lambda>q. claim sample_digests q ?w (sample_assignment ''task_a01'') (sample_lease ''task_a01'')
     (sample_selection BT_ECONOMY ''small'' [MR_RISK_FLOOR]) ''worker_a01'' sample_token 1 (Aware 100)"
  let ?q = "snd (projr (enqueue sample_digests initialize_schema ?w))"
  let ?r = "projr (?claim ?q)"
  have "enqueue sample_digests initialize_schema ?w = Inr (?w, ?q)" by code_simp
  moreover have "\<not> isl (?claim ?q)" by code_simp
  then have "?claim ?q = Inr (fst ?r, snd ?r)" by (metis prod.collapse sum.collapse(2))
  moreover have "queue_get sample_digests (snd ?r) ''work_a01'' = Inl QueueCorruption"
    "start sample_digests (snd ?r) ''work_a01'' ''lease_a01'' sample_token (Aware 160) = Inl QueueCorruption"
    "reclaim_expired sample_digests (snd ?r) (Aware 250) (Aware 300) = Inl QueueCorruption"
    by code_simp+
  ultimately show ?thesis by blast
qed

subsection \<open>Resuming a waiting item\<close>

text \<open>
  A waiting item resumes only through its own signal: when \<^verbatim>\<open>make_ready\<close> succeeds, the item
  was waiting or scheduled for a retry, a stored disposition was named by its exact digest and was not
  a paused execution baseline, an item without one was resumed without a digest; afterwards the
  item is \<open>READY\<close> with its wait cleared and its dispatch counter advanced, and the claims are untouched.
\<close>

theorem make_ready_needs_signal:
  assumes "queue_inv q" and "make_ready D q wid (Aware t) expected = Inr (w, q')"
  shows "\<exists>current. queue_get D q wid = Inr current \<and>
     wi_status current \<in> {WI_WAITING_HUMAN, WI_WAITING_DEPENDENCY, WI_RETRY_SCHEDULED} \<and>
     (case wi_wait_disposition current of
        None \<Rightarrow> expected = None
      | Some d \<Rightarrow> expected = Some (dg_disposition D d) \<and>
          ff_classification (dd_facts d) \<noteq> FC_EXECUTION_BASELINE_PAUSED) \<and>
     w = current\<lparr>wi_status := WI_READY, qi_dispatch_sequence := qi_dispatch_sequence current + 1,
           wi_wait_reason := None, wi_wait_disposition := None, wi_available_at := None, wi_updated_at := t\<rparr> \<and>
     map ir_payload (q_items q') = map (\<lambda>r. if ir_id r = wid then w else ir_payload r) (q_items q) \<and>
     q_claims q' = q_claims q"
  using assms(2)
proof (cases rule: make_ready_cases)
  case (1 t' current q1)
  have same: "same_identity current w" using 1(6) by (simp add: same_identity_def)
  obtain row where row: "ir_id row = qi_id current" "qi_id current = wid" "q1 = set_item q row w"
    using assms(1) 1(2) same 1(7) by (rule update_item_get)
  have "map ir_payload (q_items q') = map (\<lambda>r. if ir_id r = wid then w else ir_payload r) (q_items q)"
    using row 1(8) by (auto simp: set_item_def put_row_def store_item_def)
  moreover have "q_claims q' = q_claims q" using row(3) 1(8) by simp
  ultimately show ?thesis
    using 1(1-3,5,6)
    by (auto simp: queue_get_def resume_signal_ok_def WAIT_STATUSES_def split: option.splits)
qed

theorem make_ready_needs_signal_witness:
  "let q = sample_queue [publish_op, claim_op, start_op,
       OpWait ''work_a01'' ''lease_a01'' sample_token WI_WAITING_HUMAN ''answer'' (Aware 120) None]
   in \<exists>w q' current. make_ready sample_digests q ''work_a01'' (Aware 130) None = Inr (w, q') \<and>
       queue_get sample_digests q ''work_a01'' = Inr current \<and> q_claims q' = q_claims q"
proof -
  let ?q = "sample_queue [publish_op, claim_op, start_op,
       OpWait ''work_a01'' ''lease_a01'' sample_token WI_WAITING_HUMAN ''answer'' (Aware 120) None]"
  have "\<not> isl (make_ready sample_digests ?q ''work_a01'' (Aware 130) None)" by code_simp
  then obtain w q' where "make_ready sample_digests ?q ''work_a01'' (Aware 130) None = Inr (w, q')"
    by (metis surj_pair sum.collapse(2))
  with make_ready_needs_signal [OF queue_reachable_inv this] show ?thesis
    unfolding Let_def by blast
qed

end
