(* ===== verification/Dispatcher.thy ===== *)
theory Dispatcher
  imports Queue_Validity
begin

section \<open>The dispatcher\<close>

text \<open>
  \<^verbatim>\<open>work_queue/dispatcher.py\<close>: one tick of the dispatcher composes the queue, the portfolio
  scheduler and the model router. A tick makes several queue calls, each its own transaction, so
  other processes may call the queue in between: \<open>others i\<close> is the list of their calls before the
  \<open>i\<close>-th call of this tick (0 reclaims, 1 lists the candidates, 2 lists the leases, 3 the
  assignments, \<open>4 + k\<close> claims the \<open>k\<close>-th candidate). The token factory is the stream \<open>tokens\<close> of
  the tokens it returns; the demand builder is a field of the dispatcher. A tick that raises has
  still committed the calls it made, so it returns the error or the result together with the queue.
\<close>

datatype DispatcherTickStatus = DT_DISPATCHED | DT_IDLE | DT_REJECTED

record DispatcherTickResult =
  dr_status :: DispatcherTickStatus
  dr_claim :: "QueueClaim option"
  dr_rejections :: "string list"
  dr_reclaimed_work_item_ids :: "string list"
  dr_ticked_at :: instant
  dr_lease_owner_token :: "string option"

definition validate_result :: "DispatcherTickResult \<Rightarrow> bool" where
  "validate_result r \<longleftrightarrow>
     ensure_unique (dr_rejections r) \<and> ensure_unique (dr_reclaimed_work_item_ids r) \<and>
     (if dr_status r = DT_DISPATCHED
      then \<not> (dr_claim r = None \<or> dr_lease_owner_token r = None) \<and> dr_rejections r = []
      else \<not> (dr_claim r \<noteq> None \<or> dr_lease_owner_token r \<noteq> None)) \<and>
     \<not> (dr_status r = DT_REJECTED \<and> dr_rejections r = []) \<and>
     \<not> (dr_status r = DT_IDLE \<and> dr_rejections r \<noteq> [])"

text \<open>The nested claim is taken over as it is; the field constraints and the validator run.\<close>

definition valid_DispatcherTickResult :: "DispatcherTickResult \<Rightarrow> bool" where
  "valid_DispatcherTickResult r \<longleftrightarrow>
     list_all non_empty (dr_rejections r) \<and> list_all valid_WorkItemId (dr_reclaimed_work_item_ids r) \<and>
     validate_result r"

datatype dispatcher_error =
    DE_Queue queue_error
  | DE_Scheduler sched_error
  | DE_Router route_error
  | DE_ValueError
  | DE_AssertionError
  | DE_StopIteration

record DispatcherLoop =
  dl_sha :: "string \<Rightarrow> string"
  dl_lease_duration :: int
  dl_model_router :: ModelRouter
  dl_agents :: "AgentProfile list"
  dl_policies :: "ModelPolicy list"
  dl_demand_builder :: "QueuedWorkItem \<Rightarrow> RunDemand"
  dl_worker_id :: string
  dl_scan_limit :: int
  dl_expired_lease_retry_delay :: int

definition valid_DispatcherLoop :: "DispatcherLoop \<Rightarrow> bool" where
  "valid_DispatcherLoop dl \<longleftrightarrow>
     \<not> (dl_scan_limit dl < 1 \<or> 1000 < dl_scan_limit dl) \<and>
     distinct (map ap_id (dl_agents dl)) \<and> distinct (map mp_id (dl_policies dl)) \<and>
     \<not> dl_expired_lease_retry_delay dl \<le> 0 \<and> valid_LeaseWorkerId (dl_worker_id dl)"

fun AssignmentRejectionCode_value :: "AssignmentRejectionCode \<Rightarrow> string" where
  "AssignmentRejectionCode_value AC_NOT_READY = ''NOT_READY''"
| "AssignmentRejectionCode_value AC_WAITING = ''WAITING''"
| "AssignmentRejectionCode_value AC_CLOSED = ''CLOSED''"
| "AssignmentRejectionCode_value AC_INACTIVE_AGENT = ''INACTIVE_AGENT''"
| "AssignmentRejectionCode_value AC_ROLE_NOT_ELIGIBLE = ''ROLE_NOT_ELIGIBLE''"
| "AssignmentRejectionCode_value AC_CAPABILITY_MISMATCH = ''CAPABILITY_MISMATCH''"
| "AssignmentRejectionCode_value AC_CAPACITY_EXHAUSTED = ''CAPACITY_EXHAUSTED''"
| "AssignmentRejectionCode_value AC_SELF_REVIEW = ''SELF_REVIEW''"
| "AssignmentRejectionCode_value AC_INVALID_INPUT = ''INVALID_INPUT''"

fun ModelRejectionCode_value :: "ModelRejectionCode \<Rightarrow> string" where
  "ModelRejectionCode_value MC_INACTIVE_AGENT = ''INACTIVE_AGENT''"
| "ModelRejectionCode_value MC_ROLE_NOT_ELIGIBLE = ''ROLE_NOT_ELIGIBLE''"
| "ModelRejectionCode_value MC_CAPABILITY_MISMATCH = ''CAPABILITY_MISMATCH''"
| "ModelRejectionCode_value MC_POLICY_MISMATCH = ''POLICY_MISMATCH''"
| "ModelRejectionCode_value MC_NO_CONTEXT_CAPACITY = ''NO_CONTEXT_CAPACITY''"
| "ModelRejectionCode_value MC_NO_ELIGIBLE_ROUTE = ''NO_ELIGIBLE_ROUTE''"

definition rejection_line :: "QueuedWorkItem \<Rightarrow> string \<Rightarrow> string" where
  "rejection_line item code = qi_id item @ '':'' @ code"

definition py_add :: "py_datetime \<Rightarrow> int \<Rightarrow> py_datetime" where
  "py_add d delta = (case d of Aware t \<Rightarrow> Aware (t + delta) | Naive t \<Rightarrow> Naive (t + delta))"

definition queue_ident :: "QueuedWorkItem \<Rightarrow> string \<times> int" where
  "queue_ident item = (qi_id item, qi_dispatch_sequence item)"

definition settle :: "digests \<Rightarrow> queue_op list \<Rightarrow> queue \<Rightarrow> queue" where
  "settle D ops q = run_ops (queue_apply D) q ops"

definition make_result ::
  "DispatcherTickStatus \<Rightarrow> (QueueClaim \<times> string) option \<Rightarrow> string list \<Rightarrow> string list \<Rightarrow> py_datetime \<Rightarrow>
   dispatcher_error + DispatcherTickResult" where
  "make_result status claimed rejections reclaimed_ids now =
     (case now of
        Naive _ \<Rightarrow> Inl DE_ValueError
      | Aware t \<Rightarrow>
          (let r = \<lparr>dr_status = status, dr_claim = map_option fst claimed, dr_rejections = rejections,
                    dr_reclaimed_work_item_ids = reclaimed_ids, dr_ticked_at = t,
                    dr_lease_owner_token = map_option snd claimed\<rparr>
           in if valid_DispatcherTickResult r then Inr r else Inl DE_ValueError))"

subsection \<open>One candidate\<close>

text \<open>
  What the scheduler and the router decide on one candidate, before the queue is asked: an error,
  a reason to go on with the next candidate, or the arguments of the claim.
\<close>

datatype preview =
    Skip "string list"
  | Offer RoleAssignment TaskLease ModelSelection int

definition demand_matches :: "RunDemand \<Rightarrow> QueuedWorkItem \<Rightarrow> bool" where
  "demand_matches demand item \<longleftrightarrow>
     \<not> (rd_task_id demand \<noteq> wi_task_id item \<or> rd_role demand \<noteq> qi_role item \<or>
        rd_risk demand \<noteq> wi_risk item \<or> rd_required_capabilities demand \<noteq> wi_required_capabilities item)"

definition route_candidate ::
  "DispatcherLoop \<Rightarrow> py_datetime \<Rightarrow> QueuedWorkItem \<Rightarrow> string \<Rightarrow> RoleAssignment \<Rightarrow> TaskLease \<Rightarrow>
   dispatcher_error + preview" where
  "route_candidate dl now item agent_id assignment lease =
     (case find (\<lambda>profile. ap_id profile = agent_id) (dl_agents dl) of
        None \<Rightarrow> Inl DE_StopIteration
      | Some agent \<Rightarrow>
          (case find (\<lambda>policy. mp_id policy = ap_default_model_policy_id agent) (dl_policies dl) of
             None \<Rightarrow> Inr (Skip [rejection_line item ''MODEL_POLICY_MISSING''])
           | Some policy \<Rightarrow>
               (let demand = dl_demand_builder dl item in
                if \<not> demand_matches demand item then Inl DE_ValueError
                else
                  (case route (dl_model_router dl) demand agent policy now of
                     Inl e \<Rightarrow> Inl (DE_Router e)
                   | Inr routing \<Rightarrow>
                       if md_status routing = MD_REJECTED then
                         (case md_refusal routing of
                            None \<Rightarrow> Inl DE_AssertionError
                          | Some refusal \<Rightarrow>
                              Inr (Skip [rejection_line item (ModelRejectionCode_value (mf_code refusal))]))
                       else
                         (case md_selection routing of
                            None \<Rightarrow> Inl DE_AssertionError
                          | Some selection \<Rightarrow>
                              Inr (Offer assignment lease selection (ap_max_parallel_assignments agent)))))))"

definition preview_candidate ::
  "DispatcherLoop \<Rightarrow> TaskLease list \<Rightarrow> RoleAssignment list \<Rightarrow> py_datetime \<Rightarrow> QueuedWorkItem list \<Rightarrow>
   QueuedWorkItem \<Rightarrow> dispatcher_error + preview" where
  "preview_candidate dl leases assignments now candidates item =
     (case match_item (dl_sha dl) (dl_lease_duration dl) queue_ident item (qi_role item) (dl_agents dl)
             leases assignments now (qi_attempt item) candidates of
        Inl e \<Rightarrow> Inl (DE_Scheduler e)
      | Inr decision \<Rightarrow>
          if ad_status decision = AD_REJECTED then
            Inr (Skip (map (\<lambda>r. rejection_line item (AssignmentRejectionCode_value (ar_code r)))
                        (ad_reasons decision)))
          else
            (case (ad_agent_id decision, ad_assignment decision, ad_lease decision) of
               (Some agent_id, Some assignment, Some lease) \<Rightarrow>
                 route_candidate dl now item agent_id assignment lease
             | _ \<Rightarrow> Inl DE_AssertionError))"

subsection \<open>The loop and the tick\<close>

fun dispatch_loop ::
  "digests \<Rightarrow> DispatcherLoop \<Rightarrow> (nat \<Rightarrow> string) \<Rightarrow> (nat \<Rightarrow> queue_op list) \<Rightarrow>
   (QueuedWorkItem \<Rightarrow> dispatcher_error + preview) \<Rightarrow> py_datetime \<Rightarrow> QueuedWorkItem list \<Rightarrow> nat \<Rightarrow> nat \<Rightarrow>
   string list \<Rightarrow> queue \<Rightarrow> (dispatcher_error + ((QueueClaim \<times> string) option \<times> string list)) \<times> queue" where
  "dispatch_loop D dl tokens others view now [] k drawn msgs q = (Inr (None, msgs), q)"
| "dispatch_loop D dl tokens others view now (item # items) k drawn msgs q =
     (case view item of
        Inl e \<Rightarrow> (Inl e, q)
      | Inr (Skip reasons) \<Rightarrow>
          dispatch_loop D dl tokens others view now items (Suc k) drawn (msgs @ reasons) q
      | Inr (Offer assignment lease selection capacity) \<Rightarrow>
          (let q1 = settle D (others (4 + k)) q in
           case claim D q1 item assignment lease selection (dl_worker_id dl) (tokens drawn) capacity now of
             Inl e \<Rightarrow>
               if e = QueueConflict
               then dispatch_loop D dl tokens others view now items (Suc k) (Suc drawn) msgs q1
               else (Inl (DE_Queue e), q1)
           | Inr (c, q2) \<Rightarrow> (Inr (Some (c, tokens drawn), msgs), q2)))"

definition select_candidates ::
  "digests \<Rightarrow> DispatcherLoop \<Rightarrow> queue \<Rightarrow> py_datetime \<Rightarrow> string option \<Rightarrow> queue_error + QueuedWorkItem list" where
  "select_candidates D dl q now work_item_id =
     (case work_item_id of
        None \<Rightarrow> list_schedulable D q now (dl_scan_limit dl)
      | Some wid \<Rightarrow>
          bind_res (queue_get D q wid) (\<lambda>selected.
          bind_res (require_aware now) (\<lambda>t.
          Inr (if is_schedulable selected t then [selected] else []))))"

definition finish_tick ::
  "string list \<Rightarrow> py_datetime \<Rightarrow>
   (dispatcher_error + ((QueueClaim \<times> string) option \<times> string list)) \<times> queue \<Rightarrow>
   (dispatcher_error + DispatcherTickResult) \<times> queue" where
  "finish_tick reclaimed_ids now outcome =
     (case outcome of
        (Inl e, q) \<Rightarrow> (Inl e, q)
      | (Inr (Some claimed, msgs), q) \<Rightarrow> (make_result DT_DISPATCHED (Some claimed) [] reclaimed_ids now, q)
      | (Inr (None, msgs), q) \<Rightarrow>
          (if msgs \<noteq> [] then make_result DT_REJECTED None (dict_fromkeys msgs) reclaimed_ids now
           else make_result DT_IDLE None [] reclaimed_ids now, q))"

definition dispatch_candidates ::
  "digests \<Rightarrow> DispatcherLoop \<Rightarrow> (nat \<Rightarrow> string) \<Rightarrow> (nat \<Rightarrow> queue_op list) \<Rightarrow> py_datetime \<Rightarrow> string list \<Rightarrow>
   QueuedWorkItem list \<Rightarrow> queue \<Rightarrow> (dispatcher_error + DispatcherTickResult) \<times> queue" where
  "dispatch_candidates D dl tokens others now reclaimed_ids candidates q =
     (let q4 = settle D (others 2) q in
      case list_active_leases q4 now of
        Inl e \<Rightarrow> (Inl (DE_Queue e), q4)
      | Inr leases \<Rightarrow>
          (let q5 = settle D (others 3) q4 in
           case list_assignments q5 of
             Inl e \<Rightarrow> (Inl (DE_Queue e), q5)
           | Inr assignments \<Rightarrow>
               finish_tick reclaimed_ids now
                 (dispatch_loop D dl tokens others (preview_candidate dl leases assignments now candidates)
                    now candidates 0 0 [] q5)))"

definition tick ::
  "digests \<Rightarrow> DispatcherLoop \<Rightarrow> (nat \<Rightarrow> string) \<Rightarrow> (nat \<Rightarrow> queue_op list) \<Rightarrow> queue \<Rightarrow> py_datetime \<Rightarrow>
   string option \<Rightarrow> (dispatcher_error + DispatcherTickResult) \<times> queue" where
  "tick D dl tokens others q now work_item_id =
     (let q1 = settle D (others 0) q in
      case reclaim_expired D q1 now (py_add now (dl_expired_lease_retry_delay dl)) of
        Inl e \<Rightarrow> (Inl (DE_Queue e), q1)
      | Inr (reclaimed, q2) \<Rightarrow>
          (let reclaimed_ids = map qi_id reclaimed; q3 = settle D (others 1) q2 in
           case select_candidates D dl q3 now work_item_id of
             Inl e \<Rightarrow> (Inl (DE_Queue e), q3)
           | Inr candidates \<Rightarrow>
               if candidates = [] then (make_result DT_IDLE None [] reclaimed_ids now, q3)
               else dispatch_candidates D dl tokens others now reclaimed_ids candidates q3))"

subsection \<open>What a tick does to the queue\<close>

text \<open>
  Own calls of a tick: the reclaiming and its claims. Every state a tick leaves behind is reached
  by these calls and the calls of the others, so everything proved of queue runs holds of ticks.
\<close>

definition tick_op :: "DispatcherLoop \<Rightarrow> (nat \<Rightarrow> queue_op list) \<Rightarrow> py_datetime \<Rightarrow> queue_op \<Rightarrow> bool" where
  "tick_op dl others now op \<longleftrightarrow>
     (\<exists>i. op \<in> set (others i)) \<or> op = OpReclaim now (py_add now (dl_expired_lease_retry_delay dl)) \<or>
     (\<exists>item asg lease sel tok cap. op = OpClaim item asg lease sel (dl_worker_id dl) tok cap now)"

lemma settle_run: "settle D ops q = run_ops (queue_apply D) q ops"
  by (simp add: settle_def)

lemma settle_inv: "queue_inv q \<Longrightarrow> queue_inv (settle D ops q)"
  unfolding settle_def by (rule queue_run.run_inv [OF _ ok_run_True])

definition reaches :: "digests \<Rightarrow> (queue_op \<Rightarrow> bool) \<Rightarrow> queue \<Rightarrow> queue \<Rightarrow> bool" where
  "reaches D P q q' \<longleftrightarrow> (\<exists>ops. list_all P ops \<and> q' = run_ops (queue_apply D) q ops)"

lemma reaches_refl [simp]: "reaches D P q q"
  unfolding reaches_def by (intro exI [of _ "[]"]) simp

lemma reaches_trans [trans]: "reaches D P a b \<Longrightarrow> reaches D P b c \<Longrightarrow> reaches D P a c"
  unfolding reaches_def by (metis list_all_append run_ops_append)

lemma reaches_settle: "\<forall>op \<in> set ops. P op \<Longrightarrow> reaches D P q (settle D ops q)"
  unfolding reaches_def settle_def by (intro exI [of _ ops]) (simp add: list_all_iff)

lemma reaches_step: "P op \<Longrightarrow> queue_apply D op q = Some q' \<Longrightarrow> reaches D P q q'"
  unfolding reaches_def by (intro exI [of _ "[op]"]) simp

lemma reaches_inv: "reaches D P q q' \<Longrightarrow> queue_inv q \<Longrightarrow> queue_inv q'"
  unfolding reaches_def using queue_run.run_inv [OF _ ok_run_True] by blast

lemma tick_op_others [intro]: "op \<in> set (others i) \<Longrightarrow> tick_op dl others now op"
  by (auto simp: tick_op_def)

text \<open>
  The loop: it stops at an error, at a claim, or at the end of the candidates. A claim is the last
  call of the loop, and it is made on an offer of the preview.
\<close>

definition quiet :: "(nat \<Rightarrow> queue_op list) \<Rightarrow> bool" where
  "quiet others \<longleftrightarrow> (\<forall>i. others i = [])"

definition loop_outcome ::
  "digests \<Rightarrow> DispatcherLoop \<Rightarrow> (nat \<Rightarrow> queue_op list) \<Rightarrow> (QueuedWorkItem \<Rightarrow> dispatcher_error + preview) \<Rightarrow>
   py_datetime \<Rightarrow> QueuedWorkItem list \<Rightarrow> queue \<Rightarrow>
   (dispatcher_error + ((QueueClaim \<times> string) option \<times> string list)) \<times> queue \<Rightarrow> bool" where
  "loop_outcome D dl others view now items q out \<longleftrightarrow>
     (case out of
        (Inr (Some (c, tok), msgs), q') \<Rightarrow>
          \<exists>q1. reaches D (tick_op dl others now) q q1 \<and> (quiet others \<longrightarrow> q1 = q) \<and>
            (\<exists>item \<in> set items. \<exists>asg lease sel cap. view item = Inr (Offer asg lease sel cap) \<and>
               claim D q1 item asg lease sel (dl_worker_id dl) tok cap now = Inr (c, q'))
      | (_, q') \<Rightarrow> reaches D (tick_op dl others now) q q' \<and> (quiet others \<longrightarrow> q' = q))"

lemma loop_outcome_step:
  assumes "loop_outcome D dl others view now items q1 out" and "reaches D (tick_op dl others now) q q1"
    and "quiet others \<longrightarrow> q1 = q"
  shows "loop_outcome D dl others view now (item # items) q out"
proof -
  obtain res q' where out: "out = (res, q')" by fastforce
  have tr: "reaches D (tick_op dl others now) q x" if "reaches D (tick_op dl others now) q1 x" for x
    using reaches_trans [OF assms(2) that] .
  show ?thesis
  proof (cases "\<exists>c tok msgs. res = Inr (Some (c, tok), msgs)")
    case True
    with assms(1,3) tr show ?thesis unfolding loop_outcome_def out by fastforce
  next
    case False
    then have "reaches D (tick_op dl others now) q1 q' \<and> (quiet others \<longrightarrow> q' = q1)"
      using assms(1) by (auto simp: loop_outcome_def out split: sum.splits option.splits)
    with False assms(3) tr show ?thesis
      by (auto simp: loop_outcome_def out split: sum.splits option.splits)
  qed
qed

lemma settle_reaches: "reaches D (tick_op dl others now) q (settle D (others i) q)"
  by (rule reaches_settle) auto

lemma settle_quiet: "quiet others \<longrightarrow> settle D (others i) q = q"
  by (simp add: quiet_def settle_def)

lemma dispatch_loop_outcome:
  "loop_outcome D dl others view now items q (dispatch_loop D dl tokens others view now items k drawn msgs q)"
proof (induction items arbitrary: k drawn msgs q)
  case Nil
  then show ?case by (simp add: loop_outcome_def)
next
  case (Cons item items)
  have next_same: "loop_outcome D dl others view now (item # items) q
      (dispatch_loop D dl tokens others view now items (Suc k) drawn m q)" for m
    by (rule loop_outcome_step [OF Cons.IH]) simp_all
  let ?q1 = "settle D (others (4 + k)) q"
  have next_settled: "loop_outcome D dl others view now (item # items) q
      (dispatch_loop D dl tokens others view now items (Suc k) (Suc drawn) msgs ?q1)"
    by (rule loop_outcome_step [OF Cons.IH settle_reaches settle_quiet])
  have claimed: "loop_outcome D dl others view now (item # items) q (Inr (Some (c, tokens drawn), msgs), q2)"
    if "view item = Inr (Offer asg lease sel cap)"
      "claim D ?q1 item asg lease sel (dl_worker_id dl) (tokens drawn) cap now = Inr (c, q2)"
    for asg lease sel cap c q2
    unfolding loop_outcome_def prod.case sum.case option.case
    using that settle_reaches settle_quiet by (intro exI [of _ ?q1]) auto
  have failed: "loop_outcome D dl others view now (item # items) q (Inl e, ?q1)" for e
    unfolding loop_outcome_def prod.case sum.case using settle_reaches settle_quiet by blast
  show ?case
    using next_same next_settled claimed failed
    by (auto simp: Let_def loop_outcome_def [of _ _ _ _ _ _ _ "(Inl _, q)"]
        split: sum.splits preview.splits)
qed

lemma make_result_Inr_iff:
  "make_result st cl rej ids now = Inr r \<longleftrightarrow>
     (\<exists>t. now = Aware t \<and>
        r = \<lparr>dr_status = st, dr_claim = map_option fst cl, dr_rejections = rej,
             dr_reclaimed_work_item_ids = ids, dr_ticked_at = t, dr_lease_owner_token = map_option snd cl\<rparr> \<and>
        valid_DispatcherTickResult r)"
  by (auto simp: make_result_def Let_def split: py_datetime.splits)

text \<open>Where a tick can stop, with the queue it leaves.\<close>

lemma tick_cases:
  assumes "tick D dl tokens others q now wid = (res, q')"
  obtains (reclaim_failed) e where "res = Inl (DE_Queue e)" "q' = settle D (others 0) q"
      "reclaim_expired D q' now (py_add now (dl_expired_lease_retry_delay dl)) = Inl e"
  | (no_candidates) ws q2 where
      "reclaim_expired D (settle D (others 0) q) now (py_add now (dl_expired_lease_retry_delay dl)) = Inr (ws, q2)"
      "q' = settle D (others 1) q2"
      "(\<exists>e. select_candidates D dl q' now wid = Inl e \<and> res = Inl (DE_Queue e)) \<or>
       select_candidates D dl q' now wid = Inr [] \<and> res = make_result DT_IDLE None [] (map qi_id ws) now"
  | (candidates) ws q2 cs where
      "reclaim_expired D (settle D (others 0) q) now (py_add now (dl_expired_lease_retry_delay dl)) = Inr (ws, q2)"
      "select_candidates D dl (settle D (others 1) q2) now wid = Inr cs" "cs \<noteq> []"
      "dispatch_candidates D dl tokens others now (map qi_id ws) cs (settle D (others 1) q2) = (res, q')"
proof (cases "reclaim_expired D (settle D (others 0) q) now (py_add now (dl_expired_lease_retry_delay dl))")
  case (Inl e)
  with assms show thesis by (intro reclaim_failed) (auto simp: tick_def)
next
  case (Inr wq)
  obtain ws q2 where wq: "wq = (ws, q2)" by fastforce
  show thesis
  proof (cases "select_candidates D dl (settle D (others 1) q2) now wid")
    case (Inl e)
    with Inr assms wq show thesis by (intro no_candidates [of ws q2]) (auto simp: tick_def Let_def)
  next
    case sel: (Inr cs)
    with Inr assms wq show thesis
      by (cases "cs = []") (auto simp: tick_def Let_def intro: no_candidates [of ws q2] candidates [of ws q2 cs])
  qed
qed

lemma dispatch_candidates_cases:
  assumes "dispatch_candidates D dl tokens others now ids cs q = (res, q')"
  obtains (lists_failed) e where "res = Inl (DE_Queue e)" "reaches D (tick_op dl others now) q q'"
      "quiet others \<Longrightarrow> q' = q \<and> (list_active_leases q now = Inl e \<or> list_assignments q = Inl e)"
  | (looped) leases asgs q5 out where "list_active_leases (settle D (others 2) q) now = Inr leases"
      "list_assignments q5 = Inr asgs" "reaches D (tick_op dl others now) q q5" "quiet others \<Longrightarrow> q5 = q"
      "out = dispatch_loop D dl tokens others (preview_candidate dl leases asgs now cs) now cs 0 0 [] q5"
      "loop_outcome D dl others (preview_candidate dl leases asgs now cs) now cs q5 out"
      "(res, q') = finish_tick ids now out"
proof -
  let ?q4 = "settle D (others 2) q" and ?q5 = "settle D (others 3) (settle D (others 2) q)"
  have r: "reaches D (tick_op dl others now) q ?q4" "reaches D (tick_op dl others now) q ?q5"
    using settle_reaches reaches_trans by blast+
  have qt: "quiet others \<Longrightarrow> ?q4 = q \<and> ?q5 = q" by (simp add: quiet_def settle_def)
  show thesis
  proof (cases "list_active_leases ?q4 now")
    case (Inl e)
    with assms r qt show thesis by (intro lists_failed [of e]) (auto simp: dispatch_candidates_def)
  next
    case leases: (Inr leases)
    show thesis
    proof (cases "list_assignments ?q5")
      case (Inl e)
      with assms r qt leases show thesis
        by (intro lists_failed [of e]) (auto simp: dispatch_candidates_def Let_def)
    next
      case (Inr asgs)
      show thesis
        by (rule looped [OF leases Inr r(2) _ refl dispatch_loop_outcome])
          (use assms leases Inr qt in \<open>auto simp: dispatch_candidates_def Let_def\<close>)
    qed
  qed
qed

lemma reclaim_reaches:
  "reclaim_expired D q now (py_add now (dl_expired_lease_retry_delay dl)) = Inr (ws, q') \<Longrightarrow>
   reaches D (tick_op dl others now) q q'"
  by (rule reaches_step [where op = "OpReclaim now (py_add now (dl_expired_lease_retry_delay dl))"])
    (auto simp: tick_op_def)

lemma finish_tick_snd [simp]: "snd (finish_tick ids now out) = snd out"
  by (auto simp: finish_tick_def split: prod.splits sum.splits option.splits)

lemma loop_outcome_reaches:
  assumes "loop_outcome D dl others view now items q out"
  shows "reaches D (tick_op dl others now) q (snd out)"
proof -
  have "reaches D (tick_op dl others now) q1 q'"
    if "claim D q1 item asg lease sel (dl_worker_id dl) tok cap now = Inr (c, q')" for q1 item asg lease sel tok cap c q'
    by (rule reaches_step [where op = "OpClaim item asg lease sel (dl_worker_id dl) tok cap now"])
      (use that in \<open>auto simp: tick_op_def\<close>)
  with assms reaches_trans show ?thesis
    unfolding loop_outcome_def by (fastforce split: prod.splits sum.splits option.splits)
qed

lemma tick_reaches: "reaches D (tick_op dl others now) q (snd (tick D dl tokens others q now wid))"
proof -
  obtain res q' where t: "tick D dl tokens others q now wid = (res, q')" by fastforce
  from t have "reaches D (tick_op dl others now) q q'"
  proof (cases rule: tick_cases)
    case (reclaim_failed e)
    then show ?thesis using settle_reaches by simp
  next
    case (no_candidates ws q2)
    then show ?thesis using settle_reaches reclaim_reaches reaches_trans by metis
  next
    case (candidates ws q2 cs)
    have "reaches D (tick_op dl others now) q (settle D (others 1) q2)"
      using settle_reaches reclaim_reaches [OF candidates(1)] reaches_trans by metis
    also from candidates(4) have "reaches D (tick_op dl others now) (settle D (others 1) q2) q'"
    proof (cases rule: dispatch_candidates_cases)
      case (looped leases asgs q5 out)
      have "q' = snd out" using looped(7) by (metis finish_tick_snd snd_conv)
      with looped(3) loop_outcome_reaches [OF looped(6)] show ?thesis using reaches_trans by metis
    qed
    finally show ?thesis .
  qed
  with t show ?thesis by simp
qed

end
