(* ===== verification/Dispatcher_Properties.thy ===== *)
theory Dispatcher_Properties
  imports Dispatcher
begin

section \<open>Properties of a dispatcher tick\<close>

text \<open>
  A tick leaves the queue in a state reached by queue calls, reports every claim it makes and makes
  at most one; the claim it reports is authorised by the scheduler, the router and the queue.
\<close>

subsection \<open>Reclaimed items\<close>

lemma reclaim_loop_ids:
  "reclaim_loop D t rt rows q = Inr (ws, q') \<Longrightarrow>
   map qi_id ws = map cr_work_item_id rows \<and> list_all valid_WorkItemId (map qi_id ws)"
proof (induction rows arbitrary: q ws)
  case (Cons row rows)
  then obtain w q1 ws' where s: "reclaim_one D t rt row q = Inr (w, q1)"
      "reclaim_loop D t rt rows q1 = Inr (ws', q')" "ws = w # ws'"
    by (auto simp: bind_res_Inr_iff)
  obtain current where c: "get_locked D q (cr_work_item_id row) = Inr current" "qi_id w = qi_id current"
    using s(1) by (auto simp: reclaim_one_def bind_res_Inr_iff Let_def)
  have "valid_WorkItemId (qi_id current)"
    using c(1) by (auto simp: get_locked_Inr_iff valid_QueuedWorkItem_def)
  with Cons.IH [OF s(2)] s(3) c get_locked_id [OF c(1)] show ?case by auto
qed simp

lemma active_claim_unique:
  assumes inv: "queue_inv q" and "c \<in> set (q_claims q)" "c' \<in> set (q_claims q)"
    and "cr_state c = CS_ACTIVE" "cr_state c' = CS_ACTIVE" "cr_work_item_id c = cr_work_item_id c'"
  shows "c = c'"
proof -
  obtain r where r: "r \<in> set (q_items q)" "ir_id r = cr_work_item_id c"
    using inv assms(2) by (auto simp: queue_inv_def claim_row_ok_def)
  have "c \<in> active_on (q_claims q) (ir_id r)" "c' \<in> active_on (q_claims q) (ir_id r)"
    using assms r(2) by (simp_all add: active_on_def)
  moreover have "activity_ok (q_claims q) r" using inv r(1) by (simp add: queue_inv_def)
  ultimately show ?thesis by (auto simp: activity_ok_def split: if_splits)
qed

lemma reclaimed_ids:
  assumes "queue_inv q" and "reclaim_expired D q now rt = Inr (ws, q')"
  shows "distinct (map qi_id ws)" "list_all valid_WorkItemId (map qi_id ws)"
proof -
  obtain t r where loop: "reclaim_loop D t r (expired_claims q t) q = Inr (ws, q')"
    using assms(2) by (auto simp: reclaim_expired_def bind_res_Inr_iff)
  have "inj_on cr_work_item_id (set (expired_claims q t))"
    by (intro inj_onI active_claim_unique [OF assms(1)]) (auto simp: set_expired_claims)
  moreover have "distinct (expired_claims q t)"
    using distinct_expired_claims [OF assms(1)] by (simp add: distinct_map)
  ultimately show "distinct (map qi_id ws)" "list_all valid_WorkItemId (map qi_id ws)"
    using reclaim_loop_ids [OF loop] by (auto simp: distinct_map)
qed

lemma reclaim_keeps_leases:
  assumes "queue_inv q" and "reclaim_expired D q now rt = Inr (ws, q')"
  shows "map cr_lease_id (q_claims q') = map cr_lease_id (q_claims q)"
proof -
  obtain t where "now = Aware t"
    using assms(2) by (cases now) (auto simp: reclaim_expired_def require_aware_def)
  then have "list_all2 (evolve t) (q_claims q) (q_claims q')"
    using reclaim_expired_evolve(1) [OF assms(1), of D t rt ws q' t] assms(2) by (simp add: claims_evolve_def)
  then show ?thesis
    by (induction rule: list_all2_induct) (simp_all add: evolve_def)
qed

lemma claim_new_lease:
  assumes "claim D q item asg lease sel wk tok cap now = Inr (c, q')"
  shows "map cr_lease_id (q_claims q') = map cr_lease_id (q_claims q) @ [tl_id (qc_lease c)]"
  using assms by (rule claim_cases) (auto simp: new_claim_row_def)

lemma dispatched_result:
  assumes "distinct ids" and "list_all valid_WorkItemId ids"
  shows "\<exists>r. make_result DT_DISPATCHED (Some (c, tok)) [] ids (Aware t) = Inr r \<and>
    dr_status r = DT_DISPATCHED \<and> dr_claim r = Some c \<and> dr_lease_owner_token r = Some tok"
  using assms by (simp add: make_result_Inr_iff valid_DispatcherTickResult_def validate_result_def)

lemma not_dispatched:
  "make_result st None rej ids now = Inr r \<Longrightarrow> dr_status r = st"
  by (auto simp: make_result_Inr_iff)

lemma dispatched_Inr:
  assumes "fst (finish_tick ids now out) = Inr r" and "dr_status r = DT_DISPATCHED"
  obtains c tok msgs where "fst out = Inr (Some (c, tok), msgs)" "dr_claim r = Some c"
    "dr_lease_owner_token r = Some tok"
  using assms
  by (auto simp: finish_tick_def make_result_Inr_iff split: prod.splits sum.splits option.splits if_splits)

subsection \<open>At most one claim, always reported\<close>

definition claims_reported ::
  "queue \<Rightarrow> (dispatcher_error + DispatcherTickResult) \<Rightarrow> queue \<Rightarrow> bool" where
  "claims_reported q res q' \<longleftrightarrow>
     (if \<exists>r. res = Inr r \<and> dr_status r = DT_DISPATCHED
      then \<exists>r c. res = Inr r \<and> dr_claim r = Some c \<and>
        map cr_lease_id (q_claims q') = map cr_lease_id (q_claims q) @ [tl_id (qc_lease c)]
      else map cr_lease_id (q_claims q') = map cr_lease_id (q_claims q))"

lemma dispatch_candidates_reported:
  assumes "dispatch_candidates D dl tokens others (Aware t) ids cs q = (res, q')" and quiet: "quiet others"
    and ids: "distinct ids" "list_all valid_WorkItemId ids"
  shows "claims_reported q res q'"
  using assms(1)
proof (cases rule: dispatch_candidates_cases)
  case (lists_failed e)
  with quiet show ?thesis by (simp add: claims_reported_def)
next
  case (looped leases asgs q5 out)
  have q5: "q5 = q" using looped(4) quiet by simp
  have q': "q' = snd out" using looped(7) by (metis finish_tick_snd snd_conv)
  show ?thesis
  proof (cases "\<exists>c tok msgs. fst out = Inr (Some (c, tok), msgs)")
    case True
    then obtain c tok msgs where out: "out = (Inr (Some (c, tok), msgs), q')" using q' by (metis prod.collapse)
    then obtain item asg lease sel cap where
      "claim D q item asg lease sel (dl_worker_id dl) tok cap (Aware t) = Inr (c, q')"
      using looped(6) quiet q5 by (auto simp: loop_outcome_def)
    then have "map cr_lease_id (q_claims q') = map cr_lease_id (q_claims q) @ [tl_id (qc_lease c)]"
      by (rule claim_new_lease)
    moreover have "res = make_result DT_DISPATCHED (Some (c, tok)) [] ids (Aware t)"
      using looped(7) out by (simp add: finish_tick_def)
    ultimately show ?thesis using dispatched_result [OF ids, of c tok t] by (auto simp: claims_reported_def)
  next
    case False
    then have "q' = q"
      using looped(6) quiet q5 q' by (auto simp: loop_outcome_def split: prod.splits sum.splits option.splits)
    moreover have "\<nexists>r. res = Inr r \<and> dr_status r = DT_DISPATCHED"
      using False looped(7) dispatched_Inr [of ids "Aware t" out] by (metis fst_conv)
    ultimately show ?thesis by (simp add: claims_reported_def)
  qed
qed

lemma tick_reported:
  assumes inv: "queue_inv q" and quiet: "quiet others" and t: "tick D dl tokens others q now wid = (res, q')"
  shows "claims_reported q res q'"
proof -
  have s [simp]: "settle D (others i) x = x" for i x using quiet settle_quiet by blast
  from t show ?thesis
  proof (cases rule: tick_cases)
    case (reclaim_failed e)
    then show ?thesis by (simp add: claims_reported_def)
  next
    case (no_candidates ws q2)
    then have "map cr_lease_id (q_claims q') = map cr_lease_id (q_claims q)"
      using reclaim_keeps_leases [OF inv] by simp
    moreover have "\<nexists>r. res = Inr r \<and> dr_status r = DT_DISPATCHED"
      using no_candidates(3) by (auto dest: not_dispatched [OF sym])
    ultimately show ?thesis by (simp add: claims_reported_def)
  next
    case (candidates ws q2 cs)
    have ids: "distinct (map qi_id ws)" "list_all valid_WorkItemId (map qi_id ws)"
      using reclaimed_ids [OF inv] candidates(1) by simp_all
    obtain t' where now: "now = Aware t'"
      using candidates(1) by (cases now) (auto simp: reclaim_expired_def require_aware_def)
    have "claims_reported q2 res q'"
      using candidates(4) now by (intro dispatch_candidates_reported [OF _ quiet ids]) simp
    moreover have "map cr_lease_id (q_claims q2) = map cr_lease_id (q_claims q)"
      using reclaim_keeps_leases [OF inv] candidates(1) by simp
    ultimately show ?thesis unfolding claims_reported_def by metis
  qed
qed

text \<open>
  C32. A tick that runs alone leaves a queue that satisfies the queue invariant; it adds at most one
  lease, and it adds one exactly when it reports the status \<open>DISPATCHED\<close>: the reported claim is the
  new lease. In particular a tick that raises, for whatever reason, has not claimed anything.
\<close>

theorem tick_claims_at_most_one:
  assumes "queue_inv q" and "quiet others" and "tick D dl tokens others q now wid = (res, q')"
  shows "queue_inv q' \<and>
    (if \<exists>r. res = Inr r \<and> dr_status r = DT_DISPATCHED
     then \<exists>r c. res = Inr r \<and> dr_claim r = Some c \<and>
        map cr_lease_id (q_claims q') = map cr_lease_id (q_claims q) @ [tl_id (qc_lease c)]
     else map cr_lease_id (q_claims q') = map cr_lease_id (q_claims q))"
  using tick_reported [OF assms] reaches_inv [OF tick_reaches assms(1), of D dl tokens others now wid] assms(3)
  by (simp add: claims_reported_def)

subsection \<open>The authority of a dispatched claim\<close>

lemma preview_offer:
  assumes "preview_candidate dl leases asgs now cs item = Inr (Offer asg lease sel cap)"
    and ids: "distinct (map ap_id (dl_agents dl))"
  obtains t agent policy dec where "now = Aware t" "agent \<in> set (dl_agents dl)"
    "agent_qualified item (qi_role item) (active_capacity (dl_agents dl) leases (all_work_items cs item) t) asgs agent"
    "asg = build_assignment (dl_sha dl) queue_ident item (qi_role item) (ap_id agent) (qi_attempt item) t"
    "lease = build_lease (dl_lease_duration dl) asg (wi_task_id item) (ap_id agent) t"
    "policy \<in> set (dl_policies dl)" "demand_matches (dl_demand_builder dl item) item"
    "route (dl_model_router dl) (dl_demand_builder dl item) agent policy now = Inr dec"
    "md_selection dec = Some sel" "cap = ap_max_parallel_assignments agent"
proof -
  obtain d agent_id where d: "match_item (dl_sha dl) (dl_lease_duration dl) queue_ident item (qi_role item)
        (dl_agents dl) leases asgs now (qi_attempt item) cs = Inr d" "ad_status d \<noteq> AD_REJECTED"
      "ad_agent_id d = Some agent_id" "ad_assignment d = Some asg" "ad_lease d = Some lease"
      "route_candidate dl now item agent_id asg lease = Inr (Offer asg lease sel cap)"
    using assms(1)
    by (auto simp: preview_candidate_def route_candidate_def Let_def
        split: sum.splits if_splits option.splits)
  have "ad_status d = AD_ASSIGNED" using d(2) by (cases "ad_status d") simp_all
  with d(1) obtain t agent where m: "now = Aware t" "agent \<in> set (dl_agents dl)"
      "agent_qualified item (qi_role item) (active_capacity (dl_agents dl) leases (all_work_items cs item) t) asgs agent"
      "d = assigned_decision (dl_sha dl) (dl_lease_duration dl) queue_ident item (qi_role item) t (qi_attempt item) agent"
    by (rule match_assigned)
  have f: "agent_id = ap_id agent"
      "asg = build_assignment (dl_sha dl) queue_ident item (qi_role item) (ap_id agent) (qi_attempt item) t"
      "lease = build_lease (dl_lease_duration dl) asg (wi_task_id item) (ap_id agent) t"
    using m(4) d(3-5) by (auto simp: assigned_decision_def Let_def)
  have "find (\<lambda>p. ap_id p = ap_id agent) (dl_agents dl) = Some agent"
    using row_of_unique [of ap_id "dl_agents dl" agent] m(2) ids by (simp add: unique_key_def row_of_def)
  with d(6) show thesis
    by (auto simp: route_candidate_def Let_def f(1) split: option.splits if_splits sum.splits dest!: find_Some_mem
        intro!: that [OF m(1-3) f(2,3)])
qed

lemma tick_dispatched:
  assumes "fst (tick D dl tokens others q now wid) = Inr r" and "dr_status r = DT_DISPATCHED"
  obtains q1 q3 leases asgs cs item asg lease sel cap c tok q' where
    "tick D dl tokens others q now wid = (Inr r, q')" "dr_claim r = Some c" "dr_lease_owner_token r = Some tok"
    "reaches D (tick_op dl others now) q q1" "select_candidates D dl q3 now wid = Inr cs" "item \<in> set cs"
    "preview_candidate dl leases asgs now cs item = Inr (Offer asg lease sel cap)"
    "claim D q1 item asg lease sel (dl_worker_id dl) tok cap now = Inr (c, q')"
proof -
  obtain q' where t: "tick D dl tokens others q now wid = (Inr r, q')" using assms(1) by (metis prod.collapse)
  then show thesis
  proof (cases rule: tick_cases)
    case (no_candidates ws q2)
    with assms(2) show thesis by (auto dest: not_dispatched [OF sym])
  next
    case (candidates ws q2 cs)
    have r3: "reaches D (tick_op dl others now) q (settle D (others 1) q2)"
      using settle_reaches reclaim_reaches [OF candidates(1)] reaches_trans by metis
    from candidates(4) show thesis
    proof (cases rule: dispatch_candidates_cases)
      case (looped leases asgs q5 out)
      have fin: "fst (finish_tick (map qi_id ws) now out) = Inr r" "snd out = q'"
        using looped(7) by (metis fst_conv, metis finish_tick_snd snd_conv)
      obtain c tok msgs where c: "fst out = Inr (Some (c, tok), msgs)" "dr_claim r = Some c"
          "dr_lease_owner_token r = Some tok"
        using fin(1) assms(2) by (rule dispatched_Inr)
      then have "out = (Inr (Some (c, tok), msgs), q')" using fin(2) by (metis prod.collapse)
      with looped(6) obtain q1 item asg lease sel cap where
        "reaches D (tick_op dl others now) q5 q1" "item \<in> set cs"
        "preview_candidate dl leases asgs now cs item = Inr (Offer asg lease sel cap)"
        "claim D q1 item asg lease sel (dl_worker_id dl) tok cap now = Inr (c, q')"
        by (simp add: loop_outcome_def) blast
      with t c candidates(2) reaches_trans [OF r3 looped(3)] reaches_trans show thesis by (metis that)
    qed simp
  qed simp
qed

lemma candidates_scope:
  "select_candidates D dl q now (Some w) = Inr cs \<Longrightarrow> item \<in> set cs \<Longrightarrow> qi_id item = w"
  by (auto simp: select_candidates_def bind_res_Inr_iff queue_get_def dest: get_locked_id split: if_splits)

lemma claim_granted:
  assumes "claim D q item asg lease sel wk tok cap (Aware t) = Inr (c, q')"
    and "ra_capacity_units asg = tl_capacity_units lease"
  shows "owns D q' (qi_id item) (tl_id lease) tok t" "used_capacity q' (ra_agent_id asg) t \<le> cap"
    "c = \<lparr>qc_work_item = claimed_item item t, qc_assignment = asg, qc_lease = lease,
          qc_model_selection = sel, qc_worker_id = wk, qc_claimed_at = t\<rparr>"
proof -
  obtain tsha where s: "token_digest D tok = Inr tsha" "validate_allocation item asg lease sel t = Inr ()"
      "validate_capacity_locked q asg cap t = Inr ()"
      "c = \<lparr>qc_work_item = claimed_item item t, qc_assignment = asg, qc_lease = lease,
          qc_model_selection = sel, qc_worker_id = wk, qc_claimed_at = t\<rparr>"
      "q_claims q' = q_claims q @ [new_claim_row (claimed_item item t) asg lease sel wk tsha t]"
    using assms(1)
  proof (cases rule: claim_cases)
    case (1 t' tsha)
    have "t' = t" using 1(1) by simp
    moreover have "q_claims q' = q_claims q @ [new_claim_row (claimed_item item t') asg lease sel wk tsha t']"
      using 1(12) by auto
    ultimately show thesis using 1(2,5,8,11) by (intro that) simp_all
  qed
  let ?n = "new_claim_row (claimed_item item t) asg lease sel wk tsha t"
  have e: "t < tl_expires_at lease" using s(2) by (simp add: validate_allocation_def)
  show "owns D q' (qi_id item) (tl_id lease) tok t"
    unfolding owns_def s(5) by (intro bexI [of _ ?n]) (use e s(1) in \<open>auto simp: new_claim_row_def claimed_item_def\<close>)
  have "used_capacity q' (ra_agent_id asg) t = used_capacity q (ra_agent_id asg) t + tl_capacity_units lease"
    using e by (simp add: used_capacity_def s(5) live_claim_def new_claim_row_def)
  then show "used_capacity q' (ra_agent_id asg) t \<le> cap"
    using s(3) assms(2) by (auto simp: validate_capacity_locked_def split: if_splits)
  show "c = \<lparr>qc_work_item = claimed_item item t, qc_assignment = asg, qc_lease = lease,
          qc_model_selection = sel, qc_worker_id = wk, qc_claimed_at = t\<rparr>" by (rule s(4))
qed

lemma routed_floor:
  assumes "valid_ModelPolicy p" and "route r d a p now = Inr dec" and "md_selection dec = Some sel"
    and "demand_matches d item"
  shows "mp_id p = ap_default_model_policy_id a"
    "\<exists>f \<in> set (mp_risk_floors p). rmf_risk f = wi_risk item \<and> TIER_RANK (rmf_minimum_tier f) \<le> TIER_RANK (ms_tier sel)"
proof -
  note S = selection_sound [OF assms(1-3)]
  then show "mp_id p = ap_default_model_policy_id a" by (simp add: agent_admitted_def)
  obtain f where f: "f \<in> set (mp_risk_floors p)" "rmf_risk f = rd_risk d"
      "(let base = max (TIER_RANK (mp_default_tier p)) (TIER_RANK (rmf_minimum_tier f))
         in (if is_complex r d \<or> has_objective_escalation d then min (base + 1) 3 else base)
              \<le> TIER_RANK (ms_tier sel))"
    using S by blast
  have "TIER_RANK (rmf_minimum_tier f) \<le> TIER_RANK (ms_tier sel)"
    using f(3) TIER_RANK_le [of "rmf_minimum_tier f"] by (auto simp: Let_def split: if_splits)
  with f(1,2) assms(4) show "\<exists>f \<in> set (mp_risk_floors p). rmf_risk f = wi_risk item \<and>
      TIER_RANK (rmf_minimum_tier f) \<le> TIER_RANK (ms_tier sel)"
    by (auto simp: demand_matches_def)
qed

text \<open>
  C33. A dispatched claim carries every authority it needs, whatever other processes did to the queue
  meanwhile: the returned token owns the claimed lease in the resulting queue; the Agent is one of
  the dispatcher's, active, eligible for the role, and has the required capabilities; its live
  claims fit its parallel limit; the model selection was routed under the Agent's own policy, for a
  demand that matches the item, at least at the floor of the item's risk; and a tick bound to one
  item claims no other.
\<close>

theorem dispatched_claim_authorized:
  assumes "fst (tick D dl tokens others q (Aware t) wid) = Inr r" and "dr_status r = DT_DISPATCHED"
    and dl: "valid_DispatcherLoop dl" "\<forall>p \<in> set (dl_policies dl). valid_ModelPolicy p"
  shows "\<exists>c tok agent policy. dr_claim r = Some c \<and> dr_lease_owner_token r = Some tok \<and>
     (let q' = snd (tick D dl tokens others q (Aware t) wid); item = qc_work_item c in
      owns D q' (qi_id item) (tl_id (qc_lease c)) tok t \<and>
      agent \<in> set (dl_agents dl) \<and> ap_active agent \<and> ra_agent_id (qc_assignment c) = ap_id agent \<and>
      ra_role (qc_assignment c) = qi_role item \<and>
      (\<exists>tr \<in> set (ap_eligible_roles agent). TeamRole_of_value (AgentRole_value (qi_role item)) = Some tr) \<and>
      set (wi_required_capabilities item) \<subseteq> set (ap_capabilities agent) \<and>
      used_capacity q' (ap_id agent) t \<le> ap_max_parallel_assignments agent \<and>
      policy \<in> set (dl_policies dl) \<and> mp_id policy = ap_default_model_policy_id agent \<and>
      (\<exists>f \<in> set (mp_risk_floors policy). rmf_risk f = wi_risk item \<and>
         TIER_RANK (rmf_minimum_tier f) \<le> TIER_RANK (ms_tier (qc_model_selection c))) \<and>
      (\<forall>w. wid = Some w \<longrightarrow> qi_id item = w))"
proof -
  obtain q1 q3 leases asgs cs item asg lease sel cap c tok q' where T:
    "tick D dl tokens others q (Aware t) wid = (Inr r, q')" "dr_claim r = Some c" "dr_lease_owner_token r = Some tok"
    "select_candidates D dl q3 (Aware t) wid = Inr cs" "item \<in> set cs"
    "preview_candidate dl leases asgs (Aware t) cs item = Inr (Offer asg lease sel cap)"
    "claim D q1 item asg lease sel (dl_worker_id dl) tok cap (Aware t) = Inr (c, q')"
    using assms(1,2) by (rule tick_dispatched)
  have "distinct (map ap_id (dl_agents dl))" using dl(1) by (simp add: valid_DispatcherLoop_def)
  with T(6) obtain agent policy dec where A: "agent \<in> set (dl_agents dl)"
      "agent_qualified item (qi_role item) (active_capacity (dl_agents dl) leases (all_work_items cs item) t) asgs agent"
      "asg = build_assignment (dl_sha dl) queue_ident item (qi_role item) (ap_id agent) (qi_attempt item) t"
      "lease = build_lease (dl_lease_duration dl) asg (wi_task_id item) (ap_id agent) t"
      "policy \<in> set (dl_policies dl)" "demand_matches (dl_demand_builder dl item) item"
      "route (dl_model_router dl) (dl_demand_builder dl item) agent policy (Aware t) = Inr dec"
      "md_selection dec = Some sel" "cap = ap_max_parallel_assignments agent"
    by (rule preview_offer) auto
  have units: "ra_capacity_units asg = tl_capacity_units lease" "ra_agent_id asg = ap_id agent" "ra_role asg = qi_role item"
    by (simp_all add: A(3,4) build_assignment_def build_lease_def Let_def)
  note G = claim_granted [OF T(7) units(1)]
  have fields: "qi_id (claimed_item item t) = qi_id item" "qi_role (claimed_item item t) = qi_role item"
      "wi_required_capabilities (claimed_item item t) = wi_required_capabilities item"
      "wi_risk (claimed_item item t) = wi_risk item" by (simp_all add: claimed_item_def)
  note S = routed_floor [OF _ A(7,8,6)]
  show ?thesis
    unfolding T(1) Let_def snd_conv
  proof (intro exI conjI allI impI)
    show "dr_claim r = Some c" "dr_lease_owner_token r = Some tok" "agent \<in> set (dl_agents dl)"
      "policy \<in> set (dl_policies dl)" by (fact T A)+
    show "owns D q' (qi_id (qc_work_item c)) (tl_id (qc_lease c)) tok t"
      using G(1) by (simp add: G(3) fields)
    show "ap_active agent" using A(2) by (simp add: agent_qualified_def)
    show "ra_agent_id (qc_assignment c) = ap_id agent" "ra_role (qc_assignment c) = qi_role (qc_work_item c)"
      using units by (simp_all add: G(3) fields)
    show "\<exists>tr \<in> set (ap_eligible_roles agent). TeamRole_of_value (AgentRole_value (qi_role (qc_work_item c))) = Some tr"
      using A(2) by (auto simp: G(3) fields agent_qualified_def split: option.splits)
    show "set (wi_required_capabilities (qc_work_item c)) \<subseteq> set (ap_capabilities agent)"
      using A(2) by (simp add: G(3) fields agent_qualified_def)
    show "used_capacity q' (ap_id agent) t \<le> ap_max_parallel_assignments agent"
      using G(2) units(2) A(9) by simp
    show "mp_id policy = ap_default_model_policy_id agent" using S(1) A(5) dl(2) by simp
    show "\<exists>f \<in> set (mp_risk_floors policy). rmf_risk f = wi_risk (qc_work_item c) \<and>
        TIER_RANK (rmf_minimum_tier f) \<le> TIER_RANK (ms_tier (qc_model_selection c))"
      using S(2) A(5) dl(2) by (simp add: G(3) fields)
    show "qi_id (qc_work_item c) = w" if "wid = Some w" for w
      using candidates_scope T(4,5) that by (simp add: G(3) fields)
  qed
qed

subsection \<open>A concrete tick\<close>

definition sample_dispatcher :: DispatcherLoop where
  "sample_dispatcher =
     \<lparr>dl_sha = const_sha, dl_lease_duration = 100, dl_model_router = sample_router,
      dl_agents = [sample_agent], dl_policies = [sample_policy],
      dl_demand_builder = (\<lambda>item. (sample_demand (qi_role item) 5)
        \<lparr>rd_task_id := wi_task_id item, rd_risk := wi_risk item,
         rd_required_capabilities := wi_required_capabilities item\<rparr>),
      dl_worker_id = ''worker_a01'', dl_scan_limit = 10, dl_expired_lease_retry_delay = 5\<rparr>"

definition sample_tick :: "(dispatcher_error + DispatcherTickResult) \<times> queue" where
  "sample_tick = tick sample_digests sample_dispatcher (\<lambda>_. sample_token) (\<lambda>_. []) published_queue (Aware 100) None"

definition reported_status :: "(dispatcher_error + DispatcherTickResult) \<times> queue \<Rightarrow> DispatcherTickStatus option" where
  "reported_status out = (case fst out of Inl _ \<Rightarrow> None | Inr r \<Rightarrow> Some (dr_status r))"

lemma sample_tick_dispatched: "reported_status sample_tick = Some DT_DISPATCHED"
  by code_simp

lemma published_queue_inv: "queue_inv published_queue"
  by (rule queue_run.run_inv [OF _ ok_run_True]) (rule queue_inv_init)

theorem tick_claims_at_most_one_witness:
  "queue_inv (snd sample_tick) \<and> length (q_claims (snd sample_tick)) = Suc (length (q_claims published_queue))"
proof -
  obtain res q' where t: "tick sample_digests sample_dispatcher (\<lambda>_. sample_token) (\<lambda>_. []) published_queue
      (Aware 100) None = (res, q')" by fastforce
  have "quiet (\<lambda>_. [])" by (simp add: quiet_def)
  note T = tick_claims_at_most_one [OF published_queue_inv this t]
  have "\<exists>r. res = Inr r \<and> dr_status r = DT_DISPATCHED"
    using sample_tick_dispatched t
    by (auto simp: sample_tick_def reported_status_def split: sum.splits)
  with T obtain l where "queue_inv q'" "map cr_lease_id (q_claims q') = map cr_lease_id (q_claims published_queue) @ [l]"
    by metis
  then have "queue_inv q'" "length (q_claims q') = Suc (length (q_claims published_queue))"
    by (metis length_map, metis length_append_singleton length_map)
  then show ?thesis unfolding sample_tick_def t snd_conv by (rule conjI)
qed

lemma sample_dispatcher_valid:
  "valid_DispatcherLoop sample_dispatcher" "\<forall>p \<in> set (dl_policies sample_dispatcher). valid_ModelPolicy p"
proof -
  show "valid_DispatcherLoop sample_dispatcher" by code_simp
  show "\<forall>p \<in> set (dl_policies sample_dispatcher). valid_ModelPolicy p"
    by (simp add: sample_dispatcher_def sample_policy_valid)
qed

theorem dispatched_claim_authorized_witness:
  "\<exists>r c tok. fst sample_tick = Inr r \<and> dr_claim r = Some c \<and>
     owns sample_digests (snd sample_tick) (qi_id (qc_work_item c)) (tl_id (qc_lease c)) tok 100 \<and>
     ra_agent_id (qc_assignment c) = ap_id sample_agent \<and>
     used_capacity (snd sample_tick) (ap_id sample_agent) 100 \<le> 1"
proof -
  obtain r where r: "fst sample_tick = Inr r" "dr_status r = DT_DISPATCHED"
    using sample_tick_dispatched by (auto simp: reported_status_def split: sum.splits)
  have agents: "dl_agents sample_dispatcher = [sample_agent]" "ap_max_parallel_assignments sample_agent = 1"
    by (simp_all add: sample_dispatcher_def sample_agent_def)
  show ?thesis
    using dispatched_claim_authorized [OF r(1) [unfolded sample_tick_def] r(2) sample_dispatcher_valid,
        folded sample_tick_def]
    by (auto simp: Let_def agents r(1))
qed

end
