(* ===== verification/Execution_Window.thy ===== *)
theory Execution_Window
  imports Domain_Task
begin

section \<open>Execution windows and work slices\<close>

text \<open>
  \<^verbatim>\<open>domain/execution_window.py\<close>: the frozen execution window of a plan, the slice of plan steps one
  Coder run may work on, and the verification requirements a plan carries.
\<close>

record PlanExecutionWindow =
  ew_hard_seconds :: int
  ew_finalization_reserve_seconds :: int
  ew_reserve_rework_attempts :: int

definition valid_PlanExecutionWindow :: "PlanExecutionWindow \<Rightarrow> bool" where
  "valid_PlanExecutionWindow w \<longleftrightarrow>
     in_range 2 3600 (ew_hard_seconds w) \<and> in_range 1 300 (ew_finalization_reserve_seconds w) \<and>
     in_range 0 1 (ew_reserve_rework_attempts w) \<and>
     \<not> ew_hard_seconds w \<le> ew_finalization_reserve_seconds w"

text \<open>The classmethod \<^verbatim>\<open>for_seconds\<close>; \<open>None\<close> is the validation error of the constructor.\<close>

definition for_seconds :: "int \<Rightarrow> PlanExecutionWindow option" where
  "for_seconds seconds =
     (let w = \<lparr>ew_hard_seconds = seconds,
               ew_finalization_reserve_seconds = min (min 300 (max 1 (seconds div 5))) (seconds - 1),
               ew_reserve_rework_attempts = 1\<rparr>
      in if valid_PlanExecutionWindow w then Some w else None)"

record CoderWorkSlice =
  ws_task_id :: string
  ws_attempt :: int
  ws_source_revision :: string
  ws_plan_artifact_id :: string
  ws_plan_sha256 :: string
  ws_window :: PlanExecutionWindow
  ws_authorized_work_remaining :: int
  ws_completed_step_ids :: "string list"
  ws_selected_step_ids :: "string list"
  ws_later_step_ids :: "string list"

definition valid_CoderWorkSlice :: "CoderWorkSlice \<Rightarrow> bool" where
  "valid_CoderWorkSlice w \<longleftrightarrow>
     non_empty (ws_task_id w) \<and> 1 \<le> ws_attempt w \<and> non_empty (ws_source_revision w) \<and>
     non_empty (ws_plan_artifact_id w) \<and> match_hex 64 64 (ws_plan_sha256 w) \<and>
     valid_PlanExecutionWindow (ws_window w) \<and> 1 \<le> ws_authorized_work_remaining w \<and>
     list_all non_empty (ws_completed_step_ids w) \<and> list_all non_empty (ws_selected_step_ids w) \<and>
     ws_selected_step_ids w \<noteq> [] \<and> list_all non_empty (ws_later_step_ids w) \<and>
     ensure_unique (ws_completed_step_ids w @ ws_selected_step_ids w @ ws_later_step_ids w)"

subsection \<open>Planned verification\<close>

datatype InspectionKind = IK_document | IK_source | IK_native_ui

record PlannedVerificationInspection =
  vi_kind :: InspectionKind
  vi_paths :: "string list"
  vi_checklist :: "string list"
  vi_scenario_sha256 :: "string option"

definition validate_target :: "PlannedVerificationInspection \<Rightarrow> bool" where
  "validate_target i \<longleftrightarrow>
     ensure_unique (vi_paths i) \<and> ensure_unique (vi_checklist i) \<and>
     (if vi_kind i = IK_native_ui then vi_scenario_sha256 i \<noteq> None
      else \<not> (vi_paths i = [] \<or> vi_scenario_sha256 i \<noteq> None))"

definition valid_PlannedVerificationInspection :: "PlannedVerificationInspection \<Rightarrow> bool" where
  "valid_PlannedVerificationInspection i \<longleftrightarrow>
     list_all non_empty (vi_paths i) \<and> list_all non_empty (vi_checklist i) \<and> vi_checklist i \<noteq> [] \<and>
     opt_all (match_hex 64 64) (vi_scenario_sha256 i) \<and> validate_target i"

text \<open>
  \<^verbatim>\<open>level.casefold()\<close>, on the ASCII letters; every canonical level is ASCII.
\<close>

definition casefold_char :: "char \<Rightarrow> char" where
  "casefold_char c =
     (if CHR ''A'' \<le> c \<and> c \<le> CHR ''Z'' then char_of (of_char c + 32 :: nat) else c)"

fun inspection_levels :: "InspectionKind \<Rightarrow> string list" where
  "inspection_levels IK_document = [''documentation'', ''document'']"
| "inspection_levels IK_source = [''inspection'', ''source-inspection'', ''review'']"
| "inspection_levels IK_native_ui = [''ui'', ''native-ui'', ''ui-inspection'']"

definition validate_inspection_levels :: "PlannedVerificationInspection \<Rightarrow> string list \<Rightarrow> bool" where
  "validate_inspection_levels i levels \<longleftrightarrow>
     \<not> (levels = [] \<or> list_ex (\<lambda>level. map casefold_char level \<notin> set (inspection_levels (vi_kind i))) levels)"

record PlannedVerificationRequirement =
  vr_id :: string
  vr_role :: AgentRole
  vr_criterion_ids :: "string list"
  vr_argv :: "string list option"
  vr_inspection :: "PlannedVerificationInspection option"
  vr_verification_levels :: "string list option"
  vr_planned_new_files :: "string list"
  vr_controlled_capability_kind :: "string option"

definition validate_unique_refs :: "PlannedVerificationRequirement \<Rightarrow> bool" where
  "validate_unique_refs r \<longleftrightarrow>
     ensure_unique (vr_criterion_ids r) \<and> ensure_unique (vr_planned_new_files r) \<and>
     (vr_argv r = None) \<noteq> (vr_inspection r = None) \<and>
     (case vr_inspection r of
        None \<Rightarrow> True
      | Some i \<Rightarrow>
          validate_inspection_levels i (case vr_verification_levels r of None \<Rightarrow> [] | Some ls \<Rightarrow> ls) \<and>
          (if vi_kind i = IK_native_ui then vr_controlled_capability_kind r = Some ''macos_mock_ax_v1''
           else vr_controlled_capability_kind r = None))"

definition valid_PlannedVerificationRequirement :: "PlannedVerificationRequirement \<Rightarrow> bool" where
  "valid_PlannedVerificationRequirement r \<longleftrightarrow>
     non_empty (vr_id r) \<and> vr_role r \<in> {AR_QA, AR_REVIEWER} \<and>
     list_all non_empty (vr_criterion_ids r) \<and> vr_criterion_ids r \<noteq> [] \<and>
     opt_all (\<lambda>a. list_all non_empty a \<and> a \<noteq> []) (vr_argv r) \<and>
     opt_all valid_PlannedVerificationInspection (vr_inspection r) \<and>
     opt_all (list_all non_empty) (vr_verification_levels r) \<and>
     list_all non_empty (vr_planned_new_files r) \<and> opt_all non_empty (vr_controlled_capability_kind r) \<and>
     validate_unique_refs r"

lemma for_seconds_total: "for_seconds s = None \<longleftrightarrow> s < 2 \<or> 3600 < s"
  by (auto simp: for_seconds_def valid_PlanExecutionWindow_def in_range_def Let_def)

end
