(* ===== verification/Artifact_Domain.thy ===== *)
theory Artifact_Domain
  imports Execution_Window
begin

section \<open>Artifacts\<close>

text \<open>
  \<^verbatim>\<open>domain/artifact.py\<close>: the immutable envelope and the five kinds of Artifact. A subclass of
  \<^verbatim>\<open>ArtifactEnvelope\<close> fixes both the \<open>kind\<close> literal and the type of the content, so the model
  keeps one record and puts the content into a datatype with one constructor per subclass:
  \<^verbatim>\<open>isinstance\<close> is the constructor and the \<open>kind\<close> field is a function of it. The record without
  the integrity field is the payload that is hashed.
\<close>

definition SUPPORTED_ARTIFACT_SCHEMA_VERSION :: string where
  "SUPPORTED_ARTIFACT_SCHEMA_VERSION = ''v0.1''"

definition valid_EvidenceId :: "string \<Rightarrow> bool" where
  "valid_EvidenceId = match_id ''ev_'' 2 63"

definition ascii_digit :: "char \<Rightarrow> bool" where
  "ascii_digit c \<longleftrightarrow> CHR ''0'' \<le> c \<and> c \<le> CHR ''9''"

definition valid_SchemaVersion :: "string \<Rightarrow> bool" where
  "valid_SchemaVersion s \<longleftrightarrow>
     (case s of
        [] \<Rightarrow> False
      | c # cs \<Rightarrow>
          c = CHR ''v'' \<and> takeWhile ascii_digit cs \<noteq> [] \<and>
          (case dropWhile ascii_digit cs of
             [] \<Rightarrow> False
           | d # ds \<Rightarrow> d = CHR ''.'' \<and> ds \<noteq> [] \<and> list_all ascii_digit ds))"

definition valid_Sha256 :: "string \<Rightarrow> bool" where
  "valid_Sha256 = match_hex 64 64"

definition valid_CommitSha :: "string \<Rightarrow> bool" where
  "valid_CommitSha = match_hex 7 64"

definition valid_ObservationId :: "string \<Rightarrow> bool" where
  "valid_ObservationId s \<longleftrightarrow>
     (case s of [] \<Rightarrow> False
      | c # cs \<Rightarrow> CHR ''a'' \<le> c \<and> c \<le> CHR ''z'' \<and> list_all id_tail_char cs \<and> length cs \<le> 63)"

definition ensure_known_references :: "string list \<Rightarrow> string list \<Rightarrow> bool" where
  "ensure_known_references references available \<longleftrightarrow> set references \<subseteq> set available"

subsection \<open>Parts\<close>

record Evidence =
  evd_evidence_id :: string
  evd_type :: EvidenceType
  evd_uri :: string
  evd_locator :: "string option"
  evd_description :: string
  evd_sha256 :: string
  evd_required :: bool

definition valid_Evidence :: "Evidence \<Rightarrow> bool" where
  "valid_Evidence e \<longleftrightarrow>
     valid_EvidenceId (evd_evidence_id e) \<and> non_empty (evd_uri e) \<and> non_empty (evd_description e) \<and>
     valid_Sha256 (evd_sha256 e)"

record Finding =
  fd_finding_id :: string
  fd_severity :: FindingSeverity
  fd_code :: "string option"
  fd_message :: string
  fd_file :: "string option"
  fd_line :: "int option"
  fd_evidence_ids :: "string list"
  fd_recommendation :: "string option"

definition valid_Finding :: "Finding \<Rightarrow> bool" where
  "valid_Finding f \<longleftrightarrow>
     non_empty (fd_finding_id f) \<and> non_empty (fd_message f) \<and> opt_all (\<lambda>n. 1 \<le> n) (fd_line f) \<and>
     list_all valid_EvidenceId (fd_evidence_ids f) \<and> fd_evidence_ids f \<noteq> [] \<and>
     ensure_unique (fd_evidence_ids f)"

record AgentProducer =
  pr_role :: AgentRole
  pr_agent_id :: string
  pr_agent_version :: string
  pr_run_id :: string

definition valid_AgentProducer :: "AgentProducer \<Rightarrow> bool" where
  "valid_AgentProducer p \<longleftrightarrow>
     non_empty (pr_agent_id p) \<and> non_empty (pr_agent_version p) \<and> non_empty (pr_run_id p)"

record ArtifactIntegrity =
  in_sha256 :: string
  in_validated :: bool
  in_validated_at :: "instant option"

definition valid_ArtifactIntegrity :: "ArtifactIntegrity \<Rightarrow> bool" where
  "valid_ArtifactIntegrity i \<longleftrightarrow>
     valid_Sha256 (in_sha256 i) \<and> \<not> (in_validated i \<and> in_validated_at i = None)"

record PlanStep =
  ps_step_id :: string
  ps_description :: string
  ps_files :: "string list"
  ps_verification :: string

definition valid_PlanStep :: "PlanStep \<Rightarrow> bool" where
  "valid_PlanStep s \<longleftrightarrow>
     non_empty (ps_step_id s) \<and> non_empty (ps_description s) \<and> list_all non_empty (ps_files s) \<and>
     non_empty (ps_verification s)"

record PlanAcceptanceMapping =
  pam_criterion_id :: string
  pam_step_ids :: "string list"
  pam_test_strategy :: string

definition valid_PlanAcceptanceMapping :: "PlanAcceptanceMapping \<Rightarrow> bool" where
  "valid_PlanAcceptanceMapping m \<longleftrightarrow>
     valid_AcceptanceCriterionId (pam_criterion_id m) \<and> list_all non_empty (pam_step_ids m) \<and>
     pam_step_ids m \<noteq> [] \<and> non_empty (pam_test_strategy m)"

record PlanRisk =
  pk_risk :: string
  pk_mitigation :: string

definition valid_PlanRisk :: "PlanRisk \<Rightarrow> bool" where
  "valid_PlanRisk r \<longleftrightarrow> non_empty (pk_risk r) \<and> non_empty (pk_mitigation r)"

record PlanContent =
  pc_verification_requirements :: "PlannedVerificationRequirement list option"
  pc_execution_window :: "PlanExecutionWindow option"
  pc_goal :: string
  pc_assumptions :: "string list"
  pc_steps :: "PlanStep list"
  pc_acceptance_mapping :: "PlanAcceptanceMapping list"
  pc_risks :: "PlanRisk list"

definition validate_plan_links :: "PlanContent \<Rightarrow> bool" where
  "validate_plan_links p \<longleftrightarrow>
     (let step_ids = map ps_step_id (pc_steps p) in
      ensure_unique step_ids \<and> ensure_unique (map pam_criterion_id (pc_acceptance_mapping p)) \<and>
      set (concat (map pam_step_ids (pc_acceptance_mapping p))) - set step_ids = {})"

definition valid_PlanContent :: "PlanContent \<Rightarrow> bool" where
  "valid_PlanContent p \<longleftrightarrow>
     opt_all (list_all valid_PlannedVerificationRequirement) (pc_verification_requirements p) \<and>
     opt_all valid_PlanExecutionWindow (pc_execution_window p) \<and> non_empty (pc_goal p) \<and>
     list_all valid_PlanStep (pc_steps p) \<and> pc_steps p \<noteq> [] \<and>
     list_all valid_PlanAcceptanceMapping (pc_acceptance_mapping p) \<and> list_all valid_PlanRisk (pc_risks p) \<and>
     validate_plan_links p"

record ChangedFile =
  cf_path :: string
  cf_change :: ChangeType
  cf_lines_added :: int
  cf_lines_deleted :: int

definition valid_ChangedFile :: "ChangedFile \<Rightarrow> bool" where
  "valid_ChangedFile f \<longleftrightarrow> non_empty (cf_path f) \<and> 0 \<le> cf_lines_added f \<and> 0 \<le> cf_lines_deleted f"

record ImplementationAcceptanceMapping =
  iam_criterion_id :: string
  iam_implementation :: string
  iam_tests :: "string list"

definition valid_ImplementationAcceptanceMapping :: "ImplementationAcceptanceMapping \<Rightarrow> bool" where
  "valid_ImplementationAcceptanceMapping m \<longleftrightarrow>
     valid_AcceptanceCriterionId (iam_criterion_id m) \<and> non_empty (iam_implementation m) \<and>
     list_all non_empty (iam_tests m)"

record ImplementationTestRun =
  itr_command :: string
  itr_status :: ImplementationTestStatus
  itr_evidence_id :: string
  itr_duration_ms :: "int option"

definition valid_ImplementationTestRun :: "ImplementationTestRun \<Rightarrow> bool" where
  "valid_ImplementationTestRun t \<longleftrightarrow>
     non_empty (itr_command t) \<and> valid_EvidenceId (itr_evidence_id t) \<and> opt_all (\<lambda>n. 0 \<le> n) (itr_duration_ms t)"

record ProjectObservation =
  po_observation_id :: string
  po_title :: string
  po_fact :: string
  po_applicability :: string
  po_evidence_ids :: "string list"

definition valid_ProjectObservation :: "ProjectObservation \<Rightarrow> bool" where
  "valid_ProjectObservation p \<longleftrightarrow>
     valid_ObservationId (po_observation_id p) \<and>
     1 \<le> length (po_title p) \<and> length (po_title p) \<le> 200 \<and>
     1 \<le> length (po_fact p) \<and> length (po_fact p) \<le> 4000 \<and>
     1 \<le> length (po_applicability p) \<and> length (po_applicability p) \<le> 1000 \<and>
     list_all valid_EvidenceId (po_evidence_ids p) \<and>
     1 \<le> length (po_evidence_ids p) \<and> length (po_evidence_ids p) \<le> 16 \<and> ensure_unique (po_evidence_ids p)"

definition valid_observations :: "ProjectObservation list \<Rightarrow> bool" where
  "valid_observations obs \<longleftrightarrow>
     list_all valid_ProjectObservation obs \<and> length obs \<le> 8 \<and> ensure_unique (map po_observation_id obs)"

subsection \<open>Contents\<close>

record ImplementationReportContent =
  ic_project_observations :: "ProjectObservation list"
  ic_commit_sha :: string
  ic_changed_files :: "ChangedFile list"
  ic_acceptance_mapping :: "ImplementationAcceptanceMapping list"
  ic_tests_run :: "ImplementationTestRun list"
  ic_known_risks :: "string list"
  ic_blocked_reason :: "string option"

definition valid_ImplementationReportContent :: "ImplementationReportContent \<Rightarrow> bool" where
  "valid_ImplementationReportContent c \<longleftrightarrow>
     valid_observations (ic_project_observations c) \<and> valid_CommitSha (ic_commit_sha c) \<and>
     list_all valid_ChangedFile (ic_changed_files c) \<and> ic_changed_files c \<noteq> [] \<and>
     list_all valid_ImplementationAcceptanceMapping (ic_acceptance_mapping c) \<and>
     list_all valid_ImplementationTestRun (ic_tests_run c) \<and> opt_all non_empty (ic_blocked_reason c) \<and>
     ensure_unique (map cf_path (ic_changed_files c)) \<and>
     ensure_unique (map iam_criterion_id (ic_acceptance_mapping c))"

record CoderProgressContent =
  cp_status :: CoderProgressStatus
  cp_checkpoint_sequence :: int
  cp_summary :: string
  cp_changed_files :: "ChangedFile list"
  cp_completed_step_ids :: "string list"
  cp_remaining_step_ids :: "string list"
  cp_tests_run :: "ImplementationTestRun list"
  cp_next_actions :: "string list"

definition validate_checkpoint :: "CoderProgressContent \<Rightarrow> bool" where
  "validate_checkpoint c \<longleftrightarrow>
     ensure_unique (map cf_path (cp_changed_files c)) \<and> ensure_unique (cp_completed_step_ids c) \<and>
     ensure_unique (cp_remaining_step_ids c) \<and> ensure_unique (cp_next_actions c) \<and>
     set (cp_completed_step_ids c) \<inter> set (cp_remaining_step_ids c) = {}"

definition valid_CoderProgressContent :: "CoderProgressContent \<Rightarrow> bool" where
  "valid_CoderProgressContent c \<longleftrightarrow>
     1 \<le> cp_checkpoint_sequence c \<and> non_empty (cp_summary c) \<and>
     list_all valid_ChangedFile (cp_changed_files c) \<and> list_all non_empty (cp_completed_step_ids c) \<and>
     list_all non_empty (cp_remaining_step_ids c) \<and> cp_remaining_step_ids c \<noteq> [] \<and>
     list_all valid_ImplementationTestRun (cp_tests_run c) \<and> list_all non_empty (cp_next_actions c) \<and>
     cp_next_actions c \<noteq> [] \<and> validate_checkpoint c"

record QaCriterionResult =
  qcr_criterion_id :: string
  qcr_status :: QaCriterionStatus
  qcr_evidence_ids :: "string list"
  qcr_notes :: "string option"

definition valid_QaCriterionResult :: "QaCriterionResult \<Rightarrow> bool" where
  "valid_QaCriterionResult r \<longleftrightarrow>
     valid_AcceptanceCriterionId (qcr_criterion_id r) \<and> list_all valid_EvidenceId (qcr_evidence_ids r) \<and>
     ensure_unique (qcr_evidence_ids r)"

record QaTestRun =
  qtr_command :: string
  qtr_status :: QaTestStatus
  qtr_evidence_id :: string
  qtr_duration_ms :: "int option"

definition valid_QaTestRun :: "QaTestRun \<Rightarrow> bool" where
  "valid_QaTestRun t \<longleftrightarrow>
     non_empty (qtr_command t) \<and> valid_EvidenceId (qtr_evidence_id t) \<and> opt_all (\<lambda>n. 0 \<le> n) (qtr_duration_ms t)"

record QaReportContent =
  qa_project_observations :: "ProjectObservation list"
  qa_status :: QaReportStatus
  qa_criteria_results :: "QaCriterionResult list"
  qa_tests_run :: "QaTestRun list"
  qa_findings :: "Finding list"
  qa_environment :: "(string \<times> json_value) list option"

definition validate_qa_verdict :: "QaReportContent \<Rightarrow> bool" where
  "validate_qa_verdict c \<longleftrightarrow>
     ensure_unique (map qcr_criterion_id (qa_criteria_results c)) \<and>
     ensure_unique (map fd_finding_id (qa_findings c)) \<and>
     (qa_status c = QR_PASS \<longrightarrow>
        list_all (\<lambda>r. qcr_status r = QC_PASS) (qa_criteria_results c) \<and>
        list_all (\<lambda>t. qtr_status t = QT_PASS) (qa_tests_run c) \<and>
        list_all (\<lambda>f. fd_severity f \<notin> {FS_MAJOR, FS_BLOCKER}) (qa_findings c))"

definition valid_QaReportContent :: "QaReportContent \<Rightarrow> bool" where
  "valid_QaReportContent c \<longleftrightarrow>
     valid_observations (qa_project_observations c) \<and>
     list_all valid_QaCriterionResult (qa_criteria_results c) \<and> qa_criteria_results c \<noteq> [] \<and>
     list_all valid_QaTestRun (qa_tests_run c) \<and> list_all valid_Finding (qa_findings c) \<and>
     validate_qa_verdict c"

text \<open>\<^verbatim>\<open>classify_qa_failure\<close>; \<open>None\<close> is its \<open>ValueError\<close> on a report that did not fail.\<close>

definition classify_qa_failure :: "QaReportContent \<Rightarrow> QaFailureDisposition option" where
  "classify_qa_failure c =
     (if qa_status c \<noteq> QR_FAIL then None
      else
        (let criteria = map qcr_status (qa_criteria_results c); tests = map qtr_status (qa_tests_run c) in
         if QC_FAIL \<in> set criteria \<or> QT_FAIL \<in> set tests then Some QD_REMEDIATE_CANDIDATE
         else if QC_NOT_TESTED \<in> set criteria \<or> QT_ERROR \<in> set tests then Some QD_RETRY_VERIFICATION
         else Some QD_REMEDIATE_CANDIDATE))"

record ReviewReportContent =
  rc_project_observations :: "ProjectObservation list"
  rc_verdict :: ReviewVerdict
  rc_findings :: "Finding list"
  rc_checked_dimensions :: "ReviewDimension list"
  rc_evidence :: "string list"
  rc_summary :: "string option"

definition validate_review_verdict :: "ReviewReportContent \<Rightarrow> bool" where
  "validate_review_verdict c \<longleftrightarrow>
     ensure_unique (map fd_finding_id (rc_findings c)) \<and> ensure_unique (rc_checked_dimensions c) \<and>
     ensure_unique (rc_evidence c) \<and>
     \<not> (rc_verdict c = RV_APPROVE \<and> list_ex (\<lambda>f. fd_severity f \<noteq> FS_INFO) (rc_findings c)) \<and>
     \<not> (rc_verdict c = RV_REJECT \<and> \<not> list_ex (\<lambda>f. fd_severity f \<in> {FS_MAJOR, FS_BLOCKER}) (rc_findings c))"

definition valid_ReviewReportContent :: "ReviewReportContent \<Rightarrow> bool" where
  "valid_ReviewReportContent c \<longleftrightarrow>
     valid_observations (rc_project_observations c) \<and> list_all valid_Finding (rc_findings c) \<and>
     rc_checked_dimensions c \<noteq> [] \<and> list_all valid_EvidenceId (rc_evidence c) \<and> validate_review_verdict c"

subsection \<open>The envelope\<close>

datatype ArtifactContent =
    PlanArtifact PlanContent
  | CoderProgressArtifact CoderProgressContent
  | ImplementationReportArtifact ImplementationReportContent
  | QaReportArtifact QaReportContent
  | ReviewReportArtifact ReviewReportContent

fun content_kind :: "ArtifactContent \<Rightarrow> ArtifactKind" where
  "content_kind (PlanArtifact _) = AK_PLAN"
| "content_kind (CoderProgressArtifact _) = AK_CODER_PROGRESS"
| "content_kind (ImplementationReportArtifact _) = AK_IMPLEMENTATION_REPORT"
| "content_kind (QaReportArtifact _) = AK_QA_REPORT"
| "content_kind (ReviewReportArtifact _) = AK_REVIEW_REPORT"

record ArtifactEnvelope =
  art_artifact_id :: string
  art_task_id :: string
  art_schema_version :: string
  art_producer :: AgentProducer
  art_source_revision :: string
  art_context_manifest_id :: string
  art_created_at :: instant
  art_parent_artifact_ids :: "string list"
  art_supersedes :: "string option"
  art_evidence :: "Evidence list"
  art_content :: ArtifactContent

record Artifact = ArtifactEnvelope +
  art_integrity :: ArtifactIntegrity

abbreviation art_kind :: "'a ArtifactEnvelope_scheme \<Rightarrow> ArtifactKind" where
  "art_kind a \<equiv> content_kind (art_content a)"

fun content_observations :: "ArtifactContent \<Rightarrow> ProjectObservation list" where
  "content_observations (ImplementationReportArtifact c) = ic_project_observations c"
| "content_observations (QaReportArtifact c) = qa_project_observations c"
| "content_observations (ReviewReportArtifact c) = rc_project_observations c"
| "content_observations _ = []"

definition ensure_evidence_references :: "'a ArtifactEnvelope_scheme \<Rightarrow> string list \<Rightarrow> bool" where
  "ensure_evidence_references a references =
     ensure_known_references references (map evd_evidence_id (art_evidence a))"

definition validate_envelope :: "'a ArtifactEnvelope_scheme \<Rightarrow> bool" where
  "validate_envelope a \<longleftrightarrow>
     ensure_unique (art_parent_artifact_ids a) \<and> ensure_unique (map evd_evidence_id (art_evidence a)) \<and>
     \<not> art_artifact_id a \<in> set (art_parent_artifact_ids a) \<and> \<not> art_supersedes a = Some (art_artifact_id a) \<and>
     ensure_evidence_references a (concat (map po_evidence_ids (content_observations (art_content a))))"

text \<open>The content constraints and the policy validator of each subclass.\<close>

fun valid_content :: "ArtifactContent \<Rightarrow> bool" where
  "valid_content (PlanArtifact c) = valid_PlanContent c"
| "valid_content (CoderProgressArtifact c) = valid_CoderProgressContent c"
| "valid_content (ImplementationReportArtifact c) = valid_ImplementationReportContent c"
| "valid_content (QaReportArtifact c) = valid_QaReportContent c"
| "valid_content (ReviewReportArtifact c) = valid_ReviewReportContent c"

fun producer_role :: "ArtifactContent \<Rightarrow> AgentRole" where
  "producer_role (PlanArtifact _) = AR_ORCHESTRATOR"
| "producer_role (CoderProgressArtifact _) = AR_CODER"
| "producer_role (ImplementationReportArtifact _) = AR_CODER"
| "producer_role (QaReportArtifact _) = AR_QA"
| "producer_role (ReviewReportArtifact _) = AR_REVIEWER"

fun policy_references :: "ArtifactContent \<Rightarrow> string list" where
  "policy_references (PlanArtifact c) = []"
| "policy_references (CoderProgressArtifact c) = map itr_evidence_id (cp_tests_run c)"
| "policy_references (ImplementationReportArtifact c) = map itr_evidence_id (ic_tests_run c)"
| "policy_references (QaReportArtifact c) =
     concat (map qcr_evidence_ids (qa_criteria_results c)) @ map qtr_evidence_id (qa_tests_run c) @
     concat (map fd_evidence_ids (qa_findings c))"
| "policy_references (ReviewReportArtifact c) = rc_evidence c @ concat (map fd_evidence_ids (rc_findings c))"

definition validate_policy_of :: "'a ArtifactEnvelope_scheme \<Rightarrow> bool" where
  "validate_policy_of a \<longleftrightarrow>
     pr_role (art_producer a) = producer_role (art_content a) \<and>
     ensure_evidence_references a (policy_references (art_content a))"

definition valid_Artifact :: "Artifact \<Rightarrow> bool" where
  "valid_Artifact a \<longleftrightarrow>
     valid_ArtifactId (art_artifact_id a) \<and> valid_TaskId (art_task_id a) \<and>
     valid_SchemaVersion (art_schema_version a) \<and> valid_AgentProducer (art_producer a) \<and>
     non_empty (art_source_revision a) \<and> non_empty (art_context_manifest_id a) \<and>
     list_all valid_ArtifactId (art_parent_artifact_ids a) \<and> opt_all valid_ArtifactId (art_supersedes a) \<and>
     list_all valid_Evidence (art_evidence a) \<and> valid_content (art_content a) \<and>
     valid_ArtifactIntegrity (art_integrity a) \<and> validate_envelope a \<and> validate_policy_of a"

definition validate_current_artifact_version :: "'a ArtifactEnvelope_scheme \<Rightarrow> bool" where
  "validate_current_artifact_version a \<longleftrightarrow>
     art_schema_version a = SUPPORTED_ARTIFACT_SCHEMA_VERSION"

text \<open>The edges of the lineage graph: the parents, then the superseded Artifact.\<close>

definition lineage_edges :: "'a ArtifactEnvelope_scheme \<Rightarrow> string list" where
  "lineage_edges a = art_parent_artifact_ids a @ (case art_supersedes a of None \<Rightarrow> [] | Some s \<Rightarrow> [s])"

subsection \<open>Shared lemmas\<close>

lemma qa_pass_content:
  "valid_QaReportContent c \<Longrightarrow> qa_status c = QR_PASS \<Longrightarrow>
     (\<forall>r \<in> set (qa_criteria_results c). qcr_status r = QC_PASS) \<and>
     (\<forall>t \<in> set (qa_tests_run c). qtr_status t = QT_PASS) \<and>
     (\<forall>f \<in> set (qa_findings c). fd_severity f \<in> {FS_INFO, FS_MINOR})"
  by (auto simp: valid_QaReportContent_def validate_qa_verdict_def list_all_iff)
    (metis FindingSeverity.exhaust)

lemma review_approve_content:
  "valid_ReviewReportContent c \<Longrightarrow> rc_verdict c = RV_APPROVE \<Longrightarrow> \<forall>f \<in> set (rc_findings c). fd_severity f = FS_INFO"
  by (auto simp: valid_ReviewReportContent_def validate_review_verdict_def list_ex_iff)

end
