(* ===== verification/Agent_Contracts.thy ===== *)
theory Agent_Contracts
  imports Artifact_Domain Workforce
begin

section \<open>Agent definitions, requests and results\<close>

text \<open>
  \<^verbatim>\<open>domain/agent.py\<close> and \<^verbatim>\<open>agents/models.py\<close>: the resolved single-role configuration of an Agent run,
  the request handed to an adapter and the result it returns. A dictionary from kinds to superseded
  ids is an association list with the keys in their order. Human-readable texts of failures are kept
  as strings.
\<close>

fun ROLE_OUTPUTS :: "AgentRole \<Rightarrow> ArtifactKind list" where
  "ROLE_OUTPUTS AR_ORCHESTRATOR = [AK_PLAN]"
| "ROLE_OUTPUTS AR_CODER = [AK_CODER_PROGRESS, AK_IMPLEMENTATION_REPORT]"
| "ROLE_OUTPUTS AR_QA = [AK_QA_REPORT]"
| "ROLE_OUTPUTS AR_REVIEWER = [AK_REVIEW_REPORT]"

fun DELIVERY_ROLE_INPUTS :: "AgentRole \<Rightarrow> ArtifactKind list" where
  "DELIVERY_ROLE_INPUTS AR_ORCHESTRATOR = []"
| "DELIVERY_ROLE_INPUTS AR_CODER =
     [AK_PLAN, AK_CODER_PROGRESS, AK_IMPLEMENTATION_REPORT, AK_QA_REPORT, AK_REVIEW_REPORT]"
| "DELIVERY_ROLE_INPUTS AR_QA = [AK_PLAN, AK_IMPLEMENTATION_REPORT, AK_QA_REPORT]"
| "DELIVERY_ROLE_INPUTS AR_REVIEWER = [AK_PLAN, AK_IMPLEMENTATION_REPORT, AK_QA_REPORT, AK_REVIEW_REPORT]"

definition ROLE_INPUTS :: "AgentRole \<Rightarrow> ArtifactKind list" where
  "ROLE_INPUTS role =
     (if role = AR_ORCHESTRATOR
      then [AK_PLAN, AK_CODER_PROGRESS, AK_IMPLEMENTATION_REPORT, AK_QA_REPORT, AK_REVIEW_REPORT]
      else DELIVERY_ROLE_INPUTS role)"

record AgentPermissions =
  pe_read_paths :: "string list"
  pe_write_paths :: "string list"
  pe_commands :: "string list"
  pe_network :: NetworkAccess
  pe_can_change_state :: bool
  pe_can_merge :: bool

definition valid_AgentPermissions :: "AgentPermissions \<Rightarrow> bool" where
  "valid_AgentPermissions p \<longleftrightarrow>
     list_all non_empty (pe_read_paths p) \<and> list_all non_empty (pe_write_paths p) \<and>
     list_all non_empty (pe_commands p) \<and>
     ensure_unique (pe_read_paths p) \<and> ensure_unique (pe_write_paths p) \<and> ensure_unique (pe_commands p)"

record AgentDefinition =
  df_id :: string
  df_role :: AgentRole
  df_version :: string
  df_model :: string
  df_provider :: "string option"
  df_reasoning_effort :: "ReasoningEffort option"
  df_route_kind :: "ProviderRouteKind option"
  df_connection_mode :: "CodexConnectionMode option"
  df_system_prompt_ref :: "string option"
  df_permissions :: AgentPermissions
  df_input_artifacts :: "ArtifactKind list"
  df_output_artifacts :: "ArtifactKind list"
  df_max_retries :: int
  df_timeout_seconds :: int
  df_token_budget :: "int option"
  df_metadata :: "(string \<times> json_value) list"

definition validate_role_contract :: "AgentDefinition \<Rightarrow> bool" where
  "validate_role_contract d \<longleftrightarrow>
     ensure_unique (df_input_artifacts d) \<and> ensure_unique (df_output_artifacts d) \<and>
     df_output_artifacts d = ROLE_OUTPUTS (df_role d) \<and>
     set (df_input_artifacts d) - set (ROLE_INPUTS (df_role d)) = {} \<and>
     \<not> (pe_can_change_state (df_permissions d) \<and> df_role d \<noteq> AR_ORCHESTRATOR) \<and>
     \<not> pe_can_merge (df_permissions d)"

definition valid_AgentDefinition :: "AgentDefinition \<Rightarrow> bool" where
  "valid_AgentDefinition d \<longleftrightarrow>
     valid_AgentId (df_id d) \<and> non_empty (df_version d) \<and> non_empty (df_model d) \<and>
     opt_all non_empty (df_provider d) \<and> opt_all non_empty (df_system_prompt_ref d) \<and>
     valid_AgentPermissions (df_permissions d) \<and> in_range 0 5 (df_max_retries d) \<and>
     in_range 1 3600 (df_timeout_seconds d) \<and> opt_all (\<lambda>n. 1 \<le> n) (df_token_budget d) \<and>
     validate_role_contract d"

subsection \<open>Requests\<close>

fun ROLE_OUTPUT_SCHEMA :: "AgentRole \<Rightarrow> string" where
  "ROLE_OUTPUT_SCHEMA AR_ORCHESTRATOR = ''schemas/plan.schema.json''"
| "ROLE_OUTPUT_SCHEMA AR_CODER = ''schemas/coder-output.schema.json''"
| "ROLE_OUTPUT_SCHEMA AR_QA = ''schemas/qa-report.schema.json''"
| "ROLE_OUTPUT_SCHEMA AR_REVIEWER = ''schemas/review-report.schema.json''"

definition valid_ContextId :: "string \<Rightarrow> bool" where
  "valid_ContextId s \<longleftrightarrow> take 4 s = ''ctx_'' \<and> match_hex 64 64 (drop 4 s)"

definition valid_FullGitRevision :: "string \<Rightarrow> bool" where
  "valid_FullGitRevision s \<longleftrightarrow> match_hex 40 40 s \<or> match_hex 64 64 s"

record AgentRequest =
  rq_run_id :: string
  rq_task_id :: string
  rq_role :: AgentRole
  rq_attempt :: int
  rq_source_revision :: string
  rq_context_manifest_id :: string
  rq_input_artifact_ids :: "string list"
  rq_permissions :: AgentPermissions
  rq_output_schema :: string
  rq_timeout_seconds :: int
  rq_work_slice :: "CoderWorkSlice option"
  rq_execution_baseline_sha256 :: "string option"
  rq_execution_base_ref :: "string option"
  rq_continuation_checkpoint_id :: "string option"
  rq_continuation_changed_paths :: "string list"
  rq_expected_parent_artifact_ids :: "string list option"
  rq_expected_supersedes_by_kind :: "(ArtifactKind \<times> string option) list option"

definition work_slice_binds :: "AgentRequest \<Rightarrow> CoderWorkSlice \<Rightarrow> bool" where
  "work_slice_binds r work \<longleftrightarrow>
     \<not> (rq_role r \<noteq> AR_CODER \<or>
        (ws_task_id work, ws_attempt work, ws_source_revision work) \<noteq>
          (rq_task_id r, rq_attempt r, rq_source_revision r) \<or>
        ws_plan_artifact_id work \<notin> set (rq_input_artifact_ids r) \<or>
        ew_hard_seconds (ws_window work) \<noteq> rq_timeout_seconds r)"

definition validate_artifact_ids :: "AgentRequest \<Rightarrow> bool" where
  "validate_artifact_ids r \<longleftrightarrow>
     (rq_execution_baseline_sha256 r = None) = (rq_execution_base_ref r = None) \<and>
     (rq_execution_baseline_sha256 r \<noteq> None \<longrightarrow> rq_role r \<in> {AR_CODER, AR_QA, AR_REVIEWER}) \<and>
     opt_all (work_slice_binds r) (rq_work_slice r) \<and>
     ensure_unique (rq_input_artifact_ids r) \<and>
     opt_all (\<lambda>ids. ensure_unique ids \<and> set ids \<subseteq> set (rq_input_artifact_ids r)) (rq_expected_parent_artifact_ids r) \<and>
     opt_all (\<lambda>m. set (map fst m) = set (ROLE_OUTPUTS (rq_role r))) (rq_expected_supersedes_by_kind r) \<and>
     rq_output_schema r = ROLE_OUTPUT_SCHEMA (rq_role r) \<and>
     ensure_unique (rq_continuation_changed_paths r) \<and>
     sort (rq_continuation_changed_paths r) = rq_continuation_changed_paths r \<and>
     (case rq_continuation_checkpoint_id r of
        None \<Rightarrow> rq_continuation_changed_paths r = []
      | Some i \<Rightarrow> \<not> (rq_role r \<noteq> AR_CODER \<or> i \<notin> set (rq_input_artifact_ids r)))"

definition valid_AgentRequest :: "AgentRequest \<Rightarrow> bool" where
  "valid_AgentRequest r \<longleftrightarrow>
     valid_RunId (rq_run_id r) \<and> valid_TaskId (rq_task_id r) \<and> valid_ExecutionAttempt (rq_attempt r) \<and>
     non_empty (rq_source_revision r) \<and> valid_ContextId (rq_context_manifest_id r) \<and>
     list_all valid_ArtifactId (rq_input_artifact_ids r) \<and> valid_AgentPermissions (rq_permissions r) \<and>
     non_empty (rq_output_schema r) \<and> in_range 1 3600 (rq_timeout_seconds r) \<and>
     opt_all valid_CoderWorkSlice (rq_work_slice r) \<and> opt_all valid_Sha256 (rq_execution_baseline_sha256 r) \<and>
     opt_all valid_FullGitRevision (rq_execution_base_ref r) \<and>
     opt_all valid_ArtifactId (rq_continuation_checkpoint_id r) \<and>
     list_all non_empty (rq_continuation_changed_paths r) \<and>
     opt_all (list_all valid_ArtifactId) (rq_expected_parent_artifact_ids r) \<and>
     opt_all (list_all (\<lambda>(k, v). opt_all valid_ArtifactId v)) (rq_expected_supersedes_by_kind r) \<and>
     validate_artifact_ids r"

subsection \<open>Results\<close>

datatype AgentRunStatus = RS_SUCCEEDED | RS_FAILED | RS_TIMED_OUT

datatype AgentErrorCode =
    AE_TIMEOUT | AE_QUOTA_EXHAUSTED | AE_RATE_LIMITED | AE_AUTHENTICATION_ERROR | AE_PROVIDER_UNAVAILABLE
  | AE_INVALID_OUTPUT | AE_PROVIDER_ERROR | AE_POLICY_VIOLATION | AE_WORK_INTERRUPTED | AE_SERVICE_PAUSED

record AgentFailure =
  fl_code :: AgentErrorCode
  fl_message :: string
  fl_transient :: bool

definition valid_AgentFailure :: "AgentFailure \<Rightarrow> bool" where
  "valid_AgentFailure f \<longleftrightarrow>
     non_empty (fl_message f) \<and> \<not> (fl_code f \<in> {AE_WORK_INTERRUPTED, AE_SERVICE_PAUSED} \<and> fl_transient f)"

record AgentUsage =
  us_input_tokens :: int
  us_output_tokens :: int
  us_total_tokens :: int

definition valid_AgentUsage :: "AgentUsage \<Rightarrow> bool" where
  "valid_AgentUsage u \<longleftrightarrow>
     0 \<le> us_input_tokens u \<and> 0 \<le> us_output_tokens u \<and> 0 \<le> us_total_tokens u \<and>
     \<not> us_total_tokens u < us_input_tokens u + us_output_tokens u"

record AgentResult =
  ag_run_id :: string
  ag_task_id :: string
  ag_role :: AgentRole
  ag_attempt :: int
  ag_source_revision :: string
  ag_context_manifest_id :: string
  ag_status :: AgentRunStatus
  ag_artifact :: "Artifact option"
  ag_error :: "AgentFailure option"
  ag_usage :: "AgentUsage option"
  ag_duration_ms :: int

definition validate_artifact_identity :: "AgentResult \<Rightarrow> Artifact \<Rightarrow> bool" where
  "validate_artifact_identity r a \<longleftrightarrow>
     art_task_id a = ag_task_id r \<and> pr_role (art_producer a) = ag_role r \<and>
     pr_run_id (art_producer a) = ag_run_id r \<and> art_kind a \<in> set (ROLE_OUTPUTS (ag_role r)) \<and>
     (if ag_role r = AR_CODER
      then (case art_content a of
              ImplementationReportArtifact c \<Rightarrow> art_source_revision a = ic_commit_sha c
            | CoderProgressArtifact _ \<Rightarrow> art_source_revision a = ag_source_revision r
            | _ \<Rightarrow> False)
      else art_source_revision a = ag_source_revision r) \<and>
     art_context_manifest_id a = ag_context_manifest_id r"

definition validate_result_state :: "AgentResult \<Rightarrow> bool" where
  "validate_result_state r \<longleftrightarrow>
     (if ag_status r = RS_SUCCEEDED
      then \<not> (ag_artifact r = None \<or> ag_error r \<noteq> None) \<and> opt_all (validate_artifact_identity r) (ag_artifact r)
      else \<not> (ag_artifact r \<noteq> None \<or> ag_error r = None)) \<and>
     \<not> (ag_status r = RS_TIMED_OUT \<and> map_option fl_code (ag_error r) \<noteq> Some AE_TIMEOUT) \<and>
     \<not> (ag_status r = RS_FAILED \<and> map_option fl_code (ag_error r) = Some AE_TIMEOUT)"

definition valid_AgentResult :: "AgentResult \<Rightarrow> bool" where
  "valid_AgentResult r \<longleftrightarrow>
     valid_RunId (ag_run_id r) \<and> valid_TaskId (ag_task_id r) \<and> valid_ExecutionAttempt (ag_attempt r) \<and>
     non_empty (ag_source_revision r) \<and> valid_ContextId (ag_context_manifest_id r) \<and>
     opt_all valid_Artifact (ag_artifact r) \<and> opt_all valid_AgentFailure (ag_error r) \<and>
     opt_all valid_AgentUsage (ag_usage r) \<and> 0 \<le> ag_duration_ms r \<and> validate_result_state r"

text \<open>A copy of a result turned into a typed rejection, as \<^verbatim>\<open>model_copy\<close> builds it.\<close>

definition rejected_result :: "AgentResult \<Rightarrow> string \<Rightarrow> AgentResult" where
  "rejected_result r message =
     r\<lparr>ag_status := RS_FAILED, ag_artifact := None,
       ag_error := Some \<lparr>fl_code = AE_INVALID_OUTPUT, fl_message = message, fl_transient = False\<rparr>\<rparr>"

text \<open>
  \<^verbatim>\<open>validate_current_output\<close>: \<open>Some\<close> is the result carried by the raised \<^verbatim>\<open>AgentOutputContractError\<close>.
\<close>

definition validate_current_output :: "AgentResult \<Rightarrow> AgentResult option" where
  "validate_current_output r =
     (case (ag_status r, ag_artifact r) of
        (RS_SUCCEEDED, Some a) \<Rightarrow>
          if \<not> validate_current_artifact_version a then Some (rejected_result r ''schema_version'')
          else
            (case art_content a of
               CoderProgressArtifact c \<Rightarrow>
                 if cp_checkpoint_sequence c \<noteq> ag_attempt r then Some (rejected_result r ''checkpoint_sequence'') else None
             | _ \<Rightarrow> None)
      | _ \<Rightarrow> None)"

lemma succeeded_identity:
  "valid_AgentResult r \<Longrightarrow> ag_status r = RS_SUCCEEDED \<Longrightarrow> ag_artifact r = Some a \<Longrightarrow>
   valid_Artifact a \<and> validate_artifact_identity r a"
  by (simp add: valid_AgentResult_def validate_result_state_def)

end
