(* ===== verification/Model_Failure.thy ===== *)
theory Model_Failure
  imports Agent_Contracts
begin

section \<open>Failures of a model call\<close>

text \<open>
  \<^verbatim>\<open>agents/structured.py\<close>: the typed failure \<^verbatim>\<open>StructuredModelError\<close> and the subclasses of it that the
  retrying orchestrator tells apart (\<^verbatim>\<open>knowledge/invocation.py\<close>,
  \<^verbatim>\<open>knowledge/assessment_rejection.py\<close>), and which failures count as transient.
\<close>

text \<open>What the orchestrator reads of a \<^verbatim>\<open>KnowledgeRunBinding\<close>, and the digest of the record that holds it.\<close>

record knowledge_binding =
  kb_task_id :: string
  kb_role :: string
  kb_source_revision :: string
  kb_record_sha256 :: string

datatype structured_kind =
    PlainModelError
  | KnowledgeAssessmentRejected "knowledge_binding option"
  | KnowledgePreparationLocalLimit knowledge_binding
  | KnowledgePreparationPaused

record structured_failure =
  sf_kind :: structured_kind
  sf_code :: AgentErrorCode
  sf_transient :: bool
  sf_local_execution_limit :: bool

fun transient_code :: "AgentErrorCode \<Rightarrow> TransientCode option" where
  "transient_code AE_TIMEOUT = Some TC_TIMEOUT"
| "transient_code AE_QUOTA_EXHAUSTED = Some TC_QUOTA_EXHAUSTED"
| "transient_code AE_RATE_LIMITED = Some TC_RATE_LIMITED"
| "transient_code AE_PROVIDER_UNAVAILABLE = Some TC_PROVIDER_UNAVAILABLE"
| "transient_code _ = None"

definition TRANSIENT_CODES :: "AgentErrorCode list" where
  "TRANSIENT_CODES = [AE_TIMEOUT, AE_QUOTA_EXHAUSTED, AE_RATE_LIMITED, AE_PROVIDER_UNAVAILABLE]"

lemma transient_code_iff: "transient_code c \<noteq> None \<longleftrightarrow> c \<in> set TRANSIENT_CODES"
  by (cases c) (simp_all add: TRANSIENT_CODES_def)

definition model_error_retryable :: "structured_failure \<Rightarrow> bool" where
  "model_error_retryable f \<longleftrightarrow>
     sf_transient f \<and> \<not> sf_local_execution_limit f \<and> sf_code f \<in> set TRANSIENT_CODES"

definition expandable_timeout :: "structured_failure \<Rightarrow> bool" where
  "expandable_timeout f \<longleftrightarrow> sf_code f = AE_TIMEOUT \<and> sf_local_execution_limit f"

text \<open>What the context builder and the Agent adapter raise.\<close>

datatype collaborator_error =
    CE_CONTEXT_BUDGET
  | CE_STRUCTURED structured_failure
  | CE_OTHER

end
