(* ===== verification/Artifact_Samples.thy ===== *)
theory Artifact_Samples
  imports Artifact_Domain
begin

section \<open>Concrete Artifacts\<close>

text \<open>
  The Artifacts of one small delivery, as the Agents return them (not yet sealed), and a plan with an
  execution window: the inputs at which the properties of Artifacts are evaluated.
\<close>

definition sample_sha :: string where
  "sample_sha = replicate 64 (CHR ''a'')"

definition sample_hash :: "ArtifactEnvelope \<Rightarrow> string option" where
  "sample_hash e = Some sample_sha"

definition sample_step :: "string \<Rightarrow> PlanStep" where
  "sample_step i = \<lparr>ps_step_id = i, ps_description = ''do'', ps_files = [], ps_verification = ''test''\<rparr>"

definition sample_plan_content :: "string list \<Rightarrow> PlanExecutionWindow option \<Rightarrow> PlanContent" where
  "sample_plan_content ids win =
     \<lparr>pc_verification_requirements = None, pc_execution_window = win, pc_goal = ''goal'', pc_assumptions = [],
      pc_steps = map sample_step ids,
      pc_acceptance_mapping = [\<lparr>pam_criterion_id = ''ac_a1'', pam_step_ids = ids, pam_test_strategy = ''run''\<rparr>],
      pc_risks = []\<rparr>"

definition sample_implementation_content :: "string \<Rightarrow> ImplementationReportContent" where
  "sample_implementation_content sha =
     \<lparr>ic_project_observations = [], ic_commit_sha = sha,
      ic_changed_files = [\<lparr>cf_path = ''a.py'', cf_change = CT_MODIFIED, cf_lines_added = 1, cf_lines_deleted = 0\<rparr>],
      ic_acceptance_mapping = [\<lparr>iam_criterion_id = ''ac_a1'', iam_implementation = ''done'', iam_tests = []\<rparr>],
      ic_tests_run = [], ic_known_risks = [], ic_blocked_reason = None\<rparr>"

definition sample_progress_content :: "string list \<Rightarrow> string list \<Rightarrow> CoderProgressContent" where
  "sample_progress_content fin open_ids =
     \<lparr>cp_status = CP_CONTINUE_REQUIRED, cp_checkpoint_sequence = 1, cp_summary = ''part'', cp_changed_files = [],
      cp_completed_step_ids = fin, cp_remaining_step_ids = open_ids, cp_tests_run = [], cp_next_actions = [''go'']\<rparr>"

definition sample_qa_content :: QaReportContent where
  "sample_qa_content =
     \<lparr>qa_project_observations = [], qa_status = QR_PASS,
      qa_criteria_results = [\<lparr>qcr_criterion_id = ''ac_a1'', qcr_status = QC_PASS, qcr_evidence_ids = [], qcr_notes = None\<rparr>],
      qa_tests_run = [], qa_findings = [], qa_environment = None\<rparr>"

definition sample_review_content :: ReviewReportContent where
  "sample_review_content =
     \<lparr>rc_project_observations = [], rc_verdict = RV_APPROVE, rc_findings = [], rc_checked_dimensions = [RD_CORRECTNESS],
      rc_evidence = [], rc_summary = None\<rparr>"

definition sample_artifact ::
  "string \<Rightarrow> AgentRole \<Rightarrow> string \<Rightarrow> string list \<Rightarrow> string \<Rightarrow> string \<Rightarrow> ArtifactContent \<Rightarrow> Artifact" where
  "sample_artifact i role run parents srev ctx content =
     \<lparr>art_artifact_id = i, art_task_id = ''task_a01'', art_schema_version = ''v0.1'',
      art_producer = \<lparr>pr_role = role, pr_agent_id = ''agent_a01'', pr_agent_version = ''1'', pr_run_id = run\<rparr>,
      art_source_revision = srev, art_context_manifest_id = ctx, art_created_at = 0,
      art_parent_artifact_ids = parents, art_supersedes = None, art_evidence = [], art_content = content,
      art_integrity = \<lparr>in_sha256 = sample_sha, in_validated = True, in_validated_at = Some 5\<rparr>\<rparr>"

definition sample_plan :: Artifact where
  "sample_plan = sample_artifact ''art_plan'' AR_ORCHESTRATOR ''run_a01'' [] ''main'' ''ctx''
     (PlanArtifact (sample_plan_content [''s1'', ''s2'', ''s3''] None))"

definition sample_window :: PlanExecutionWindow where
  "sample_window = \<lparr>ew_hard_seconds = 600, ew_finalization_reserve_seconds = 60, ew_reserve_rework_attempts = 1\<rparr>"

definition sample_progress :: "string list \<Rightarrow> string list \<Rightarrow> Artifact" where
  "sample_progress fin open_ids = sample_artifact ''art_prog'' AR_CODER ''run_a02'' [''art_plan''] ''main'' ''ctx''
     (CoderProgressArtifact (sample_progress_content fin open_ids))"

end
