(* ===== verification/State_Machine.thy ===== *)
theory State_Machine
  imports Domain_Task
begin

section \<open>The Task state machine\<close>

text \<open>
  \<^verbatim>\<open>orchestration/state_machine.py\<close>: the transition table, the guard \<^verbatim>\<open>validate_transition\<close>, the
  constructor \<^verbatim>\<open>build_event\<close> and the reducer \<^verbatim>\<open>apply_event\<close>. \<open>replay\<close> is the fold of the reducer
  over an event list, and \<open>legal_step\<close> the status graph as a relation. The lemmas show which
  events the reducer accepts, that it keeps the Task valid and its frozen intent unchanged, and
  that a Task is \<open>DONE\<close> only at the end of an implementation, QA, review sequence.
\<close>

datatype sm_error = IllegalTransition | TerminalTask | TaskMismatch | StaleEvent | EventInvalid

fun LEGAL_TRANSITIONS :: "TaskStatus \<Rightarrow> TaskStatus list" where
  "LEGAL_TRANSITIONS TS_NEW = [TS_PLANNING, TS_FAILED]"
| "LEGAL_TRANSITIONS TS_PLANNING = [TS_IMPLEMENTING, TS_BLOCKED, TS_FAILED]"
| "LEGAL_TRANSITIONS TS_IMPLEMENTING = [TS_CONTINUE_REQUIRED, TS_QA, TS_BLOCKED, TS_FAILED]"
| "LEGAL_TRANSITIONS TS_CONTINUE_REQUIRED = [TS_QUEUED, TS_BLOCKED, TS_FAILED]"
| "LEGAL_TRANSITIONS TS_QUEUED = [TS_IMPLEMENTING, TS_BLOCKED, TS_FAILED]"
| "LEGAL_TRANSITIONS TS_QA = [TS_REVIEW, TS_IMPLEMENTING, TS_BLOCKED, TS_FAILED]"
| "LEGAL_TRANSITIONS TS_REVIEW = [TS_DONE, TS_IMPLEMENTING, TS_BLOCKED, TS_FAILED]"
| "LEGAL_TRANSITIONS TS_DONE = []"
| "LEGAL_TRANSITIONS TS_BLOCKED = []"
| "LEGAL_TRANSITIONS TS_FAILED = []"

definition TERMINAL_STATUSES :: "TaskStatus list" where
  "TERMINAL_STATUSES = [TS_DONE, TS_BLOCKED, TS_FAILED]"

definition validate_transition :: "Task \<Rightarrow> TaskStatus \<Rightarrow> sm_error option" where
  "validate_transition task to_status =
     (if t_status task \<in> set TERMINAL_STATUSES then Some TerminalTask
      else if to_status \<notin> set (LEGAL_TRANSITIONS (t_status task)) then Some IllegalTransition
      else None)"

definition apply_event :: "Task \<Rightarrow> StateEvent \<Rightarrow> sm_error + Task" where
  "apply_event task event =
     (if ev_task_id event \<noteq> t_id task then Inl TaskMismatch
      else if ev_from_status event \<noteq> t_status task then Inl StaleEvent
      else (case validate_transition task (ev_to_status event) of
          Some e \<Rightarrow> Inl e
        | None \<Rightarrow>
            if ev_occurred_at event < t_updated_at task then Inl StaleEvent
            else if t_max_attempts task < ev_attempt event then Inl StaleEvent
            else Inr (task\<lparr>t_status := ev_to_status event, t_updated_at := ev_occurred_at event\<rparr>)))"

definition build_event ::
  "Task \<Rightarrow> TaskStatus \<Rightarrow> string \<Rightarrow> string \<Rightarrow> string \<Rightarrow> string list \<Rightarrow> int \<Rightarrow> py_datetime \<Rightarrow>
   sm_error + StateEvent" where
  "build_event task to_status event_id reason source_revision artifact_ids attempt occurred_at =
     (case validate_transition task to_status of
        Some e \<Rightarrow> Inl e
      | None \<Rightarrow>
          (case occurred_at of
             Naive _ \<Rightarrow> Inl EventInvalid
           | Aware at \<Rightarrow>
               (let event = \<lparr>ev_event_id = event_id, ev_task_id = t_id task,
                             ev_from_status = t_status task, ev_to_status = to_status,
                             ev_actor = AR_ORCHESTRATOR, ev_attempt = attempt, ev_reason = reason,
                             ev_artifact_ids = artifact_ids, ev_source_revision = source_revision,
                             ev_occurred_at = at\<rparr>
                in if \<not> valid_StateEvent event then Inl EventInvalid
                   else (case apply_event task event of Inl e \<Rightarrow> Inl e | Inr _ \<Rightarrow> Inr event))))"

fun replay :: "Task \<Rightarrow> StateEvent list \<Rightarrow> sm_error + Task" where
  "replay task [] = Inr task"
| "replay task (e # es) = (case apply_event task e of Inl err \<Rightarrow> Inl err | Inr task' \<Rightarrow> replay task' es)"

fun_cases replay_ConsE: "replay task (e # es) = Inr task'"

subsection \<open>The status graph\<close>

inductive legal_step :: "TaskStatus \<Rightarrow> TaskStatus \<Rightarrow> bool" where
  edge: "b \<in> set (LEGAL_TRANSITIONS a) \<Longrightarrow> legal_step a b"

inductive_simps legal_step_iff: "legal_step a b"

inductive_cases legal_step_to_DONE: "legal_step a TS_DONE"

lemma terminal_iff_stuck: "a \<in> set TERMINAL_STATUSES \<longleftrightarrow> LEGAL_TRANSITIONS a = []"
  by (cases a) (simp_all add: TERMINAL_STATUSES_def)

lemma into_DONE: "legal_step a TS_DONE \<Longrightarrow> a = TS_REVIEW"
  by (cases a) (auto simp: legal_step_iff)

lemma into_REVIEW: "legal_step a TS_REVIEW \<Longrightarrow> a = TS_QA"
  by (cases a) (auto simp: legal_step_iff)

lemma into_QA: "legal_step a TS_QA \<Longrightarrow> a = TS_IMPLEMENTING"
  by (cases a) (auto simp: legal_step_iff)

lemma never_back_to_NEW: "\<not> legal_step a TS_NEW"
  by (cases a) (auto simp: legal_step_iff)

subsection \<open>What the reducer accepts\<close>

lemma apply_event_Inr_iff:
  "apply_event t e = Inr t' \<longleftrightarrow>
     ev_task_id e = t_id t \<and> ev_from_status e = t_status t \<and>
     legal_step (t_status t) (ev_to_status e) \<and>
     t_updated_at t \<le> ev_occurred_at e \<and> ev_attempt e \<le> t_max_attempts t \<and>
     t' = t\<lparr>t_status := ev_to_status e, t_updated_at := ev_occurred_at e\<rparr>"
  using terminal_iff_stuck [of "t_status t"]
  by (auto simp: apply_event_def validate_transition_def legal_step_iff split: if_splits)

lemma build_event_Inr_iff:
  "build_event t s eid reason srev arts n at = Inr e \<longleftrightarrow>
     (\<exists>u. at = Aware u \<and>
        e = \<lparr>ev_event_id = eid, ev_task_id = t_id t, ev_from_status = t_status t, ev_to_status = s,
             ev_actor = AR_ORCHESTRATOR, ev_attempt = n, ev_reason = reason, ev_artifact_ids = arts,
             ev_source_revision = srev, ev_occurred_at = u\<rparr> \<and>
        valid_StateEvent e \<and> legal_step (t_status t) s \<and> t_updated_at t \<le> u \<and>
        n \<le> t_max_attempts t)"
  using terminal_iff_stuck [of "t_status t"]
  by (cases at)
    (auto simp: build_event_def Let_def validate_transition_def legal_step_iff apply_event_def
      split: if_splits option.splits)

lemma apply_event_valid: "valid_Task t \<Longrightarrow> apply_event t e = Inr t' \<Longrightarrow> valid_Task t'"
  using valid_Task_times [of t] by (auto simp: apply_event_Inr_iff intro!: valid_Task_advance)

lemma apply_event_frozen: "apply_event t e = Inr t' \<Longrightarrow> task_matches_dispatch t' t legacy"
  by (auto simp: apply_event_Inr_iff task_matches_dispatch_def)

subsection \<open>Replay\<close>

lemma replay_append:
  "replay t (es @ fs) = (case replay t es of Inl err \<Rightarrow> Inl err | Inr t' \<Rightarrow> replay t' fs)"
  by (induction es arbitrary: t) (auto split: sum.splits)

lemma replay_snocE:
  assumes "replay t (es @ [e]) = Inr t'"
  obtains u where "replay t es = Inr u" "apply_event u e = Inr t'"
  using assms by (auto simp: replay_append split: sum.splits)

lemma replay_valid: "valid_Task t \<Longrightarrow> replay t es = Inr t' \<Longrightarrow> valid_Task t'"
  by (induction es arbitrary: t) (auto split: sum.splits dest: apply_event_valid)

lemma replay_frozen: "replay t es = Inr t' \<Longrightarrow> task_matches_dispatch t' t False"
proof (induction es arbitrary: t)
  case (Cons e es)
  then show ?case
    by (auto split: sum.splits intro: task_matches_dispatch_trans dest: apply_event_frozen)
qed simp

lemma replay_last_step:
  assumes "replay t es = Inr t'" and "t_status t' \<noteq> t_status t"
  obtains pre e u where "es = pre @ [e]" "replay t pre = Inr u" "apply_event u e = Inr t'"
proof (cases es rule: rev_cases)
  case Nil
  with assms have False by simp
  then show thesis ..
next
  case (snoc pre e)
  with assms(1) show thesis by (auto elim!: replay_snocE intro: that)
qed

lemma apply_event_status:
  assumes "apply_event u e = Inr t'"
  shows "ev_from_status e = t_status u" "ev_to_status e = t_status t'"
    "legal_step (t_status u) (t_status t')"
  using assms by (auto simp: apply_event_Inr_iff)

lemma replay_into:
  assumes "replay t es = Inr t'" and "t_status t' = s" and "t_status t \<noteq> s"
    and "\<And>a. legal_step a s \<Longrightarrow> a = r"
  obtains pre e u where "es = pre @ [e]" "replay t pre = Inr u" "t_status u = r"
    "ev_from_status e = r" "ev_to_status e = s"
proof -
  obtain pre e u where *: "es = pre @ [e]" "replay t pre = Inr u" "apply_event u e = Inr t'"
    using assms(1-3) by (auto elim: replay_last_step)
  moreover have "t_status u = r"
    using apply_event_status(3) [OF *(3)] assms(2,4) by simp
  ultimately show thesis
    using that apply_event_status(1,2) [OF *(3)] assms(2) by simp
qed

subsection \<open>A concrete history\<close>

definition sample_task :: "TaskStatus \<Rightarrow> instant \<Rightarrow> Task" where
  "sample_task status updated =
     \<lparr>t_id = ''task_a01'', t_title = ''Title'', t_description = ''Text'', t_repository = ''repo'',
      t_base_ref = ''main'', t_branch_name = None,
      t_acceptance_criteria = [\<lparr>ac_id = ''ac_a1'', ac_description = ''works'', ac_required = True,
        ac_verification = ''test'', ac_test_ids = []\<rparr>],
      t_constraints = None, t_status = status, t_max_attempts = 3, t_attempts = 0, t_owner = None,
      t_labels = [], t_created_at = 0, t_updated_at = updated, t_metadata = [],
      t_retry_policy = None, t_retry_failures = None, t_interruption_continuation_policy = None,
      t_engineering_policy = None\<rparr>"

definition sample_event :: "string \<Rightarrow> TaskStatus \<Rightarrow> TaskStatus \<Rightarrow> instant \<Rightarrow> StateEvent" where
  "sample_event eid a b at =
     \<lparr>ev_event_id = eid, ev_task_id = ''task_a01'', ev_from_status = a, ev_to_status = b,
      ev_actor = AR_ORCHESTRATOR, ev_attempt = 1, ev_reason = ''step'', ev_artifact_ids = [],
      ev_source_revision = ''abc'', ev_occurred_at = at\<rparr>"

definition sample_history :: "StateEvent list" where
  "sample_history =
     [sample_event ''evt_a01'' TS_NEW TS_PLANNING 1, sample_event ''evt_a02'' TS_PLANNING TS_IMPLEMENTING 2,
      sample_event ''evt_a03'' TS_IMPLEMENTING TS_QA 3, sample_event ''evt_a04'' TS_QA TS_REVIEW 4,
      sample_event ''evt_a05'' TS_REVIEW TS_DONE 5]"

lemma sample_task_valid: "valid_Task (sample_task TS_NEW 0)"
  by code_simp

lemma sample_history_done: "replay (sample_task TS_NEW 0) sample_history = Inr (sample_task TS_DONE 5)"
  by code_simp

subsection \<open>The delivery gate\<close>

lemma replay_to_DONE:
  assumes "replay t es = Inr t'" and "t_status t = TS_NEW" and "t_status t' = TS_DONE"
  shows "\<exists>pre e1 e2 e3. es = pre @ [e1, e2, e3] \<and>
     (ev_from_status e1, ev_to_status e1) = (TS_IMPLEMENTING, TS_QA) \<and>
     (ev_from_status e2, ev_to_status e2) = (TS_QA, TS_REVIEW) \<and>
     (ev_from_status e3, ev_to_status e3) = (TS_REVIEW, TS_DONE)"
proof -
  obtain p3 e3 u3 where 3: "es = p3 @ [e3]" "replay t p3 = Inr u3" "t_status u3 = TS_REVIEW"
      "ev_from_status e3 = TS_REVIEW" "ev_to_status e3 = TS_DONE"
    using replay_into [OF assms(1,3) _ into_DONE] assms(2) by auto
  obtain p2 e2 u2 where 2: "p3 = p2 @ [e2]" "replay t p2 = Inr u2" "t_status u2 = TS_QA"
      "ev_from_status e2 = TS_QA" "ev_to_status e2 = TS_REVIEW"
    using replay_into [OF 3(2,3) _ into_REVIEW] assms(2) by auto
  obtain p1 e1 u1 where 1: "p2 = p1 @ [e1]" "replay t p1 = Inr u1" "t_status u1 = TS_IMPLEMENTING"
      "ev_from_status e1 = TS_IMPLEMENTING" "ev_to_status e1 = TS_QA"
    using replay_into [OF 2(2,3) _ into_QA] assms(2) by auto
  have "es = p1 @ [e1, e2, e3]"
    using 1(1) 2(1) 3(1) by simp
  with 1(4,5) 2(4,5) 3(4,5) show ?thesis by blast
qed

text \<open>
  C2. A Task that starts \<open>NEW\<close> and is \<open>DONE\<close> after a replayed history has that history ending in
  exactly the three events implementation to QA, QA to review, review to done: no sequence of
  accepted events skips QA or review, and nothing happens between the verdicts.
\<close>

theorem done_requires_qa_and_review:
  assumes "replay t es = Inr t'" and "t_status t = TS_NEW" and "t_status t' = TS_DONE"
  shows "\<exists>pre e1 e2 e3. es = pre @ [e1, e2, e3] \<and>
     (ev_from_status e1, ev_to_status e1) = (TS_IMPLEMENTING, TS_QA) \<and>
     (ev_from_status e2, ev_to_status e2) = (TS_QA, TS_REVIEW) \<and>
     (ev_from_status e3, ev_to_status e3) = (TS_REVIEW, TS_DONE)"
  using assms by (rule replay_to_DONE)

theorem done_requires_qa_and_review_witness:
  "\<exists>pre e1 e2 e3. sample_history = pre @ [e1, e2, e3] \<and> ev_to_status e2 = TS_REVIEW"
  using done_requires_qa_and_review [OF sample_history_done] by (auto simp: sample_task_def)

text \<open>
  Terminal statuses are final and every other status can still be delivered: a terminal Task
  accepts no event at all, and from each non-terminal status the status graph reaches \<open>DONE\<close>.
\<close>

theorem terminal_absorbing_and_live:
  "(if t_status t \<in> set TERMINAL_STATUSES then \<forall>e. \<exists>err. apply_event t e = Inl err
    else legal_step\<^sup>*\<^sup>* (t_status t) TS_DONE)"
proof (cases "t_status t \<in> set TERMINAL_STATUSES")
  case True
  have "\<exists>err. apply_event t e = Inl err" for e
    using True by (simp add: apply_event_def validate_transition_def)
  with True show ?thesis by simp
next
  case False
  have step: "b \<in> set (LEGAL_TRANSITIONS a) \<Longrightarrow> legal_step\<^sup>*\<^sup>* b TS_DONE \<Longrightarrow> legal_step\<^sup>*\<^sup>* a TS_DONE" for a b
    by (meson converse_rtranclp_into_rtranclp edge)
  have review: "legal_step\<^sup>*\<^sup>* TS_REVIEW TS_DONE" by (rule step [of TS_DONE]) simp_all
  have qa: "legal_step\<^sup>*\<^sup>* TS_QA TS_DONE" by (rule step [OF _ review]) simp
  have impl: "legal_step\<^sup>*\<^sup>* TS_IMPLEMENTING TS_DONE" by (rule step [OF _ qa]) simp
  have queued: "legal_step\<^sup>*\<^sup>* TS_QUEUED TS_DONE" by (rule step [OF _ impl]) simp
  have cont: "legal_step\<^sup>*\<^sup>* TS_CONTINUE_REQUIRED TS_DONE" by (rule step [OF _ queued]) simp
  have plan: "legal_step\<^sup>*\<^sup>* TS_PLANNING TS_DONE" by (rule step [OF _ impl]) simp
  have new: "legal_step\<^sup>*\<^sup>* TS_NEW TS_DONE" by (rule step [OF _ plan]) simp
  show ?thesis
    using False review qa impl queued cont plan new
    by (cases "t_status t") (simp_all add: TERMINAL_STATUSES_def)
qed

end
