(* ===== verification/Coder_Work.thy ===== *)
theory Coder_Work
  imports Artifact_Samples State_Machine
begin

section \<open>Bounded Coder work\<close>

text \<open>
  \<^verbatim>\<open>domain/coder_work.py\<close>: which plan steps one Coder run works on, the gate its output passes, and
  the slice that follows an interrupted one. Sets of step ids are compared as sets; tuples keep the
  order of the plan. The true division under \<^verbatim>\<open>ceil\<close> is exact for the lengths of a plan.
\<close>

datatype CoderSliceRejectionCode =
    SR_INPUT_CONTRACT | SR_TASK_BINDING | SR_PARTIAL_CANDIDATE | SR_OUTPUT_KIND | SR_SOURCE_REVISION
  | SR_STEP_PARTITION | SR_PRIOR_COMPLETION | SR_UNSELECTED_COMPLETION | SR_DEFERRED_STEPS

datatype slice_error = CoderSliceRejected CoderSliceRejectionCode | SliceValidationError

definition ceil_div :: "int \<Rightarrow> int \<Rightarrow> int" where
  "ceil_div n d = - ((- n) div d)"

definition slice_slots :: "int \<Rightarrow> PlanExecutionWindow \<Rightarrow> int" where
  "slice_slots remaining win = max 1 (remaining - ew_reserve_rework_attempts win)"

definition make_slice :: "CoderWorkSlice \<Rightarrow> slice_error + CoderWorkSlice" where
  "make_slice w = (if valid_CoderWorkSlice w then Inr w else Inl SliceValidationError)"

text \<open>The steps a progress Artifact has completed, in plan order; no progress completes none.\<close>

definition prior_completion ::
  "Task \<Rightarrow> string list \<Rightarrow> string \<Rightarrow> (Artifact \<times> CoderProgressContent) option \<Rightarrow> slice_error + string list" where
  "prior_completion task all_ids source_revision progress =
     (case progress of
        None \<Rightarrow> Inr []
      | Some (a, c) \<Rightarrow>
          if art_task_id a \<noteq> t_id task \<or> art_source_revision a \<noteq> source_revision
          then Inl (CoderSliceRejected SR_INPUT_CONTRACT)
          else if set (cp_completed_step_ids c) \<union> set (cp_remaining_step_ids c) \<noteq> set all_ids
          then Inl (CoderSliceRejected SR_INPUT_CONTRACT)
          else Inr (filter (\<lambda>i. i \<in> set (cp_completed_step_ids c)) all_ids))"

definition work_limit :: "Task \<Rightarrow> int" where
  "work_limit task =
     (case t_retry_policy task of Some p \<Rightarrow> max_work_attempts p | None \<Rightarrow> t_max_attempts task)"

definition work_remaining :: "Task \<Rightarrow> int" where
  "work_remaining task = work_limit task - max (work_attempt task) 1 + 1"

definition select_coder_work_slice ::
  "Task \<Rightarrow> Artifact \<Rightarrow> PlanContent \<Rightarrow> int \<Rightarrow> string \<Rightarrow> (Artifact \<times> CoderProgressContent) option \<Rightarrow>
   slice_error + CoderWorkSlice option" where
  "select_coder_work_slice task plan content attempt source_revision progress =
     (case pc_execution_window content of
        None \<Rightarrow> Inr None
      | Some win \<Rightarrow>
          if art_task_id plan \<noteq> t_id task \<or> attempt \<noteq> max (t_attempts task) 1
          then Inl (CoderSliceRejected SR_INPUT_CONTRACT)
          else
            (let all_ids = map ps_step_id (pc_steps content) in
             bind_res (prior_completion task all_ids source_revision progress) (\<lambda>completed.
             let pending = filter (\<lambda>i. i \<notin> set completed) all_ids in
             if pending = [] then Inl (CoderSliceRejected SR_INPUT_CONTRACT)
             else if work_remaining task < 1 then Inl (CoderSliceRejected SR_INPUT_CONTRACT)
             else
               (let slots = slice_slots (work_remaining task) win;
                    count = nat (ceil_div (int (length pending)) slots)
                in bind_res (make_slice
                     \<lparr>ws_task_id = t_id task, ws_attempt = attempt, ws_source_revision = source_revision,
                      ws_plan_artifact_id = art_artifact_id plan, ws_plan_sha256 = in_sha256 (art_integrity plan),
                      ws_window = win, ws_authorized_work_remaining = work_remaining task,
                      ws_completed_step_ids = completed, ws_selected_step_ids = take count pending,
                      ws_later_step_ids = drop count pending\<rparr>) (\<lambda>w. Inr (Some w))))))"

definition validate_progress_output :: "CoderWorkSlice \<Rightarrow> Artifact \<Rightarrow> CoderProgressContent \<Rightarrow> slice_error + unit" where
  "validate_progress_output work a c =
     (let completed = set (cp_completed_step_ids c); remaining = set (cp_remaining_step_ids c);
          expected = set (ws_completed_step_ids work @ ws_selected_step_ids work @ ws_later_step_ids work)
      in if art_source_revision a \<noteq> ws_source_revision work then Inl (CoderSliceRejected SR_SOURCE_REVISION)
         else if completed \<union> remaining \<noteq> expected \<or> completed \<inter> remaining \<noteq> {}
         then Inl (CoderSliceRejected SR_STEP_PARTITION)
         else if \<not> set (ws_completed_step_ids work) \<subseteq> completed then Inl (CoderSliceRejected SR_PRIOR_COMPLETION)
         else if \<not> completed \<subseteq> set (ws_completed_step_ids work @ ws_selected_step_ids work)
         then Inl (CoderSliceRejected SR_UNSELECTED_COMPLETION)
         else if \<not> set (ws_later_step_ids work) \<subseteq> remaining then Inl (CoderSliceRejected SR_DEFERRED_STEPS)
         else Inr ())"

definition validate_coder_slice_output :: "CoderWorkSlice \<Rightarrow> Artifact \<Rightarrow> slice_error + unit" where
  "validate_coder_slice_output work a =
     (if art_task_id a \<noteq> ws_task_id work then Inl (CoderSliceRejected SR_TASK_BINDING)
      else
        (case art_content a of
           ImplementationReportArtifact _ \<Rightarrow>
             if ws_later_step_ids work \<noteq> [] then Inl (CoderSliceRejected SR_PARTIAL_CANDIDATE) else Inr ()
         | CoderProgressArtifact c \<Rightarrow> validate_progress_output work a c
         | _ \<Rightarrow> Inl (CoderSliceRejected SR_OUTPUT_KIND)))"

definition successor_coder_work_slice :: "CoderWorkSlice \<Rightarrow> bool \<Rightarrow> slice_error + CoderWorkSlice" where
  "successor_coder_work_slice work consume_work =
     (let remaining = ws_authorized_work_remaining work - (if consume_work then 1 else 0) in
      if remaining < 1 then Inl (CoderSliceRejected SR_INPUT_CONTRACT)
      else
        (let pending = ws_selected_step_ids work @ ws_later_step_ids work;
             slots = slice_slots remaining (ws_window work);
             count = nat (ceil_div (int (length pending)) slots)
         in make_slice (work\<lparr>ws_attempt := ws_attempt work + 1, ws_authorized_work_remaining := remaining,
              ws_selected_step_ids := take count pending, ws_later_step_ids := drop count pending\<rparr>)))"

subsection \<open>The arithmetic of slots\<close>

lemma ceil_div_bounds:
  assumes "1 \<le> d"
  shows "n \<le> ceil_div n d * d" and "ceil_div n d * d < n + d"
proof -
  have "ceil_div n d * d = n + (- n) mod d"
    using div_mult_mod_eq [of "- n" d] unfolding ceil_div_def mult_minus_left by linarith
  moreover have "0 \<le> (- n) mod d" "(- n) mod d < d" using assms by simp_all
  ultimately show "n \<le> ceil_div n d * d" "ceil_div n d * d < n + d" by simp_all
qed

lemma ceil_div_pos:
  assumes "1 \<le> n" and "1 \<le> d"
  shows "1 \<le> ceil_div n d"
proof (rule ccontr)
  assume "\<not> 1 \<le> ceil_div n d"
  then have "ceil_div n d * d \<le> 0" using assms(2) by (simp add: mult_nonpos_nonneg)
  then show False using ceil_div_bounds(1) [OF assms(2), of n] assms(1) by simp
qed

lemma ceil_div_le:
  assumes "0 \<le> n" and "1 \<le> d"
  shows "ceil_div n d \<le> n"
proof (rule ccontr)
  assume "\<not> ceil_div n d \<le> n"
  then have "(n + 1) * d \<le> ceil_div n d * d" using assms(2) by (intro mult_right_mono) simp_all
  then have "n * d < n" using ceil_div_bounds(2) [OF assms(2), of n] by (simp add: distrib_right)
  moreover have "n * 1 \<le> n * d" using assms by (intro mult_left_mono) simp_all
  ultimately show False by simp
qed

lemma ceil_div_one [simp]: "ceil_div n 1 = n"
  by (simp add: ceil_div_def)

lemma slots_pos [simp]: "1 \<le> slice_slots r win"
  by (simp add: slice_slots_def)

lemma count_bounds:
  assumes "pending \<noteq> []" and "1 \<le> d"
  shows "take (nat (ceil_div (int (length pending)) d)) pending \<noteq> []"
    and "d = 1 \<Longrightarrow> drop (nat (ceil_div (int (length pending)) d)) pending = []"
  using ceil_div_pos [of "int (length pending)" d] assms by (auto simp: Suc_le_eq)

subsection \<open>Selection\<close>

lemma select_cases:
  assumes "select_coder_work_slice task plan content attempt src progress = Inr (Some w)"
  obtains win completed pending where
    "pc_execution_window content = Some win" "prior_completion task (map ps_step_id (pc_steps content)) src progress = Inr completed"
    "pending = filter (\<lambda>i. i \<notin> set completed) (map ps_step_id (pc_steps content))" "pending \<noteq> []"
    "1 \<le> work_remaining task" "valid_CoderWorkSlice w" "ws_window w = win" "ws_task_id w = t_id task"
    "ws_source_revision w = src" "ws_authorized_work_remaining w = work_remaining task" "ws_completed_step_ids w = completed"
    "ws_selected_step_ids w = take (nat (ceil_div (int (length pending)) (slice_slots (work_remaining task) win))) pending"
    "ws_later_step_ids w = drop (nat (ceil_div (int (length pending)) (slice_slots (work_remaining task) win))) pending"
  using assms
  by (auto simp: select_coder_work_slice_def make_slice_def bind_res_Inr_iff Let_def not_less
      split: option.splits if_splits)

lemma prior_completion_steps:
  assumes "prior_completion task ids src progress = Inr completed"
  shows "completed = filter (\<lambda>i. i \<in> set completed) ids"
    and "progress = Some (a, c) \<Longrightarrow> set completed = set (cp_completed_step_ids c)"
proof -
  have "\<exists>P. completed = filter P ids"
    using assms by (cases progress) (auto simp: prior_completion_def split: if_splits intro: exI [of _ "\<lambda>_. False"])
  then obtain P where P: "completed = filter P ids" by blast
  have "filter P ids = filter (\<lambda>i. i \<in> set (filter P ids)) ids" by (rule filter_cong) auto
  with P show "completed = filter (\<lambda>i. i \<in> set completed) ids" by simp
  show "progress = Some (a, c) \<Longrightarrow> set completed = set (cp_completed_step_ids c)"
    using assms by (auto simp: prior_completion_def split: if_splits)
qed

text \<open>
  C35. A work slice splits the plan. Whatever progress it starts from, its completed, selected and
  deferred steps are exactly the steps of the approved plan; the selected and deferred ones are the
  open steps in plan order; the completed ones are those of the progress checkpoint; at least one
  step is selected, and with a single work slot left nothing is deferred.
\<close>

theorem slice_partitions_plan:
  assumes "select_coder_work_slice task plan content attempt src progress = Inr (Some w)"
  shows "mset (ws_completed_step_ids w @ ws_selected_step_ids w @ ws_later_step_ids w) =
      mset (map ps_step_id (pc_steps content)) \<and>
    ws_selected_step_ids w @ ws_later_step_ids w =
      filter (\<lambda>i. i \<notin> set (ws_completed_step_ids w)) (map ps_step_id (pc_steps content)) \<and>
    (\<forall>a c. progress = Some (a, c) \<longrightarrow> set (ws_completed_step_ids w) = set (cp_completed_step_ids c)) \<and>
    (progress = None \<longrightarrow> ws_completed_step_ids w = []) \<and>
    ws_selected_step_ids w \<noteq> [] \<and>
    (slice_slots (work_remaining task) (ws_window w) = 1 \<longrightarrow> ws_later_step_ids w = [])"
  using assms
proof (cases rule: select_cases)
  case (1 win completed pending)
  let ?ids = "map ps_step_id (pc_steps content)"
  have open_steps: "ws_selected_step_ids w @ ws_later_step_ids w = pending" by (simp add: 1)
  have "mset ?ids = mset (filter (\<lambda>i. i \<in> set completed) ?ids) + mset (filter (\<lambda>i. i \<notin> set completed) ?ids)"
    by (simp only: mset_filter multiset_partition [symmetric])
  then have "mset (completed @ pending) = mset ?ids"
    using prior_completion_steps(1) [OF 1(2)] 1(3) by simp
  moreover have "progress = None \<Longrightarrow> completed = []" using 1(2) by (simp add: prior_completion_def)
  ultimately show ?thesis
    using open_steps 1 prior_completion_steps(2) [OF 1(2)] count_bounds [OF 1(4) slots_pos]
    by (simp flip: append_assoc mset_append)
qed

subsection \<open>The output gate\<close>

lemma progress_output_Inr:
  "validate_progress_output w a c = Inr u \<longleftrightarrow>
     art_source_revision a = ws_source_revision w \<and>
     set (cp_completed_step_ids c) \<union> set (cp_remaining_step_ids c) =
       set (ws_completed_step_ids w @ ws_selected_step_ids w @ ws_later_step_ids w) \<and>
     set (cp_completed_step_ids c) \<inter> set (cp_remaining_step_ids c) = {} \<and>
     set (ws_completed_step_ids w) \<subseteq> set (cp_completed_step_ids c) \<and>
     set (cp_completed_step_ids c) \<subseteq> set (ws_completed_step_ids w @ ws_selected_step_ids w) \<and>
     set (ws_later_step_ids w) \<subseteq> set (cp_remaining_step_ids c)"
  by (auto simp: validate_progress_output_def Let_def)

lemma selected_completed:
  assumes "select_coder_work_slice task plan content attempt src (Some (a, c)) = Inr (Some w)"
  shows "set (ws_completed_step_ids w) = set (cp_completed_step_ids c)"
    and "set (ws_selected_step_ids w @ ws_later_step_ids w) = set (map ps_step_id (pc_steps content)) - set (cp_completed_step_ids c)"
  using assms
proof -
  show c: "set (ws_completed_step_ids w) = set (cp_completed_step_ids c)"
    using assms by (cases rule: select_cases) (simp add: prior_completion_steps(2))
  show "set (ws_selected_step_ids w @ ws_later_step_ids w) = set (map ps_step_id (pc_steps content)) - set (cp_completed_step_ids c)"
    using assms
  proof (cases rule: select_cases)
    case (1 win completed pending)
    have "ws_selected_step_ids w @ ws_later_step_ids w = pending" by (simp add: 1)
    then show ?thesis using 1(3) 1(11) c by auto
  qed
qed

lemma slice_steps:
  assumes "select_coder_work_slice task plan content attempt src progress = Inr (Some w)"
  shows "set (ws_completed_step_ids w @ ws_selected_step_ids w @ ws_later_step_ids w) = set (map ps_step_id (pc_steps content))"
  using assms
proof (cases rule: select_cases)
  case (1 win completed pending)
  have "ws_selected_step_ids w @ ws_later_step_ids w = pending" by (simp add: 1)
  moreover have "set completed \<subseteq> set (map ps_step_id (pc_steps content))"
    by (metis filter_is_subset prior_completion_steps(1) [OF 1(2)])
  ultimately show ?thesis using 1(3) 1(11) by auto
qed

lemma successor_steps:
  assumes "successor_coder_work_slice w consume = Inr w'"
  shows "ws_completed_step_ids w' = ws_completed_step_ids w"
    "ws_selected_step_ids w' @ ws_later_step_ids w' = ws_selected_step_ids w @ ws_later_step_ids w"
proof -
  obtain k r where "w' = w\<lparr>ws_attempt := ws_attempt w + 1, ws_authorized_work_remaining := r,
      ws_selected_step_ids := take k (ws_selected_step_ids w @ ws_later_step_ids w),
      ws_later_step_ids := drop k (ws_selected_step_ids w @ ws_later_step_ids w)\<rparr>"
    using assms unfolding successor_coder_work_slice_def make_slice_def Let_def by (metis Inl_Inr_False Inr_inject)
  then show "ws_completed_step_ids w' = ws_completed_step_ids w"
    "ws_selected_step_ids w' @ ws_later_step_ids w' = ws_selected_step_ids w @ ws_later_step_ids w"
    by (simp_all del: take_append drop_append)
qed

text \<open>
  The gate of a work slice. A candidate passes only when nothing is deferred. Progress that
  passes and is selected from again loses no completed step, completes nothing outside the slice,
  and leaves every deferred step open; and the successor of an interrupted slice keeps the completed
  and the open steps as they are.
\<close>

theorem slice_gate_keeps_plan:
  assumes sel: "select_coder_work_slice task plan content attempt src progress = Inr (Some w)"
    and gate: "validate_coder_slice_output w a = Inr ()"
  shows "(\<forall>c. art_content a = ImplementationReportArtifact c \<longrightarrow> ws_later_step_ids w = []) \<and>
    (\<forall>c task' plan' attempt' src' w'. art_content a = CoderProgressArtifact c \<and>
       select_coder_work_slice task' plan' content attempt' src' (Some (a, c)) = Inr (Some w') \<longrightarrow>
       set (ws_completed_step_ids w) \<subseteq> set (ws_completed_step_ids w') \<and>
       set (ws_completed_step_ids w') \<subseteq> set (ws_completed_step_ids w @ ws_selected_step_ids w) \<and>
       set (ws_later_step_ids w) \<subseteq> set (ws_selected_step_ids w' @ ws_later_step_ids w')) \<and>
    (\<forall>consume w'. successor_coder_work_slice w consume = Inr w' \<longrightarrow>
       ws_completed_step_ids w' = ws_completed_step_ids w \<and>
       ws_selected_step_ids w' @ ws_later_step_ids w' = ws_selected_step_ids w @ ws_later_step_ids w)"
proof (intro conjI allI impI)
  fix c
  assume "art_content a = ImplementationReportArtifact c"
  with gate show "ws_later_step_ids w = []"
    by (simp add: validate_coder_slice_output_def split: if_splits)
next
  fix c task' plan' attempt' src' w'
  assume h: "art_content a = CoderProgressArtifact c \<and>
      select_coder_work_slice task' plan' content attempt' src' (Some (a, c)) = Inr (Some w')"
  then have p: "validate_progress_output w a c = Inr ()"
    using gate by (simp add: validate_coder_slice_output_def split: if_splits)
  note n = selected_completed [OF conjunct2 [OF h]]
  show "set (ws_completed_step_ids w) \<subseteq> set (ws_completed_step_ids w')"
    "set (ws_completed_step_ids w') \<subseteq> set (ws_completed_step_ids w @ ws_selected_step_ids w)"
    using p n(1) by (simp_all add: progress_output_Inr)
  show "set (ws_later_step_ids w) \<subseteq> set (ws_selected_step_ids w' @ ws_later_step_ids w')"
    using p slice_steps [OF sel] unfolding n(2) by (auto simp: progress_output_Inr)
next
  fix consume w'
  assume "successor_coder_work_slice w consume = Inr w'"
  then show "ws_completed_step_ids w' = ws_completed_step_ids w"
    "ws_selected_step_ids w' @ ws_later_step_ids w' = ws_selected_step_ids w @ ws_later_step_ids w"
    by (rule successor_steps)+
qed

subsection \<open>The work allowance suffices\<close>

text \<open>
  A chain of slices of one plan: each run completes the steps selected for it, its progress passes
  the gate, and the next slice is selected with one work attempt less.
\<close>

inductive slice_chain :: "PlanContent \<Rightarrow> CoderWorkSlice \<Rightarrow> nat \<Rightarrow> CoderWorkSlice \<Rightarrow> bool" where
  start: "select_coder_work_slice task plan content attempt src progress = Inr (Some w) \<Longrightarrow> slice_chain content w 0 w"
| step: "slice_chain content w n w1 \<Longrightarrow> validate_coder_slice_output w1 a = Inr () \<Longrightarrow>
    art_content a = CoderProgressArtifact c \<Longrightarrow>
    set (cp_completed_step_ids c) = set (ws_completed_step_ids w1 @ ws_selected_step_ids w1) \<Longrightarrow>
    work_remaining task = ws_authorized_work_remaining w1 - 1 \<Longrightarrow>
    select_coder_work_slice task plan content attempt src (Some (a, c)) = Inr (Some w2) \<Longrightarrow>
    slice_chain content w (Suc n) w2"

abbreviation slots_of :: "CoderWorkSlice \<Rightarrow> int" where
  "slots_of w \<equiv> slice_slots (ws_authorized_work_remaining w) (ws_window w)"

lemma last_slot: "select_coder_work_slice task plan content attempt src progress = Inr (Some w) \<Longrightarrow>
    slots_of w = 1 \<Longrightarrow> ws_later_step_ids w = []"
  by (erule select_cases) (use count_bounds(2) in auto)

lemma chain_slice:
  "slice_chain content w n w' \<Longrightarrow>
   \<exists>task plan attempt src progress. select_coder_work_slice task plan content attempt src progress = Inr (Some w')"
  by (induction rule: slice_chain.induct) blast+

lemma chain_slots: "slice_chain content w n w' \<Longrightarrow> slots_of w' = slots_of w - int n"
proof (induction rule: slice_chain.induct)
  case (step content w n w1 a c task plan attempt src w2)
  obtain t0 p0 at0 s0 pr0 where w1: "select_coder_work_slice t0 p0 content at0 s0 pr0 = Inr (Some w1)"
    using chain_slice [OF step.hyps(1)] by blast
  have win: "ws_window w2 = ws_window w1"
    using w1 step.hyps(6) by (metis select_cases option.inject)
  have rem: "ws_authorized_work_remaining w2 = ws_authorized_work_remaining w1 - 1"
    using step.hyps(5,6) by (auto elim: select_cases)
  have "ws_selected_step_ids w2 \<noteq> []"
    using step.hyps(6) by (auto elim!: select_cases simp: valid_CoderWorkSlice_def)
  then have "set (ws_selected_step_ids w2 @ ws_later_step_ids w2) \<noteq> {}" by simp
  then have "ws_later_step_ids w1 \<noteq> []"
    unfolding selected_completed(2) [OF step.hyps(6)] slice_steps [OF w1, symmetric] step.hyps(4) by auto
  then have "slots_of w1 \<noteq> 1" using last_slot [OF w1] by blast
  then have "slots_of w2 = slots_of w1 - 1" using win rem by (simp add: slice_slots_def max_def split: if_splits)
  with step.IH show ?case by simp
qed simp

text \<open>
  C36. The work allowance of a plan suffices: when every run finishes the steps selected for it, a
  chain of slices is shorter than the slots of its first slice, so shorter than the authorised work
  attempts, and the slice of the last slot defers nothing, so that its run may publish the candidate.
\<close>

theorem slices_fit_allowance:
  assumes "slice_chain content w n w'"
  shows "int n < slots_of w \<and> slots_of w \<le> ws_authorized_work_remaining w \<and>
    (int n = slots_of w - 1 \<longrightarrow> ws_later_step_ids w' = [])"
proof -
  obtain t p at s pr where w': "select_coder_work_slice t p content at s pr = Inr (Some w')"
    using chain_slice [OF assms] by blast
  have "\<exists>t p at s pr. select_coder_work_slice t p content at s pr = Inr (Some w)"
    using assms by (induction rule: slice_chain.induct) blast+
  then have "1 \<le> ws_authorized_work_remaining w" "0 \<le> ew_reserve_rework_attempts (ws_window w)"
    by (auto elim!: select_cases simp: valid_CoderWorkSlice_def valid_PlanExecutionWindow_def in_range_def)
  then have "slots_of w \<le> ws_authorized_work_remaining w" by (simp add: slice_slots_def)
  moreover have "slots_of w' = slots_of w - int n" by (rule chain_slots [OF assms])
  ultimately show ?thesis using last_slot [OF w'] slots_pos [of "ws_authorized_work_remaining w'" "ws_window w'"]
    by auto
qed

subsection \<open>A concrete plan\<close>

definition windowed_plan :: PlanContent where
  "windowed_plan = sample_plan_content [''s1'', ''s2'', ''s3''] (Some sample_window)"

definition first_slice :: CoderWorkSlice where
  "first_slice =
     \<lparr>ws_task_id = ''task_a01'', ws_attempt = 1, ws_source_revision = ''main'', ws_plan_artifact_id = ''art_plan'',
      ws_plan_sha256 = sample_sha, ws_window = sample_window, ws_authorized_work_remaining = 3,
      ws_completed_step_ids = [], ws_selected_step_ids = [''s1'', ''s2''], ws_later_step_ids = [''s3'']\<rparr>"

definition second_slice :: CoderWorkSlice where
  "second_slice = first_slice\<lparr>ws_attempt := 2, ws_authorized_work_remaining := 2,
     ws_completed_step_ids := [''s1'', ''s2''], ws_selected_step_ids := [''s3''], ws_later_step_ids := []\<rparr>"

abbreviation half_done :: Artifact where
  "half_done \<equiv> sample_progress [''s1'', ''s2''] [''s3'']"

lemma first_selected:
  "select_coder_work_slice (sample_task TS_IMPLEMENTING 0) sample_plan windowed_plan 1 ''main'' None = Inr (Some first_slice)"
  by code_simp

lemma second_selected:
  "select_coder_work_slice ((sample_task TS_IMPLEMENTING 0)\<lparr>t_attempts := 2\<rparr>) sample_plan windowed_plan 2 ''main''
     (Some (half_done, sample_progress_content [''s1'', ''s2''] [''s3''])) = Inr (Some second_slice)"
  by code_simp

lemma half_done_passes: "validate_coder_slice_output first_slice half_done = Inr ()"
  by code_simp

lemma half_done_content: "art_content half_done = CoderProgressArtifact (sample_progress_content [''s1'', ''s2''] [''s3''])"
  by code_simp

theorem slice_partitions_plan_witness:
  "ws_selected_step_ids first_slice @ ws_later_step_ids first_slice = map ps_step_id (pc_steps windowed_plan)"
  using slice_partitions_plan [OF first_selected] by (simp add: first_slice_def)

theorem slice_gate_keeps_plan_witness:
  "set (ws_later_step_ids first_slice) \<subseteq> set (ws_selected_step_ids second_slice @ ws_later_step_ids second_slice)"
  using slice_gate_keeps_plan [OF first_selected half_done_passes] half_done_content second_selected by blast

lemma sample_chain: "slice_chain windowed_plan first_slice 1 second_slice"
proof -
  have "set (cp_completed_step_ids (sample_progress_content [''s1'', ''s2''] [''s3''])) =
      set (ws_completed_step_ids first_slice @ ws_selected_step_ids first_slice)"
    "work_remaining ((sample_task TS_IMPLEMENTING 0)\<lparr>t_attempts := 2\<rparr>) = ws_authorized_work_remaining first_slice - 1"
    by code_simp+
  from slice_chain.step [OF slice_chain.start [OF first_selected] half_done_passes half_done_content this second_selected]
  show ?thesis by simp
qed

theorem slices_fit_allowance_witness:
  "ws_later_step_ids second_slice = [] \<and> slots_of first_slice = 2"
proof -
  have "slots_of first_slice = 2" by code_simp
  with slices_fit_allowance [OF sample_chain] show ?thesis by simp
qed

end
