(* ===== verification/Artifact_Store.thy ===== *)
theory Artifact_Store
  imports Artifact_Samples
begin

section \<open>The Artifact store\<close>

text \<open>
  \<^verbatim>\<open>artifacts/store.py\<close> and \<^verbatim>\<open>artifacts/ports.py\<close>: sealing, and the file store that keeps one
  immutable file per Artifact. The root directory is the list of its files in the order of their
  creation; a file is either undecodable or a JSON object of the shape of an Artifact, whose
  constraints are checked on every read. The digest of the canonical JSON text is a parameter that
  returns \<open>None\<close> where the payload has no canonical JSON. Operating-system errors are not modelled.
\<close>

type_synonym artifact_hash = "ArtifactEnvelope \<Rightarrow> string option"

datatype artifact_error =
    ArtifactStoreError
  | ArtifactNotFound
  | ArtifactValidationError
  | ArtifactIntegrityError
  | ArtifactAlreadyExists
  | ArtifactParentError
  | ArtifactCorruption
  | SchemaVersionError
  | ArtifactValueError

datatype file_content = Undecodable | Decoded Artifact

record artifact_file =
  af_stem :: string
  af_content :: file_content

record FileArtifactStore =
  as_files :: "artifact_file list"
  as_read_only :: bool

record ArtifactRef =
  aref_artifact_id :: string
  aref_task_id :: string
  aref_kind :: ArtifactKind
  aref_sha256 :: string
  aref_path :: string

subsection \<open>Sealing\<close>

definition artifact_digest :: "artifact_hash \<Rightarrow> Artifact \<Rightarrow> artifact_error + string" where
  "artifact_digest H a =
     (case H (ArtifactEnvelope.truncate a) of None \<Rightarrow> Inl ArtifactValidationError | Some d \<Rightarrow> Inr d)"

definition seal_artifact :: "artifact_hash \<Rightarrow> Artifact \<Rightarrow> py_datetime \<Rightarrow> artifact_error + Artifact" where
  "seal_artifact H a validated_at =
     bind_res (artifact_digest H a) (\<lambda>sha.
     case validated_at of
       Naive _ \<Rightarrow> Inl ArtifactValueError
     | Aware t \<Rightarrow>
         (let i = \<lparr>in_sha256 = sha, in_validated = True, in_validated_at = Some t\<rparr>
          in if valid_ArtifactIntegrity i then Inr (a\<lparr>art_integrity := i\<rparr>) else Inl ArtifactValueError))"

subsection \<open>The store\<close>

definition validate_for_put :: "artifact_hash \<Rightarrow> Artifact \<Rightarrow> artifact_error + unit" where
  "validate_for_put H a =
     bind_res (guard_res (art_schema_version a = SUPPORTED_ARTIFACT_SCHEMA_VERSION) SchemaVersionError) (\<lambda>_.
     bind_res (guard_res (valid_Artifact a) ArtifactValidationError) (\<lambda>_.
     bind_res (guard_res (in_validated (art_integrity a)) ArtifactIntegrityError) (\<lambda>_.
     bind_res (artifact_digest H a) (\<lambda>digest.
     guard_res (in_sha256 (art_integrity a) = digest) ArtifactIntegrityError))))"

definition artifact_path :: "string \<Rightarrow> artifact_error + string" where
  "artifact_path artifact_id =
     (if valid_ArtifactId artifact_id then Inr artifact_id else Inl ArtifactNotFound)"

definition file_name :: "string \<Rightarrow> string" where
  "file_name stem = stem @ ''.json''"

definition artifact_get :: "artifact_hash \<Rightarrow> FileArtifactStore \<Rightarrow> string \<Rightarrow> artifact_error + Artifact" where
  "artifact_get H s artifact_id =
     bind_res (artifact_path artifact_id) (\<lambda>stem.
     case row_of af_stem stem (as_files s) of
       None \<Rightarrow> Inl ArtifactNotFound
     | Some f \<Rightarrow>
         (case af_content f of
            Undecodable \<Rightarrow> Inl ArtifactCorruption
          | Decoded a \<Rightarrow>
              if art_artifact_id a \<noteq> artifact_id then Inl ArtifactCorruption
              else if \<not> valid_Artifact a then Inl ArtifactCorruption
              else (case validate_for_put H a of Inl _ \<Rightarrow> Inl ArtifactCorruption | Inr _ \<Rightarrow> Inr a)))"

definition artifact_ref :: "Artifact \<Rightarrow> ArtifactRef" where
  "artifact_ref a =
     \<lparr>aref_artifact_id = art_artifact_id a, aref_task_id = art_task_id a, aref_kind = art_kind a,
      aref_sha256 = in_sha256 (art_integrity a), aref_path = file_name (art_artifact_id a)\<rparr>"

definition load_parent :: "artifact_hash \<Rightarrow> FileArtifactStore \<Rightarrow> string \<Rightarrow> artifact_error + Artifact" where
  "load_parent H s parent_id =
     (case artifact_get H s parent_id of
        Inl e \<Rightarrow> Inl (if e = ArtifactNotFound then ArtifactParentError else e)
      | Inr parent \<Rightarrow> Inr parent)"

fun validate_parents :: "artifact_hash \<Rightarrow> FileArtifactStore \<Rightarrow> Artifact \<Rightarrow> string list \<Rightarrow> artifact_error + unit" where
  "validate_parents H s a [] = Inr ()"
| "validate_parents H s a (parent_id # ids) =
     bind_res (load_parent H s parent_id) (\<lambda>parent.
     bind_res (guard_res (art_task_id parent = art_task_id a) ArtifactParentError) (\<lambda>_.
     validate_parents H s a ids))"

definition validate_lineage :: "artifact_hash \<Rightarrow> FileArtifactStore \<Rightarrow> Artifact \<Rightarrow> artifact_error + unit" where
  "validate_lineage H s a =
     bind_res (validate_parents H s a (art_parent_artifact_ids a)) (\<lambda>_.
     case art_supersedes a of
       None \<Rightarrow> Inr ()
     | Some sid \<Rightarrow>
         bind_res (load_parent H s sid) (\<lambda>superseded.
         bind_res (guard_res (art_task_id superseded = art_task_id a) ArtifactParentError) (\<lambda>_.
         guard_res (art_kind superseded = art_kind a) ArtifactParentError)))"

definition artifact_put ::
  "artifact_hash \<Rightarrow> FileArtifactStore \<Rightarrow> Artifact \<Rightarrow> artifact_error + (ArtifactRef \<times> FileArtifactStore)" where
  "artifact_put H s a =
     bind_res (guard_res (\<not> as_read_only s) ArtifactStoreError) (\<lambda>_.
     bind_res (validate_for_put H a) (\<lambda>_.
     bind_res (artifact_path (art_artifact_id a)) (\<lambda>target.
     case row_of af_stem target (as_files s) of
       Some _ \<Rightarrow>
         bind_res (artifact_get H s (art_artifact_id a)) (\<lambda>existing.
         if existing = a then Inr (artifact_ref existing, s) else Inl ArtifactAlreadyExists)
     | None \<Rightarrow>
         bind_res (validate_lineage H s a) (\<lambda>_.
         Inr (artifact_ref a,
              s\<lparr>as_files := as_files s @ [\<lparr>af_stem = target, af_content = Decoded a\<rparr>]\<rparr>)))))"

fun list_files :: "artifact_hash \<Rightarrow> FileArtifactStore \<Rightarrow> string \<Rightarrow> artifact_file list \<Rightarrow> artifact_error + Artifact list" where
  "list_files H s task_id [] = Inr []"
| "list_files H s task_id (f # fs) =
     (case artifact_get H s (af_stem f) of
        Inl e \<Rightarrow> if e = ArtifactNotFound then list_files H s task_id fs else Inl e
      | Inr a \<Rightarrow>
          bind_res (list_files H s task_id fs) (\<lambda>rest.
          Inr (if art_task_id a = task_id then a # rest else rest)))"

definition list_for_task :: "artifact_hash \<Rightarrow> FileArtifactStore \<Rightarrow> string \<Rightarrow> artifact_error + Artifact list" where
  "list_for_task H s task_id =
     list_files H s task_id
       (sort_key (\<lambda>f. file_name (af_stem f)) (filter (\<lambda>f. take 4 (af_stem f) = ''art_'') (as_files s)))"

definition new_store :: FileArtifactStore where
  "new_store = \<lparr>as_files = [], as_read_only = False\<rparr>"

subsection \<open>The invariant\<close>

text \<open>
  Every file decodes to an Artifact that passes the checks of \<open>artifact_put\<close> under its own name,
  and every lineage edge of a file leads to an earlier file of the same Task.
\<close>

definition file_ok :: "artifact_hash \<Rightarrow> artifact_file \<Rightarrow> bool" where
  "file_ok H f \<longleftrightarrow>
     (\<exists>a. af_content f = Decoded a \<and> af_stem f = art_artifact_id a \<and> validate_for_put H a = Inr ())"

definition stored_artifacts :: "FileArtifactStore \<Rightarrow> Artifact list" where
  "stored_artifacts s = concat (map (\<lambda>f. case af_content f of Undecodable \<Rightarrow> [] | Decoded a \<Rightarrow> [a]) (as_files s))"

definition edges_within :: "Artifact list \<Rightarrow> Artifact \<Rightarrow> bool" where
  "edges_within earlier a \<longleftrightarrow>
     (\<forall>e \<in> set (lineage_edges a). \<exists>b \<in> set earlier. art_artifact_id b = e \<and> art_task_id b = art_task_id a) \<and>
     (\<forall>sid. art_supersedes a = Some sid \<longrightarrow>
        (\<exists>b \<in> set earlier. art_artifact_id b = sid \<and> art_kind b = art_kind a))"

definition lineage_ordered :: "Artifact list \<Rightarrow> bool" where
  "lineage_ordered as \<longleftrightarrow> (\<forall>earlier a later. as = earlier @ a # later \<longrightarrow> edges_within earlier a)"

definition store_inv :: "artifact_hash \<Rightarrow> FileArtifactStore \<Rightarrow> bool" where
  "store_inv H s \<longleftrightarrow>
     unique_key af_stem (as_files s) \<and> list_all (file_ok H) (as_files s) \<and>
     lineage_ordered (stored_artifacts s)"

lemma lineage_ordered_Nil [simp]: "lineage_ordered []"
  by (simp add: lineage_ordered_def)

lemma lineage_ordered_snoc: "lineage_ordered (as @ [a]) \<longleftrightarrow> lineage_ordered as \<and> edges_within as a"
proof
  assume l: "lineage_ordered (as @ [a])"
  have "edges_within earlier b" if "as = earlier @ b # later" for earlier b later
    using l that by (simp add: lineage_ordered_def)
  with l show "lineage_ordered as \<and> edges_within as a" by (simp add: lineage_ordered_def)
next
  assume r: "lineage_ordered as \<and> edges_within as a"
  show "lineage_ordered (as @ [a])"
    unfolding lineage_ordered_def
  proof (intro allI impI)
    fix earlier b later
    assume eq: "as @ [a] = earlier @ b # later"
    show "edges_within earlier b"
    proof (cases later rule: rev_cases)
      case Nil
      with eq r show ?thesis by simp
    next
      case (snoc ys y)
      with eq have "as = earlier @ b # ys" by simp
      with r show ?thesis by (simp add: lineage_ordered_def)
    qed
  qed
qed

lemma store_inv_new [simp]: "store_inv H new_store"
  by (simp add: store_inv_def new_store_def unique_key_def stored_artifacts_def)

lemma validate_for_put_Inr_iff:
  "validate_for_put H a = Inr u \<longleftrightarrow>
     art_schema_version a = SUPPORTED_ARTIFACT_SCHEMA_VERSION \<and> valid_Artifact a \<and>
     in_validated (art_integrity a) \<and> artifact_digest H a = Inr (in_sha256 (art_integrity a))"
  by (auto simp: validate_for_put_def bind_res_Inr_iff)

lemma valid_Artifact_id: "valid_Artifact a \<Longrightarrow> valid_ArtifactId (art_artifact_id a)"
  by (simp add: valid_Artifact_def)

lemma stored_ids:
  "list_all (file_ok H) fs \<Longrightarrow>
   map af_stem fs = map art_artifact_id (stored_artifacts (s\<lparr>as_files := fs\<rparr>))"
  by (induction fs) (auto simp: stored_artifacts_def file_ok_def)

lemma stored_ids_inv: "store_inv H s \<Longrightarrow> map af_stem (as_files s) = map art_artifact_id (stored_artifacts s)"
  using stored_ids [of H "as_files s" s] by (simp add: store_inv_def)

lemma stored_member:
  assumes "store_inv H s"
  shows "a \<in> set (stored_artifacts s) \<longleftrightarrow> \<lparr>af_stem = art_artifact_id a, af_content = Decoded a\<rparr> \<in> set (as_files s)"
proof -
  have "f = \<lparr>af_stem = art_artifact_id a, af_content = Decoded a\<rparr>"
    if "f \<in> set (as_files s)" "af_content f = Decoded a" for f
    using assms that by (auto simp: store_inv_def list_all_iff file_ok_def)
  then show ?thesis
    by (force simp: stored_artifacts_def split: file_content.splits)
qed

lemma stored_valid: "store_inv H s \<Longrightarrow> a \<in> set (stored_artifacts s) \<Longrightarrow> validate_for_put H a = Inr ()"
proof -
  assume s: "store_inv H s" and a: "a \<in> set (stored_artifacts s)"
  then have "file_ok H \<lparr>af_stem = art_artifact_id a, af_content = Decoded a\<rparr>"
    using stored_member [OF s, of a] by (simp add: store_inv_def list_all_iff)
  then show "validate_for_put H a = Inr ()" by (simp add: file_ok_def)
qed

lemma get_InrD:
  assumes "artifact_get H s i = Inr a"
  obtains f where "row_of af_stem i (as_files s) = Some f" "af_content f = Decoded a" "art_artifact_id a = i"
proof -
  have v: "valid_ArtifactId i" using assms by (auto simp: artifact_get_def artifact_path_def split: if_splits)
  show thesis
  proof (cases "row_of af_stem i (as_files s)")
    case None
    with assms v show thesis by (simp add: artifact_get_def artifact_path_def)
  next
    case (Some f)
    show thesis
    proof (cases "af_content f")
      case Undecodable
      with assms v Some show thesis by (simp add: artifact_get_def artifact_path_def)
    next
      case (Decoded b)
      with assms v Some have "b = a" "art_artifact_id b = i"
        by (simp_all add: artifact_get_def artifact_path_def split: if_splits sum.splits)
      with Some Decoded show thesis using that by blast
    qed
  qed
qed

lemma get_Inr_iff:
  assumes "store_inv H s"
  shows "artifact_get H s i = Inr a \<longleftrightarrow> a \<in> set (stored_artifacts s) \<and> art_artifact_id a = i"
proof
  assume "artifact_get H s i = Inr a"
  then obtain f where f: "row_of af_stem i (as_files s) = Some f" "af_content f = Decoded a" "art_artifact_id a = i"
    by (rule get_InrD)
  then have "f \<in> set (as_files s)" "af_stem f = i" by (auto dest: row_of_SomeD)
  then have "f = \<lparr>af_stem = art_artifact_id a, af_content = Decoded a\<rparr>" using f(2,3) by simp
  with \<open>f \<in> set (as_files s)\<close> f(3) show "a \<in> set (stored_artifacts s) \<and> art_artifact_id a = i"
    using stored_member [OF assms] by simp
next
  assume a: "a \<in> set (stored_artifacts s) \<and> art_artifact_id a = i"
  let ?f = "\<lparr>af_stem = art_artifact_id a, af_content = Decoded a\<rparr>"
  have "unique_key af_stem (as_files s)" using assms by (simp add: store_inv_def)
  then have "row_of af_stem (af_stem ?f) (as_files s) = Some ?f"
    using a stored_member [OF assms, of a] by (intro row_of_unique) blast+
  moreover have "validate_for_put H a = Inr ()" using stored_valid [OF assms] a by blast
  moreover from this have "valid_Artifact a" by (simp add: validate_for_put_Inr_iff)
  ultimately show "artifact_get H s i = Inr a"
    using a by (auto simp: artifact_get_def artifact_path_def valid_Artifact_id)
qed

lemma get_Inl:
  assumes "store_inv H s" and "artifact_get H s i = Inl e"
  shows "e = ArtifactNotFound \<and> i \<notin> art_artifact_id ` set (stored_artifacts s)"
proof
  show "i \<notin> art_artifact_id ` set (stored_artifacts s)"
    using assms get_Inr_iff [OF assms(1), of i] by force
  then have "row_of af_stem i (as_files s) = None"
    using stored_ids_inv [OF assms(1)] by (metis row_of_None_iff set_map)
  with assms(2) show "e = ArtifactNotFound"
    by (auto simp: artifact_get_def artifact_path_def split: if_splits)
qed

lemma stored_ids_distinct: "store_inv H s \<Longrightarrow> distinct (map art_artifact_id (stored_artifacts s))"
  using stored_ids_inv [of H s] by (simp add: store_inv_def unique_key_def)

subsection \<open>Storing\<close>

lemma load_parent_Inr: "load_parent H s i = Inr b \<longleftrightarrow> artifact_get H s i = Inr b"
  by (simp add: load_parent_def split: sum.splits)

lemma validate_parents_Inr:
  "validate_parents H s a ids = Inr u \<longleftrightarrow>
     (\<forall>i \<in> set ids. \<exists>b. artifact_get H s i = Inr b \<and> art_task_id b = art_task_id a)"
  by (induction ids) (auto simp: bind_res_Inr_iff load_parent_Inr)

lemma validate_lineage_edges:
  assumes "store_inv H s" and "validate_lineage H s a = Inr u"
  shows "edges_within (stored_artifacts s) a"
  using assms(2)
  by (auto simp: validate_lineage_def bind_res_Inr_iff validate_parents_Inr load_parent_Inr edges_within_def
      lineage_edges_def get_Inr_iff [OF assms(1)] split: option.splits)

lemma put_cases:
  assumes inv: "store_inv H s" and put: "artifact_put H s a = Inr (r, s')"
  obtains (stored) "a \<in> set (stored_artifacts s)" "s' = s" "r = artifact_ref a"
  | (added) "art_artifact_id a \<notin> art_artifact_id ` set (stored_artifacts s)" "validate_for_put H a = Inr ()"
      "edges_within (stored_artifacts s) a" "r = artifact_ref a"
      "s' = s\<lparr>as_files := as_files s @ [\<lparr>af_stem = art_artifact_id a, af_content = Decoded a\<rparr>]\<rparr>"
proof (cases "row_of af_stem (art_artifact_id a) (as_files s)")
  case None
  then have "art_artifact_id a \<notin> art_artifact_id ` set (stored_artifacts s)"
    using stored_ids_inv [OF inv] by (metis row_of_None_iff set_map)
  with None put validate_lineage_edges [OF inv] show thesis
    by (intro added) (auto simp: artifact_put_def artifact_path_def bind_res_Inr_iff split: if_splits)
next
  case (Some f)
  with put have "artifact_get H s (art_artifact_id a) = Inr a" "s' = s" "r = artifact_ref a"
    by (auto simp: artifact_put_def artifact_path_def bind_res_Inr_iff split: if_splits)
  then show thesis using stored get_Inr_iff [OF inv] by blast
qed

lemma put_stored:
  assumes "store_inv H s" and "artifact_put H s a = Inr (r, s')"
  shows "set (stored_artifacts s') = insert a (set (stored_artifacts s))"
  using assms by (rule put_cases) (auto simp: stored_artifacts_def)

lemma put_inv:
  assumes inv: "store_inv H s" and "artifact_put H s a = Inr (r, s')"
  shows "store_inv H s'"
  using assms
proof (cases rule: put_cases)
  case added
  have "art_artifact_id a \<notin> af_stem ` set (as_files s)"
    using added(1) stored_ids_inv [OF inv] by (metis set_map)
  moreover have "stored_artifacts s' = stored_artifacts s @ [a]"
    by (simp add: added(5) stored_artifacts_def)
  ultimately show ?thesis
    using inv added by (simp add: store_inv_def unique_key_def file_ok_def lineage_ordered_snoc)
qed (use inv in simp)

text \<open>
  The contract of the \<^verbatim>\<open>ArtifactStore\<close> protocol that its clients rely on: what was put is read
  back, and what can be read never changes.
\<close>

locale artifact_store =
  fixes put :: "'s \<Rightarrow> Artifact \<Rightarrow> 'e + ('r \<times> 's)"
    and get :: "'s \<Rightarrow> string \<Rightarrow> 'e + Artifact"
    and inv :: "'s \<Rightarrow> bool"
  assumes put_keeps: "inv s \<Longrightarrow> put s a = Inr (r, s') \<Longrightarrow> inv s'"
    and put_get: "inv s \<Longrightarrow> put s a = Inr (r, s') \<Longrightarrow> get s' (art_artifact_id a) = Inr a"
    and put_frame: "inv s \<Longrightarrow> put s a = Inr (r, s') \<Longrightarrow> get s i = Inr b \<Longrightarrow> get s' i = Inr b"
begin

lemma puts_keep:
  "inv s \<Longrightarrow> inv (run_ops (\<lambda>a s. map_option snd (res_to_option (put s a))) s as)"
  by (induction as arbitrary: s) (auto split: option.splits dest: put_keeps)

lemma puts_frame:
  "inv s \<Longrightarrow> get s i = Inr b \<Longrightarrow> get (run_ops (\<lambda>a s. map_option snd (res_to_option (put s a))) s as) i = Inr b"
  by (induction as arbitrary: s) (auto split: option.splits dest: put_frame put_keeps)

lemma put_immutable:
  "inv s \<Longrightarrow> put s a = Inr (r, s') \<Longrightarrow>
   get (run_ops (\<lambda>a s. map_option snd (res_to_option (put s a))) s' as) (art_artifact_id a) = Inr a"
  by (rule puts_frame [OF put_keeps put_get])

end

interpretation artifacts: artifact_store "artifact_put H" "artifact_get H" "store_inv H"
  for H
proof
  fix s a r s' i b
  assume inv: "store_inv H s" and put: "artifact_put H s a = Inr (r, s')"
  show keep: "store_inv H s'" by (rule put_inv [OF inv put])
  show "artifact_get H s' (art_artifact_id a) = Inr a"
    by (simp add: get_Inr_iff [OF keep] put_stored [OF inv put])
  assume "artifact_get H s i = Inr b"
  then show "artifact_get H s' i = Inr b"
    by (simp add: get_Inr_iff [OF keep] get_Inr_iff [OF inv] put_stored [OF inv put])
qed

subsection \<open>Listing\<close>

lemma list_files_stored:
  assumes "store_inv H s" and "set fs \<subseteq> set (as_files s)"
  shows "\<exists>as. list_files H s t fs = Inr as \<and>
    as = filter (\<lambda>a. art_task_id a = t) (stored_artifacts (s\<lparr>as_files := fs\<rparr>))"
  using assms(2)
proof (induction fs)
  case (Cons f fs)
  then have f: "f \<in> set (as_files s)" by simp
  then obtain a where a: "af_content f = Decoded a" "af_stem f = art_artifact_id a"
    using assms(1) by (auto simp: store_inv_def list_all_iff file_ok_def)
  then have "f = \<lparr>af_stem = art_artifact_id a, af_content = Decoded a\<rparr>" by simp
  with f have "artifact_get H s (af_stem f) = Inr a"
    using get_Inr_iff [OF assms(1)] stored_member [OF assms(1)] a(2) by simp
  with Cons a show ?case by (auto simp: stored_artifacts_def)
qed (simp add: stored_artifacts_def)

lemma stored_artifacts_set:
  "set (stored_artifacts s) = {a. \<exists>f \<in> set (as_files s). af_content f = Decoded a}"
  by (force simp: stored_artifacts_def split: file_content.splits)

lemma artifact_id_prefix: "valid_ArtifactId i \<Longrightarrow> take 4 i = ''art_''"
  by (simp add: valid_ArtifactId_def match_id_def numeral_eq_Suc)

lemma list_for_task_stored:
  assumes inv: "store_inv H s"
  shows "\<exists>as. list_for_task H s t = Inr as \<and> distinct (map art_artifact_id as) \<and>
    set as = {a \<in> set (stored_artifacts s). art_task_id a = t}"
proof -
  let ?fs = "sort_key (\<lambda>f. file_name (af_stem f)) (filter (\<lambda>f. take 4 (af_stem f) = ''art_'') (as_files s))"
  let ?as = "stored_artifacts (s\<lparr>as_files := ?fs\<rparr>)"
  have ok: "list_all (file_ok H) (as_files s)" "distinct (map af_stem (as_files s))"
    using inv by (simp_all add: store_inv_def unique_key_def)
  have all: "take 4 (af_stem f) = ''art_''" if "f \<in> set (as_files s)" for f
    using ok(1) that
    by (auto simp: list_all_iff file_ok_def validate_for_put_Inr_iff valid_Artifact_id intro!: artifact_id_prefix)
  have set_fs: "set ?fs = set (as_files s)" using all by auto
  have "list_all (file_ok H) ?fs" using ok(1) set_fs by (simp add: list_all_iff)
  from stored_ids [OF this, of s] have "map art_artifact_id ?as = map af_stem ?fs" by simp
  moreover have "distinct (map af_stem ?fs)"
    using ok(2) by (simp add: distinct_map inj_on_def)
  ultimately have "distinct (map art_artifact_id ?as)" by simp
  moreover have "set ?as = set (stored_artifacts s)"
    using set_fs by (simp add: stored_artifacts_set)
  moreover have "list_for_task H s t = Inr (filter (\<lambda>a. art_task_id a = t) ?as)"
    using list_files_stored [OF inv, of ?fs t] set_fs by (simp add: list_for_task_def)
  ultimately show ?thesis
    by (intro exI [of _ "filter (\<lambda>a. art_task_id a = t) ?as"]) (auto simp: distinct_map_filter)
qed

subsection \<open>What the store promises\<close>

text \<open>The directory after a sequence of \<^verbatim>\<open>put\<close> calls, of which any may fail.\<close>

definition put_all :: "artifact_hash \<Rightarrow> FileArtifactStore \<Rightarrow> Artifact list \<Rightarrow> FileArtifactStore" where
  "put_all H = run_ops (\<lambda>a s. map_option snd (res_to_option (artifact_put H s a)))"

lemma put_all_inv: "store_inv H s \<Longrightarrow> store_inv H (put_all H s as)"
  unfolding put_all_def by (rule artifacts.puts_keep)

text \<open>
  C7. Artifacts are immutable. After any history of \<^verbatim>\<open>put\<close> calls on a new store, an Artifact whose
  \<^verbatim>\<open>put\<close> succeeds is read back exactly, by id and in the list of its Task, after any further calls,
  and every later \<^verbatim>\<open>put\<close> of other content under its id is refused.
\<close>

theorem put_is_immutable:
  assumes "artifact_put H (put_all H new_store before) a = Inr (r, s)"
  shows "artifact_get H (put_all H s later) (art_artifact_id a) = Inr a \<and>
    (\<exists>as. list_for_task H (put_all H s later) (art_task_id a) = Inr as \<and> a \<in> set as) \<and>
    (\<forall>b. b \<noteq> a \<and> art_artifact_id b = art_artifact_id a \<longrightarrow> (\<exists>e. artifact_put H (put_all H s later) b = Inl e))"
proof (intro conjI allI impI)
  have inv: "store_inv H (put_all H new_store before)" by (simp add: put_all_inv)
  let ?s = "put_all H s later"
  have inv': "store_inv H ?s" by (rule put_all_inv [OF put_inv [OF inv assms]])
  show get: "artifact_get H ?s (art_artifact_id a) = Inr a"
    unfolding put_all_def by (rule artifacts.put_immutable [OF inv assms, unfolded put_all_def])
  then have a: "a \<in> set (stored_artifacts ?s)" by (simp add: get_Inr_iff [OF inv'])
  then show "\<exists>as. list_for_task H ?s (art_task_id a) = Inr as \<and> a \<in> set as"
    using list_for_task_stored [OF inv', of "art_task_id a"] by auto
  fix b
  assume b: "b \<noteq> a \<and> art_artifact_id b = art_artifact_id a"
  show "\<exists>e. artifact_put H ?s b = Inl e"
  proof (cases "artifact_put H ?s b")
    case (Inr x)
    then obtain r' s' where p: "artifact_put H ?s b = Inr (r', s')" by (cases x) auto
    have "artifact_get H s' (art_artifact_id a) = Inr b" using artifacts.put_get [OF inv' p] b by (metis (full_types))
    moreover have "artifact_get H s' (art_artifact_id a) = Inr a" by (rule artifacts.put_frame [OF inv' p get])
    ultimately show ?thesis using b by (metis Inr_inject)
  qed blast
qed

lemma sample_put: "\<exists>r s. artifact_put sample_hash (put_all sample_hash new_store []) sample_plan = Inr (r, s)"
proof -
  have "\<not> isl (artifact_put sample_hash (put_all sample_hash new_store []) sample_plan)" by code_simp
  then show ?thesis by (metis surj_pair sum.collapse(2))
qed

theorem put_is_immutable_witness:
  "\<exists>r s. artifact_put sample_hash (put_all sample_hash new_store []) sample_plan = Inr (r, s) \<and>
     artifact_get sample_hash (put_all sample_hash s [sample_progress [''s1''] [''s2'']]) (art_artifact_id sample_plan) =
       Inr sample_plan"
  using sample_put put_is_immutable [of sample_hash "[]" sample_plan _ _ "[sample_progress [''s1''] [''s2'']]"] by blast

end
