(* ===== verification/Artifact_Ordering.thy ===== *)
theory Artifact_Ordering
  imports Artifact_Store
begin

section \<open>The order of accepted Artifacts\<close>

text \<open>
  \<^verbatim>\<open>artifacts/ordering.py\<close>: which of two accepted Artifacts is the later one, and the latest of a
  kind. A dictionary of Artifacts by id is an association list (\<open>map_of\<close> finds the entry written
  last); the list \<open>pending\<close>, whose end the code pops, is a stack with its top first.
\<close>

type_synonym artifact_index = "(string \<times> Artifact) list"
type_synonym ArtifactOrderPosition = "string \<times> int \<times> int"

datatype ordering_error = ArtifactOrderingError

definition index_of :: "Artifact list \<Rightarrow> artifact_index" where
  "index_of as = rev (map (\<lambda>a. (art_artifact_id a, a)) as)"

subsection \<open>Lineage\<close>

function descend_loop :: "artifact_index \<Rightarrow> string \<Rightarrow> string list \<Rightarrow> string list \<Rightarrow> bool" where
  "descend_loop by_id ancestor [] seen = False"
| "descend_loop by_id ancestor (value # pending) seen =
     (if value = ancestor then True
      else if value \<in> set seen then descend_loop by_id ancestor pending seen
      else
        (case map_of by_id value of
           None \<Rightarrow> descend_loop by_id ancestor pending (value # seen)
         | Some parent \<Rightarrow>
             descend_loop by_id ancestor (rev (lineage_edges parent) @ pending) (value # seen)))"
  by pat_completeness auto

text \<open>Every iteration marks a new entry of the dictionary, or shortens the stack and marks none.\<close>

lemma unseen_decreases:
  assumes "map_of by_id v = Some p" and "v \<notin> set seen"
  shows "card (fst ` set by_id - insert v (set seen)) < card (fst ` set by_id - set seen)"
proof (rule psubset_card_mono)
  have "v \<in> fst ` set by_id" using assms(1) by (metis domI dom_map_of_conv_image_fst)
  with assms(2) show "fst ` set by_id - insert v (set seen) \<subset> fst ` set by_id - set seen" by blast
qed simp

lemma unseen_le: "card (fst ` set by_id - insert v (set seen)) \<le> card (fst ` set by_id - set seen)"
  by (intro card_mono) auto

termination descend_loop
proof (relation "measures [\<lambda>(by_id, _, _, seen). card (fst ` set by_id - set seen), \<lambda>(_, _, pending, _). length pending]")
  fix by_id :: artifact_index and ancestor v :: string and pending seen
  assume "v \<notin> set seen" and "map_of by_id v = None"
  show "((by_id, ancestor, pending, v # seen), by_id, ancestor, v # pending, seen) \<in>
      measures [\<lambda>(by_id, _, _, seen). card (fst ` set by_id - set seen), \<lambda>(_, _, pending, _). length pending]"
    using unseen_le [of by_id v seen] by auto
next
  fix by_id :: artifact_index and ancestor v :: string and pending seen p
  assume "v \<notin> set seen" and "map_of by_id v = Some p"
  then show "((by_id, ancestor, rev (lineage_edges p) @ pending, v # seen), by_id, ancestor, v # pending, seen) \<in>
      measures [\<lambda>(by_id, _, _, seen). card (fst ` set by_id - set seen), \<lambda>(_, _, pending, _). length pending]"
    using unseen_decreases [of by_id v p seen] by simp
qed auto

definition descends :: "string \<Rightarrow> string \<Rightarrow> artifact_index \<Rightarrow> bool" where
  "descends identity ancestor by_id =
     (case map_of by_id identity of
        None \<Rightarrow> False
      | Some current \<Rightarrow> descend_loop by_id ancestor (rev (lineage_edges current)) [])"

subsection \<open>Comparing and selecting\<close>

definition sealed_at :: "Artifact \<Rightarrow> instant option" where
  "sealed_at a = (if in_validated (art_integrity a) then in_validated_at (art_integrity a) else None)"

definition trusted_verdict ::
  "(string \<rightharpoonup> ArtifactOrderPosition) option \<Rightarrow> Artifact \<Rightarrow> Artifact \<Rightarrow> int option" where
  "trusted_verdict trusted_order left right =
     (case trusted_order of
        None \<Rightarrow> None
      | Some pos \<Rightarrow>
          (case (pos (art_artifact_id left), pos (art_artifact_id right)) of
             (Some (ln, lp), Some (rn, rp)) \<Rightarrow>
               if ln = rn \<and> lp \<noteq> rp then Some (if lp > rp then 1 else - 1) else None
           | _ \<Rightarrow> None))"

definition compare_artifact_order ::
  "Artifact list \<Rightarrow> (string \<rightharpoonup> ArtifactOrderPosition) option \<Rightarrow> Artifact \<Rightarrow> Artifact \<Rightarrow>
   ordering_error + int option" where
  "compare_artifact_order artifacts trusted_order left right =
     (if art_task_id left \<noteq> art_task_id right then Inl ArtifactOrderingError
      else
        (case (sealed_at left, sealed_at right) of
           (Some left_sealed_at, Some right_sealed_at) \<Rightarrow>
             if art_artifact_id left = art_artifact_id right then
               (if left \<noteq> right then Inl ArtifactOrderingError else Inr (Some 0))
             else
               (case trusted_verdict trusted_order left right of
                  Some v \<Rightarrow> Inr (Some v)
                | None \<Rightarrow>
                    if left_sealed_at \<noteq> right_sealed_at then
                      Inr (Some (if left_sealed_at > right_sealed_at then 1 else - 1))
                    else
                      (let by_id = index_of (artifacts @ [left, right]);
                           left_descends = descends (art_artifact_id left) (art_artifact_id right) by_id;
                           right_descends = descends (art_artifact_id right) (art_artifact_id left) by_id
                       in if left_descends \<and> right_descends then Inl ArtifactOrderingError
                          else if left_descends then Inr (Some 1)
                          else if right_descends then Inr (Some (- 1))
                          else Inr None))
         | _ \<Rightarrow> Inl ArtifactOrderingError))"

text \<open>
  The closure of the excluded ids under \<open>supersedes\<close>. The initial list is the iteration order of
  the frozen set.
\<close>

function exclude_loop :: "artifact_index \<Rightarrow> string list \<Rightarrow> string list \<Rightarrow> ordering_error + string list" where
  "exclude_loop by_id [] excluded = Inr excluded"
| "exclude_loop by_id (i # pending) excluded =
     (case map_of by_id i of
        None \<Rightarrow> exclude_loop by_id pending excluded
      | Some a \<Rightarrow>
          (case art_supersedes a of
             None \<Rightarrow> exclude_loop by_id pending excluded
           | Some sid \<Rightarrow>
               (case map_of by_id sid of
                  None \<Rightarrow> exclude_loop by_id pending excluded
                | Some ancestor \<Rightarrow>
                    if (art_task_id ancestor, art_kind ancestor) \<noteq> (art_task_id a, art_kind a)
                    then Inl ArtifactOrderingError
                    else if art_artifact_id ancestor \<notin> set excluded
                    then exclude_loop by_id (art_artifact_id ancestor # pending) (art_artifact_id ancestor # excluded)
                    else exclude_loop by_id pending excluded)))"
  by pat_completeness auto

lemma unexcluded_decreases:
  assumes "map_of by_id k = Some p" and "i \<notin> set seen" and "i = art_artifact_id p"
  shows "card (art_artifact_id ` snd ` set by_id - insert i (set seen)) < card (art_artifact_id ` snd ` set by_id - set seen)"
proof (rule psubset_card_mono)
  have "i \<in> art_artifact_id ` snd ` set by_id" using assms(1,3) by (force dest: map_of_SomeD)
  with assms(2) show "art_artifact_id ` snd ` set by_id - insert i (set seen) \<subset> art_artifact_id ` snd ` set by_id - set seen"
    by blast
qed simp

termination exclude_loop
  by (relation "measures [\<lambda>(by_id, _, excluded). card (art_artifact_id ` snd ` set by_id - set excluded),
        \<lambda>(_, pending, _). length pending]")
    (auto dest: unexcluded_decreases)

fun any_later :: "('a \<Rightarrow> ordering_error + int option) \<Rightarrow> 'a list \<Rightarrow> ordering_error + bool" where
  "any_later cmp [] = Inr False"
| "any_later cmp (x # xs) = bind_res (cmp x) (\<lambda>v. if v = Some 1 then Inr True else any_later cmp xs)"

fun maximal_of :: "(Artifact \<Rightarrow> Artifact \<Rightarrow> ordering_error + int option) \<Rightarrow> Artifact list \<Rightarrow> Artifact list \<Rightarrow>
    ordering_error + Artifact list" where
  "maximal_of cmp candidates [] = Inr []"
| "maximal_of cmp candidates (a # as) =
     bind_res (any_later (\<lambda>other. cmp other a) (filter (\<lambda>other. art_artifact_id other \<noteq> art_artifact_id a) candidates))
       (\<lambda>later. bind_res (maximal_of cmp candidates as) (\<lambda>rest. Inr (if later then rest else a # rest)))"

definition latest_accepted_artifact ::
  "Artifact list \<Rightarrow> ArtifactKind \<Rightarrow> (string \<rightharpoonup> ArtifactOrderPosition) option \<Rightarrow> string list \<Rightarrow>
   ordering_error + Artifact option" where
  "latest_accepted_artifact artifacts artifact_type trusted_order excluded_artifact_ids =
     bind_res (guard_res (\<not> list_ex (\<lambda>a. sealed_at a = None) artifacts) ArtifactOrderingError) (\<lambda>_.
     let by_id = index_of artifacts in
     bind_res (guard_res (card (fst ` set by_id) = length artifacts) ArtifactOrderingError) (\<lambda>_.
     bind_res (guard_res (\<not> list_ex (\<lambda>a. descends (art_artifact_id a) (art_artifact_id a) by_id) artifacts)
       ArtifactOrderingError) (\<lambda>_.
     bind_res (exclude_loop by_id (rev excluded_artifact_ids) excluded_artifact_ids) (\<lambda>excluded.
     let candidates = filter (\<lambda>a. art_kind a = artifact_type \<and> art_artifact_id a \<notin> set excluded) artifacts in
     if candidates = [] then Inr None
     else
       bind_res (maximal_of (compare_artifact_order artifacts trusted_order) candidates candidates) (\<lambda>maximal.
       case maximal of [a] \<Rightarrow> Inr (Some a) | _ \<Rightarrow> Inl ArtifactOrderingError)))))"

subsection \<open>The chosen Artifact is a candidate\<close>

lemma exclude_loop_keeps: "exclude_loop by_id pending excluded = Inr ex \<Longrightarrow> set excluded \<subseteq> set ex"
proof (induction by_id pending excluded rule: exclude_loop.induct)
  case (2 by_id i pending excluded)
  from "2.prems" "2.IH" show ?case
    unfolding exclude_loop.simps(2) [of by_id i pending excluded]
    by (auto simp del: exclude_loop.simps split: option.splits if_splits)
qed simp

lemma maximal_of_subset: "maximal_of cmp C as = Inr bs \<Longrightarrow> set bs \<subseteq> set as"
  by (induction as arbitrary: bs) (fastforce simp: bind_res_Inr_iff split: if_splits)+

lemma sole_member: "(case xs of [a] \<Rightarrow> Inr (Some a) | _ \<Rightarrow> Inl e) = Inr (Some b) \<longleftrightarrow> xs = [b]"
  by (auto split: list.split)

lemma latest_accepted_member:
  assumes "latest_accepted_artifact as kind ord ex = Inr (Some a)"
  shows "a \<in> set as" and "art_kind a = kind" and "art_artifact_id a \<notin> set ex"
  using assms
  by (auto simp: latest_accepted_artifact_def bind_res_Inr_iff Let_def sole_member split: if_splits
      dest!: maximal_of_subset exclude_loop_keeps)

subsection \<open>Lineage is reachability\<close>

definition lineage :: "artifact_index \<Rightarrow> (string \<times> string) set" where
  "lineage by_id = {(v, w). \<exists>p. map_of by_id v = Some p \<and> w \<in> set (lineage_edges p)}"

lemma lineage_iff: "map_of by_id v = Some p \<Longrightarrow> (v, w) \<in> lineage by_id \<longleftrightarrow> w \<in> set (lineage_edges p)"
  by (simp add: lineage_def)

lemma lineage_None: "map_of by_id v = None \<Longrightarrow> (v, w) \<notin> lineage by_id"
  by (simp add: lineage_def)

definition explored :: "artifact_index \<Rightarrow> string \<Rightarrow> string list \<Rightarrow> string list \<Rightarrow> bool" where
  "explored by_id ancestor pending seen \<longleftrightarrow>
     (\<forall>v \<in> set seen. v \<noteq> ancestor \<and> (\<forall>w. (v, w) \<in> lineage by_id \<longrightarrow> w \<in> set seen \<union> set pending))"

lemma explored_exit:
  assumes "explored by_id ancestor pending seen" and "v \<in> set seen" and "(v, ancestor) \<in> (lineage by_id)\<^sup>*"
  shows "\<exists>w \<in> set pending. (w, ancestor) \<in> (lineage by_id)\<^sup>*"
  using assms(3,2)
proof (induction rule: converse_rtrancl_induct)
  case base
  with assms(1) show ?case by (auto simp: explored_def)
next
  case (step v w)
  then have "w \<in> set seen \<union> set pending" using assms(1) by (auto simp: explored_def)
  with step show ?case by auto
qed

lemma reach_step: "v \<noteq> a \<Longrightarrow> (v, a) \<in> r\<^sup>* \<longleftrightarrow> (\<exists>w. (v, w) \<in> r \<and> (w, a) \<in> r\<^sup>*)"
  by (metis converse_rtranclE converse_rtrancl_into_rtrancl)

lemma descend_loop_reach:
  "explored by_id ancestor pending seen \<Longrightarrow>
   descend_loop by_id ancestor pending seen \<longleftrightarrow> (\<exists>v \<in> set pending. (v, ancestor) \<in> (lineage by_id)\<^sup>*)"
proof (induction by_id ancestor pending seen rule: descend_loop.induct)
  case (2 by_id ancestor v pending seen)
  consider "v = ancestor" | "v \<noteq> ancestor" "v \<in> set seen" | "v \<noteq> ancestor" "v \<notin> set seen" "map_of by_id v = None"
    | p where "v \<noteq> ancestor" "v \<notin> set seen" "map_of by_id v = Some p"
    by (cases "map_of by_id v") blast+
  then show ?case
  proof cases
    case 1
    then show ?thesis by auto
  next
    case 2
    then have e: "explored by_id ancestor pending seen" using "2.prems" by (auto simp: explored_def)
    show ?thesis using "2.IH"(1) 2 e explored_exit [OF e 2(2)] by auto
  next
    case 3
    then have "explored by_id ancestor pending (v # seen)" using "2.prems" by (auto simp: explored_def lineage_None)
    then show ?thesis using "2.IH"(2) 3 reach_step [OF 3(1)] by (auto simp: lineage_None)
  next
    case 4
    then have "explored by_id ancestor (rev (lineage_edges p) @ pending) (v # seen)"
      using "2.prems" by (auto simp: explored_def lineage_iff)
    then show ?thesis
      using "2.IH"(3) 4 reach_step [OF 4(1), of "lineage by_id"] by (auto simp: lineage_iff)
  qed
qed simp

lemma descends_iff: "descends identity ancestor by_id \<longleftrightarrow> (identity, ancestor) \<in> (lineage by_id)\<^sup>+"
proof (cases "map_of by_id identity")
  case None
  then show ?thesis by (auto simp: descends_def lineage_None dest: tranclD)
next
  case (Some a)
  have "descends identity ancestor by_id \<longleftrightarrow> (\<exists>v \<in> set (lineage_edges a). (v, ancestor) \<in> (lineage by_id)\<^sup>*)"
    using descend_loop_reach [of by_id ancestor "rev (lineage_edges a)" "[]"] Some
    by (simp add: descends_def explored_def)
  also have "\<dots> \<longleftrightarrow> (identity, ancestor) \<in> (lineage by_id)\<^sup>+"
    using Some by (auto simp: lineage_iff dest!: tranclD intro: rtrancl_into_trancl2)
  finally show ?thesis .
qed

subsection \<open>A stored lineage has no cycle\<close>

lemma index_of_Some: "map_of (index_of as) v = Some a \<Longrightarrow> a \<in> set as \<and> art_artifact_id a = v"
  by (auto simp: index_of_def dest!: map_of_SomeD)

lemma index_of_member:
  "distinct (map art_artifact_id as) \<Longrightarrow> a \<in> set as \<Longrightarrow> map_of (index_of as) (art_artifact_id a) = Some a"
  by (auto simp: index_of_def rev_map [symmetric] comp_def intro!: map_of_is_SomeI)

definition position :: "Artifact list \<Rightarrow> string \<Rightarrow> nat" where
  "position as i = length (takeWhile (\<lambda>a. art_artifact_id a \<noteq> i) as)"

lemma position_at: "art_artifact_id a \<notin> art_artifact_id ` set earlier \<Longrightarrow>
    position (earlier @ a # later) (art_artifact_id a) = length earlier"
  by (induction earlier) (auto simp: position_def)

lemma position_earlier: "i \<in> art_artifact_id ` set earlier \<Longrightarrow> position (earlier @ later) i < length earlier"
  by (induction earlier) (auto simp: position_def)

lemma lineage_position:
  assumes "lineage_ordered as" and "distinct (map art_artifact_id as)" and "set bs \<subseteq> set as"
    and "(v, w) \<in> lineage (index_of bs)"
  shows "position as w < position as v"
proof -
  obtain a where a: "a \<in> set as" "art_artifact_id a = v" "w \<in> set (lineage_edges a)"
    using assms(3,4) by (auto simp: lineage_def dest!: index_of_Some)
  then obtain earlier later where as: "as = earlier @ a # later" by (metis split_list)
  then have "edges_within earlier a" using assms(1) by (simp add: lineage_ordered_def)
  then have "w \<in> art_artifact_id ` set earlier" using a(3) by (auto simp: edges_within_def)
  then show ?thesis
    using position_earlier [of w earlier "a # later"] position_at [of a earlier later] assms(2) a(2)
    by (simp add: as)
qed

lemma lineage_acyclic:
  assumes "lineage_ordered as" and "distinct (map art_artifact_id as)" and "set bs \<subseteq> set as"
  shows "(v, v) \<notin> (lineage (index_of bs))\<^sup>+"
proof -
  have "position as w < position as v" if "(v, w) \<in> (lineage (index_of bs))\<^sup>+" for v w
    using that by (induction rule: trancl_induct) (auto dest: lineage_position [OF assms])
  then show ?thesis by blast
qed

subsection \<open>The order of publication\<close>

text \<open>
  The reference order without trusted positions: the later seal, and between equal seals the
  descendant.
\<close>

definition published_later :: "Artifact list \<Rightarrow> Artifact \<Rightarrow> Artifact \<Rightarrow> bool" where
  "published_later as a b \<longleftrightarrow>
     (\<exists>s t. sealed_at a = Some s \<and> sealed_at b = Some t \<and>
        (t < s \<or> s = t \<and> (art_artifact_id a, art_artifact_id b) \<in> (lineage (index_of as))\<^sup>+))"

text \<open>A history as the store returns it: one Task, sealed, distinct ids, no lineage cycle.\<close>

definition accepted_history :: "Artifact list \<Rightarrow> bool" where
  "accepted_history as \<longleftrightarrow>
     (\<exists>t. \<forall>a \<in> set as. art_task_id a = t) \<and> (\<forall>a \<in> set as. sealed_at a \<noteq> None) \<and>
     distinct (map art_artifact_id as) \<and> (\<forall>v. (v, v) \<notin> (lineage (index_of as))\<^sup>+)"

lemma published_later_irrefl: "accepted_history as \<Longrightarrow> \<not> published_later as a a"
  by (auto simp: published_later_def accepted_history_def)

lemma published_later_trans: "published_later as a b \<Longrightarrow> published_later as b c \<Longrightarrow> published_later as a c"
  by (force simp: published_later_def dest: trancl_trans)

lemma published_later_asym: "accepted_history as \<Longrightarrow> published_later as a b \<Longrightarrow> \<not> published_later as b a"
  using published_later_irrefl published_later_trans by blast

lemma index_of_again:
  assumes "distinct (map art_artifact_id as)" and "a \<in> set as" "b \<in> set as"
  shows "map_of (index_of (as @ [a, b])) = map_of (index_of as)"
proof
  fix v
  have "map_of (index_of as) (art_artifact_id a) = Some a" "map_of (index_of as) (art_artifact_id b) = Some b"
    using assms by (simp_all add: index_of_member)
  then show "map_of (index_of (as @ [a, b])) v = map_of (index_of as) v"
    by (simp add: index_of_def)
qed

lemma compare_published:
  assumes h: "accepted_history as" and ab: "a \<in> set as" "b \<in> set as" "a \<noteq> b"
  shows "compare_artifact_order as None a b =
    Inr (if published_later as a b then Some 1 else if published_later as b a then Some (- 1) else None)"
proof -
  obtain s t where st: "sealed_at a = Some s" "sealed_at b = Some t"
    using h ab by (fastforce simp: accepted_history_def)
  have ids: "art_artifact_id a \<noteq> art_artifact_id b"
    using h ab by (auto simp: accepted_history_def distinct_map dest: inj_onD)
  have "lineage (index_of (as @ [a, b])) = lineage (index_of as)"
    using index_of_again [OF _ ab(1,2)] h by (simp add: lineage_def accepted_history_def)
  then have d: "descends x y (index_of (as @ [a, b])) \<longleftrightarrow> (x, y) \<in> (lineage (index_of as))\<^sup>+" for x y
    by (simp add: descends_iff)
  have task: "art_task_id a = art_task_id b" using h ab by (auto simp: accepted_history_def)
  have nc: "\<not> ((art_artifact_id a, art_artifact_id b) \<in> (lineage (index_of as))\<^sup>+ \<and>
      (art_artifact_id b, art_artifact_id a) \<in> (lineage (index_of as))\<^sup>+)"
    using h trancl_trans by (fastforce simp: accepted_history_def)
  show ?thesis
  proof (cases "s = t")
    case True
    with st ids task nc show ?thesis
      by (auto simp: compare_artifact_order_def trusted_verdict_def Let_def d published_later_def)
  next
    case False
    with st ids task show ?thesis
      by (auto simp: compare_artifact_order_def trusted_verdict_def published_later_def)
  qed
qed

lemma any_later_total:
  assumes "\<And>x. x \<in> set xs \<Longrightarrow> \<exists>v. cmp x = Inr v"
  shows "any_later cmp xs = Inr (\<exists>x \<in> set xs. cmp x = Inr (Some 1))"
  using assms
proof (induction xs)
  case (Cons x xs)
  then obtain v where "cmp x = Inr v" by auto
  with Cons show ?case by auto
qed simp

lemma maximal_of_published:
  assumes h: "accepted_history as" and C: "set C \<subseteq> set as" and xs: "set xs \<subseteq> set C"
  shows "maximal_of (compare_artifact_order as None) C xs =
    Inr (filter (\<lambda>a. \<forall>b \<in> set C. \<not> published_later as b a) xs)"
  using xs
proof (induction xs)
  case (Cons a xs)
  have a: "a \<in> set as" using Cons.prems C by auto
  have ids: "art_artifact_id b \<noteq> art_artifact_id a \<longleftrightarrow> b \<noteq> a" if "b \<in> set C" for b
    using h a that C by (auto simp: accepted_history_def distinct_map dest: inj_onD)
  have cmp: "compare_artifact_order as None b a =
      Inr (if published_later as b a then Some 1 else if published_later as a b then Some (- 1) else None)"
    if "b \<in> set C" "b \<noteq> a" for b using compare_published [OF h _ a] that C by blast
  have "any_later (\<lambda>b. compare_artifact_order as None b a) (filter (\<lambda>b. art_artifact_id b \<noteq> art_artifact_id a) C) =
      Inr (\<exists>b \<in> set C. published_later as b a)"
  proof (subst any_later_total)
    show "\<exists>v. compare_artifact_order as None b a = Inr v"
      if "b \<in> set (filter (\<lambda>b. art_artifact_id b \<noteq> art_artifact_id a) C)" for b
      using that cmp ids by auto
    have "compare_artifact_order as None b a = Inr (Some 1) \<longleftrightarrow> published_later as b a"
      if "b \<in> set C" "b \<noteq> a" for b using cmp [OF that] by simp
    then show "Inr (\<exists>b \<in> set (filter (\<lambda>b. art_artifact_id b \<noteq> art_artifact_id a) C).
        compare_artifact_order as None b a = Inr (Some 1)) = Inr (\<exists>b \<in> set C. published_later as b a)"
      using ids published_later_irrefl [OF h, of a] by (auto 4 3)
  qed
  with Cons show ?case by auto
qed simp

lemma maximal_above:
  assumes h: "accepted_history as" and "finite C" and "x \<in> C"
  shows "\<exists>m \<in> C. (\<forall>y \<in> C. \<not> published_later as y m) \<and> (m = x \<or> published_later as m x)"
  using assms(3)
proof (induction "card {y \<in> C. published_later as y x}" arbitrary: x rule: less_induct)
  case less
  show ?case
  proof (cases "\<exists>y \<in> C. published_later as y x")
    case True
    then obtain y where y: "y \<in> C" "published_later as y x" by blast
    have "{z \<in> C. published_later as z y} \<subset> {z \<in> C. published_later as z x}"
      using y published_later_trans published_later_irrefl [OF h] by blast
    then have "card {z \<in> C. published_later as z y} < card {z \<in> C. published_later as z x}"
      using assms(2) by (simp add: psubset_card_mono)
    with less.hyps [OF this y(1)] y(2) published_later_trans show ?thesis by blast
  qed (use less.prems in blast)
qed

lemma filter_singleton:
  assumes "distinct xs"
  shows "filter P xs = [a] \<longleftrightarrow> a \<in> set xs \<and> P a \<and> (\<forall>b \<in> set xs. P b \<longrightarrow> b = a)"
proof
  assume "filter P xs = [a]"
  then have "set (filter P xs) = {a}" by simp
  then show "a \<in> set xs \<and> P a \<and> (\<forall>b \<in> set xs. P b \<longrightarrow> b = a)" by auto
next
  assume "a \<in> set xs \<and> P a \<and> (\<forall>b \<in> set xs. P b \<longrightarrow> b = a)"
  then have "set (filter P xs) = {a}" by auto
  moreover have "distinct (filter P xs)" using assms by simp
  ultimately show "filter P xs = [a]"
    by (metis distinct_card card.empty card_insert_disjoint empty_iff finite.emptyI length_0_conv length_Suc_conv
        list.set_intros(1) singletonD One_nat_def)
qed

lemma unique_maximal_greatest:
  assumes h: "accepted_history as" and C: "distinct C"
  shows "filter (\<lambda>a. \<forall>b \<in> set C. \<not> published_later as b a) C = [a] \<longleftrightarrow>
    a \<in> set C \<and> (\<forall>b \<in> set C. b \<noteq> a \<longrightarrow> published_later as a b)"
  using maximal_above [OF h, of "set C"] published_later_asym [OF h]
  unfolding filter_singleton [OF C] by (metis List.finite_set)

subsection \<open>Retired Artifacts\<close>

definition replaces :: "artifact_index \<Rightarrow> (string \<times> string) set" where
  "replaces by_id =
     {(x, y). \<exists>p q. map_of by_id x = Some p \<and> art_supersedes p = Some y \<and> map_of by_id y = Some q}"

definition same_kind_replaced :: "artifact_index \<Rightarrow> bool" where
  "same_kind_replaced by_id \<longleftrightarrow>
     (\<forall>x y p q. map_of by_id x = Some p \<and> art_supersedes p = Some y \<and> map_of by_id y = Some q \<longrightarrow>
        art_task_id q = art_task_id p \<and> art_kind q = art_kind p \<and> art_artifact_id q = y)"

definition closing :: "artifact_index \<Rightarrow> string list \<Rightarrow> string list \<Rightarrow> bool" where
  "closing by_id pending excluded \<longleftrightarrow>
     (\<forall>x \<in> set excluded. x \<in> set pending \<or> (\<forall>y. (x, y) \<in> replaces by_id \<longrightarrow> y \<in> set excluded))"

lemma closing_done: "closing by_id [] excluded \<Longrightarrow> (replaces by_id)\<^sup>* `` set excluded = set excluded"
  by (rule Image_closed_trancl) (auto simp: closing_def)

lemma exclude_loop_closure:
  assumes "same_kind_replaced by_id"
  shows "closing by_id pending excluded \<Longrightarrow> set pending \<subseteq> set excluded \<Longrightarrow>
    \<exists>ex. exclude_loop by_id pending excluded = Inr ex \<and> set ex = (replaces by_id)\<^sup>* `` set excluded"
  using assms
proof (induction by_id pending excluded rule: exclude_loop.induct)
  case (1 by_id excluded)
  then show ?case using closing_done by auto
next
  case (2 by_id i pending excluded)
  consider (last) "\<forall>y. (i, y) \<in> replaces by_id \<longrightarrow> y \<in> set excluded"
      "exclude_loop by_id (i # pending) excluded = exclude_loop by_id pending excluded"
      "closing by_id pending excluded \<Longrightarrow> \<exists>ex. exclude_loop by_id pending excluded = Inr ex \<and>
         set ex = (replaces by_id)\<^sup>* `` set excluded"
    | (more) a sid q where "map_of by_id i = Some a" "art_supersedes a = Some sid" "map_of by_id sid = Some q"
      "sid \<notin> set excluded" "art_artifact_id q = sid" "art_task_id q = art_task_id a" "art_kind q = art_kind a"
  proof (cases "map_of by_id i")
    case None
    with 2 show thesis by (intro last) (auto simp: replaces_def)
  next
    case (Some a)
    show thesis
    proof (cases "art_supersedes a")
      case None
      with Some 2 show thesis by (intro last) (auto simp: replaces_def)
    next
      case sid: (Some sid)
      show thesis
      proof (cases "map_of by_id sid")
        case None
        with Some sid 2 show thesis by (intro last) (auto simp: replaces_def)
      next
        case q: (Some q)
        then have k: "art_artifact_id q = sid" "art_task_id q = art_task_id a" "art_kind q = art_kind a"
          using "2.prems"(3) Some sid by (auto simp: same_kind_replaced_def)
        show thesis
        proof (cases "sid \<in> set excluded")
          case True
          with Some sid q k 2 show thesis by (intro last) (auto simp: replaces_def)
        qed (use Some sid q k more in blast)
      qed
    qed
  qed
  then show ?case
  proof cases
    case last
    then have "closing by_id pending excluded" using "2.prems"(1) by (auto simp: closing_def)
    with last show ?thesis by simp
  next
    case more
    have step: "(i, sid) \<in> replaces by_id" using more by (auto simp: replaces_def)
    have "y = sid" if "(i, y) \<in> replaces by_id" for y using that more by (auto simp: replaces_def)
    then have "closing by_id (sid # pending) (sid # excluded)"
      using "2.prems"(1) by (auto simp: closing_def)
    then obtain ex where ex: "exclude_loop by_id (sid # pending) (sid # excluded) = Inr ex"
        "set ex = (replaces by_id)\<^sup>* `` set (sid # excluded)"
      using "2.IH"(4) [OF more(1-3)] more(4-7) "2.prems" by auto
    have "i \<in> set excluded" using "2.prems"(2) by simp
    then have "(replaces by_id)\<^sup>* `` set (sid # excluded) = (replaces by_id)\<^sup>* `` set excluded"
      using step by (auto intro: converse_rtrancl_into_rtrancl)
    with ex more show ?thesis by simp
  qed
qed

subsection \<open>The latest Artifact of a stored history\<close>

lemma stored_sealed:
  assumes "store_inv H s" and "a \<in> set (stored_artifacts s)"
  shows "sealed_at a \<noteq> None"
  using stored_valid [OF assms]
  by (auto simp: validate_for_put_Inr_iff sealed_at_def valid_Artifact_def valid_ArtifactIntegrity_def)

lemma stored_history:
  assumes inv: "store_inv H s" and l: "list_for_task H s t = Inr as"
  shows "accepted_history as" "same_kind_replaced (index_of as)"
proof -
  have as: "distinct (map art_artifact_id as)" "set as = {a \<in> set (stored_artifacts s). art_task_id a = t}"
    using list_for_task_stored [OF inv, of t] l by auto
  have lo: "lineage_ordered (stored_artifacts s)" using inv by (simp add: store_inv_def)
  note ids = stored_ids_distinct [OF inv]
  have "set as \<subseteq> set (stored_artifacts s)" using as(2) by blast
  from lineage_acyclic [OF lo ids this] show "accepted_history as"
    using as stored_sealed [OF inv] by (auto simp: accepted_history_def)
  show "same_kind_replaced (index_of as)"
    unfolding same_kind_replaced_def
  proof (intro allI impI)
    fix x y p q
    assume h: "map_of (index_of as) x = Some p \<and> art_supersedes p = Some y \<and> map_of (index_of as) y = Some q"
    then have p: "p \<in> set as" and q: "q \<in> set as" "art_artifact_id q = y" by (auto dest: index_of_Some)
    then obtain earlier later where e: "stored_artifacts s = earlier @ p # later"
      using as(2) by (metis (mono_tags, lifting) mem_Collect_eq split_list)
    then have "edges_within earlier p" using lo by (simp add: lineage_ordered_def)
    then obtain b where b: "b \<in> set earlier" "art_artifact_id b = y" "art_kind b = art_kind p"
      using h by (auto simp: edges_within_def)
    have "b = q" using ids b q as(2) e by (auto simp: distinct_map dest: inj_onD)
    then show "art_task_id q = art_task_id p \<and> art_kind q = art_kind p \<and> art_artifact_id q = y"
      using b q p as(2) by auto
  qed
qed

lemma latest_of_history:
  assumes h: "accepted_history as" and k: "same_kind_replaced (index_of as)"
  obtains C where "set C = {a \<in> set as. art_kind a = kind \<and> art_artifact_id a \<notin> (replaces (index_of as))\<^sup>* `` set ex}"
    "distinct C"
    "latest_accepted_artifact as kind None ex =
       (if C = [] then Inr None
        else (case filter (\<lambda>a. \<forall>b \<in> set C. \<not> published_later as b a) C of
                [a] \<Rightarrow> Inr (Some a) | _ \<Rightarrow> Inl ArtifactOrderingError))"
proof -
  have d: "distinct (map art_artifact_id as)" using h by (simp add: accepted_history_def)
  obtain excl where excl: "exclude_loop (index_of as) (rev ex) ex = Inr excl"
      "set excl = (replaces (index_of as))\<^sup>* `` set ex"
    using exclude_loop_closure [OF k, of "rev ex" ex] by (auto simp: closing_def)
  let ?C = "filter (\<lambda>a. art_kind a = kind \<and> art_artifact_id a \<notin> set excl) as"
  have sealed: "\<not> list_ex (\<lambda>a. sealed_at a = None) as" using h by (auto simp: accepted_history_def list_ex_iff)
  have "fst ` set (index_of as) = set (map art_artifact_id as)" by (force simp: index_of_def)
  then have card: "card (fst ` set (index_of as)) = length as" using distinct_card [OF d] by simp
  have acyc: "\<not> list_ex (\<lambda>a. descends (art_artifact_id a) (art_artifact_id a) (index_of as)) as"
    using h by (auto simp: accepted_history_def list_ex_iff descends_iff)
  have "maximal_of (compare_artifact_order as None) ?C ?C =
      Inr (filter (\<lambda>a. \<forall>b \<in> set ?C. \<not> published_later as b a) ?C)"
    by (rule maximal_of_published [OF h]) auto
  then have "latest_accepted_artifact as kind None ex =
      (if ?C = [] then Inr None
       else (case filter (\<lambda>a. \<forall>b \<in> set ?C. \<not> published_later as b a) ?C of
               [a] \<Rightarrow> Inr (Some a) | _ \<Rightarrow> Inl ArtifactOrderingError))"
    unfolding latest_accepted_artifact_def Let_def using sealed card acyc excl(1)
    by (simp only: bind_res_simps bind_guard_simps if_False if_True simp_thms split: if_split)
  then show thesis
    using that [of ?C] d excl(2) by (auto simp: distinct_map)
qed

lemma list_case_singleton:
  "(case xs of [a] \<Rightarrow> Inr (Some a) | _ \<Rightarrow> Inl e) = Inr (Some b) \<longleftrightarrow> xs = [b]"
  "(case xs of [a] \<Rightarrow> Inr (Some a) | _ \<Rightarrow> Inl e) \<noteq> Inr None"
  by (auto split: list.splits)

text \<open>
  C34. The latest Artifact of a kind, on any history that a new store accepted. It is absent exactly
  when every Artifact of that kind was retired, by name or through a chain of replacements; it is
  \<open>a\<close> exactly when \<open>a\<close> is not retired and was published later than every other such Artifact, where
  the seal decides and, between equal seals, the descent. On such histories the only error left is
  that no Artifact is later than all the others: a cycle, a duplicate, an unsealed Artifact or a
  replacement of another kind cannot occur, and the searches end.
\<close>

theorem latest_accepted_is_greatest:
  assumes "list_for_task H (put_all H new_store before) task_id = Inr as"
  shows "let C = {a \<in> set as. art_kind a = kind \<and>
                    art_artifact_id a \<notin> (replaces (index_of as))\<^sup>* `` set retired};
             latest = latest_accepted_artifact as kind None retired
         in (latest = Inr None \<longleftrightarrow> C = {}) \<and>
            (\<forall>a. latest = Inr (Some a) \<longleftrightarrow> a \<in> C \<and> (\<forall>b \<in> C. b \<noteq> a \<longrightarrow> published_later as a b)) \<and>
            (latest = Inl ArtifactOrderingError \<longleftrightarrow>
               C \<noteq> {} \<and> (\<nexists>a. a \<in> C \<and> (\<forall>b \<in> C. b \<noteq> a \<longrightarrow> published_later as a b)))"
proof -
  have "store_inv H (put_all H new_store before)" by (simp add: put_all_inv)
  note h = stored_history [OF this assms]
  obtain C where C: "set C = {a \<in> set as. art_kind a = kind \<and> art_artifact_id a \<notin> (replaces (index_of as))\<^sup>* `` set retired}"
    "distinct C" "latest_accepted_artifact as kind None retired =
       (if C = [] then Inr None
        else (case filter (\<lambda>a. \<forall>b \<in> set C. \<not> published_later as b a) C of
                [a] \<Rightarrow> Inr (Some a) | _ \<Rightarrow> Inl ArtifactOrderingError))"
    by (rule latest_of_history [OF h])
  let ?m = "filter (\<lambda>a. \<forall>b \<in> set C. \<not> published_later as b a) C"
  have none: "latest_accepted_artifact as kind None retired = Inr None \<longleftrightarrow> set C = {}"
    unfolding C(3) using list_case_singleton(2) [where xs = ?m and e = ArtifactOrderingError] by simp
  moreover have some: "latest_accepted_artifact as kind None retired = Inr (Some a) \<longleftrightarrow>
      a \<in> set C \<and> (\<forall>b \<in> set C. b \<noteq> a \<longrightarrow> published_later as a b)" for a
    unfolding unique_maximal_greatest [OF h(1) C(2), symmetric] C(3)
    using list_case_singleton(1) [where xs = ?m and e = ArtifactOrderingError] by auto
  moreover have "latest_accepted_artifact as kind None retired = Inl ArtifactOrderingError \<longleftrightarrow>
      set C \<noteq> {} \<and> (\<nexists>a. a \<in> set C \<and> (\<forall>b \<in> set C. b \<noteq> a \<longrightarrow> published_later as a b))"
    using none some
    by (cases "latest_accepted_artifact as kind None retired")
      (metis Inl_Inr_False ordering_error.exhaust, metis Inl_Inr_False option.exhaust)
  ultimately show ?thesis unfolding C(1) [symmetric] Let_def by blast
qed

definition sample_artifacts :: "Artifact list" where
  "sample_artifacts = [sample_plan, sample_progress [''s1''] [''s2'', ''s3''],
     (sample_progress [''s1'', ''s2''] [''s3''])\<lparr>art_artifact_id := ''art_prog2'', art_supersedes := Some ''art_prog''\<rparr>]"

lemma sample_listed:
  "list_for_task sample_hash (put_all sample_hash new_store sample_artifacts) ''task_a01'' = Inr sample_artifacts"
  by code_simp

lemma sample_latest:
  "latest_accepted_artifact sample_artifacts AK_CODER_PROGRESS None [] = Inr (Some (sample_artifacts ! 2))"
  by code_simp

theorem latest_accepted_is_greatest_witness:
  "published_later sample_artifacts (sample_artifacts ! 2) (sample_artifacts ! 1)"
proof -
  have "sample_artifacts ! 1 \<in> set sample_artifacts" "art_kind (sample_artifacts ! 1) = AK_CODER_PROGRESS"
    "sample_artifacts ! 1 \<noteq> sample_artifacts ! 2" by code_simp+
  then show ?thesis
    using latest_accepted_is_greatest [OF sample_listed, where kind = AK_CODER_PROGRESS and retired = "[]"] sample_latest
    by (auto simp: Let_def)
qed

end
