(* ===== verification/Task_Repository.thy ===== *)
theory Task_Repository
  imports State_Machine
begin

section \<open>The durable Task repository\<close>

text \<open>
  \<^verbatim>\<open>store/repository.py\<close> (SQLite) and \<^verbatim>\<open>store/mysql_repository.py\<close> (MySQL): the tables \<open>tasks\<close> and
  \<open>state_events\<close>, and every operation of the protocol \<^verbatim>\<open>store/ports.py\<close>. A payload column holds
  the encoded model value; decoding re-runs the validators of the class. An exception rolls the
  transaction back, so an operation returns either the error or the new store. The optional
  \<open>mutation_fence\<close> of the MySQL repository is a parameter: it is called inside the transaction
  before the reads and after the writes, and either passes or raises.
\<close>

datatype repo_error =
    TaskAlreadyExists
  | TaskNotFound
  | EventIdempotencyConflict
  | InvalidStateEvent
  | StoreCorruption
  | StoreError
  | FenceRejected

record task_row =
  tr_id :: string
  tr_payload :: Task
  tr_status :: TaskStatus
  tr_revision :: int
  tr_created_at :: instant
  tr_updated_at :: instant

record event_row =
  er_event_id :: string
  er_task_id :: string
  er_revision :: int
  er_payload :: StateEvent

record task_store =
  ts_tasks :: "task_row list"
  ts_events :: "event_row list"

definition empty_store :: task_store where
  "empty_store = \<lparr>ts_tasks = [], ts_events = []\<rparr>"

definition decode_task :: "string \<Rightarrow> Task \<Rightarrow> repo_error + Task" where
  "decode_task task_id payload =
     (if \<not> valid_Task payload then Inl StoreCorruption
      else if t_id payload \<noteq> task_id then Inl StoreCorruption
      else Inr payload)"

definition decode_event :: "StateEvent \<Rightarrow> repo_error + StateEvent" where
  "decode_event payload = (if valid_StateEvent payload then Inr payload else Inl StoreCorruption)"

definition non_negative_int :: "int \<Rightarrow> repo_error + int" where
  "non_negative_int v = (if v < 0 then Inl StoreCorruption else Inr v)"

definition select_task :: "task_store \<Rightarrow> string \<Rightarrow> repo_error + task_row" where
  "select_task s task_id =
     (case row_of tr_id task_id (ts_tasks s) of None \<Rightarrow> Inl TaskNotFound | Some r \<Rightarrow> Inr r)"

subsection \<open>The SQLite repository\<close>

definition create :: "task_store \<Rightarrow> Task \<Rightarrow> repo_error + task_store" where
  "create s task =
     (case row_of tr_id (t_id task) (ts_tasks s) of
        Some _ \<Rightarrow> Inl TaskAlreadyExists
      | None \<Rightarrow> Inr (s\<lparr>ts_tasks := ts_tasks s @
          [\<lparr>tr_id = t_id task, tr_payload = task, tr_status = t_status task, tr_revision = 0,
            tr_created_at = t_created_at task, tr_updated_at = t_updated_at task\<rparr>]\<rparr>))"

definition get :: "task_store \<Rightarrow> string \<Rightarrow> repo_error + Task" where
  "get s task_id = bind_res (select_task s task_id) (\<lambda>row. decode_task (tr_id row) (tr_payload row))"

text \<open>
  The \<open>INSERT\<close> into \<open>state_events\<close> fails on its two keys; the \<open>UPDATE\<close> of the snapshot carries the
  revision it read and must touch exactly one row.
\<close>

definition insert_event :: "task_store \<Rightarrow> event_row \<Rightarrow> repo_error + task_store" where
  "insert_event s row =
     (if er_event_id row \<in> er_event_id ` set (ts_events s) \<or>
         (er_task_id row, er_revision row) \<in> (\<lambda>r. (er_task_id r, er_revision r)) ` set (ts_events s) \<or>
         er_task_id row \<notin> tr_id ` set (ts_tasks s) \<or> er_revision row < 1
      then Inl StoreError
      else Inr (s\<lparr>ts_events := ts_events s @ [row]\<rparr>))"

definition update_snapshot :: "task_store \<Rightarrow> string \<Rightarrow> int \<Rightarrow> Task \<Rightarrow> repo_error + task_store" where
  "update_snapshot s task_id revision next_task =
     (case row_of tr_id task_id (ts_tasks s) of
        None \<Rightarrow> Inl StoreError
      | Some row \<Rightarrow>
          if tr_revision row \<noteq> revision then Inl StoreError
          else Inr (s\<lparr>ts_tasks := put_row tr_id task_id
                 (row\<lparr>tr_payload := next_task, tr_status := t_status next_task,
                      tr_revision := revision + 1, tr_updated_at := t_updated_at next_task\<rparr>)
                 (ts_tasks s)\<rparr>))"

definition advance_task :: "task_store \<Rightarrow> task_row \<Rightarrow> StateEvent \<Rightarrow> repo_error + task_store" where
  "advance_task s row event =
     bind_res (decode_task (tr_id row) (tr_payload row)) (\<lambda>task.
     bind_res (non_negative_int (tr_revision row)) (\<lambda>revision.
     if t_status task \<noteq> ev_from_status event then Inl InvalidStateEvent
     else if t_max_attempts task < ev_attempt event then Inl InvalidStateEvent
     else
       (let next_task = task\<lparr>t_status := ev_to_status event, t_updated_at := ev_occurred_at event\<rparr>
        in bind_res (insert_event s \<lparr>er_event_id = ev_event_id event, er_task_id = ev_task_id event,
                                     er_revision = revision + 1, er_payload = event\<rparr>) (\<lambda>s1.
           update_snapshot s1 (ev_task_id event) revision next_task))))"

definition append_event :: "task_store \<Rightarrow> StateEvent \<Rightarrow> repo_error + task_store" where
  "append_event s event =
     (case row_of er_event_id (ev_event_id event) (ts_events s) of
        Some existing \<Rightarrow>
          bind_res (decode_event (er_payload existing)) (\<lambda>existing_event.
          if existing_event = event then Inr s else Inl EventIdempotencyConflict)
      | None \<Rightarrow> bind_res (select_task s (ev_task_id event)) (\<lambda>row. advance_task s row event))"

definition update_payload :: "task_store \<Rightarrow> string \<Rightarrow> Task \<Rightarrow> task_store" where
  "update_payload s task_id task =
     (case row_of tr_id task_id (ts_tasks s) of
        None \<Rightarrow> s
      | Some row \<Rightarrow>
          s\<lparr>ts_tasks := put_row tr_id task_id (row\<lparr>tr_payload := task\<rparr>) (ts_tasks s)\<rparr>)"

definition record_attempt :: "task_store \<Rightarrow> string \<Rightarrow> int \<Rightarrow> repo_error + task_store" where
  "record_attempt s task_id attempt =
     (if \<not> (1 \<le> attempt \<and> attempt \<le> MAX_EXECUTION_ATTEMPTS) then Inl StoreError
      else
        bind_res (select_task s task_id) (\<lambda>row.
        bind_res (decode_task (tr_id row) (tr_payload row)) (\<lambda>task.
        if t_max_attempts task < attempt then Inl StoreError
        else if attempt \<le> t_attempts task then Inr s
        else Inr (update_payload s task_id (task\<lparr>t_attempts := attempt\<rparr>)))))"

definition record_retry_failure ::
  "task_store \<Rightarrow> string \<Rightarrow> DeliveryRetryFailure \<Rightarrow> repo_error + task_store" where
  "record_retry_failure s task_id failure =
     bind_res (get s task_id) (\<lambda>task.
     case with_retry_failure task failure of
       Inl _ \<Rightarrow> Inl StoreError
     | Inr successor \<Rightarrow>
         if successor = task then Inr s else Inr (update_payload s task_id successor))"

definition events_of :: "task_store \<Rightarrow> string \<Rightarrow> event_row list" where
  "events_of s task_id = filter (\<lambda>r. er_task_id r = task_id) (ts_events s)"

definition list_events :: "task_store \<Rightarrow> string \<Rightarrow> repo_error + StateEvent list" where
  "list_events s task_id =
     bind_res (select_task s task_id) (\<lambda>_.
     bind_res (map_res (\<lambda>r. decode_event (er_payload r)) (sort_key er_revision (events_of s task_id)))
       (\<lambda>events.
     if list_ex (\<lambda>e. ev_task_id e \<noteq> task_id) events then Inl StoreCorruption else Inr events))"

definition current_revision :: "task_store \<Rightarrow> string \<Rightarrow> repo_error + int" where
  "current_revision s task_id =
     bind_res (select_task s task_id) (\<lambda>row. non_negative_int (tr_revision row))"

subsection \<open>The MySQL repository\<close>

datatype fence_point = BeforeReads | AfterWrites

type_synonym mutation_fence = "(fence_point \<Rightarrow> string \<Rightarrow> bool) option"

definition run_fence :: "mutation_fence \<Rightarrow> fence_point \<Rightarrow> string \<Rightarrow> repo_error + unit" where
  "run_fence fence p task_id =
     (case fence of None \<Rightarrow> Inr () | Some passes \<Rightarrow> guard_res (passes p task_id) FenceRejected)"

definition mysql_create :: "task_store \<Rightarrow> Task \<Rightarrow> repo_error + task_store" where
  "mysql_create s task =
     (case row_of tr_id (t_id task) (ts_tasks s) of
        Some _ \<Rightarrow> Inl TaskAlreadyExists
      | None \<Rightarrow> Inr (s\<lparr>ts_tasks := ts_tasks s @
          [\<lparr>tr_id = t_id task, tr_payload = task, tr_status = t_status task, tr_revision = 0,
            tr_created_at = t_created_at task, tr_updated_at = t_updated_at task\<rparr>]\<rparr>))"

definition mysql_get :: "task_store \<Rightarrow> string \<Rightarrow> repo_error + Task" where
  "mysql_get s task_id =
     (case row_of tr_id task_id (ts_tasks s) of
        None \<Rightarrow> Inl TaskNotFound
      | Some row \<Rightarrow> decode_task (tr_id row) (tr_payload row))"

definition mysql_append_event ::
  "mutation_fence \<Rightarrow> task_store \<Rightarrow> StateEvent \<Rightarrow> repo_error + task_store" where
  "mysql_append_event fence s event =
     bind_res (run_fence fence BeforeReads (ev_task_id event)) (\<lambda>_.
     let task_row = row_of tr_id (ev_task_id event) (ts_tasks s)
     in case row_of er_event_id (ev_event_id event) (ts_events s) of
          Some existing \<Rightarrow>
            bind_res (decode_event (er_payload existing)) (\<lambda>existing_event.
            if existing_event = event then Inr s else Inl EventIdempotencyConflict)
        | None \<Rightarrow>
            (case task_row of
               None \<Rightarrow> Inl TaskNotFound
             | Some row \<Rightarrow>
                 bind_res (advance_task s row event) (\<lambda>s'.
                 bind_res (run_fence fence AfterWrites (ev_task_id event)) (\<lambda>_. Inr s'))))"

definition mysql_record_attempt ::
  "mutation_fence \<Rightarrow> task_store \<Rightarrow> string \<Rightarrow> int \<Rightarrow> repo_error + task_store" where
  "mysql_record_attempt fence s task_id attempt =
     (if \<not> (1 \<le> attempt \<and> attempt \<le> MAX_EXECUTION_ATTEMPTS) then Inl StoreError
      else
        bind_res (run_fence fence BeforeReads task_id) (\<lambda>_.
        bind_res (select_task s task_id) (\<lambda>row.
        bind_res (decode_task (tr_id row) (tr_payload row)) (\<lambda>task.
        if t_max_attempts task < attempt then Inl StoreError
        else if attempt \<le> t_attempts task then Inr s
        else
          bind_res (run_fence fence AfterWrites task_id) (\<lambda>_.
          Inr (update_payload s task_id (task\<lparr>t_attempts := attempt\<rparr>)))))))"

definition mysql_record_retry_failure ::
  "mutation_fence \<Rightarrow> task_store \<Rightarrow> string \<Rightarrow> DeliveryRetryFailure \<Rightarrow> repo_error + task_store" where
  "mysql_record_retry_failure fence s task_id failure =
     bind_res (run_fence fence BeforeReads task_id) (\<lambda>_.
     bind_res (select_task s task_id) (\<lambda>row.
     bind_res (decode_task (tr_id row) (tr_payload row)) (\<lambda>task.
     case with_retry_failure task failure of
       Inl _ \<Rightarrow> Inl StoreError
     | Inr successor \<Rightarrow>
         bind_res (run_fence fence AfterWrites task_id) (\<lambda>_.
         Inr (if successor \<noteq> task then update_payload s task_id successor else s)))))"

definition mysql_list_events :: "task_store \<Rightarrow> string \<Rightarrow> repo_error + StateEvent list" where
  "mysql_list_events s task_id =
     (case row_of tr_id task_id (ts_tasks s) of
        None \<Rightarrow> Inl TaskNotFound
      | Some _ \<Rightarrow>
          bind_res (map_res (\<lambda>r. decode_event (er_payload r))
                     (sort_key er_revision (events_of s task_id))) (\<lambda>events.
          if list_ex (\<lambda>e. ev_task_id e \<noteq> task_id) events then Inl StoreCorruption else Inr events))"

definition mysql_current_revision :: "task_store \<Rightarrow> string \<Rightarrow> repo_error + int" where
  "mysql_current_revision s task_id =
     (case row_of tr_id task_id (ts_tasks s) of
        None \<Rightarrow> Inl TaskNotFound
      | Some row \<Rightarrow> non_negative_int (tr_revision row))"

subsection \<open>The store invariant\<close>

text \<open>
  \<open>same_progress\<close> relates snapshots that differ only in the attempt counter and the recorded
  transient failures, the two fields that change without a state event. The invariant says that
  keys are unique, columns agree with their payloads, every payload decodes, the revisions of a
  Task are 1, 2, ... in insertion order, and the snapshot is what the state machine computes from
  a \<open>NEW\<close> Task by replaying the log.
\<close>

definition same_progress :: "Task \<Rightarrow> Task \<Rightarrow> bool" where
  "same_progress a b \<longleftrightarrow>
     a\<lparr>t_attempts := t_attempts b, t_retry_failures := t_retry_failures b\<rparr> = b"

definition log_of :: "task_store \<Rightarrow> string \<Rightarrow> StateEvent list" where
  "log_of s task_id = map er_payload (events_of s task_id)"

definition replays_to :: "StateEvent list \<Rightarrow> Task \<Rightarrow> bool" where
  "replays_to es task \<longleftrightarrow>
     (\<exists>t0 t1. valid_Task t0 \<and> t_status t0 = TS_NEW \<and> replay t0 es = Inr t1 \<and> same_progress t1 task)"

definition row_ok :: "task_store \<Rightarrow> task_row \<Rightarrow> bool" where
  "row_ok s row \<longleftrightarrow>
     valid_Task (tr_payload row) \<and> tr_id row = t_id (tr_payload row) \<and>
     tr_status row = t_status (tr_payload row) \<and>
     tr_created_at row = t_created_at (tr_payload row) \<and>
     tr_updated_at row = t_updated_at (tr_payload row) \<and>
     tr_revision row = int (length (events_of s (tr_id row))) \<and>
     map er_revision (events_of s (tr_id row)) = map int [1..<Suc (length (events_of s (tr_id row)))] \<and>
     replays_to (log_of s (tr_id row)) (tr_payload row)"

definition event_row_ok :: "task_store \<Rightarrow> event_row \<Rightarrow> bool" where
  "event_row_ok s r \<longleftrightarrow>
     valid_StateEvent (er_payload r) \<and> er_event_id r = ev_event_id (er_payload r) \<and>
     er_task_id r = ev_task_id (er_payload r) \<and> er_task_id r \<in> tr_id ` set (ts_tasks s)"

definition repo_inv :: "task_store \<Rightarrow> bool" where
  "repo_inv s \<longleftrightarrow>
     unique_key tr_id (ts_tasks s) \<and> unique_key er_event_id (ts_events s) \<and>
     (\<forall>row \<in> set (ts_tasks s). row_ok s row) \<and> (\<forall>r \<in> set (ts_events s). event_row_ok s r)"

lemma repo_inv_empty: "repo_inv empty_store"
  by (simp add: repo_inv_def empty_store_def unique_key_def)

lemma repo_invD:
  assumes "repo_inv s" and "row_of tr_id tid (ts_tasks s) = Some row"
  shows "row_ok s row" "tr_id row = tid" "valid_Task (tr_payload row)" "t_id (tr_payload row) = tid"
  using assms by (auto simp: repo_inv_def row_ok_def dest!: row_of_SomeD)

lemma same_progress_refl [simp]: "same_progress t t"
  by (simp add: same_progress_def)

lemma same_progress_trans: "same_progress a b \<Longrightarrow> same_progress b c \<Longrightarrow> same_progress a c"
  by (cases a; cases b; cases c) (auto simp: same_progress_def)

lemma same_progress_attempts [simp]: "same_progress t (t\<lparr>t_attempts := a\<rparr>)"
  by (simp add: same_progress_def)

lemma with_retry_failure_progress: "with_retry_failure t f = Inr t' \<Longrightarrow> same_progress t t'"
  by (erule with_retry_failure_cases)
    (auto simp: append_retry_failure_def same_progress_def)

lemma same_progress_fields:
  assumes "same_progress a b"
  shows "t_id b = t_id a" "t_status b = t_status a" "t_updated_at b = t_updated_at a"
    "t_created_at b = t_created_at a" "t_max_attempts b = t_max_attempts a"
  using assms by (cases a; cases b; auto simp: same_progress_def)+

lemma apply_event_same_progress:
  assumes "same_progress a b" and "apply_event b e = Inr b'"
  obtains a' where "apply_event a e = Inr a'" "same_progress a' b'"
  using assms same_progress_fields [OF assms(1)]
  by (cases a; cases b) (auto simp: apply_event_Inr_iff same_progress_def)

lemma replays_to_step:
  assumes "replays_to es t" and "apply_event t e = Inr t'"
  shows "replays_to (es @ [e]) t'"
proof -
  obtain t0 t1 where 0: "valid_Task t0" "t_status t0 = TS_NEW" "replay t0 es = Inr t1"
    and "same_progress t1 t"
    using assms(1) by (auto simp: replays_to_def)
  then obtain t1' where "apply_event t1 e = Inr t1'" "same_progress t1' t'"
    using assms(2) by (auto elim: apply_event_same_progress)
  with 0 show ?thesis
    unfolding replays_to_def by (intro exI [of _ t0] exI [of _ t1']) (simp add: replay_append)
qed

lemma replays_to_progress: "replays_to es t \<Longrightarrow> same_progress t t' \<Longrightarrow> replays_to es t'"
  by (auto simp: replays_to_def intro: same_progress_trans)

lemmas store_ops = select_task_def decode_task_def decode_event_def non_negative_int_def

subsection \<open>Operations on a store that satisfies the invariant\<close>

lemma get_iff:
  "repo_inv s \<Longrightarrow>
   get s tid = Inr t \<longleftrightarrow> (\<exists>row. row_of tr_id tid (ts_tasks s) = Some row \<and> tr_payload row = t)"
  by (auto simp: get_def store_ops res_iffs dest: repo_invD split: option.splits)

lemma get_total:
  "repo_inv s \<Longrightarrow>
   get s tid = (case row_of tr_id tid (ts_tasks s) of None \<Rightarrow> Inl TaskNotFound
                | Some row \<Rightarrow> Inr (tr_payload row))"
  by (auto simp: get_def store_ops dest: repo_invD split: option.splits)

lemma events_of_update [simp]:
  "events_of (s\<lparr>ts_tasks := rows\<rparr>) tid = events_of s tid"
  "events_of (s\<lparr>ts_events := es @ [r]\<rparr>) tid =
     filter (\<lambda>r. er_task_id r = tid) es @ (if er_task_id r = tid then [r] else [])"
  by (simp_all add: events_of_def)

lemma log_of_update [simp]: "log_of (s\<lparr>ts_tasks := rows\<rparr>) tid = log_of s tid"
  by (simp add: log_of_def)

lemma row_ok_tasks [simp]: "row_ok (s\<lparr>ts_tasks := rows\<rparr>) row = row_ok s row"
  by (simp add: row_ok_def)

lemma revisions_of:
  assumes "repo_inv s" and "row_of tr_id tid (ts_tasks s) = Some row"
  shows "map er_revision (events_of s tid) = map int [1..<Suc (length (events_of s tid))]"
    "tr_revision row = int (length (events_of s tid))"
  using repo_invD(1,2) [OF assms] by (auto simp: row_ok_def simp del: upt_Suc)

lemma events_of_sorted:
  assumes "repo_inv s" and "row_of tr_id tid (ts_tasks s) = Some row"
  shows "sort_key er_revision (events_of s tid) = events_of s tid"
proof (rule sort_key_id_if_sorted)
  have "sorted (map int [1..<Suc n])" for n
    by (simp add: sorted_map sorted_wrt_iff_nth_less del: upt_Suc)
  then show "sorted (map er_revision (events_of s tid))" by (metis revisions_of(1) [OF assms])
qed

lemma list_events_total:
  assumes "repo_inv s"
  shows "list_events s tid =
     (case row_of tr_id tid (ts_tasks s) of None \<Rightarrow> Inl TaskNotFound | Some _ \<Rightarrow> Inr (log_of s tid))"
proof (cases "row_of tr_id tid (ts_tasks s)")
  case (Some row)
  have ok: "decode_event (er_payload r) = Inr (er_payload r)" "ev_task_id (er_payload r) = tid"
    if "r \<in> set (events_of s tid)" for r
    using assms that by (auto simp: events_of_def repo_inv_def event_row_ok_def decode_event_def)
  have "map_res (\<lambda>r. decode_event (er_payload r)) (sort_key er_revision (events_of s tid)) =
      Inr (log_of s tid)"
    unfolding events_of_sorted [OF assms Some] log_of_def using ok(1) by (rule map_res_all)
  moreover have "\<not> list_ex (\<lambda>e. ev_task_id e \<noteq> tid) (log_of s tid)"
    using ok(2) by (auto simp: log_of_def list_ex_iff)
  ultimately show ?thesis
    by (simp add: list_events_def select_task_def Some)
qed (simp add: list_events_def select_task_def)

lemma event_row_ok_mono:
  "event_row_ok s r \<Longrightarrow> tr_id ` set (ts_tasks s) \<subseteq> tr_id ` set (ts_tasks s') \<Longrightarrow> event_row_ok s' r"
  unfolding event_row_ok_def by blast

lemma create_inv:
  assumes "repo_inv s" and "valid_Task t" and "t_status t = TS_NEW" and "create s t = Inr s'"
  shows "repo_inv s'"
proof -
  have new: "t_id t \<notin> tr_id ` set (ts_tasks s)"
    using assms(4) by (auto simp: create_def row_of_None_iff split: option.splits)
  then have noev: "events_of s (t_id t) = []"
    using assms(1) by (force simp: events_of_def repo_inv_def event_row_ok_def filter_empty_conv)
  have s': "s' = s\<lparr>ts_tasks := ts_tasks s @
      [\<lparr>tr_id = t_id t, tr_payload = t, tr_status = t_status t, tr_revision = 0,
        tr_created_at = t_created_at t, tr_updated_at = t_updated_at t\<rparr>]\<rparr>"
    using assms(4) by (auto simp: create_def split: option.splits)
  have "replays_to [] t"
    unfolding replays_to_def using assms(2,3) by (intro exI [of _ t]) simp
  with noev assms(2) have "row_ok s \<lparr>tr_id = t_id t, tr_payload = t, tr_status = t_status t,
      tr_revision = 0, tr_created_at = t_created_at t, tr_updated_at = t_updated_at t\<rparr>"
    by (simp add: row_ok_def log_of_def)
  with assms(1) new show ?thesis
    by (auto simp: s' repo_inv_def intro: event_row_ok_mono [of s])
qed

lemma update_payload_inv:
  assumes inv: "repo_inv s" and row: "row_of tr_id tid (ts_tasks s) = Some row"
    and t': "valid_Task t'" "same_progress (tr_payload row) t'"
  shows "repo_inv (update_payload s tid t')"
proof -
  have id: "tr_id row = tid" and ok: "row_ok s row"
    using repo_invD [OF inv row] by auto
  have "row_ok s (row\<lparr>tr_payload := t'\<rparr>)"
    using ok t' same_progress_fields [OF t'(2)] by (auto simp: row_ok_def intro: replays_to_progress)
  moreover have "tr_id (row\<lparr>tr_payload := t'\<rparr>) = tid"
    using id by simp
  ultimately show ?thesis
    using inv row by (auto simp: update_payload_def repo_inv_def in_set_put_row
        elim!: event_row_ok_mono simp del: task_row.simps)
qed

definition advanced_store :: "task_store \<Rightarrow> task_row \<Rightarrow> StateEvent \<Rightarrow> task_store" where
  "advanced_store s row e =
     s\<lparr>ts_tasks := put_row tr_id (ev_task_id e)
         (row\<lparr>tr_payload := (tr_payload row)\<lparr>t_status := ev_to_status e, t_updated_at := ev_occurred_at e\<rparr>,
              tr_status := ev_to_status e, tr_revision := tr_revision row + 1,
              tr_updated_at := ev_occurred_at e\<rparr>) (ts_tasks s),
       ts_events := ts_events s @ [\<lparr>er_event_id = ev_event_id e, er_task_id = ev_task_id e,
                                    er_revision = tr_revision row + 1, er_payload = e\<rparr>]\<rparr>"

lemma revision_fresh:
  assumes "repo_inv s" and "row_of tr_id tid (ts_tasks s) = Some row" and "r \<in> set (ts_events s)"
    and "er_task_id r = tid"
  shows "er_revision r \<le> tr_revision row"
proof -
  have "er_revision r \<in> set (map er_revision (events_of s tid))"
    using assms(3,4) by (simp add: events_of_def)
  then show ?thesis
    unfolding revisions_of(1) [OF assms(1,2)] by (auto simp: revisions_of(2) [OF assms(1,2)])
qed

lemma append_event_fresh:
  assumes inv: "repo_inv s" and "row_of er_event_id (ev_event_id e) (ts_events s) = None"
    and row: "row_of tr_id (ev_task_id e) (ts_tasks s) = Some row"
  shows "append_event s e =
     (if t_status (tr_payload row) = ev_from_status e \<and> ev_attempt e \<le> t_max_attempts (tr_payload row)
      then Inr (advanced_store s row e) else Inl InvalidStateEvent)"
proof -
  have "(ev_task_id e, tr_revision row + 1) \<notin> (\<lambda>r. (er_task_id r, er_revision r)) ` set (ts_events s)"
    using revision_fresh [OF inv row] by fastforce
  moreover have "0 \<le> tr_revision row"
    using repo_invD(1) [OF inv row] by (simp add: row_ok_def)
  moreover have "ev_task_id e \<in> tr_id ` set (ts_tasks s)"
    using row by force
  ultimately have ins: "insert_event s \<lparr>er_event_id = ev_event_id e, er_task_id = ev_task_id e,
        er_revision = tr_revision row + 1, er_payload = e\<rparr> =
      Inr (s\<lparr>ts_events := ts_events s @ [\<lparr>er_event_id = ev_event_id e, er_task_id = ev_task_id e,
        er_revision = tr_revision row + 1, er_payload = e\<rparr>]\<rparr>)" "\<not> tr_revision row < 0"
    using assms(2) by (auto simp: insert_event_def row_of_None_iff)
  show ?thesis
    using repo_invD(2-4) [OF inv row] assms(2) row ins
    by (simp add: append_event_def advance_task_def update_snapshot_def store_ops advanced_store_def
        Let_def)
qed

lemma advanced_store_inv:
  assumes inv: "repo_inv s" and fresh: "row_of er_event_id (ev_event_id e) (ts_events s) = None"
    and row: "row_of tr_id (ev_task_id e) (ts_tasks s) = Some row"
    and ev: "valid_StateEvent e" and step: "apply_event (tr_payload row) e = Inr t'"
  shows "repo_inv (advanced_store s row e)"
proof -
  let ?er = "\<lparr>er_event_id = ev_event_id e, er_task_id = ev_task_id e,
              er_revision = tr_revision row + 1, er_payload = e\<rparr>"
  let ?row = "row\<lparr>tr_payload := t', tr_status := ev_to_status e, tr_revision := tr_revision row + 1,
                  tr_updated_at := ev_occurred_at e\<rparr>"
  note D = repo_invD [OF inv row]
  have t': "t' = (tr_payload row)\<lparr>t_status := ev_to_status e, t_updated_at := ev_occurred_at e\<rparr>"
    using step by (simp add: apply_event_Inr_iff)
  have s': "advanced_store s row e =
      s\<lparr>ts_tasks := put_row tr_id (ev_task_id e) ?row (ts_tasks s), ts_events := ts_events s @ [?er]\<rparr>"
    by (simp add: advanced_store_def t')
  have other: "row_ok (advanced_store s row e) r \<longleftrightarrow> row_ok s r" if "tr_id r \<noteq> ev_task_id e" for r
    using that by (simp add: s' row_ok_def log_of_def events_of_def)
  have ev_s': "events_of (advanced_store s row e) (ev_task_id e) = events_of s (ev_task_id e) @ [?er]"
    by (simp add: s' events_of_def)
  have "valid_Task t'"
    using apply_event_valid D(3) step by blast
  moreover have "replays_to (log_of s (ev_task_id e) @ [e]) t'"
    using D(1,2) step by (auto simp: row_ok_def intro: replays_to_step)
  ultimately have "row_ok (advanced_store s row e) ?row"
    using D(1,2,4) unfolding row_ok_def by (simp add: ev_s' log_of_def t')
  then have "\<forall>r \<in> set (ts_tasks (advanced_store s row e)). row_ok (advanced_store s row e) r"
    using inv other by (auto simp: s' in_set_put_row repo_inv_def simp del: task_row.simps)
  moreover have ids: "tr_id ` set (ts_tasks (advanced_store s row e)) = tr_id ` set (ts_tasks s)"
    using D(2) by (simp add: s')
  then have "event_row_ok (advanced_store s row e) r" if "r \<in> set (ts_events s)" for r
    using inv that event_row_ok_mono [of s r] by (simp add: repo_inv_def)
  moreover have "event_row_ok (advanced_store s row e) ?er"
    using ev row unfolding event_row_ok_def ids by force
  moreover have "unique_key tr_id (ts_tasks (advanced_store s row e))"
    using inv D(2) by (simp add: s' repo_inv_def)
  moreover have "unique_key er_event_id (ts_events s @ [?er])"
    using inv fresh by (simp add: repo_inv_def row_of_None_iff)
  moreover have "ts_events (advanced_store s row e) = ts_events s @ [?er]"
    by (simp add: s')
  ultimately show ?thesis
    unfolding repo_inv_def by auto
qed

lemma advanced_store_row:
  assumes "row_of tr_id (ev_task_id e) (ts_tasks s) = Some row"
  shows "row_of tr_id (ev_task_id e) (ts_tasks (advanced_store s row e)) = Some
      (row\<lparr>tr_payload := (tr_payload row)\<lparr>t_status := ev_to_status e, t_updated_at := ev_occurred_at e\<rparr>,
           tr_status := ev_to_status e, tr_revision := tr_revision row + 1,
           tr_updated_at := ev_occurred_at e\<rparr>)"
proof -
  have "tr_id row = ev_task_id e" using assms by auto
  then show ?thesis using assms by (simp add: advanced_store_def table_simps)
qed

lemma advanced_store_log:
  "log_of (advanced_store s row e) (ev_task_id e) = log_of s (ev_task_id e) @ [e]"
  by (simp add: advanced_store_def log_of_def events_of_def)

lemma append_event_cases:
  assumes "repo_inv s" and "append_event s e = Inr s'"
  obtains (replayed) "s' = s" "e \<in> set (log_of s (ev_task_id e))"
  | (appended) row where "row_of er_event_id (ev_event_id e) (ts_events s) = None"
      "row_of tr_id (ev_task_id e) (ts_tasks s) = Some row" "s' = advanced_store s row e"
      "t_status (tr_payload row) = ev_from_status e" "ev_attempt e \<le> t_max_attempts (tr_payload row)"
proof (cases "row_of er_event_id (ev_event_id e) (ts_events s)")
  case None
  obtain row where row: "row_of tr_id (ev_task_id e) (ts_tasks s) = Some row"
    using assms(2) None by (auto simp: append_event_def select_task_def res_iffs split: option.splits)
  show thesis
    using assms(2) append_event_fresh [OF assms(1) None row]
    by (intro appended [OF None row]) (auto split: if_splits)
next
  case (Some r)
  then have "er_payload r = e" "s' = s"
    using assms(2) by (auto simp: append_event_def decode_event_def res_iffs split: if_splits)
  moreover have "r \<in> set (ts_events s)"
    using Some by auto
  ultimately show thesis
    using assms(1) by (intro replayed) (auto simp: log_of_def events_of_def repo_inv_def event_row_ok_def)
qed

lemma append_event_inv:
  assumes "repo_inv s" and "valid_StateEvent e" and "append_event s e = Inr s'"
    and "\<And>t. get s (ev_task_id e) = Inr t \<Longrightarrow> \<exists>t'. apply_event t e = Inr t'"
  shows "repo_inv s'"
  using assms(1,3)
proof (cases rule: append_event_cases)
  case (appended row)
  then obtain t' where "apply_event (tr_payload row) e = Inr t'"
    using assms(4) [of "tr_payload row"] by (auto simp: get_iff [OF assms(1)])
  with appended assms(1,2) show ?thesis by (auto intro: advanced_store_inv)
qed (use assms(1) in simp)

lemma append_event_get:
  assumes "repo_inv s" and "valid_StateEvent e" and "append_event s e = Inr s'"
    and "get s (ev_task_id e) = Inr t" and "apply_event t e = Inr t'"
  shows "s' = s \<or> (get s' (ev_task_id e) = Inr t' \<and>
     log_of s' (ev_task_id e) = log_of s (ev_task_id e) @ [e])"
  using assms(1,3)
proof (cases rule: append_event_cases)
  case (appended row)
  have inv': "repo_inv s'"
    using append_event_inv [OF assms(1-3)] assms(4,5) by auto
  have t: "tr_payload row = t"
    using assms(4) appended(2) by (simp add: get_total [OF assms(1)])
  have "get s' (ev_task_id e) = Inr t'"
    using assms(5) get_total [OF inv', of "ev_task_id e"] advanced_store_row [OF appended(2)]
    by (simp add: t apply_event_Inr_iff appended(3))
  moreover have "log_of s' (ev_task_id e) = log_of s (ev_task_id e) @ [e]"
    unfolding appended(3) by (rule advanced_store_log)
  ultimately show ?thesis by simp
qed simp

lemma log_of_missing:
  assumes "repo_inv s" and "row_of tr_id tid (ts_tasks s) = None"
  shows "events_of s tid = []" "log_of s tid = []"
  using assms
  by (force simp: row_of_None_iff repo_inv_def event_row_ok_def log_of_def events_of_def
      filter_empty_conv)+

lemma append_event_again:
  assumes "repo_inv s" and "valid_StateEvent e" and "append_event s e = Inr s'"
  shows "append_event s' e = Inr s'"
  using assms(1,3)
proof (cases rule: append_event_cases)
  case (appended row)
  then have "row_of er_event_id (ev_event_id e) (ts_events s') = Some
     \<lparr>er_event_id = ev_event_id e, er_task_id = ev_task_id e, er_revision = tr_revision row + 1,
      er_payload = e\<rparr>"
    by (simp add: advanced_store_def)
  with assms(2) show ?thesis
    by (simp add: append_event_def decode_event_def)
qed (use assms(3) in simp)

lemma record_attempt_cases:
  assumes "repo_inv s" and "record_attempt s tid n = Inr s'"
  obtains row where "row_of tr_id tid (ts_tasks s) = Some row" "1 \<le> n" "n \<le> t_max_attempts (tr_payload row)"
    "s' = (if n \<le> t_attempts (tr_payload row) then s
           else update_payload s tid ((tr_payload row)\<lparr>t_attempts := n\<rparr>))"
  using assms by (auto simp: record_attempt_def store_ops res_iffs split: option.splits if_splits)

lemma record_attempt_inv:
  assumes "repo_inv s" and "record_attempt s tid n = Inr s'"
  shows "repo_inv s'"
  using assms
proof (cases rule: record_attempt_cases)
  case (1 row)
  with repo_invD(3) [OF assms(1) 1(1)] show ?thesis
    using assms(1) by (auto intro!: update_payload_inv valid_Task_record_attempt)
qed

lemma record_retry_failure_cases:
  assumes "repo_inv s" and "record_retry_failure s tid f = Inr s'"
  obtains row t' where "row_of tr_id tid (ts_tasks s) = Some row"
    "with_retry_failure (tr_payload row) f = Inr t'"
    "s' = (if t' = tr_payload row then s else update_payload s tid t')"
proof -
  obtain t where t: "get s tid = Inr t" "(case with_retry_failure t f of Inl _ \<Rightarrow> Inl StoreError
      | Inr t' \<Rightarrow> if t' = t then Inr s else Inr (update_payload s tid t')) = Inr s'"
    using assms(2) by (auto simp: record_retry_failure_def bind_res_Inr_iff)
  then obtain row where "row_of tr_id tid (ts_tasks s) = Some row" "tr_payload row = t"
    using get_iff [OF assms(1)] by auto
  with t(2) that show thesis by (auto split: sum.splits if_splits)
qed

lemma record_retry_failure_inv:
  assumes "repo_inv s" and "record_retry_failure s tid f = Inr s'"
  shows "repo_inv s'"
  using assms
proof (cases rule: record_retry_failure_cases)
  case (1 row t')
  with repo_invD(3) [OF assms(1) 1(1)] show ?thesis
    using assms(1) with_retry_failure_valid with_retry_failure_progress
    by (auto intro!: update_payload_inv)
qed

lemma update_payload_log [simp]: "log_of (update_payload s tid t) tid' = log_of s tid'"
  by (simp add: update_payload_def split: option.splits)

subsection \<open>The repository protocol\<close>

text \<open>
  The client \<^verbatim>\<open>SerialOrchestrator._transition\<close>: build an event from the snapshot in hand, append it,
  read the snapshot back. The identity factory, the clock and the gates are the caller's; the
  event id and the time are arguments. \<open>Inl (Inl e)\<close> is an error of the state machine,
  \<open>Inl (Inr e)\<close> one of the repository.
\<close>

definition orchestrator_transition ::
  "('s \<Rightarrow> StateEvent \<Rightarrow> repo_error + 's) \<Rightarrow> ('s \<Rightarrow> string \<Rightarrow> repo_error + Task) \<Rightarrow>
   's \<Rightarrow> Task \<Rightarrow> TaskStatus \<Rightarrow> string \<Rightarrow> string \<Rightarrow> string \<Rightarrow> string list \<Rightarrow> int \<Rightarrow> py_datetime \<Rightarrow>
   (sm_error + repo_error) + ('s \<times> Task)" where
  "orchestrator_transition append_ev get_task s task to_status event_id reason source_revision
     artifact_ids attempt now =
     (case build_event task to_status event_id reason source_revision artifact_ids attempt now of
        Inl err \<Rightarrow> Inl (Inl err)
      | Inr event \<Rightarrow>
          (case append_ev s event of
             Inl err \<Rightarrow> Inl (Inr err)
           | Inr s' \<Rightarrow>
               (case get_task s' (t_id task) of
                  Inl err \<Rightarrow> Inl (Inr err)
                | Inr task' \<Rightarrow> Inr (s', task'))))"

locale task_repository =
  fixes create_task :: "'s \<Rightarrow> Task \<Rightarrow> repo_error + 's"
    and get_task :: "'s \<Rightarrow> string \<Rightarrow> repo_error + Task"
    and append_ev :: "'s \<Rightarrow> StateEvent \<Rightarrow> repo_error + 's"
    and attempt_ev :: "'s \<Rightarrow> string \<Rightarrow> int \<Rightarrow> repo_error + 's"
    and retry_ev :: "'s \<Rightarrow> string \<Rightarrow> DeliveryRetryFailure \<Rightarrow> repo_error + 's"
    and events :: "'s \<Rightarrow> string \<Rightarrow> repo_error + StateEvent list"
    and revision :: "'s \<Rightarrow> string \<Rightarrow> repo_error + int"
    and inv :: "'s \<Rightarrow> bool"
  assumes create_ok:
    "inv s \<Longrightarrow> valid_Task t \<Longrightarrow> t_status t = TS_NEW \<Longrightarrow> create_task s t = Inr s' \<Longrightarrow>
     inv s' \<and> get_task s' (t_id t) = Inr t \<and> events s' (t_id t) = Inr []"
    and append_inv:
    "inv s \<Longrightarrow> valid_StateEvent e \<Longrightarrow> get_task s (ev_task_id e) = Inr t \<Longrightarrow>
     apply_event t e = Inr t' \<Longrightarrow> append_ev s e = Inr s' \<Longrightarrow>
     inv s' \<and> (s' = s \<or> get_task s' (ev_task_id e) = Inr t')"
    and append_missing:
    "inv s \<Longrightarrow> get_task s (ev_task_id e) = Inl err \<Longrightarrow> append_ev s e \<noteq> Inr s'"
    and append_log:
    "inv s \<Longrightarrow> valid_StateEvent e \<Longrightarrow> get_task s (ev_task_id e) = Inr t \<Longrightarrow>
     apply_event t e = Inr t' \<Longrightarrow> append_ev s e = Inr s' \<Longrightarrow> events s (ev_task_id e) = Inr es \<Longrightarrow>
     (s' = s \<and> e \<in> set es) \<or> events s' (ev_task_id e) = Inr (es @ [e])"
    and append_again:
    "inv s \<Longrightarrow> valid_StateEvent e \<Longrightarrow> append_ev s e = Inr s' \<Longrightarrow> append_ev s' e = Inr s'"
    and attempt_inv: "inv s \<Longrightarrow> attempt_ev s tid n = Inr s' \<Longrightarrow> inv s'"
    and retry_inv: "inv s \<Longrightarrow> retry_ev s tid f = Inr s' \<Longrightarrow> inv s'"
    and log_law: "inv s \<Longrightarrow> get_task s tid = Inr t \<Longrightarrow>
     \<exists>es. events s tid = Inr es \<and> revision s tid = Inr (int (length es)) \<and> replays_to es t"
begin

lemma done_log:
  assumes "inv s" and "get_task s tid = Inr t" and "t_status t = TS_DONE"
  obtains pre e1 e2 e3 where "events s tid = Inr (pre @ [e1, e2, e3])"
    "(ev_from_status e1, ev_to_status e1) = (TS_IMPLEMENTING, TS_QA)"
    "(ev_from_status e2, ev_to_status e2) = (TS_QA, TS_REVIEW)"
    "(ev_from_status e3, ev_to_status e3) = (TS_REVIEW, TS_DONE)"
proof -
  obtain es where es: "events s tid = Inr es" "replays_to es t"
    using log_law [OF assms(1,2)] by auto
  then obtain t0 t1 where "replay t0 es = Inr t1" "t_status t0 = TS_NEW" "same_progress t1 t"
    by (auto simp: replays_to_def)
  then have "\<exists>pre e1 e2 e3. es = pre @ [e1, e2, e3] \<and>
     (ev_from_status e1, ev_to_status e1) = (TS_IMPLEMENTING, TS_QA) \<and>
     (ev_from_status e2, ev_to_status e2) = (TS_QA, TS_REVIEW) \<and>
     (ev_from_status e3, ev_to_status e3) = (TS_REVIEW, TS_DONE)"
    using assms(3) same_progress_fields(2) by (intro replay_to_DONE) auto
  with es(1) that show thesis by blast
qed

lemma transition_ok:
  assumes "inv s" and "get_task s (t_id task) = Inr stored" and "same_progress task stored"
    and "orchestrator_transition append_ev get_task s task to eid reason srev arts n now = Inr (s', task')"
    and "events s (t_id task) = Inr es" and "eid \<notin> ev_event_id ` set es"
  shows "inv s'" "t_status task' = to" "\<exists>e. events s' (t_id task) = Inr (es @ [e]) \<and> ev_event_id e = eid"
    "legal_step (t_status task) to" "task_matches_dispatch task' stored False"
proof -
  obtain e where e: "build_event task to eid reason srev arts n now = Inr e" "append_ev s e = Inr s'"
      "get_task s' (t_id task) = Inr task'"
    using assms(4) by (auto simp: orchestrator_transition_def split: sum.splits)
  note P = same_progress_fields [OF assms(3)]
  have v: "valid_StateEvent e" "ev_task_id e = t_id task" "ev_event_id e = eid" "ev_to_status e = to"
    "legal_step (t_status task) to"
    using e(1) by (auto simp: build_event_Inr_iff)
  define stored' where
    "stored' = stored\<lparr>t_status := ev_to_status e, t_updated_at := ev_occurred_at e\<rparr>"
  have ap: "apply_event stored e = Inr stored'"
    using e(1) P unfolding stored'_def apply_event_Inr_iff by (auto simp: build_event_Inr_iff)
  have "e \<notin> set es" using assms(6) v(3) by auto
  then have log: "events s' (t_id task) = Inr (es @ [e])"
    using append_log [OF assms(1) v(1) _ ap e(2)] assms(2,5) v(2) by auto
  have "inv s' \<and> (s' = s \<or> get_task s' (t_id task) = Inr stored')"
    using append_inv [OF assms(1) v(1) _ ap e(2)] assms(2) v(2) by simp
  moreover have "s' \<noteq> s"
    using log assms(5) by auto
  ultimately have i: "inv s'" and st: "task' = stored'"
    using e(3) by auto
  show "inv s'" by (rule i)
  show "t_status task' = to" using st v(4) by (simp add: stored'_def)
  show "\<exists>e. events s' (t_id task) = Inr (es @ [e]) \<and> ev_event_id e = eid"
    using log v(3) by blast
  show "legal_step (t_status task) to" by (rule v(5))
  show "task_matches_dispatch task' stored False"
    using apply_event_frozen [OF ap] st by simp
qed

end

interpretation sqlite: task_repository create get append_event record_attempt record_retry_failure
  list_events current_revision repo_inv
proof
  fix s e t t' s' es
  assume *: "repo_inv s" "valid_StateEvent e" "get s (ev_task_id e) = Inr t"
    "apply_event t e = Inr t'" "append_event s e = Inr s'"
  show "repo_inv s' \<and> (s' = s \<or> get s' (ev_task_id e) = Inr t')"
    using append_event_inv [OF *(1,2,5)] append_event_get [OF *(1,2,5,3,4)] *(3,4) by auto
  assume es: "list_events s (ev_task_id e) = Inr es"
  have inv': "repo_inv s'"
    using append_event_inv [OF *(1,2,5)] *(3,4) by auto
  from *(1,5) show "(s' = s \<and> e \<in> set es) \<or> list_events s' (ev_task_id e) = Inr (es @ [e])"
  proof (cases rule: append_event_cases)
    case replayed
    with es show ?thesis by (auto simp: list_events_total [OF *(1)] split: option.splits)
  next
    case (appended row)
    with es show ?thesis
      unfolding list_events_total [OF *(1)] list_events_total [OF inv']
      by (simp add: advanced_store_row advanced_store_log)
  qed
next
  fix s and e :: StateEvent and err s'
  assume *: "repo_inv s" "get s (ev_task_id e) = Inl err"
  then have none: "row_of tr_id (ev_task_id e) (ts_tasks s) = None"
    by (auto simp: get_total split: option.splits)
  show "append_event s e \<noteq> Inr s'"
    using none log_of_missing [OF *(1) none] by (auto elim!: append_event_cases [OF *(1)])
next
  fix s tid t
  assume *: "repo_inv s" "get s tid = Inr t"
  then obtain row where row: "row_of tr_id tid (ts_tasks s) = Some row" "tr_payload row = t"
    by (auto simp: get_iff)
  then show "\<exists>es. list_events s tid = Inr es \<and> current_revision s tid = Inr (int (length es)) \<and>
      replays_to es t"
    using repo_invD [OF *(1) row(1)]
    by (auto simp: list_events_total [OF *(1)] current_revision_def store_ops row_ok_def log_of_def)
next
  fix s t s'
  assume *: "repo_inv s" "valid_Task t" "t_status t = TS_NEW" "create s t = Inr s'"
  have inv': "repo_inv s'" by (rule create_inv [OF *])
  have "row_of tr_id (t_id t) (ts_tasks s) = None"
    using *(4) by (auto simp: create_def split: option.splits)
  moreover then have "log_of s (t_id t) = []"
    by (rule log_of_missing [OF *(1)])
  ultimately have "get s' (t_id t) = Inr t" "list_events s' (t_id t) = Inr []"
    unfolding get_total [OF inv'] list_events_total [OF inv']
    using *(4) by (auto simp: create_def)
  with inv' show "repo_inv s' \<and> get s' (t_id t) = Inr t \<and> list_events s' (t_id t) = Inr []" by simp
qed (auto intro: append_event_again record_attempt_inv record_retry_failure_inv)

subsection \<open>The MySQL repository refines the SQLite one\<close>

lemma mysql_reads [simp]:
  "mysql_create = create" "mysql_get = get" "mysql_list_events = list_events"
  "mysql_current_revision = current_revision"
  by (auto simp: fun_eq_iff mysql_create_def create_def mysql_get_def get_def mysql_list_events_def
      list_events_def mysql_current_revision_def current_revision_def select_task_def
      split: option.splits)

lemma mysql_append_eventD: "mysql_append_event f s e = Inr s' \<Longrightarrow> append_event s e = Inr s'"
  by (auto simp: mysql_append_event_def append_event_def select_task_def Let_def bind_res_Inr_iff
      split: option.splits if_splits)

lemma mysql_record_attemptD:
  "mysql_record_attempt f s tid n = Inr s' \<Longrightarrow> record_attempt s tid n = Inr s'"
  by (auto simp: mysql_record_attempt_def record_attempt_def bind_res_Inr_iff split: if_splits)

lemma mysql_record_retry_failureD:
  "mysql_record_retry_failure f s tid x = Inr s' \<Longrightarrow> record_retry_failure s tid x = Inr s'"
  by (auto simp: mysql_record_retry_failure_def record_retry_failure_def get_def bind_res_Inr_iff
      split: sum.splits if_splits)

lemma mysql_append_event_eq:
  "\<forall>p. run_fence f p (ev_task_id e) = Inr () \<Longrightarrow> mysql_append_event f s e = append_event s e"
  by (cases "row_of tr_id (ev_task_id e) (ts_tasks s)")
    (auto simp: mysql_append_event_def append_event_def select_task_def bind_res_def
      split: option.splits sum.splits)

lemma mysql_record_attempt_eq:
  "\<forall>p. run_fence f p tid = Inr () \<Longrightarrow> mysql_record_attempt f s tid n = record_attempt s tid n"
  by (auto simp: mysql_record_attempt_def record_attempt_def bind_res_def split: sum.splits)

lemma mysql_record_retry_failure_eq:
  "\<forall>p. run_fence f p tid = Inr () \<Longrightarrow>
   mysql_record_retry_failure f s tid x = record_retry_failure s tid x"
  by (auto simp: mysql_record_retry_failure_def record_retry_failure_def get_def bind_res_def
      split: sum.splits)

lemma append_event_present:
  assumes "repo_inv s" "append_event s e = Inr s'"
  shows "row_of er_event_id (ev_event_id e) (ts_events s') \<noteq> None"
  using assms
proof (cases rule: append_event_cases)
  case replayed
  then obtain r where "r \<in> set (ts_events s)" "er_payload r = e"
    by (auto simp: log_of_def events_of_def)
  with assms(1) have "ev_event_id e \<in> er_event_id ` set (ts_events s)"
    by (force simp: repo_inv_def event_row_ok_def)
  with replayed show ?thesis by (simp add: row_of_None_iff)
qed (simp add: advanced_store_def split: option.splits)

lemma mysql_append_again:
  assumes "repo_inv s" "valid_StateEvent e" "mysql_append_event f s e = Inr s'"
  shows "mysql_append_event f s' e = Inr s'"
proof -
  have a: "append_event s' e = Inr s'" and i: "append_event s e = Inr s'"
    using assms mysql_append_eventD append_event_again by blast+
  have "row_of er_event_id (ev_event_id e) (ts_events s') \<noteq> None"
    by (rule append_event_present [OF assms(1) i])
  then show ?thesis
    using a assms(3)
    by (auto simp: mysql_append_event_def append_event_def Let_def bind_res_Inr_iff
        split: option.splits if_splits)
qed

interpretation mysql: task_repository mysql_create mysql_get "mysql_append_event fence"
  "mysql_record_attempt fence" "mysql_record_retry_failure fence" mysql_list_events
  mysql_current_revision repo_inv
  for fence
  unfolding mysql_reads
proof (unfold_locales, goal_cases)
  case 1 then show ?case by (rule sqlite.create_ok)
next
  case 2 then show ?case using sqlite.append_inv mysql_append_eventD by blast
next
  case 3 then show ?case by (blast dest: mysql_append_eventD sqlite.append_missing)
next
  case 4 then show ?case by (blast dest: mysql_append_eventD sqlite.append_log)
next
  case 5 then show ?case by (rule mysql_append_again)
next
  case 6 then show ?case by (blast dest: mysql_record_attemptD intro: record_attempt_inv)
next
  case 7 then show ?case by (blast dest: mysql_record_retry_failureD intro: record_retry_failure_inv)
next
  case 8 then show ?case by (rule sqlite.log_law)
qed

subsection \<open>Runs of the repository\<close>

text \<open>
  An operation of the protocol as data. \<open>repo_ok\<close> says what a client guarantees: it creates valid
  \<open>NEW\<close> Tasks, and it appends only valid events that the state machine accepts on the stored
  snapshot (what \<^verbatim>\<open>build_event\<close> checks) or that are logged already.
\<close>

datatype repo_op =
    Create Task
  | Append StateEvent
  | RecordAttempt string int
  | RecordRetryFailure string DeliveryRetryFailure

fun repo_apply :: "mutation_fence \<Rightarrow> repo_op \<Rightarrow> task_store \<Rightarrow> task_store option" where
  "repo_apply fence (Create t) s = res_to_option (mysql_create s t)"
| "repo_apply fence (Append e) s = res_to_option (mysql_append_event fence s e)"
| "repo_apply fence (RecordAttempt tid n) s = res_to_option (mysql_record_attempt fence s tid n)"
| "repo_apply fence (RecordRetryFailure tid f) s =
     res_to_option (mysql_record_retry_failure fence s tid f)"

fun repo_ok :: "task_store \<Rightarrow> repo_op \<Rightarrow> bool" where
  "repo_ok s (Create t) \<longleftrightarrow> valid_Task t \<and> t_status t = TS_NEW"
| "repo_ok s (Append e) \<longleftrightarrow>
     valid_StateEvent e \<and>
     (case get s (ev_task_id e) of
        Inl _ \<Rightarrow> True
      | Inr t \<Rightarrow>
          (case apply_event t e of
             Inr _ \<Rightarrow> True
           | Inl _ \<Rightarrow> (case list_events s (ev_task_id e) of Inl _ \<Rightarrow> False | Inr es \<Rightarrow> e \<in> set es)))"
| "repo_ok s (RecordAttempt tid n) = True"
| "repo_ok s (RecordRetryFailure tid f) = True"

lemma append_logged:
  assumes "repo_inv s" and "list_events s (ev_task_id e) = Inr es" and "e \<in> set es"
  shows "append_event s e = Inr s"
proof -
  have "e \<in> set (log_of s (ev_task_id e))"
    using assms by (auto simp: list_events_total [OF assms(1)] split: option.splits)
  then obtain r where r: "r \<in> set (ts_events s)" "er_payload r = e"
    by (auto simp: log_of_def events_of_def)
  with assms(1) have "row_of er_event_id (ev_event_id e) (ts_events s) = Some r" "valid_StateEvent e"
    using row_of_unique [of er_event_id "ts_events s" r]
    by (auto simp: repo_inv_def event_row_ok_def)
  with r(2) show ?thesis by (simp add: append_event_def decode_event_def)
qed

lemma repo_apply_inv:
  assumes "repo_inv s" and "repo_ok s op" and "repo_apply fence op s = Some s'"
  shows "repo_inv s'"
proof (cases op)
  case (Append e)
  then have a: "append_event s e = Inr s'" and v: "valid_StateEvent e"
    using assms(2,3) by (auto dest: mysql_append_eventD)
  show ?thesis
  proof (cases "get s (ev_task_id e)")
    case (Inl err)
    with a sqlite.append_missing [OF assms(1)] show ?thesis by blast
  next
    case (Inr t)
    show ?thesis
    proof (cases "apply_event t e")
      case err: (Inl err)
      with Append assms(2) Inr obtain es where "list_events s (ev_task_id e) = Inr es" "e \<in> set es"
        by (auto split: sum.splits)
      with append_logged [OF assms(1)] a assms(1) show ?thesis by auto
    next
      case ok: (Inr t')
      with sqlite.append_inv [OF assms(1) v Inr ok a] show ?thesis by blast
    qed
  qed
qed (use assms in \<open>auto dest: mysql_record_attemptD mysql_record_retry_failureD
    intro: create_inv record_attempt_inv record_retry_failure_inv\<close>)

interpretation repo_run: guarded_run "repo_apply fence" repo_ok repo_inv for fence
  by unfold_locales (rule repo_apply_inv)

definition created_store :: task_store where
  "created_store = run_ops (repo_apply None) empty_store [Create (sample_task TS_NEW 0)]"

definition sample_calls :: "repo_op list" where
  "sample_calls = Create (sample_task TS_NEW 0) # map Append sample_history"

definition sample_store :: task_store where
  "sample_store = run_ops (repo_apply None) empty_store sample_calls"

lemma created_store_inv: "repo_inv created_store"
proof -
  have "ok_run (repo_apply None) repo_ok empty_store [Create (sample_task TS_NEW 0)]" by code_simp
  then show ?thesis unfolding created_store_def by (rule repo_run.run_inv [OF repo_inv_empty])
qed

text \<open>
  C6. After any sequence of repository calls on an empty store, with any mutation fence, a Task
  whose stored snapshot is \<open>DONE\<close> has a stored event log that ends in implementation to QA, QA to
  review, review to done; its length is the stored revision and replaying it from a \<open>NEW\<close> Task
  gives the stored snapshot up to attempt accounting.
\<close>

theorem stored_done_was_verified:
  assumes "ok_run (repo_apply fence) repo_ok empty_store ops"
    and "mysql_get (run_ops (repo_apply fence) empty_store ops) tid = Inr t" and "t_status t = TS_DONE"
  shows "\<exists>pre e1 e2 e3.
     mysql_list_events (run_ops (repo_apply fence) empty_store ops) tid = Inr (pre @ [e1, e2, e3]) \<and>
     mysql_current_revision (run_ops (repo_apply fence) empty_store ops) tid = Inr (int (length pre) + 3) \<and>
     replays_to (pre @ [e1, e2, e3]) t \<and>
     (ev_from_status e1, ev_to_status e1) = (TS_IMPLEMENTING, TS_QA) \<and>
     (ev_from_status e2, ev_to_status e2) = (TS_QA, TS_REVIEW) \<and>
     (ev_from_status e3, ev_to_status e3) = (TS_REVIEW, TS_DONE)"
proof -
  have inv: "repo_inv (run_ops (repo_apply fence) empty_store ops)"
    using repo_run.run_inv [OF repo_inv_empty assms(1)] .
  obtain pre e1 e2 e3 where
    "mysql_list_events (run_ops (repo_apply fence) empty_store ops) tid = Inr (pre @ [e1, e2, e3])"
    "(ev_from_status e1, ev_to_status e1) = (TS_IMPLEMENTING, TS_QA)"
    "(ev_from_status e2, ev_to_status e2) = (TS_QA, TS_REVIEW)"
    "(ev_from_status e3, ev_to_status e3) = (TS_REVIEW, TS_DONE)"
    by (rule mysql.done_log [OF inv assms(2,3)])
  moreover from this(1) mysql.log_law [OF inv assms(2)]
  have "replays_to (pre @ [e1, e2, e3]) t"
    "mysql_current_revision (run_ops (repo_apply fence) empty_store ops) tid = Inr (int (length pre) + 3)"
    by auto
  ultimately show ?thesis by blast
qed

theorem stored_done_was_verified_witness:
  "\<exists>pre e1 e2 e3. mysql_list_events sample_store ''task_a01'' = Inr (pre @ [e1, e2, e3]) \<and>
     replays_to (pre @ [e1, e2, e3]) (sample_task TS_DONE 5)"
proof -
  have "ok_run (repo_apply None) repo_ok empty_store sample_calls" by code_simp
  moreover have "mysql_get sample_store ''task_a01'' = Inr (sample_task TS_DONE 5)"
    unfolding sample_store_def by code_simp
  moreover have "t_status (sample_task TS_DONE 5) = TS_DONE" by code_simp
  ultimately show ?thesis
    unfolding sample_store_def using stored_done_was_verified [of None sample_calls] by blast
qed

text \<open>
  The orchestrator's transition on a current snapshot: the new snapshot carries the requested
  status over a legal edge, the log grows by exactly one event with the given identity, the
  dispatched intent is unchanged and the store invariant still holds.
\<close>

theorem transition_advances_store:
  assumes "repo_inv s" and "mysql_get s (t_id task) = Inr stored" and "same_progress task stored"
    and "orchestrator_transition (mysql_append_event fence) mysql_get s task to eid reason srev arts n
           now = Inr (s', task')"
    and "mysql_list_events s (t_id task) = Inr es" and "eid \<notin> ev_event_id ` set es"
  shows "repo_inv s' \<and> t_status task' = to \<and> legal_step (t_status task) to \<and>
     task_matches_dispatch task' stored False \<and>
     (\<exists>e. mysql_list_events s' (t_id task) = Inr (es @ [e]) \<and> ev_event_id e = eid)"
  using mysql.transition_ok [OF assms] by blast

theorem transition_advances_store_witness:
  "\<exists>s' task'. orchestrator_transition (mysql_append_event None) mysql_get created_store (sample_task TS_NEW 0)
       TS_PLANNING ''evt_a01'' ''plan'' ''abc'' [] 1 (Aware 1) = Inr (s', task') \<and>
     repo_inv s' \<and> t_status task' = TS_PLANNING"
proof -
  let ?r = "orchestrator_transition (mysql_append_event None) mysql_get created_store (sample_task TS_NEW 0)
     TS_PLANNING ''evt_a01'' ''plan'' ''abc'' [] 1 (Aware 1)"
  have "\<not> isl ?r" unfolding created_store_def by code_simp
  then obtain s' task' where r: "?r = Inr (s', task')" by (metis surj_pair sum.collapse(2))
  have "mysql_get created_store (t_id (sample_task TS_NEW 0)) = Inr (sample_task TS_NEW 0)"
    "mysql_list_events created_store (t_id (sample_task TS_NEW 0)) = Inr []"
    unfolding created_store_def by code_simp+
  with transition_advances_store [OF created_store_inv _ _ r] r show ?thesis by auto
qed

text \<open>
  Appending is idempotent and conflicts are detected: when an event has been appended, the
  same event again changes nothing, and a different event under the same id is refused.
\<close>

theorem append_event_idempotent:
  assumes "repo_inv s" and "valid_StateEvent e" and "append_event s e = Inr s'"
  shows "append_event s' e = Inr s' \<and>
     (ev_event_id f = ev_event_id e \<longrightarrow> f \<noteq> e \<longrightarrow> append_event s' f = Inl EventIdempotencyConflict)"
proof (intro conjI impI)
  show again: "append_event s' e = Inr s'" by (rule append_event_again [OF assms])
  assume f: "ev_event_id f = ev_event_id e" "f \<noteq> e"
  have "row_of er_event_id (ev_event_id e) (ts_events s') \<noteq> None"
    using assms(1,3) by (rule append_event_present)
  then show "append_event s' f = Inl EventIdempotencyConflict"
    using again f by (auto simp: append_event_def bind_res_Inr_iff split: if_splits)
qed

theorem append_event_idempotent_witness:
  "\<exists>s'. append_event created_store (sample_event ''evt_a01'' TS_NEW TS_PLANNING 1) = Inr s' \<and>
     append_event s' (sample_event ''evt_a01'' TS_NEW TS_PLANNING 1) = Inr s' \<and>
     append_event s' (sample_event ''evt_a01'' TS_NEW TS_FAILED 1) = Inl EventIdempotencyConflict"
proof -
  let ?e = "sample_event ''evt_a01'' TS_NEW TS_PLANNING 1" and ?f = "sample_event ''evt_a01'' TS_NEW TS_FAILED 1"
  have "\<not> isl (append_event created_store ?e)" unfolding created_store_def by code_simp
  then obtain s' where s': "append_event created_store ?e = Inr s'" by (metis sum.collapse(2))
  have "valid_StateEvent ?e" "ev_event_id ?f = ev_event_id ?e" "?f \<noteq> ?e" by code_simp+
  with append_event_idempotent [OF created_store_inv _ s', of ?f] s' show ?thesis by auto
qed

text \<open>
  C25. The MySQL repository and the SQLite repository return the same result for every call when no
  fence is installed or the installed fence passes at both points; whatever the fence does, a
  mutation that succeeds on MySQL succeeds on SQLite with the same store.
\<close>

theorem mysql_refines_sqlite:
  "(if \<forall>p. run_fence fence p (ev_task_id e) = Inr ()
    then mysql_append_event fence s e = append_event s e
    else \<forall>s'. mysql_append_event fence s e = Inr s' \<longrightarrow> append_event s e = Inr s') \<and>
   (if \<forall>p. run_fence fence p tid = Inr ()
    then mysql_record_attempt fence s tid n = record_attempt s tid n \<and>
         mysql_record_retry_failure fence s tid f = record_retry_failure s tid f
    else \<forall>s'. (mysql_record_attempt fence s tid n = Inr s' \<longrightarrow> record_attempt s tid n = Inr s') \<and>
         (mysql_record_retry_failure fence s tid f = Inr s' \<longrightarrow> record_retry_failure s tid f = Inr s')) \<and>
   mysql_create s t = create s t \<and> mysql_get s tid = get s tid \<and>
   mysql_list_events s tid = list_events s tid \<and>
   mysql_current_revision s tid = current_revision s tid"
  by (simp add: mysql_append_event_eq mysql_record_attempt_eq mysql_record_retry_failure_eq)
    (blast dest: mysql_append_eventD mysql_record_attemptD mysql_record_retry_failureD)

theorem mysql_refines_sqlite_witness:
  "\<exists>s'. mysql_append_event (Some (\<lambda>p tid. p = BeforeReads \<or> tid = ''task_a01'')) created_store
       (sample_event ''evt_a01'' TS_NEW TS_PLANNING 1) = Inr s' \<and>
     append_event created_store (sample_event ''evt_a01'' TS_NEW TS_PLANNING 1) = Inr s'"
proof -
  let ?fence = "Some (\<lambda>p tid. p = BeforeReads \<or> tid = ''task_a01'')"
  let ?e = "sample_event ''evt_a01'' TS_NEW TS_PLANNING 1"
  have "\<not> isl (mysql_append_event ?fence created_store ?e)" unfolding created_store_def by code_simp
  then obtain s' where s': "mysql_append_event ?fence created_store ?e = Inr s'" by (metis sum.collapse(2))
  then have "append_event created_store ?e = Inr s'"
    using conjunct1 [OF mysql_refines_sqlite [of ?fence ?e created_store]]
    by (simp split: if_splits)
  with s' show ?thesis by blast
qed

end
