(* ===== verification/Runner.thy ===== *)
theory Runner
  imports Model_Failure Coder_Work Artifact_Ordering Task_Repository
begin

section \<open>The serial orchestrator\<close>

text \<open>
  \<^verbatim>\<open>orchestration/runner.py\<close> and \<^verbatim>\<open>orchestration/steps.py\<close>: one pass of a Task through planning,
  coding, QA and review. The Task repository and the Artifact store are the modelled ones; the other
  collaborators of the orchestrator are fields of \<open>runner_env\<close>: the context builder, the Agent
  adapter, the identity factory, the clock, the transition gate, the invocation journal, the resolver
  of Coder inputs and the service pause. Each is a function of what the code passes to it and of the
  number of the orchestrator step that asks, so that it may answer differently every time. The context
  builder and the adapter raise a \<open>collaborator_error\<close>; any other collaborator that raises answers
  \<open>None\<close> or \<open>False\<close>. What was written before an exception stays written, so
  a step returns its error or its value together with the state.
\<close>

record RoleRunBoundary =
  rb_task_id :: string
  rb_role :: AgentRole
  rb_attempt :: int
  rb_checkpoint_sequence :: int
  rb_source_revision :: string

definition valid_RoleRunBoundary :: "RoleRunBoundary \<Rightarrow> bool" where
  "valid_RoleRunBoundary b \<longleftrightarrow>
     valid_TaskId (rb_task_id b) \<and> rb_role b \<in> {AR_CODER, AR_QA, AR_REVIEWER} \<and>
     valid_ExecutionAttempt (rb_attempt b) \<and> in_range 0 10000 (rb_checkpoint_sequence b) \<and>
     non_empty (rb_source_revision b)"

datatype interruption_error =
    ContinuationExecutionUncertain
  | InterruptionBudgetExhausted
  | InterruptionAdmissionRejected
  | InterruptionOther

datatype runner_error =
    TaskNotRunnable
  | AgentRunFailed AgentResult
  | UnexpectedVerdict
  | DeliveryContractViolation
  | OrchestratorConfigurationError
  | RoleRunPending RoleRunBoundary
  | ServicePauseRequested
  | RunnerValueError
  | RunnerKeyError
  | RunnerStopIteration
  | RunnerTypeError
  | CollaboratorError
  | ContextBudgetExceeded
  | StructuredModelError structured_failure
  | InterruptionError interruption_error
  | DeliveryWaiting
  | OutOfFuel
  | RepositoryError repo_error
  | StateMachineError sm_error
  | ArtifactFailure artifact_error
  | OrderingFailure ordering_error
  | SliceFailure slice_error

fun raised :: "collaborator_error \<Rightarrow> runner_error" where
  "raised CE_CONTEXT_BUDGET = ContextBudgetExceeded"
| "raised (CE_STRUCTURED f) = StructuredModelError f"
| "raised CE_OTHER = CollaboratorError"

record CoderExecutionInput =
  ci_source_revision :: string
  ci_execution_base_ref :: string
  ci_active_progress :: "Artifact option"
  ci_baseline_sha256 :: "string option"
  ci_superseded_implementation_artifact_ids :: "string list"
  ci_superseded_progress_artifact_ids :: "string list"

record transition_gate =
  tg_begin_task :: "Task \<Rightarrow> bool"
  tg_before_transition :: "Task \<Rightarrow> TaskStatus \<Rightarrow> string list \<Rightarrow> bool"

record BoundedRunControl =
  bc_permit :: "RoleRunBoundary option"
  bc_guard :: "(nat \<Rightarrow> bool) option"

text \<open>
  The invocation journal. \<^verbatim>\<open>result\<close> returns a recorded result or none, or raises an
  \<^verbatim>\<open>AgentOutputContractError\<close> that carries a result (\<open>Inl\<close>).
\<close>

record invocation_control =
  iv_prepare :: "AgentRequest \<Rightarrow> AgentRequest option"
  iv_result :: "AgentRequest \<Rightarrow> AgentResult + AgentResult option"
  iv_completed :: "AgentRequest \<Rightarrow> AgentResult \<Rightarrow> bool"

record runner_env =
  re_fence :: mutation_fence
  re_hash :: artifact_hash
  re_definitions :: "(AgentRole \<times> AgentDefinition) list"
  re_run_ids :: "nat \<Rightarrow> string"
  re_event_ids :: "nat \<Rightarrow> string"
  re_clock :: "nat \<Rightarrow> py_datetime"
  re_gate :: "transition_gate option"
  re_control :: "BoundedRunControl option"
  re_invocation :: "invocation_control option"
  re_inputs :: "(Task \<Rightarrow> Artifact option \<Rightarrow> Artifact option \<Rightarrow> CoderExecutionInput option) option"
  re_context :: "nat \<Rightarrow> Task \<Rightarrow> AgentDefinition \<Rightarrow> int \<Rightarrow> string option \<Rightarrow> Artifact list \<Rightarrow> collaborator_error + (string \<times> string)"
  re_pause :: "nat \<Rightarrow> bool"
  re_adapter :: "nat \<Rightarrow> AgentRequest \<Rightarrow> collaborator_error + AgentResult"

record run_state =
  rs_tasks :: task_store
  rs_artifacts :: FileArtifactStore
  rs_step :: nat
  rs_guard_calls :: nat
  rs_consumed :: bool
  rs_seen_run_ids :: "string list"

type_synonym 'a runner = "run_state \<Rightarrow> (runner_error + 'a) \<times> run_state"

subsection \<open>Sequencing\<close>

definition rbind :: "'a runner \<Rightarrow> ('a \<Rightarrow> 'b runner) \<Rightarrow> 'b runner" where
  "rbind m f s = (case m s of (Inl e, s1) \<Rightarrow> (Inl e, s1) | (Inr a, s1) \<Rightarrow> f a s1)"

definition rreturn :: "'a \<Rightarrow> 'a runner" where
  "rreturn a s = (Inr a, s)"

definition rraise :: "runner_error \<Rightarrow> 'a runner" where
  "rraise e s = (Inl e, s)"

definition rlift :: "('e \<Rightarrow> runner_error) \<Rightarrow> 'e + 'a \<Rightarrow> 'a runner" where
  "rlift wrap r s = (case r of Inl e \<Rightarrow> (Inl (wrap e), s) | Inr a \<Rightarrow> (Inr a, s))"

definition rguard :: "bool \<Rightarrow> runner_error \<Rightarrow> unit runner" where
  "rguard ok e s = (if ok then Inr () else Inl e, s)"

definition rsome :: "'a option \<Rightarrow> runner_error \<Rightarrow> 'a runner" where
  "rsome x e s = (case x of None \<Rightarrow> Inl e | Some a \<Rightarrow> Inr a, s)"

definition rread :: "(run_state \<Rightarrow> 'a) \<Rightarrow> 'a runner" where
  "rread f s = (Inr (f s), s)"

definition rupdate :: "(run_state \<Rightarrow> run_state) \<Rightarrow> unit runner" where
  "rupdate f s = (Inr (), f s)"

definition next_step :: "nat runner" where
  "next_step s = (Inr (rs_step s), s\<lparr>rs_step := Suc (rs_step s)\<rparr>)"

subsection \<open>The bounded run control\<close>

definition before_write :: "BoundedRunControl \<Rightarrow> unit runner" where
  "before_write c =
     (case bc_guard c of
        None \<Rightarrow> rreturn ()
      | Some guard \<Rightarrow>
          rbind (rread rs_guard_calls) (\<lambda>n.
          rbind (rupdate (rs_guard_calls_update Suc)) (\<lambda>_. rguard (guard n) CollaboratorError)))"

definition run_boundary :: "Task \<Rightarrow> AgentRole \<Rightarrow> int \<Rightarrow> string \<Rightarrow> RoleRunBoundary runner" where
  "run_boundary task role attempt source_revision =
     rbind (rread rs_tasks) (\<lambda>store.
     rbind (rlift RepositoryError (mysql_current_revision store (t_id task))) (\<lambda>revision.
     let b = \<lparr>rb_task_id = t_id task, rb_role = role, rb_attempt = attempt,
              rb_checkpoint_sequence = revision, rb_source_revision = source_revision\<rparr>
     in rbind (rguard (valid_RoleRunBoundary b) RunnerValueError) (\<lambda>_. rreturn b)))"

definition before_run :: "BoundedRunControl \<Rightarrow> Task \<Rightarrow> AgentRole \<Rightarrow> int \<Rightarrow> string \<Rightarrow> unit runner" where
  "before_run c task role attempt source_revision =
     rbind (before_write c) (\<lambda>_.
     if role = AR_ORCHESTRATOR then rguard (bc_permit c = None) RunnerValueError
     else
       rbind (run_boundary task role attempt source_revision) (\<lambda>b.
       rbind (rread rs_consumed) (\<lambda>consumed.
       rbind (rguard (\<not> (consumed \<or> Some b \<noteq> bc_permit c)) (RoleRunPending b)) (\<lambda>_.
       rupdate (rs_consumed_update (\<lambda>_. True))))))"

definition before_checkpoint_recovery :: "BoundedRunControl \<Rightarrow> Task \<Rightarrow> AgentRole \<Rightarrow> int \<Rightarrow> string \<Rightarrow> unit runner" where
  "before_checkpoint_recovery c task role attempt source_revision =
     rbind (before_write c) (\<lambda>_.
     rbind (run_boundary task role attempt source_revision) (\<lambda>b.
     rbind (rread rs_consumed) (\<lambda>consumed.
     rguard (\<not> (consumed \<or> Some b \<noteq> bc_permit c)) (RoleRunPending b))))"

definition guard_write :: "runner_env \<Rightarrow> unit runner" where
  "guard_write env = (case re_control env of None \<Rightarrow> rreturn () | Some c \<Rightarrow> before_write c)"

subsection \<open>Configuration\<close>

definition validate_configuration :: "(AgentRole \<times> AgentDefinition) list \<Rightarrow> bool" where
  "validate_configuration defs \<longleftrightarrow>
     set (map fst defs) = {AR_ORCHESTRATOR, AR_CODER, AR_QA, AR_REVIEWER} \<and>
     list_all (\<lambda>(role, d). df_role d = role) defs \<and>
     card (set (map (\<lambda>(role, d). df_id d) defs)) = length defs"

subsection \<open>The current Coder input\<close>

definition commit_sha_of :: "Artifact \<Rightarrow> string option" where
  "commit_sha_of a = (case art_content a of ImplementationReportArtifact c \<Rightarrow> Some (ic_commit_sha c) | _ \<Rightarrow> None)"

text \<open>\<^verbatim>\<open>resolve_coder_execution_input\<close> with no baseline and no baseline history, as the runner calls it.\<close>

definition resolve_coder_execution_input ::
  "Task \<Rightarrow> Artifact option \<Rightarrow> Artifact option \<Rightarrow> CoderExecutionInput option" where
  "resolve_coder_execution_input task implementation progress =
     (if \<not> opt_all (\<lambda>a. art_task_id a = t_id task) implementation \<or>
         \<not> opt_all (\<lambda>a. art_task_id a = t_id task) progress then None
      else
        (let source = (case implementation of
                         None \<Rightarrow> Some (t_base_ref task)
                       | Some a \<Rightarrow> commit_sha_of a)
         in case source of
              None \<Rightarrow> None
            | Some src \<Rightarrow>
                if \<not> opt_all (\<lambda>p. art_source_revision p = src) progress then None
                else Some \<lparr>ci_source_revision = src, ci_execution_base_ref = t_base_ref task,
                           ci_active_progress = progress, ci_baseline_sha256 = None,
                           ci_superseded_implementation_artifact_ids = [],
                           ci_superseded_progress_artifact_ids = []\<rparr>))"

definition superseded_artifact_ids :: "CoderExecutionInput \<Rightarrow> string list" where
  "superseded_artifact_ids i =
     ci_superseded_implementation_artifact_ids i @ ci_superseded_progress_artifact_ids i"

text \<open>The progress that is still current: one sealed before the candidate is not.\<close>

definition current_progress ::
  "Artifact list \<Rightarrow> Artifact option \<Rightarrow> Artifact option \<Rightarrow> ordering_error + Artifact option" where
  "current_progress artifacts implementation progress =
     (case (progress, implementation) of
        (Some p, Some i) \<Rightarrow>
          bind_res (compare_artifact_order artifacts None p i) (\<lambda>order.
          case order of
            None \<Rightarrow> Inl ArtifactOrderingError
          | Some v \<Rightarrow> Inr (if v \<le> 0 then None else Some p))
      | _ \<Rightarrow> Inr progress)"

definition current_coder_input :: "runner_env \<Rightarrow> Task \<Rightarrow> CoderExecutionInput runner" where
  "current_coder_input env task =
     rbind (rread rs_artifacts) (\<lambda>store.
     rbind (rlift ArtifactFailure (list_for_task (re_hash env) store (t_id task))) (\<lambda>artifacts.
     rbind (case re_inputs env of
              None \<Rightarrow> rreturn []
            | Some current \<Rightarrow>
                rbind (rsome (current task None None) CollaboratorError) (\<lambda>i.
                rreturn (superseded_artifact_ids i))) (\<lambda>excluded.
     rbind (rlift OrderingFailure (latest_accepted_artifact artifacts AK_IMPLEMENTATION_REPORT None excluded)) (\<lambda>implementation.
     rbind (rlift OrderingFailure (latest_accepted_artifact artifacts AK_CODER_PROGRESS None excluded)) (\<lambda>latest.
     rbind (rlift OrderingFailure (current_progress artifacts implementation latest)) (\<lambda>progress.
     case re_inputs env of
       Some current \<Rightarrow> rsome (current task implementation progress) CollaboratorError
     | None \<Rightarrow> rsome (resolve_coder_execution_input task implementation progress) RunnerValueError))))))"

subsection \<open>One Agent run\<close>

definition or_else :: "string option \<Rightarrow> string \<Rightarrow> string" where
  "or_else x d = (case x of None \<Rightarrow> d | Some s \<Rightarrow> if s = [] then d else s)"

definition progress_of :: "Artifact \<Rightarrow> CoderProgressContent option" where
  "progress_of a = (case art_content a of CoderProgressArtifact c \<Rightarrow> Some c | _ \<Rightarrow> None)"

definition plan_of :: "Artifact \<Rightarrow> PlanContent option" where
  "plan_of a = (case art_content a of PlanArtifact c \<Rightarrow> Some c | _ \<Rightarrow> None)"

definition progress_inputs :: "Artifact list \<Rightarrow> (Artifact \<times> CoderProgressContent) list" where
  "progress_inputs as = concat (map (\<lambda>a. case progress_of a of None \<Rightarrow> [] | Some c \<Rightarrow> [(a, c)]) as)"

definition work_slice_for ::
  "Task \<Rightarrow> AgentRole \<Rightarrow> int \<Rightarrow> string \<Rightarrow> Artifact list \<Rightarrow> (Artifact \<times> CoderProgressContent) option \<Rightarrow>
   CoderWorkSlice option runner" where
  "work_slice_for task role attempt source_revision inputs progress =
     (if role \<noteq> AR_CODER then rreturn None
      else
        rbind (rsome (find (\<lambda>a. plan_of a \<noteq> None) inputs) RunnerStopIteration) (\<lambda>plan.
        rbind (rsome (plan_of plan) RunnerStopIteration) (\<lambda>content.
        rlift SliceFailure (select_coder_work_slice task plan content attempt source_revision progress))))"

definition make_request ::
  "runner_env \<Rightarrow> nat \<Rightarrow> Task \<Rightarrow> AgentDefinition \<Rightarrow> AgentRole \<Rightarrow> int \<Rightarrow> string option \<Rightarrow> Artifact list \<Rightarrow> string list \<Rightarrow>
   string option \<Rightarrow> (ArtifactKind \<times> string option) list option \<Rightarrow> CoderExecutionInput option \<Rightarrow> AgentRequest runner" where
  "make_request env n task definition role attempt candidate inputs parents supersedes by_kind source =
     rbind (rlift raised (re_context env n task definition attempt candidate inputs)) (\<lambda>(context_id, source_revision).
     let run_id = re_run_ids env n in
     rbind (rguard (length (progress_inputs inputs) \<le> 1) DeliveryContractViolation) (\<lambda>_.
     let progress = (case progress_inputs inputs of [] \<Rightarrow> None | p # _ \<Rightarrow> Some p);
         baseline = (case source of None \<Rightarrow> None | Some i \<Rightarrow> ci_baseline_sha256 i) in
     rbind (work_slice_for task role attempt source_revision inputs progress) (\<lambda>slice.
     let request =
       \<lparr>rq_run_id = run_id, rq_task_id = t_id task, rq_role = role, rq_attempt = attempt,
        rq_source_revision = source_revision, rq_context_manifest_id = context_id,
        rq_input_artifact_ids = map art_artifact_id inputs, rq_permissions = df_permissions definition,
        rq_output_schema = ROLE_OUTPUT_SCHEMA role, rq_timeout_seconds = df_timeout_seconds definition,
        rq_work_slice = slice,
        rq_execution_baseline_sha256 = baseline,
        rq_execution_base_ref = (if baseline = None then None else map_option ci_execution_base_ref source),
        rq_continuation_checkpoint_id = map_option (\<lambda>(a, c). art_artifact_id a) progress,
        rq_continuation_changed_paths =
          (case progress of None \<Rightarrow> [] | Some (a, c) \<Rightarrow> sort (map cf_path (cp_changed_files c))),
        rq_expected_parent_artifact_ids = Some parents,
        rq_expected_supersedes_by_kind =
          Some (case by_kind of Some m \<Rightarrow> m | None \<Rightarrow> map (\<lambda>k. (k, supersedes)) (ROLE_OUTPUTS role))\<rparr>
     in rbind (rguard (valid_AgentRequest request) RunnerValueError) (\<lambda>_. rreturn request))))"

definition paused_result :: "AgentRequest \<Rightarrow> AgentResult" where
  "paused_result r =
     \<lparr>ag_run_id = rq_run_id r, ag_task_id = rq_task_id r, ag_role = rq_role r, ag_attempt = rq_attempt r,
      ag_source_revision = rq_source_revision r, ag_context_manifest_id = rq_context_manifest_id r,
      ag_status = RS_FAILED, ag_artifact = None,
      ag_error = Some \<lparr>fl_code = AE_SERVICE_PAUSED, fl_message = ''paused'', fl_transient = False\<rparr>,
      ag_usage = None, ag_duration_ms = 0\<rparr>"

definition validate_result_identity :: "AgentRequest \<Rightarrow> AgentResult \<Rightarrow> bool" where
  "validate_result_identity request result \<longleftrightarrow>
     \<not> (ag_run_id result \<noteq> rq_run_id request \<or> ag_task_id result \<noteq> rq_task_id request \<or>
        ag_role result \<noteq> rq_role request \<or> ag_attempt result \<noteq> rq_attempt request \<or>
        ag_source_revision result \<noteq> rq_source_revision request \<or>
        ag_context_manifest_id result \<noteq> rq_context_manifest_id request)"

text \<open>The journal applies to delivery roles only.\<close>

definition journal :: "runner_env \<Rightarrow> AgentRole \<Rightarrow> invocation_control option" where
  "journal env role = (if role = AR_ORCHESTRATOR then None else re_invocation env)"

definition replayed_result :: "runner_env \<Rightarrow> AgentRole \<Rightarrow> AgentRequest \<Rightarrow> AgentResult option runner" where
  "replayed_result env role request =
     (case journal env role of
        None \<Rightarrow> rreturn None
      | Some iv \<Rightarrow> rlift AgentRunFailed (iv_result iv request))"

definition invoke :: "runner_env \<Rightarrow> nat \<Rightarrow> AgentRequest \<Rightarrow> AgentResult option \<Rightarrow> AgentResult runner" where
  "invoke env n request replayed =
     (case replayed of
        Some r \<Rightarrow> rreturn r
      | None \<Rightarrow>
          if re_pause env n then rreturn (paused_result request)
          else rlift raised (re_adapter env n request))"

definition check_slice :: "CoderWorkSlice option \<Rightarrow> Artifact \<Rightarrow> unit runner" where
  "check_slice slice a =
     (case slice of None \<Rightarrow> rreturn () | Some w \<Rightarrow> rlift SliceFailure (validate_coder_slice_output w a))"

definition required_supersedes ::
  "ArtifactKind \<Rightarrow> string option \<Rightarrow> (ArtifactKind \<times> string option) list option \<Rightarrow> string option runner" where
  "required_supersedes kind supersedes by_kind =
     (case by_kind of
        None \<Rightarrow> rreturn supersedes
      | Some m \<Rightarrow> rsome (map_of m kind) DeliveryContractViolation)"

definition accept_result ::
  "runner_env \<Rightarrow> AgentRole \<Rightarrow> AgentRequest \<Rightarrow> AgentResult option \<Rightarrow> AgentResult \<Rightarrow> AgentResult runner" where
  "accept_result env role request replayed result =
     rbind (guard_write env) (\<lambda>_.
     rbind (rguard (validate_result_identity request result) DeliveryContractViolation) (\<lambda>_.
     let checked = (case validate_current_output result of None \<Rightarrow> result | Some r \<Rightarrow> r) in
     rbind (case (replayed, journal env role) of
              (None, Some iv) \<Rightarrow> rguard (iv_completed iv request checked) CollaboratorError
            | _ \<Rightarrow> rreturn ()) (\<lambda>_.
     rbind (rguard (map_option fl_code (ag_error checked) \<noteq> Some AE_SERVICE_PAUSED) ServicePauseRequested) (\<lambda>_.
     rbind (rguard (ag_status checked = RS_SUCCEEDED \<and> ag_artifact checked \<noteq> None) (AgentRunFailed checked)) (\<lambda>_.
     rreturn checked)))))"

definition publish :: "runner_env \<Rightarrow> nat \<Rightarrow> Artifact \<Rightarrow> Artifact runner" where
  "publish env n a =
     rbind (rlift ArtifactFailure (seal_artifact (re_hash env) a (re_clock env n))) (\<lambda>sealed.
     rbind (guard_write env) (\<lambda>_.
     rbind (rread rs_artifacts) (\<lambda>store.
     rbind (rlift ArtifactFailure (artifact_put (re_hash env) store sealed)) (\<lambda>(reference, store').
     rbind (rupdate (rs_artifacts_update (\<lambda>_. store'))) (\<lambda>_.
     rlift ArtifactFailure (artifact_get (re_hash env) store' (aref_artifact_id reference)))))))"

record completed_run =
  co_artifact :: Artifact
  co_context_id :: string
  co_run_id :: string

text \<open>
  A run after its control: request, journal, invocation, acceptance, and the checks of the Artifact
  against the lineage the caller expects.
\<close>

definition request_agent ::
  "runner_env \<Rightarrow> nat \<Rightarrow> Task \<Rightarrow> AgentRole \<Rightarrow> int \<Rightarrow> string option \<Rightarrow> Artifact list \<Rightarrow> string list \<Rightarrow> string option \<Rightarrow>
   (ArtifactKind \<times> string option) list option \<Rightarrow> CoderExecutionInput option \<Rightarrow> (AgentRequest \<times> Artifact) runner" where
  "request_agent env n task role attempt candidate inputs parents supersedes by_kind source =
     rbind (rsome (map_of (re_definitions env) role) RunnerKeyError) (\<lambda>definition.
     rbind (make_request env n task definition role attempt candidate inputs parents supersedes by_kind source) (\<lambda>request0.
     rbind (case journal env role of
              None \<Rightarrow> rreturn request0
            | Some iv \<Rightarrow> rsome (iv_prepare iv request0) CollaboratorError) (\<lambda>request.
     rbind (rread rs_seen_run_ids) (\<lambda>seen.
     rbind (rguard (rq_run_id request \<notin> set seen) DeliveryContractViolation) (\<lambda>_.
     rbind (rupdate (rs_seen_run_ids_update (\<lambda>ids. rq_run_id request # ids))) (\<lambda>_.
     rbind (replayed_result env role request) (\<lambda>replayed.
     rbind (invoke env n request replayed) (\<lambda>result.
     rbind (accept_result env role request replayed result) (\<lambda>accepted.
     rbind (rsome (ag_artifact accepted) (AgentRunFailed accepted)) (\<lambda>a.
     rbind (check_slice (rq_work_slice request) a) (\<lambda>_.
     rbind (rguard (art_parent_artifact_ids a = parents)
              (AgentRunFailed (rejected_result accepted ''parent lineage''))) (\<lambda>_.
     rbind (required_supersedes (art_kind a) supersedes by_kind) (\<lambda>required.
     rbind (rguard (art_supersedes a = required)
              (AgentRunFailed (rejected_result accepted ''supersedes lineage''))) (\<lambda>_.
     rreturn (request, a)))))))))))))))"

definition invoke_agent ::
  "runner_env \<Rightarrow> nat \<Rightarrow> Task \<Rightarrow> AgentRole \<Rightarrow> int \<Rightarrow> string option \<Rightarrow> Artifact list \<Rightarrow> string list \<Rightarrow> string option \<Rightarrow>
   (ArtifactKind \<times> string option) list option \<Rightarrow> (AgentRequest \<times> Artifact) runner" where
  "invoke_agent env n task role attempt candidate_revision inputs parents supersedes by_kind =
     rbind (if role \<in> {AR_CODER, AR_QA, AR_REVIEWER}
            then rbind (current_coder_input env task) (\<lambda>i. rreturn (Some i)) else rreturn None) (\<lambda>source.
     let candidate = (case source of
                        Some i \<Rightarrow> if role = AR_CODER then Some (ci_source_revision i) else candidate_revision
                      | None \<Rightarrow> candidate_revision) in
     rbind (case re_control env of
              None \<Rightarrow> rreturn ()
            | Some c \<Rightarrow> before_run c task role attempt (or_else candidate (t_base_ref task))) (\<lambda>_.
     request_agent env n task role attempt candidate inputs parents supersedes by_kind source))"

definition run_agent ::
  "runner_env \<Rightarrow> Task \<Rightarrow> AgentRole \<Rightarrow> int \<Rightarrow> string option \<Rightarrow> Artifact list \<Rightarrow> string list \<Rightarrow> string option \<Rightarrow>
   (ArtifactKind \<times> string option) list option \<Rightarrow> completed_run runner" where
  "run_agent env task role attempt candidate_revision inputs parents supersedes by_kind =
     rbind next_step (\<lambda>n.
     rbind (invoke_agent env n task role attempt candidate_revision inputs parents supersedes by_kind) (\<lambda>(request, a).
     rbind (publish env n a) (\<lambda>persisted.
     rbind (check_slice (rq_work_slice request) persisted) (\<lambda>_.
     rreturn \<lparr>co_artifact = persisted, co_context_id = rq_context_manifest_id request,
              co_run_id = rq_run_id request\<rparr>))))"

subsection \<open>Transitions and the delivery\<close>

definition transition ::
  "runner_env \<Rightarrow> Task \<Rightarrow> TaskStatus \<Rightarrow> string \<Rightarrow> string \<Rightarrow> int \<Rightarrow> string list \<Rightarrow> (Task \<times> string) runner" where
  "transition env task to_status reason source_revision attempt artifact_ids =
     rbind next_step (\<lambda>n.
     rbind (guard_write env) (\<lambda>_.
     rbind (case re_gate env of
              None \<Rightarrow> rreturn ()
            | Some g \<Rightarrow> rguard (tg_before_transition g task to_status artifact_ids) CollaboratorError) (\<lambda>_.
     let event_id = re_event_ids env n in
     rbind (rlift StateMachineError
              (build_event task to_status event_id reason source_revision artifact_ids attempt (re_clock env n))) (\<lambda>event.
     rbind (guard_write env) (\<lambda>_.
     rbind (rread rs_tasks) (\<lambda>store.
     rbind (rlift RepositoryError (mysql_append_event (re_fence env) store event)) (\<lambda>store'.
     rbind (rupdate (rs_tasks_update (\<lambda>_. store'))) (\<lambda>_.
     rbind (rlift RepositoryError (mysql_get store' (t_id task))) (\<lambda>task'.
     rreturn (task', event_id))))))))))"

definition validate_criteria :: "Task \<Rightarrow> string list \<Rightarrow> unit runner" where
  "validate_criteria task received =
     rguard (set received = set (map ac_id (t_acceptance_criteria task))) DeliveryContractViolation"

definition require_plan :: "Artifact \<Rightarrow> PlanContent runner" where
  "require_plan a = (case art_content a of PlanArtifact c \<Rightarrow> rreturn c | _ \<Rightarrow> rraise DeliveryContractViolation)"

definition require_implementation :: "Artifact \<Rightarrow> ImplementationReportContent runner" where
  "require_implementation a =
     (case art_content a of ImplementationReportArtifact c \<Rightarrow> rreturn c | _ \<Rightarrow> rraise DeliveryContractViolation)"

definition require_qa :: "Artifact \<Rightarrow> QaReportContent runner" where
  "require_qa a = (case art_content a of QaReportArtifact c \<Rightarrow> rreturn c | _ \<Rightarrow> rraise DeliveryContractViolation)"

definition require_review :: "Artifact \<Rightarrow> ReviewReportContent runner" where
  "require_review a =
     (case art_content a of ReviewReportArtifact c \<Rightarrow> rreturn c | _ \<Rightarrow> rraise DeliveryContractViolation)"

record DeliveryResult =
  dv_task :: Task
  dv_candidate_revision :: string
  dv_artifact_ids :: "string list"
  dv_context_manifest_ids :: "string list"
  dv_run_ids :: "string list"
  dv_event_ids :: "string list"

definition valid_DeliveryResult :: "DeliveryResult \<Rightarrow> bool" where
  "valid_DeliveryResult d \<longleftrightarrow>
     valid_CommitSha (dv_candidate_revision d) \<and>
     list_all valid_ArtifactId (dv_artifact_ids d) \<and> length (dv_artifact_ids d) = 4 \<and>
     list_all valid_ContextId (dv_context_manifest_ids d) \<and> length (dv_context_manifest_ids d) = 4 \<and>
     list_all valid_RunId (dv_run_ids d) \<and> length (dv_run_ids d) = 4 \<and>
     list_all valid_EventId (dv_event_ids d) \<and> length (dv_event_ids d) = 5"

text \<open>The four phases of \<^verbatim>\<open>run_task\<close>; each returns the Task after its transition.\<close>

definition plan_phase :: "runner_env \<Rightarrow> Task \<Rightarrow> (Task \<times> completed_run \<times> string list) runner" where
  "plan_phase env task =
     rbind (transition env task TS_PLANNING ''task_validated'' (t_base_ref task) 1 []) (\<lambda>(task1, e1).
     rbind (run_agent env task1 AR_ORCHESTRATOR 1 None [] [] None None) (\<lambda>run.
     rbind (require_plan (co_artifact run)) (\<lambda>plan.
     rbind (validate_criteria task1 (map pam_criterion_id (pc_acceptance_mapping plan))) (\<lambda>_.
     rbind (rguard (art_source_revision (co_artifact run) = t_base_ref task1) DeliveryContractViolation) (\<lambda>_.
     rbind (transition env task1 TS_IMPLEMENTING ''plan_validated'' (t_base_ref task1) 1
              [art_artifact_id (co_artifact run)]) (\<lambda>(task2, e2).
     rreturn (task2, run, [e1, e2])))))))"

definition code_phase :: "runner_env \<Rightarrow> Task \<Rightarrow> Artifact \<Rightarrow> (Task \<times> completed_run \<times> string \<times> string) runner" where
  "code_phase env task plan =
     rbind (run_agent env task AR_CODER 1 None [plan] [art_artifact_id plan] None None) (\<lambda>run.
     rbind (require_implementation (co_artifact run)) (\<lambda>implementation.
     rbind (validate_criteria task (map iam_criterion_id (ic_acceptance_mapping implementation))) (\<lambda>_.
     let candidate = ic_commit_sha implementation in
     rbind (rguard (art_source_revision (co_artifact run) = candidate) DeliveryContractViolation) (\<lambda>_.
     rbind (transition env task TS_QA ''candidate_ready'' candidate 1 [art_artifact_id (co_artifact run)]) (\<lambda>(task', e).
     rreturn (task', run, candidate, e))))))"

definition qa_phase ::
  "runner_env \<Rightarrow> Task \<Rightarrow> Artifact \<Rightarrow> Artifact \<Rightarrow> string \<Rightarrow> (Task \<times> completed_run \<times> string) runner" where
  "qa_phase env task plan implementation candidate =
     rbind (run_agent env task AR_QA 1 (Some candidate) [plan, implementation]
              [art_artifact_id implementation] None None) (\<lambda>run.
     rbind (require_qa (co_artifact run)) (\<lambda>qa.
     rbind (validate_criteria task (map qcr_criterion_id (qa_criteria_results qa))) (\<lambda>_.
     rbind (rguard (art_source_revision (co_artifact run) = candidate) DeliveryContractViolation) (\<lambda>_.
     rbind (rguard (qa_status qa = QR_PASS) UnexpectedVerdict) (\<lambda>_.
     rbind (transition env task TS_REVIEW ''qa_passed'' candidate 1 [art_artifact_id (co_artifact run)]) (\<lambda>(task', e).
     rreturn (task', run, e)))))))"

definition review_phase ::
  "runner_env \<Rightarrow> Task \<Rightarrow> Artifact \<Rightarrow> Artifact \<Rightarrow> Artifact \<Rightarrow> string \<Rightarrow> (Task \<times> completed_run \<times> string) runner" where
  "review_phase env task plan implementation qa candidate =
     rbind (run_agent env task AR_REVIEWER 1 (Some candidate) [plan, implementation, qa]
              [art_artifact_id qa] None None) (\<lambda>run.
     rbind (require_review (co_artifact run)) (\<lambda>review.
     rbind (rguard (art_source_revision (co_artifact run) = candidate) DeliveryContractViolation) (\<lambda>_.
     rbind (rguard (rc_verdict review = RV_APPROVE) UnexpectedVerdict) (\<lambda>_.
     rbind (transition env task TS_DONE ''review_approved'' candidate 1
              [art_artifact_id plan, art_artifact_id implementation, art_artifact_id qa,
               art_artifact_id (co_artifact run)]) (\<lambda>(task', e).
     rreturn (task', run, e))))))"

definition run_task :: "runner_env \<Rightarrow> string \<Rightarrow> DeliveryResult runner" where
  "run_task env task_id =
     rbind (rread rs_tasks) (\<lambda>store.
     rbind (rlift RepositoryError (mysql_get store task_id)) (\<lambda>task.
     rbind (rguard (t_status task = TS_NEW) TaskNotRunnable) (\<lambda>_.
     rbind (case re_gate env of None \<Rightarrow> rreturn () | Some g \<Rightarrow> rguard (tg_begin_task g task) CollaboratorError) (\<lambda>_.
     rbind (rupdate (rs_seen_run_ids_update (\<lambda>_. []))) (\<lambda>_.
     rbind (plan_phase env task) (\<lambda>(task2, plan_run, es).
     rbind (code_phase env task2 (co_artifact plan_run)) (\<lambda>(task3, coder_run, candidate, e3).
     rbind (qa_phase env task3 (co_artifact plan_run) (co_artifact coder_run) candidate) (\<lambda>(task4, qa_run, e4).
     rbind (review_phase env task4 (co_artifact plan_run) (co_artifact coder_run) (co_artifact qa_run) candidate)
       (\<lambda>(task5, review_run, e5).
     let runs = [plan_run, coder_run, qa_run, review_run];
         result = \<lparr>dv_task = task5, dv_candidate_revision = candidate,
                   dv_artifact_ids = map (\<lambda>r. art_artifact_id (co_artifact r)) runs,
                   dv_context_manifest_ids = map co_context_id runs, dv_run_ids = map co_run_id runs,
                   dv_event_ids = es @ [e3, e4, e5]\<rparr> in
     rbind (rguard (valid_DeliveryResult result) RunnerValueError) (\<lambda>_. rreturn result))))))))))"

end
