(* ===== verification/Runner_Properties.thy ===== *)
theory Runner_Properties
  imports Runner
begin

section \<open>Properties of a delivery\<close>

text \<open>
  A pass of the orchestrator that returns has delivered a verified candidate; one that raises has
  not finished the Task; and a bounded pass makes at most one delivery run. The effects of a step are
  tracked through relations between the states before and after it.
\<close>

subsection \<open>Sequencing\<close>

lemma rbind_Inr_iff:
  "rbind m f s = (Inr b, s') \<longleftrightarrow> (\<exists>a s1. m s = (Inr a, s1) \<and> f a s1 = (Inr b, s'))"
  by (cases "m s") (auto simp: rbind_def split: sum.splits)

lemma rbind_Inl_iff:
  "rbind m f s = (Inl e, s') \<longleftrightarrow> m s = (Inl e, s') \<or> (\<exists>a s1. m s = (Inr a, s1) \<and> f a s1 = (Inl e, s'))"
  by (cases "m s") (auto simp: rbind_def split: sum.splits)

lemma runner_Inr_iffs [simp]:
  "rreturn a s = (Inr b, s') \<longleftrightarrow> b = a \<and> s' = s"
  "rraise e s \<noteq> (Inr b, s')"
  "rlift wrap r s = (Inr b, s') \<longleftrightarrow> r = Inr b \<and> s' = s"
  "rguard ok e s = (Inr u, s') \<longleftrightarrow> ok \<and> s' = s"
  "rsome x e s = (Inr b, s') \<longleftrightarrow> x = Some b \<and> s' = s"
  "rread g s = (Inr b, s') \<longleftrightarrow> b = g s \<and> s' = s"
  "rupdate h s = (Inr u, s') \<longleftrightarrow> s' = h s"
  "next_step s = (Inr n, s') \<longleftrightarrow> n = rs_step s \<and> s' = s\<lparr>rs_step := Suc (rs_step s)\<rparr>"
  by (auto simp: rreturn_def rraise_def rlift_def rguard_def rsome_def rread_def rupdate_def next_step_def
      split: sum.splits option.splits)

lemma runner_Inl_iffs [simp]:
  "rreturn a s \<noteq> (Inl e, s')"
  "rraise e s = (Inl e', s') \<longleftrightarrow> e' = e \<and> s' = s"
  "rlift wrap r s = (Inl e', s') \<longleftrightarrow> (\<exists>x. r = Inl x \<and> e' = wrap x) \<and> s' = s"
  "rguard ok e s = (Inl e', s') \<longleftrightarrow> \<not> ok \<and> e' = e \<and> s' = s"
  "rsome x e s = (Inl e', s') \<longleftrightarrow> x = None \<and> e' = e \<and> s' = s"
  "rread g s \<noteq> (Inl e', s')" "rupdate h s \<noteq> (Inl e', s')" "next_step s \<noteq> (Inl e', s')"
  by (auto simp: rreturn_def rraise_def rlift_def rguard_def rsome_def rread_def rupdate_def next_step_def
      split: sum.splits option.splits)

text \<open>A relation that every part of a program obeys is respected by the program.\<close>

definition obeys :: "(run_state \<Rightarrow> run_state \<Rightarrow> bool) \<Rightarrow> 'a runner \<Rightarrow> bool" where
  "obeys R m \<longleftrightarrow> (\<forall>s r s'. m s = (r, s') \<longrightarrow> R s s')"

locale step_relation =
  fixes R :: "run_state \<Rightarrow> run_state \<Rightarrow> bool"
  assumes refl: "R s s" and trans: "R a b \<Longrightarrow> R b c \<Longrightarrow> R a c"
begin

lemma bind: "obeys R m \<Longrightarrow> (\<And>a. obeys R (f a)) \<Longrightarrow> obeys R (rbind m f)"
  unfolding obeys_def rbind_def by (auto split: prod.splits sum.splits) (meson trans)+

lemma pure:
  "obeys R (rreturn a)" "obeys R (rraise e)" "obeys R (rlift wrap r)" "obeys R (rguard ok e)"
  "obeys R (rsome x e)" "obeys R (rread g)"
  by (auto simp: obeys_def rreturn_def rraise_def rlift_def rguard_def rsome_def rread_def refl split: sum.splits)

lemma update: "(\<And>s. R s (h s)) \<Longrightarrow> obeys R (rupdate h)"
  by (simp add: obeys_def rupdate_def)

lemma choice: "(x = None \<Longrightarrow> obeys R m) \<Longrightarrow> (\<And>a. x = Some a \<Longrightarrow> obeys R (f a)) \<Longrightarrow>
    obeys R (case x of None \<Rightarrow> m | Some a \<Rightarrow> f a)"
  by (cases x) auto

lemma branch: "(c \<Longrightarrow> obeys R m) \<Longrightarrow> (\<not> c \<Longrightarrow> obeys R n) \<Longrightarrow> obeys R (if c then m else n)"
  by simp

lemmas rules = bind pure update choice branch

end

definition same_tasks :: "run_state \<Rightarrow> run_state \<Rightarrow> bool" where
  "same_tasks s s' \<longleftrightarrow> rs_tasks s' = rs_tasks s"

definition same_artifacts :: "run_state \<Rightarrow> run_state \<Rightarrow> bool" where
  "same_artifacts s s' \<longleftrightarrow> rs_artifacts s' = rs_artifacts s"

definition artifacts_grow :: "artifact_hash \<Rightarrow> run_state \<Rightarrow> run_state \<Rightarrow> bool" where
  "artifacts_grow H s s' \<longleftrightarrow>
     (store_inv H (rs_artifacts s) \<longrightarrow>
        store_inv H (rs_artifacts s') \<and>
        (\<forall>i b. artifact_get H (rs_artifacts s) i = Inr b \<longrightarrow> artifact_get H (rs_artifacts s') i = Inr b))"

interpretation tasks: step_relation same_tasks
  by unfold_locales (auto simp: same_tasks_def)

interpretation store: step_relation same_artifacts
  by unfold_locales (auto simp: same_artifacts_def)

interpretation growth: step_relation "artifacts_grow H" for H
  by unfold_locales (auto simp: artifacts_grow_def)

lemma next_step_obeys: "obeys same_tasks next_step" "obeys same_artifacts next_step"
    "obeys (artifacts_grow H) next_step"
  by (auto simp: obeys_def next_step_def same_tasks_def same_artifacts_def artifacts_grow_def)

lemma same_artifacts_grow: "obeys same_artifacts m \<Longrightarrow> obeys (artifacts_grow H) m"
  by (auto simp: obeys_def same_artifacts_def artifacts_grow_def)

lemma guard_write_obeys:
  "obeys same_tasks (before_write c)" "obeys same_artifacts (before_write c)"
  "obeys same_tasks (guard_write env)" "obeys same_artifacts (guard_write env)"
proof -
  show t: "obeys same_tasks (before_write c)" for c
    unfolding before_write_def by (intro tasks.rules) (simp_all add: same_tasks_def)
  show a: "obeys same_artifacts (before_write c)" for c
    unfolding before_write_def by (intro store.rules) (simp_all add: same_artifacts_def)
  show "obeys same_tasks (guard_write env)" "obeys same_artifacts (guard_write env)"
    unfolding guard_write_def by (intro tasks.rules store.rules t a)+
qed

lemma before_run_obeys: "obeys same_tasks (before_run c task role n r)" "obeys same_artifacts (before_run c task role n r)"
  unfolding before_run_def run_boundary_def Let_def
  by (intro tasks.rules store.rules guard_write_obeys; simp add: same_tasks_def same_artifacts_def)+

lemma current_coder_input_obeys:
  "obeys same_tasks (current_coder_input env task)" "obeys same_artifacts (current_coder_input env task)"
  unfolding current_coder_input_def by (intro tasks.rules store.rules)+

lemma make_request_obeys:
  "obeys same_tasks (make_request env n task d role k c inputs parents sp bk src)"
  "obeys same_artifacts (make_request env n task d role k c inputs parents sp bk src)"
  unfolding make_request_def work_slice_for_def Let_def split_beta by (intro tasks.rules store.rules)+

lemma accept_result_obeys:
  "obeys same_tasks (accept_result env role rq rp r)" "obeys same_artifacts (accept_result env role rq rp r)"
  unfolding accept_result_def Let_def
  by (intro tasks.rules store.rules guard_write_obeys; cases rp; cases "journal env role"; simp add: tasks.pure store.pure)+

lemma request_agent_obeys:
  "obeys same_tasks (request_agent env n task role k cand inputs parents sp bk src)"
  "obeys same_artifacts (request_agent env n task role k cand inputs parents sp bk src)"
  unfolding request_agent_def replayed_result_def invoke_def check_slice_def required_supersedes_def
  by (intro tasks.rules store.rules make_request_obeys accept_result_obeys; simp add: same_tasks_def same_artifacts_def)+

lemma invoke_agent_obeys:
  "obeys same_tasks (invoke_agent env n task role k cand inputs parents sp bk)"
  "obeys same_artifacts (invoke_agent env n task role k cand inputs parents sp bk)"
  unfolding invoke_agent_def Let_def
  by (intro tasks.rules store.rules current_coder_input_obeys before_run_obeys request_agent_obeys)+

subsection \<open>One run\<close>

text \<open>
  What the collaborators deliver are instances of validated models: a result of the adapter or of
  the journal is a valid \<^verbatim>\<open>AgentResult\<close>, a prepared request a valid \<^verbatim>\<open>AgentRequest\<close>.
\<close>

definition env_valid :: "runner_env \<Rightarrow> bool" where
  "env_valid env \<longleftrightarrow>
     (\<forall>n rq r. re_adapter env n rq = Inr r \<longrightarrow> valid_AgentResult r) \<and>
     (\<forall>iv. re_invocation env = Some iv \<longrightarrow>
        (\<forall>rq rq'. iv_prepare iv rq = Some rq' \<longrightarrow> valid_AgentRequest rq') \<and>
        (\<forall>rq r. iv_result iv rq = Inr (Some r) \<longrightarrow> valid_AgentResult r))"

lemma make_request_Inr:
  "make_request env n task d role k c inputs parents sp bk src s = (Inr rq, s') \<Longrightarrow>
   valid_AgentRequest rq \<and> rq_task_id rq = t_id task \<and> rq_role rq = role \<and> rq_expected_parent_artifact_ids rq = Some parents"
  by (auto simp: make_request_def rbind_Inr_iff Let_def)

lemma accept_result_Inr:
  assumes "accept_result env role rq rp r s = (Inr acc, s')"
  shows "acc = r" "ag_status r = RS_SUCCEEDED" "ag_artifact r \<noteq> None" "ag_task_id r = rq_task_id rq"
proof -
  have c: "acc = (case validate_current_output r of None \<Rightarrow> r | Some r' \<Rightarrow> r')"
    and id: "validate_result_identity rq r" and st: "ag_status acc = RS_SUCCEEDED" "ag_artifact acc \<noteq> None"
    using assms by (auto simp: accept_result_def rbind_Inr_iff Let_def)
  have "validate_current_output r = Some r' \<Longrightarrow> ag_status r' = RS_FAILED" for r'
    by (auto simp: validate_current_output_def rejected_result_def
        split: AgentRunStatus.splits option.splits if_splits ArtifactContent.splits)
  with c st show "acc = r" by (auto split: option.splits)
  with st id show "ag_status r = RS_SUCCEEDED" "ag_artifact r \<noteq> None" "ag_task_id r = rq_task_id rq"
    by (auto simp: validate_result_identity_def)
qed

lemma quiet_steps:
  "replayed_result env role rq s = (x, s') \<Longrightarrow> s' = s" "invoke env n rq rp s = (y, s') \<Longrightarrow> s' = s"
  "check_slice w a s = (z, s') \<Longrightarrow> s' = s"
  by (auto simp: replayed_result_def invoke_def check_slice_def rreturn_def rlift_def rsome_def
      split: option.splits sum.splits if_splits)

lemma invoke_agent_Inr:
  assumes "invoke_agent env n task role k cand inputs parents sp bk s = (Inr (rq, a), s')" and "env_valid env"
  shows "art_parent_artifact_ids a = parents" "bk = None \<Longrightarrow> art_supersedes a = sp" "valid_AgentRequest rq"
    "role = AR_ORCHESTRATOR \<Longrightarrow> art_task_id a = t_id task"
proof -
  obtain d c ps sp' bk' src rq0 rp r r' s1 s2 s3 s4 s5 s6 s7 where
    m: "make_request env n task d role k c inputs ps sp' bk' src s1 = (Inr rq0, s2)"
    and p: "(case journal env role of None \<Rightarrow> rreturn rq0 | Some iv \<Rightarrow> rsome (iv_prepare iv rq0) CollaboratorError) s2 = (Inr rq, s3)"
    and iv: "replayed_result env role rq s4 = (Inr rp, s5)" "invoke env n rq rp s5 = (Inr r, s6)"
    and acc: "accept_result env role rq rp r s6 = (Inr r', s7)"
    and a': "ag_artifact r' = Some a" "art_parent_artifact_ids a = parents" "bk = None \<longrightarrow> art_supersedes a = sp"
    using assms(1)
    unfolding invoke_agent_def request_agent_def Let_def rbind_Inr_iff runner_Inr_iffs prod.inject
    by clarify (rule that, assumption+, (rule sym, assumption)?, auto simp: required_supersedes_def)
  note a = a' [unfolded accept_result_Inr(1) [OF acc]]
  show "art_parent_artifact_ids a = parents" "bk = None \<Longrightarrow> art_supersedes a = sp" using a by simp_all
  show v: "valid_AgentRequest rq"
    using p make_request_Inr [OF m] assms(2) by (auto simp: env_valid_def journal_def split: option.splits if_splits)
  assume o: "role = AR_ORCHESTRATOR"
  then have "rq = rq0" "rp = None" using p iv(1) by (auto simp: journal_def replayed_result_def)
  have "ag_artifact (paused_result rq) = None" by (simp add: paused_result_def)
  then have "valid_AgentResult r"
    using iv(2) \<open>rp = None\<close> a(1) assms(2) by (auto simp: invoke_def env_valid_def split: if_splits)
  then have "art_task_id a = ag_task_id r"
    using succeeded_identity [of r a] accept_result_Inr [OF acc] a(1) by (simp add: validate_artifact_identity_def)
  then show "art_task_id a = t_id task"
    using accept_result_Inr(4) [OF acc] make_request_Inr [OF m] \<open>rq = rq0\<close> by simp
qed

lemma publish_obeys: "obeys same_tasks (publish env n a)" "obeys (artifacts_grow (re_hash env)) (publish env n a)"
proof -
  show "obeys same_tasks (publish env n a)"
    unfolding publish_def split_beta by (intro tasks.rules guard_write_obeys) (simp add: same_tasks_def)
  have "artifacts_grow (re_hash env) s (s\<lparr>rs_artifacts := st\<rparr>)"
    if "artifact_put (re_hash env) (rs_artifacts s) b = Inr (r, st)" for s b r st
    unfolding artifacts_grow_def using artifacts.put_keeps artifacts.put_frame that by auto
  then have core: "obeys (artifacts_grow (re_hash env))
     (rbind (rread rs_artifacts) (\<lambda>store. rbind (rlift ArtifactFailure (artifact_put (re_hash env) store b)) (\<lambda>(reference, store').
      rbind (rupdate (rs_artifacts_update (\<lambda>_. store'))) (\<lambda>_.
      rlift ArtifactFailure (artifact_get (re_hash env) store' (aref_artifact_id reference))))))" for b
    by (auto simp: obeys_def rbind_def rread_def rlift_def rupdate_def growth.refl split: sum.splits prod.splits)
  show "obeys (artifacts_grow (re_hash env)) (publish env n a)"
    unfolding publish_def
    by (rule growth.bind [OF growth.pure(3) growth.bind [OF same_artifacts_grow [OF guard_write_obeys(4)] core]])
qed

lemma run_agent_obeys:
  "obeys same_tasks (run_agent env task role k cand inputs parents sp bk)"
  "obeys (artifacts_grow (re_hash env)) (run_agent env task role k cand inputs parents sp bk)"
  unfolding run_agent_def check_slice_def split_beta
  by (intro tasks.rules growth.rules next_step_obeys invoke_agent_obeys publish_obeys same_artifacts_grow)+

lemma publish_Inr:
  assumes inv: "store_inv (re_hash env) (rs_artifacts s)" and pub: "publish env n a s = (Inr p, s')"
  shows "\<exists>i. p = a\<lparr>art_integrity := i\<rparr>" "artifact_get (re_hash env) (rs_artifacts s') (art_artifact_id p) = Inr p"
proof -
  obtain sealed s1 r st where p: "seal_artifact (re_hash env) a (re_clock env n) = Inr sealed"
      "guard_write env s = (Inr (), s1)" "artifact_put (re_hash env) (rs_artifacts s1) sealed = Inr (r, st)"
      "artifact_get (re_hash env) st (aref_artifact_id r) = Inr p" "s' = s1\<lparr>rs_artifacts := st\<rparr>"
    using pub unfolding publish_def by (auto simp: rbind_Inr_iff)
  have "rs_artifacts s1 = rs_artifacts s"
    using guard_write_obeys(4) [of env] p(2) by (auto simp: obeys_def same_artifacts_def)
  with inv p(3) have put: "artifact_put (re_hash env) (rs_artifacts s) sealed = Inr (r, st)" by simp
  have "aref_artifact_id r = art_artifact_id sealed"
    using put_cases [OF inv put] by (metis artifact_ref_def ArtifactRef.select_convs(1))
  then have "p = sealed" using artifacts.put_get [OF inv put] p(4) by simp
  moreover have "\<exists>i. sealed = a\<lparr>art_integrity := i\<rparr>"
    using p(1) by (cases "re_clock env n") (auto simp: seal_artifact_def bind_res_Inr_iff Let_def split: if_splits)
  ultimately show "\<exists>i. p = a\<lparr>art_integrity := i\<rparr>" by simp
  show "artifact_get (re_hash env) (rs_artifacts s') (art_artifact_id p) = Inr p"
    using artifacts.put_get [OF inv put] \<open>p = sealed\<close> by (simp add: p(5))
qed

lemma run_agent_Inr:
  assumes inv: "store_inv (re_hash env) (rs_artifacts s)" and env: "env_valid env"
    and run: "run_agent env task role k cand inputs parents sp bk s = (Inr run, s')"
  shows "art_parent_artifact_ids (co_artifact run) = parents" "bk = None \<Longrightarrow> art_supersedes (co_artifact run) = sp"
    "artifact_get (re_hash env) (rs_artifacts s') (art_artifact_id (co_artifact run)) = Inr (co_artifact run)"
    "valid_ContextId (co_context_id run)" "valid_RunId (co_run_id run)"
    "role = AR_ORCHESTRATOR \<Longrightarrow> art_task_id (co_artifact run) = t_id task"
proof -
  obtain n rq a s1 s2 p where i: "invoke_agent env n task role k cand inputs parents sp bk (s\<lparr>rs_step := Suc (rs_step s)\<rparr>) = (Inr (rq, a), s1)"
    and p: "publish env n a s1 = (Inr p, s2)" and c: "check_slice (rq_work_slice rq) p s2 = (Inr (), s')"
    and run': "run = \<lparr>co_artifact = p, co_context_id = rq_context_manifest_id rq, co_run_id = rq_run_id rq\<rparr>"
    using run unfolding run_agent_def by (auto simp: rbind_Inr_iff)
  have "rs_artifacts s1 = rs_artifacts s"
    using invoke_agent_obeys(2) i by (force simp: obeys_def same_artifacts_def)
  with inv have "store_inv (re_hash env) (rs_artifacts s1)" by simp
  note P = publish_Inr [OF this p]
  obtain j where j: "p = a\<lparr>art_integrity := j\<rparr>" using P(1) by blast
  have "s' = s2" using quiet_steps(3) [OF c] .
  then show "artifact_get (re_hash env) (rs_artifacts s') (art_artifact_id (co_artifact run)) = Inr (co_artifact run)"
    using P(2) run' by simp
  note I = invoke_agent_Inr [OF i env]
  show "art_parent_artifact_ids (co_artifact run) = parents" "bk = None \<Longrightarrow> art_supersedes (co_artifact run) = sp"
    "role = AR_ORCHESTRATOR \<Longrightarrow> art_task_id (co_artifact run) = t_id task" using I run' j by simp_all
  show "valid_ContextId (co_context_id run)" "valid_RunId (co_run_id run)"
    using I(3) run' by (simp_all add: valid_AgentRequest_def)
qed

lemma run_agent_state:
  assumes "run_agent env task role k cand inputs parents sp bk s = (x, s')"
  shows "rs_tasks s' = rs_tasks s" "artifacts_grow (re_hash env) s s'"
  using run_agent_obeys assms by (auto simp: obeys_def same_tasks_def)

lemma parent_task:
  assumes inv: "store_inv H st" and a: "artifact_get H st i = Inr a" and p: "artifact_get H st j = Inr p"
    and edge: "j \<in> set (art_parent_artifact_ids a)"
  shows "art_task_id a = art_task_id p"
proof -
  have st: "a \<in> set (stored_artifacts st)" "p \<in> set (stored_artifacts st)" "art_artifact_id p = j"
    using a p by (simp_all add: get_Inr_iff [OF inv])
  then obtain earlier later where e: "stored_artifacts st = earlier @ a # later" by (metis split_list)
  then have "edges_within earlier a" using inv by (simp add: store_inv_def lineage_ordered_def)
  then obtain b where b: "b \<in> set earlier" "art_artifact_id b = j" "art_task_id b = art_task_id a"
    using edge by (auto simp: edges_within_def lineage_edges_def)
  have "b = p" using stored_ids_distinct [OF inv] b st e by (auto simp: distinct_map dest: inj_onD)
  with b(3) show ?thesis by simp
qed

subsection \<open>One transition\<close>

definition at_stage :: "run_state \<Rightarrow> Task \<Rightarrow> StateEvent list \<Rightarrow> bool" where
  "at_stage s task es \<longleftrightarrow>
     repo_inv (rs_tasks s) \<and> mysql_get (rs_tasks s) (t_id task) = Inr task \<and>
     mysql_list_events (rs_tasks s) (t_id task) = Inr es"

lemma at_stage_same: "at_stage s task es \<Longrightarrow> rs_tasks s' = rs_tasks s \<Longrightarrow> at_stage s' task es"
  by (simp add: at_stage_def)

text \<open>An event that is not yet in the log is no replay.\<close>

lemma append_advances:
  assumes st: "at_stage s task es" and ev: "build_event task to eid reason srev arts n now = Inr e"
    and new: "e \<notin> set es"
    and app: "mysql_append_event fence (rs_tasks s) e = Inr store"
  shows "at_stage (s\<lparr>rs_tasks := store\<rparr>) (task\<lparr>t_status := to, t_updated_at := ev_occurred_at e\<rparr>) (es @ [e])"
    "ev_event_id e = eid" "ev_from_status e = t_status task" "ev_to_status e = to" "ev_artifact_ids e = arts"
    "ev_source_revision e = srev" "valid_StateEvent e"
proof -
  have e: "ev_task_id e = t_id task" "ev_from_status e = t_status task" "valid_StateEvent e" "ev_to_status e = to"
      "ev_event_id e = eid" "ev_artifact_ids e = arts" "ev_source_revision e = srev"
      "apply_event task e = Inr (task\<lparr>t_status := to, t_updated_at := ev_occurred_at e\<rparr>)"
    using ev by (auto simp: build_event_Inr_iff apply_event_Inr_iff)
  let ?t = "task\<lparr>t_status := to, t_updated_at := ev_occurred_at e\<rparr>"
  have s: "repo_inv (rs_tasks s)" "mysql_get (rs_tasks s) (ev_task_id e) = Inr task"
      "mysql_list_events (rs_tasks s) (ev_task_id e) = Inr es"
    using st e(1) by (simp_all add: at_stage_def)
  have log: "mysql_list_events store (ev_task_id e) = Inr (es @ [e])"
    using mysql.append_log [OF s(1) e(3) s(2) e(8) app s(3)] new by blast
  then have "store \<noteq> rs_tasks s" using s(3) by auto
  with mysql.append_inv [OF s(1) e(3) s(2) e(8) app] log e(1)
  show "at_stage (s\<lparr>rs_tasks := store\<rparr>) ?t (es @ [e])" by (simp add: at_stage_def)
qed (use ev in \<open>auto simp: build_event_Inr_iff\<close>)

definition steps :: "StateEvent list \<Rightarrow> (TaskStatus \<times> TaskStatus) list" where
  "steps es = map (\<lambda>e. (ev_from_status e, ev_to_status e)) es"

lemma steps_simps [simp]: "steps [] = []" "steps (es @ fs) = steps es @ steps fs"
    "steps (e # es) = (ev_from_status e, ev_to_status e) # steps es"
  by (simp_all add: steps_def)

lemma left_statuses: "ev_from_status ` set es = fst ` set (steps es)"
  by (force simp: steps_def)

definition ready :: "runner_env \<Rightarrow> run_state \<Rightarrow> Task \<Rightarrow> StateEvent list \<Rightarrow> bool" where
  "ready env s task es \<longleftrightarrow> at_stage s task es \<and> store_inv (re_hash env) (rs_artifacts s)"

lemma transition_unfold:
  assumes "transition env task to reason srev k arts s = (r, s')"
  obtains (kept) err where "r = Inl err" "rs_tasks s' = rs_tasks s" "rs_artifacts s' = rs_artifacts s"
  | (appended) e store eid now where "build_event task to eid reason srev arts k now = Inr e"
      "mysql_append_event (re_fence env) (rs_tasks s) e = Inr store" "rs_tasks s' = store"
      "rs_artifacts s' = rs_artifacts s"
      "r = (case mysql_get store (t_id task) of Inl x \<Rightarrow> Inl (RepositoryError x) | Inr task' \<Rightarrow> Inr (task', eid))"
proof -
  define gate where "gate = (case re_gate env of None \<Rightarrow> rreturn ()
      | Some g \<Rightarrow> rguard (tg_before_transition g task to arts) CollaboratorError)"
  have gate: "gate s1 = (x, s2) \<Longrightarrow> s2 = s1" for s1 x s2
    by (auto simp: gate_def rreturn_def rguard_def split: option.splits)
  have guard: "guard_write env s1 = (x, s2) \<Longrightarrow> rs_tasks s2 = rs_tasks s1 \<and> rs_artifacts s2 = rs_artifacts s1" for s1 x s2
    using guard_write_obeys(3,4) [of env] by (auto simp: obeys_def same_tasks_def same_artifacts_def)
  let ?n = "rs_step s"
  obtain x1 s1 where g1: "guard_write env (s\<lparr>rs_step := Suc ?n\<rparr>) = (x1, s1)" by fastforce
  obtain x2 s2 where g2: "guard_write env s1 = (x2, s2)" by fastforce
  have same: "rs_tasks s1 = rs_tasks s" "rs_artifacts s1 = rs_artifacts s" "rs_tasks s2 = rs_tasks s" "rs_artifacts s2 = rs_artifacts s"
    using guard [OF g1] guard [OF g2] by simp_all
  obtain x3 where g3: "gate s1 = (x3, s1)" using gate by (metis surj_pair)
  have t: "transition env task to reason srev k arts s =
    (case x1 of Inl err \<Rightarrow> (Inl err, s1) | Inr _ \<Rightarrow>
     (case x3 of Inl err \<Rightarrow> (Inl err, s1) | Inr _ \<Rightarrow>
      (case build_event task to (re_event_ids env ?n) reason srev arts k (re_clock env ?n) of
         Inl err \<Rightarrow> (Inl (StateMachineError err), s1)
       | Inr e \<Rightarrow>
           (case x2 of Inl err \<Rightarrow> (Inl err, s2) | Inr _ \<Rightarrow>
            (case mysql_append_event (re_fence env) (rs_tasks s2) e of
               Inl err \<Rightarrow> (Inl (RepositoryError err), s2)
             | Inr store \<Rightarrow>
                 (case mysql_get store (t_id task) of
                    Inl x \<Rightarrow> Inl (RepositoryError x) | Inr task' \<Rightarrow> Inr (task', re_event_ids env ?n),
                  s2\<lparr>rs_tasks := store\<rparr>))))))"
    unfolding transition_def gate_def [symmetric] Let_def
    by (simp add: rbind_def next_step_def g1 g3 g2 rlift_def rread_def rupdate_def rreturn_def split: sum.splits)
  show thesis
    using assms same unfolding t by (auto split: sum.splits intro: kept appended)
qed

lemma transition_stage:
  assumes "ready env s task es" and "t_status task \<notin> fst ` set (steps es)"
    and "transition env task to reason srev k arts s = (r, s')"
  shows "case r of
      Inl _ \<Rightarrow> ready env s' task es
    | Inr (task', eid) \<Rightarrow>
        \<exists>e u. ready env s' task' (es @ [e]) \<and> task' = task\<lparr>t_status := to, t_updated_at := u\<rparr> \<and>
          ev_from_status e = t_status task \<and> ev_to_status e = to \<and>
          ev_event_id e = eid \<and> valid_EventId eid \<and> ev_artifact_ids e = arts \<and> ev_source_revision e = srev \<and>
          rs_artifacts s' = rs_artifacts s"
  using assms(3)
proof (cases rule: transition_unfold)
  case (kept err)
  with assms(1) show ?thesis by (simp add: ready_def at_stage_def)
next
  case (appended e store eid now)
  have st: "at_stage s task es" using assms(1) by (simp add: ready_def)
  have "t_status task \<notin> ev_from_status ` set es" using assms(2) by (simp add: left_statuses)
  then have "e \<notin> set es" using appended(1) by (force simp: build_event_Inr_iff)
  note A = append_advances [OF st appended(1) this appended(2)]
  let ?t = "task\<lparr>t_status := to, t_updated_at := ev_occurred_at e\<rparr>"
  have at: "at_stage s' ?t (es @ [e])" using A(1) appended(3) by (simp add: at_stage_def)
  have "mysql_get store (t_id task) = Inr ?t" using A(1) by (simp add: at_stage_def)
  then have "r = Inr (?t, eid)" using appended(5) by simp
  moreover have "valid_EventId eid" using A(2,7) by (simp add: valid_StateEvent_def)
  ultimately show ?thesis using at A(2-6) appended(4) assms(1) by (auto simp: ready_def)
qed

end
