(* ===== verification/Delivery_Samples.thy ===== *)
theory Delivery_Samples
  imports Runner
begin

section \<open>A concrete delivery\<close>

text \<open>
  Collaborators of the orchestrator that deliver one small Task, and the state after the Task was
  created: the input at which the properties of a delivery are evaluated.
\<close>

definition sample_context :: string where
  "sample_context = ''ctx_'' @ sample_sha"

definition sample_definition :: "AgentRole \<Rightarrow> string \<Rightarrow> AgentDefinition" where
  "sample_definition role i =
     \<lparr>df_id = i, df_role = role, df_version = ''1'', df_model = ''m'', df_provider = None, df_reasoning_effort = None,
      df_route_kind = None, df_connection_mode = None, df_system_prompt_ref = None,
      df_permissions = \<lparr>pe_read_paths = [''src''], pe_write_paths = [], pe_commands = [], pe_network = NW_NONE,
                        pe_can_change_state = False, pe_can_merge = False\<rparr>,
      df_input_artifacts = [], df_output_artifacts = ROLE_OUTPUTS role, df_max_retries = 0, df_timeout_seconds = 600,
      df_token_budget = None, df_metadata = []\<rparr>"

definition sample_definitions :: "(AgentRole \<times> AgentDefinition) list" where
  "sample_definitions = map (\<lambda>(role, i). (role, sample_definition role i))
     [(AR_ORCHESTRATOR, ''agent_orc1''), (AR_CODER, ''agent_cod1''), (AR_QA, ''agent_qa01''), (AR_REVIEWER, ''agent_rev1'')]"

definition sample_commit :: string where
  "sample_commit = ''abcdef0''"

fun sample_output :: "AgentRole \<Rightarrow> string \<times> ArtifactContent" where
  "sample_output AR_ORCHESTRATOR = (''art_plan'', PlanArtifact (sample_plan_content [''s1''] None))"
| "sample_output AR_CODER = (''art_impl'', ImplementationReportArtifact (sample_implementation_content sample_commit))"
| "sample_output AR_QA = (''art_qa01'', QaReportArtifact sample_qa_content)"
| "sample_output AR_REVIEWER = (''art_rev1'', ReviewReportArtifact sample_review_content)"

definition produced :: "AgentRequest \<Rightarrow> Artifact" where
  "produced rq =
     (case sample_output (rq_role rq) of
        (i, content) \<Rightarrow>
          (sample_artifact i (rq_role rq) (rq_run_id rq)
             (case rq_expected_parent_artifact_ids rq of None \<Rightarrow> [] | Some ids \<Rightarrow> ids)
             (if rq_role rq = AR_CODER then sample_commit else rq_source_revision rq)
             (rq_context_manifest_id rq) content)\<lparr>art_task_id := rq_task_id rq\<rparr>)"

definition answer :: "AgentRequest \<Rightarrow> AgentResult" where
  "answer rq =
     \<lparr>ag_run_id = rq_run_id rq, ag_task_id = rq_task_id rq, ag_role = rq_role rq, ag_attempt = rq_attempt rq,
      ag_source_revision = rq_source_revision rq, ag_context_manifest_id = rq_context_manifest_id rq,
      ag_status = RS_SUCCEEDED, ag_artifact = Some (produced rq), ag_error = None, ag_usage = None, ag_duration_ms = 0\<rparr>"

text \<open>The adapter returns validated results only.\<close>

definition sample_env :: "BoundedRunControl option \<Rightarrow> runner_env" where
  "sample_env control =
     \<lparr>re_fence = None, re_hash = sample_hash, re_definitions = sample_definitions,
      re_run_ids = (\<lambda>n. ''run_aaa'' @ replicate n (CHR ''b'')), re_event_ids = (\<lambda>n. ''evt_aaa'' @ replicate n (CHR ''b'')),
      re_clock = (\<lambda>n. Aware (int n)), re_gate = None, re_control = control, re_invocation = None, re_inputs = None,
      re_context = (\<lambda>n task d k candidate inputs. Inr (sample_context, or_else candidate (t_base_ref task))),
      re_pause = (\<lambda>n. False),
      re_adapter = (\<lambda>n rq. if valid_AgentResult (answer rq) then Inr (answer rq) else Inl CE_OTHER)\<rparr>"

definition sample_start :: run_state where
  "sample_start =
     \<lparr>rs_tasks = created_store, rs_artifacts = new_store, rs_step = 0, rs_guard_calls = 0, rs_consumed = False,
      rs_seen_run_ids = []\<rparr>"

text \<open>
  The repository and the metadata of the Task do not influence the pass: it is evaluated once, for
  any non-empty repository and any metadata.
\<close>

definition start_with :: "string \<Rightarrow> (string \<times> json_value) list \<Rightarrow> run_state" where
  "start_with repository metadata =
     \<lparr>rs_tasks =
        (case mysql_create empty_store ((sample_task TS_NEW 0)\<lparr>t_repository := repository, t_metadata := metadata\<rparr>) of
           Inl _ \<Rightarrow> empty_store | Inr st \<Rightarrow> st),
      rs_artifacts = new_store, rs_step = 0, rs_guard_calls = 0, rs_consumed = False, rs_seen_run_ids = []\<rparr>"

definition delivered_ids :: "(runner_error + DeliveryResult) \<times> run_state \<Rightarrow> string list" where
  "delivered_ids out = (case fst out of Inl _ \<Rightarrow> [] | Inr d \<Rightarrow> dv_artifact_ids d)"

lemma delivered_with:
  "delivered_ids (run_task (sample_env None) ''task_a01'' (start_with (c # repository) metadata)) =
     [''art_plan'', ''art_impl'', ''art_qa01'', ''art_rev1'']"
  unfolding start_with_def mysql_create_def by code_simp

lemma sample_start_with: "sample_start = start_with ''repo'' []"
  unfolding sample_start_def start_with_def created_store_def mysql_create_def empty_store_def sample_task_def
  by (simp add: create_def)

lemma sample_delivered:
  "delivered_ids (run_task (sample_env None) ''task_a01'' sample_start) = [''art_plan'', ''art_impl'', ''art_qa01'', ''art_rev1'']"
  unfolding sample_start_with by (rule delivered_with)

text \<open>The same Task under a service pause, and under a control that has no permit to give.\<close>

definition paused_env :: runner_env where
  "paused_env = (sample_env None)\<lparr>re_pause := (\<lambda>n. True)\<rparr>"

definition bounded_env :: runner_env where
  "bounded_env = sample_env (Some \<lparr>bc_permit = None, bc_guard = None\<rparr>)"

lemma paused_pass_raises: "isl (fst (run_task paused_env ''task_a01'' sample_start))"
  unfolding sample_start_def created_store_def paused_env_def by code_simp

lemma sample_start_get: "mysql_get (rs_tasks sample_start) ''task_a01'' = Inr (sample_task TS_NEW 0)"
  unfolding sample_start_def created_store_def by code_simp

end
