(* ===== verification/Delivery_Properties.thy ===== *)
theory Delivery_Properties
  imports Runner_Properties Delivery_Samples
begin

section \<open>A delivery that returns is verified\<close>

text \<open>
  The four phases of a pass, one after the other: what each leaves in the Task log and in the
  Artifact store when it returns, and where the Task stands when it raises.
\<close>

definition unfinished :: "runner_env \<Rightarrow> run_state \<Rightarrow> string \<Rightarrow> bool" where
  "unfinished env s task_id \<longleftrightarrow>
     (\<exists>task es. ready env s task es \<and> t_id task = task_id \<and>
        t_status task \<in> {TS_NEW, TS_PLANNING, TS_IMPLEMENTING, TS_QA, TS_REVIEW})"

definition delivered :: "runner_env \<Rightarrow> run_state \<Rightarrow> completed_run \<Rightarrow> bool" where
  "delivered env s run \<longleftrightarrow>
     artifact_get (re_hash env) (rs_artifacts s) (art_artifact_id (co_artifact run)) = Inr (co_artifact run) \<and>
     valid_ContextId (co_context_id run) \<and> valid_RunId (co_run_id run)"

lemma unfinishedI:
  "ready env s task es \<Longrightarrow> t_status task \<in> {TS_NEW, TS_PLANNING, TS_IMPLEMENTING, TS_QA, TS_REVIEW} \<Longrightarrow>
   t_id task = i \<Longrightarrow> unfinished env s i"
  by (auto simp: unfinished_def)

lemma require_iffs [simp]:
  "require_plan a s = (Inr c, s') \<longleftrightarrow> art_content a = PlanArtifact c \<and> s' = s"
  "require_implementation a s = (Inr ci, s') \<longleftrightarrow> art_content a = ImplementationReportArtifact ci \<and> s' = s"
  "require_qa a s = (Inr cq, s') \<longleftrightarrow> art_content a = QaReportArtifact cq \<and> s' = s"
  "require_review a s = (Inr cr, s') \<longleftrightarrow> art_content a = ReviewReportArtifact cr \<and> s' = s"
  "validate_criteria task ids s = (Inr u, s') \<longleftrightarrow> set ids = set (map ac_id (t_acceptance_criteria task)) \<and> s' = s"
  by (auto simp: require_plan_def require_implementation_def require_qa_def require_review_def validate_criteria_def
      split: ArtifactContent.splits)

lemma require_state:
  "require_plan a s = (Inl e, s') \<Longrightarrow> s' = s" "require_implementation a s = (Inl e, s') \<Longrightarrow> s' = s"
  "require_qa a s = (Inl e, s') \<Longrightarrow> s' = s" "require_review a s = (Inl e, s') \<Longrightarrow> s' = s"
  "validate_criteria task ids s = (Inl e, s') \<Longrightarrow> s' = s"
  by (auto simp: require_plan_def require_implementation_def require_qa_def require_review_def validate_criteria_def
      split: ArtifactContent.splits)

lemma run_stage:
  assumes "ready env s task es" and "run_agent env t role k cand inputs parents sp bk s = (x, s')"
  shows "ready env s' task es" "delivered env s run \<Longrightarrow> delivered env s' run"
  using run_agent_state [OF assms(2)] assms(1)
  by (auto simp: ready_def at_stage_def artifacts_grow_def delivered_def)

lemma run_delivers:
  assumes "ready env s task es" and "env_valid env"
    and "run_agent env t role k cand inputs parents sp None s = (Inr run, s')"
  shows "delivered env s' run"
  using run_agent_Inr [OF _ assms(2,3)] assms(1) by (simp add: ready_def delivered_def)

lemma delivered_same: "delivered env s run \<Longrightarrow> rs_artifacts s' = rs_artifacts s \<Longrightarrow> delivered env s' run"
  by (simp add: delivered_def)

lemma delivered_parent:
  assumes "ready env s task es" and "delivered env s run" and "delivered env s par"
    and "art_parent_artifact_ids (co_artifact run) = [art_artifact_id (co_artifact par)]"
  shows "art_task_id (co_artifact run) = art_task_id (co_artifact par)"
  by (rule parent_task [of "re_hash env" "rs_artifacts s"]) (use assms in \<open>auto simp: ready_def delivered_def\<close>)

lemmas transition_Inr = transition_stage [where r = "Inr (task', eid)" for task' eid, unfolded sum.case prod.case]
lemmas transition_Inl = transition_stage [where r = "Inl e" for e, unfolded sum.case]

lemma run_then_fails:
  assumes "ready env s task es" and "run_agent env task role k cand inputs parents sp bk s = (x, s2)"
    and "s' = s2 \<or> (\<exists>to reason srev k arts e. transition env task to reason srev k arts s2 = (Inl e, s'))"
    and "t_status task \<notin> fst ` set (steps es)"
    and "t_status task \<in> {TS_NEW, TS_PLANNING, TS_IMPLEMENTING, TS_QA, TS_REVIEW}"
  shows "unfinished env s' (t_id task)"
proof -
  have r: "ready env s2 task es" by (rule run_stage(1) [OF assms(1,2)])
  then have "ready env s' task es" using assms(3) transition_Inl [OF r assms(4)] by blast
  then show ?thesis using assms(5) by (auto intro: unfinishedI)
qed

subsection \<open>Planning\<close>

lemma plan_phase_Inl:
  assumes "ready env s task []" and "t_status task = TS_NEW" and "plan_phase env task s = (Inl e, s')"
  shows "unfinished env s' (t_id task)"
proof -
  consider "transition env task TS_PLANNING ''task_validated'' (t_base_ref task) 1 [] s = (Inl e, s')"
    | task1 e1 s1 x s2 where "transition env task TS_PLANNING ''task_validated'' (t_base_ref task) 1 [] s = (Inr (task1, e1), s1)"
      "run_agent env task1 AR_ORCHESTRATOR 1 None [] [] None None s1 = (x, s2)"
      "s' = s2 \<or> (\<exists>to reason srev k arts e. transition env task1 to reason srev k arts s2 = (Inl e, s'))"
    using assms(3) unfolding plan_phase_def by (auto simp: rbind_Inl_iff dest!: require_state) blast+
  then show ?thesis
  proof cases
    case 1
    with transition_Inl [OF assms(1) _ 1] assms(2) show ?thesis by (auto intro: unfinishedI)
  next
    case 2
    then obtain x where x: "ready env s1 task1 [x]" "t_status task1 = TS_PLANNING" "t_id task1 = t_id task"
        "ev_from_status x = TS_NEW"
      using transition_Inr [OF assms(1) _ 2(1)] assms(2) by auto
    with run_then_fails [OF x(1) 2(2,3)] show ?thesis by simp
  qed
qed

lemma plan_phase_Inr:
  assumes "ready env s task []" and "t_status task = TS_NEW" and "env_valid env"
    and "plan_phase env task s = (Inr (task2, run, ids), s')"
  obtains es u c where "ready env s' task2 es" "steps es = [(TS_NEW, TS_PLANNING), (TS_PLANNING, TS_IMPLEMENTING)]"
    "ids = map ev_event_id es" "list_all valid_EventId ids" "task2 = task\<lparr>t_status := TS_IMPLEMENTING, t_updated_at := u\<rparr>"
    "delivered env s' run" "art_content (co_artifact run) = PlanArtifact c" "art_task_id (co_artifact run) = t_id task"
proof -
  obtain task1 e1 s1 s2 c e2 where p:
    "transition env task TS_PLANNING ''task_validated'' (t_base_ref task) 1 [] s = (Inr (task1, e1), s1)"
    "run_agent env task1 AR_ORCHESTRATOR 1 None [] [] None None s1 = (Inr run, s2)"
    "art_content (co_artifact run) = PlanArtifact c" "ids = [e1, e2]"
    "transition env task1 TS_IMPLEMENTING ''plan_validated'' (t_base_ref task1) 1 [art_artifact_id (co_artifact run)] s2
       = (Inr (task2, e2), s')"
    using assms(4) unfolding plan_phase_def by (auto simp: rbind_Inr_iff)
  obtain x u1 where x: "ready env s1 task1 [x]" "task1 = task\<lparr>t_status := TS_PLANNING, t_updated_at := u1\<rparr>"
      "ev_from_status x = TS_NEW" "ev_to_status x = TS_PLANNING" "ev_event_id x = e1" "valid_EventId e1"
    using transition_Inr [OF assms(1) _ p(1)] assms(2) by auto
  have r: "ready env s2 task1 [x]" by (rule run_stage(1) [OF x(1) p(2)])
  obtain y u2 where y: "ready env s' task2 [x, y]" "task2 = task1\<lparr>t_status := TS_IMPLEMENTING, t_updated_at := u2\<rparr>"
      "ev_from_status y = TS_PLANNING" "ev_to_status y = TS_IMPLEMENTING" "ev_event_id y = e2" "valid_EventId e2"
      "rs_artifacts s' = rs_artifacts s2"
    using transition_Inr [OF r _ p(5)] x by auto
  have "delivered env s' run" using run_delivers [OF x(1) assms(3) p(2)] y(7) by (rule delivered_same)
  moreover have "art_task_id (co_artifact run) = t_id task"
    using run_agent_Inr(6) [OF _ assms(3) p(2)] x(1,2) by (simp add: ready_def)
  ultimately show thesis using that [of "[x, y]" u2 c] x y p by simp
qed

subsection \<open>Coding, verification and review\<close>

lemma code_phase_Inl:
  assumes "ready env s task es" and "t_status task = TS_IMPLEMENTING" and "TS_IMPLEMENTING \<notin> fst ` set (steps es)"
    and "code_phase env task plan s = (Inl e, s')"
  shows "unfinished env s' (t_id task)"
proof -
  obtain x s2 where p: "run_agent env task AR_CODER 1 None [plan] [art_artifact_id plan] None None s = (x, s2)"
      "s' = s2 \<or> (\<exists>to reason srev k arts e. transition env task to reason srev k arts s2 = (Inl e, s'))"
    using assms(4) unfolding code_phase_def by (auto simp: rbind_Inl_iff Let_def dest!: require_state) blast+
  show ?thesis by (rule run_then_fails [OF assms(1) p]) (use assms in auto)
qed

lemma code_phase_Inr:
  assumes "ready env s task es" and "t_status task = TS_IMPLEMENTING" and "TS_IMPLEMENTING \<notin> fst ` set (steps es)"
    and "env_valid env" and "code_phase env task (co_artifact plan) s = (Inr (task', run, candidate, eid), s')"
    and "delivered env s plan"
  obtains e u c where "ready env s' task' (es @ [e])" "ev_from_status e = TS_IMPLEMENTING" "ev_to_status e = TS_QA"
    "ev_event_id e = eid" "valid_EventId eid" "task' = task\<lparr>t_status := TS_QA, t_updated_at := u\<rparr>" "delivered env s' run" "delivered env s' plan"
    "art_content (co_artifact run) = ImplementationReportArtifact c" "ic_commit_sha c = candidate"
    "art_source_revision (co_artifact run) = candidate"
    "art_parent_artifact_ids (co_artifact run) = [art_artifact_id (co_artifact plan)]"
    "art_task_id (co_artifact run) = art_task_id (co_artifact plan)"
    "set (map iam_criterion_id (ic_acceptance_mapping c)) = set (map ac_id (t_acceptance_criteria task))"
proof -
  obtain c s2 where p: "run_agent env task AR_CODER 1 None [co_artifact plan] [art_artifact_id (co_artifact plan)] None None s = (Inr run, s2)"
    "art_content (co_artifact run) = ImplementationReportArtifact c" "ic_commit_sha c = candidate"
    "art_source_revision (co_artifact run) = candidate"
    "set (map iam_criterion_id (ic_acceptance_mapping c)) = set (map ac_id (t_acceptance_criteria task))"
    "transition env task TS_QA ''candidate_ready'' candidate 1 [art_artifact_id (co_artifact run)] s2 = (Inr (task', eid), s')"
    using assms(5) unfolding code_phase_def by (auto simp: rbind_Inr_iff Let_def)
  have r: "ready env s2 task es" by (rule run_stage(1) [OF assms(1) p(1)])
  obtain x u where x: "ready env s' task' (es @ [x])" "task' = task\<lparr>t_status := TS_QA, t_updated_at := u\<rparr>"
      "ev_from_status x = TS_IMPLEMENTING" "ev_to_status x = TS_QA" "ev_event_id x = eid" "valid_EventId eid"
      "rs_artifacts s' = rs_artifacts s2"
    using transition_Inr [OF r _ p(6)] assms(2,3) by auto
  have d: "delivered env s' run" "delivered env s' plan"
    using run_delivers [OF assms(1,4) p(1)] run_stage(2) [OF assms(1) p(1) assms(6)] delivered_same x(7) by blast+
  have par: "art_parent_artifact_ids (co_artifact run) = [art_artifact_id (co_artifact plan)]"
    using run_agent_Inr(1) [OF _ assms(4) p(1)] assms(1) by (simp add: ready_def)
  show thesis using that [OF x(1,3-6,2) d p(2-4) par delivered_parent [OF x(1) d par] p(5)] .
qed

lemma qa_phase_Inl:
  assumes "ready env s task es" and "t_status task = TS_QA" and "TS_QA \<notin> fst ` set (steps es)"
    and "qa_phase env task plan impl candidate s = (Inl e, s')"
  shows "unfinished env s' (t_id task)"
proof -
  obtain x s2 where p: "run_agent env task AR_QA 1 (Some candidate) [plan, impl] [art_artifact_id impl] None None s = (x, s2)"
      "s' = s2 \<or> (\<exists>to reason srev k arts e. transition env task to reason srev k arts s2 = (Inl e, s'))"
    using assms(4) unfolding qa_phase_def by (auto simp: rbind_Inl_iff dest!: require_state) blast+
  show ?thesis by (rule run_then_fails [OF assms(1) p]) (use assms in auto)
qed

lemma qa_phase_Inr:
  assumes "ready env s task es" and "t_status task = TS_QA" and "TS_QA \<notin> fst ` set (steps es)" and "env_valid env"
    and "qa_phase env task (co_artifact plan) (co_artifact impl) candidate s = (Inr (task', run, eid), s')"
    and "delivered env s plan" "delivered env s impl"
  obtains e u c where "ready env s' task' (es @ [e])" "ev_from_status e = TS_QA" "ev_to_status e = TS_REVIEW"
    "ev_event_id e = eid" "valid_EventId eid" "task' = task\<lparr>t_status := TS_REVIEW, t_updated_at := u\<rparr>"
    "delivered env s' run" "delivered env s' plan" "delivered env s' impl"
    "art_content (co_artifact run) = QaReportArtifact c" "qa_status c = QR_PASS"
    "art_source_revision (co_artifact run) = candidate"
    "art_parent_artifact_ids (co_artifact run) = [art_artifact_id (co_artifact impl)]"
    "art_task_id (co_artifact run) = art_task_id (co_artifact impl)"
    "set (map qcr_criterion_id (qa_criteria_results c)) = set (map ac_id (t_acceptance_criteria task))"
proof -
  obtain c s2 where p: "run_agent env task AR_QA 1 (Some candidate) [co_artifact plan, co_artifact impl]
      [art_artifact_id (co_artifact impl)] None None s = (Inr run, s2)"
    "art_content (co_artifact run) = QaReportArtifact c" "qa_status c = QR_PASS"
    "art_source_revision (co_artifact run) = candidate"
    "set (map qcr_criterion_id (qa_criteria_results c)) = set (map ac_id (t_acceptance_criteria task))"
    "transition env task TS_REVIEW ''qa_passed'' candidate 1 [art_artifact_id (co_artifact run)] s2 = (Inr (task', eid), s')"
    using assms(5) unfolding qa_phase_def by (auto simp: rbind_Inr_iff)
  have r: "ready env s2 task es" by (rule run_stage(1) [OF assms(1) p(1)])
  obtain x u where x: "ready env s' task' (es @ [x])" "task' = task\<lparr>t_status := TS_REVIEW, t_updated_at := u\<rparr>"
      "ev_from_status x = TS_QA" "ev_to_status x = TS_REVIEW" "ev_event_id x = eid" "valid_EventId eid"
      "rs_artifacts s' = rs_artifacts s2"
    using transition_Inr [OF r _ p(6)] assms(2,3) by auto
  have d: "delivered env s' run" "delivered env s' plan" "delivered env s' impl"
    using run_delivers [OF assms(1,4) p(1)] run_stage(2) [OF assms(1) p(1)] assms(6,7) delivered_same x(7) by blast+
  have par: "art_parent_artifact_ids (co_artifact run) = [art_artifact_id (co_artifact impl)]"
    using run_agent_Inr(1) [OF _ assms(4) p(1)] assms(1) by (simp add: ready_def)
  show thesis using that [OF x(1,3-6,2) d p(2-4) par delivered_parent [OF x(1) d(1,3) par] p(5)] .
qed

lemma review_phase_Inl:
  assumes "ready env s task es" and "t_status task = TS_REVIEW" and "TS_REVIEW \<notin> fst ` set (steps es)"
    and "review_phase env task plan impl qa candidate s = (Inl e, s')"
  shows "unfinished env s' (t_id task)"
proof -
  obtain x s2 where p: "run_agent env task AR_REVIEWER 1 (Some candidate) [plan, impl, qa] [art_artifact_id qa] None None s = (x, s2)"
      "s' = s2 \<or> (\<exists>to reason srev k arts e. transition env task to reason srev k arts s2 = (Inl e, s'))"
    using assms(4) unfolding review_phase_def by (auto simp: rbind_Inl_iff dest!: require_state) blast+
  show ?thesis by (rule run_then_fails [OF assms(1) p]) (use assms in auto)
qed

lemma review_phase_Inr:
  assumes "ready env s task es" and "t_status task = TS_REVIEW" and "TS_REVIEW \<notin> fst ` set (steps es)" and "env_valid env"
    and "review_phase env task (co_artifact plan) (co_artifact impl) (co_artifact qa) candidate s = (Inr (task', run, eid), s')"
    and "delivered env s plan" "delivered env s impl" "delivered env s qa"
  obtains e u c where "ready env s' task' (es @ [e])" "ev_from_status e = TS_REVIEW" "ev_to_status e = TS_DONE"
    "ev_event_id e = eid" "valid_EventId eid" "task' = task\<lparr>t_status := TS_DONE, t_updated_at := u\<rparr>"
    "delivered env s' run" "delivered env s' plan" "delivered env s' impl" "delivered env s' qa"
    "art_content (co_artifact run) = ReviewReportArtifact c" "rc_verdict c = RV_APPROVE"
    "art_source_revision (co_artifact run) = candidate"
    "art_parent_artifact_ids (co_artifact run) = [art_artifact_id (co_artifact qa)]"
    "art_task_id (co_artifact run) = art_task_id (co_artifact qa)"
    "ev_artifact_ids e = [art_artifact_id (co_artifact plan), art_artifact_id (co_artifact impl),
       art_artifact_id (co_artifact qa), art_artifact_id (co_artifact run)]"
proof -
  obtain c s2 where p: "run_agent env task AR_REVIEWER 1 (Some candidate) [co_artifact plan, co_artifact impl, co_artifact qa]
      [art_artifact_id (co_artifact qa)] None None s = (Inr run, s2)"
    "art_content (co_artifact run) = ReviewReportArtifact c" "rc_verdict c = RV_APPROVE"
    "art_source_revision (co_artifact run) = candidate"
    "transition env task TS_DONE ''review_approved'' candidate 1 [art_artifact_id (co_artifact plan),
       art_artifact_id (co_artifact impl), art_artifact_id (co_artifact qa), art_artifact_id (co_artifact run)] s2 = (Inr (task', eid), s')"
    using assms(5) unfolding review_phase_def by (auto simp: rbind_Inr_iff)
  have r: "ready env s2 task es" by (rule run_stage(1) [OF assms(1) p(1)])
  obtain x u where x: "ready env s' task' (es @ [x])" "task' = task\<lparr>t_status := TS_DONE, t_updated_at := u\<rparr>"
      "ev_from_status x = TS_REVIEW" "ev_to_status x = TS_DONE" "ev_event_id x = eid" "valid_EventId eid"
      "ev_artifact_ids x = [art_artifact_id (co_artifact plan), art_artifact_id (co_artifact impl),
         art_artifact_id (co_artifact qa), art_artifact_id (co_artifact run)]" "rs_artifacts s' = rs_artifacts s2"
    using transition_Inr [OF r _ p(5)] assms(2,3) by auto
  have d: "delivered env s' run" "delivered env s' plan" "delivered env s' impl" "delivered env s' qa"
    using run_delivers [OF assms(1,4) p(1)] run_stage(2) [OF assms(1) p(1)] assms(6-8) delivered_same x(8) by blast+
  have par: "art_parent_artifact_ids (co_artifact run) = [art_artifact_id (co_artifact qa)]"
    using run_agent_Inr(1) [OF _ assms(4) p(1)] assms(1) by (simp add: ready_def)
  show thesis using that [OF x(1,3-6,2) d p(2-4) par delivered_parent [OF x(1) d(1,4) par] x(7)] .
qed

subsection \<open>The whole pass\<close>

text \<open>
  What a finished delivery means: four stored Artifacts of the Task, each the child of the one before;
  the candidate commit is the one that QA and the Reviewer saw; QA passed every acceptance criterion
  of the Task, all its tests passed and it found nothing major; the Reviewer approved with remarks
  only; and the log of the Task is exactly the five transitions, the last of which names the Artifacts.
\<close>

definition verified_delivery :: "runner_env \<Rightarrow> run_state \<Rightarrow> Task \<Rightarrow> DeliveryResult \<Rightarrow> bool" where
  "verified_delivery env s task d \<longleftrightarrow>
     (\<exists>plan impl qa review cp ci cq cr es.
        dv_artifact_ids d = map art_artifact_id [plan, impl, qa, review] \<and>
        (\<forall>a \<in> {plan, impl, qa, review}.
           artifact_get (re_hash env) (rs_artifacts s) (art_artifact_id a) = Inr a \<and> art_task_id a = t_id task) \<and>
        art_content plan = PlanArtifact cp \<and> art_content impl = ImplementationReportArtifact ci \<and>
        art_content qa = QaReportArtifact cq \<and> art_content review = ReviewReportArtifact cr \<and>
        art_parent_artifact_ids impl = [art_artifact_id plan] \<and> art_parent_artifact_ids qa = [art_artifact_id impl] \<and>
        art_parent_artifact_ids review = [art_artifact_id qa] \<and>
        ic_commit_sha ci = dv_candidate_revision d \<and>
        (\<forall>a \<in> {impl, qa, review}. art_source_revision a = dv_candidate_revision d) \<and>
        set (map qcr_criterion_id (qa_criteria_results cq)) = set (map ac_id (t_acceptance_criteria task)) \<and>
        (\<forall>r \<in> set (qa_criteria_results cq). qcr_status r = QC_PASS) \<and>
        (\<forall>r \<in> set (qa_tests_run cq). qtr_status r = QT_PASS) \<and>
        (\<forall>f \<in> set (qa_findings cq). fd_severity f \<in> {FS_INFO, FS_MINOR}) \<and>
        rc_verdict cr = RV_APPROVE \<and> (\<forall>f \<in> set (rc_findings cr). fd_severity f = FS_INFO) \<and>
        mysql_get (rs_tasks s) (t_id task) = Inr (dv_task d) \<and> t_status (dv_task d) = TS_DONE \<and>
        mysql_list_events (rs_tasks s) (t_id task) = Inr es \<and>
        steps es = [(TS_NEW, TS_PLANNING), (TS_PLANNING, TS_IMPLEMENTING), (TS_IMPLEMENTING, TS_QA),
                    (TS_QA, TS_REVIEW), (TS_REVIEW, TS_DONE)] \<and>
        map ev_event_id es = dv_event_ids d \<and> ev_artifact_ids (last es) = dv_artifact_ids d)"

lemma new_task_log:
  assumes "at_stage s task es" and "t_status task = TS_NEW"
  shows "es = []"
proof (cases es rule: rev_cases)
  case (snoc pre e)
  have "replays_to es task"
    using mysql.log_law [of "rs_tasks s" "t_id task" task] assms(1) by (auto simp: at_stage_def)
  then obtain t0 t1 where "replay t0 (pre @ [e]) = Inr t1" "same_progress t1 task"
    by (auto simp: replays_to_def snoc)
  then obtain u where "apply_event u e = Inr t1" "t_status t1 = TS_NEW"
    using same_progress_fields(2) assms(2) by (metis replay_snocE)
  then show ?thesis using apply_event_status(3) never_back_to_NEW by metis
qed

lemma delivered_valid:
  assumes "ready env s task es" and "delivered env s run"
  shows "valid_Artifact (co_artifact run)"
proof -
  have "store_inv (re_hash env) (rs_artifacts s)" using assms(1) by (simp add: ready_def)
  then show ?thesis
    using assms(2) stored_valid [of "re_hash env" "rs_artifacts s" "co_artifact run"]
    by (auto simp: delivered_def get_Inr_iff validate_for_put_Inr_iff)
qed

lemma phases_verified:
  assumes start: "ready env s task []" "t_status task = TS_NEW" "env_valid env"
    and p1: "plan_phase env task s = (Inr (task2, plan, ids), s2)"
    and p2: "code_phase env task2 (co_artifact plan) s2 = (Inr (task3, coder, candidate, e3), s3)"
    and p3: "qa_phase env task3 (co_artifact plan) (co_artifact coder) candidate s3 = (Inr (task4, qa, e4), s4)"
    and p4: "review_phase env task4 (co_artifact plan) (co_artifact coder) (co_artifact qa) candidate s4 =
        (Inr (task5, review, e5), s5)"
    and d: "d = \<lparr>dv_task = task5, dv_candidate_revision = candidate,
                 dv_artifact_ids = map (\<lambda>r. art_artifact_id (co_artifact r)) [plan, coder, qa, review],
                 dv_context_manifest_ids = map co_context_id [plan, coder, qa, review],
                 dv_run_ids = map co_run_id [plan, coder, qa, review], dv_event_ids = ids @ [e3, e4, e5]\<rparr>"
  shows "verified_delivery env s5 task d" "valid_DeliveryResult d" "\<exists>es. ready env s5 task5 es"
proof -
  obtain es u2 cp where P: "ready env s2 task2 es" "steps es = [(TS_NEW, TS_PLANNING), (TS_PLANNING, TS_IMPLEMENTING)]"
    "ids = map ev_event_id es" "list_all valid_EventId ids" "task2 = task\<lparr>t_status := TS_IMPLEMENTING, t_updated_at := u2\<rparr>"
    "delivered env s2 plan" "art_content (co_artifact plan) = PlanArtifact cp" "art_task_id (co_artifact plan) = t_id task"
    by (rule plan_phase_Inr [OF start p1])
  have st2: "t_status task2 = TS_IMPLEMENTING" "TS_IMPLEMENTING \<notin> fst ` set (steps es)" by (simp_all add: P(2,5))
  note C = code_phase_Inr [OF P(1) st2 start(3) p2 P(6)]
  obtain x3 u3 ci where C: "ready env s3 task3 (es @ [x3])" "ev_from_status x3 = TS_IMPLEMENTING" "ev_to_status x3 = TS_QA"
    "ev_event_id x3 = e3" "valid_EventId e3" "task3 = task2\<lparr>t_status := TS_QA, t_updated_at := u3\<rparr>"
    "delivered env s3 coder" "delivered env s3 plan" "art_content (co_artifact coder) = ImplementationReportArtifact ci"
    "ic_commit_sha ci = candidate" "art_source_revision (co_artifact coder) = candidate"
    "art_parent_artifact_ids (co_artifact coder) = [art_artifact_id (co_artifact plan)]"
    "art_task_id (co_artifact coder) = art_task_id (co_artifact plan)"
    by (rule C) blast
  have st3: "t_status task3 = TS_QA" "TS_QA \<notin> fst ` set (steps (es @ [x3]))" by (simp_all add: P(2) C(2,6))
  obtain x4 u4 cq where Q: "ready env s4 task4 ((es @ [x3]) @ [x4])" "ev_from_status x4 = TS_QA" "ev_to_status x4 = TS_REVIEW"
    "ev_event_id x4 = e4" "valid_EventId e4" "task4 = task3\<lparr>t_status := TS_REVIEW, t_updated_at := u4\<rparr>"
    "delivered env s4 qa" "delivered env s4 plan" "delivered env s4 coder"
    "art_content (co_artifact qa) = QaReportArtifact cq" "qa_status cq = QR_PASS" "art_source_revision (co_artifact qa) = candidate"
    "art_parent_artifact_ids (co_artifact qa) = [art_artifact_id (co_artifact coder)]"
    "art_task_id (co_artifact qa) = art_task_id (co_artifact coder)"
    "set (map qcr_criterion_id (qa_criteria_results cq)) = set (map ac_id (t_acceptance_criteria task3))"
    by (rule qa_phase_Inr [OF C(1) st3 start(3) p3 C(8,7)])
  have st4: "t_status task4 = TS_REVIEW" "TS_REVIEW \<notin> fst ` set (steps ((es @ [x3]) @ [x4]))" by (simp_all add: P(2) C(2) Q(2,6))
  obtain x5 u5 cr where R: "ready env s5 task5 (((es @ [x3]) @ [x4]) @ [x5])" "ev_from_status x5 = TS_REVIEW" "ev_to_status x5 = TS_DONE"
    "ev_event_id x5 = e5" "valid_EventId e5" "task5 = task4\<lparr>t_status := TS_DONE, t_updated_at := u5\<rparr>"
    "delivered env s5 review" "delivered env s5 plan" "delivered env s5 coder" "delivered env s5 qa"
    "art_content (co_artifact review) = ReviewReportArtifact cr" "rc_verdict cr = RV_APPROVE"
    "art_source_revision (co_artifact review) = candidate"
    "art_parent_artifact_ids (co_artifact review) = [art_artifact_id (co_artifact qa)]"
    "art_task_id (co_artifact review) = art_task_id (co_artifact qa)"
    "ev_artifact_ids x5 = [art_artifact_id (co_artifact plan), art_artifact_id (co_artifact coder),
       art_artifact_id (co_artifact qa), art_artifact_id (co_artifact review)]"
    by (rule review_phase_Inr [OF Q(1) st4 start(3) p4 Q(8,9,7)])
  show "\<exists>es. ready env s5 task5 es" using R(1) by blast
  have v: "valid_Artifact (co_artifact r)" if "r \<in> {plan, coder, qa, review}" for r
    using that delivered_valid [OF R(1)] R(7-10) by blast
  then have contents: "valid_QaReportContent cq" "valid_ReviewReportContent cr" "valid_CommitSha candidate"
    using Q(10) R(11) C(9,10) by (force simp: valid_Artifact_def valid_ImplementationReportContent_def)+
  have store: "mysql_get (rs_tasks s5) (t_id task) = Inr task5" "mysql_list_events (rs_tasks s5) (t_id task) = Inr (es @ [x3, x4, x5])"
    using R(1,6) Q(6) C(6) P(5) by (simp_all add: ready_def at_stage_def)
  note qa_ok = qa_pass_content [OF contents(1) Q(11)] and review_ok = review_approve_content [OF contents(2) R(12)]
  have tasks: "art_task_id (co_artifact r) = t_id task" if "r \<in> {plan, coder, qa, review}" for r
    using that P(8) C(13) Q(14) R(15) by auto
  show "verified_delivery env s5 task d"
    unfolding verified_delivery_def
    apply (rule exI [of _ "co_artifact plan"], rule exI [of _ "co_artifact coder"], rule exI [of _ "co_artifact qa"],
        rule exI [of _ "co_artifact review"], rule exI [of _ cp], rule exI [of _ ci], rule exI [of _ cq], rule exI [of _ cr],
        rule exI [of _ "es @ [x3, x4, x5]"])
    using P C Q R store qa_ok review_ok tasks by (simp add: d delivered_def)
  show "valid_DeliveryResult d"
    using v contents(3) P(2-4) C(5) Q(5) R(5,7-10)
    by (simp add: d valid_DeliveryResult_def delivered_def valid_Artifact_id) (metis length_map length_Cons list.size(3) numeral_2_eq_2 steps_def)
qed

lemma begin_gate_state:
  "(case g of None \<Rightarrow> rreturn () | Some g \<Rightarrow> rguard (tg_begin_task g task) CollaboratorError) s = (x, s') \<Longrightarrow> s' = s"
  by (cases g) (auto simp: rreturn_def rguard_def)

lemma phases_unfinished:
  assumes start: "ready env s task []" "t_status task = TS_NEW" "env_valid env"
    and p: "rbind (plan_phase env task) (\<lambda>(task2, plan_run, es).
     rbind (code_phase env task2 (co_artifact plan_run)) (\<lambda>(task3, coder_run, candidate, e3).
     rbind (qa_phase env task3 (co_artifact plan_run) (co_artifact coder_run) candidate) (\<lambda>(task4, qa_run, e4).
     review_phase env task4 (co_artifact plan_run) (co_artifact coder_run) (co_artifact qa_run) candidate))) s = (Inl e, s')"
  shows "unfinished env s' (t_id task)"
proof (cases "plan_phase env task s")
  case (Pair x s2)
  show ?thesis
  proof (cases x)
    case (Inl err)
    with p Pair show ?thesis using plan_phase_Inl [OF start(1,2)] by (simp add: rbind_def)
  next
    case (Inr y)
    then obtain task2 plan ids where p1: "plan_phase env task s = (Inr (task2, plan, ids), s2)"
      using Pair by (cases y) auto
    obtain es u2 c where P: "ready env s2 task2 es" "steps es = [(TS_NEW, TS_PLANNING), (TS_PLANNING, TS_IMPLEMENTING)]"
        "task2 = task\<lparr>t_status := TS_IMPLEMENTING, t_updated_at := u2\<rparr>" "delivered env s2 plan"
      by (rule plan_phase_Inr [OF start p1]) blast
    have st2: "t_status task2 = TS_IMPLEMENTING" "TS_IMPLEMENTING \<notin> fst ` set (steps es)" by (simp_all add: P(2,3))
    show ?thesis
    proof (cases "\<exists>err. code_phase env task2 (co_artifact plan) s2 = (Inl err, s')")
      case True
      then show ?thesis using code_phase_Inl [OF P(1) st2] P(3) by auto
    next
      case False
      then obtain task3 coder candidate e3 s3 where p2: "code_phase env task2 (co_artifact plan) s2 = (Inr (task3, coder, candidate, e3), s3)"
        using p p1 by (auto simp: rbind_Inl_iff)
      obtain x3 u3 where C: "ready env s3 task3 (es @ [x3])" "ev_from_status x3 = TS_IMPLEMENTING"
          "task3 = task2\<lparr>t_status := TS_QA, t_updated_at := u3\<rparr>" "delivered env s3 coder" "delivered env s3 plan"
        by (rule code_phase_Inr [OF P(1) st2 start(3) p2 P(4)]) blast
      have st3: "t_status task3 = TS_QA" "TS_QA \<notin> fst ` set (steps (es @ [x3]))" by (simp_all add: P(2) C(2,3))
      show ?thesis
      proof (cases "\<exists>err. qa_phase env task3 (co_artifact plan) (co_artifact coder) candidate s3 = (Inl err, s')")
        case True
        then show ?thesis using qa_phase_Inl [OF C(1) st3] P(3) C(3) by auto
      next
        case False
        then obtain task4 qa e4 s4 where p3: "qa_phase env task3 (co_artifact plan) (co_artifact coder) candidate s3 = (Inr (task4, qa, e4), s4)"
          and p4: "review_phase env task4 (co_artifact plan) (co_artifact coder) (co_artifact qa) candidate s4 = (Inl e, s')"
          using p p1 p2 by (auto simp: rbind_Inl_iff)
        obtain x4 u4 where Q: "ready env s4 task4 ((es @ [x3]) @ [x4])" "ev_from_status x4 = TS_QA"
            "task4 = task3\<lparr>t_status := TS_REVIEW, t_updated_at := u4\<rparr>"
          by (rule qa_phase_Inr [OF C(1) st3 start(3) p3 C(5,4)]) blast
        have "t_status task4 = TS_REVIEW" "TS_REVIEW \<notin> fst ` set (steps ((es @ [x3]) @ [x4]))"
          by (simp_all add: P(2) C(2) Q(2,3))
        from review_phase_Inl [OF Q(1) this p4] show ?thesis by (simp add: P(3) C(3) Q(3))
      qed
    qed
  qed
qed

lemma run_task_verified:
  assumes "repo_inv (rs_tasks s)" and "store_inv (re_hash env) (rs_artifacts s)" and "env_valid env"
    and "mysql_get (rs_tasks s) task_id = Inr task" and "run_task env task_id s = (Inr d, s')"
  shows "t_status task = TS_NEW \<and> verified_delivery env s' task d \<and>
    repo_inv (rs_tasks s') \<and> store_inv (re_hash env) (rs_artifacts s')"
proof -
  have id: "t_id task = task_id" using assms(1,4) by (auto simp: get_iff dest: repo_invD)
  obtain es where "at_stage s task es"
    using mysql.log_law [OF assms(1,4)] assms(1,4) by (auto simp: at_stage_def id)
  have new: "t_status task = TS_NEW" using assms(4,5) unfolding run_task_def by (auto simp: rbind_Inr_iff)
  have "at_stage s task []" using new_task_log \<open>at_stage s task es\<close> new by blast
  then have ready: "ready env (s\<lparr>rs_seen_run_ids := []\<rparr>) task []"
    using assms(2) by (simp add: ready_def at_stage_def)
  obtain task2 plan ids s2 task3 coder candidate e3 s3 task4 qa e4 s4 task5 rev e5 where p:
    "plan_phase env task (s\<lparr>rs_seen_run_ids := []\<rparr>) = (Inr (task2, plan, ids), s2)"
    "code_phase env task2 (co_artifact plan) s2 = (Inr (task3, coder, candidate, e3), s3)"
    "qa_phase env task3 (co_artifact plan) (co_artifact coder) candidate s3 = (Inr (task4, qa, e4), s4)"
    "review_phase env task4 (co_artifact plan) (co_artifact coder) (co_artifact qa) candidate s4 = (Inr (task5, rev, e5), s')"
    "d = \<lparr>dv_task = task5, dv_candidate_revision = candidate,
            dv_artifact_ids = map (\<lambda>r. art_artifact_id (co_artifact r)) [plan, coder, qa, rev],
            dv_context_manifest_ids = map co_context_id [plan, coder, qa, rev],
            dv_run_ids = map co_run_id [plan, coder, qa, rev], dv_event_ids = ids @ [e3, e4, e5]\<rparr>"
    using assms(4,5) unfolding run_task_def Let_def rbind_Inr_iff runner_Inr_iffs
    by (clarsimp simp: rbind_Inr_iff dest!: begin_gate_state)
  note V = phases_verified [OF ready new assms(3) p]
  obtain es5 where "ready env s' task5 es5" using V(3) by blast
  with V(1) new show ?thesis by (auto simp: ready_def at_stage_def)
qed

text \<open>
  C3. A delivery that returns is verified: a pass of the orchestrator over a stored Task that returns a
  result started from \<open>NEW\<close>, leaves the Task \<open>DONE\<close>, and has stored a plan, an implementation, a
  passing QA report and an approving review that belong to the Task, form one lineage and concern one
  commit; QA passed every acceptance criterion; and both stores keep their invariants. The Agents, the
  context builder, the journal, the gates and the clock may answer anything that their validated
  result types admit.
\<close>

theorem delivery_is_verified:
  assumes "repo_inv (rs_tasks s)" and "store_inv (re_hash env) (rs_artifacts s)" and "env_valid env"
    and "mysql_get (rs_tasks s) task_id = Inr task" and "run_task env task_id s = (Inr d, s')"
  shows "t_status task = TS_NEW \<and> verified_delivery env s' task d \<and>
    repo_inv (rs_tasks s') \<and> store_inv (re_hash env) (rs_artifacts s')"
  using assms by (rule run_task_verified)

lemma sample_env_valid: "env_valid (sample_env control)" "env_valid paused_env"
  by (auto simp: env_valid_def sample_env_def paused_env_def split: if_splits)

lemma sample_start_inv: "repo_inv (rs_tasks sample_start)" "store_inv H (rs_artifacts sample_start)"
  by (simp_all add: sample_start_def created_store_inv)

theorem delivery_is_verified_witness:
  "\<exists>d s'. run_task (sample_env None) ''task_a01'' sample_start = (Inr d, s') \<and>
     verified_delivery (sample_env None) s' (sample_task TS_NEW 0) d"
proof -
  obtain x s' where r: "run_task (sample_env None) ''task_a01'' sample_start = (x, s')" by fastforce
  with sample_delivered obtain d where "x = Inr d" by (cases x) (auto simp: delivered_ids_def)
  with delivery_is_verified [OF sample_start_inv sample_env_valid(1) sample_start_get] r show ?thesis by auto
qed

text \<open>
  C37. A pass that raises has not finished the Task. On a Task that is not \<open>NEW\<close> it changes nothing
  and reports so; otherwise the Task is still stored, in one of the statuses before \<open>DONE\<close>, and both
  stores keep their invariants. In particular no exception of an Agent, a gate or a store comes after the Task is done.
\<close>

theorem failed_pass_is_unfinished:
  assumes "repo_inv (rs_tasks s)" and "store_inv (re_hash env) (rs_artifacts s)" and "env_valid env"
    and "mysql_get (rs_tasks s) task_id = Inr task" and "run_task env task_id s = (Inl e, s')"
  shows "if t_status task \<noteq> TS_NEW then e = TaskNotRunnable \<and> s' = s
    else \<exists>task'. mysql_get (rs_tasks s') task_id = Inr task' \<and>
      t_status task' \<in> {TS_NEW, TS_PLANNING, TS_IMPLEMENTING, TS_QA, TS_REVIEW} \<and>
      repo_inv (rs_tasks s') \<and> store_inv (re_hash env) (rs_artifacts s')"
proof (cases "t_status task = TS_NEW")
  case False
  with assms(4,5) show ?thesis unfolding run_task_def by (auto simp: rbind_Inl_iff)
next
  case new: True
  have id: "t_id task = task_id" using assms(1,4) by (auto simp: get_iff dest: repo_invD)
  obtain es where "at_stage s task es"
    using mysql.log_law [OF assms(1,4)] assms(1,4) by (auto simp: at_stage_def id)
  then have at: "at_stage s task []" using new_task_log new by blast
  let ?s = "s\<lparr>rs_seen_run_ids := []\<rparr>"
  have ready: "ready env ?s task []" "ready env s task []"
    using assms(2) at by (simp_all add: ready_def at_stage_def)
  consider (early) "s' = s"
    | (phase) "rbind (plan_phase env task) (\<lambda>(task2, plan_run, es).
     rbind (code_phase env task2 (co_artifact plan_run)) (\<lambda>(task3, coder_run, candidate, e3).
     rbind (qa_phase env task3 (co_artifact plan_run) (co_artifact coder_run) candidate) (\<lambda>(task4, qa_run, e4).
     review_phase env task4 (co_artifact plan_run) (co_artifact coder_run) (co_artifact qa_run) candidate))) ?s = (Inl e, s')"
    | (last) task2 plan ids s2 task3 coder candidate e3 s3 task4 qa e4 s4 task5 rev e5 where
    "plan_phase env task ?s = (Inr (task2, plan, ids), s2)"
    "code_phase env task2 (co_artifact plan) s2 = (Inr (task3, coder, candidate, e3), s3)"
    "qa_phase env task3 (co_artifact plan) (co_artifact coder) candidate s3 = (Inr (task4, qa, e4), s4)"
    "review_phase env task4 (co_artifact plan) (co_artifact coder) (co_artifact qa) candidate s4 = (Inr (task5, rev, e5), s')"
    "\<not> valid_DeliveryResult \<lparr>dv_task = task5, dv_candidate_revision = candidate,
            dv_artifact_ids = map (\<lambda>r. art_artifact_id (co_artifact r)) [plan, coder, qa, rev],
            dv_context_manifest_ids = map co_context_id [plan, coder, qa, rev],
            dv_run_ids = map co_run_id [plan, coder, qa, rev], dv_event_ids = ids @ [e3, e4, e5]\<rparr>"
    using assms(4,5) new unfolding run_task_def Let_def rbind_Inl_iff rbind_Inr_iff runner_Inr_iffs runner_Inl_iffs
    by (auto simp: rbind_Inl_iff rbind_Inr_iff dest!: begin_gate_state)
  then have "unfinished env s' (t_id task)"
  proof cases
    case early
    then show ?thesis using ready(2) new by (auto intro: unfinishedI)
  next
    case phase
    then show ?thesis by (rule phases_unfinished [OF ready(1) new assms(3)])
  next
    case last
    then show ?thesis using phases_verified(2) [OF ready(1) new assms(3) last(1-4) refl] by simp
  qed
  then show ?thesis using new by (auto simp: unfinished_def ready_def at_stage_def id)
qed

theorem failed_pass_is_unfinished_witness:
  "\<exists>e s' task'. run_task paused_env ''task_a01'' sample_start = (Inl e, s') \<and>
     mysql_get (rs_tasks s') ''task_a01'' = Inr task' \<and> t_status task' \<noteq> TS_DONE"
proof -
  obtain x s' where r: "run_task paused_env ''task_a01'' sample_start = (x, s')" by fastforce
  with paused_pass_raises obtain e where e: "x = Inl e" by (cases x) auto
  obtain task' where "mysql_get (rs_tasks s') ''task_a01'' = Inr task'"
      "t_status task' \<in> {TS_NEW, TS_PLANNING, TS_IMPLEMENTING, TS_QA, TS_REVIEW}"
    using failed_pass_is_unfinished [OF sample_start_inv sample_env_valid(2) sample_start_get r [unfolded e]]
    by (auto simp: sample_task_def)
  then show ?thesis using r e by auto
qed

end
