(* ===== verification/Bounded_Run.thy ===== *)
theory Bounded_Run
  imports Delivery_Properties
begin

section \<open>A bounded pass makes one delivery run\<close>

text \<open>
  The control of \<^verbatim>\<open>orchestration/steps.py\<close> in the orchestrator: a delivery run needs the permit of
  exactly its boundary, consumes it, and no second delivery run of the pass gets past the control.
\<close>

definition stays_consumed :: "run_state \<Rightarrow> run_state \<Rightarrow> bool" where
  "stays_consumed s s' \<longleftrightarrow> (rs_consumed s \<longrightarrow> rs_consumed s')"

interpretation permit: step_relation stays_consumed
  by unfold_locales (auto simp: stays_consumed_def)

lemma control_obeys:
  "obeys stays_consumed next_step" "obeys stays_consumed (before_write c)" "obeys stays_consumed (guard_write env)"
  "obeys stays_consumed (before_run c task role n r)" "obeys stays_consumed (current_coder_input env task)"
proof -
  show w: "obeys stays_consumed (before_write c)" for c
    unfolding before_write_def by (intro permit.rules) (simp add: stays_consumed_def)
  show "obeys stays_consumed next_step" by (auto simp: obeys_def next_step_def stays_consumed_def)
  show "obeys stays_consumed (guard_write env)" unfolding guard_write_def by (intro permit.rules w)
  show "obeys stays_consumed (before_run c task role n r)"
    unfolding before_run_def run_boundary_def Let_def by (intro permit.rules w) (simp add: stays_consumed_def)
  show "obeys stays_consumed (current_coder_input env task)"
    unfolding current_coder_input_def by (intro permit.rules)
qed

lemma run_obeys:
  "obeys stays_consumed (make_request env n task d role k c inputs parents sp bk src)"
  "obeys stays_consumed (accept_result env role rq rp r)" "obeys stays_consumed (publish env n a)"
  unfolding make_request_def work_slice_for_def accept_result_def publish_def Let_def split_beta
  by (intro permit.rules control_obeys; (cases rp; cases "journal env role")?; simp add: stays_consumed_def permit.pure)+

lemma request_agent_keeps_consumed:
  "obeys stays_consumed (request_agent env n task role k cand inputs parents sp bk src)"
  unfolding request_agent_def replayed_result_def invoke_def check_slice_def required_supersedes_def
  by (intro permit.rules run_obeys; simp add: stays_consumed_def)

lemma after_run_keeps_consumed:
  "obeys stays_consumed (case x of (rq, a) \<Rightarrow> rbind (publish env n a) (\<lambda>p. rbind (check_slice (f rq) p) (\<lambda>_. rreturn (g rq p))))"
  unfolding check_slice_def split_beta by (intro permit.rules run_obeys)

lemma transition_keeps_consumed: "obeys stays_consumed (transition env task to reason srev k arts)"
  unfolding transition_def Let_def by (intro permit.rules control_obeys) (simp add: stays_consumed_def)

text \<open>The control lets a delivery run through only once, and only with its own permit.\<close>

definition boundary_of :: "task_store \<Rightarrow> Task \<Rightarrow> AgentRole \<Rightarrow> int \<Rightarrow> string \<Rightarrow> RoleRunBoundary \<Rightarrow> bool" where
  "boundary_of store task role attempt src b \<longleftrightarrow>
     rb_task_id b = t_id task \<and> rb_role b = role \<and> rb_attempt b = attempt \<and> rb_source_revision b = src \<and>
     mysql_current_revision store (t_id task) = Inr (rb_checkpoint_sequence b)"

text \<open>
  The revision a delivery run starts from: the Coder's current input, the candidate of the other roles,
  and the base of the Task when there is neither. It is a matter of the Artifacts alone.
\<close>

definition run_source :: "runner_env \<Rightarrow> Task \<Rightarrow> AgentRole \<Rightarrow> string option \<Rightarrow> run_state \<Rightarrow> string option" where
  "run_source env task role candidate s =
     (if role = AR_CODER
      then (case fst (current_coder_input env task s) of
              Inl _ \<Rightarrow> None | Inr i \<Rightarrow> Some (or_else (Some (ci_source_revision i)) (t_base_ref task)))
      else Some (or_else candidate (t_base_ref task)))"

lemma current_coder_input_artifacts:
  "rs_artifacts s = rs_artifacts s' \<Longrightarrow> fst (current_coder_input env task s) = fst (current_coder_input env task s')"
  by (auto simp: current_coder_input_def rbind_def rread_def rlift_def rreturn_def rsome_def
      split: option.splits sum.splits)

lemma before_run_Inr:
  assumes "before_run c task role k src s = (Inr (), s')" and "role \<noteq> AR_ORCHESTRATOR"
  shows "\<not> rs_consumed s" "rs_consumed s'" "\<exists>b. bc_permit c = Some b \<and> boundary_of (rs_tasks s) task role k src b"
proof -
  obtain s1 b where w: "before_write c s = (Inr (), s1)" and b: "run_boundary task role k src s1 = (Inr b, s1)"
    and c: "\<not> rs_consumed s1" "bc_permit c = Some b" "rs_consumed s'"
    using assms unfolding before_run_def by (auto simp: rbind_Inr_iff run_boundary_def Let_def)
  have "rs_tasks s1 = rs_tasks s" using guard_write_obeys(1) w by (auto simp: obeys_def same_tasks_def)
  moreover have "rs_consumed s \<longrightarrow> rs_consumed s1" using control_obeys(2) w by (auto simp: obeys_def stays_consumed_def)
  ultimately show "\<not> rs_consumed s" "rs_consumed s'" "\<exists>b. bc_permit c = Some b \<and> boundary_of (rs_tasks s) task role k src b"
    using c b by (auto simp: run_boundary_def rbind_Inr_iff Let_def boundary_of_def)
qed

lemma delivery_run_needs_permit:
  assumes "re_control env = Some c" and "role \<noteq> AR_ORCHESTRATOR"
    and "run_agent env task role k cand inputs parents sp bk s = (Inr run, s')"
  shows "\<not> rs_consumed s" "rs_consumed s'"
    "\<exists>src b. bc_permit c = Some b \<and> run_source env task role cand s = Some src \<and> boundary_of (rs_tasks s) task role k src b"
proof -
  let ?s0 = "s\<lparr>rs_step := Suc (rs_step s)\<rparr>"
  have role: "role \<in> {AR_CODER, AR_QA, AR_REVIEWER}" using assms(2) by (cases role) auto
  obtain x s3 where inv: "invoke_agent env (rs_step s) task role k cand inputs parents sp bk ?s0 = (Inr x, s3)"
    and tail: "(case x of (rq, a) \<Rightarrow> rbind (publish env (rs_step s) a) (\<lambda>p. rbind (check_slice (rq_work_slice rq) p) (\<lambda>_.
       rreturn \<lparr>co_artifact = p, co_context_id = rq_context_manifest_id rq, co_run_id = rq_run_id rq\<rparr>))) s3 = (Inr run, s')"
    using assms(3) unfolding run_agent_def by (auto simp: rbind_Inr_iff)
  obtain i s1 s2 src cand' where i: "current_coder_input env task ?s0 = (Inr i, s1)"
    and src: "src = or_else (if role = AR_CODER then Some (ci_source_revision i) else cand) (t_base_ref task)"
    and b: "before_run c task role k src s1 = (Inr (), s2)"
    and rq: "request_agent env (rs_step s) task role k cand' inputs parents sp bk (Some i) s2 = (Inr x, s3)"
    using inv role unfolding invoke_agent_def Let_def by (auto simp: rbind_Inr_iff assms(1))
  let ?g = "\<lambda>rq p. \<lparr>co_artifact = p, co_context_id = rq_context_manifest_id rq, co_run_id = rq_run_id rq\<rparr>"
  have "rs_consumed s2 \<longrightarrow> rs_consumed s3"
    by (rule request_agent_keeps_consumed [unfolded obeys_def stays_consumed_def, rule_format, OF rq, THEN impI])
  moreover have "rs_consumed s3 \<longrightarrow> rs_consumed s'"
    by (rule after_run_keeps_consumed [where g = ?g, unfolded obeys_def stays_consumed_def, rule_format, OF tail, THEN impI])
  ultimately have rest: "rs_consumed s2 \<longrightarrow> rs_consumed s'" by blast
  have same: "rs_tasks s1 = rs_tasks s" "rs_consumed s \<longrightarrow> rs_consumed s1"
    using current_coder_input_obeys(1) control_obeys(5) i by (force simp: obeys_def same_tasks_def stays_consumed_def)+
  note B = before_run_Inr [OF b assms(2)]
  show "\<not> rs_consumed s" using B(1) same(2) by blast
  have "fst (current_coder_input env task s) = Inr i"
    using current_coder_input_artifacts [of s ?s0 env task] i by simp
  then have "run_source env task role cand s = Some src" by (simp add: run_source_def src)
  then show "\<exists>src b. bc_permit c = Some b \<and> run_source env task role cand s = Some src \<and> boundary_of (rs_tasks s) task role k src b"
    using B(3) same(1) by auto
  show "rs_consumed s'" using rest B(2) by blast
qed

lemma refused_run_changes_nothing:
  assumes "re_control env = Some c" and "role \<noteq> AR_ORCHESTRATOR" and "rs_consumed s"
    and "run_agent env task role k cand inputs parents sp bk s = (x, s')"
  shows "rs_tasks s' = rs_tasks s" "rs_artifacts s' = rs_artifacts s"
proof -
  let ?s0 = "s\<lparr>rs_step := Suc (rs_step s)\<rparr>"
  show "rs_tasks s' = rs_tasks s" by (rule run_agent_state(1) [OF assms(4)])
  obtain y s3 where inv: "invoke_agent env (rs_step s) task role k cand inputs parents sp bk ?s0 = (y, s3)" by fastforce
  have "\<exists>e. y = Inl e"
  proof (cases y)
    case (Inr z)
    have role: "role \<in> {AR_CODER, AR_QA, AR_REVIEWER}" using assms(2) by (cases role) auto
    obtain i s1 src s2 where i: "current_coder_input env task ?s0 = (Inr i, s1)"
      and b: "before_run c task role k src s1 = (Inr (), s2)"
      using inv Inr role unfolding invoke_agent_def Let_def by (auto simp: rbind_Inr_iff assms(1))
    have "rs_consumed s1" using control_obeys(5) i assms(3) by (force simp: obeys_def stays_consumed_def)
    with before_run_Inr(1) [OF b assms(2)] show ?thesis by blast
  qed blast
  then have "s' = s3" using assms(4) inv unfolding run_agent_def by (auto simp: rbind_def next_step_def)
  then show "rs_artifacts s' = rs_artifacts s"
    using invoke_agent_obeys(2) inv by (force simp: obeys_def same_artifacts_def)
qed

lemma bounded_pass_raises:
  assumes "re_control env = Some c"
  shows "\<exists>e. fst (run_task env task_id s) = Inl e"
proof (cases "run_task env task_id s")
  case (Pair x s')
  show ?thesis
  proof (cases x)
    case (Inr d)
    obtain task2 plan s2 task3 coder candidate e3 s3 y s4 where
      p2: "code_phase env task2 plan s2 = (Inr (task3, coder, candidate, e3), s3)"
      and p3: "qa_phase env task3 plan (co_artifact coder) candidate s3 = (Inr y, s4)"
      using Pair Inr unfolding run_task_def Let_def rbind_Inr_iff runner_Inr_iffs
      by (clarsimp simp: rbind_Inr_iff)
    obtain s2' e t where run: "run_agent env task2 AR_CODER 1 None [plan] [art_artifact_id plan] None None s2 = (Inr coder, s2')"
      and tr: "transition env task2 TS_QA ''candidate_ready'' candidate 1 [art_artifact_id (co_artifact coder)] s2' = (Inr t, s3)"
      using p2 unfolding code_phase_def Let_def by (auto simp: rbind_Inr_iff)
    obtain run' s3' where qa: "run_agent env task3 AR_QA 1 (Some candidate) [plan, co_artifact coder]
        [art_artifact_id (co_artifact coder)] None None s3 = (Inr run', s3')"
      using p3 unfolding qa_phase_def by (auto simp: rbind_Inr_iff)
    have "rs_consumed s2'" by (rule delivery_run_needs_permit(2) [OF assms _ run]) simp
    then have "rs_consumed s3" using transition_keeps_consumed tr by (force simp: obeys_def stays_consumed_def)
    moreover have "\<not> rs_consumed s3" by (rule delivery_run_needs_permit(1) [OF assms _ qa]) simp
    ultimately show ?thesis by blast
  qed (use Pair in simp)
qed

text \<open>
  C38. A bounded pass makes at most one delivery run. Under a run control, an Agent run of a delivery
  role that succeeds had an unused permit for exactly this Task, role and attempt, at the current
  revision of the Task log and the very source revision that the run starts from, and has used it up; once it is used up no
  delivery run succeeds and none changes a store; so a bounded pass of the serial orchestrator, which needs three, never returns.
\<close>

theorem bounded_pass_runs_once:
  assumes "re_control env = Some c"
  shows "(\<forall>task role k cand inputs parents sp bk s run s'. role \<noteq> AR_ORCHESTRATOR \<and>
       run_agent env task role k cand inputs parents sp bk s = (Inr run, s') \<longrightarrow>
       \<not> rs_consumed s \<and> rs_consumed s' \<and>
       (\<exists>src b. bc_permit c = Some b \<and> run_source env task role cand s = Some src \<and>
          rb_task_id b = t_id task \<and> rb_role b = role \<and> rb_attempt b = k \<and> rb_source_revision b = src \<and>
          mysql_current_revision (rs_tasks s) (t_id task) = Inr (rb_checkpoint_sequence b))) \<and>
    (\<forall>task role k cand inputs parents sp bk s x s'. role \<noteq> AR_ORCHESTRATOR \<and> rs_consumed s \<and>
       run_agent env task role k cand inputs parents sp bk s = (x, s') \<longrightarrow>
       (\<exists>e. x = Inl e) \<and> rs_tasks s' = rs_tasks s \<and> rs_artifacts s' = rs_artifacts s) \<and>
    (\<forall>task_id s. \<exists>e. fst (run_task env task_id s) = Inl e)"
proof (intro conjI allI impI)
  fix task role k cand inputs parents sp bk s run s'
  assume h: "role \<noteq> AR_ORCHESTRATOR \<and> run_agent env task role k cand inputs parents sp bk s = (Inr run, s')"
  note D = delivery_run_needs_permit [OF assms conjunct1 [OF h] conjunct2 [OF h]]
  show "\<not> rs_consumed s" "rs_consumed s'" by (fact D)+
  show "\<exists>src b. bc_permit c = Some b \<and> run_source env task role cand s = Some src \<and>
          rb_task_id b = t_id task \<and> rb_role b = role \<and> rb_attempt b = k \<and> rb_source_revision b = src \<and>
          mysql_current_revision (rs_tasks s) (t_id task) = Inr (rb_checkpoint_sequence b)"
    using D(3) by (auto simp: boundary_of_def)
next
  fix task role k cand inputs parents sp bk s x s'
  assume h: "role \<noteq> AR_ORCHESTRATOR \<and> rs_consumed s \<and> run_agent env task role k cand inputs parents sp bk s = (x, s')"
  then show "\<exists>e. x = Inl e"
    using delivery_run_needs_permit(1) [OF assms, of role task k cand inputs parents sp bk s _ s'] by (cases x) auto
  show "rs_tasks s' = rs_tasks s" "rs_artifacts s' = rs_artifacts s" 
    using refused_run_changes_nothing [OF assms, of role s task k cand inputs parents sp bk x s'] h by blast+
next
  fix task_id s
  show "\<exists>e. fst (run_task env task_id s) = Inl e" by (rule bounded_pass_raises [OF assms])
qed

text \<open>A permit for the QA run of one candidate: the run succeeds once, and not again.\<close>

definition permitted_env :: "string \<Rightarrow> runner_env" where
  "permitted_env source =
     sample_env (Some \<lparr>bc_permit = Some \<lparr>rb_task_id = ''task_a01'', rb_role = AR_QA, rb_attempt = 1,
        rb_checkpoint_sequence = 0, rb_source_revision = source\<rparr>, bc_guard = None\<rparr>)"

abbreviation permitted_run :: "run_state \<Rightarrow> (runner_error + completed_run) \<times> run_state" where
  "permitted_run \<equiv> run_agent (permitted_env sample_commit) (sample_task TS_NEW 0) AR_QA 1 (Some sample_commit) [] [] None None"

lemma permitted_run_succeeds: "\<not> isl (fst (permitted_run sample_start))"
  unfolding sample_start_def created_store_def permitted_env_def by code_simp

theorem bounded_pass_runs_once_witness:
  "\<exists>run s'. permitted_run sample_start = (Inr run, s') \<and> rs_consumed s' \<and>
     run_source (permitted_env sample_commit) (sample_task TS_NEW 0) AR_QA (Some sample_commit) sample_start = Some sample_commit \<and>
     (\<exists>e. fst (permitted_run s') = Inl e) \<and> (\<exists>e. fst (run_task (permitted_env sample_commit) ''task_a01'' sample_start) = Inl e)"
proof -
  obtain run s' where r: "permitted_run sample_start = (Inr run, s')"
    using permitted_run_succeeds by (cases "permitted_run sample_start"; cases "fst (permitted_run sample_start)") auto
  have control: "re_control (permitted_env sample_commit) = Some \<lparr>bc_permit = Some \<lparr>rb_task_id = ''task_a01'',
      rb_role = AR_QA, rb_attempt = 1, rb_checkpoint_sequence = 0, rb_source_revision = sample_commit\<rparr>, bc_guard = None\<rparr>"
    by (simp add: permitted_env_def sample_env_def)
  note B = bounded_pass_runs_once [OF control]
  have used: "rs_consumed s'"
    and src: "run_source (permitted_env sample_commit) (sample_task TS_NEW 0) AR_QA (Some sample_commit) sample_start = Some sample_commit"
    using conjunct1 [OF B, rule_format, OF conjI [OF _ r]] by auto
  obtain x s'' where again: "permitted_run s' = (x, s'')" by fastforce
  have "\<exists>e. x = Inl e"
    using conjunct1 [OF conjunct2 [OF B], rule_format, OF conjI [OF _ conjI [OF used again]]] by blast
  with again r used src conjunct2 [OF conjunct2 [OF B]] show ?thesis by auto
qed

end
