(* ===== verification/Retry_Runner.thy ===== *)
theory Retry_Runner
  imports Runner
begin

section \<open>The retrying orchestrator\<close>

text \<open>
  \<^verbatim>\<open>orchestration/retry.py\<close> and \<^verbatim>\<open>domain/coder_feedback.py\<close>: the state-aware loop that resumes a Task
  at any status, retries failed Agent runs within the frozen budgets, routes QA and review findings
  back to the Coder and stops with a durable \<open>BLOCKED\<close> result. It reuses the runs, publications and
  transitions of \<^verbatim>\<open>Runner\<close>. The loops of the source carry fuel: \<open>OutOfFuel\<close> is no exception of the
  code, and it is proved never to be the answer. The wording of the messages is the parameter
  \<open>ro_text\<close>; which message is written is part of the model.
\<close>

datatype RetryClassification =
    RC_TRANSIENT_INFRA | RC_NONTRANSIENT_INFRA | RC_INVALID_OUTPUT | RC_QA_FINDING
  | RC_VERIFICATION_INCONCLUSIVE | RC_REVIEW_FINDING | RC_POLICY_VIOLATION | RC_REQUIREMENT_AMBIGUITY
  | RC_BUDGET_EXHAUSTED | RC_CONTEXT_CAPACITY | RC_PLATFORM_BUG | RC_KNOWLEDGE_PREPARATION_LIMIT

fun RetryClassification_value :: "RetryClassification \<Rightarrow> string" where
  "RetryClassification_value RC_TRANSIENT_INFRA = ''TRANSIENT_INFRA''"
| "RetryClassification_value RC_NONTRANSIENT_INFRA = ''NONTRANSIENT_INFRA''"
| "RetryClassification_value RC_INVALID_OUTPUT = ''INVALID_OUTPUT''"
| "RetryClassification_value RC_QA_FINDING = ''QA_FINDING''"
| "RetryClassification_value RC_VERIFICATION_INCONCLUSIVE = ''VERIFICATION_INCONCLUSIVE''"
| "RetryClassification_value RC_REVIEW_FINDING = ''REVIEW_FINDING''"
| "RetryClassification_value RC_POLICY_VIOLATION = ''POLICY_VIOLATION''"
| "RetryClassification_value RC_REQUIREMENT_AMBIGUITY = ''REQUIREMENT_AMBIGUITY''"
| "RetryClassification_value RC_BUDGET_EXHAUSTED = ''BUDGET_EXHAUSTED''"
| "RetryClassification_value RC_CONTEXT_CAPACITY = ''CONTEXT_CAPACITY''"
| "RetryClassification_value RC_PLATFORM_BUG = ''PLATFORM_BUG''"
| "RetryClassification_value RC_KNOWLEDGE_PREPARATION_LIMIT = ''KNOWLEDGE_PREPARATION_LIMIT''"

text \<open>The messages of the source, by the place that writes them.\<close>

datatype BlockReason =
    BR_CONTEXT_CAPACITY
  | BR_TRANSIENT_EXHAUSTED AgentRole
  | BR_PLAN_MISSING
  | BR_NO_CHECKPOINT
  | BR_CONTINUATION_BUDGET
  | BR_NO_QUEUED_PROGRESS
  | BR_RUN_BUDGET
  | BR_QA_WITHOUT_CANDIDATE
  | BR_VERIFICATION
  | BR_QA_FINDINGS
  | BR_REVIEW_WITHOUT_EVIDENCE
  | BR_REVIEW_FINDINGS
  | BR_RUN_FAILED AgentRole int AgentResult
  | BR_INTERRUPTION_REJECTED
  | BR_INTERRUPTION_EXHAUSTED
  | BR_PLATFORM
  | BR_KNOWLEDGE_REJECTED
  | BR_KNOWLEDGE_LIMIT
  | BR_KNOWLEDGE_TIMEOUT
  | BR_KNOWLEDGE_FAILED AgentErrorCode

record BlockedResult =
  bl_task :: Task
  bl_classification :: RetryClassification
  bl_reason :: string
  bl_attempt :: int
  bl_artifact_ids :: "string list"
  bl_event_ids :: "string list"
  bl_candidate_revision :: "string option"

definition valid_BlockedResult :: "BlockedResult \<Rightarrow> bool" where
  "valid_BlockedResult b \<longleftrightarrow>
     non_empty (bl_reason b) \<and> list_all valid_ArtifactId (bl_artifact_ids b) \<and>
     list_all valid_EventId (bl_event_ids b) \<and> opt_all valid_CommitSha (bl_candidate_revision b)"

record RetryDeliveryResult =
  rd_task :: Task
  rd_candidate_revision :: string
  rd_artifact_ids :: "string list"
  rd_context_manifest_ids :: "string list"
  rd_run_ids :: "string list"
  rd_event_ids :: "string list"

definition valid_RetryDeliveryResult :: "RetryDeliveryResult \<Rightarrow> bool" where
  "valid_RetryDeliveryResult d \<longleftrightarrow>
     valid_CommitSha (rd_candidate_revision d) \<and> list_all valid_ArtifactId (rd_artifact_ids d) \<and>
     list_all valid_ContextId (rd_context_manifest_ids d) \<and> list_all valid_RunId (rd_run_ids d) \<and>
     list_all valid_EventId (rd_event_ids d)"

datatype RetryResult = Delivered RetryDeliveryResult | Blocked BlockedResult

subsection \<open>Collaborators\<close>

text \<open>
  The interruption control reserves attempts in the repository while it answers; a call of it that
  fails changes nothing.
\<close>

datatype reservation = ReserveAttempt int | ReserveFailure DeliveryRetryFailure

fun reservation_op :: "string \<Rightarrow> reservation \<Rightarrow> repo_op" where
  "reservation_op task_id (ReserveAttempt n) = RecordAttempt task_id n"
| "reservation_op task_id (ReserveFailure f) = RecordRetryFailure task_id f"

record interruption_control =
  ic_resume :: "nat \<Rightarrow> Task \<Rightarrow> task_store \<Rightarrow> reservation list \<times> (interruption_error + int option)"
  ic_next_attempt :: "nat \<Rightarrow> Task \<Rightarrow> AgentResult \<Rightarrow> task_store \<Rightarrow> reservation list \<times> (interruption_error + int option)"

text \<open>
  \<open>ro_wait\<close> is the failure control: it gets the Task, the classification, the message, the source
  revision and the Artifacts, and answers whether it stopped the pass (it need not).
\<close>

record retry_env =
  ro_base :: runner_env
  ro_interruption :: "interruption_control option"
  ro_wait :: "(Task \<Rightarrow> string \<Rightarrow> string \<Rightarrow> string \<Rightarrow> string list \<Rightarrow> bool) option"
  ro_reservation :: "(Task \<Rightarrow> Artifact \<Rightarrow> bool) option"
  ro_text :: "BlockReason \<Rightarrow> string"

text \<open>\<open>try\<close>: the handler runs in the state that the exception left behind.\<close>

definition rcatch :: "'a runner \<Rightarrow> (runner_error \<Rightarrow> 'a runner option) \<Rightarrow> 'a runner" where
  "rcatch m handler s =
     (case m s of
        (Inl e, s1) \<Rightarrow> (case handler e of None \<Rightarrow> (Inl e, s1) | Some h \<Rightarrow> h s1)
      | (Inr a, s1) \<Rightarrow> (Inr a, s1))"

definition get_task :: "string \<Rightarrow> Task runner" where
  "get_task task_id = rbind (rread rs_tasks) (\<lambda>store. rlift RepositoryError (mysql_get store task_id))"

definition get_events :: "string \<Rightarrow> StateEvent list runner" where
  "get_events task_id = rbind (rread rs_tasks) (\<lambda>store. rlift RepositoryError (mysql_list_events store task_id))"

definition artifacts_for_task :: "retry_env \<Rightarrow> string \<Rightarrow> Artifact list runner" where
  "artifacts_for_task env task_id =
     rbind (rread rs_artifacts) (\<lambda>store. rlift ArtifactFailure (list_for_task (re_hash (ro_base env)) store task_id))"

definition baseline_input :: "retry_env \<Rightarrow> Task \<Rightarrow> CoderExecutionInput option runner" where
  "baseline_input env task =
     (case re_inputs (ro_base env) of
        None \<Rightarrow> rreturn None
      | Some current \<Rightarrow> rbind (rsome (current task None None) CollaboratorError) (\<lambda>i. rreturn (Some i)))"

definition latest_artifact :: "Artifact list \<Rightarrow> ArtifactKind \<Rightarrow> string list \<Rightarrow> Artifact option runner" where
  "latest_artifact artifacts kind excluded =
     rlift OrderingFailure (latest_accepted_artifact artifacts kind None excluded)"

definition retry_transition ::
  "retry_env \<Rightarrow> Task \<Rightarrow> TaskStatus \<Rightarrow> string \<Rightarrow> string \<Rightarrow> int \<Rightarrow> string list \<Rightarrow> (Task \<times> string) runner" where
  "retry_transition env = transition (ro_base env)"

definition retry_record_attempt :: "retry_env \<Rightarrow> string \<Rightarrow> int \<Rightarrow> unit runner" where
  "retry_record_attempt env task_id attempt =
     rbind (guard_write (ro_base env)) (\<lambda>_.
     rbind (rread rs_tasks) (\<lambda>store.
     rbind (rlift RepositoryError (mysql_record_attempt (re_fence (ro_base env)) store task_id attempt)) (\<lambda>store'.
     rupdate (rs_tasks_update (\<lambda>_. store')))))"

subsection \<open>Checks\<close>

definition retry_validate_plan :: "Task \<Rightarrow> Artifact \<Rightarrow> unit runner" where
  "retry_validate_plan task plan =
     rbind (require_plan plan) (\<lambda>content.
     rbind (validate_criteria task (map pam_criterion_id (pc_acceptance_mapping content))) (\<lambda>_.
     rguard (art_source_revision plan = t_base_ref task) DeliveryContractViolation))"

definition validate_implementation :: "Task \<Rightarrow> Artifact \<Rightarrow> string runner" where
  "validate_implementation task implementation =
     rbind (require_implementation implementation) (\<lambda>content.
     rbind (validate_criteria task (map iam_criterion_id (ic_acceptance_mapping content))) (\<lambda>_.
     rbind (rguard (art_source_revision implementation = ic_commit_sha content) DeliveryContractViolation) (\<lambda>_.
     rreturn (ic_commit_sha content))))"

definition implementation_for_feedback ::
  "Artifact list \<Rightarrow> CoderExecutionInput option \<Rightarrow> Artifact option runner" where
  "implementation_for_feedback artifacts source =
     rbind (latest_artifact artifacts AK_IMPLEMENTATION_REPORT
              (case source of None \<Rightarrow> [] | Some i \<Rightarrow> superseded_artifact_ids i)) (\<lambda>implementation.
     rreturn (case source of
                None \<Rightarrow> implementation
              | Some i \<Rightarrow>
                  if implementation \<noteq> None \<or> ci_superseded_implementation_artifact_ids i = [] then implementation
                  else find (\<lambda>a. art_kind a = AK_IMPLEMENTATION_REPORT \<and>
                               art_artifact_id a = last (ci_superseded_implementation_artifact_ids i)) artifacts))"

definition latest_transition_attempt :: "StateEvent list \<Rightarrow> TaskStatus \<Rightarrow> int" where
  "latest_transition_attempt events status =
     foldl max 0 (map ev_attempt (filter (\<lambda>e. ev_to_status e = status) events))"

definition recoverable_candidate :: "Task \<Rightarrow> StateEvent list \<Rightarrow> Artifact option \<Rightarrow> bool" where
  "recoverable_candidate task events implementation =
     (case implementation of
        None \<Rightarrow> False
      | Some a \<Rightarrow>
          if t_status task \<noteq> TS_IMPLEMENTING \<or> events = [] then False
          else
            (let e = last events in
             if ev_to_status e \<noteq> TS_IMPLEMENTING then False
             else if ev_from_status e = TS_PLANNING then art_supersedes a = None
             else if ev_from_status e = TS_QUEUED
             then ev_artifact_ids e \<noteq> [] \<and> set (ev_artifact_ids e) \<subseteq> set (art_parent_artifact_ids a)
             else if ev_from_status e \<in> {TS_QA, TS_REVIEW} then art_supersedes a \<noteq> None
             else False))"

definition retryable :: "AgentResult \<Rightarrow> bool" where
  "retryable r \<longleftrightarrow>
     ag_status r \<in> {RS_TIMED_OUT, RS_FAILED} \<and>
     (case ag_error r of
        None \<Rightarrow> False
      | Some e \<Rightarrow> fl_code e \<in> {AE_TIMEOUT, AE_QUOTA_EXHAUSTED, AE_RATE_LIMITED, AE_PROVIDER_UNAVAILABLE,
                              AE_PROVIDER_ERROR, AE_INVALID_OUTPUT})"

definition failure_classification :: "AgentErrorCode \<Rightarrow> bool \<Rightarrow> RetryClassification" where
  "failure_classification code transient =
     (if code = AE_INVALID_OUTPUT then RC_INVALID_OUTPUT
      else if code = AE_POLICY_VIOLATION then RC_POLICY_VIOLATION
      else if transient \<and> code \<in> set TRANSIENT_CODES then RC_TRANSIENT_INFRA
      else RC_NONTRANSIENT_INFRA)"

definition classification_of :: "AgentResult \<Rightarrow> RetryClassification" where
  "classification_of r =
     (case ag_error r of
        None \<Rightarrow> RC_NONTRANSIENT_INFRA
      | Some e \<Rightarrow> failure_classification (fl_code e) (fl_transient e))"

text \<open>\<^verbatim>\<open>domain/coder_feedback.py\<close>: only the findings on the implementation being revised.\<close>

definition qa_status_of :: "Artifact \<Rightarrow> QaReportStatus option" where
  "qa_status_of a = (case art_content a of QaReportArtifact c \<Rightarrow> Some (qa_status c) | _ \<Rightarrow> None)"

definition verdict_of :: "Artifact \<Rightarrow> ReviewVerdict option" where
  "verdict_of a = (case art_content a of ReviewReportArtifact c \<Rightarrow> Some (rc_verdict c) | _ \<Rightarrow> None)"

definition coder_feedback :: "Artifact option \<Rightarrow> Artifact option \<Rightarrow> Artifact option \<Rightarrow> Artifact list" where
  "coder_feedback previous qa review =
     (case (previous, qa) of
        (Some p, Some q) \<Rightarrow>
          if \<not> (art_task_id q = art_task_id p \<and> Some (art_source_revision q) = commit_sha_of p \<and>
                art_parent_artifact_ids q = [art_artifact_id p]) then []
          else if qa_status_of q = Some QR_FAIL then [q]
          else
            (case review of
               None \<Rightarrow> []
             | Some r \<Rightarrow>
                 if art_task_id r = art_task_id p \<and> Some (art_source_revision r) = commit_sha_of p \<and>
                    art_parent_artifact_ids r = [art_artifact_id q] \<and> verdict_of r = Some RV_REJECT
                 then [q, r] else [])
      | _ \<Rightarrow> [])"

subsection \<open>Stopping\<close>

definition delivery_role_status :: "TaskStatus \<Rightarrow> AgentRole option" where
  "delivery_role_status status =
     (if status = TS_IMPLEMENTING then Some AR_CODER
      else if status = TS_QA then Some AR_QA
      else if status = TS_REVIEW then Some AR_REVIEWER
      else None)"

definition wait_for_engineering ::
  "retry_env \<Rightarrow> Task \<Rightarrow> RetryClassification \<Rightarrow> BlockReason \<Rightarrow> string \<Rightarrow> string list \<Rightarrow> unit runner" where
  "wait_for_engineering env task classification reason source_revision artifact_ids =
     (case ro_wait env of
        None \<Rightarrow> rreturn ()
      | Some wait \<Rightarrow>
          rguard (\<not> wait task (RetryClassification_value classification) (ro_text env reason) source_revision artifact_ids)
            DeliveryWaiting)"

definition may_wait :: "Task \<Rightarrow> RetryClassification \<Rightarrow> bool" where
  "may_wait task classification \<longleftrightarrow>
     t_engineering_policy task \<noteq> None \<and>
     (classification \<noteq> RC_CONTEXT_CAPACITY \<or> t_status task \<in> {TS_IMPLEMENTING, TS_QA, TS_REVIEW}) \<and>
     classification \<in> {RC_REQUIREMENT_AMBIGUITY, RC_VERIFICATION_INCONCLUSIVE, RC_PLATFORM_BUG, RC_INVALID_OUTPUT,
                        RC_TRANSIENT_INFRA, RC_NONTRANSIENT_INFRA, RC_CONTEXT_CAPACITY}"

definition retained_candidate :: "retry_env \<Rightarrow> Task \<Rightarrow> string option runner" where
  "retained_candidate env task =
     rbind (baseline_input env task) (\<lambda>source.
     rbind (artifacts_for_task env (t_id task)) (\<lambda>artifacts.
     rbind (latest_artifact artifacts AK_IMPLEMENTATION_REPORT
              (case source of None \<Rightarrow> [] | Some i \<Rightarrow> superseded_artifact_ids i)) (\<lambda>implementation.
     case implementation of
       None \<Rightarrow> rreturn None
     | Some a \<Rightarrow> rbind (validate_implementation task a) (\<lambda>sha. rreturn (Some sha)))))"

definition stop_event ::
  "retry_env \<Rightarrow> Task \<Rightarrow> RetryClassification \<Rightarrow> BlockReason \<Rightarrow> int \<Rightarrow> string list \<Rightarrow> string option \<Rightarrow> string list runner" where
  "stop_event env task classification reason attempt artifact_ids source_revision =
     (if t_status task \<in> {TS_BLOCKED, TS_FAILED} then rreturn []
      else
        rbind (retry_transition env task TS_BLOCKED
                 (RetryClassification_value classification @ '': '' @ ro_text env reason)
                 (case source_revision of None \<Rightarrow> t_base_ref task | Some r \<Rightarrow> r) attempt artifact_ids) (\<lambda>(_, event_id).
        rreturn [event_id]))"

definition blocked ::
  "retry_env \<Rightarrow> Task \<Rightarrow> RetryClassification \<Rightarrow> BlockReason \<Rightarrow> int \<Rightarrow> string list \<Rightarrow> string list \<Rightarrow> string option \<Rightarrow>
   BlockedResult runner" where
  "blocked env task classification reason attempt event_ids artifact_ids source_revision =
     rbind (retained_candidate env task) (\<lambda>candidate.
     rbind (if may_wait task classification
            then wait_for_engineering env task classification reason (or_else source_revision (t_base_ref task)) artifact_ids
            else rreturn ()) (\<lambda>_.
     rbind (stop_event env task classification reason attempt artifact_ids source_revision) (\<lambda>stopped.
     rbind (get_task (t_id task)) (\<lambda>current.
     let result = \<lparr>bl_task = current, bl_classification = classification, bl_reason = ro_text env reason,
                   bl_attempt = attempt, bl_artifact_ids = artifact_ids, bl_event_ids = event_ids @ stopped,
                   bl_candidate_revision = candidate\<rparr>
     in rbind (rguard (valid_BlockedResult result) RunnerValueError) (\<lambda>_. rreturn result)))))"

definition fail_platform :: "retry_env \<Rightarrow> Task \<Rightarrow> int \<Rightarrow> string \<Rightarrow> unit runner" where
  "fail_platform env task attempt source_revision =
     (if t_status task \<in> {TS_DONE, TS_BLOCKED, TS_FAILED} then rreturn ()
      else if t_engineering_policy task \<noteq> None \<and> ro_wait env \<noteq> None then
        rbind (artifacts_for_task env (t_id task)) (\<lambda>artifacts.
        wait_for_engineering env task RC_PLATFORM_BUG BR_PLATFORM source_revision (map art_artifact_id artifacts))
      else
        rbind (retry_transition env task TS_FAILED
                 (RetryClassification_value RC_PLATFORM_BUG @ '': '' @ ro_text env BR_PLATFORM)
                 source_revision attempt []) (\<lambda>_. rreturn ()))"

subsection \<open>Retry accounting\<close>

fun delivery_role :: "AgentRole \<Rightarrow> DeliveryRole option" where
  "delivery_role AR_ORCHESTRATOR = None"
| "delivery_role AR_CODER = Some DR_CODER"
| "delivery_role AR_QA = Some DR_QA"
| "delivery_role AR_REVIEWER = Some DR_REVIEWER"

text \<open>The payload given to \<^verbatim>\<open>DeliveryRetryFailure.model_validate\<close>; \<open>None\<close> is its \<open>ValidationError\<close>.\<close>

definition make_retry_failure :: "AgentRole \<Rightarrow> int \<Rightarrow> AgentErrorCode \<Rightarrow> string option \<Rightarrow> DeliveryRetryFailure option" where
  "make_retry_failure role attempt code run_id =
     (case (delivery_role role, transient_code code) of
        (Some r, Some c) \<Rightarrow>
          let f = \<lparr>rf_role = r, rf_attempt = attempt, rf_code = c, rf_run_id = run_id\<rparr>
          in if valid_DeliveryRetryFailure f then Some f else None
      | _ \<Rightarrow> None)"

definition record_transient ::
  "retry_env \<Rightarrow> Task \<Rightarrow> AgentRole \<Rightarrow> AgentErrorCode \<Rightarrow> string option \<Rightarrow> int option runner" where
  "record_transient env task role code run_id =
     (if t_retry_policy task = None \<or> role = AR_ORCHESTRATOR then rreturn None
      else
        rbind (guard_write (ro_base env)) (\<lambda>_.
        rbind (rsome (make_retry_failure role (t_attempts task) code run_id) RunnerValueError) (\<lambda>failure.
        rbind (rread rs_tasks) (\<lambda>store.
        rbind (rlift RepositoryError
                 (mysql_record_retry_failure (re_fence (ro_base env)) store (t_id task) failure)) (\<lambda>store'.
        rbind (rupdate (rs_tasks_update (\<lambda>_. store'))) (\<lambda>_.
        rbind (get_task (t_id task)) (\<lambda>updated.
        rreturn (if t_attempts task < t_attempts updated then Some (t_attempts updated) else None))))))))"

text \<open>The calls of the interruption control, with the reservations it makes.\<close>

definition reserve ::
  "retry_env \<Rightarrow> string \<Rightarrow> (nat \<Rightarrow> task_store \<Rightarrow> reservation list \<times> (interruption_error + int option)) \<Rightarrow> int option runner" where
  "reserve env task_id control =
     rbind (rread (\<lambda>s. control (rs_step s) (rs_tasks s))) (\<lambda>(reservations, answer).
     rbind (rupdate (rs_tasks_update (\<lambda>store.
              run_ops (repo_apply (re_fence (ro_base env))) store (map (reservation_op task_id) reservations)))) (\<lambda>_.
     rlift InterruptionError answer))"

definition retry_failure :: "retry_env \<Rightarrow> Task \<Rightarrow> AgentResult \<Rightarrow> int option runner" where
  "retry_failure env task result =
     rbind (get_task (t_id task)) (\<lambda>current.
     if map_option fl_code (ag_error result) = Some AE_WORK_INTERRUPTED then
       (case ro_interruption env of
          None \<Rightarrow> rreturn None
        | Some control \<Rightarrow>
            if ag_role result \<noteq> AR_CODER then rreturn None
            else
              rbind (guard_write (ro_base env)) (\<lambda>_.
              reserve env (t_id current) (\<lambda>n store. ic_next_attempt control n current result store)))
     else if t_retry_policy current = None then
       rreturn (if retryable result \<and> t_attempts current < t_max_attempts current
                then Some (t_attempts current + 1) else None)
     else
       (case ag_error result of
          None \<Rightarrow> rreturn None
        | Some failure \<Rightarrow>
            if \<not> fl_transient failure \<or> fl_code failure \<notin> set TRANSIENT_CODES \<or> ag_role result = AR_ORCHESTRATOR
            then rreturn None
            else record_transient env current (ag_role result) (fl_code failure) (Some (ag_run_id result))))"

definition wait_for_knowledge :: "retry_env \<Rightarrow> Task \<Rightarrow> AgentRole \<Rightarrow> structured_failure \<Rightarrow> unit runner" where
  "wait_for_knowledge env current role failure =
     (case sf_kind failure of
        KnowledgeAssessmentRejected observation \<Rightarrow>
          if ro_wait env = None then rreturn ()
          else
            (case observation of
               None \<Rightarrow> rraise (StructuredModelError failure)
             | Some b \<Rightarrow>
                 rbind (rguard (kb_task_id b = t_id current \<and> kb_role b = AgentRole_value role) DeliveryContractViolation) (\<lambda>_.
                 wait_for_engineering env current RC_INVALID_OUTPUT BR_KNOWLEDGE_REJECTED (kb_source_revision b)
                   [''knowledge-assessment-rejection://'' @ kb_record_sha256 b]))
      | KnowledgePreparationLocalLimit b \<Rightarrow>
          rbind (rguard (kb_task_id b = t_id current \<and> kb_role b = AgentRole_value role) DeliveryContractViolation) (\<lambda>_.
          wait_for_engineering env current RC_KNOWLEDGE_PREPARATION_LIMIT BR_KNOWLEDGE_LIMIT (kb_source_revision b)
            [''knowledge-preparation://'' @ kb_record_sha256 b])
      | _ \<Rightarrow> rreturn ())"

definition last_source_revision :: "Task \<Rightarrow> StateEvent list \<Rightarrow> string" where
  "last_source_revision task events = (if events = [] then t_base_ref task else ev_source_revision (last events))"

definition knowledge_classification :: "Task \<Rightarrow> structured_failure \<Rightarrow> RetryClassification" where
  "knowledge_classification current failure =
     (if model_error_retryable failure \<and> t_retry_policy current \<noteq> None then RC_BUDGET_EXHAUSTED
      else if expandable_timeout failure then RC_TRANSIENT_INFRA
      else failure_classification (sf_code failure) (sf_transient failure))"

definition knowledge_failure :: "retry_env \<Rightarrow> Task \<Rightarrow> structured_failure \<Rightarrow> (int + BlockedResult) runner" where
  "knowledge_failure env task failure =
     (if sf_code failure = AE_SERVICE_PAUSED then rraise ServicePauseRequested
      else
        rbind (get_task (t_id task)) (\<lambda>current.
        rbind (rsome (delivery_role_status (t_status current)) RunnerKeyError) (\<lambda>role.
        rbind (wait_for_knowledge env current role failure) (\<lambda>_.
        rbind (if model_error_retryable failure then record_transient env current role (sf_code failure) None
               else rreturn None) (\<lambda>next_attempt.
        case next_attempt of
          Some k \<Rightarrow> rreturn (Inl k)
        | None \<Rightarrow>
            rbind (get_events (t_id task)) (\<lambda>events.
            rbind (get_task (t_id task)) (\<lambda>stored.
            rbind (artifacts_for_task env (t_id task)) (\<lambda>artifacts.
            rbind (blocked env stored (knowledge_classification current failure)
                     (if expandable_timeout failure then BR_KNOWLEDGE_TIMEOUT else BR_KNOWLEDGE_FAILED (sf_code failure))
                     (t_attempts current) [] (map art_artifact_id artifacts)
                     (Some (last_source_revision task events))) (\<lambda>b.
            rreturn (Inr b))))))))))"

subsection \<open>Runs with retries\<close>

text \<open>
  The loop that the four \<open>_run_...\<close> methods share: reserve the attempt, run, and on a failure either
  go on with the next attempt or stop. The planner handles failed runs only (\<open>source = None\<close>).
\<close>

definition run_handler ::
  "retry_env \<Rightarrow> Task \<Rightarrow> string option \<Rightarrow> (int \<Rightarrow> AgentResult \<Rightarrow> BlockedResult runner) \<Rightarrow> int \<Rightarrow>
   (int \<Rightarrow> ('a + BlockedResult) runner) \<Rightarrow> runner_error \<Rightarrow> ('a + BlockedResult) runner option" where
  "run_handler env task source stopped attempt again e =
     (case e of
        AgentRunFailed r \<Rightarrow>
          Some (rbind (retry_failure env task r) (\<lambda>next_attempt.
                case next_attempt of
                  Some k \<Rightarrow> again k
                | None \<Rightarrow> rbind (stopped attempt r) (\<lambda>b. rreturn (Inr b))))
      | StructuredModelError f \<Rightarrow>
          (case source of
             None \<Rightarrow> None
           | Some _ \<Rightarrow>
               Some (rbind (knowledge_failure env task f) (\<lambda>outcome.
                     case outcome of Inl k \<Rightarrow> again k | Inr b \<Rightarrow> rreturn (Inr b))))
      | DeliveryContractViolation \<Rightarrow>
          (case source of
             None \<Rightarrow> None
           | Some revision \<Rightarrow>
               Some (rbind (get_task (t_id task)) (\<lambda>current.
                     rbind (fail_platform env current attempt revision) (\<lambda>_. rraise DeliveryContractViolation))))
      | _ \<Rightarrow> None)"

fun attempt_loop ::
  "nat \<Rightarrow> retry_env \<Rightarrow> Task \<Rightarrow> string option \<Rightarrow> (int \<Rightarrow> 'a runner) \<Rightarrow> (int \<Rightarrow> AgentResult \<Rightarrow> BlockedResult runner) \<Rightarrow> int \<Rightarrow>
   ('a + BlockedResult) runner" where
  "attempt_loop 0 env task source body stopped attempt = rraise OutOfFuel"
| "attempt_loop (Suc fuel) env task source body stopped attempt =
     rbind (retry_record_attempt env (t_id task) attempt) (\<lambda>_.
     rcatch (rbind (body attempt) (\<lambda>a. rreturn (Inl a)))
       (run_handler env task source stopped attempt (attempt_loop fuel env task source body stopped)))"

text \<open>An attempt is at most \<open>MAX_EXECUTION_ATTEMPTS\<close> and the next one is larger.\<close>

definition attempt_fuel :: nat where
  "attempt_fuel = nat MAX_EXECUTION_ATTEMPTS + 1"

definition run_stopped ::
  "retry_env \<Rightarrow> Task \<Rightarrow> AgentRole \<Rightarrow> string list \<Rightarrow> string option \<Rightarrow> int \<Rightarrow> AgentResult \<Rightarrow> BlockedResult runner" where
  "run_stopped env task role artifact_ids source attempt r =
     rbind (get_task (t_id task)) (\<lambda>current.
     blocked env current (classification_of r) (BR_RUN_FAILED role attempt r) attempt [] artifact_ids source)"

definition planner_body :: "retry_env \<Rightarrow> Task \<Rightarrow> int \<Rightarrow> (Artifact \<times> Task \<times> int) runner" where
  "planner_body env task attempt =
     rbind (get_task (t_id task)) (\<lambda>t.
     rbind (run_agent (ro_base env) t AR_ORCHESTRATOR attempt None [] [] None None) (\<lambda>completed.
     rbind (require_plan (co_artifact completed)) (\<lambda>_.
     rbind (get_task (t_id task)) (\<lambda>t1.
     rbind (retry_validate_plan t1 (co_artifact completed)) (\<lambda>_.
     rbind (get_task (t_id task)) (\<lambda>t2.
     rreturn (co_artifact completed, t2, attempt)))))))"

definition run_planner :: "retry_env \<Rightarrow> Task \<Rightarrow> ((Artifact \<times> Task \<times> int) + BlockedResult) runner" where
  "run_planner env task =
     attempt_loop attempt_fuel env task None (planner_body env task)
       (run_stopped env task AR_ORCHESTRATOR [] None) (max (t_attempts task) 1)"

definition coder_body ::
  "retry_env \<Rightarrow> Task \<Rightarrow> Artifact option \<Rightarrow> Artifact list \<Rightarrow> string option \<Rightarrow> int \<Rightarrow> (Artifact \<times> Task \<times> string) runner" where
  "coder_body env task previous inputs progress_supersedes attempt =
     rbind (get_task (t_id task)) (\<lambda>t.
     rbind (run_agent (ro_base env) t AR_CODER attempt
              (case previous of None \<Rightarrow> None | Some p \<Rightarrow> commit_sha_of p) inputs (map art_artifact_id inputs) None
              (Some [(AK_CODER_PROGRESS, progress_supersedes),
                     (AK_IMPLEMENTATION_REPORT, map_option art_artifact_id previous)])) (\<lambda>completed.
     let a = co_artifact completed in
     case progress_of a of
       Some content \<Rightarrow>
         rbind (rguard (cp_checkpoint_sequence content = attempt) DeliveryContractViolation) (\<lambda>_.
         rbind (get_task (t_id task)) (\<lambda>t1.
         rbind (retry_transition env t1 TS_CONTINUE_REQUIRED ''coder_requested_continuation''
                  (art_source_revision a) attempt [art_artifact_id a]) (\<lambda>(t2, event_id).
         rreturn (a, t2, event_id))))
     | None \<Rightarrow>
         rbind (require_implementation a) (\<lambda>content.
         rbind (get_task (t_id task)) (\<lambda>t1.
         rbind (validate_criteria t1 (map iam_criterion_id (ic_acceptance_mapping content))) (\<lambda>_.
         rbind (get_task (t_id task)) (\<lambda>t2.
         rbind (retry_transition env t2 TS_QA ''candidate_ready'' (ic_commit_sha content) attempt
                  [art_artifact_id a]) (\<lambda>(t3, event_id).
         rreturn (a, t3, event_id))))))))"

definition interruption_exhausted :: "Task \<Rightarrow> AgentResult \<Rightarrow> bool" where
  "interruption_exhausted current r \<longleftrightarrow>
     map_option fl_code (ag_error r) = Some AE_WORK_INTERRUPTED \<and>
     (work_budget_exhausted current \<or> t_max_attempts current \<le> t_attempts current \<or>
      (case t_retry_policy current of
         None \<Rightarrow> False
       | Some p \<Rightarrow> delivery_limit p DR_CODER \<le> transient_failures current AR_CODER))"

definition coder_stopped ::
  "retry_env \<Rightarrow> Task \<Rightarrow> string list \<Rightarrow> string \<Rightarrow> int \<Rightarrow> AgentResult \<Rightarrow> BlockedResult runner" where
  "coder_stopped env task feedback_ids source attempt r =
     rbind (get_task (t_id task)) (\<lambda>current.
     if interruption_exhausted current r
     then blocked env current RC_BUDGET_EXHAUSTED BR_INTERRUPTION_EXHAUSTED attempt [] feedback_ids (Some source)
     else blocked env current (classification_of r) (BR_RUN_FAILED AR_CODER attempt r) attempt [] feedback_ids
            (Some source))"

text \<open>An interrupted run is resumed with the attempt that was reserved for it.\<close>

definition resume_interrupted ::
  "retry_env \<Rightarrow> Task \<Rightarrow> int \<Rightarrow> string list \<Rightarrow> string \<Rightarrow> (int + BlockedResult) runner" where
  "resume_interrupted env task attempt feedback_ids source =
     (case ro_interruption env of
        None \<Rightarrow> rreturn (Inl attempt)
      | Some control \<Rightarrow>
          rcatch
            (rbind (guard_write (ro_base env)) (\<lambda>_.
             rbind (get_task (t_id task)) (\<lambda>t.
             rbind (reserve env (t_id t) (\<lambda>n store. ic_resume control n t store)) (\<lambda>restored.
             rreturn (Inl (case restored of None \<Rightarrow> attempt | Some k \<Rightarrow> k))))))
            (\<lambda>e. let stop = (\<lambda>c. Some (rbind (get_task (t_id task)) (\<lambda>t.
                                 rbind (blocked env t c BR_INTERRUPTION_REJECTED attempt [] feedback_ids (Some source))
                                   (\<lambda>b. rreturn (Inr b)))))
                 in case e of
                      InterruptionError InterruptionBudgetExhausted \<Rightarrow> stop RC_BUDGET_EXHAUSTED
                    | InterruptionError InterruptionAdmissionRejected \<Rightarrow> stop RC_NONTRANSIENT_INFRA
                    | _ \<Rightarrow> None))"

definition progress_supersedes_of :: "CoderExecutionInput \<Rightarrow> string option" where
  "progress_supersedes_of i =
     (case ci_superseded_progress_artifact_ids i of [] \<Rightarrow> None | ids \<Rightarrow> Some (last ids))"

definition run_coder_with_retries ::
  "retry_env \<Rightarrow> Task \<Rightarrow> Artifact \<Rightarrow> Artifact option \<Rightarrow> Artifact option \<Rightarrow> Artifact option \<Rightarrow> Artifact option \<Rightarrow>
   ((Artifact \<times> Task \<times> string) + BlockedResult) runner" where
  "run_coder_with_retries env task plan previous qa review progress =
     (let attempt = max (t_attempts task) 1;
          feedback = coder_feedback previous qa review;
          feedback_ids = map art_artifact_id feedback;
          inputs = plan # feedback @ (case progress of None \<Rightarrow> [] | Some p \<Rightarrow> [p]) in
      rbind (current_coder_input (ro_base env) task) (\<lambda>source.
      let supersedes = (case progress of None \<Rightarrow> progress_supersedes_of source | Some p \<Rightarrow> Some (art_artifact_id p)) in
      rbind (case re_control (ro_base env) of
               None \<Rightarrow> rreturn ()
             | Some c \<Rightarrow> before_checkpoint_recovery c task AR_CODER attempt (ci_source_revision source)) (\<lambda>_.
      rbind (resume_interrupted env task attempt feedback_ids (ci_source_revision source)) (\<lambda>start.
      case start of
        Inr b \<Rightarrow> rreturn (Inr b)
      | Inl first \<Rightarrow>
          attempt_loop attempt_fuel env task (Some (ci_source_revision source))
            (coder_body env task previous inputs supersedes)
            (coder_stopped env task feedback_ids (ci_source_revision source)) first))))"

definition with_previous :: "Artifact list \<Rightarrow> Artifact option \<Rightarrow> Artifact list" where
  "with_previous inputs previous = inputs @ (case previous of None \<Rightarrow> [] | Some p \<Rightarrow> [p])"

definition qa_body ::
  "retry_env \<Rightarrow> Task \<Rightarrow> Artifact \<Rightarrow> Artifact \<Rightarrow> string \<Rightarrow> Artifact option \<Rightarrow> int \<Rightarrow> (Artifact \<times> Task) runner" where
  "qa_body env task plan implementation candidate previous attempt =
     rbind (get_task (t_id task)) (\<lambda>t.
     rbind (run_agent (ro_base env) t AR_QA attempt (Some candidate) (with_previous [plan, implementation] previous)
              [art_artifact_id implementation] (map_option art_artifact_id previous) None) (\<lambda>completed.
     rbind (require_qa (co_artifact completed)) (\<lambda>content.
     rbind (get_task (t_id task)) (\<lambda>t1.
     rbind (validate_criteria t1 (map qcr_criterion_id (qa_criteria_results content))) (\<lambda>_.
     rbind (rguard (art_source_revision (co_artifact completed) = candidate) DeliveryContractViolation) (\<lambda>_.
     rbind (get_task (t_id task)) (\<lambda>t2.
     rreturn (co_artifact completed, t2))))))))"

definition run_qa_with_retries ::
  "retry_env \<Rightarrow> Task \<Rightarrow> Artifact \<Rightarrow> Artifact \<Rightarrow> string \<Rightarrow> Artifact option \<Rightarrow> ((Artifact \<times> Task) + BlockedResult) runner" where
  "run_qa_with_retries env task plan implementation candidate previous =
     attempt_loop attempt_fuel env task (Some candidate) (qa_body env task plan implementation candidate previous)
       (run_stopped env task AR_QA [art_artifact_id implementation] (Some candidate)) (max (t_attempts task) 1)"

definition review_body ::
  "retry_env \<Rightarrow> Task \<Rightarrow> Artifact \<Rightarrow> Artifact \<Rightarrow> string \<Rightarrow> Artifact \<Rightarrow> Artifact option \<Rightarrow> int \<Rightarrow> (Artifact \<times> Task) runner" where
  "review_body env task plan implementation candidate qa previous attempt =
     rbind (get_task (t_id task)) (\<lambda>t.
     rbind (run_agent (ro_base env) t AR_REVIEWER attempt (Some candidate)
              (with_previous [plan, implementation, qa] previous)
              [art_artifact_id qa] (map_option art_artifact_id previous) None) (\<lambda>completed.
     rbind (require_review (co_artifact completed)) (\<lambda>_.
     rbind (rguard (art_source_revision (co_artifact completed) = candidate) DeliveryContractViolation) (\<lambda>_.
     rbind (get_task (t_id task)) (\<lambda>t2.
     rreturn (co_artifact completed, t2))))))"

definition run_review_with_retries ::
  "retry_env \<Rightarrow> Task \<Rightarrow> Artifact \<Rightarrow> Artifact \<Rightarrow> string \<Rightarrow> Artifact \<Rightarrow> Artifact option \<Rightarrow>
   ((Artifact \<times> Task) + BlockedResult) runner" where
  "run_review_with_retries env task plan implementation candidate qa previous =
     attempt_loop attempt_fuel env task (Some candidate)
       (review_body env task plan implementation candidate qa previous)
       (run_stopped env task AR_REVIEWER [art_artifact_id qa] (Some candidate)) (max (t_attempts task) 1)"

subsection \<open>One turn of the delivery loop\<close>

text \<open>
  The local variables of the loop that change: the current candidate, the latest reports, the events
  of the pass, the Artifacts that a logged event names, and whether the candidate of an interrupted
  process may still be recovered. A stage either hands on, starts the next turn (\<open>continue\<close>) or returns.
\<close>

record loop_state =
  ls_implementation :: "Artifact option"
  ls_qa :: "Artifact option"
  ls_review :: "Artifact option"
  ls_event_ids :: "string list"
  ls_checkpointed :: "string list"
  ls_recover :: bool

datatype flow = Proceed Task loop_state | NextTurn loop_state | Return RetryResult

definition then_stage :: "flow runner \<Rightarrow> (Task \<Rightarrow> loop_state \<Rightarrow> flow runner) \<Rightarrow> flow runner" where
  "then_stage m f = rbind m (\<lambda>x. case x of Proceed task ls \<Rightarrow> f task ls | _ \<Rightarrow> rreturn x)"

definition add_event :: "string \<Rightarrow> loop_state \<Rightarrow> loop_state" where
  "add_event event_id ls = ls\<lparr>ls_event_ids := ls_event_ids ls @ [event_id]\<rparr>"

definition stop_with ::
  "retry_env \<Rightarrow> Task \<Rightarrow> loop_state \<Rightarrow> RetryClassification \<Rightarrow> BlockReason \<Rightarrow> int \<Rightarrow> string list \<Rightarrow> string option \<Rightarrow> flow runner" where
  "stop_with env task ls classification reason attempt artifact_ids source =
     rbind (blocked env task classification reason attempt (ls_event_ids ls) artifact_ids source) (\<lambda>b.
     rreturn (Return (Blocked b)))"

text \<open>A result of a nested run, with the events of the pass put before its own.\<close>

definition stopped_run :: "loop_state \<Rightarrow> BlockedResult \<Rightarrow> flow" where
  "stopped_run ls b = Return (Blocked (b\<lparr>bl_event_ids := ls_event_ids ls @ bl_event_ids b\<rparr>))"

definition continue_stage :: "retry_env \<Rightarrow> Artifact option \<Rightarrow> Task \<Rightarrow> loop_state \<Rightarrow> flow runner" where
  "continue_stage env progress task ls =
     (if t_status task \<noteq> TS_CONTINUE_REQUIRED then rreturn (Proceed task ls)
      else
        (case progress of
           None \<Rightarrow> stop_with env task ls RC_PLATFORM_BUG BR_NO_CHECKPOINT (max (t_attempts task) 1) [] None
         | Some p \<Rightarrow>
             if work_budget_exhausted task
             then stop_with env task ls RC_BUDGET_EXHAUSTED BR_CONTINUATION_BUDGET (t_attempts task) [art_artifact_id p]
                    (Some (art_source_revision p))
             else
               rbind (retry_transition env task TS_QUEUED ''coder_continuation_queued'' (art_source_revision p)
                        (t_attempts task) [art_artifact_id p]) (\<lambda>(task', event_id).
               rreturn (Proceed task' (add_event event_id ls)))))"

definition queued_stage :: "retry_env \<Rightarrow> Artifact option \<Rightarrow> Task \<Rightarrow> loop_state \<Rightarrow> flow runner" where
  "queued_stage env progress task ls =
     (if t_status task \<noteq> TS_QUEUED then rreturn (Proceed task ls)
      else
        (case progress of
           None \<Rightarrow> stop_with env task ls RC_PLATFORM_BUG BR_NO_QUEUED_PROGRESS (max (t_attempts task) 1) [] None
         | Some p \<Rightarrow>
             rbind (get_events (t_id task)) (\<lambda>events.
             let queued_attempt = latest_transition_attempt events TS_QUEUED;
                 next_attempt = (if queued_attempt < t_attempts task then t_attempts task else t_attempts task + 1) in
             if t_max_attempts task < next_attempt
             then stop_with env task ls RC_BUDGET_EXHAUSTED BR_RUN_BUDGET (t_attempts task) [art_artifact_id p]
                    (Some (art_source_revision p))
             else
               rbind (retry_record_attempt env (t_id task) next_attempt) (\<lambda>_.
               rbind (get_task (t_id task)) (\<lambda>current.
               rbind (retry_transition env current TS_IMPLEMENTING ''coder_continuation_resumed''
                        (art_source_revision p) next_attempt [art_artifact_id p]) (\<lambda>(task', event_id).
               rreturn (Proceed task' (add_event event_id ls))))))))"

definition implementing_stage ::
  "retry_env \<Rightarrow> Artifact \<Rightarrow> Artifact option \<Rightarrow> Task \<Rightarrow> loop_state \<Rightarrow> flow runner" where
  "implementing_stage env plan progress task ls =
     (if t_status task \<noteq> TS_IMPLEMENTING then rreturn (Proceed task ls)
      else
        (case filter (\<lambda>p. art_artifact_id p \<notin> set (ls_checkpointed ls)) (case progress of None \<Rightarrow> [] | Some p \<Rightarrow> [p]) of
           p # _ \<Rightarrow>
             rbind (retry_transition env task TS_CONTINUE_REQUIRED ''coder_progress_recovered''
                      (art_source_revision p) (max (t_attempts task) 1) [art_artifact_id p]) (\<lambda>(task', event_id).
             rreturn (NextTurn ((add_event event_id ls)\<lparr>ls_checkpointed := art_artifact_id p # ls_checkpointed ls\<rparr>)))
         | [] \<Rightarrow>
             (case (ls_recover ls, ls_implementation ls) of
                (True, Some implementation) \<Rightarrow>
                  rbind (validate_implementation task implementation) (\<lambda>candidate.
                  rbind (retry_transition env task TS_QA ''candidate_recovered'' candidate (max (t_attempts task) 1)
                           [art_artifact_id implementation]) (\<lambda>(task', event_id).
                  rreturn (Proceed task' ((add_event event_id ls)\<lparr>ls_recover := False\<rparr>))))
              | _ \<Rightarrow>
                  rbind (run_coder_with_retries env task plan (ls_implementation ls) (ls_qa ls) (ls_review ls) progress) (\<lambda>result.
                  case result of
                    Inr b \<Rightarrow> rreturn (stopped_run ls b)
                  | Inl (a, task', event_id) \<Rightarrow>
                      let ls' = add_event event_id ls in
                      if progress_of a \<noteq> None
                      then rreturn (NextTurn (ls'\<lparr>ls_checkpointed := art_artifact_id a # ls_checkpointed ls\<rparr>))
                      else rreturn (Proceed task' (ls'\<lparr>ls_implementation := Some a\<rparr>))))))"

definition still_reserved :: "retry_env \<Rightarrow> Task \<Rightarrow> Artifact \<Rightarrow> bool" where
  "still_reserved env task report = (case ro_reservation env of None \<Rightarrow> True | Some current \<Rightarrow> current task report)"

text \<open>The work goes back to the Coder with a new attempt.\<close>

definition route_to_coder ::
  "retry_env \<Rightarrow> Task \<Rightarrow> loop_state \<Rightarrow> string \<Rightarrow> string \<Rightarrow> string \<Rightarrow> flow runner" where
  "route_to_coder env task ls reason candidate artifact_id =
     (let next_attempt = t_attempts task + 1 in
      rbind (retry_record_attempt env (t_id task) next_attempt) (\<lambda>_.
      rbind (get_task (t_id task)) (\<lambda>current.
      rbind (retry_transition env current TS_IMPLEMENTING reason candidate next_attempt [artifact_id]) (\<lambda>(task', event_id).
      rreturn (NextTurn (add_event event_id ls))))))"

definition judge_qa ::
  "retry_env \<Rightarrow> Task \<Rightarrow> loop_state \<Rightarrow> string \<Rightarrow> Artifact \<Rightarrow> QaReportContent \<Rightarrow> flow runner" where
  "judge_qa env task ls candidate qa content =
     (if qa_status content = QR_FAIL then
        rbind (rsome (classify_qa_failure content) RunnerValueError) (\<lambda>disposition.
        if disposition = QD_RETRY_VERIFICATION
        then stop_with env task ls RC_VERIFICATION_INCONCLUSIVE BR_VERIFICATION (t_attempts task) [art_artifact_id qa]
               (Some candidate)
        else if work_budget_exhausted task
        then stop_with env task ls RC_QA_FINDING BR_QA_FINDINGS (t_attempts task) [art_artifact_id qa] (Some candidate)
        else route_to_coder env task ls ''qa_failed_route_to_coder'' candidate (art_artifact_id qa))
      else
        rbind (retry_transition env task TS_REVIEW ''qa_passed'' candidate (max (t_attempts task) 1)
                 [art_artifact_id qa]) (\<lambda>(task', event_id).
        rreturn (Proceed task' (add_event event_id ls))))"

definition qa_stage :: "retry_env \<Rightarrow> Artifact \<Rightarrow> Task \<Rightarrow> loop_state \<Rightarrow> flow runner" where
  "qa_stage env plan task ls =
     (if t_status task \<noteq> TS_QA then rreturn (Proceed task ls)
      else
        (case ls_implementation ls of
           None \<Rightarrow> stop_with env task ls RC_PLATFORM_BUG BR_QA_WITHOUT_CANDIDATE (max (t_attempts task) 1) [] None
         | Some implementation \<Rightarrow>
             rbind (require_implementation implementation) (\<lambda>ic.
             let candidate = ic_commit_sha ic;
                 same_candidate = (case ls_qa ls of Some q \<Rightarrow> art_source_revision q = candidate | None \<Rightarrow> False);
                 is_current = (case ls_qa ls of
                    None \<Rightarrow> False
                  | Some q \<Rightarrow> same_candidate \<and> art_parent_artifact_ids q = [art_artifact_id implementation] \<and>
                              still_reserved env task q) in
             rbind (case (is_current, ls_qa ls) of
                      (True, Some q) \<Rightarrow> rreturn (Inl (q, task))
                    | _ \<Rightarrow> run_qa_with_retries env task plan implementation candidate
                             (if same_candidate then ls_qa ls else None)) (\<lambda>result.
             case result of
               Inr b \<Rightarrow> rreturn (stopped_run ls b)
             | Inl (qa, task') \<Rightarrow>
                 rbind (require_qa qa) (\<lambda>content.
                 judge_qa env task' (ls\<lparr>ls_qa := Some qa\<rparr>) candidate qa content)))))"

definition judge_review ::
  "retry_env \<Rightarrow> Task \<Rightarrow> loop_state \<Rightarrow> Artifact \<Rightarrow> Artifact \<Rightarrow> string \<Rightarrow> Artifact \<Rightarrow> Artifact \<Rightarrow> ReviewReportContent \<Rightarrow>
   flow runner" where
  "judge_review env task ls plan implementation candidate qa review content =
     (if rc_verdict content = RV_REJECT then
        if work_budget_exhausted task
        then stop_with env task ls RC_REVIEW_FINDING BR_REVIEW_FINDINGS (t_attempts task) [art_artifact_id review]
               (Some candidate)
        else route_to_coder env task ls ''review_rejected_route_to_coder'' candidate (art_artifact_id review)
      else
        let as = [plan, implementation, qa, review]; ids = map art_artifact_id as in
        rbind (retry_transition env task TS_DONE ''review_approved'' candidate (max (t_attempts task) 1) ids) (\<lambda>(task', event_id).
        let d = \<lparr>rd_task = task', rd_candidate_revision = candidate, rd_artifact_ids = ids,
                 rd_context_manifest_ids = map art_context_manifest_id as,
                 rd_run_ids = map (\<lambda>a. pr_run_id (art_producer a)) as,
                 rd_event_ids = ls_event_ids ls @ [event_id]\<rparr>
        in rbind (rguard (valid_RetryDeliveryResult d) RunnerValueError) (\<lambda>_. rreturn (Return (Delivered d)))))"

definition review_stage :: "retry_env \<Rightarrow> Artifact \<Rightarrow> Task \<Rightarrow> loop_state \<Rightarrow> flow runner" where
  "review_stage env plan task ls =
     (if t_status task \<noteq> TS_REVIEW then rreturn (Proceed task ls)
      else
        (case (ls_implementation ls, ls_qa ls) of
           (Some implementation, Some qa) \<Rightarrow>
             rbind (require_implementation implementation) (\<lambda>ic.
             let candidate = ic_commit_sha ic;
                 same_candidate = (case ls_review ls of Some r \<Rightarrow> art_source_revision r = candidate | None \<Rightarrow> False);
                 is_current = (case ls_review ls of
                    None \<Rightarrow> False
                  | Some r \<Rightarrow> same_candidate \<and> art_parent_artifact_ids r = [art_artifact_id qa] \<and>
                              art_parent_artifact_ids qa = [art_artifact_id implementation] \<and>
                              still_reserved env task r) in
             rbind (case (is_current, ls_review ls) of
                      (True, Some r) \<Rightarrow> rreturn (Inl (r, task))
                    | _ \<Rightarrow> run_review_with_retries env task plan implementation candidate qa
                             (if same_candidate then ls_review ls else None)) (\<lambda>result.
             case result of
               Inr b \<Rightarrow> rreturn (stopped_run ls b)
             | Inl (review, task') \<Rightarrow>
                 rbind (require_review review) (\<lambda>content.
                 judge_review env task' (ls\<lparr>ls_review := Some review\<rparr>) plan implementation candidate qa review content)))
         | _ \<Rightarrow> stop_with env task ls RC_PLATFORM_BUG BR_REVIEW_WITHOUT_EVIDENCE (max (t_attempts task) 1) [] None))"

definition delivery_turn :: "retry_env \<Rightarrow> string \<Rightarrow> Artifact \<Rightarrow> loop_state \<Rightarrow> flow runner" where
  "delivery_turn env task_id plan ls =
     rbind (get_task task_id) (\<lambda>task.
     rbind (current_coder_input (ro_base env) task) (\<lambda>source.
     let progress = ci_active_progress source;
         retired = (case ls_implementation ls of
                      None \<Rightarrow> False
                    | Some a \<Rightarrow> art_artifact_id a \<in> set (superseded_artifact_ids source));
         ls1 = (if retired then ls\<lparr>ls_recover := False\<rparr> else ls) in
     then_stage (then_stage (then_stage (then_stage
       (continue_stage env progress task ls1)
       (queued_stage env progress))
       (implementing_stage env plan progress))
       (qa_stage env plan))
       (review_stage env plan)))"

fun delivery_loop :: "nat \<Rightarrow> retry_env \<Rightarrow> string \<Rightarrow> Artifact \<Rightarrow> loop_state \<Rightarrow> RetryResult runner" where
  "delivery_loop 0 env task_id plan ls = rraise OutOfFuel"
| "delivery_loop (Suc fuel) env task_id plan ls =
     rbind (delivery_turn env task_id plan ls) (\<lambda>x.
     case x of
       Return r \<Rightarrow> rreturn r
     | Proceed _ ls' \<Rightarrow> delivery_loop fuel env task_id plan ls'
     | NextTurn ls' \<Rightarrow> delivery_loop fuel env task_id plan ls')"

text \<open>Every two turns use up an attempt.\<close>

definition delivery_fuel :: nat where
  "delivery_fuel = 2 * nat MAX_EXECUTION_ATTEMPTS + 2"

subsection \<open>Resuming a Task\<close>

definition event_artifact_ids :: "StateEvent list \<Rightarrow> string list" where
  "event_artifact_ids events = concat (map ev_artifact_ids events)"

definition transient_exhausted :: "Task \<Rightarrow> AgentRole option" where
  "transient_exhausted task =
     (case (t_retry_policy task, delivery_role_status (t_status task)) of
        (Some policy, Some role) \<Rightarrow>
          (case transient_limit policy role of
             Inl _ \<Rightarrow> None
           | Inr limit \<Rightarrow> if limit \<le> transient_failures task role then Some role else None)
      | _ \<Rightarrow> None)"

definition recover_attempt :: "retry_env \<Rightarrow> Task \<Rightarrow> StateEvent list \<Rightarrow> Task runner" where
  "recover_attempt env task events =
     (let recovered = foldl max 0 (map ev_attempt events) in
      if t_attempts task < recovered
      then rbind (retry_record_attempt env (t_id task) recovered) (\<lambda>_. get_task (t_id task))
      else rreturn task)"

definition validate_stage :: "retry_env \<Rightarrow> Task \<Rightarrow> loop_state \<Rightarrow> (Task \<times> loop_state) runner" where
  "validate_stage env task ls =
     (if t_status task \<noteq> TS_NEW then rreturn (task, ls)
      else
        rbind (retry_record_attempt env (t_id task) 1) (\<lambda>_.
        rbind (get_task (t_id task)) (\<lambda>current.
        rbind (retry_transition env current TS_PLANNING ''task_validated'' (t_base_ref task) 1 []) (\<lambda>(task', event_id).
        rreturn (task', add_event event_id ls)))))"

definition planning_stage ::
  "retry_env \<Rightarrow> Artifact option \<Rightarrow> Task \<Rightarrow> loop_state \<Rightarrow> (Artifact option \<times> loop_state + BlockedResult) runner" where
  "planning_stage env plan task ls =
     (if t_status task \<noteq> TS_PLANNING then rreturn (Inl (plan, ls))
      else
        (case plan of
           None \<Rightarrow>
             rbind (run_planner env task) (\<lambda>result.
             case result of
               Inr b \<Rightarrow> rreturn (Inr (b\<lparr>bl_event_ids := ls_event_ids ls @ bl_event_ids b\<rparr>))
             | Inl (p, current, plan_attempt) \<Rightarrow>
                 rbind (retry_transition env current TS_IMPLEMENTING ''plan_validated'' (t_base_ref current) plan_attempt
                          [art_artifact_id p]) (\<lambda>(task', event_id).
                 rreturn (Inl (Some p, add_event event_id ls))))
         | Some p \<Rightarrow>
             rbind (retry_validate_plan task p) (\<lambda>_.
             rbind (retry_transition env task TS_IMPLEMENTING ''plan_recovered'' (t_base_ref task)
                      (max (t_attempts task) 1) [art_artifact_id p]) (\<lambda>(task', event_id).
             rreturn (Inl (Some p, add_event event_id ls))))))"

definition start_delivery ::
  "retry_env \<Rightarrow> Task \<Rightarrow> StateEvent list \<Rightarrow> (Artifact option \<times> loop_state) runner" where
  "start_delivery env task events =
     rbind (artifacts_for_task env (t_id task)) (\<lambda>artifacts.
     rbind (baseline_input env task) (\<lambda>source.
     rbind (latest_artifact artifacts AK_PLAN []) (\<lambda>plan.
     rbind (implementation_for_feedback artifacts source) (\<lambda>implementation.
     rbind (latest_artifact artifacts AK_QA_REPORT []) (\<lambda>qa.
     rbind (latest_artifact artifacts AK_REVIEW_REPORT []) (\<lambda>review.
     rbind (rupdate (rs_seen_run_ids_update (\<lambda>_. map (\<lambda>a. pr_run_id (art_producer a)) artifacts))) (\<lambda>_.
     rreturn (plan,
       \<lparr>ls_implementation = implementation, ls_qa = qa, ls_review = review, ls_event_ids = map ev_event_id events,
        ls_checkpointed = event_artifact_ids events,
        ls_recover = recoverable_candidate task events implementation\<rparr>))))))))"

definition deliver_from ::
  "nat \<Rightarrow> retry_env \<Rightarrow> Task \<Rightarrow> Artifact option \<Rightarrow> loop_state \<Rightarrow> RetryResult runner" where
  "deliver_from fuel env task plan ls =
     rbind (validate_stage env task ls) (\<lambda>(task1, ls1).
     rbind (planning_stage env plan task1 ls1) (\<lambda>planned.
     case planned of
       Inr b \<Rightarrow> rreturn (Blocked b)
     | Inl (None, ls2) \<Rightarrow>
         rbind (get_task (t_id task1)) (\<lambda>current.
         rbind (blocked env current RC_INVALID_OUTPUT BR_PLAN_MISSING (max (t_attempts task1) 1)
                  (ls_event_ids ls2) [] None) (\<lambda>b.
         rreturn (Blocked b)))
     | Inl (Some p, ls2) \<Rightarrow> delivery_loop fuel env (t_id task1) p ls2))"

definition resume_task :: "nat \<Rightarrow> retry_env \<Rightarrow> string \<Rightarrow> RetryResult runner" where
  "resume_task fuel env task_id =
     rbind (get_task task_id) (\<lambda>task.
     rbind (rguard (t_status task \<notin> {TS_DONE, TS_BLOCKED, TS_FAILED}) TaskNotRunnable) (\<lambda>_.
     rbind (get_events (t_id task)) (\<lambda>events.
     case transient_exhausted task of
       Some role \<Rightarrow>
         rbind (blocked env task RC_BUDGET_EXHAUSTED (BR_TRANSIENT_EXHAUSTED role) (max (t_attempts task) 1)
                  (map ev_event_id events) (dict_fromkeys (event_artifact_ids events))
                  (Some (last_source_revision task events))) (\<lambda>b.
         rreturn (Blocked b))
     | None \<Rightarrow>
         rbind (recover_attempt env task events) (\<lambda>current.
         rbind (start_delivery env current events) (\<lambda>(plan, ls).
         deliver_from fuel env current plan ls)))))"

definition context_capacity :: "retry_env \<Rightarrow> string \<Rightarrow> RetryResult runner" where
  "context_capacity env task_id =
     rbind (get_task task_id) (\<lambda>task.
     rbind (get_events task_id) (\<lambda>events.
     rbind (if t_status task = TS_IMPLEMENTING
            then rbind (current_coder_input (ro_base env) task) (\<lambda>i. rreturn (ci_source_revision i))
            else rreturn (last_source_revision task events)) (\<lambda>source.
     rbind (blocked env task RC_CONTEXT_CAPACITY BR_CONTEXT_CAPACITY (max (t_attempts task) 1)
              (map ev_event_id events) (dict_fromkeys (event_artifact_ids events)) (Some source)) (\<lambda>b.
     rreturn (Blocked b)))))"

definition retry_run_task :: "nat \<Rightarrow> retry_env \<Rightarrow> string \<Rightarrow> RetryResult runner" where
  "retry_run_task fuel env task_id =
     rbind (case re_gate (ro_base env) of
              None \<Rightarrow> rreturn ()
            | Some g \<Rightarrow> rbind (get_task task_id) (\<lambda>task. rguard (tg_begin_task g task) CollaboratorError)) (\<lambda>_.
     rcatch (resume_task fuel env task_id)
       (\<lambda>e. case e of ContextBudgetExceeded \<Rightarrow> Some (context_capacity env task_id) | _ \<Rightarrow> None))"

end
