(* ===== verification/Retry_Logic.thy ===== *)
theory Retry_Logic
  imports Retry_Runner Runner_Properties
begin

section \<open>Reasoning about the retrying orchestrator\<close>

text \<open>
  A weakest-precondition calculus for the programs of \<open>Runner\<close> and \<open>Retry_Runner\<close>, and the two
  kinds of step it needs: quiet steps, which only reserve attempts and publish Artifacts, and
  transitions, which append one event to the log of the Task.
\<close>

definition wp :: "'a runner \<Rightarrow> ('a \<Rightarrow> run_state \<Rightarrow> bool) \<Rightarrow> (runner_error \<Rightarrow> run_state \<Rightarrow> bool) \<Rightarrow> run_state \<Rightarrow> bool" where
  "wp m Q E s = (case m s of (Inl e, s') \<Rightarrow> E e s' | (Inr a, s') \<Rightarrow> Q a s')"

lemma wp_bind [simp]: "wp (rbind m f) Q E s = wp m (\<lambda>a. wp (f a) Q E) E s"
  by (simp add: wp_def rbind_def split: prod.split sum.split)

lemma wp_pure [simp]:
  "wp (rreturn a) Q E s = Q a s" "wp (rraise e) Q E s = E e s"
  "wp (rlift wrap r) Q E s = (case r of Inl x \<Rightarrow> E (wrap x) s | Inr a \<Rightarrow> Q a s)"
  "wp (rsome x e) Q E s = (case x of None \<Rightarrow> E e s | Some a \<Rightarrow> Q a s)"
  by (simp_all add: wp_def rreturn_def rraise_def rlift_def rsome_def split: sum.split option.split)

lemma wp_eta [simp]: "wp (rreturn a) Q E = Q a" "wp (rraise e) Q E = E e"
  by (simp_all add: fun_eq_iff)

lemma wp_guard [simp]: "wp (rguard ok e) Q E s = (if ok then Q () s else E e s)"
  by (simp add: wp_def rguard_def)

lemma wp_state [simp]: "wp (rread g) Q E s = Q (g s) s" "wp (rupdate h) R E s = R () (h s)"
  by (simp_all add: wp_def rread_def rupdate_def)

lemma wp_catch [simp]:
  "wp (rcatch m handler) Q E s = wp m Q (\<lambda>e s'. case handler e of None \<Rightarrow> E e s' | Some h \<Rightarrow> wp h Q E s') s"
  by (simp add: wp_def rcatch_def split: prod.split sum.split option.split)

lemma wp_step [simp]: "wp next_step Q E s = Q (rs_step s) (s\<lparr>rs_step := Suc (rs_step s)\<rparr>)"
  by (simp add: wp_def next_step_def)

lemma wp_conseq:
  "wp m Q E s \<Longrightarrow> (\<And>a s'. Q a s' \<Longrightarrow> Q' a s') \<Longrightarrow> (\<And>e s'. E e s' \<Longrightarrow> E' e s') \<Longrightarrow> wp m Q' E' s"
  by (auto simp: wp_def split: prod.splits sum.splits)

lemma wp_conj: "wp m Q E s \<Longrightarrow> wp m Q' E' s \<Longrightarrow> wp m (\<lambda>a s'. Q a s' \<and> Q' a s') (\<lambda>e s'. E e s' \<and> E' e s') s"
  by (auto simp: wp_def split: prod.splits sum.splits)

lemma wp_exec: "wp m Q E s \<longleftrightarrow> (\<forall>r s'. m s = (r, s') \<longrightarrow> (case r of Inl e \<Rightarrow> E e s' | Inr a \<Rightarrow> Q a s'))"
  by (auto simp: wp_def split: prod.splits sum.splits)

subsection \<open>Quiet steps\<close>

text \<open>What happens to the Task repository: no event, and a Task only gains attempts and failures.\<close>

definition store_quiet :: "task_store \<Rightarrow> task_store \<Rightarrow> bool" where
  "store_quiet st st' \<longleftrightarrow>
     (repo_inv st \<longrightarrow>
        repo_inv st' \<and> ts_events st' = ts_events st \<and>
        (\<forall>i t. mysql_get st i = Inr t \<longrightarrow>
           (\<exists>t'. mysql_get st' i = Inr t' \<and> same_progress t t' \<and> t_attempts t \<le> t_attempts t')))"

lemma store_quiet_refl [simp]: "store_quiet st st"
  by (auto simp: store_quiet_def)

lemma store_quiet_trans:
  assumes "store_quiet a b" and "store_quiet b c"
  shows "store_quiet a c"
  unfolding store_quiet_def
proof (intro impI conjI allI)
  assume inv: "repo_inv a"
  with assms show "repo_inv c" "ts_events c = ts_events a" by (simp_all add: store_quiet_def)
  fix i t
  assume "mysql_get a i = Inr t"
  with assms inv obtain t1 t2 where "same_progress t t1" "t_attempts t \<le> t_attempts t1"
      "mysql_get c i = Inr t2" "same_progress t1 t2" "t_attempts t1 \<le> t_attempts t2"
    by (auto simp: store_quiet_def) metis
  then show "\<exists>t'. mysql_get c i = Inr t' \<and> same_progress t t' \<and> t_attempts t \<le> t_attempts t'"
    using same_progress_trans by fastforce
qed

lemma update_payload_quiet:
  assumes "repo_inv st" and "row_of tr_id tid (ts_tasks st) = Some row" and "repo_inv (update_payload st tid t')"
    and "same_progress (tr_payload row) t'" and "t_attempts (tr_payload row) \<le> t_attempts t'"
  shows "store_quiet st (update_payload st tid t')"
  unfolding store_quiet_def
proof (intro impI conjI allI)
  show "ts_events (update_payload st tid t') = ts_events st" by (simp add: update_payload_def assms(2))
  show "repo_inv (update_payload st tid t')" by (fact assms(3))
  fix i t
  assume g: "mysql_get st i = Inr t"
  have id: "tr_id row = tid" by (rule repo_invD(2) [OF assms(1,2)])
  show "\<exists>t''. mysql_get (update_payload st tid t') i = Inr t'' \<and> same_progress t t'' \<and> t_attempts t \<le> t_attempts t''"
  proof (cases "i = tid")
    case True
    have "row_of tr_id tid (ts_tasks (update_payload st tid t')) = Some (row\<lparr>tr_payload := t'\<rparr>)"
      using assms(2) id by (simp add: update_payload_def table_simps)
    then have "mysql_get (update_payload st tid t') i = Inr t'"
      using True get_iff [OF assms(3)] by auto
    moreover have "t = tr_payload row" using g True assms(2) get_iff [OF assms(1)] by auto
    ultimately show ?thesis using assms(4,5) by auto
  next
    case False
    then have "row_of tr_id i (ts_tasks (update_payload st tid t')) = row_of tr_id i (ts_tasks st)"
      using assms(2) id by (simp add: update_payload_def table_simps)
    then have "mysql_get (update_payload st tid t') i = Inr t"
      using g get_iff [OF assms(3)] get_iff [OF assms(1)] by auto
    then show ?thesis by auto
  qed
qed

lemma record_attempt_quiet:
  assumes "mysql_record_attempt fence st tid n = Inr st'"
  shows "store_quiet st st'"
proof (cases "repo_inv st")
  case True
  have r: "record_attempt st tid n = Inr st'" by (rule mysql_record_attemptD [OF assms])
  with True show ?thesis
  proof (cases rule: record_attempt_cases)
    case (1 row)
    show ?thesis
    proof (cases "n \<le> t_attempts (tr_payload row)")
      case False
      then show ?thesis
        using record_attempt_inv [OF True r] 1 by (auto intro!: update_payload_quiet [OF True 1(1)])
    qed (simp add: 1)
  qed
qed (simp add: store_quiet_def)

lemma with_retry_failure_attempts: "with_retry_failure t f = Inr t' \<Longrightarrow> t_attempts t \<le> t_attempts t'"
  by (erule with_retry_failure_cases) (auto simp: append_retry_failure_def)

lemma record_retry_failure_quiet:
  assumes "mysql_record_retry_failure fence st tid f = Inr st'"
  shows "store_quiet st st'"
proof (cases "repo_inv st")
  case True
  have r: "record_retry_failure st tid f = Inr st'" by (rule mysql_record_retry_failureD [OF assms])
  with True show ?thesis
  proof (cases rule: record_retry_failure_cases)
    case (1 row t')
    show ?thesis
    proof (cases "t' = tr_payload row")
      case False
      then show ?thesis
        using record_retry_failure_inv [OF True r] 1 with_retry_failure_progress [OF 1(2)] with_retry_failure_attempts [OF 1(2)]
        by (auto intro!: update_payload_quiet [OF True 1(1)])
    qed (simp add: 1)
  qed
qed (simp add: store_quiet_def)

lemma reservations_quiet: "store_quiet st (run_ops (repo_apply fence) st (map (reservation_op tid) rs))"
proof (induction rs arbitrary: st)
  case (Cons r rs)
  have "store_quiet st st'" if "repo_apply fence (reservation_op tid r) st = Some st'" for st'
    using that by (cases r) (auto intro: record_attempt_quiet record_retry_failure_quiet)
  then have "store_quiet st (case repo_apply fence (reservation_op tid r) st of None \<Rightarrow> st | Some st' \<Rightarrow> st')"
    by (simp split: option.split)
  from store_quiet_trans [OF this Cons.IH] show ?case by simp
qed simp

definition quiet :: "artifact_hash \<Rightarrow> run_state \<Rightarrow> run_state \<Rightarrow> bool" where
  "quiet H s s' \<longleftrightarrow>
     artifacts_grow H s s' \<and> rs_step s \<le> rs_step s' \<and> store_quiet (rs_tasks s) (rs_tasks s')"

interpretation quietly: step_relation "quiet H" for H
  by unfold_locales (auto simp: quiet_def growth.refl intro: growth.trans store_quiet_trans)

lemma quiet_intro:
  "rs_tasks s' = rs_tasks s \<Longrightarrow> rs_artifacts s' = rs_artifacts s \<Longrightarrow> rs_step s \<le> rs_step s' \<Longrightarrow> quiet H s s'"
  by (simp add: quiet_def artifacts_grow_def)

text \<open>A calm program is quiet and does not run out of fuel.\<close>

definition calm :: "artifact_hash \<Rightarrow> 'a runner \<Rightarrow> bool" where
  "calm H m \<longleftrightarrow> (\<forall>s. wp m (\<lambda>_. quiet H s) (\<lambda>e s'. quiet H s s' \<and> e \<noteq> OutOfFuel) s)"

lemma calmI: "(\<And>s. wp m (\<lambda>_. quiet H s) (\<lambda>e s'. quiet H s s' \<and> e \<noteq> OutOfFuel) s) \<Longrightarrow> calm H m"
  by (simp add: calm_def)

lemma calm_wp: "calm H m \<Longrightarrow> wp m (\<lambda>_. quiet H s) (\<lambda>e s'. quiet H s s' \<and> e \<noteq> OutOfFuel) s"
  by (simp add: calm_def)

lemma calm_bind: "calm H m \<Longrightarrow> (\<And>a. calm H (f a)) \<Longrightarrow> calm H (rbind m f)"
  by (intro calmI, unfold wp_bind, rule wp_conseq [OF calm_wp], assumption, rule wp_conseq [OF calm_wp])
    (auto intro: quietly.trans)

lemma calm_pure:
  "calm H (rreturn a)" "e \<noteq> OutOfFuel \<Longrightarrow> calm H (rraise e)"
  "(\<And>x. wrap x \<noteq> OutOfFuel) \<Longrightarrow> calm H (rlift wrap r)" "e \<noteq> OutOfFuel \<Longrightarrow> calm H (rguard ok e)"
  "e \<noteq> OutOfFuel \<Longrightarrow> calm H (rsome x e)" "calm H (rread g)"
  by (auto simp: calm_def quietly.refl split: sum.splits option.splits)

lemma calm_update: "(\<And>s. quiet H s (h s)) \<Longrightarrow> calm H (rupdate h)"
  by (simp add: calm_def)

lemma calm_next_step: "calm H next_step"
  by (simp add: calm_def quiet_intro)

lemma calm_choice:
  "(x = None \<Longrightarrow> calm H m) \<Longrightarrow> (\<And>a. x = Some a \<Longrightarrow> calm H (f a)) \<Longrightarrow>
   calm H (case x of None \<Rightarrow> m | Some a \<Rightarrow> f a)"
  by (cases x) auto

lemma calm_branch: "(c \<Longrightarrow> calm H m) \<Longrightarrow> (\<not> c \<Longrightarrow> calm H n) \<Longrightarrow> calm H (if c then m else n)"
  by simp

lemma calm_catch:
  "calm H m \<Longrightarrow> (\<And>e h. handler e = Some h \<Longrightarrow> calm H h) \<Longrightarrow> calm H (rcatch m handler)"
  by (intro calmI, unfold wp_catch, rule wp_conseq [OF calm_wp], assumption, assumption)
    (auto split: option.split intro!: wp_conseq [OF calm_wp] intro: quietly.trans)

lemmas calm_rules = calm_bind calm_pure calm_update calm_next_step calm_choice calm_branch calm_catch

lemma raised_fuel [simp]: "raised e \<noteq> OutOfFuel"
  by (cases e) simp_all

subsection \<open>The steps of the serial orchestrator\<close>

lemma calm_controls:
  "calm H (before_write c)" "calm H (guard_write env)" "calm H (run_boundary task role k src)"
  "calm H (before_run c task role k src)" "calm H (before_checkpoint_recovery c task role k src)"
proof -
  show w: "calm H (before_write c)" for c
    unfolding before_write_def by (intro calm_rules) (simp_all add: quiet_intro)
  show b: "calm H (run_boundary task role k src)" for task role k src
    unfolding run_boundary_def Let_def by (intro calm_rules) simp_all
  show "calm H (guard_write env)" unfolding guard_write_def by (intro calm_rules w)
  show "calm H (before_run c task role k src)"
    unfolding before_run_def by (intro calm_rules w b) (simp_all add: quiet_intro)
  show "calm H (before_checkpoint_recovery c task role k src)"
    unfolding before_checkpoint_recovery_def by (intro calm_rules w b) simp_all
qed

lemma calm_inputs: "calm H (current_coder_input env task)"
  unfolding current_coder_input_def by (intro calm_rules) simp_all

lemma calm_request: "calm H (make_request env n task d role k c inputs parents sp bk src)"
  unfolding make_request_def work_slice_for_def Let_def split_beta by (intro calm_rules) simp_all

lemma calm_accept: "calm H (accept_result env role rq rp r)"
  unfolding accept_result_def Let_def
  by (cases rp; cases "journal env role"; simp; intro calm_rules calm_controls; simp)

lemma calm_request_agent: "calm H (request_agent env n task role k cand inputs parents sp bk src)"
  unfolding request_agent_def replayed_result_def invoke_def check_slice_def required_supersedes_def
  by (intro calm_rules calm_request calm_accept; simp add: quiet_intro)

lemma calm_invoke_agent: "calm H (invoke_agent env n task role k cand inputs parents sp bk)"
  unfolding invoke_agent_def Let_def by (intro calm_rules calm_inputs calm_controls calm_request_agent)

lemma calm_publish: "calm (re_hash env) (publish env n a)"
proof -
  have core: "calm (re_hash env)
     (rbind (rread rs_artifacts) (\<lambda>store. rbind (rlift ArtifactFailure (artifact_put (re_hash env) store b)) (\<lambda>(reference, store').
      rbind (rupdate (rs_artifacts_update (\<lambda>_. store'))) (\<lambda>_.
      rlift ArtifactFailure (artifact_get (re_hash env) store' (aref_artifact_id reference))))))" for b
    using artifacts.put_keeps artifacts.put_frame
    by (intro calmI) (auto simp: quiet_def artifacts_grow_def quietly.refl split: sum.splits)
  show ?thesis unfolding publish_def by (intro calm_bind calm_pure calm_controls core) simp_all
qed

lemma calm_run_agent: "calm (re_hash env) (run_agent env task role k cand inputs parents sp bk)"
  unfolding run_agent_def check_slice_def split_beta
  by (intro calm_rules calm_invoke_agent calm_publish) simp_all

subsection \<open>The state of a pass\<close>

text \<open>
  The identity factory never repeats an event id, and the ids it has still to give are not in use, as
  the UUIDs of \<^verbatim>\<open>UuidOrchestrationIdentityFactory\<close>.
\<close>

definition fresh_ids :: "runner_env \<Rightarrow> run_state \<Rightarrow> bool" where
  "fresh_ids env s \<longleftrightarrow>
     (\<forall>n m. re_event_ids env n = re_event_ids env m \<longrightarrow> n = m) \<and>
     (\<forall>n \<ge> rs_step s. re_event_ids env n \<notin> er_event_id ` set (ts_events (rs_tasks s)))"

definition sane :: "retry_env \<Rightarrow> run_state \<Rightarrow> bool" where
  "sane env s \<longleftrightarrow>
     repo_inv (rs_tasks s) \<and> store_inv (re_hash (ro_base env)) (rs_artifacts s) \<and> fresh_ids (ro_base env) s"

definition current :: "retry_env \<Rightarrow> run_state \<Rightarrow> Task \<Rightarrow> StateEvent list \<Rightarrow> bool" where
  "current env s task es \<longleftrightarrow> sane env s \<and> at_stage s task es"

text \<open>What a pass never changes in a Task, and that attempts only grow.\<close>

definition succeeds_task :: "Task \<Rightarrow> Task \<Rightarrow> bool" where
  "succeeds_task a b \<longleftrightarrow>
     t_id b = t_id a \<and> t_max_attempts b = t_max_attempts a \<and> t_attempts a \<le> t_attempts b"

lemma succeeds_refl [simp]: "succeeds_task a a"
  by (simp add: succeeds_task_def)

lemma succeeds_trans: "succeeds_task a b \<Longrightarrow> succeeds_task b c \<Longrightarrow> succeeds_task a c"
  by (simp add: succeeds_task_def)

lemma succeeds_status [simp]: "succeeds_task a (b\<lparr>t_status := x, t_updated_at := u\<rparr>) \<longleftrightarrow> succeeds_task a b"
  by (simp add: succeeds_task_def)

lemma same_progress_succeeds: "same_progress a b \<Longrightarrow> t_attempts a \<le> t_attempts b \<Longrightarrow> succeeds_task a b"
  using same_progress_fields [of a b] by (simp add: succeeds_task_def)

lemma current_stored:
  "current env s task es \<Longrightarrow> mysql_get (rs_tasks s) (t_id task) = Inr task"
  "current env s task es \<Longrightarrow> mysql_list_events (rs_tasks s) (t_id task) = Inr es"
  "current env s task es \<Longrightarrow> sane env s"
  "current env s task es \<Longrightarrow> repo_inv (rs_tasks s)"
  "current env s task es \<Longrightarrow> store_inv (re_hash (ro_base env)) (rs_artifacts s)"
  by (auto simp: current_def at_stage_def sane_def)

lemma current_valid:
  assumes "current env s task es"
  shows "valid_Task task"
proof -
  have inv: "repo_inv (rs_tasks s)" by (rule current_stored(4) [OF assms])
  obtain row where "row_of tr_id (t_id task) (ts_tasks (rs_tasks s)) = Some row" "tr_payload row = task"
    using current_stored(1) [OF assms] get_iff [OF inv] by auto
  then show ?thesis using repo_invD(3) [OF inv] by blast
qed

lemma current_replay:
  assumes "current env s task es"
  shows "replays_to es task"
  using mysql.log_law [OF current_stored(4) [OF assms] current_stored(1) [OF assms]] current_stored(2) [OF assms] by auto

lemma sane_current:
  assumes "sane env s" and "mysql_get (rs_tasks s) i = Inr task"
  obtains es where "current env s task es" "t_id task = i"
proof -
  have inv: "repo_inv (rs_tasks s)" using assms(1) by (simp add: sane_def)
  have id: "t_id task = i" using assms(2) get_iff [OF inv] repo_invD(4) [OF inv] by auto
  obtain es where "mysql_list_events (rs_tasks s) i = Inr es" using mysql.log_law [OF inv assms(2)] by blast
  with assms inv id that show thesis by (auto simp: current_def at_stage_def)
qed

lemma quiet_sane: "sane env s \<Longrightarrow> quiet (re_hash (ro_base env)) s s' \<Longrightarrow> sane env s'"
  unfolding sane_def quiet_def store_quiet_def artifacts_grow_def fresh_ids_def by auto

lemma quiet_current:
  assumes "current env s task es" and "quiet (re_hash (ro_base env)) s s'"
  obtains task' where "current env s' task' es" "same_progress task task'" "t_attempts task \<le> t_attempts task'"
    "t_id task' = t_id task" "t_status task' = t_status task" "succeeds_task task task'"
proof -
  have inv: "repo_inv (rs_tasks s)" "repo_inv (rs_tasks s')" "ts_events (rs_tasks s') = ts_events (rs_tasks s)"
    and "\<exists>t'. mysql_get (rs_tasks s') (t_id task) = Inr t' \<and> same_progress task t' \<and> t_attempts task \<le> t_attempts t'"
    using assms current_stored [OF assms(1)] by (auto simp: quiet_def store_quiet_def)
  then obtain t' where t': "mysql_get (rs_tasks s') (t_id task) = Inr t'" "same_progress task t'" "t_attempts task \<le> t_attempts t'"
    by blast
  have id: "t_id t' = t_id task" using same_progress_fields(1) [OF t'(2)] by simp
  obtain es' where es': "mysql_list_events (rs_tasks s') (t_id task) = Inr es'" using mysql.log_law [OF inv(2) t'(1)] by blast
  have "es' = log_of (rs_tasks s') (t_id task)" "es = log_of (rs_tasks s) (t_id task)"
    using es' current_stored(2) [OF assms(1)] list_events_total inv(1,2) by (auto split: option.splits)
  then have "es' = es" by (simp add: log_of_def events_of_def inv(3))
  with es' t' id quiet_sane [OF current_stored(3) [OF assms(1)] assms(2)] inv(2)
  have "current env s' t' es" by (simp add: current_def at_stage_def)
  with t' id that same_progress_fields(2) [OF t'(2)] same_progress_succeeds [OF t'(2,3)] show thesis by simp
qed

lemma get_wp [simp]:
  "current env s task es \<Longrightarrow> wp (get_task (t_id task)) Q E s = Q task s"
  "current env s task es \<Longrightarrow> wp (get_events (t_id task)) R E s = R es s"
  using current_stored by (simp_all add: get_task_def get_events_def)

lemma calm_reads:
  "calm H (get_task i)" "calm H (get_events i)" "calm H (artifacts_for_task env i)" "calm H (baseline_input env task)"
  "calm H (latest_artifact as kind ids)"
  unfolding get_task_def get_events_def artifacts_for_task_def baseline_input_def latest_artifact_def
  by (intro calm_rules; simp)+

lemma record_attempt_reaches:
  assumes "repo_inv st" and "mysql_get st tid = Inr t" and "mysql_record_attempt fence st tid n = Inr st'"
    and "mysql_get st' tid = Inr t'"
  shows "n \<le> t_attempts t'" "1 \<le> n" "n \<le> t_max_attempts t"
proof -
  have r: "record_attempt st tid n = Inr st'" by (rule mysql_record_attemptD [OF assms(3)])
  have "n \<le> t_attempts t' \<and> 1 \<le> n \<and> n \<le> t_max_attempts t"
    using assms(1) r
  proof (cases rule: record_attempt_cases)
    case (1 row)
    have t: "tr_payload row = t" using assms(1,2) 1(1) by (auto simp: get_iff)
    have inv': "repo_inv st'" by (rule record_attempt_inv [OF assms(1) r])
    have id: "tr_id row = tid" by (rule repo_invD(2) [OF assms(1) 1(1)])
    show ?thesis
    proof (cases "n \<le> t_attempts t")
      case True
      then show ?thesis using 1 t assms(1,4) by (auto simp: get_iff)
    next
      case False
      then have "row_of tr_id tid (ts_tasks st') = Some (row\<lparr>tr_payload := t\<lparr>t_attempts := n\<rparr>\<rparr>)"
        using 1 t id by (simp add: update_payload_def table_simps)
      then show ?thesis using assms(4) 1(2,3) t by (auto simp: get_iff [OF inv'])
    qed
  qed
  then show "n \<le> t_attempts t'" "1 \<le> n" "n \<le> t_max_attempts t" by simp_all
qed

lemma calm_record_attempt: "calm H (retry_record_attempt env i n)"
proof -
  have core: "calm H (rbind (rread rs_tasks) (\<lambda>store.
      rbind (rlift RepositoryError (mysql_record_attempt fence store i n)) (\<lambda>store'. rupdate (rs_tasks_update (\<lambda>_. store')))))" for fence
    using record_attempt_quiet by (intro calmI) (auto simp: quiet_def artifacts_grow_def split: sum.split)
  show ?thesis unfolding retry_record_attempt_def by (rule calm_bind [OF calm_controls(2) core])
qed

lemma record_attempt_wp:
  assumes cur: "current env s task es"
    and Q: "\<And>s' task'. quiet (re_hash (ro_base env)) s s' \<Longrightarrow> current env s' task' es \<Longrightarrow> t_id task' = t_id task \<Longrightarrow>
      same_progress task task' \<Longrightarrow> t_attempts task \<le> t_attempts task' \<Longrightarrow> n \<le> t_attempts task' \<Longrightarrow> 1 \<le> n \<Longrightarrow>
      n \<le> t_max_attempts task \<Longrightarrow> Q () s'"
    and E: "\<And>e s'. quiet (re_hash (ro_base env)) s s' \<Longrightarrow> sane env s' \<Longrightarrow> e \<noteq> OutOfFuel \<Longrightarrow> E e s'"
  shows "wp (retry_record_attempt env (t_id task) n) Q E s"
  unfolding wp_exec
proof (intro allI impI)
  fix r s'
  assume run: "retry_record_attempt env (t_id task) n s = (r, s')"
  have q: "quiet (re_hash (ro_base env)) s s'" and nf: "r \<noteq> Inl OutOfFuel"
    using calm_wp [OF calm_record_attempt [of "re_hash (ro_base env)" env "t_id task" n], of s] run
    by (auto simp: wp_exec split: sum.splits)
  obtain task' where t': "current env s' task' es" "same_progress task task'" "t_attempts task \<le> t_attempts task'"
      "t_id task' = t_id task"
    using quiet_current [OF cur q] by blast
  show "case r of Inl e \<Rightarrow> E e s' | Inr a \<Rightarrow> Q a s'"
  proof (cases r)
    case (Inl e)
    then show ?thesis using E [OF q current_stored(3) [OF t'(1)]] nf by simp
  next
    case (Inr u)
    then obtain s1 st where st: "guard_write (ro_base env) s = (Inr (), s1)"
        "mysql_record_attempt (re_fence (ro_base env)) (rs_tasks s1) (t_id task) n = Inr st" "rs_tasks s' = st"
      using run unfolding retry_record_attempt_def by (auto simp: rbind_Inr_iff)
    have "rs_tasks s1 = rs_tasks s" using guard_write_obeys(3) st(1) by (force simp: obeys_def same_tasks_def)
    then have "n \<le> t_attempts task'" "1 \<le> n" "n \<le> t_max_attempts task"
      using record_attempt_reaches [OF current_stored(4) [OF cur] current_stored(1) [OF cur], of "re_fence (ro_base env)" n st task']
        st current_stored(1) [OF t'(1)] t'(4) by auto
    with Q [OF q t'(1,4,2,3)] Inr show ?thesis by simp
  qed
qed

lemma guard_write_wp:
  "wp (guard_write env)
     (\<lambda>_ s'. rs_tasks s' = rs_tasks s \<and> rs_artifacts s' = rs_artifacts s \<and> rs_step s' = rs_step s)
     (\<lambda>e s'. rs_tasks s' = rs_tasks s \<and> rs_artifacts s' = rs_artifacts s \<and> rs_step s' = rs_step s \<and> e = CollaboratorError) s"
  by (simp add: guard_write_def before_write_def split: option.split)

lemma event_ids:
  assumes "repo_inv st" and "mysql_list_events st i = Inr es" and "e \<in> set es"
  shows "ev_event_id e \<in> er_event_id ` set (ts_events st)"
proof -
  have "es = log_of st i" using assms(2) list_events_total [OF assms(1)] by (auto split: option.splits)
  then obtain r where r: "r \<in> set (ts_events st)" "er_payload r = e"
    using assms(3) by (auto simp: log_of_def events_of_def)
  then have "er_event_id r = ev_event_id e" using assms(1) by (auto simp: repo_inv_def event_row_ok_def)
  with r(1) show ?thesis by (metis imageI)
qed

lemma append_fresh_ids:
  assumes "repo_inv st" and "mysql_append_event fence st e = Inr st'"
  shows "er_event_id ` set (ts_events st') \<subseteq> insert (ev_event_id e) (er_event_id ` set (ts_events st))"
  using assms(1) mysql_append_eventD [OF assms(2)]
  by (cases rule: append_event_cases) (auto simp: advanced_store_def)

text \<open>A transition appends exactly one event, unless it raises: then nothing has changed.\<close>

lemma transition_wp:
  assumes cur: "current env s task es"
    and Q: "\<And>s' u e. current env s' (task\<lparr>t_status := to, t_updated_at := u\<rparr>) (es @ [e]) \<Longrightarrow>
      rs_artifacts s' = rs_artifacts s \<Longrightarrow> ev_from_status e = t_status task \<Longrightarrow> ev_to_status e = to \<Longrightarrow>
      ev_artifact_ids e = arts \<Longrightarrow> ev_attempt e = k \<Longrightarrow> legal_step (t_status task) to \<Longrightarrow>
      Q (task\<lparr>t_status := to, t_updated_at := u\<rparr>, ev_event_id e) s'"
    and E: "\<And>e s'. quiet (re_hash (ro_base env)) s s' \<Longrightarrow> sane env s' \<Longrightarrow>
      e \<in> range RepositoryError \<union> range StateMachineError \<union> {CollaboratorError} \<Longrightarrow> E e s'"
  shows "wp (retry_transition env task to reason srev k arts) Q E s"
proof -
  let ?env = "ro_base env" and ?H = "re_hash (ro_base env)" and ?n = "rs_step s"
  have st: "at_stage s task es" and ids: "fresh_ids ?env s" and inv: "repo_inv (rs_tasks s)"
    and arts: "store_inv ?H (rs_artifacts s)"
    using cur by (auto simp: current_def sane_def)
  have err: "E x s'"
    if "rs_tasks s' = rs_tasks s" "rs_artifacts s' = rs_artifacts s" "rs_step s' = Suc ?n"
      "x \<in> range RepositoryError \<union> range StateMachineError \<union> {CollaboratorError}" for x s'
  proof -
    have q: "quiet ?H s s'" using that by (intro quiet_intro) simp_all
    show ?thesis by (rule E [OF q quiet_sane [OF current_stored(3) [OF cur] q] that(4)])
  qed
  have app: "case mysql_get store (t_id task) of
        Inl x \<Rightarrow> E (RepositoryError x) (s'\<lparr>rs_tasks := store\<rparr>)
      | Inr task' \<Rightarrow> Q (task', re_event_ids ?env ?n) (s'\<lparr>rs_tasks := store\<rparr>)"
    if same: "rs_tasks s' = rs_tasks s" "rs_artifacts s' = rs_artifacts s" "rs_step s' = Suc ?n"
      and ev: "build_event task to (re_event_ids ?env ?n) reason srev arts k now = Inr e"
      and ap: "mysql_append_event (re_fence ?env) (rs_tasks s) e = Inr store" for s' now e store
  proof -
    have eid: "ev_event_id e = re_event_ids ?env ?n" "ev_attempt e = k" "legal_step (t_status task) to"
      using ev by (auto simp: build_event_Inr_iff)
    have "re_event_ids ?env ?n \<notin> er_event_id ` set (ts_events (rs_tasks s))" using ids by (auto simp: fresh_ids_def)
    then have "e \<notin> set es" using event_ids [OF inv, of "t_id task" es e] st eid(1) by (auto simp: at_stage_def)
    note A = append_advances [OF st ev this ap]
    let ?t = "task\<lparr>t_status := to, t_updated_at := ev_occurred_at e\<rparr>" and ?s = "s'\<lparr>rs_tasks := store\<rparr>"
    have at: "at_stage ?s ?t (es @ [e])" using A(1) by (simp add: at_stage_def)
    have "re_event_ids ?env m \<notin> er_event_id ` set (ts_events store)" if "Suc ?n \<le> m" for m
      using that ids append_fresh_ids [OF inv ap] eid(1) unfolding fresh_ids_def by (metis Suc_n_not_le_n insertE le_SucI le_refl nat_le_linear subsetD le_trans)
    then have "fresh_ids ?env ?s" using ids same(3) by (simp add: fresh_ids_def)
    then have "current env ?s ?t (es @ [e])" using at arts same(2) by (simp add: current_def sane_def at_stage_def)
    then have "Q (?t, ev_event_id e) ?s" using A(3-5) eid(2,3) same(2) by (intro Q) simp_all
    then show ?thesis using at eid(1) by (simp add: at_stage_def)
  qed
  have rest: "wp (rbind (rlift StateMachineError (build_event task to (re_event_ids ?env ?n) reason srev arts k now)) (\<lambda>event.
       rbind (guard_write ?env) (\<lambda>_. rbind (rread rs_tasks) (\<lambda>store.
       rbind (rlift RepositoryError (mysql_append_event (re_fence ?env) store event)) (\<lambda>store'.
       rbind (rupdate (rs_tasks_update (\<lambda>_. store'))) (\<lambda>_.
       rbind (rlift RepositoryError (mysql_get store' (t_id task))) (\<lambda>task'. rreturn (task', re_event_ids ?env ?n)))))))) Q E s1"
    if same: "rs_tasks s1 = rs_tasks s" "rs_artifacts s1 = rs_artifacts s" "rs_step s1 = Suc ?n" for s1 now
  proof (cases "build_event task to (re_event_ids ?env ?n) reason srev arts k now")
    case (Inr e)
    show ?thesis
      unfolding Inr wp_bind wp_pure sum.case
    proof (rule wp_conseq [OF guard_write_wp], goal_cases)
      case (1 a s2)
      then show ?case
        using same err [of s2] app [of s2, OF _ _ _ Inr] by (auto split: sum.split simp del: mysql_reads)
    next
      case (2 x s2)
      then show ?case using same err [of s2] by simp
    qed
  qed (use err [of s1] same in simp)
  show ?thesis
    unfolding retry_transition_def transition_def Let_def wp_bind wp_step
  proof (rule wp_conseq [OF guard_write_wp], goal_cases)
    case (1 a s1)
    then show ?case
      using rest [of s1, unfolded wp_bind] err [of s1] by (cases "re_gate ?env") simp_all
  next
    case (2 x s1)
    then show ?case using err [of s1] by simp
  qed
qed

end
