(* ===== verification/Retry_Accounting.thy ===== *)
theory Retry_Accounting
  imports Retry_Logic
begin

section \<open>Retries within the budget\<close>

text \<open>
  What the parts of the retrying orchestrator leave behind, and that its attempt loop ends: every
  retry raises the attempt, and no attempt exceeds \<open>MAX_EXECUTION_ATTEMPTS\<close>.
\<close>

definition stops_sane :: "retry_env \<Rightarrow> runner_error \<Rightarrow> run_state \<Rightarrow> bool" where
  "stops_sane env e s \<longleftrightarrow> sane env s \<and> e \<noteq> OutOfFuel"

lemma calm_sane:
  "calm (re_hash (ro_base env)) m \<Longrightarrow> sane env s \<Longrightarrow>
   wp m (\<lambda>_ s'. quiet (re_hash (ro_base env)) s s' \<and> sane env s') (stops_sane env) s"
  by (rule wp_conseq [OF calm_wp]) (auto simp: stops_sane_def intro: quiet_sane)

subsection \<open>Stopping\<close>

text \<open>
  A blocked result: the Task of the result is the stored one, it is terminal, and the events of the
  result are \<open>ids\<close> and those that were appended to the log \<open>es\<close>.
\<close>

definition stopped_at :: "retry_env \<Rightarrow> string \<Rightarrow> StateEvent list \<Rightarrow> string list \<Rightarrow> BlockedResult \<Rightarrow> run_state \<Rightarrow> bool" where
  "stopped_at env i es ids b s \<longleftrightarrow>
     (\<exists>es'. current env s (bl_task b) (es @ es') \<and> t_id (bl_task b) = i \<and>
        t_status (bl_task b) \<in> {TS_BLOCKED, TS_FAILED} \<and> bl_event_ids b = ids @ map ev_event_id es')"

lemma reads_only:
  "wp (retained_candidate env task) (\<lambda>_ s'. s' = s) (\<lambda>e s'. s' = s \<and> e \<noteq> OutOfFuel) s"
  "wp (wait_for_engineering env task c r src arts) (\<lambda>_ s'. s' = s) (\<lambda>e s'. s' = s \<and> e \<noteq> OutOfFuel) s"
  "wp (validate_implementation task a)
     (\<lambda>sha s'. s' = s \<and> (\<exists>c. art_content a = ImplementationReportArtifact c \<and> ic_commit_sha c = sha))
     (\<lambda>e s'. s' = s \<and> e \<noteq> OutOfFuel) s"
  "wp (retry_validate_plan task a) (\<lambda>_ s'. s' = s \<and> (\<exists>c. art_content a = PlanArtifact c)) (\<lambda>e s'. s' = s \<and> e \<noteq> OutOfFuel) s"
  by (simp_all add: retained_candidate_def baseline_input_def artifacts_for_task_def latest_artifact_def
      validate_implementation_def wait_for_engineering_def retry_validate_plan_def require_plan_def
      require_implementation_def validate_criteria_def split: option.split sum.split ArtifactContent.split)

lemma stop_event_wp:
  assumes "current env s task es"
  shows "wp (stop_event env task c r k arts src)
     (\<lambda>ids s'. \<exists>task' es'. current env s' task' (es @ es') \<and> t_id task' = t_id task \<and>
        t_status task' \<in> {TS_BLOCKED, TS_FAILED} \<and> ids = map ev_event_id es')
     (stops_sane env) s"
    (is "wp _ ?Q _ s")
proof (cases "t_status task \<in> {TS_BLOCKED, TS_FAILED}")
  case True
  have "?Q [] s" using True assms by (intro exI [of _ task] exI [of _ "[]"]) simp
  with True show ?thesis by (simp add: stop_event_def)
next
  case False
  have appended: "?Q [ev_event_id e] s'"
    if "current env s' (task\<lparr>t_status := TS_BLOCKED, t_updated_at := u\<rparr>) (es @ [e])" for s' u e
    using that by (intro exI [of _ "task\<lparr>t_status := TS_BLOCKED, t_updated_at := u\<rparr>"] exI [of _ "[e]"]) simp
  show ?thesis
    using False appended by (auto simp: stop_event_def stops_sane_def intro!: transition_wp [OF assms])
qed

lemma blocked_wp:
  assumes "current env s task es"
  shows "wp (blocked env task c r k ids arts src) (stopped_at env (t_id task) es ids) (stops_sane env) s"
  unfolding blocked_def
proof (simp only: wp_bind, rule wp_conseq [OF reads_only(1)], goal_cases)
  case (1 a s1)
  then have s1: "s1 = s" by simp
  have "wp (if may_wait task c then wait_for_engineering env task c r (or_else src (t_base_ref task)) arts else rreturn ())
      (\<lambda>_ s'. s' = s) (\<lambda>e s'. s' = s \<and> e \<noteq> OutOfFuel) s"
    using reads_only(2) by simp
  then show ?case
    unfolding s1 wp_bind
  proof (rule wp_conseq, goal_cases)
    case (1 u s2)
    then have s2: "s2 = s" by simp
    show ?case
      unfolding s2 wp_bind
    proof (rule wp_conseq [OF stop_event_wp [OF assms]], goal_cases)
      case (1 ids' s3)
      then obtain task' es' where t': "current env s3 task' (es @ es')" "t_id task' = t_id task"
          "t_status task' \<in> {TS_BLOCKED, TS_FAILED}" "ids' = map ev_event_id es'" by blast
      then show ?case
        using get_wp(1) [OF t'(1)] by (auto simp: stopped_at_def Let_def stops_sane_def current_stored(3))
    qed
  qed (use current_stored(3) [OF assms] in \<open>simp add: stops_sane_def\<close>)
qed (use current_stored(3) [OF assms] in \<open>simp add: stops_sane_def\<close>)

lemma fail_platform_wp:
  assumes "current env s task es"
  shows "wp (fail_platform env task k src) (\<lambda>_. sane env) (stops_sane env) s"
proof -
  have reads: "wp (rbind (artifacts_for_task env (t_id task)) (\<lambda>artifacts.
      wait_for_engineering env task RC_PLATFORM_BUG BR_PLATFORM src (map art_artifact_id artifacts)))
      (\<lambda>_. sane env) (stops_sane env) s"
    using current_stored(3) [OF assms]
    by (auto simp: artifacts_for_task_def wait_for_engineering_def stops_sane_def split: sum.split option.split)
  show ?thesis
    unfolding fail_platform_def
    using current_stored(3) [OF assms] reads
    by (auto intro!: transition_wp [OF assms] simp: stops_sane_def current_stored(3))
qed

subsection \<open>Accounting\<close>

lemma calm_record_transient: "calm H (record_transient env task role code run_id)"
proof -
  have core: "calm H (rbind (rread rs_tasks) (\<lambda>store.
      rbind (rlift RepositoryError (mysql_record_retry_failure fence store i f)) (\<lambda>store'.
      rbind (rupdate (rs_tasks_update (\<lambda>_. store'))) (\<lambda>_. rbind (get_task i) (\<lambda>updated. rreturn (g updated))))))" for fence i f g
    using record_retry_failure_quiet
    by (intro calmI) (auto simp: quiet_def artifacts_grow_def get_task_def quietly.refl split: sum.split)
  show ?thesis unfolding record_transient_def by (intro calm_branch calm_bind calm_pure calm_controls core) simp_all
qed

lemma record_transient_wp:
  "wp (record_transient env task role code run_id)
     (\<lambda>n s'. quiet H s s' \<and> (\<forall>k. n = Some k \<longrightarrow> t_attempts task < k)) (\<lambda>e s'. quiet H s s' \<and> e \<noteq> OutOfFuel) s"
proof -
  have "wp (record_transient env task role code run_id) (\<lambda>n s'. \<forall>k. n = Some k \<longrightarrow> t_attempts task < k) (\<lambda>e s'. True) s"
    by (auto simp: wp_exec record_transient_def rbind_Inr_iff split: sum.split if_splits)
  from wp_conj [OF calm_wp [OF calm_record_transient] this] show ?thesis by (rule wp_conseq) auto
qed

lemma calm_reserve: "calm H (reserve env i control)"
  unfolding reserve_def split_beta
  by (intro calm_rules) (simp_all add: quiet_def artifacts_grow_def reservations_quiet)

text \<open>
  The interruption control answers a failed run with a later attempt than the one that failed:
  \<^verbatim>\<open>NativeCoderContinuation\<close> reserves \<^verbatim>\<open>receipt.request.attempt + 1\<close> after checking that the result has
  the attempt of the receipt. The invocation journal replays a request under its own attempt, and a
  recorded result that is refused is the result of that request.
\<close>

definition interruption_ok :: "retry_env \<Rightarrow> bool" where
  "interruption_ok env \<longleftrightarrow>
     (\<forall>ic n t r st rs k. ro_interruption env = Some ic \<and> ic_next_attempt ic n t r st = (rs, Inr (Some k)) \<longrightarrow>
        ag_attempt r < k)"

definition journal_ok :: "runner_env \<Rightarrow> bool" where
  "journal_ok env \<longleftrightarrow>
     (\<forall>iv rq rq'. re_invocation env = Some iv \<and> iv_prepare iv rq = Some rq' \<longrightarrow> rq_attempt rq' = rq_attempt rq) \<and>
     (\<forall>iv rq r. re_invocation env = Some iv \<and> iv_result iv rq = Inl r \<longrightarrow> ag_attempt r = rq_attempt rq)"

lemma retry_failure_wp:
  assumes cur: "current env s t es" and ok: "interruption_ok env" and id: "t_id t = t_id task"
  shows "wp (retry_failure env task r)
     (\<lambda>n s'. quiet H s s' \<and> (\<forall>k. n = Some k \<longrightarrow> ag_attempt r < k \<or> t_attempts t < k))
     (\<lambda>e s'. quiet H s s' \<and> e \<noteq> OutOfFuel) s"
    (is "wp _ ?Q ?E s")
proof -
  have reserved: "wp (rbind (guard_write (ro_base env)) (\<lambda>_.
      reserve env (t_id t) (\<lambda>n store. ic_next_attempt control n t r store))) ?Q ?E s"
    if c: "ro_interruption env = Some control" for control
  proof -
    have "wp (rbind (guard_write (ro_base env)) (\<lambda>_. reserve env (t_id t) (\<lambda>n store. ic_next_attempt control n t r store)))
        (\<lambda>n s'. \<forall>k. n = Some k \<longrightarrow> ag_attempt r < k) (\<lambda>e s'. True) s"
      using ok c by (auto simp: wp_exec reserve_def rbind_Inr_iff interruption_ok_def split_beta split: sum.split) (metis prod.collapse)
    from wp_conj [OF calm_wp [OF calm_bind [OF calm_controls(2) calm_reserve]] this]
    show ?thesis by (rule wp_conseq) auto
  qed
  show ?thesis
    unfolding retry_failure_def wp_bind id [symmetric] get_wp(1) [OF cur]
    using reserved
    by (auto simp: quietly.refl split: option.split intro!: wp_conseq [OF record_transient_wp])
qed

text \<open>A failed run carries the attempt it was started with.\<close>

definition raises_only :: "(runner_error \<Rightarrow> bool) \<Rightarrow> 'a runner \<Rightarrow> bool" where
  "raises_only P m \<longleftrightarrow> (\<forall>s e s'. m s = (Inl e, s') \<longrightarrow> P e)"

lemma raises_bind:
  "raises_only P m \<Longrightarrow> (\<And>a s s'. m s = (Inr a, s') \<Longrightarrow> raises_only P (f a)) \<Longrightarrow> raises_only P (rbind m f)"
  by (auto simp: raises_only_def rbind_Inl_iff) blast

lemma raises_pure:
  "raises_only P (rreturn a)" "(\<And>x. r = Inl x \<Longrightarrow> P (wrap x)) \<Longrightarrow> raises_only P (rlift wrap r)"
  "(\<not> ok \<Longrightarrow> P e) \<Longrightarrow> raises_only P (rguard ok e)" "(x = None \<Longrightarrow> P e) \<Longrightarrow> raises_only P (rsome x e)"
  "raises_only P (rread g)" "raises_only P (rupdate h)" "raises_only P next_step"
  by (auto simp: raises_only_def)

lemma raises_choice:
  "(x = None \<Longrightarrow> raises_only P m) \<Longrightarrow> (\<And>a. x = Some a \<Longrightarrow> raises_only P (f a)) \<Longrightarrow>
   raises_only P (case x of None \<Rightarrow> m | Some a \<Rightarrow> f a)"
  by (cases x) auto

lemma raises_branch: "raises_only P m \<Longrightarrow> raises_only P n \<Longrightarrow> raises_only P (if c then m else n)"
  by simp

lemmas raises_rules = raises_bind raises_pure raises_choice raises_branch

definition failed_at :: "int \<Rightarrow> runner_error \<Rightarrow> bool" where
  "failed_at k e \<longleftrightarrow> (\<forall>r. e = AgentRunFailed r \<longrightarrow> ag_attempt r = k)"

lemma failed_at_raised [simp]: "failed_at k (raised x)"
  by (cases x) (simp_all add: failed_at_def)

lemma failed_at_simps [simp]:
  "failed_at k (AgentRunFailed r) \<longleftrightarrow> ag_attempt r = k"
  "failed_at k RunnerValueError" "failed_at k RunnerKeyError" "failed_at k RunnerStopIteration" "failed_at k CollaboratorError"
  "failed_at k DeliveryContractViolation" "failed_at k ServicePauseRequested" "failed_at k (RoleRunPending b)"
  "failed_at k (RepositoryError re)" "failed_at k (ArtifactFailure ae)" "failed_at k (OrderingFailure oe)"
  "failed_at k (SliceFailure se)" "failed_at k (StateMachineError me)"
  by (simp_all add: failed_at_def)

lemma raises_controls:
  "raises_only (failed_at k) (guard_write env)" "raises_only (failed_at k) (before_run c task role n src)"
  "raises_only (failed_at k) (current_coder_input env task)"
proof -
  have w: "raises_only (failed_at k) (before_write c)" for c
    unfolding before_write_def by (intro raises_rules) simp_all
  show "raises_only (failed_at k) (guard_write env)" unfolding guard_write_def by (intro raises_rules w)
  show "raises_only (failed_at k) (before_run c task role n src)"
    unfolding before_run_def run_boundary_def Let_def by (intro raises_rules w) simp_all
  show "raises_only (failed_at k) (current_coder_input env task)"
    unfolding current_coder_input_def by (intro raises_rules) simp_all
qed

lemma make_request_raises: "raises_only (failed_at k) (make_request env n task d role j c inputs parents sp bk src)"
  unfolding make_request_def work_slice_for_def Let_def split_beta by (intro raises_rules) simp_all

lemma make_request_attempt:
  "make_request env n task d role k c inputs parents sp bk src s = (Inr rq, s') \<Longrightarrow> rq_attempt rq = k"
  by (auto simp: make_request_def rbind_Inr_iff Let_def)

lemma accept_result_attempt: "accept_result env role rq rp r s = (Inr acc, s') \<Longrightarrow> ag_attempt acc = rq_attempt rq"
  using accept_result_Inr(1) [of env role rq rp r s acc s']
  by (auto simp: accept_result_def rbind_Inr_iff validate_result_identity_def)

lemma validate_current_output_attempt: "validate_current_output r = Some r' \<Longrightarrow> ag_attempt r' = ag_attempt r"
  by (auto simp: validate_current_output_def rejected_result_def
      split: AgentRunStatus.splits option.splits if_splits ArtifactContent.splits)

lemma accept_result_raises: "raises_only (failed_at (rq_attempt rq)) (accept_result env role rq rp r)"
  unfolding accept_result_def Let_def
  by (cases rp; cases "journal env role"; simp; intro raises_rules raises_controls;
      auto simp: validate_result_identity_def dest!: validate_current_output_attempt split: option.splits)

lemma request_agent_raises:
  assumes "journal_ok env"
  shows "raises_only (failed_at k) (request_agent env n task role k cand inputs parents sp bk src)"
proof -
  have rest: "raises_only (failed_at k) (rbind (rread rs_seen_run_ids) (\<lambda>seen.
     rbind (rguard (rq_run_id rq \<notin> set seen) DeliveryContractViolation) (\<lambda>_.
     rbind (rupdate (rs_seen_run_ids_update (\<lambda>ids. rq_run_id rq # ids))) (\<lambda>_.
     rbind (replayed_result env role rq) (\<lambda>replayed.
     rbind (invoke env n rq replayed) (\<lambda>result.
     rbind (accept_result env role rq replayed result) (\<lambda>accepted.
     rbind (rsome (ag_artifact accepted) (AgentRunFailed accepted)) (\<lambda>a.
     rbind (check_slice (rq_work_slice rq) a) (\<lambda>_.
     rbind (rguard (art_parent_artifact_ids a = parents) (AgentRunFailed (rejected_result accepted ''parent lineage''))) (\<lambda>_.
     rbind (required_supersedes (art_kind a) sp bk) (\<lambda>required.
     rbind (rguard (art_supersedes a = required) (AgentRunFailed (rejected_result accepted ''supersedes lineage''))) (\<lambda>_.
     rreturn (rq, a)))))))))))))" if k: "rq_attempt rq = k" for rq
    unfolding replayed_result_def invoke_def check_slice_def required_supersedes_def k [symmetric]
    by (intro raises_rules accept_result_raises)
      (use assms accept_result_attempt in \<open>auto simp: rejected_result_def journal_def journal_ok_def split: if_splits\<close>)
  have attempt: "rq_attempt rq = k"
    if "make_request env n task d role k cand inputs parents sp bk src s1 = (Inr rq0, s2)"
      "(case journal env role of None \<Rightarrow> rreturn rq0 | Some iv \<Rightarrow> rsome (iv_prepare iv rq0) CollaboratorError) s3 = (Inr rq, s4)"
    for d s1 rq0 s2 s3 rq s4
    using make_request_attempt [OF that(1)] that(2) assms
    by (auto simp: journal_def journal_ok_def split: option.splits if_splits)
  show ?thesis
    unfolding request_agent_def
    by (rule raises_bind [OF raises_pure(4)], simp, rule raises_bind [OF make_request_raises],
        rule raises_bind [OF raises_choice [OF raises_pure(1) raises_pure(4)]], simp, erule (1) rest [OF attempt])
qed

lemma run_agent_raises:
  assumes "journal_ok env"
  shows "raises_only (failed_at k) (run_agent env task role k cand inputs parents sp bk)"
  unfolding run_agent_def invoke_agent_def publish_def check_slice_def Let_def split_beta
  by (intro raises_rules raises_controls request_agent_raises [OF assms]) simp_all

lemma run_agent_wp:
  assumes "journal_ok (ro_base env)"
  shows "wp (run_agent (ro_base env) task role k cand inputs parents sp bk) (\<lambda>run. quiet (re_hash (ro_base env)) s)
     (\<lambda>e s'. quiet (re_hash (ro_base env)) s s' \<and> e \<noteq> OutOfFuel \<and> failed_at k e) s"
proof -
  have "wp (run_agent (ro_base env) task role k cand inputs parents sp bk) (\<lambda>_ _. True) (\<lambda>e _. failed_at k e) s"
    using run_agent_raises [OF assms] by (auto simp: wp_exec raises_only_def split: sum.split)
  from wp_conj [OF calm_wp [OF calm_run_agent] this] show ?thesis by (rule wp_conseq) auto
qed

lemma wait_for_knowledge_wp:
  "wp (wait_for_knowledge env t role failure) (\<lambda>_ s'. s' = s) (\<lambda>e s'. s' = s \<and> e \<noteq> OutOfFuel) s"
  by (auto simp: wait_for_knowledge_def wait_for_engineering_def split: structured_kind.split option.split)

lemma knowledge_failure_wp:
  assumes cur: "current env s t es" and id: "t_id t = t_id task"
  shows "wp (knowledge_failure env task failure)
     (\<lambda>x s'. case x of
         Inl k \<Rightarrow> quiet (re_hash (ro_base env)) s s' \<and> t_attempts t < k
       | Inr b \<Rightarrow> stopped_at env (t_id task) es [] b s')
     (stops_sane env) s"
    (is "wp _ ?Q ?E s")
proof -
  let ?H = "re_hash (ro_base env)"
  have sane: "stops_sane env e s'" if "quiet ?H s s'" "e \<noteq> OutOfFuel" for e s'
    using that quiet_sane [OF current_stored(3) [OF cur]] by (simp add: stops_sane_def)
  have stop: "wp (rbind (get_events (t_id task)) (\<lambda>events. rbind (get_task (t_id task)) (\<lambda>stored.
      rbind (artifacts_for_task env (t_id task)) (\<lambda>artifacts.
      rbind (blocked env stored c r k [] (ids artifacts) (src events)) (\<lambda>b. rreturn (Inr b)))))) ?Q ?E s1"
    if q: "quiet ?H s s1" for s1 c r k ids src
  proof -
    obtain t1 where t1: "current env s1 t1 es" "t_id t1 = t_id t" using quiet_current [OF cur q] by blast
    have "wp (blocked env t1 c r k [] as src1) (stopped_at env (t_id task) es []) ?E s1" for as src1
      using blocked_wp [OF t1(1)] t1(2) id by simp
    then show ?thesis
      using t1 sane [OF q] id get_wp [OF t1(1)] by (auto simp: artifacts_for_task_def split: sum.split)
  qed
  have go: "wp (rbind (if model_error_retryable failure then record_transient env t role (sf_code failure) None else rreturn None)
      (\<lambda>n. case n of Some k \<Rightarrow> rreturn (Inl k) | None \<Rightarrow> rest)) ?Q ?E s"
    if "\<And>s1. quiet ?H s s1 \<Longrightarrow> wp rest ?Q ?E s1" for role rest
    using that quietly.refl sane
    by (auto intro!: wp_conseq [OF record_transient_wp] split: option.split)
  have get: "wp (get_task (t_id task)) Q E s = Q t s" for Q E using get_wp(1) [OF cur] id by simp
  have fail: "?E e s" if "e \<noteq> OutOfFuel" for e using sane [OF quietly.refl that] .
  show ?thesis
  proof (cases "sf_code failure = AE_SERVICE_PAUSED \<or> delivery_role_status (t_status t) = None")
    case True
    then show ?thesis using fail by (auto simp: knowledge_failure_def get)
  next
    case False
    then obtain role where role: "delivery_role_status (t_status t) = Some role" by auto
    have paused: "sf_code failure \<noteq> AE_SERVICE_PAUSED" using False by simp
    show ?thesis
      unfolding knowledge_failure_def if_not_P [OF paused] wp_bind [of "get_task _"] get
        wp_bind [of "rsome _ _"] role wp_pure option.case wp_bind [of "wait_for_knowledge _ _ _ _"]
    proof (rule wp_conseq [OF wait_for_knowledge_wp], goal_cases)
      case (1 a s')
      show ?case unfolding 1 by (rule go, rule stop)
    next
      case (2 e s')
      then show ?case using fail by simp
    qed
  qed
qed

subsection \<open>The attempt loop\<close>

abbreviation retry_hash :: "retry_env \<Rightarrow> artifact_hash" where
  "retry_hash env \<equiv> re_hash (ro_base env)"

definition fails_quietly :: "retry_env \<Rightarrow> run_state \<Rightarrow> int \<Rightarrow> runner_error \<Rightarrow> run_state \<Rightarrow> bool" where
  "fails_quietly env s k e s' \<longleftrightarrow> quiet (retry_hash env) s s' \<and> e \<noteq> OutOfFuel \<and> failed_at k e"

text \<open>
  One failed run: either the loop goes on with a later attempt from a state that differs quietly, or
  it stops.
\<close>

lemma run_handler_wp:
  assumes cur: "current env s t es" and id: "t_id t = t_id task" and ok: "interruption_ok env" and k: "k \<le> t_attempts t"
    and e: "e \<noteq> OutOfFuel" "failed_at k e"
    and stopped: "\<And>r s' t'. current env s' t' es \<Longrightarrow> t_id t' = t_id task \<Longrightarrow>
      wp (stopped k r) (stopped_at env (t_id task) es []) (stops_sane env) s'"
    and again: "\<And>k' s'. k < k' \<Longrightarrow> quiet (retry_hash env) s s' \<Longrightarrow> wp (again k') Q (stops_sane env) s'"
    and stop: "\<And>b s'. stopped_at env (t_id task) es [] b s' \<Longrightarrow> Q (Inr b) s'"
  shows "case run_handler env task source stopped k again e of
      None \<Rightarrow> stops_sane env e s | Some h \<Rightarrow> wp h Q (stops_sane env) s"
proof -
  let ?E = "stops_sane env" and ?H = "retry_hash env"
  have sane: "stops_sane env x s'" if "quiet ?H s s'" "x \<noteq> OutOfFuel" for x s'
    using that quiet_sane [OF current_stored(3) [OF cur]] by (simp add: stops_sane_def)
  have failed: "wp (rbind (retry_failure env task r) (\<lambda>next_attempt. case next_attempt of
      Some k \<Rightarrow> again k | None \<Rightarrow> rbind (stopped k r) (\<lambda>b. rreturn (Inr b)))) Q ?E s"
    if r: "ag_attempt r = k" for r
  proof -
    have "wp (stopped k r) (\<lambda>b. Q (Inr b)) ?E s'" if q: "quiet ?H s s'" for s'
    proof -
      obtain t' where t': "current env s' t' es" "t_id t' = t_id t" using quiet_current [OF cur q] by blast
      have "wp (stopped k r) (stopped_at env (t_id task) es []) ?E s'" using stopped [OF t'(1)] t'(2) id by simp
      then show ?thesis by (rule wp_conseq) (simp_all add: stop)
    qed
    note stops = this
    show ?thesis
      unfolding wp_bind
    proof (rule wp_conseq [OF retry_failure_wp [OF cur ok id, where H = ?H]], goal_cases)
      case (1 n s')
      then show ?case using again [of _ s'] stops [of s'] k r by (cases n) force+
    next
      case (2 e s')
      then show ?case using sane by simp
    qed
  qed
  have knowledge: "wp (rbind (knowledge_failure env task f) (\<lambda>outcome. case outcome of
      Inl k \<Rightarrow> again k | Inr b \<Rightarrow> rreturn (Inr b))) Q ?E s" for f
    using k again stop by (auto intro!: wp_conseq [OF knowledge_failure_wp [OF cur id]] split: sum.splits)
  have violation: "wp (rbind (get_task (t_id task)) (\<lambda>current.
      rbind (fail_platform env current k revision) (\<lambda>_. rraise DeliveryContractViolation))) Q ?E s" for revision
    using get_wp(1) [OF cur] id
    by (auto intro!: wp_conseq [OF fail_platform_wp [OF cur]] simp: stops_sane_def)
  show ?thesis
    using e sane [OF quietly.refl] failed knowledge violation
    by (cases e) (auto simp: run_handler_def simp del: wp_bind split: option.split)
qed

lemma attempt_loop_wp:
  assumes ok: "interruption_ok env"
    and body: "\<And>k s t. quiet (retry_hash env) s0 s \<Longrightarrow> current env s t es \<Longrightarrow> t_id t = t_id task \<Longrightarrow> k \<le> t_attempts t \<Longrightarrow>
      wp (body k) Q (fails_quietly env s k) s"
    and stopped: "\<And>k r s t. current env s t es \<Longrightarrow> t_id t = t_id task \<Longrightarrow>
      wp (stopped k r) (stopped_at env (t_id task) es []) (stops_sane env) s"
  shows "quiet (retry_hash env) s0 s \<Longrightarrow> current env s t es \<Longrightarrow> t_id t = t_id task \<Longrightarrow> 0 < fuel \<Longrightarrow>
    (1 \<le> k \<Longrightarrow> MAX_EXECUTION_ATTEMPTS + 1 < k + int fuel) \<Longrightarrow>
    wp (attempt_loop fuel env task source body stopped k)
      (\<lambda>x. case x of Inl a \<Rightarrow> Q a | Inr b \<Rightarrow> stopped_at env (t_id task) es [] b) (stops_sane env) s"
proof (induction fuel arbitrary: k s t)
  case (Suc fuel)
  let ?H = "retry_hash env" and ?Q = "\<lambda>x. case x of Inl a \<Rightarrow> Q a | Inr b \<Rightarrow> stopped_at env (t_id task) es [] b"
  have run: "wp (rcatch (rbind (body k) (\<lambda>a. rreturn (Inl a)))
      (run_handler env task source stopped k (attempt_loop fuel env task source body stopped))) ?Q (stops_sane env) s1"
    if s1: "quiet ?H s s1" "current env s1 t1 es" "t_id t1 = t_id task" "k \<le> t_attempts t1" "1 \<le> k" "k \<le> t_max_attempts t"
    for s1 t1
  proof -
    have max: "k \<le> MAX_EXECUTION_ATTEMPTS"
      using current_valid [OF Suc.prems(2)] s1(6) by (auto simp: valid_Task_def valid_ExecutionAttempt_def in_range_def)
    have again: "wp (attempt_loop fuel env task source body stopped k') ?Q (stops_sane env) s3"
      if "k < k'" "quiet ?H s1 s2" "quiet ?H s2 s3" for k' s2 s3
    proof -
      have "quiet ?H s1 s3" using that quietly.trans by blast
      then obtain t3 where "current env s3 t3 es" "t_id t3 = t_id t1" using quiet_current [OF s1(2)] by blast
      with Suc.IH [of s3 t3 k'] that quietly.trans [OF quietly.trans [OF Suc.prems(1) s1(1)] \<open>quiet ?H s1 s3\<close>] s1 max Suc.prems(5)
      show ?thesis by simp
    qed
    have handled: "case run_handler env task source stopped k (attempt_loop fuel env task source body stopped) e of
        None \<Rightarrow> stops_sane env e s2 | Some h \<Rightarrow> wp h ?Q (stops_sane env) s2"
      if e: "fails_quietly env s1 k e s2" for e s2
    proof -
      have q: "quiet ?H s1 s2" using e by (simp add: fails_quietly_def)
      obtain t2 where t2: "current env s2 t2 es" "t_id t2 = t_id t1" "t_attempts t1 \<le> t_attempts t2"
        using quiet_current [OF s1(2) q] by blast
      show ?thesis
        using e s1 t2 stopped again [OF _ q]
        by (intro run_handler_wp [OF t2(1) _ ok]) (auto simp: fails_quietly_def)
    qed
    show ?thesis
      using wp_conseq [OF body [OF quietly.trans [OF Suc.prems(1) s1(1)] s1(2,3,4)]] handled by simp
  qed
  show ?case
    unfolding attempt_loop.simps(2) wp_bind Suc.prems(3) [symmetric]
    by (rule record_attempt_wp [OF Suc.prems(2)])
      (use run Suc.prems in \<open>auto simp: stops_sane_def simp del: wp_catch wp_bind\<close>)
qed simp

lemma attempt_loop_ends:
  assumes "interruption_ok env" and "current env s t es" and "t_id t = t_id task"
    and "\<And>k s' t'. quiet (retry_hash env) s s' \<Longrightarrow> current env s' t' es \<Longrightarrow> t_id t' = t_id task \<Longrightarrow> k \<le> t_attempts t' \<Longrightarrow>
      wp (body k) Q (fails_quietly env s' k) s'"
    and "\<And>k r s t. current env s t es \<Longrightarrow> t_id t = t_id task \<Longrightarrow>
      wp (stopped k r) (stopped_at env (t_id task) es []) (stops_sane env) s"
  shows "wp (attempt_loop attempt_fuel env task source body stopped k)
      (\<lambda>x. case x of Inl a \<Rightarrow> Q a | Inr b \<Rightarrow> stopped_at env (t_id task) es [] b) (stops_sane env) s"
  by (rule attempt_loop_wp [OF assms(1)], erule (3) assms(4), erule (1) assms(5), rule quietly.refl,
      rule assms(2), rule assms(3)) (simp_all add: attempt_fuel_def MAX_EXECUTION_ATTEMPTS_def)

end
