(* ===== verification/Retry_Stages.thy ===== *)
theory Retry_Stages
  imports Retry_Accounting
begin

section \<open>The stages of the retrying orchestrator\<close>

text \<open>
  What one run of each role and one stage of the delivery loop leave behind: the Artifacts they hand
  on are stored Artifacts of the Task, and the Task and its log are those of the repository.
\<close>

definition retry_ok :: "retry_env \<Rightarrow> bool" where
  "retry_ok env \<longleftrightarrow> env_valid (ro_base env) \<and> journal_ok (ro_base env) \<and> interruption_ok env"

definition filed :: "retry_env \<Rightarrow> string \<Rightarrow> Artifact \<Rightarrow> run_state \<Rightarrow> bool" where
  "filed env i a s \<longleftrightarrow>
     store_inv (retry_hash env) (rs_artifacts s) \<and>
     artifact_get (retry_hash env) (rs_artifacts s) (art_artifact_id a) = Inr a \<and> art_task_id a = i"

lemma filed_quiet: "quiet (retry_hash env) s s' \<Longrightarrow> filed env i a s \<Longrightarrow> filed env i a s'"
  by (auto simp: filed_def quiet_def artifacts_grow_def)

lemma filed_grows: "artifacts_grow (retry_hash env) s s' \<Longrightarrow> filed env i a s \<Longrightarrow> filed env i a s'"
  by (auto simp: filed_def artifacts_grow_def)

lemma filed_same: "rs_artifacts s' = rs_artifacts s \<Longrightarrow> filed env i a s' \<longleftrightarrow> filed env i a s"
  by (simp add: filed_def)

lemma get_at:
  "current env s t es \<Longrightarrow> t_id t = i \<Longrightarrow> wp (get_task i) Q E s = Q t s"
  "current env s t es \<Longrightarrow> t_id t = i \<Longrightarrow> wp (get_events i) R E s = R es s"
  using get_wp by auto

lemma quiet_successor:
  assumes "current env s t es" and "quiet (retry_hash env) s s'" and "current env s' t' es'" and "t_id t' = t_id t"
  shows "es' = es" "t_status t' = t_status t" "t_attempts t \<le> t_attempts t'" "t_max_attempts t' = t_max_attempts t"
proof -
  obtain u where u: "current env s' u es" "t_id u = t_id t" "t_status u = t_status t" "succeeds_task t u"
    using quiet_current [OF assms(1,2)] by blast
  have "u = t'" "es' = es"
    using current_stored(1,2) [OF u(1)] current_stored(1,2) [OF assms(3)] assms(4) u(2) by auto
  then show "es' = es" "t_status t' = t_status t" "t_attempts t \<le> t_attempts t'" "t_max_attempts t' = t_max_attempts t"
    using u by (simp_all add: succeeds_task_def)
qed

subsection \<open>One run\<close>

lemma run_wp:
  assumes ok: "retry_ok env" and cur: "current env s t es"
    and task: "role = AR_ORCHESTRATOR \<or> (\<exists>p. filed env (t_id t) p s \<and> art_artifact_id p \<in> set parents)"
    and Q: "\<And>run s' t'. quiet (retry_hash env) s s' \<Longrightarrow> current env s' t' es \<Longrightarrow> t_id t' = t_id t \<Longrightarrow>
      t_status t' = t_status t \<Longrightarrow> t_attempts t \<le> t_attempts t' \<Longrightarrow> filed env (t_id t) (co_artifact run) s' \<Longrightarrow>
      art_parent_artifact_ids (co_artifact run) = parents \<Longrightarrow> Q run s'"
  shows "wp (run_agent (ro_base env) t role k cand inputs parents sp bk) Q (fails_quietly env s k) s"
  unfolding wp_exec
proof (intro allI impI)
  fix r s'
  assume run: "run_agent (ro_base env) t role k cand inputs parents sp bk s = (r, s')"
  let ?H = "retry_hash env" and ?env = "ro_base env"
  have W: "case r of Inl e \<Rightarrow> fails_quietly env s k e s' | Inr a \<Rightarrow> quiet ?H s s'"
    using run_agent_wp [of env t role k cand inputs parents sp bk s] ok run
    by (auto simp: wp_exec fails_quietly_def retry_ok_def split: sum.split)
  show "case r of Inl e \<Rightarrow> fails_quietly env s k e s' | Inr a \<Rightarrow> Q a s'"
  proof (cases r)
    case (Inr a)
    with W have q: "quiet ?H s s'" by simp
    obtain t' where t': "current env s' t' es" "t_id t' = t_id t" "t_status t' = t_status t" "t_attempts t \<le> t_attempts t'"
      using quiet_current [OF cur q] by blast
    note R = run_agent_Inr [OF current_stored(5) [OF cur] _ run [unfolded Inr]]
    have env: "env_valid ?env" using ok by (simp add: retry_ok_def)
    have "art_task_id (co_artifact a) = t_id t"
      using task
    proof
      assume "\<exists>p. filed env (t_id t) p s \<and> art_artifact_id p \<in> set parents"
      then obtain p where p: "filed env (t_id t) p s'" "art_artifact_id p \<in> set parents" using filed_quiet [OF q] by blast
      then show ?thesis
        using parent_task [OF current_stored(5) [OF t'(1)] R(3) [OF env]] R(1) [OF env] by (auto simp: filed_def)
    qed (use R(6) [OF env] in simp)
    then have "filed env (t_id t) (co_artifact a) s'" using R(3) [OF env] current_stored(5) [OF t'(1)] by (simp add: filed_def)
    from Q [OF q t' this R(1) [OF env]] Inr show ?thesis by simp
  qed (use W in simp)
qed

lemma run_transition_wp:
  assumes cur: "current env s1 t1 es" and id: "t_id t1 = i" and q: "quiet (retry_hash env) s s1"
    and Q: "\<And>s' u e. current env s' (t1\<lparr>t_status := to, t_updated_at := u\<rparr>) (es @ [e]) \<Longrightarrow> rs_artifacts s' = rs_artifacts s1 \<Longrightarrow>
      Q (t1\<lparr>t_status := to, t_updated_at := u\<rparr>, ev_event_id e) s'"
  shows "wp (rbind (get_task i) (\<lambda>t. retry_transition env t to reason src k arts)) Q (fails_quietly env s k) s1"
  using Q quietly.trans [OF q]
  by (auto simp: get_at [OF cur id] fails_quietly_def intro!: transition_wp [OF cur])

lemma require_wp:
  "wp (require_plan a) (\<lambda>c s'. s' = s \<and> art_content a = PlanArtifact c) (\<lambda>e s'. s' = s \<and> e = DeliveryContractViolation) s"
  "wp (require_implementation a) (\<lambda>c s'. s' = s \<and> art_content a = ImplementationReportArtifact c)
     (\<lambda>e s'. s' = s \<and> e = DeliveryContractViolation) s"
  "wp (require_qa a) (\<lambda>c s'. s' = s \<and> art_content a = QaReportArtifact c) (\<lambda>e s'. s' = s \<and> e = DeliveryContractViolation) s"
  "wp (require_review a) (\<lambda>c s'. s' = s \<and> art_content a = ReviewReportArtifact c) (\<lambda>e s'. s' = s \<and> e = DeliveryContractViolation) s"
  "wp (validate_criteria task ids) (\<lambda>_ s'. s' = s) (\<lambda>e s'. s' = s \<and> e = DeliveryContractViolation) s"
  "wp (retry_validate_plan task a) (\<lambda>_ s'. s' = s \<and> art_kind a = AK_PLAN) (\<lambda>e s'. s' = s \<and> e = DeliveryContractViolation) s"
  by (simp_all add: require_plan_def require_implementation_def require_qa_def require_review_def validate_criteria_def
      retry_validate_plan_def split: ArtifactContent.split)

lemma planner_body_wp:
  assumes ok: "retry_ok env" and cur: "current env s t es" and id: "t_id t = t_id task" and k: "k \<le> t_attempts t"
  shows "wp (planner_body env task k)
     (\<lambda>(p, t', k') s'. quiet (retry_hash env) s s' \<and> current env s' t' es \<and> t_id t' = t_id task \<and> t_status t' = t_status t \<and>
        t_attempts t \<le> t_attempts t' \<and> filed env (t_id task) p s' \<and> art_kind p = AK_PLAN)
     (fails_quietly env s k) s"
  unfolding planner_body_def wp_bind get_at [OF cur id]
proof (rule run_wp [OF ok cur], goal_cases)
  case (2 run s' t')
  then have "fails_quietly env s k DeliveryContractViolation s'" by (simp add: fails_quietly_def)
  then show ?case
    using 2 id by (auto simp: get_at [OF 2(2)] intro!: wp_conseq [OF require_wp(1)] wp_conseq [OF require_wp(6)])
qed simp

definition coded :: "retry_env \<Rightarrow> run_state \<Rightarrow> Task \<Rightarrow> StateEvent list \<Rightarrow> Artifact \<times> Task \<times> string \<Rightarrow> run_state \<Rightarrow> bool" where
  "coded env s0 t es run s \<longleftrightarrow>
     artifacts_grow (retry_hash env) s0 s \<and>
     (case run of (a, t', event_id) \<Rightarrow>
        \<exists>e. current env s t' (es @ [e]) \<and> ev_event_id e = event_id \<and> t_id t' = t_id t \<and> t_attempts t \<le> t_attempts t' \<and>
            filed env (t_id t) a s \<and>
            (if progress_of a \<noteq> None then t_status t' = TS_CONTINUE_REQUIRED
             else art_kind a = AK_IMPLEMENTATION_REPORT \<and> t_status t' = TS_QA))"

lemma coder_body_wp:
  assumes ok: "retry_ok env" and cur: "current env s t es" and id: "t_id t = t_id task" and k: "k \<le> t_attempts t"
    and plan: "filed env (t_id task) plan s"
  shows "wp (coder_body env task previous (plan # inputs) sp k) (coded env s t es) (fails_quietly env s k) s"
  unfolding coder_body_def wp_bind get_at [OF cur id]
proof (rule run_wp [OF ok cur], goal_cases)
  case (2 run s' t')
  let ?a = "co_artifact run"
  have violated: "fails_quietly env s k DeliveryContractViolation s'" using 2(1) by (simp add: fails_quietly_def)
  have id': "t_id t' = t_id task" using 2(3) id by simp
  have moved: "wp (rbind (get_task (t_id task)) (\<lambda>t1. retry_transition env t1 to reason src k arts))
      (\<lambda>x. coded env s t es (?a, x)) (fails_quietly env s k) s'"
    if "if progress_of ?a \<noteq> None then to = TS_CONTINUE_REQUIRED else art_kind ?a = AK_IMPLEMENTATION_REPORT \<and> to = TS_QA"
    for to reason src arts
  proof (rule run_transition_wp [OF 2(2) id' 2(1)], goal_cases)
    case (1 s'' u e)
    have "artifacts_grow (retry_hash env) s s''" using 2(1) 1(2) by (simp add: quiet_def artifacts_grow_def)
    then show ?case using 1 2(3,5,6) that filed_same [OF 1(2)] by (auto simp: coded_def split: if_splits)
  qed
  show ?case
  proof (cases "progress_of ?a")
    case None
    have "wp (rbind (get_task (t_id task)) (\<lambda>t1. rbind (validate_criteria t1 ids) (\<lambda>_. rbind (get_task (t_id task)) (\<lambda>t2.
        rbind (retry_transition env t2 TS_QA reason src k arts) (\<lambda>(t3, event_id). rreturn (?a, t3, event_id))))))
        (coded env s t es) (fails_quietly env s k) s'"
      if "art_content ?a = ImplementationReportArtifact c" for ids c reason src arts
    proof (simp only: wp_bind get_at [OF 2(2) id'], rule wp_conseq [OF require_wp(5)], goal_cases)
      case (1 u s'')
      then show ?case
        using moved [of TS_QA reason src arts] that None by (simp add: split_beta get_at [OF 2(2) id'])
    next
      case (2 e s'')
      then show ?case using violated by blast
    qed
    note checked = this
    show ?thesis
      unfolding None option.case Let_def wp_bind [of "require_implementation _"]
    proof (rule wp_conseq [OF require_wp(2)], goal_cases)
      case (1 c s'')
      then show ?case using checked [of c] by simp
    next
      case (2 e s'')
      then show ?case using violated by blast
    qed
  next
    case (Some c)
    then show ?thesis
      using moved [of TS_CONTINUE_REQUIRED] violated by (simp add: Let_def split_beta get_at [OF 2(2) id'])
  qed
qed (use plan id in auto)

definition reported :: "retry_env \<Rightarrow> run_state \<Rightarrow> Task \<Rightarrow> StateEvent list \<Rightarrow> ArtifactKind \<Rightarrow> string \<Rightarrow> string \<Rightarrow> Artifact \<times> Task \<Rightarrow> run_state \<Rightarrow> bool" where
  "reported env s0 t es kind candidate parent run s \<longleftrightarrow>
     quiet (retry_hash env) s0 s \<and>
     (case run of (a, t') \<Rightarrow>
        current env s t' es \<and> t_id t' = t_id t \<and> t_status t' = t_status t \<and> t_attempts t \<le> t_attempts t' \<and>
        filed env (t_id t) a s \<and> art_kind a = kind \<and> art_source_revision a = candidate \<and>
        art_parent_artifact_ids a = [parent])"

lemma qa_body_wp:
  assumes ok: "retry_ok env" and cur: "current env s t es" and id: "t_id t = t_id task" and k: "k \<le> t_attempts t"
    and impl: "filed env (t_id task) implementation s"
  shows "wp (qa_body env task plan implementation candidate previous k)
     (reported env s t es AK_QA_REPORT candidate (art_artifact_id implementation)) (fails_quietly env s k) s"
  unfolding qa_body_def wp_bind get_at [OF cur id]
proof (rule run_wp [OF ok cur], goal_cases)
  case (2 run s' t')
  then have "fails_quietly env s k DeliveryContractViolation s'" by (simp add: fails_quietly_def)
  then show ?case
    using 2 id by (auto simp: get_at [OF 2(2)] reported_def intro!: wp_conseq [OF require_wp(3)] wp_conseq [OF require_wp(5)])
qed (use impl id in auto)

lemma review_body_wp:
  assumes ok: "retry_ok env" and cur: "current env s t es" and id: "t_id t = t_id task" and k: "k \<le> t_attempts t"
    and qa: "filed env (t_id task) qa s"
  shows "wp (review_body env task plan implementation candidate qa previous k)
     (reported env s t es AK_REVIEW_REPORT candidate (art_artifact_id qa)) (fails_quietly env s k) s"
  unfolding review_body_def wp_bind get_at [OF cur id]
proof (rule run_wp [OF ok cur], goal_cases)
  case (2 run s' t')
  then have "fails_quietly env s k DeliveryContractViolation s'" by (simp add: fails_quietly_def)
  then show ?case
    using 2 id by (auto simp: get_at [OF 2(2)] reported_def intro!: wp_conseq [OF require_wp(4)])
qed (use qa id in auto)

subsection \<open>Runs with retries\<close>

lemma run_stopped_wp:
  assumes "current env s t es" and "t_id t = t_id task"
  shows "wp (run_stopped env task role arts src k r) (stopped_at env (t_id task) es []) (stops_sane env) s"
    and "wp (coder_stopped env task ids srev k r) (stopped_at env (t_id task) es []) (stops_sane env) s"
  using blocked_wp [OF assms(1)] assms(2)
  by (simp_all add: run_stopped_def coder_stopped_def get_at [OF assms] split: if_split)

lemma coded_mono:
  "coded env s1 t1 es run s \<Longrightarrow> quiet (retry_hash env) s0 s1 \<Longrightarrow> t_id t1 = t_id t \<Longrightarrow> t_attempts t \<le> t_attempts t1 \<Longrightarrow>
   coded env s0 t es run s"
  by (fastforce simp: coded_def quiet_def intro: growth.trans)

lemma reported_mono:
  "reported env s1 t1 es kind c p run s \<Longrightarrow> quiet (retry_hash env) s0 s1 \<Longrightarrow> t_id t1 = t_id t \<Longrightarrow> t_status t1 = t_status t \<Longrightarrow>
   t_attempts t \<le> t_attempts t1 \<Longrightarrow> reported env s0 t es kind c p run s"
  by (auto simp: reported_def intro: quietly.trans)

text \<open>The three outcomes of the attempt loop for a body with postcondition \<open>Q\<close>.\<close>

abbreviation ends_with :: "retry_env \<Rightarrow> Task \<Rightarrow> StateEvent list \<Rightarrow> ('a \<Rightarrow> run_state \<Rightarrow> bool) \<Rightarrow> 'a + BlockedResult \<Rightarrow> run_state \<Rightarrow> bool" where
  "ends_with env t es Q \<equiv> (\<lambda>x. case x of Inl a \<Rightarrow> Q a | Inr b \<Rightarrow> stopped_at env (t_id t) es [] b)"

lemma run_planner_wp:
  assumes ok: "retry_ok env" and cur: "current env s task es"
  shows "wp (run_planner env task)
     (ends_with env task es (\<lambda>(p, t', k) s'. quiet (retry_hash env) s s' \<and> current env s' t' es \<and> t_id t' = t_id task \<and> t_status t' = t_status task \<and>
        t_attempts task \<le> t_attempts t' \<and> filed env (t_id task) p s' \<and> art_kind p = AK_PLAN))
     (stops_sane env) s"
  unfolding run_planner_def
proof (rule attempt_loop_ends [OF _ cur refl], goal_cases)
  case (2 k s' t')
  show ?case
    by (rule wp_conseq [OF planner_body_wp [OF ok 2(2-4)]])
      (use quiet_successor [OF cur 2(1-3)] quietly.trans [OF 2(1)] in auto)
next
  case (3 k r s' t')
  then show ?case by (rule run_stopped_wp(1))
qed (use ok in \<open>simp add: retry_ok_def\<close>)

lemma run_qa_wp:
  assumes ok: "retry_ok env" and cur: "current env s task es" and impl: "filed env (t_id task) implementation s"
  shows "wp (run_qa_with_retries env task plan implementation candidate previous)
     (ends_with env task es (reported env s task es AK_QA_REPORT candidate (art_artifact_id implementation))) (stops_sane env) s"
  unfolding run_qa_with_retries_def
proof (rule attempt_loop_ends [OF _ cur refl], goal_cases)
  case (2 k s' t')
  show ?case
    by (rule wp_conseq [OF qa_body_wp [OF ok 2(2-4) filed_quiet [OF 2(1) impl]]])
      (use quiet_successor [OF cur 2(1-3)] 2(1,3) in \<open>auto elim: reported_mono\<close>)
next
  case (3 k r s' t')
  then show ?case by (rule run_stopped_wp(1))
qed (use ok in \<open>simp add: retry_ok_def\<close>)

lemma run_review_wp:
  assumes ok: "retry_ok env" and cur: "current env s task es" and qa: "filed env (t_id task) qa s"
  shows "wp (run_review_with_retries env task plan implementation candidate qa previous)
     (ends_with env task es (reported env s task es AK_REVIEW_REPORT candidate (art_artifact_id qa))) (stops_sane env) s"
  unfolding run_review_with_retries_def
proof (rule attempt_loop_ends [OF _ cur refl], goal_cases)
  case (2 k s' t')
  show ?case
    by (rule wp_conseq [OF review_body_wp [OF ok 2(2-4) filed_quiet [OF 2(1) qa]]])
      (use quiet_successor [OF cur 2(1-3)] 2(1,3) in \<open>auto elim: reported_mono\<close>)
next
  case (3 k r s' t')
  then show ?case by (rule run_stopped_wp(1))
qed (use ok in \<open>simp add: retry_ok_def\<close>)

lemma resume_interrupted_wp:
  assumes cur: "current env s t es" and id: "t_id t = t_id task"
  shows "wp (resume_interrupted env task k ids src) (ends_with env task es (\<lambda>_. quiet (retry_hash env) s)) (stops_sane env) s"
proof -
  let ?H = "retry_hash env"
  have sane: "stops_sane env e s'" if "quiet ?H s s'" "e \<noteq> OutOfFuel" for e s'
    using that quiet_sane [OF current_stored(3) [OF cur]] by (simp add: stops_sane_def)
  have resumed: "wp (rbind (guard_write (ro_base env)) (\<lambda>_. rbind (get_task (t_id task)) (\<lambda>t.
      rbind (reserve env (t_id t) (\<lambda>n store. ic_resume control n t store)) (\<lambda>restored.
      rreturn (Inl (case restored of None \<Rightarrow> k | Some k \<Rightarrow> k))))))
      (\<lambda>x s'. quiet ?H s s' \<and> isl x) (\<lambda>e s'. quiet ?H s s' \<and> e \<noteq> OutOfFuel) s" (is "wp ?m _ _ s") for control
  proof -
    have "calm ?H ?m" by (intro calm_bind calm_controls calm_reads calm_reserve calm_pure)
    moreover have "wp ?m (\<lambda>x _. isl x) (\<lambda>_ _. True) s" by (auto simp: wp_exec rbind_Inr_iff split: sum.split)
    ultimately show ?thesis using wp_conj [OF calm_wp] by (force intro: wp_conseq)
  qed
  have stop: "wp (rbind (get_task (t_id task)) (\<lambda>t. rbind (blocked env t c BR_INTERRUPTION_REJECTED k [] ids (Some src))
      (\<lambda>b. rreturn (Inr b)))) (ends_with env task es (\<lambda>_. quiet ?H s)) (stops_sane env) s'"
    if q: "quiet ?H s s'" for s' c
  proof -
    obtain t' where t': "current env s' t' es" "t_id t' = t_id task" using quiet_current [OF cur q] id by auto
    show ?thesis using blocked_wp [OF t'(1)] t'(2) by (simp add: get_at [OF t'])
  qed
  show ?thesis
  proof (cases "ro_interruption env")
    case None
    then show ?thesis by (simp add: resume_interrupted_def quietly.refl)
  next
    case (Some control)
    show ?thesis
      unfolding resume_interrupted_def Some option.case wp_catch Let_def
    proof (rule wp_conseq [OF resumed], goal_cases)
      case (1 x s')
      then show ?case by (cases x) simp_all
    next
      case (2 e s')
      then show ?case
        using sane stop by (auto split: option.split runner_error.splits interruption_error.splits simp del: wp_bind)
    qed
  qed
qed

lemma run_coder_wp:
  assumes ok: "retry_ok env" and cur: "current env s task es" and plan: "filed env (t_id task) plan s"
  shows "wp (run_coder_with_retries env task plan previous qa review progress)
     (ends_with env task es (coded env s task es)) (stops_sane env) s"
proof -
  let ?H = "retry_hash env" and ?Q = "ends_with env task es (coded env s task es)" and ?E = "stops_sane env"
  have sane: "?E e s'" if "quiet ?H s s'" "e \<noteq> OutOfFuel" for e s'
    using that quiet_sane [OF current_stored(3) [OF cur]] by (simp add: stops_sane_def)
  have loop: "wp (attempt_loop attempt_fuel env task source (coder_body env task previous (plan # inputs) sp)
      (coder_stopped env task ids srev) k) ?Q ?E s1"
    if q: "quiet ?H s s1" for s1 source inputs sp ids srev k
  proof -
    obtain t1 where t1: "current env s1 t1 es" "t_id t1 = t_id task" using quiet_current [OF cur q] by blast
    show ?thesis
    proof (rule attempt_loop_ends [OF _ t1], goal_cases)
      case (2 k s' t')
      have q': "quiet ?H s s'" using quietly.trans [OF q 2(1)] .
      show ?case
        by (rule wp_conseq [OF coder_body_wp [OF ok 2(2-4) filed_quiet [OF q' plan]]])
          (use quiet_successor [OF cur q' 2(2,3)] 2(3) q' in \<open>auto elim: coded_mono\<close>)
    next
      case (3 k r s' t')
      then show ?case by (rule run_stopped_wp(2))
    qed (use ok in \<open>simp add: retry_ok_def\<close>)
  qed
  have resume: "wp (rbind (resume_interrupted env task k ids src) (\<lambda>start. case start of
      Inr b \<Rightarrow> rreturn (Inr b)
    | Inl first \<Rightarrow> attempt_loop attempt_fuel env task (Some src) (coder_body env task previous (plan # inputs) sp)
        (coder_stopped env task ids src) first)) ?Q ?E s1"
    if q: "quiet ?H s s1" for s1 k ids src inputs sp
  proof -
    obtain t1 where t1: "current env s1 t1 es" "t_id t1 = t_id task" using quiet_current [OF cur q] by blast
    show ?thesis
      unfolding wp_bind
    proof (rule wp_conseq [OF resume_interrupted_wp [OF t1]], goal_cases)
      case (1 x s2)
      then show ?case using loop quietly.trans [OF q] by (cases x) auto
    qed
  qed
  have check: "calm ?H (case re_control (ro_base env) of None \<Rightarrow> rreturn ()
      | Some c \<Rightarrow> before_checkpoint_recovery c task AR_CODER k src)" for k src
    by (intro calm_choice calm_pure calm_controls)
  show ?thesis
    unfolding run_coder_with_retries_def Let_def wp_bind [of "current_coder_input _ _"]
  proof (rule wp_conseq [OF calm_wp [OF calm_inputs [where H = ?H]]], goal_cases)
    case (1 source s1)
    show ?case
      unfolding wp_bind [of "case_option _ _ _"]
    proof (rule wp_conseq [OF calm_wp [OF check]], goal_cases)
      case (1 u s2)
      then show ?case using resume quietly.trans [OF \<open>quiet ?H s s1\<close>] by blast
    next
      case (2 e s2)
      then show ?case using sane quietly.trans [OF \<open>quiet ?H s s1\<close>] by blast
    qed
  qed (use sane in blast)
qed

end
