(* ===== verification/Retry_Delivery.thy ===== *)
theory Retry_Delivery
  imports Retry_Stages
begin

section \<open>The delivery loop of the retrying orchestrator\<close>

text \<open>
  The invariant of the loop, the stages of one turn, and that the loop returns: a turn either returns
  or lowers a rank that two turns per attempt bound.
\<close>

definition held :: "retry_env \<Rightarrow> string \<Rightarrow> ArtifactKind \<Rightarrow> Artifact \<Rightarrow> run_state \<Rightarrow> bool" where
  "held env i kind a s \<longleftrightarrow> filed env i a s \<and> art_kind a = kind"

text \<open>The QA report has passed the candidate of the implementation report.\<close>

definition verified :: "Artifact \<Rightarrow> Artifact \<Rightarrow> bool" where
  "verified implementation qa \<longleftrightarrow>
     art_parent_artifact_ids qa = [art_artifact_id implementation] \<and>
     commit_sha_of implementation = Some (art_source_revision qa) \<and> qa_status_of qa = Some QR_PASS"

definition pass_ok ::
  "retry_env \<Rightarrow> bool \<Rightarrow> string \<Rightarrow> Artifact option \<Rightarrow> Task \<Rightarrow> StateEvent list \<Rightarrow> loop_state \<Rightarrow> run_state \<Rightarrow> bool" where
  "pass_ok env V i plan t es ls s \<longleftrightarrow>
     current env s t es \<and> t_id t = i \<and> opt_all (\<lambda>a. held env i AK_PLAN a s) plan \<and>
     opt_all (\<lambda>a. held env i AK_IMPLEMENTATION_REPORT a s) (ls_implementation ls) \<and>
     opt_all (\<lambda>a. held env i AK_QA_REPORT a s) (ls_qa ls) \<and>
     opt_all (\<lambda>a. held env i AK_REVIEW_REPORT a s) (ls_review ls) \<and>
     ls_event_ids ls = map ev_event_id es \<and>
     (V \<and> t_status t = TS_REVIEW \<longrightarrow>
        (\<exists>im q. ls_implementation ls = Some im \<and> ls_qa ls = Some q \<and> verified im q))"

definition delivered_as :: "retry_env \<Rightarrow> bool \<Rightarrow> string \<Rightarrow> RetryDeliveryResult \<Rightarrow> run_state \<Rightarrow> bool" where
  "delivered_as env V i d s \<longleftrightarrow>
     (\<exists>es e p im q r.
        current env s (rd_task d) (es @ [e]) \<and> t_id (rd_task d) = i \<and> t_status (rd_task d) = TS_DONE \<and>
        rd_event_ids d = map ev_event_id (es @ [e]) \<and>
        ev_from_status e = TS_REVIEW \<and> ev_to_status e = TS_DONE \<and> ev_artifact_ids e = rd_artifact_ids d \<and>
        rd_artifact_ids d = map art_artifact_id [p, im, q, r] \<and>
        held env i AK_PLAN p s \<and> held env i AK_IMPLEMENTATION_REPORT im s \<and> held env i AK_QA_REPORT q s \<and>
        held env i AK_REVIEW_REPORT r s \<and>
        commit_sha_of im = Some (rd_candidate_revision d) \<and> art_source_revision r = rd_candidate_revision d \<and>
        art_parent_artifact_ids r = [art_artifact_id q] \<and> verdict_of r = Some RV_APPROVE \<and>
        (V \<longrightarrow> verified im q))"

definition returned :: "retry_env \<Rightarrow> bool \<Rightarrow> string \<Rightarrow> RetryResult \<Rightarrow> run_state \<Rightarrow> bool" where
  "returned env V i r s = (case r of Delivered d \<Rightarrow> delivered_as env V i d s | Blocked b \<Rightarrow> stopped_at env i [] [] b s)"

lemma held_rules:
  "held env i kind a s \<Longrightarrow> filed env i a s" "quiet (retry_hash env) s s' \<Longrightarrow> held env i kind a s \<Longrightarrow> held env i kind a s'"
  "rs_artifacts s' = rs_artifacts s \<Longrightarrow> held env i kind a s' \<longleftrightarrow> held env i kind a s"
  by (auto simp: held_def filed_def dest: filed_quiet [unfolded filed_def])

lemma pass_okD:
  assumes "pass_ok env V i plan t es ls s"
  shows "current env s t es" "t_id t = i" "plan = Some p \<Longrightarrow> filed env i p s" "ls_event_ids ls = map ev_event_id es"
  using assms by (auto simp: pass_ok_def held_def)

lemma opt_all_mono: "opt_all P x \<Longrightarrow> (\<And>a. P a \<Longrightarrow> P' a) \<Longrightarrow> opt_all P' x"
  by (cases x) auto

lemma pass_ok_quiet:
  assumes "pass_ok env V i plan t es ls s" and "quiet (retry_hash env) s s'" and "current env s' t' es" and "t_id t' = t_id t"
  shows "pass_ok env V i plan t' es ls s'"
  using assms quiet_successor(2) [OF pass_okD(1) [OF assms(1)] assms(2-4)] held_rules(2) [OF assms(2)]
  by (auto simp: pass_ok_def elim!: opt_all_mono)

lemma pass_ok_moved:
  assumes "pass_ok env V i plan t es ls s" and "current env s' (t\<lparr>t_status := to, t_updated_at := u\<rparr>) (es @ [e])"
    and "rs_artifacts s' = rs_artifacts s" and "to \<noteq> TS_REVIEW"
  shows "pass_ok env V i plan (t\<lparr>t_status := to, t_updated_at := u\<rparr>) (es @ [e]) (add_event (ev_event_id e) ls) s'"
  using assms by (simp add: pass_ok_def held_rules(3) [OF assms(3)] add_event_def)

lemma pass_transition_wp:
  assumes inv: "pass_ok env V i plan t es ls s" and to: "to \<noteq> TS_REVIEW"
    and Q: "\<And>s' u e. pass_ok env V i plan (t\<lparr>t_status := to, t_updated_at := u\<rparr>) (es @ [e]) (add_event (ev_event_id e) ls) s' \<Longrightarrow>
      ev_to_status e = to \<Longrightarrow> ev_attempt e = k \<Longrightarrow> Q (t\<lparr>t_status := to, t_updated_at := u\<rparr>, ev_event_id e) s'"
  shows "wp (retry_transition env t to reason src k arts) Q (stops_sane env) s"
  using Q pass_ok_moved [OF inv _ _ to]
  by (intro transition_wp [OF pass_okD(1) [OF inv]]) (auto simp: stops_sane_def)

lemma pass_ok_locals [simp]:
  "pass_ok env V i plan t es (ls\<lparr>ls_checkpointed := x\<rparr>) s = pass_ok env V i plan t es ls s"
  "pass_ok env V i plan t es (ls\<lparr>ls_recover := b\<rparr>) s = pass_ok env V i plan t es ls s"
  by (simp_all add: pass_ok_def)

text \<open>What a stage answers: the next stage, the next turn, or a result.\<close>

definition turn_ok ::
  "retry_env \<Rightarrow> bool \<Rightarrow> string \<Rightarrow> Artifact option \<Rightarrow> (Task \<Rightarrow> StateEvent list \<Rightarrow> bool) \<Rightarrow> (Task \<Rightarrow> bool) \<Rightarrow> flow \<Rightarrow> run_state \<Rightarrow> bool" where
  "turn_ok env V i plan P N x s =
     (case x of
        Proceed t ls \<Rightarrow> \<exists>es. pass_ok env V i plan t es ls s \<and> P t es
      | NextTurn ls \<Rightarrow> \<exists>t es. pass_ok env V i plan t es ls s \<and> N t
      | Return r \<Rightarrow> returned env V i r s)"

lemma turn_ok_simps [simp]:
  "turn_ok env V i plan P N (Proceed t ls) s \<longleftrightarrow> (\<exists>es. pass_ok env V i plan t es ls s \<and> P t es)"
  "turn_ok env V i plan P N (NextTurn ls) s \<longleftrightarrow> (\<exists>t es. pass_ok env V i plan t es ls s \<and> N t)"
  "turn_ok env V i plan P N (Return r) s = returned env V i r s"
  by (simp_all add: turn_ok_def)

lemma then_stage_wp:
  assumes "wp m (turn_ok env V i plan P N) E s"
    and "\<And>t es ls s'. pass_ok env V i plan t es ls s' \<Longrightarrow> P t es \<Longrightarrow> wp (f t ls) (turn_ok env V i plan P' N) E s'"
  shows "wp (then_stage m f) (turn_ok env V i plan P' N) E s"
  unfolding then_stage_def wp_bind
proof (rule wp_conseq [OF assms(1)], goal_cases)
  case (1 x s')
  then show ?case using assms(2) by (cases x) auto
qed

lemma turn_okI:
  "pass_ok env V i plan t es ls s \<Longrightarrow> P t es \<Longrightarrow> turn_ok env V i plan P N (Proceed t ls) s"
  "pass_ok env V i plan t es ls s \<Longrightarrow> N t \<Longrightarrow> turn_ok env V i plan P N (NextTurn ls) s"
  by auto

lemma stop_with_wp:
  assumes inv: "pass_ok env V i plan t es ls s"
  shows "wp (stop_with env t ls c r k arts src) (turn_ok env V i plan P N) (stops_sane env) s"
  unfolding stop_with_def wp_bind
  by (rule wp_conseq [OF blocked_wp [OF pass_okD(1) [OF inv]]])
    (use pass_okD [OF inv] in \<open>auto simp: returned_def stopped_at_def\<close>)

lemma stopped_run_ok:
  "pass_ok env V i plan t es ls s \<Longrightarrow> stopped_at env i es [] b s' \<Longrightarrow> turn_ok env V i plan P N (stopped_run ls b) s'"
  by (auto simp: stopped_run_def returned_def stopped_at_def pass_ok_def)

lemma pass_ok_coded:
  assumes "pass_ok env V i plan t es ls s" and "coded env s t es (a, t', event_id) s'"
  shows "if progress_of a \<noteq> None
      then \<exists>es'. pass_ok env V i plan t' es' (add_event event_id ls) s' \<and> t_status t' = TS_CONTINUE_REQUIRED \<and> t_attempts t \<le> t_attempts t'
      else \<exists>es'. pass_ok env V i plan t' es' ((add_event event_id ls)\<lparr>ls_implementation := Some a\<rparr>) s' \<and>
             t_status t' = TS_QA \<and> t_attempts t \<le> t_attempts t'"
proof -
  obtain e where e: "artifacts_grow (retry_hash env) s s'" "current env s' t' (es @ [e])" "ev_event_id e = event_id"
      "t_id t' = t_id t" "t_attempts t \<le> t_attempts t'" "filed env (t_id t) a s'"
      "if progress_of a \<noteq> None then t_status t' = TS_CONTINUE_REQUIRED
       else art_kind a = AK_IMPLEMENTATION_REPORT \<and> t_status t' = TS_QA"
    using assms(2) by (auto simp: coded_def)
  have "held env i kind b s \<Longrightarrow> held env i kind b s'" for kind b
    using filed_grows [OF e(1)] by (auto simp: held_def)
  then have "pass_ok env V i plan t' (es @ [e]) (add_event event_id ls) s'"
    "progress_of a = None \<Longrightarrow> pass_ok env V i plan t' (es @ [e]) ((add_event event_id ls)\<lparr>ls_implementation := Some a\<rparr>) s'"
    using assms(1) e by (auto simp: pass_ok_def add_event_def held_def elim!: opt_all_mono split: if_splits)
  then show ?thesis using e by auto
qed

subsection \<open>The stages\<close>

text \<open>The rank of a Task that a turn lowers, and what holds of the Task after each stage of a turn from \<open>t0\<close>.\<close>

definition rank :: "Task \<Rightarrow> int" where
  "rank t = 2 * (MAX_EXECUTION_ATTEMPTS - t_attempts t) + (if t_status t = TS_CONTINUE_REQUIRED then 0 else 1)"

definition lowered :: "Task \<Rightarrow> Task \<Rightarrow> bool" where
  "lowered t0 t \<longleftrightarrow> t_status t \<in> {TS_IMPLEMENTING, TS_CONTINUE_REQUIRED} \<and> rank t < rank t0"

definition after_continue :: "Task \<Rightarrow> Task \<Rightarrow> StateEvent list \<Rightarrow> bool" where
  "after_continue t0 t es \<longleftrightarrow>
     t_status t \<in> {TS_QUEUED, TS_IMPLEMENTING, TS_QA, TS_REVIEW} \<and> t_attempts t0 \<le> t_attempts t \<and>
     (t_status t0 = TS_CONTINUE_REQUIRED \<longrightarrow> t_status t = TS_QUEUED \<and> t_attempts t \<le> latest_transition_attempt es TS_QUEUED)"

definition after_queued :: "Task \<Rightarrow> Task \<Rightarrow> StateEvent list \<Rightarrow> bool" where
  "after_queued t0 t es \<longleftrightarrow>
     t_status t \<in> {TS_IMPLEMENTING, TS_QA, TS_REVIEW} \<and> t_attempts t0 \<le> t_attempts t \<and>
     (t_status t0 = TS_CONTINUE_REQUIRED \<longrightarrow> t_attempts t0 < t_attempts t)"

definition after_coding :: "Task \<Rightarrow> Task \<Rightarrow> StateEvent list \<Rightarrow> bool" where
  "after_coding t0 t es \<longleftrightarrow> t_status t \<in> {TS_QA, TS_REVIEW} \<and> t_attempts t0 \<le> t_attempts t"

definition after_qa :: "Task \<Rightarrow> Task \<Rightarrow> StateEvent list \<Rightarrow> bool" where
  "after_qa t0 t es \<longleftrightarrow> t_status t = TS_REVIEW \<and> t_attempts t0 \<le> t_attempts t"

lemma foldl_max: "(a :: int) \<le> foldl max a xs"
  by (induction xs arbitrary: a) (auto intro: order_trans [OF max.cobounded1])

lemma latest_transition_snoc: "ev_to_status e = st \<Longrightarrow> ev_attempt e \<le> latest_transition_attempt (es @ [e]) st"
  by (simp add: latest_transition_attempt_def)

lemma continue_stage_wp:
  assumes inv: "pass_ok env V i plan t es ls s"
    and t: "t_status t \<in> {TS_CONTINUE_REQUIRED, TS_QUEUED, TS_IMPLEMENTING, TS_QA, TS_REVIEW}"
  shows "wp (continue_stage env progress t ls) (turn_ok env V i plan (after_continue t) N) (stops_sane env) s"
proof (cases "t_status t = TS_CONTINUE_REQUIRED")
  case True
  have "after_continue t (t\<lparr>t_status := TS_QUEUED, t_updated_at := u\<rparr>) (es @ [e])"
    if "ev_to_status e = TS_QUEUED" "ev_attempt e = t_attempts t" for u e
    using latest_transition_snoc [OF that(1), of es] that(2) by (simp add: after_continue_def)
  with True show ?thesis
    unfolding continue_stage_def
    by (auto simp del: turn_ok_simps split: option.split intro: stop_with_wp [OF inv] intro!: pass_transition_wp [OF inv] turn_okI(1))
next
  case False
  with inv t show ?thesis by (auto simp: continue_stage_def after_continue_def)
qed

text \<open>A reserved attempt and the transition that carries it.\<close>

lemma reserved_transition_wp:
  assumes inv: "pass_ok env V i plan t es ls s" and to: "to \<noteq> TS_REVIEW"
    and Q: "\<And>s' t' u e. pass_ok env V i plan (t'\<lparr>t_status := to, t_updated_at := u\<rparr>) (es @ [e]) (add_event (ev_event_id e) ls) s' \<Longrightarrow>
      t_attempts t \<le> t_attempts t' \<Longrightarrow> k \<le> t_attempts t' \<Longrightarrow> Q (f (t'\<lparr>t_status := to, t_updated_at := u\<rparr>) (ev_event_id e)) s'"
  shows "wp (rbind (retry_record_attempt env (t_id t) k) (\<lambda>_. rbind (get_task (t_id t)) (\<lambda>current.
      rbind (retry_transition env current to reason src k arts) (\<lambda>(task', event_id). rreturn (f task' event_id))))) Q (stops_sane env) s"
  unfolding wp_bind [of "retry_record_attempt _ _ _"]
proof (rule record_attempt_wp [OF pass_okD(1) [OF inv]], goal_cases)
  case (1 s' t')
  have "wp (retry_transition env t' to reason src k arts) (\<lambda>x. Q (f (fst x) (snd x))) (stops_sane env) s'"
    by (rule pass_transition_wp [OF pass_ok_quiet [OF inv 1(1-3)] to]) (use Q 1 in simp)
  then show ?case by (simp add: get_at [OF 1(2,3)] split_beta)
qed (simp add: stops_sane_def)

lemma queued_stage_wp:
  assumes inv: "pass_ok env V i plan t es ls s" and t: "after_continue t0 t es"
  shows "wp (queued_stage env progress t ls) (turn_ok env V i plan (after_queued t0) N) (stops_sane env) s"
proof (cases "t_status t = TS_QUEUED \<and> progress \<noteq> None")
  case True
  then obtain p where p: "progress = Some p" "\<not> t_status t \<noteq> TS_QUEUED" by auto
  let ?k = "if latest_transition_attempt es TS_QUEUED < t_attempts t then t_attempts t else t_attempts t + 1"
  have "wp (rbind (retry_record_attempt env (t_id t) ?k) (\<lambda>_. rbind (get_task (t_id t)) (\<lambda>current.
      rbind (retry_transition env current TS_IMPLEMENTING reason src ?k arts) (\<lambda>(task', event_id).
      rreturn (Proceed task' (add_event event_id ls))))))
      (turn_ok env V i plan (after_queued t0) N) (stops_sane env) s" for reason src arts
    using t by (intro reserved_transition_wp [OF inv] turn_okI(1))
      (auto simp: after_continue_def after_queued_def split: if_splits)
  then show ?thesis
    unfolding queued_stage_def p if_not_P [OF p(2)] option.case Let_def wp_bind [of "get_events _"] get_at [OF pass_okD(1) [OF inv] refl]
    using stop_with_wp [OF inv] by (simp del: wp_bind)
next
  case False
  with inv t show ?thesis
    by (cases "t_status t = TS_QUEUED") (auto simp: queued_stage_def after_continue_def after_queued_def intro: stop_with_wp [OF inv])
qed

lemma implementing_stage_wp:
  assumes ok: "retry_ok env" and inv: "pass_ok env V i (Some plan) t es ls s" and t: "after_queued t0 t es"
  shows "wp (implementing_stage env plan progress t ls) (turn_ok env V i (Some plan) (after_coding t0) (lowered t0)) (stops_sane env) s"
proof (cases "t_status t = TS_IMPLEMENTING")
  case True
  let ?T = "turn_ok env V i (Some plan) (after_coding t0) (lowered t0)" and ?E = "stops_sane env"
  note cur = pass_okD(1) [OF inv]
  have low: "lowered t0 t'" if "t_status t' = TS_CONTINUE_REQUIRED" "t_attempts t \<le> t_attempts t'" for t'
    using that t True by (auto simp: lowered_def after_queued_def rank_def)
  have recovered: "wp (rbind (retry_transition env t TS_CONTINUE_REQUIRED reason src k arts) (\<lambda>(task', event_id).
      rreturn (NextTurn ((add_event event_id ls)\<lparr>ls_checkpointed := ids\<rparr>)))) ?T ?E s" for reason src k arts ids
    unfolding wp_bind by (rule pass_transition_wp [OF inv]) (use low in \<open>auto intro!: exI\<close>)
  have candidate: "wp (rbind (validate_implementation t im) (\<lambda>candidate.
      rbind (retry_transition env t TS_QA reason candidate k arts) (\<lambda>(task', event_id).
      rreturn (Proceed task' ((add_event event_id ls)\<lparr>ls_recover := False\<rparr>))))) ?T ?E s" for im reason k arts
    unfolding wp_bind
  proof (rule wp_conseq [OF reads_only(3)], goal_cases)
    case (1 sha s')
    then have "s' = s" by simp
    then show ?case
      unfolding wp_bind using t
      by (simp only:, intro pass_transition_wp [OF inv]) (auto simp: after_coding_def after_queued_def intro!: exI)
  qed (use current_stored(3) [OF cur] in \<open>simp add: stops_sane_def\<close>)
  have coder: "wp (rbind (run_coder_with_retries env t plan previous qa review progress) (\<lambda>result. case result of
        Inr b \<Rightarrow> rreturn (stopped_run ls b)
      | Inl (a, task', event_id) \<Rightarrow>
          let ls' = add_event event_id ls in
          if progress_of a \<noteq> None then rreturn (NextTurn (ls'\<lparr>ls_checkpointed := ids a\<rparr>))
          else rreturn (Proceed task' (ls'\<lparr>ls_implementation := Some a\<rparr>)))) ?T ?E s" for previous qa review ids
    unfolding wp_bind
  proof (rule wp_conseq [OF run_coder_wp [OF ok cur]], goal_cases)
    case (2 x s')
    show ?case
    proof (cases x)
      case (Inl y)
      obtain a t' event_id where y: "y = (a, t', event_id)" by (metis prod_cases3)
      have "coded env s t es (a, t', event_id) s'" using 2 Inl y by simp
      note C = pass_ok_coded [OF inv this]
      show ?thesis
      proof (cases "progress_of a = None")
        case True
        then show ?thesis using C t by (auto simp: Inl y Let_def after_coding_def after_queued_def)
      next
        case False
        then show ?thesis using C low by (auto simp: Inl y Let_def)
      qed
    next
      case (Inr b)
      then show ?thesis using 2 stopped_run_ok [OF inv] pass_okD(2) [OF inv] by simp
    qed
  qed (use pass_okD [OF inv] in simp)
  have here: "\<not> t_status t \<noteq> TS_IMPLEMENTING" using True by simp
  have choice: "wp (case (ls_recover ls, ls_implementation ls) of (True, Some im) \<Rightarrow> m im | _ \<Rightarrow> n) ?T ?E s"
    if "\<And>im. wp (m im) ?T ?E s" "wp n ?T ?E s" for m n
    using that by (simp split: bool.split option.split)
  show ?thesis
  proof (cases "filter (\<lambda>p. art_artifact_id p \<notin> set (ls_checkpointed ls)) (case progress of None \<Rightarrow> [] | Some p \<Rightarrow> [p])")
    case Nil
    show ?thesis unfolding implementing_stage_def if_not_P [OF here] Nil list.case by (rule choice [OF candidate coder])
  next
    case (Cons p ps)
    show ?thesis unfolding implementing_stage_def if_not_P [OF here] Cons list.case by (rule recovered)
  qed
next
  case False
  with inv t show ?thesis by (auto simp: implementing_stage_def after_queued_def after_coding_def)
qed

lemma route_to_coder_wp:
  assumes inv: "pass_ok env V i plan t es ls s" and t: "t_attempts t0 \<le> t_attempts t"
  shows "wp (route_to_coder env t ls reason candidate a) (turn_ok env V i plan P (lowered t0)) (stops_sane env) s"
  unfolding route_to_coder_def Let_def
  by (rule reserved_transition_wp [OF inv])
    (use t in \<open>auto simp: lowered_def rank_def simp del: turn_ok_simps intro!: turn_okI(2)\<close>)

lemma pass_ok_reported:
  assumes "pass_ok env V i plan t es ls s" and "reported env s t es kind candidate parent (a, t') s'"
  shows "kind = AK_QA_REPORT \<Longrightarrow> t_status t = TS_QA \<Longrightarrow> pass_ok env V i plan t' es (ls\<lparr>ls_qa := Some a\<rparr>) s'"
    "kind = AK_REVIEW_REPORT \<Longrightarrow> pass_ok env V i plan t' es (ls\<lparr>ls_review := Some a\<rparr>) s'"
proof -
  have r: "quiet (retry_hash env) s s'" "current env s' t' es" "t_id t' = t_id t" "t_status t' = t_status t"
      "filed env (t_id t) a s'" "art_kind a = kind"
    using assms(2) by (auto simp: reported_def)
  show "kind = AK_QA_REPORT \<Longrightarrow> t_status t = TS_QA \<Longrightarrow> pass_ok env V i plan t' es (ls\<lparr>ls_qa := Some a\<rparr>) s'"
    "kind = AK_REVIEW_REPORT \<Longrightarrow> pass_ok env V i plan t' es (ls\<lparr>ls_review := Some a\<rparr>) s'"
    using pass_ok_quiet [OF assms(1) r(1-3)] r(4-6) pass_okD(2) [OF assms(1)]
    by (auto simp: pass_ok_def held_def)
qed

text \<open>A report on the current candidate, from this turn or kept from an earlier one.\<close>

lemma judge_qa_wp:
  assumes inv: "pass_ok env V i plan t es ls s" and t: "t_status t = TS_QA" "t_attempts t0 \<le> t_attempts t"
    and qa: "ls_implementation ls = Some im" "ls_qa ls = Some qa" "art_content qa = QaReportArtifact c"
    and evidence: "art_parent_artifact_ids qa = [art_artifact_id im]" "commit_sha_of im = Some candidate" "art_source_revision qa = candidate"
  shows "wp (judge_qa env t ls candidate qa c) (turn_ok env V i plan (after_qa t0) (lowered t0)) (stops_sane env) s"
proof -
  let ?T = "turn_ok env V i plan (after_qa t0) (lowered t0)" and ?E = "stops_sane env"
  have passed: "wp (rbind (retry_transition env t TS_REVIEW ''qa_passed'' candidate k arts) (\<lambda>(task', event_id).
      rreturn (Proceed task' (add_event event_id ls)))) ?T ?E s" if c: "qa_status c \<noteq> QR_FAIL" for k arts
    unfolding wp_bind
  proof (rule transition_wp [OF pass_okD(1) [OF inv]], goal_cases)
    case (1 s' u e)
    have "verified im qa" using c qa(3) evidence by (cases "qa_status c") (auto simp: verified_def qa_status_of_def)
    then have "pass_ok env V i plan (t\<lparr>t_status := TS_REVIEW, t_updated_at := u\<rparr>) (es @ [e]) (add_event (ev_event_id e) ls) s'"
      using inv 1(1) qa(1,2) held_rules(3) [OF 1(2)] by (auto simp: pass_ok_def add_event_def)
    then show ?case using t(2) by (auto simp: after_qa_def)
  qed (auto simp: stops_sane_def)
  show ?thesis
    using passed route_to_coder_wp [OF inv t(2)] stop_with_wp [OF inv] current_stored(3) [OF pass_okD(1) [OF inv]]
    by (auto simp: judge_qa_def stops_sane_def simp del: wp_bind
        simp: wp_bind [of "rsome _ _"] split: option.split)
qed

lemma kept_report_wp:
  assumes "\<And>q. kept \<Longrightarrow> x = Some q \<Longrightarrow> R (Inl (q, t)) s" and "wp run R E s"
  shows "wp (case (kept, x) of (True, Some q) \<Rightarrow> rreturn (Inl (q, t)) | _ \<Rightarrow> run) R E s"
  using assms by (simp split: bool.split option.split)

lemma qa_stage_wp:
  assumes ok: "retry_ok env" and inv: "pass_ok env V i (Some plan) t es ls s" and t: "after_coding t0 t es"
  shows "wp (qa_stage env plan t ls) (turn_ok env V i (Some plan) (after_qa t0) (lowered t0)) (stops_sane env) s"
proof (cases "t_status t = TS_QA")
  case True
  let ?T = "turn_ok env V i (Some plan) (after_qa t0) (lowered t0)" and ?E = "stops_sane env"
  have fail: "?E DeliveryContractViolation s" using current_stored(3) [OF pass_okD(1) [OF inv]] by (simp add: stops_sane_def)
  have a: "t_attempts t0 \<le> t_attempts t" using t by (simp add: after_coding_def)
  show ?thesis
  proof (cases "ls_implementation ls")
    case None
    with True stop_with_wp [OF inv] show ?thesis by (simp add: qa_stage_def)
  next
    case (Some im)
    have im: "held env i AK_IMPLEMENTATION_REPORT im s" using inv Some by (simp add: pass_ok_def)
    obtain c where c: "art_content im = ImplementationReportArtifact c"
      using im by (cases "art_content im") (auto simp: held_def)
    let ?candidate = "ic_commit_sha c"
    have sha: "commit_sha_of im = Some ?candidate" by (simp add: commit_sha_of_def c)
    have judge: "wp (rbind (require_qa q) (\<lambda>content. judge_qa env t' (ls\<lparr>ls_qa := Some q\<rparr>) ?candidate q content)) ?T ?E s'"
      if "pass_ok env V i (Some plan) t' es (ls\<lparr>ls_qa := Some q\<rparr>) s'" "t_status t' = TS_QA" "t_attempts t \<le> t_attempts t'"
        "art_parent_artifact_ids q = [art_artifact_id im]" "art_source_revision q = ?candidate" for q t' s'
    proof -
      have "held env i AK_QA_REPORT q s'" using that(1) by (simp add: pass_ok_def)
      then obtain d where d: "art_content q = QaReportArtifact d" by (cases "art_content q") (auto simp: held_def)
      show ?thesis
        using judge_qa_wp [OF that(1,2) _ _ _ d that(4) sha that(5), of t0] Some a that(3) by (simp add: require_qa_def d)
    qed
    let ?R = "\<lambda>x s'. case x of
        Inl (q, t') \<Rightarrow> pass_ok env V i (Some plan) t' es (ls\<lparr>ls_qa := Some q\<rparr>) s' \<and> t_status t' = TS_QA \<and> t_attempts t \<le> t_attempts t' \<and>
          art_parent_artifact_ids q = [art_artifact_id im] \<and> art_source_revision q = ?candidate
      | Inr b \<Rightarrow> stopped_at env i es [] b s'"
    have run: "wp (run_qa_with_retries env t plan im ?candidate previous) ?R ?E s" for previous
    proof (rule wp_conseq [OF run_qa_wp [OF ok pass_okD(1) [OF inv]]], goal_cases)
      case (2 x s')
      then show ?case
        using pass_ok_reported(1) [OF inv] True pass_okD(2) [OF inv] by (fastforce simp: reported_def split: sum.splits)
    qed (use im pass_okD(2) [OF inv] in \<open>simp_all add: held_def\<close>)
    have kept: "pass_ok env V i (Some plan) t es (ls\<lparr>ls_qa := Some q\<rparr>) s" if "ls_qa ls = Some q" for q
      using inv that by (simp add: pass_ok_def)
    have next_step: "wp (case x of Inr b \<Rightarrow> rreturn (stopped_run ls b)
        | Inl (q, t') \<Rightarrow> rbind (require_qa q) (\<lambda>content. judge_qa env t' (ls\<lparr>ls_qa := Some q\<rparr>) ?candidate q content)) ?T ?E s'"
      if "?R x s'" for x s'
      using that judge stopped_run_ok [OF inv] by (auto split: sum.splits simp del: wp_bind)
    have here: "\<not> t_status t \<noteq> TS_QA" using True by simp
    show ?thesis
      unfolding qa_stage_def if_not_P [OF here] Some option.case require_implementation_def c ArtifactContent.case
        wp_bind wp_pure Let_def
      by (rule wp_conseq [OF kept_report_wp [OF _ run]])
        (use kept True next_step in \<open>auto simp del: wp_bind split: option.splits\<close>)
  qed
next
  case False
  with inv t show ?thesis by (auto simp: qa_stage_def after_coding_def after_qa_def)
qed

lemma judge_review_wp:
  assumes inv: "pass_ok env V i (Some plan) t es ls s" and t: "t_status t = TS_REVIEW" "t_attempts t0 \<le> t_attempts t"
    and r: "ls_implementation ls = Some im" "ls_qa ls = Some q" "ls_review ls = Some r" "art_content r = ReviewReportArtifact c"
    and evidence: "art_parent_artifact_ids r = [art_artifact_id q]" "commit_sha_of im = Some candidate" "art_source_revision r = candidate"
  shows "wp (judge_review env t ls plan im candidate q r c) (turn_ok env V i (Some plan) P (lowered t0)) (stops_sane env) s"
proof (cases "rc_verdict c = RV_REJECT")
  case True
  then show ?thesis
    using route_to_coder_wp [OF inv t(2)] stop_with_wp [OF inv] by (auto simp: judge_review_def simp del: wp_bind)
next
  case False
  let ?ids = "map art_artifact_id [plan, im, q, r]"
  show ?thesis
    unfolding judge_review_def if_not_P [OF False] Let_def wp_bind [of "retry_transition _ _ _ _ _ _ _"]
  proof (rule transition_wp [OF pass_okD(1) [OF inv]], goal_cases)
    case (1 s' u e)
    let ?t = "t\<lparr>t_status := TS_DONE, t_updated_at := u\<rparr>"
    have h: "held env j kind a s \<Longrightarrow> held env j kind a s'" for j kind a using held_rules(3) [OF 1(2)] by simp
    have v: "verdict_of r = Some RV_APPROVE" using False r(4) by (cases "rc_verdict c") (simp_all add: verdict_of_def)
    have "delivered_as env V i d s'"
      if "rd_task d = ?t" "rd_candidate_revision d = candidate" "rd_artifact_ids d = ?ids"
        "rd_event_ids d = ls_event_ids ls @ [ev_event_id e]" for d
      unfolding delivered_as_def
      by (rule exI [of _ es], rule exI [of _ e], rule exI [of _ plan], rule exI [of _ im], rule exI [of _ q], rule exI [of _ r])
        (use inv that 1 t r evidence v in \<open>auto simp: pass_ok_def intro: h\<close>)
    then show ?case
      using current_stored(3) [OF 1(1)] by (auto simp: returned_def stops_sane_def)
  qed (auto simp: stops_sane_def)
qed

lemma review_stage_wp:
  assumes ok: "retry_ok env" and inv: "pass_ok env V i (Some plan) t es ls s" and t: "after_qa t0 t es"
  shows "wp (review_stage env plan t ls) (turn_ok env V i (Some plan) P (lowered t0)) (stops_sane env) s"
proof (cases "\<exists>im q. ls_implementation ls = Some im \<and> ls_qa ls = Some q")
  case False
  then show ?thesis
    using t stop_with_wp [OF inv] by (auto simp: review_stage_def after_qa_def split: option.split)
next
  case True
  then obtain im q where some: "ls_implementation ls = Some im" "ls_qa ls = Some q" by blast
  let ?T = "turn_ok env V i (Some plan) P (lowered t0)" and ?E = "stops_sane env"
  have here: "\<not> t_status t \<noteq> TS_REVIEW" and a: "t_attempts t0 \<le> t_attempts t" using t by (simp_all add: after_qa_def)
  have held: "held env i AK_IMPLEMENTATION_REPORT im s" "held env i AK_QA_REPORT q s" using inv some by (simp_all add: pass_ok_def)
  obtain c where c: "art_content im = ImplementationReportArtifact c"
    using held(1) by (cases "art_content im") (auto simp: held_def)
  let ?candidate = "ic_commit_sha c"
  have sha: "commit_sha_of im = Some ?candidate" by (simp add: commit_sha_of_def c)
  let ?R = "\<lambda>x s'. case x of
      Inl (r, t') \<Rightarrow> pass_ok env V i (Some plan) t' es (ls\<lparr>ls_review := Some r\<rparr>) s' \<and> t_status t' = TS_REVIEW \<and> t_attempts t \<le> t_attempts t' \<and>
        art_parent_artifact_ids r = [art_artifact_id q] \<and> art_source_revision r = ?candidate
    | Inr b \<Rightarrow> stopped_at env i es [] b s'"
  have judge: "wp (rbind (require_review r) (\<lambda>content.
      judge_review env t' (ls\<lparr>ls_review := Some r\<rparr>) plan im ?candidate q r content)) ?T ?E s'" if "?R (Inl (r, t')) s'" for r t' s'
  proof -
    have "held env i AK_REVIEW_REPORT r s'" using that by (simp add: pass_ok_def)
    then obtain d where d: "art_content r = ReviewReportArtifact d" by (cases "art_content r") (auto simp: held_def)
    have P: "pass_ok env V i (Some plan) t' es (ls\<lparr>ls_review := Some r\<rparr>) s'" "t_status t' = TS_REVIEW" "t_attempts t0 \<le> t_attempts t'"
        "art_parent_artifact_ids r = [art_artifact_id q]" "art_source_revision r = ?candidate"
      using that a by auto
    show ?thesis
      using judge_review_wp [OF P(1-3) _ _ _ d P(4) sha P(5)] some by (simp add: require_review_def d)
  qed
  have run: "wp (run_review_with_retries env t plan im ?candidate q previous) ?R ?E s" for previous
  proof (rule wp_conseq [OF run_review_wp [OF ok pass_okD(1) [OF inv]]], goal_cases)
    case (2 x s')
    then show ?case
      using pass_ok_reported(2) [OF inv] here pass_okD(2) [OF inv] by (fastforce simp: reported_def split: sum.splits)
  qed (use held pass_okD(2) [OF inv] in \<open>simp_all add: held_def\<close>)
  have kept: "pass_ok env V i (Some plan) t es (ls\<lparr>ls_review := Some r\<rparr>) s" if "ls_review ls = Some r" for r
    using inv that by (simp add: pass_ok_def)
  have next_step: "wp (case x of Inr b \<Rightarrow> rreturn (stopped_run ls b)
      | Inl (r, t') \<Rightarrow> rbind (require_review r) (\<lambda>content.
          judge_review env t' (ls\<lparr>ls_review := Some r\<rparr>) plan im ?candidate q r content)) ?T ?E s'"
    if "?R x s'" for x s'
    using that judge stopped_run_ok [OF inv] by (auto split: sum.splits simp del: wp_bind)
  show ?thesis
    unfolding review_stage_def if_not_P [OF here] some option.case prod.case require_implementation_def c ArtifactContent.case
      wp_bind wp_pure Let_def
    by (rule wp_conseq [OF kept_report_wp [unfolded prod.case, OF _ run]])
      (use kept here next_step in \<open>auto simp del: wp_bind split: option.splits\<close>)
qed

subsection \<open>The loop\<close>

abbreviation in_delivery :: "Task \<Rightarrow> bool" where
  "in_delivery t \<equiv> t_status t \<in> {TS_CONTINUE_REQUIRED, TS_QUEUED, TS_IMPLEMENTING, TS_QA, TS_REVIEW}"

lemma coder_input_reads:
  "wp (current_coder_input env task) (\<lambda>_ s'. s' = s) (\<lambda>e s'. s' = s \<and> e \<noteq> OutOfFuel) s"
  by (simp add: current_coder_input_def split: sum.split option.split)

lemma delivery_turn_wp:
  assumes ok: "retry_ok env" and inv: "pass_ok env V i (Some plan) t es ls s" and t: "in_delivery t"
  shows "wp (delivery_turn env i plan ls) (turn_ok env V i (Some plan) (\<lambda>_ _. False) (lowered t)) (stops_sane env) s"
proof -
  let ?E = "stops_sane env"
  have stages: "wp (then_stage (then_stage (then_stage (then_stage
      (continue_stage env progress t ls1) (queued_stage env progress)) (implementing_stage env plan progress))
      (qa_stage env plan)) (review_stage env plan)) (turn_ok env V i (Some plan) (\<lambda>_ _. False) (lowered t)) ?E s"
    if inv1: "pass_ok env V i (Some plan) t es ls1 s" for progress ls1
    by (rule then_stage_wp [OF then_stage_wp [OF then_stage_wp [OF then_stage_wp [OF
          continue_stage_wp [OF inv1 t] queued_stage_wp] implementing_stage_wp [OF ok]] qa_stage_wp [OF ok]]
          review_stage_wp [OF ok]])
  show ?thesis
    unfolding delivery_turn_def Let_def wp_bind [of "get_task _"] get_at [OF pass_okD(1,2) [OF inv]] wp_bind
    by (rule wp_conseq [OF coder_input_reads])
      (use inv stages current_stored(3) [OF pass_okD(1) [OF inv]] in \<open>auto simp: stops_sane_def simp del: wp_bind\<close>)
qed

lemma rank_bounds:
  assumes "current env s t es"
  shows "0 \<le> rank t" "rank t < int delivery_fuel"
  using current_valid [OF assms]
  by (auto simp: rank_def delivery_fuel_def MAX_EXECUTION_ATTEMPTS_def valid_Task_def valid_ExecutionCount_def in_range_def)

lemma delivery_loop_wp:
  assumes ok: "retry_ok env"
  shows "pass_ok env V i (Some plan) t es ls s \<Longrightarrow> in_delivery t \<Longrightarrow> rank t < int fuel \<Longrightarrow>
    wp (delivery_loop fuel env i plan ls) (returned env V i) (stops_sane env) s"
proof (induction fuel arbitrary: t es ls s)
  case 0
  then show ?case using rank_bounds(1) [OF pass_okD(1) [OF 0(1)]] by simp
next
  case (Suc fuel)
  show ?case
    unfolding delivery_loop.simps(2) wp_bind
  proof (rule wp_conseq [OF delivery_turn_wp [OF ok Suc.prems(1,2)]], goal_cases)
    case (1 x s')
    show ?case
    proof (cases x)
      case (NextTurn ls')
      then obtain t' es' where "pass_ok env V i (Some plan) t' es' ls' s'" "lowered t t'" using 1 by auto
      then show ?thesis using Suc.IH Suc.prems(3) NextTurn by (auto simp: lowered_def)
    qed (use 1 in simp_all)
  qed
qed

subsection \<open>The start of a pass\<close>

lemma listed_filed:
  assumes "store_inv (retry_hash env) (rs_artifacts s)" and "list_for_task (retry_hash env) (rs_artifacts s) i = Inr as" and "a \<in> set as"
  shows "filed env i a s"
  using list_for_task_stored [OF assms(1), of i] assms by (auto simp: filed_def get_Inr_iff)

lemma latest_wp:
  assumes "\<And>a. a \<in> set as \<Longrightarrow> filed env i a s"
  shows "wp (latest_artifact as kind ex) (\<lambda>x s'. s' = s \<and> opt_all (\<lambda>a. held env i kind a s) x) (\<lambda>e s'. s' = s \<and> e \<noteq> OutOfFuel) s"
proof -
  have "opt_all (\<lambda>a. held env i kind a s) x" if "latest_accepted_artifact as kind None ex = Inr x" for x
    using that latest_accepted_member [of as kind None ex] assms by (cases x) (auto simp: held_def)
  then show ?thesis by (auto simp: latest_artifact_def split: sum.split)
qed

lemma implementation_wp:
  assumes "\<And>a. a \<in> set as \<Longrightarrow> filed env i a s"
  shows "wp (implementation_for_feedback as source)
     (\<lambda>x s'. s' = s \<and> opt_all (\<lambda>a. held env i AK_IMPLEMENTATION_REPORT a s) x) (\<lambda>e s'. s' = s \<and> e \<noteq> OutOfFuel) s"
proof -
  have found: "opt_all (\<lambda>a. held env i AK_IMPLEMENTATION_REPORT a s)
      (find (\<lambda>a. art_kind a = AK_IMPLEMENTATION_REPORT \<and> P a) as)" (is "opt_all ?held ?x") for P
  proof (cases ?x)
    case (Some a)
    then have "a \<in> set as \<and> art_kind a = AK_IMPLEMENTATION_REPORT" by (auto simp: find_Some_iff)
    with Some assms show ?thesis by (simp add: held_def)
  qed simp
  show ?thesis
    unfolding implementation_for_feedback_def wp_bind
    by (rule wp_conseq [OF latest_wp [OF assms]]) (auto simp: found split: option.split)
qed

lemma wp_read:
  assumes "wp m (\<lambda>x s'. s' = s \<and> P x) (\<lambda>e s'. s' = s \<and> e \<noteq> OutOfFuel) s"
    and "\<And>e. e \<noteq> OutOfFuel \<Longrightarrow> E e s" and "\<And>x. P x \<Longrightarrow> wp (f x) Q E s"
  shows "wp (rbind m f) Q E s"
  unfolding wp_bind by (rule wp_conseq [OF assms(1)]) (use assms(2,3) in auto)

lemma start_delivery_wp:
  assumes cur: "current env s t es" and V: "V \<longrightarrow> t_status t \<noteq> TS_REVIEW"
  shows "wp (start_delivery env t es) (\<lambda>(plan, ls) s'. pass_ok env V (t_id t) plan t es ls s') (stops_sane env) s"
proof -
  let ?E = "stops_sane env"
  have sane: "sane env s" by (rule current_stored(3) [OF cur])
  have stop: "?E e s" if "e \<noteq> OutOfFuel" for e using sane that by (simp add: stops_sane_def)
  have source: "wp (baseline_input env t) (\<lambda>_ s'. s' = s \<and> True) (\<lambda>e s'. s' = s \<and> e \<noteq> OutOfFuel) s"
    by (simp add: baseline_input_def split: option.split)
  have seen: "current env (s\<lparr>rs_seen_run_ids := x\<rparr>) t es" "filed env i a (s\<lparr>rs_seen_run_ids := x\<rparr>) = filed env i a s" for x i a
    using cur by (simp_all add: current_def sane_def at_stage_def fresh_ids_def filed_def)
  show ?thesis
  proof (cases "list_for_task (retry_hash env) (rs_artifacts s) (t_id t)")
    case (Inl e)
    then show ?thesis using stop by (simp add: start_delivery_def artifacts_for_task_def)
  next
    case (Inr as)
    have filed: "\<And>a. a \<in> set as \<Longrightarrow> filed env (t_id t) a s"
      using listed_filed [OF current_stored(5) [OF cur] Inr] .
    have finish: "wp (rbind (rupdate (rs_seen_run_ids_update (\<lambda>_. ids))) (\<lambda>_. rreturn (plan, ls)))
        (\<lambda>(plan, ls) s'. pass_ok env V (t_id t) plan t es ls s') ?E s"
      if "opt_all (\<lambda>a. held env (t_id t) AK_PLAN a s) plan"
        "opt_all (\<lambda>a. held env (t_id t) AK_IMPLEMENTATION_REPORT a s) (ls_implementation ls)"
        "opt_all (\<lambda>a. held env (t_id t) AK_QA_REPORT a s) (ls_qa ls)"
        "opt_all (\<lambda>a. held env (t_id t) AK_REVIEW_REPORT a s) (ls_review ls)" "ls_event_ids ls = map ev_event_id es" for ids plan ls
      using that V seen by (auto simp: pass_ok_def held_def)
    note read = wp_read [where E = ?E and s = s, OF _ stop]
    show ?thesis
      unfolding start_delivery_def artifacts_for_task_def wp_bind [of "rbind _ _"] wp_bind [of "rread _"] wp_state wp_pure Inr sum.case
      by (rule read, rule source, assumption, rule read, rule latest_wp [where kind = AK_PLAN, OF filed], assumption+,
          rule read, rule implementation_wp [OF filed], assumption+,
          rule read, rule latest_wp [where kind = AK_QA_REPORT, OF filed], assumption+,
          rule read, rule latest_wp [where kind = AK_REVIEW_REPORT, OF filed], assumption+)
        (rule finish, simp_all)
  qed
qed

lemma validate_stage_wp:
  assumes inv: "pass_ok env V i plan t es ls s" and t: "t_status t \<notin> {TS_DONE, TS_BLOCKED, TS_FAILED}"
  shows "wp (validate_stage env t ls)
     (\<lambda>(t', ls') s'. \<exists>es'. pass_ok env V i plan t' es' ls' s' \<and> (t_status t' = TS_PLANNING \<or> in_delivery t')) (stops_sane env) s"
proof (cases "t_status t = TS_NEW")
  case True
  then have here: "\<not> t_status t \<noteq> TS_NEW" by simp
  show ?thesis
    unfolding validate_stage_def if_not_P [OF here]
    by (rule reserved_transition_wp [OF inv]) auto
next
  case False
  with inv t show ?thesis by (cases "t_status t") (auto simp: validate_stage_def)
qed

lemma planning_stage_wp:
  assumes ok: "retry_ok env" and inv: "pass_ok env V i plan t es ls s" and t: "t_status t = TS_PLANNING \<or> in_delivery t"
  shows "wp (planning_stage env plan t ls)
     (\<lambda>x s'. case x of
         Inl (plan', ls') \<Rightarrow> \<exists>t' es'. pass_ok env V i plan' t' es' ls' s' \<and> in_delivery t'
       | Inr b \<Rightarrow> stopped_at env i [] [] b s') (stops_sane env) s"
    (is "wp _ ?Q ?E s")
proof (cases "t_status t = TS_PLANNING")
  case False
  with inv t show ?thesis by (auto simp: planning_stage_def)
next
  case True
  then have here: "\<not> t_status t \<noteq> TS_PLANNING" by simp
  have fail: "?E e s" if "e \<noteq> OutOfFuel" for e
    using current_stored(3) [OF pass_okD(1) [OF inv]] that by (simp add: stops_sane_def)
  have planned: "wp (rbind (retry_transition env t1 TS_IMPLEMENTING reason src k arts) (\<lambda>(task', event_id).
      rreturn (Inl (Some p, add_event event_id ls)))) ?Q ?E s1"
    if "pass_ok env V i (Some p) t1 es ls s1" for p t1 s1 reason src k arts
    unfolding wp_bind by (rule pass_transition_wp [OF that]) (auto intro!: exI)
  have fresh: "wp (case x of
        Inr b \<Rightarrow> rreturn (Inr (b\<lparr>bl_event_ids := ls_event_ids ls @ bl_event_ids b\<rparr>))
      | Inl (p, u, k) \<Rightarrow> rbind (retry_transition env u TS_IMPLEMENTING ''plan_validated'' (t_base_ref u) k
          [art_artifact_id p]) (\<lambda>(task', event_id). rreturn (Inl (Some p, add_event event_id ls)))) ?Q ?E s1"
    if x: "ends_with env t es (\<lambda>(p, t', k) s'. quiet (retry_hash env) s s' \<and> current env s' t' es \<and> t_id t' = t_id t \<and>
        t_status t' = t_status t \<and> t_attempts t \<le> t_attempts t' \<and> filed env (t_id t) p s' \<and> art_kind p = AK_PLAN) x s1" for x s1
  proof (cases x)
    case (Inl y)
    obtain p t1 k where y: "y = (p, t1, k)" by (metis prod_cases3)
    have q: "quiet (retry_hash env) s s1" "current env s1 t1 es" "t_id t1 = t_id t" and p: "held env i AK_PLAN p s1"
      using x Inl y pass_okD(2) [OF inv] by (auto simp: held_def)
    have "pass_ok env V i (Some p) t1 es ls s1" using pass_ok_quiet [OF inv q] p by (simp add: pass_ok_def)
    from planned [OF this] show ?thesis by (simp only: Inl y sum.case prod.case)
  next
    case (Inr b)
    then show ?thesis using x pass_okD(2,4) [OF inv] by (auto simp: stopped_at_def)
  qed
  show ?thesis
  proof (cases plan)
    case None
    show ?thesis
      unfolding planning_stage_def if_not_P [OF here] None option.case wp_bind [of "run_planner _ _"]
      by (rule wp_conseq [OF run_planner_wp [OF ok pass_okD(1) [OF inv]] fresh])
  next
    case (Some p)
    show ?thesis
      unfolding planning_stage_def if_not_P [OF here] Some option.case wp_bind [of "retry_validate_plan _ _"]
      by (rule wp_conseq [OF require_wp(6)]) (use planned inv Some fail in \<open>auto simp del: wp_bind\<close>)
  qed
qed

lemma deliver_from_wp:
  assumes ok: "retry_ok env" and inv: "pass_ok env V i plan t es ls s" and t: "t_status t \<notin> {TS_DONE, TS_BLOCKED, TS_FAILED}"
  shows "wp (deliver_from delivery_fuel env t plan ls) (returned env V i) (stops_sane env) s"
proof -
  have loop: "wp (case x of
        Inr b \<Rightarrow> rreturn (Blocked b)
      | Inl (None, ls2) \<Rightarrow> rbind (get_task i) (\<lambda>current. rbind (blocked env current RC_INVALID_OUTPUT BR_PLAN_MISSING k
          (ls_event_ids ls2) [] None) (\<lambda>b. rreturn (Blocked b)))
      | Inl (Some p, ls2) \<Rightarrow> delivery_loop delivery_fuel env i p ls2) (returned env V i) (stops_sane env) s1"
    if x: "case x of
        Inl (plan', ls') \<Rightarrow> \<exists>t' es'. pass_ok env V i plan' t' es' ls' s1 \<and> in_delivery t'
      | Inr b \<Rightarrow> stopped_at env i [] [] b s1" for x s1 k
  proof (cases x)
    case (Inl y)
    obtain plan' ls' where y: "y = (plan', ls')" by (cases y)
    obtain t' es' where t': "pass_ok env V i plan' t' es' ls' s1" "in_delivery t'" using x Inl y by auto
    show ?thesis
    proof (cases plan')
      case None
      show ?thesis
        unfolding Inl y None sum.case prod.case option.case wp_bind get_at [OF pass_okD(1,2) [OF t'(1)]]
        by (rule wp_conseq [OF blocked_wp [OF pass_okD(1) [OF t'(1)]]])
          (use pass_okD [OF t'(1)] in \<open>auto simp: returned_def stopped_at_def\<close>)
    next
      case (Some p)
      show ?thesis
        unfolding Inl y Some sum.case prod.case option.case
        by (rule delivery_loop_wp [OF ok t'(1) [unfolded Some] t'(2) rank_bounds(2) [OF pass_okD(1) [OF t'(1)]]])
    qed
  next
    case (Inr b)
    then show ?thesis using x by (simp add: returned_def)
  qed
  show ?thesis
    unfolding deliver_from_def wp_bind [of "validate_stage _ _ _"]
  proof (rule wp_conseq [OF validate_stage_wp [OF inv t]], goal_cases)
    case (1 y s1)
    obtain t1 ls1 where y: "y = (t1, ls1)" by (cases y)
    obtain es1 where t1: "pass_ok env V i plan t1 es1 ls1 s1" "t_status t1 = TS_PLANNING \<or> in_delivery t1" using 1 y by auto
    show ?case
      unfolding y prod.case wp_bind [of "planning_stage _ _ _ _"] pass_okD(2) [OF t1(1)]
      by (rule wp_conseq [OF planning_stage_wp [OF ok t1] loop])
  qed
qed

lemma recover_attempt_wp:
  assumes cur: "current env s t es"
  shows "wp (recover_attempt env t events)
     (\<lambda>t' s'. current env s' t' es \<and> t_id t' = t_id t \<and> t_status t' = t_status t) (stops_sane env) s"
proof -
  have "wp (rbind (retry_record_attempt env (t_id t) k) (\<lambda>_. get_task (t_id t)))
      (\<lambda>t' s'. current env s' t' es \<and> t_id t' = t_id t \<and> t_status t' = t_status t) (stops_sane env) s" for k
    unfolding wp_bind
  proof (rule record_attempt_wp [OF cur], goal_cases)
    case (1 s' t')
    then show ?case using quiet_successor [OF cur 1(1-3)] by (simp add: get_at [OF 1(2,3)])
  qed (simp add: stops_sane_def)
  with cur show ?thesis by (simp add: recover_attempt_def Let_def)
qed

text \<open>The Task a pass starts from: \<open>V\<close> when it is not already in review.\<close>

definition starts_before_review :: "run_state \<Rightarrow> string \<Rightarrow> bool" where
  "starts_before_review s i \<longleftrightarrow> (\<forall>t. mysql_get (rs_tasks s) i = Inr t \<longrightarrow> t_status t \<noteq> TS_REVIEW)"

lemma get_task_wp:
  assumes "sane env s"
    and "\<And>t es. current env s t es \<Longrightarrow> t_id t = i \<Longrightarrow> mysql_get (rs_tasks s) i = Inr t \<Longrightarrow> Q t s"
  shows "wp (get_task i) Q (stops_sane env) s"
proof (cases "mysql_get (rs_tasks s) i")
  case (Inr t)
  obtain es where "current env s t es" "t_id t = i" using sane_current [OF assms(1) Inr] by blast
  from assms(2) [OF this Inr] show ?thesis using Inr by (simp add: get_task_def)
qed (use assms(1) in \<open>simp add: get_task_def stops_sane_def\<close>)

lemma resume_task_wp:
  assumes ok: "retry_ok env" and sane: "sane env s" and V: "V \<longrightarrow> starts_before_review s i"
  shows "wp (resume_task delivery_fuel env i) (returned env V i) (stops_sane env) s"
  unfolding resume_task_def wp_bind [of "get_task _"]
proof (rule get_task_wp [OF sane], goal_cases)
  case (1 t es)
  let ?E = "stops_sane env"
  have V': "V \<longrightarrow> t_status t \<noteq> TS_REVIEW" using V 1(3) by (auto simp: starts_before_review_def)
  have exhausted: "wp (rbind (blocked env t c r k (map ev_event_id es) arts src) (\<lambda>b. rreturn (Blocked b))) (returned env V i) ?E s"
    for c r k arts src
    unfolding wp_bind by (rule wp_conseq [OF blocked_wp [OF 1(1)]]) (auto simp: returned_def stopped_at_def 1(2))
  have start: "wp (rbind (recover_attempt env t es) (\<lambda>u. rbind (start_delivery env u es) (\<lambda>(plan, ls).
      deliver_from delivery_fuel env u plan ls))) (returned env V i) ?E s"
    if t: "t_status t \<notin> {TS_DONE, TS_BLOCKED, TS_FAILED}"
    unfolding wp_bind [of "recover_attempt _ _ _"]
  proof (rule wp_conseq [OF recover_attempt_wp [OF 1(1)]], goal_cases)
    case (1 u s1)
    then have u: "current env s1 u es" "t_id u = i" "t_status u = t_status t" using \<open>t_id t = i\<close> by simp_all
    show ?case
      unfolding wp_bind
    proof (rule wp_conseq [OF start_delivery_wp [OF u(1), where V = V]], goal_cases)
      case (2 y s2)
      obtain plan ls where y: "y = (plan, ls)" by (cases y)
      show ?case
        unfolding y prod.case by (rule deliver_from_wp [OF ok, where es = es]) (use 2 y t u in auto)
    qed (use V' u in simp_all)
  qed
  have "wp (rguard (t_status t \<notin> {TS_DONE, TS_BLOCKED, TS_FAILED}) TaskNotRunnable)
      (\<lambda>_ s'. s' = s \<and> t_status t \<notin> {TS_DONE, TS_BLOCKED, TS_FAILED}) ?E s"
    using sane by (simp add: stops_sane_def)
  then show ?case
    unfolding wp_bind [of "rguard _ _"]
  proof (rule wp_conseq, goal_cases)
    case (1 x s')
    then show ?case
      unfolding wp_bind [of "get_events _"] get_at(2) [OF \<open>current env s t es\<close> refl]
      using start exhausted get_at(2) [OF \<open>current env s t es\<close> refl] by (auto split: option.split simp del: wp_bind)
  qed
qed

lemma context_capacity_wp:
  assumes sane: "sane env s"
  shows "wp (context_capacity env i) (returned env V i) (stops_sane env) s"
  unfolding context_capacity_def wp_bind [of "get_task _"]
proof (rule get_task_wp [OF sane], goal_cases)
  case (1 t es)
  have stop: "wp (rbind (blocked env t c r k (map ev_event_id es) arts src) (\<lambda>b. rreturn (Blocked b))) (returned env V i) (stops_sane env) s"
    for c r k arts src
    unfolding wp_bind by (rule wp_conseq [OF blocked_wp [OF 1(1)]]) (auto simp: returned_def stopped_at_def 1(2))
  have source: "wp (if t_status t = TS_IMPLEMENTING
        then rbind (current_coder_input (ro_base env) t) (\<lambda>i. rreturn (ci_source_revision i))
        else rreturn (last_source_revision t es)) (\<lambda>_ s'. s' = s) (\<lambda>e s'. s' = s \<and> e \<noteq> OutOfFuel) s"
    using coder_input_reads by simp
  show ?case
    unfolding wp_bind [of "get_events _"] get_at(2) [OF 1(1,2)] wp_bind [of "If _ _ _"]
    by (rule wp_conseq [OF source]) (use stop sane in \<open>auto simp: stops_sane_def simp del: wp_bind\<close>)
qed

lemma retry_run_task_wp:
  assumes ok: "retry_ok env" and sane: "sane env s" and V: "V \<longrightarrow> starts_before_review s i"
  shows "wp (retry_run_task delivery_fuel env i) (returned env V i) (stops_sane env) s"
proof -
  have gate: "wp (case re_gate (ro_base env) of None \<Rightarrow> rreturn ()
      | Some g \<Rightarrow> rbind (get_task i) (\<lambda>task. rguard (tg_begin_task g task) CollaboratorError)) (\<lambda>_ s'. s' = s) (stops_sane env) s"
    using sane by (auto split: option.split intro!: get_task_wp simp: stops_sane_def)
  show ?thesis
    unfolding retry_run_task_def wp_bind
  proof (rule wp_conseq [OF gate], goal_cases)
    case (1 x s')
    then have s': "s' = s" by simp
    show ?case
      unfolding s' wp_catch
      by (rule wp_conseq [OF resume_task_wp [OF ok sane V]])
        (auto simp: stops_sane_def intro!: context_capacity_wp split: option.split runner_error.split)
  qed
qed

end
