(* ===== verification/Retry_Samples.thy ===== *)
theory Retry_Samples
  imports Retry_Runner Delivery_Samples
begin

section \<open>Concrete passes of the retrying orchestrator\<close>

text \<open>
  The collaborators of \<open>Delivery_Samples\<close> under the retrying orchestrator: a pass that delivers, and
  one in which every run of an Agent fails.
\<close>

definition sample_retry :: "runner_env \<Rightarrow> retry_env" where
  "sample_retry env =
     \<lparr>ro_base = env, ro_interruption = None, ro_wait = None, ro_reservation = None, ro_text = (\<lambda>_. ''stopped'')\<rparr>"

definition failed_answer :: "AgentRequest \<Rightarrow> AgentResult" where
  "failed_answer rq =
     (answer rq)\<lparr>ag_status := RS_FAILED, ag_artifact := None,
                  ag_error := Some \<lparr>fl_code = AE_PROVIDER_ERROR, fl_message = ''m'', fl_transient = False\<rparr>\<rparr>"

definition failing_env :: runner_env where
  "failing_env = (sample_env None)\<lparr>re_adapter :=
     (\<lambda>n rq. if valid_AgentResult (failed_answer rq) then Inr (failed_answer rq) else Inl CE_OTHER)\<rparr>"

definition retry_ids :: "(runner_error + RetryResult) \<times> run_state \<Rightarrow> string list" where
  "retry_ids out = (case fst out of Inr (Delivered d) \<Rightarrow> rd_artifact_ids d | _ \<Rightarrow> [])"

definition retry_reason :: "(runner_error + RetryResult) \<times> run_state \<Rightarrow> RetryClassification option" where
  "retry_reason out = (case fst out of Inr (Blocked b) \<Rightarrow> Some (bl_classification b) | _ \<Rightarrow> None)"

lemma retry_delivers:
  "retry_ids (retry_run_task delivery_fuel (sample_retry (sample_env None)) ''task_a01'' sample_start) =
     [''art_plan'', ''art_impl'', ''art_qa01'', ''art_rev1'']"
  unfolding sample_start_def created_store_def by code_simp

lemma retry_blocks:
  "retry_reason (retry_run_task delivery_fuel (sample_retry failing_env) ''task_a01'' sample_start) = Some RC_NONTRANSIENT_INFRA"
  unfolding sample_start_def created_store_def by code_simp

end
