(* ===== verification/Retry_Properties.thy ===== *)
theory Retry_Properties
  imports Retry_Delivery Delivery_Properties Retry_Samples
begin

section \<open>What a retried delivery promises\<close>

text \<open>
  The properties of \<^verbatim>\<open>RetryingOrchestrator.run_task\<close> as a whole, for a Task at any status, and the
  accounting of transient failures that its budgets rest on.
\<close>

lemma failing_env_valid: "env_valid failing_env"
  by (auto simp: env_valid_def failing_env_def sample_env_def split: if_splits)

lemma no_journal: "re_invocation (sample_env None) = None" "re_invocation failing_env = None"
  by (simp_all add: sample_env_def failing_env_def)

lemma sample_retry_ok: "retry_ok (sample_retry (sample_env None))" "retry_ok (sample_retry failing_env)"
  by (simp_all add: retry_ok_def sample_retry_def interruption_ok_def journal_ok_def no_journal
      sample_env_valid(1) failing_env_valid)

lemma sample_start_events: "ts_events (rs_tasks sample_start) = []"
  unfolding sample_start_def created_store_def by code_simp

lemma sample_sane: "sane (sample_retry (sample_env None)) sample_start" "sane (sample_retry failing_env) sample_start"
  using sample_start_inv
  by (auto simp: sane_def sample_retry_def fresh_ids_def sample_start_events sample_env_def failing_env_def)

lemma sample_starts_new: "starts_before_review sample_start ''task_a01''"
  unfolding starts_before_review_def sample_start_get by (simp add: sample_task_def)

text \<open>
  C4. A retried delivery is verified. Whatever status the Task had, however often runs failed, findings
  went back to the Coder or the Coder asked for a continuation: when the pass returns a delivery, the
  stored Task is \<open>DONE\<close>, its log ends in the step from \<open>REVIEW\<close> to \<open>DONE\<close> that names the four delivered
  Artifacts, and these are stored Artifacts of the Task. The implementation report commits the delivered
  revision, the review approves that revision on top of the QA report, and the events of the result are
  the whole log. Unless the pass began in review, that QA report passed this implementation at that
  revision.
\<close>

theorem retry_delivery_verified:
  assumes "sane env s" and "retry_ok env"
    and "retry_run_task delivery_fuel env task_id s = (Inr (Delivered d), s')"
  shows "\<exists>es e p im q r.
     mysql_get (rs_tasks s') task_id = Inr (rd_task d) \<and> t_status (rd_task d) = TS_DONE \<and>
     mysql_list_events (rs_tasks s') task_id = Inr (es @ [e]) \<and> rd_event_ids d = map ev_event_id (es @ [e]) \<and>
     ev_from_status e = TS_REVIEW \<and> ev_to_status e = TS_DONE \<and> ev_artifact_ids e = map art_artifact_id [p, im, q, r] \<and>
     rd_artifact_ids d = map art_artifact_id [p, im, q, r] \<and>
     (\<forall>(a, kind) \<in> {(p, AK_PLAN), (im, AK_IMPLEMENTATION_REPORT), (q, AK_QA_REPORT), (r, AK_REVIEW_REPORT)}.
        artifact_get (re_hash (ro_base env)) (rs_artifacts s') (art_artifact_id a) = Inr a \<and>
        art_task_id a = task_id \<and> art_kind a = kind) \<and>
     commit_sha_of im = Some (rd_candidate_revision d) \<and> art_source_revision r = rd_candidate_revision d \<and>
     art_parent_artifact_ids r = [art_artifact_id q] \<and> verdict_of r = Some RV_APPROVE \<and>
     (starts_before_review s task_id \<longrightarrow>
        art_parent_artifact_ids q = [art_artifact_id im] \<and> art_source_revision q = rd_candidate_revision d \<and>
        qa_status_of q = Some QR_PASS)"
proof -
  have "delivered_as env (starts_before_review s task_id) task_id d s'"
    using retry_run_task_wp [OF assms(2,1), of "starts_before_review s task_id" task_id] assms(3)
    by (simp add: wp_def returned_def)
  then obtain es e p im q r where D: "current env s' (rd_task d) (es @ [e])" "t_id (rd_task d) = task_id"
      "t_status (rd_task d) = TS_DONE" "rd_event_ids d = map ev_event_id (es @ [e])"
      "ev_from_status e = TS_REVIEW" "ev_to_status e = TS_DONE" "ev_artifact_ids e = rd_artifact_ids d"
      "rd_artifact_ids d = map art_artifact_id [p, im, q, r]"
      "held env task_id AK_PLAN p s'" "held env task_id AK_IMPLEMENTATION_REPORT im s'" "held env task_id AK_QA_REPORT q s'"
      "held env task_id AK_REVIEW_REPORT r s'" "commit_sha_of im = Some (rd_candidate_revision d)"
      "art_source_revision r = rd_candidate_revision d" "art_parent_artifact_ids r = [art_artifact_id q]"
      "verdict_of r = Some RV_APPROVE" "starts_before_review s task_id \<longrightarrow> verified im q"
    unfolding delivered_as_def by blast
  show ?thesis
    by (rule exI [of _ es], rule exI [of _ e], rule exI [of _ p], rule exI [of _ im], rule exI [of _ q], rule exI [of _ r])
      (use D current_stored(1,2) [OF D(1)] in \<open>auto simp: held_def filed_def verified_def\<close>)
qed

theorem retry_delivery_verified_witness:
  "\<exists>d s' es. retry_run_task delivery_fuel (sample_retry (sample_env None)) ''task_a01'' sample_start = (Inr (Delivered d), s') \<and>
     mysql_get (rs_tasks s') ''task_a01'' = Inr (rd_task d) \<and> t_status (rd_task d) = TS_DONE \<and>
     mysql_list_events (rs_tasks s') ''task_a01'' = Inr es \<and> rd_event_ids d = map ev_event_id es"
proof -
  obtain x s' where r: "retry_run_task delivery_fuel (sample_retry (sample_env None)) ''task_a01'' sample_start = (x, s')" by fastforce
  with retry_delivers obtain d where x: "x = Inr (Delivered d)"
    by (auto simp: retry_ids_def split: sum.splits RetryResult.splits)
  show ?thesis
    using retry_delivery_verified [OF sample_sane(1) sample_retry_ok(1) r [unfolded x]] r x by blast
qed

text \<open>
  C39. A stopped pass is recorded. When the pass returns a blocked result, whatever stopped it (a
  failed run, an exhausted budget, findings, a knowledge failure, an inconsistent Task), the Task of
  the result is the stored Task, it is \<open>BLOCKED\<close> or \<open>FAILED\<close>, and the events of the result are its
  whole stored log in order.
\<close>

theorem retry_stops_recorded:
  assumes "sane env s" and "retry_ok env"
    and "retry_run_task delivery_fuel env task_id s = (Inr (Blocked b), s')"
  shows "mysql_get (rs_tasks s') task_id = Inr (bl_task b) \<and> t_status (bl_task b) \<in> {TS_BLOCKED, TS_FAILED} \<and>
     (\<exists>es. mysql_list_events (rs_tasks s') task_id = Inr es \<and> bl_event_ids b = map ev_event_id es)"
proof -
  have "stopped_at env task_id [] [] b s'"
    using retry_run_task_wp [OF assms(2,1), of False task_id] assms(3) by (simp add: wp_def returned_def)
  then show ?thesis using current_stored(1,2) by (fastforce simp: stopped_at_def)
qed

theorem retry_stops_recorded_witness:
  "\<exists>b s'. retry_run_task delivery_fuel (sample_retry failing_env) ''task_a01'' sample_start = (Inr (Blocked b), s') \<and>
     mysql_get (rs_tasks s') ''task_a01'' = Inr (bl_task b) \<and> t_status (bl_task b) \<in> {TS_BLOCKED, TS_FAILED}"
proof -
  obtain x s' where r: "retry_run_task delivery_fuel (sample_retry failing_env) ''task_a01'' sample_start = (x, s')" by fastforce
  with retry_blocks obtain b where x: "x = Inr (Blocked b)"
    by (auto simp: retry_reason_def split: sum.splits RetryResult.splits)
  show ?thesis using retry_stops_recorded [OF sample_sane(2) sample_retry_ok(2) r [unfolded x]] r x by blast
qed

text \<open>
  C5. The loops of the retrying orchestrator end. With the fuel of the model, which the attempts of a
  Task bound, no pass runs out of fuel: it returns a result or raises an exception of the code, and
  either way, in the state it leaves, the Task repository and the Artifact store keep their invariants.
\<close>

theorem retry_terminates:
  assumes "sane env s" and "retry_ok env"
  shows "case retry_run_task delivery_fuel env task_id s of (out, s') \<Rightarrow>
     out \<noteq> Inl OutOfFuel \<and> repo_inv (rs_tasks s') \<and> store_inv (re_hash (ro_base env)) (rs_artifacts s')"
proof -
  have "sane env s'" if "returned env False task_id r s'" for r s'
    using that by (cases r) (auto simp: returned_def delivered_as_def stopped_at_def current_def)
  then show ?thesis
    using retry_run_task_wp [OF assms(2,1), of False task_id]
    by (auto simp: wp_def stops_sane_def sane_def split: prod.splits sum.splits)
qed

theorem retry_terminates_witness:
  "fst (retry_run_task delivery_fuel (sample_retry failing_env) ''task_a01'' sample_start) \<noteq> Inl OutOfFuel \<and>
   repo_inv (rs_tasks (snd (retry_run_task delivery_fuel (sample_retry failing_env) ''task_a01'' sample_start)))"
  using retry_terminates [OF sample_sane(2) sample_retry_ok(2), of "''task_a01''"] by (auto split: prod.splits)

subsection \<open>Transient failures\<close>

lemma count_below: "\<forall>f \<in> set fs. rf_attempt f < n \<Longrightarrow> length (filter (\<lambda>f. rf_attempt f < n) fs) = length fs"
  by (induction fs) auto

lemma find_snoc: "rf_attempt f \<notin> rf_attempt ` set fs \<Longrightarrow> find (\<lambda>g. rf_attempt g = rf_attempt f) (fs @ [f]) = Some f"
  by (induction fs) auto

lemma valid_failures:
  assumes "valid_Task t"
  shows "\<forall>f \<in> set (failures t). rf_attempt f \<le> t_attempts t"
    and "t_retry_policy t = Some rp \<Longrightarrow> transient_failures t (agent_role r) \<le> delivery_limit rp r"
proof -
  have inv: "validate_task_invariants t" using assms by (simp add: valid_Task_def)
  then show "\<forall>f \<in> set (failures t). rf_attempt f \<le> t_attempts t"
    by (auto simp: validate_task_invariants_def failures_def list_ex_iff not_less split: option.splits)
  show "transient_failures t (agent_role r) \<le> delivery_limit rp r" if rp: "t_retry_policy t = Some rp"
  proof (cases "t_retry_failures t")
    case None
    then show ?thesis
      using delivery_limit_bounds [of rp r] assms rp by (auto simp: transient_failures_def failures_def valid_Task_def)
  next
    case (Some fs)
    then show ?thesis using inv rp by (cases r) (auto simp: validate_task_invariants_def)
  qed
qed

lemma append_retry_failure_work:
  assumes "\<forall>f \<in> set (failures t). rf_attempt f < t_attempts t" and "rf_attempt f = t_attempts t"
  shows "work_attempt (append_retry_failure t f cnt limit) = work_attempt t"
proof -
  have "length (filter (\<lambda>f. rf_attempt f < t_attempts t) (failures t)) = length (failures t)"
    by (rule count_below [OF assms(1)])
  moreover have "length (filter (\<lambda>f. rf_attempt f < t_attempts t + 1) (failures t)) = length (failures t)"
    by (rule count_below) (use assms(1) in auto)
  ultimately show ?thesis
    using assms(2) by (simp add: work_attempt_def append_retry_failure_def failures_def)
qed

text \<open>
  C40. Infrastructure failures do not use up work. Recording a transient failure keeps the Task valid and
  leaves its work attempt, and so whether its work budget is exhausted, as it was: the execution attempt it
  reserves is not charged. The failures of each role stay within that role's own limit, at most one new
  attempt is reserved, and recording the same failure again changes nothing.
\<close>

theorem transient_failures_spare_work:
  assumes "valid_Task t" and "with_retry_failure t f = Inr t'"
  shows "valid_Task t' \<and> work_attempt t' = work_attempt t \<and> work_budget_exhausted t' = work_budget_exhausted t \<and>
     t_attempts t \<le> t_attempts t' \<and> t_attempts t' \<le> t_attempts t + 1 \<and>
     (\<forall>rp r. t_retry_policy t = Some rp \<longrightarrow> transient_failures t' (agent_role r) \<le> delivery_limit rp r) \<and>
     with_retry_failure t' f = Inr t'"
  using assms(2)
proof (cases rule: with_retry_failure_cases)
  case replay
  then show ?thesis using assms valid_failures(2) [OF assms(1)] by auto
next
  case (fresh rp)
  have "\<forall>g \<in> set (failures t). rf_attempt g < t_attempts t"
    using valid_failures(1) [OF assms(1)] fresh(3,4) by force
  note work = append_retry_failure_work [OF this fresh(3)]
  have same: "t_retry_policy t' = t_retry_policy t" "t_max_attempts t' = t_max_attempts t"
    and attempts: "t_attempts t \<le> t_attempts t'" "t_attempts t' \<le> t_attempts t + 1"
    and log: "failures t' = failures t @ [f]"
    by (simp_all add: fresh(6) append_retry_failure_def failures_def)
  have "work_attempt t' = work_attempt t" using work fresh(6) by simp
  moreover from this have "work_budget_exhausted t' = work_budget_exhausted t" by (simp add: work_budget_exhausted_def same cong: option.case_cong)
  moreover have "find (\<lambda>g. rf_attempt g = rf_attempt f) (failures t') = Some f"
    unfolding log using fresh(4) by (rule find_snoc)
  then have "with_retry_failure t' f = Inr t'" by (simp add: with_retry_failure_def)
  ultimately show ?thesis using fresh(7) attempts valid_failures(2) [OF fresh(7)] same by auto
qed

definition budgeted_task :: Task where
  "budgeted_task = (sample_task TS_IMPLEMENTING 0)\<lparr>t_attempts := 1, t_max_attempts := 5,
     t_retry_policy := Some \<lparr>max_work_attempts = 1, drp_coder = \<lparr>max_transient_failures = 2\<rparr>,
       drp_qa = \<lparr>max_transient_failures = 1\<rparr>, drp_reviewer = \<lparr>max_transient_failures = 1\<rparr>\<rparr>\<rparr>"

definition sample_failure :: DeliveryRetryFailure where
  "sample_failure = \<lparr>rf_role = DR_CODER, rf_attempt = 1, rf_code = TC_TIMEOUT, rf_run_id = None\<rparr>"

lemma sample_recorded: "valid_Task budgeted_task" "\<not> isl (with_retry_failure budgeted_task sample_failure)"
  by code_simp+

theorem transient_failures_spare_work_witness:
  "\<exists>t'. with_retry_failure budgeted_task sample_failure = Inr t' \<and> work_attempt t' = work_attempt budgeted_task"
proof -
  obtain t' where r: "with_retry_failure budgeted_task sample_failure = Inr t'"
    using sample_recorded(2) by (cases "with_retry_failure budgeted_task sample_failure") auto
  then show ?thesis using transient_failures_spare_work [OF sample_recorded(1) r] by auto
qed

end
