(* ===== verification/Stage_Domain.thy ===== *)
theory Stage_Domain
  imports Workforce Execution_Window
begin

section \<open>Stage documents\<close>

text \<open>
  \<^verbatim>\<open>domain/project_delivery.py\<close>, the data: the documents that lead from a product request to a
  Delivery Task (preparation, request, ProductSpec, approval, TechnicalDesign, ExecutionPlan) with
  their field constraints and validators, and the work graph of a plan. The operations on them are
  in the theory \<open>Stage_Contracts\<close>. A field with one literal value (\<open>kind\<close>, \<open>schema_version\<close> and the
  statuses \<open>PREPARED\<close>, \<open>READY_FOR_PLANNING\<close>, \<open>READY_FOR_DISPATCH\<close>) is left out.
\<close>

subsection \<open>Paths\<close>

text \<open>
  \<open>pathlib.PurePosixPath\<close>: the root (empty, one slash, or exactly two) and the parts that are
  neither empty nor a single dot.
\<close>

record py_path =
  path_root :: string
  path_segments :: "string list"

fun path_segments_of :: "string \<Rightarrow> string \<Rightarrow> string list" where
  "path_segments_of acc [] = (if acc = [] \<or> acc = ''.'' then [] else [acc])"
| "path_segments_of acc (c # cs) =
     (if c = CHR ''/''
      then (if acc = [] \<or> acc = ''.'' then path_segments_of [] cs else acc # path_segments_of [] cs)
      else path_segments_of (acc @ [c]) cs)"

definition parse_path :: "string \<Rightarrow> py_path" where
  "parse_path s =
     \<lparr>path_root =
        (if take 1 s \<noteq> ''/'' then []
         else if take 2 s = ''//'' \<and> take 3 s \<noteq> ''///'' then ''//'' else ''/''),
      path_segments = path_segments_of [] s\<rparr>"

fun join_segments :: "string list \<Rightarrow> string" where
  "join_segments [] = []"
| "join_segments [p] = p"
| "join_segments (p # q # ps) = p @ ''/'' @ join_segments (q # ps)"

definition path_text :: "py_path \<Rightarrow> string" where
  "path_text p =
     (let t = path_root p @ join_segments (path_segments p) in if t = [] then ''.'' else t)"

definition is_absolute :: "py_path \<Rightarrow> bool" where
  "is_absolute p \<longleftrightarrow> path_root p \<noteq> []"

definition is_relative_to :: "py_path \<Rightarrow> py_path \<Rightarrow> bool" where
  "is_relative_to p q \<longleftrightarrow>
     path_root p = path_root q \<and>
     take (length (path_segments q)) (path_segments p) = path_segments q"

definition paths_overlap :: "py_path \<Rightarrow> py_path \<Rightarrow> bool" where
  "paths_overlap left right \<longleftrightarrow> left = right \<or> is_relative_to left right \<or> is_relative_to right left"

subsection \<open>Identifiers\<close>

definition valid_StageSha256 :: "string \<Rightarrow> bool" where
  "valid_StageSha256 = match_hex 64 64"

definition valid_TeamId :: "string \<Rightarrow> bool" where
  "valid_TeamId = match_id ''team_'' 1 63"

definition valid_ProjectId :: "string \<Rightarrow> bool" where
  "valid_ProjectId = match_id ''project_'' 2 63"

definition valid_ProjectRequestId :: "string \<Rightarrow> bool" where
  "valid_ProjectRequestId = match_id ''request_'' 2 63"

definition valid_ProductSpecId :: "string \<Rightarrow> bool" where
  "valid_ProductSpecId = match_id ''product_spec_'' 2 63"

definition valid_ProductApprovalId :: "string \<Rightarrow> bool" where
  "valid_ProductApprovalId s \<longleftrightarrow>
     take 17 s = ''product_approval_'' \<and> match_hex 64 64 (drop 17 s)"

definition valid_TechnicalDesignId :: "string \<Rightarrow> bool" where
  "valid_TechnicalDesignId = match_id ''technical_design_'' 2 63"

definition valid_ExecutionPlanId :: "string \<Rightarrow> bool" where
  "valid_ExecutionPlanId = match_id ''execution_plan_'' 2 63"

definition valid_RequirementId :: "string \<Rightarrow> bool" where
  "valid_RequirementId = match_id ''req_'' 1 63"

definition valid_DecisionId :: "string \<Rightarrow> bool" where
  "valid_DecisionId = match_id ''decision_'' 1 63"

definition valid_DesignComponentId :: "string \<Rightarrow> bool" where
  "valid_DesignComponentId = match_id ''component_'' 1 63"

definition valid_DesignStepId :: "string \<Rightarrow> bool" where
  "valid_DesignStepId = match_id ''design_step_'' 1 63"

definition valid_DesignRiskId :: "string \<Rightarrow> bool" where
  "valid_DesignRiskId = match_id ''design_risk_'' 1 63"

definition valid_PlanPhaseId :: "string \<Rightarrow> bool" where
  "valid_PlanPhaseId = match_id ''phase_'' 1 63"

datatype ProjectRequestStatus =
    PRS_PRODUCT_DISCOVERY | PRS_WAITING_PRODUCT_APPROVAL | PRS_DESIGNING | PRS_PLANNING
  | PRS_READY_FOR_DELIVERY | PRS_DELIVERING | PRS_REPORTING | PRS_DONE | PRS_WAITING_HUMAN
  | PRS_BLOCKED

datatype ProductSpecStatus = PSS_DRAFT | PSS_READY_FOR_REVIEW

datatype ProductApprovalDecision = PAD_APPROVED | PAD_REQUEST_CHANGES

datatype RequirementPriority = RP_MUST | RP_SHOULD | RP_COULD

subsection \<open>Preparation and request\<close>

record RepositoryPreparation =
  prep_team_id :: string
  prep_project_id :: string
  prep_project_manifest_sha256 :: string
  prep_repository_id :: string
  prep_repository_root :: string
  prep_repository_workspace_root :: string
  prep_team_root :: string
  prep_repository_profile_sha256 :: string
  prep_runtime_binding_sha256 :: string
  prep_baseline_spec_sha256 :: string
  prep_baseline_source_uris :: "string list"
  prep_prepared_at :: instant
  prep_preparation_sha256 :: string

fun any_overlap :: "py_path list \<Rightarrow> bool" where
  "any_overlap [] = False"
| "any_overlap (p # ps) \<longleftrightarrow> list_ex (paths_overlap p) ps \<or> any_overlap ps"

definition validate_preparation :: "RepositoryPreparation \<Rightarrow> bool" where
  "validate_preparation p \<longleftrightarrow>
     (let roots = map parse_path
            [prep_repository_root p, prep_repository_workspace_root p, prep_team_root p] in
      \<not> list_ex (\<lambda>root. \<not> is_absolute root) roots \<and> \<not> any_overlap roots \<and>
      ensure_unique (prep_baseline_source_uris p))"

definition valid_RepositoryPreparation :: "RepositoryPreparation \<Rightarrow> bool" where
  "valid_RepositoryPreparation p \<longleftrightarrow>
     valid_TeamId (prep_team_id p) \<and> valid_ProjectId (prep_project_id p) \<and>
     valid_StageSha256 (prep_project_manifest_sha256 p) \<and> valid_RepositoryId (prep_repository_id p) \<and>
     non_empty (prep_repository_root p) \<and> non_empty (prep_repository_workspace_root p) \<and>
     non_empty (prep_team_root p) \<and> valid_StageSha256 (prep_repository_profile_sha256 p) \<and>
     valid_StageSha256 (prep_runtime_binding_sha256 p) \<and> valid_StageSha256 (prep_baseline_spec_sha256 p) \<and>
     list_all non_empty (prep_baseline_source_uris p) \<and> valid_StageSha256 (prep_preparation_sha256 p) \<and>
     validate_preparation p"

record ProjectRequest =
  req_id :: string
  req_repository_id :: string
  req_preparation_sha256 :: string
  req_title :: string
  req_original_request :: string
  req_status :: ProjectRequestStatus
  req_created_at :: instant
  req_updated_at :: instant
  req_request_sha256 :: string

definition valid_ProjectRequest :: "ProjectRequest \<Rightarrow> bool" where
  "valid_ProjectRequest r \<longleftrightarrow>
     valid_ProjectRequestId (req_id r) \<and> valid_RepositoryId (req_repository_id r) \<and>
     valid_StageSha256 (req_preparation_sha256 r) \<and>
     1 \<le> length (req_title r) \<and> length (req_title r) \<le> 200 \<and> non_empty (req_original_request r) \<and>
     valid_StageSha256 (req_request_sha256 r) \<and> \<not> req_updated_at r < req_created_at r"

subsection \<open>The ProductSpec and its approval\<close>

record ProductRequirement =
  pq_id :: string
  pq_statement :: string
  pq_priority :: RequirementPriority
  pq_rationale :: string
  pq_acceptance_criterion_ids :: "string list"

definition valid_ProductRequirement :: "ProductRequirement \<Rightarrow> bool" where
  "valid_ProductRequirement r \<longleftrightarrow>
     valid_RequirementId (pq_id r) \<and> non_empty (pq_statement r) \<and> non_empty (pq_rationale r) \<and>
     list_all valid_AcceptanceCriterionId (pq_acceptance_criterion_ids r) \<and>
     pq_acceptance_criterion_ids r \<noteq> [] \<and> ensure_unique (pq_acceptance_criterion_ids r)"

record ProductDecision =
  pdn_id :: string
  pdn_question :: string
  pdn_decision :: string
  pdn_rationale :: string
  pdn_decided_by :: string
  pdn_decided_at :: instant

definition valid_ProductDecision :: "ProductDecision \<Rightarrow> bool" where
  "valid_ProductDecision d \<longleftrightarrow>
     valid_DecisionId (pdn_id d) \<and> non_empty (pdn_question d) \<and> non_empty (pdn_decision d) \<and>
     non_empty (pdn_rationale d) \<and> non_empty (pdn_decided_by d)"

record ProductSpec =
  spec_id :: string
  spec_request_id :: string
  spec_repository_id :: string
  spec_version :: int
  spec_status :: ProductSpecStatus
  spec_summary :: string
  spec_branch_name :: "string option"
  spec_goals :: "string list"
  spec_non_goals :: "string list"
  spec_requirements :: "ProductRequirement list"
  spec_acceptance_criteria :: "AcceptanceCriterion list"
  spec_assumptions :: "string list"
  spec_open_questions :: "string list"
  spec_decisions :: "ProductDecision list"
  spec_supersedes :: "string option"
  spec_created_at :: instant
  spec_product_spec_sha256 :: string

definition validate_product_spec :: "ProductSpec \<Rightarrow> bool" where
  "validate_product_spec s \<longleftrightarrow>
     ensure_unique (spec_goals s) \<and> ensure_unique (spec_non_goals s) \<and>
     ensure_unique (map pq_id (spec_requirements s)) \<and>
     ensure_unique (map ac_id (spec_acceptance_criteria s)) \<and>
     ensure_unique (spec_assumptions s) \<and> ensure_unique (spec_open_questions s) \<and>
     ensure_unique (map pdn_id (spec_decisions s)) \<and>
     (let known = set (map ac_id (spec_acceptance_criteria s));
          referenced = set (concat (map pq_acceptance_criterion_ids (spec_requirements s))) in
      referenced - known = {} \<and> known - referenced = {}) \<and>
     spec_supersedes s \<noteq> Some (spec_id s)"

definition valid_ProductSpec :: "ProductSpec \<Rightarrow> bool" where
  "valid_ProductSpec s \<longleftrightarrow>
     valid_ProductSpecId (spec_id s) \<and> valid_ProjectRequestId (spec_request_id s) \<and>
     valid_RepositoryId (spec_repository_id s) \<and> 1 \<le> spec_version s \<and> non_empty (spec_summary s) \<and>
     opt_all valid_BranchName (spec_branch_name s) \<and>
     list_all non_empty (spec_goals s) \<and> spec_goals s \<noteq> [] \<and> list_all non_empty (spec_non_goals s) \<and>
     list_all valid_ProductRequirement (spec_requirements s) \<and> spec_requirements s \<noteq> [] \<and>
     list_all valid_AcceptanceCriterion (spec_acceptance_criteria s) \<and>
     spec_acceptance_criteria s \<noteq> [] \<and> list_all non_empty (spec_assumptions s) \<and>
     list_all non_empty (spec_open_questions s) \<and> list_all valid_ProductDecision (spec_decisions s) \<and>
     opt_all valid_ProductSpecId (spec_supersedes s) \<and>
     valid_StageSha256 (spec_product_spec_sha256 s) \<and> validate_product_spec s"

record ProductSpecApproval =
  appr_id :: string
  appr_request_id :: string
  appr_repository_id :: string
  appr_product_spec_id :: string
  appr_product_spec_sha256 :: string
  appr_decision :: ProductApprovalDecision
  appr_operator_id :: string
  appr_rationale :: string
  appr_decided_at :: instant
  appr_approval_sha256 :: string

definition valid_ProductSpecApproval :: "ProductSpecApproval \<Rightarrow> bool" where
  "valid_ProductSpecApproval a \<longleftrightarrow>
     valid_ProductApprovalId (appr_id a) \<and> valid_ProjectRequestId (appr_request_id a) \<and>
     valid_RepositoryId (appr_repository_id a) \<and> valid_ProductSpecId (appr_product_spec_id a) \<and>
     valid_StageSha256 (appr_product_spec_sha256 a) \<and> non_empty (appr_operator_id a) \<and>
     non_empty (appr_rationale a) \<and> valid_StageSha256 (appr_approval_sha256 a)"

subsection \<open>The TechnicalDesign\<close>

record DesignComponent =
  dc_id :: string
  dc_name :: string
  dc_responsibility :: string
  dc_affected_paths :: "string list"

definition valid_DesignComponent :: "DesignComponent \<Rightarrow> bool" where
  "valid_DesignComponent c \<longleftrightarrow>
     valid_DesignComponentId (dc_id c) \<and> non_empty (dc_name c) \<and> non_empty (dc_responsibility c) \<and>
     list_all non_empty (dc_affected_paths c) \<and> ensure_unique (dc_affected_paths c)"

record RequirementDesignMapping =
  rdm_requirement_id :: string
  rdm_component_ids :: "string list"
  rdm_approach :: string

definition valid_RequirementDesignMapping :: "RequirementDesignMapping \<Rightarrow> bool" where
  "valid_RequirementDesignMapping m \<longleftrightarrow>
     valid_RequirementId (rdm_requirement_id m) \<and>
     list_all valid_DesignComponentId (rdm_component_ids m) \<and> rdm_component_ids m \<noteq> [] \<and>
     non_empty (rdm_approach m) \<and> ensure_unique (rdm_component_ids m)"

record AcceptanceDesignMapping =
  adm_acceptance_criterion_id :: string
  adm_verification_strategy :: string
  adm_test_levels :: "string list"
  adm_verification_argv :: "string list option"
  adm_planned_test_files :: "string list option"
  adm_verification_inspection :: "PlannedVerificationInspection option"
  adm_controlled_capability_kind :: "string option"

text \<open>The rule the two \<^verbatim>\<open>validate_verification_entry\<close> validators share.\<close>

definition validate_verification_entry ::
  "string list option \<Rightarrow> PlannedVerificationInspection option \<Rightarrow> string list \<Rightarrow> bool" where
  "validate_verification_entry argv inspection levels \<longleftrightarrow>
     \<not> (argv \<noteq> None \<and> inspection \<noteq> None) \<and>
     (case inspection of None \<Rightarrow> True | Some i \<Rightarrow> validate_inspection_levels i levels)"

definition valid_AcceptanceDesignMapping :: "AcceptanceDesignMapping \<Rightarrow> bool" where
  "valid_AcceptanceDesignMapping m \<longleftrightarrow>
     valid_AcceptanceCriterionId (adm_acceptance_criterion_id m) \<and>
     non_empty (adm_verification_strategy m) \<and> list_all non_empty (adm_test_levels m) \<and>
     adm_test_levels m \<noteq> [] \<and> opt_all (list_all non_empty) (adm_verification_argv m) \<and>
     opt_all (list_all non_empty) (adm_planned_test_files m) \<and>
     opt_all valid_PlannedVerificationInspection (adm_verification_inspection m) \<and>
     opt_all non_empty (adm_controlled_capability_kind m) \<and>
     ensure_unique (adm_test_levels m) \<and>
     validate_verification_entry (adm_verification_argv m) (adm_verification_inspection m) (adm_test_levels m)"

record DesignStep =
  ds_id :: string
  ds_description :: string
  ds_component_ids :: "string list"
  ds_verification :: string

definition valid_DesignStep :: "DesignStep \<Rightarrow> bool" where
  "valid_DesignStep s \<longleftrightarrow>
     valid_DesignStepId (ds_id s) \<and> non_empty (ds_description s) \<and>
     list_all valid_DesignComponentId (ds_component_ids s) \<and> ds_component_ids s \<noteq> [] \<and>
     non_empty (ds_verification s) \<and> ensure_unique (ds_component_ids s)"

record DesignRisk =
  dk_id :: string
  dk_description :: string
  dk_tier :: RiskTier
  dk_mitigation :: string

definition valid_DesignRisk :: "DesignRisk \<Rightarrow> bool" where
  "valid_DesignRisk r \<longleftrightarrow>
     valid_DesignRiskId (dk_id r) \<and> non_empty (dk_description r) \<and> non_empty (dk_mitigation r)"

record DesignComplexityFacts =
  dx_database_migration :: bool
  dx_interface_compatibility :: bool
  dx_data_backfill :: bool
  dx_security :: bool
  dx_performance :: bool
  dx_concurrency :: bool
  dx_work_package_dependencies :: bool
  dx_integration_groups :: "string list"

text \<open>The defaults, \<open>DesignComplexityFacts()\<close>.\<close>

definition default_complexity :: DesignComplexityFacts where
  "default_complexity =
     \<lparr>dx_database_migration = False, dx_interface_compatibility = False, dx_data_backfill = False,
      dx_security = False, dx_performance = False, dx_concurrency = False,
      dx_work_package_dependencies = False, dx_integration_groups = []\<rparr>"

record TechnicalDesign =
  dsn_id :: string
  dsn_request_id :: string
  dsn_repository_id :: string
  dsn_product_spec_id :: string
  dsn_product_spec_sha256 :: string
  dsn_product_approval_id :: string
  dsn_version :: int
  dsn_summary :: string
  dsn_components :: "DesignComponent list"
  dsn_requirement_mappings :: "RequirementDesignMapping list"
  dsn_acceptance_mappings :: "AcceptanceDesignMapping list"
  dsn_implementation_steps :: "DesignStep list"
  dsn_risks :: "DesignRisk list"
  dsn_complexity_facts :: "DesignComplexityFacts option"
  dsn_created_at :: instant
  dsn_technical_design_sha256 :: string

definition validate_design :: "TechnicalDesign \<Rightarrow> bool" where
  "validate_design d \<longleftrightarrow>
     ensure_unique (map dc_id (dsn_components d)) \<and>
     ensure_unique (map rdm_requirement_id (dsn_requirement_mappings d)) \<and>
     ensure_unique (map adm_acceptance_criterion_id (dsn_acceptance_mappings d)) \<and>
     ensure_unique (map ds_id (dsn_implementation_steps d)) \<and>
     ensure_unique (map dk_id (dsn_risks d)) \<and>
     (set (concat (map rdm_component_ids (dsn_requirement_mappings d))) \<union>
      set (concat (map ds_component_ids (dsn_implementation_steps d)))) -
       set (map dc_id (dsn_components d)) = {}"

definition valid_TechnicalDesign :: "TechnicalDesign \<Rightarrow> bool" where
  "valid_TechnicalDesign d \<longleftrightarrow>
     valid_TechnicalDesignId (dsn_id d) \<and> valid_ProjectRequestId (dsn_request_id d) \<and>
     valid_RepositoryId (dsn_repository_id d) \<and> valid_ProductSpecId (dsn_product_spec_id d) \<and>
     valid_StageSha256 (dsn_product_spec_sha256 d) \<and> valid_ProductApprovalId (dsn_product_approval_id d) \<and>
     1 \<le> dsn_version d \<and> non_empty (dsn_summary d) \<and>
     list_all valid_DesignComponent (dsn_components d) \<and> dsn_components d \<noteq> [] \<and>
     list_all valid_RequirementDesignMapping (dsn_requirement_mappings d) \<and>
     dsn_requirement_mappings d \<noteq> [] \<and>
     list_all valid_AcceptanceDesignMapping (dsn_acceptance_mappings d) \<and>
     dsn_acceptance_mappings d \<noteq> [] \<and>
     list_all valid_DesignStep (dsn_implementation_steps d) \<and> dsn_implementation_steps d \<noteq> [] \<and>
     list_all valid_DesignRisk (dsn_risks d) \<and>
     opt_all (\<lambda>f. list_all non_empty (dx_integration_groups f)) (dsn_complexity_facts d) \<and>
     valid_StageSha256 (dsn_technical_design_sha256 d) \<and> validate_design d"

subsection \<open>The ExecutionPlan and its work graph\<close>

record PlanPhaseDemand =
  ph_id :: string
  ph_role :: AgentRole
  ph_objective :: string
  ph_required_capabilities :: "string list"
  ph_risk :: RiskTier
  ph_minimum_brain_tier :: BrainTier
  ph_checkpoints :: "string list"
  ph_critical_path :: bool

definition valid_PlanPhaseDemand :: "PlanPhaseDemand \<Rightarrow> bool" where
  "valid_PlanPhaseDemand p \<longleftrightarrow>
     valid_PlanPhaseId (ph_id p) \<and> non_empty (ph_objective p) \<and>
     list_all non_empty (ph_required_capabilities p) \<and> ph_required_capabilities p \<noteq> [] \<and>
     list_all non_empty (ph_checkpoints p) \<and> ph_checkpoints p \<noteq> [] \<and>
     ensure_unique (ph_required_capabilities p) \<and> ensure_unique (ph_checkpoints p)"

record PlanTestItem =
  pt_verification_argv :: "string list option"
  pt_planned_test_files :: "string list option"
  pt_verification_inspection :: "PlannedVerificationInspection option"
  pt_controlled_capability_kind :: "string option"
  pt_id :: string
  pt_acceptance_criterion_ids :: "string list"
  pt_level :: string
  pt_verification :: string

definition valid_PlanTestItem :: "PlanTestItem \<Rightarrow> bool" where
  "valid_PlanTestItem t \<longleftrightarrow>
     opt_all (list_all non_empty) (pt_verification_argv t) \<and>
     opt_all (list_all non_empty) (pt_planned_test_files t) \<and>
     opt_all valid_PlannedVerificationInspection (pt_verification_inspection t) \<and>
     opt_all non_empty (pt_controlled_capability_kind t) \<and> non_empty (pt_id t) \<and>
     list_all valid_AcceptanceCriterionId (pt_acceptance_criterion_ids t) \<and>
     pt_acceptance_criterion_ids t \<noteq> [] \<and> non_empty (pt_level t) \<and> non_empty (pt_verification t) \<and>
     validate_verification_entry (pt_verification_argv t) (pt_verification_inspection t) [pt_level t]"

record PlanTestMatrixIssue =
  ti_unit_id :: "string option"
  ti_acceptance_criterion_id :: string
  ti_required_levels :: "string list"
  ti_observed_levels :: "string list"
  ti_missing_levels :: "string list"

definition valid_PlanTestMatrixIssue :: "PlanTestMatrixIssue \<Rightarrow> bool" where
  "valid_PlanTestMatrixIssue i \<longleftrightarrow>
     opt_all non_empty (ti_unit_id i) \<and> valid_AcceptanceCriterionId (ti_acceptance_criterion_id i) \<and>
     list_all non_empty (ti_required_levels i) \<and> ti_required_levels i \<noteq> [] \<and>
     list_all non_empty (ti_observed_levels i) \<and>
     list_all non_empty (ti_missing_levels i) \<and> ti_missing_levels i \<noteq> []"

record PlanWorkPackage =
  pw_id :: string
  pw_component_ids :: "string list"
  pw_step_ids :: "string list"
  pw_acceptance_criterion_ids :: "string list"
  pw_depends_on :: "string list"
  pw_risk :: RiskTier
  pw_checkpoints :: "string list"
  pw_tests :: "PlanTestItem list"

definition validate_package :: "PlanWorkPackage \<Rightarrow> bool" where
  "validate_package p \<longleftrightarrow>
     ensure_unique (pw_component_ids p) \<and> ensure_unique (pw_step_ids p) \<and>
     ensure_unique (pw_acceptance_criterion_ids p) \<and> ensure_unique (pw_depends_on p) \<and>
     ensure_unique (map pt_id (pw_tests p)) \<and>
     set (concat (map pt_acceptance_criterion_ids (pw_tests p))) = set (pw_acceptance_criterion_ids p)"

definition valid_PlanWorkPackage :: "PlanWorkPackage \<Rightarrow> bool" where
  "valid_PlanWorkPackage p \<longleftrightarrow>
     non_empty (pw_id p) \<and>
     list_all valid_DesignComponentId (pw_component_ids p) \<and> pw_component_ids p \<noteq> [] \<and>
     list_all valid_DesignStepId (pw_step_ids p) \<and> pw_step_ids p \<noteq> [] \<and>
     list_all valid_AcceptanceCriterionId (pw_acceptance_criterion_ids p) \<and>
     pw_acceptance_criterion_ids p \<noteq> [] \<and> list_all non_empty (pw_depends_on p) \<and>
     list_all non_empty (pw_checkpoints p) \<and> pw_checkpoints p \<noteq> [] \<and>
     list_all valid_PlanTestItem (pw_tests p) \<and> pw_tests p \<noteq> [] \<and> validate_package p"

record PlanWorkGraph =
  pg_packages :: "PlanWorkPackage list"
  pg_max_parallelism :: int

text \<open>
  The loop of \<^verbatim>\<open>validate_graph\<close>. \<open>ancestors\<close> is the dictionary from the packages seen so far to all
  that they depend on, directly or not. The first check makes every dependency a key of it, so the
  lookups of the second loop do not fail; the inner loop runs over the packages before this one.
\<close>

definition package_ancestors :: "(string \<Rightarrow> string list option) \<Rightarrow> PlanWorkPackage \<Rightarrow> string list" where
  "package_ancestors ancestors p =
     pw_depends_on p @
     concat (map (\<lambda>d. case ancestors d of None \<Rightarrow> [] | Some ds \<Rightarrow> ds) (pw_depends_on p))"

fun graph_loop ::
  "int \<Rightarrow> PlanWorkPackage list \<Rightarrow> PlanWorkPackage list \<Rightarrow> (string \<Rightarrow> string list option) \<Rightarrow> bool" where
  "graph_loop parallelism packages [] ancestors = True"
| "graph_loop parallelism packages (p # rest) ancestors \<longleftrightarrow>
     list_all (\<lambda>d. ancestors d \<noteq> None) (pw_depends_on p) \<and>
     (let mine = package_ancestors ancestors p in
      (1 < parallelism \<longrightarrow>
         list_all (\<lambda>previous. \<not> (pw_id previous \<notin> set mine \<and>
                    set (pw_component_ids previous) \<inter> set (pw_component_ids p) \<noteq> {}))
           (takeWhile (\<lambda>previous. pw_id previous \<noteq> pw_id p) packages)) \<and>
      graph_loop parallelism packages rest (ancestors(pw_id p \<mapsto> mine)))"

definition validate_graph :: "PlanWorkGraph \<Rightarrow> bool" where
  "validate_graph g \<longleftrightarrow>
     ensure_unique (map pw_id (pg_packages g)) \<and>
     graph_loop (pg_max_parallelism g) (pg_packages g) (pg_packages g) (\<lambda>_. None)"

definition valid_PlanWorkGraph :: "PlanWorkGraph \<Rightarrow> bool" where
  "valid_PlanWorkGraph g \<longleftrightarrow>
     list_all valid_PlanWorkPackage (pg_packages g) \<and>
     1 \<le> length (pg_packages g) \<and> length (pg_packages g) \<le> 16 \<and>
     in_range 1 4 (pg_max_parallelism g) \<and> validate_graph g"

record PlanRevisionFeedback =
  pf_previous_plan_id :: string
  pf_previous_plan_sha256 :: string
  pf_reason_codes :: "string list"
  pf_required_changes :: "string list"

definition valid_PlanRevisionFeedback :: "PlanRevisionFeedback \<Rightarrow> bool" where
  "valid_PlanRevisionFeedback f \<longleftrightarrow>
     valid_ExecutionPlanId (pf_previous_plan_id f) \<and> valid_StageSha256 (pf_previous_plan_sha256 f) \<and>
     list_all non_empty (pf_reason_codes f) \<and> pf_reason_codes f \<noteq> [] \<and>
     list_all non_empty (pf_required_changes f) \<and> pf_required_changes f \<noteq> []"

record ExecutionPlan =
  plan_execution_window :: "PlanExecutionWindow option"
  plan_id :: string
  plan_request_id :: string
  plan_repository_id :: string
  plan_product_spec_id :: string
  plan_product_spec_sha256 :: string
  plan_technical_design_id :: string
  plan_technical_design_sha256 :: string
  plan_version :: int
  plan_phases :: "PlanPhaseDemand list"
  plan_feasibility_evidence_uris :: "string list"
  plan_work_graph :: "PlanWorkGraph option"
  plan_revision_feedback :: "PlanRevisionFeedback option"
  plan_created_at :: instant
  plan_execution_plan_sha256 :: string

definition validate_plan :: "ExecutionPlan \<Rightarrow> bool" where
  "validate_plan p \<longleftrightarrow>
     ensure_unique (map ph_id (plan_phases p)) \<and> ensure_unique (plan_feasibility_evidence_uris p) \<and>
     map ph_role (plan_phases p) = [AR_CODER, AR_QA, AR_REVIEWER]"

definition valid_ExecutionPlan :: "ExecutionPlan \<Rightarrow> bool" where
  "valid_ExecutionPlan p \<longleftrightarrow>
     opt_all valid_PlanExecutionWindow (plan_execution_window p) \<and> valid_ExecutionPlanId (plan_id p) \<and>
     valid_ProjectRequestId (plan_request_id p) \<and> valid_RepositoryId (plan_repository_id p) \<and>
     valid_ProductSpecId (plan_product_spec_id p) \<and> valid_StageSha256 (plan_product_spec_sha256 p) \<and>
     valid_TechnicalDesignId (plan_technical_design_id p) \<and>
     valid_StageSha256 (plan_technical_design_sha256 p) \<and> 1 \<le> plan_version p \<and>
     list_all valid_PlanPhaseDemand (plan_phases p) \<and> length (plan_phases p) = 3 \<and>
     list_all non_empty (plan_feasibility_evidence_uris p) \<and>
     opt_all valid_PlanWorkGraph (plan_work_graph p) \<and>
     opt_all valid_PlanRevisionFeedback (plan_revision_feedback p) \<and>
     valid_StageSha256 (plan_execution_plan_sha256 p) \<and> validate_plan p"

subsection \<open>What a valid work graph guarantees\<close>

text \<open>
  The dependencies as a relation, and the declarative reading of \<^verbatim>\<open>validate_graph\<close>: a dependency names
  an earlier package, and two packages that may run in parallel (neither depends on the other, even
  indirectly) share no component.
\<close>

definition depends_rel :: "PlanWorkPackage list \<Rightarrow> (string \<times> string) set" where
  "depends_rel ps = {(d, pw_id p) |d p. p \<in> set ps \<and> d \<in> set (pw_depends_on p)}"

definition dependencies_precede :: "PlanWorkPackage list \<Rightarrow> bool" where
  "dependencies_precede ps \<longleftrightarrow>
     (\<forall>i < length ps. set (pw_depends_on (ps ! i)) \<subseteq> pw_id ` set (take i ps))"

definition parallel_disjoint :: "PlanWorkPackage list \<Rightarrow> bool" where
  "parallel_disjoint ps \<longleftrightarrow>
     (\<forall>i < length ps. \<forall>j < i.
        (pw_id (ps ! j), pw_id (ps ! i)) \<in> (depends_rel ps)\<^sup>+ \<or>
        set (pw_component_ids (ps ! j)) \<inter> set (pw_component_ids (ps ! i)) = {})"

lemma depends_rel_iff:
  assumes "distinct (map pw_id ps)" and "p \<in> set ps"
  shows "(d, pw_id p) \<in> depends_rel ps \<longleftrightarrow> d \<in> set (pw_depends_on p)"
  using assms by (auto simp: depends_rel_def distinct_map dest: inj_onD)

text \<open>One turn of the loop adds exactly the transitive dependencies of its package.\<close>

lemma package_ancestors_closure:
  assumes "distinct (map pw_id ps)" and "p \<in> set ps"
    and "\<And>d. d \<in> set (pw_depends_on p) \<Longrightarrow> \<exists>A. anc d = Some A"
    and "\<And>x A. anc x = Some A \<Longrightarrow> set A = {d. (d, x) \<in> (depends_rel ps)\<^sup>+}"
  shows "set (package_ancestors anc p) = {d. (d, pw_id p) \<in> (depends_rel ps)\<^sup>+}"
proof -
  have step: "(d, pw_id p) \<in> (depends_rel ps)\<^sup>+ \<longleftrightarrow>
      d \<in> set (pw_depends_on p) \<or> (\<exists>e \<in> set (pw_depends_on p). (d, e) \<in> (depends_rel ps)\<^sup>+)" for d
    using depends_rel_iff [OF assms(1,2)] by (metis trancl.simps)
  have "set (case anc d of None \<Rightarrow> [] | Some ds \<Rightarrow> ds) = {e. (e, d) \<in> (depends_rel ps)\<^sup>+}"
    if "d \<in> set (pw_depends_on p)" for d
    using assms(3) [OF that] assms(4) [of d] by auto
  then show ?thesis by (auto simp: package_ancestors_def step)
qed

definition package_ok :: "int \<Rightarrow> PlanWorkPackage list \<Rightarrow> nat \<Rightarrow> bool" where
  "package_ok parallelism ps i \<longleftrightarrow>
     set (pw_depends_on (ps ! i)) \<subseteq> pw_id ` set (take i ps) \<and>
     (1 < parallelism \<longrightarrow>
        (\<forall>j < i. (pw_id (ps ! j), pw_id (ps ! i)) \<in> (depends_rel ps)\<^sup>+ \<or>
           set (pw_component_ids (ps ! j)) \<inter> set (pw_component_ids (ps ! i)) = {}))"

lemma takeWhile_before:
  "distinct (map f (xs @ p # ys)) \<Longrightarrow> takeWhile (\<lambda>q. f q \<noteq> f p) (xs @ p # ys) = xs"
  by (induction xs) (auto simp: image_iff)

lemma graph_loop_iff:
  assumes "ps = before @ rest" and "distinct (map pw_id ps)"
    and "\<And>x. (\<exists>A. anc x = Some A) \<longleftrightarrow> x \<in> pw_id ` set before"
    and "\<And>x A. anc x = Some A \<Longrightarrow> set A = {d. (d, x) \<in> (depends_rel ps)\<^sup>+}"
  shows "graph_loop parallelism ps rest anc \<longleftrightarrow>
    (\<forall>i. length before \<le> i \<and> i < length ps \<longrightarrow> package_ok parallelism ps i)"
  using assms
proof (induction rest arbitrary: before anc)
  case Nil
  then show ?case by auto
next
  case (Cons p rest)
  let ?n = "length before" and ?mine = "package_ancestors anc p"
  have at: "ps ! ?n = p" "take ?n ps = before" "?n < length ps"
    and nth: "\<And>j. j < ?n \<Longrightarrow> ps ! j = before ! j"
    and seen: "takeWhile (\<lambda>q. pw_id q \<noteq> pw_id p) ps = before"
    using Cons.prems(1,2) takeWhile_before [of pw_id before p rest] by (auto simp: nth_append)
  have deps: "list_all (\<lambda>d. anc d \<noteq> None) (pw_depends_on p) \<longleftrightarrow>
      set (pw_depends_on (ps ! ?n)) \<subseteq> pw_id ` set (take ?n ps)"
    using Cons.prems(3) by (auto simp: at list_all_iff)
  have split: "(\<forall>i. ?n \<le> i \<and> i < length ps \<longrightarrow> P i) \<longleftrightarrow>
      P ?n \<and> (\<forall>i. Suc ?n \<le> i \<and> i < length ps \<longrightarrow> P i)" for P
    using at(3) by (metis Suc_leD Suc_leI le_eq_less_or_eq order.refl)
  show ?case
  proof (cases "list_all (\<lambda>d. anc d \<noteq> None) (pw_depends_on p)")
    case False
    with deps have "\<not> package_ok parallelism ps ?n" by (simp add: package_ok_def)
    with False at(3) show ?thesis by (auto simp del: not_None_eq)
  next
    case True
    then have mine: "set ?mine = {d. (d, pw_id p) \<in> (depends_rel ps)\<^sup>+}"
      using Cons.prems(1,2,4) by (intro package_ancestors_closure) (auto simp: list_all_iff)
    have "list_all Q before \<longleftrightarrow> (\<forall>j < ?n. Q (ps ! j))" for Q
      using nth by (simp add: list_all_length)
    then have here: "package_ok parallelism ps ?n \<longleftrightarrow>
        (1 < parallelism \<longrightarrow>
          list_all (\<lambda>previous. \<not> (pw_id previous \<notin> set ?mine \<and>
              set (pw_component_ids previous) \<inter> set (pw_component_ids p) \<noteq> {})) before)"
      using True deps by (auto simp: package_ok_def at mine)
    have "graph_loop parallelism ps rest (anc(pw_id p \<mapsto> ?mine)) \<longleftrightarrow>
        (\<forall>i. Suc ?n \<le> i \<and> i < length ps \<longrightarrow> package_ok parallelism ps i)"
      using Cons.prems mine by (subst Cons.IH [of "before @ [p]"]) (auto split: if_splits)
    with True here show ?thesis by (simp add: split seen Let_def)
  qed
qed

lemma validate_graph_iff:
  "validate_graph g \<longleftrightarrow>
     distinct (map pw_id (pg_packages g)) \<and> dependencies_precede (pg_packages g) \<and>
     (1 < pg_max_parallelism g \<longrightarrow> parallel_disjoint (pg_packages g))"
proof (cases "distinct (map pw_id (pg_packages g))")
  case True
  then have "graph_loop (pg_max_parallelism g) (pg_packages g) (pg_packages g) (\<lambda>_. None) \<longleftrightarrow>
      (\<forall>i < length (pg_packages g). package_ok (pg_max_parallelism g) (pg_packages g) i)"
    by (subst graph_loop_iff [of _ "[]"]) simp_all
  with True show ?thesis
    unfolding validate_graph_def package_ok_def dependencies_precede_def parallel_disjoint_def
      ensure_unique_iff by blast
qed (simp add: validate_graph_def)

text \<open>Dependencies that precede their package cannot be circular.\<close>

lemma dependencies_precede_acyclic:
  assumes "distinct (map pw_id ps)" and "dependencies_precede ps"
  shows "acyclic (depends_rel ps)"
proof -
  let ?pos = "\<lambda>x. THE i. i < length ps \<and> pw_id (ps ! i) = x"
  have pos: "?pos (pw_id (ps ! i)) = i" if "i < length ps" for i
    using that assms(1) by (intro the_equality) (auto simp: distinct_conv_nth)
  have "depends_rel ps \<subseteq> measure ?pos"
  proof (clarsimp simp: depends_rel_def)
    fix d p assume "p \<in> set ps" and d: "d \<in> set (pw_depends_on p)"
    then obtain i where i: "i < length ps" "p = ps ! i" by (auto simp: in_set_conv_nth)
    then have "d \<in> pw_id ` set (take i ps)"
      using d assms(2) by (auto simp: dependencies_precede_def)
    then obtain j where "j < length (take i ps)" "d = pw_id (take i ps ! j)"
      by (metis imageE in_set_conv_nth)
    then have "j < i" "d = pw_id (ps ! j)" using i by auto
    with i show "?pos d < ?pos (pw_id p)" by (simp add: pos)
  qed
  then show ?thesis by (intro wf_acyclic wf_subset [OF wf_measure])
qed

end
