(* ===== verification/Stage_Contracts.thy ===== *)
theory Stage_Contracts
  imports Stage_Domain
begin

section \<open>Stage contracts\<close>

text \<open>
  \<^verbatim>\<open>domain/project_delivery.py\<close>, the operations: how each document is created and sealed with the
  digest of its content, the checks between adjacent documents, and the derivation of the Delivery
  Task from a complete chain. \<^verbatim>\<open>_stage_digest\<close> hashes the canonical JSON text of a document without
  its digest field (and, for three kinds, without the creation time); the model hashes the document
  with those fields blanked, and the hash is a parameter. The keyword arguments of a \<^verbatim>\<open>create\<close> are a
  draft record of which the fields that the method computes itself are ignored. Resolving a path
  against the file system is a parameter, \<open>None\<close> when it raises.
\<close>

datatype stage_error =
    StageIntegrityError | StageContractMismatch | ProductApprovalRequired | StageValidationError
  | PlanTestMatrixError "PlanTestMatrixIssue list" | PathResolutionError

datatype stage_document =
    DocPreparation RepositoryPreparation
  | DocRequest ProjectRequest
  | DocProductSpec ProductSpec
  | DocApprovalIdentity string string string string ProductApprovalDecision string string instant
  | DocApproval ProductSpecApproval
  | DocDesign TechnicalDesign
  | DocPlan ExecutionPlan

type_synonym stage_hash = "stage_document \<Rightarrow> string"

definition zero_digest :: string where
  "zero_digest = replicate 64 (CHR ''0'')"

subsection \<open>Digests\<close>

fun stage_payload :: "stage_document \<Rightarrow> stage_document" where
  "stage_payload (DocPreparation p) = DocPreparation (p\<lparr>prep_preparation_sha256 := []\<rparr>)"
| "stage_payload (DocRequest r) = DocRequest (r\<lparr>req_request_sha256 := []\<rparr>)"
| "stage_payload (DocProductSpec s) = DocProductSpec (s\<lparr>spec_created_at := 0, spec_product_spec_sha256 := []\<rparr>)"
| "stage_payload (DocApproval a) = DocApproval (a\<lparr>appr_approval_sha256 := []\<rparr>)"
| "stage_payload (DocDesign d) = DocDesign (d\<lparr>dsn_created_at := 0, dsn_technical_design_sha256 := []\<rparr>)"
| "stage_payload (DocPlan p) = DocPlan (p\<lparr>plan_created_at := 0, plan_execution_plan_sha256 := []\<rparr>)"
| "stage_payload (DocApprovalIdentity a b c d e f g h) = DocApprovalIdentity a b c d e f g h"

definition stage_digest :: "stage_hash \<Rightarrow> stage_document \<Rightarrow> string" where
  "stage_digest H d = H (stage_payload d)"

definition require_digest :: "stage_hash \<Rightarrow> stage_document \<Rightarrow> string \<Rightarrow> stage_error + unit" where
  "require_digest H d observed = guard_res (observed = stage_digest H d) StageIntegrityError"

definition preparation_integrity :: "stage_hash \<Rightarrow> RepositoryPreparation \<Rightarrow> stage_error + unit" where
  "preparation_integrity H p = require_digest H (DocPreparation p) (prep_preparation_sha256 p)"

definition request_integrity :: "stage_hash \<Rightarrow> ProjectRequest \<Rightarrow> stage_error + unit" where
  "request_integrity H r = require_digest H (DocRequest r) (req_request_sha256 r)"

definition spec_integrity :: "stage_hash \<Rightarrow> ProductSpec \<Rightarrow> stage_error + unit" where
  "spec_integrity H s = require_digest H (DocProductSpec s) (spec_product_spec_sha256 s)"

definition approval_integrity :: "stage_hash \<Rightarrow> ProductSpecApproval \<Rightarrow> stage_error + unit" where
  "approval_integrity H a = require_digest H (DocApproval a) (appr_approval_sha256 a)"

definition design_integrity :: "stage_hash \<Rightarrow> TechnicalDesign \<Rightarrow> stage_error + unit" where
  "design_integrity H d = require_digest H (DocDesign d) (dsn_technical_design_sha256 d)"

definition plan_integrity :: "stage_hash \<Rightarrow> ExecutionPlan \<Rightarrow> stage_error + unit" where
  "plan_integrity H p = require_digest H (DocPlan p) (plan_execution_plan_sha256 p)"

subsection \<open>Checks between documents\<close>

definition require_product_approval ::
  "stage_hash \<Rightarrow> ProductSpec \<Rightarrow> ProductSpecApproval \<Rightarrow> stage_error + unit" where
  "require_product_approval H s a =
     bind_res (spec_integrity H s) (\<lambda>_.
     bind_res (approval_integrity H a) (\<lambda>_.
     bind_res (guard_res (appr_decision a = PAD_APPROVED) ProductApprovalRequired) (\<lambda>_.
     bind_res (guard_res
        ((appr_request_id a, appr_repository_id a, appr_product_spec_id a, appr_product_spec_sha256 a) =
         (spec_request_id s, spec_repository_id s, spec_id s, spec_product_spec_sha256 s))
        StageContractMismatch) (\<lambda>_.
     guard_res (spec_status s = PSS_READY_FOR_REVIEW) ProductApprovalRequired))))"

definition validate_technical_design ::
  "stage_hash \<Rightarrow> ProductSpec \<Rightarrow> ProductSpecApproval \<Rightarrow> TechnicalDesign \<Rightarrow> stage_error + unit" where
  "validate_technical_design H s a d =
     bind_res (require_product_approval H s a) (\<lambda>_.
     bind_res (design_integrity H d) (\<lambda>_.
     bind_res (guard_res
        ((dsn_request_id d, dsn_repository_id d, dsn_product_spec_id d, dsn_product_spec_sha256 d,
          dsn_product_approval_id d) =
         (spec_request_id s, spec_repository_id s, spec_id s, spec_product_spec_sha256 s, appr_id a))
        StageContractMismatch) (\<lambda>_.
     bind_res (guard_res
        (set (map rdm_requirement_id (dsn_requirement_mappings d)) = set (map pq_id (spec_requirements s)))
        StageContractMismatch) (\<lambda>_.
     guard_res
        (set (map adm_acceptance_criterion_id (dsn_acceptance_mappings d)) =
         set (map ac_id (spec_acceptance_criteria s)))
        StageContractMismatch))))"

text \<open>
  The test matrix. \<open>observed_levels\<close> is the dictionary from a criterion to the levels of its tests;
  \<open>dict_of\<close> is the dictionary comprehension, in which a later pair replaces the value of a key.
\<close>

definition observe_test :: "PlanTestItem \<Rightarrow> (string \<Rightarrow> string list) \<Rightarrow> (string \<Rightarrow> string list)" where
  "observe_test t observed =
     fold (\<lambda>c obs. obs(c := List.insert (pt_level t) (obs c))) (pt_acceptance_criterion_ids t) observed"

definition observed_levels :: "PlanWorkGraph \<Rightarrow> string \<Rightarrow> string list" where
  "observed_levels g = fold (\<lambda>p obs. fold observe_test (pw_tests p) obs) (pg_packages g) (\<lambda>_. [])"

definition dict_put :: "('k \<times> 'v) \<Rightarrow> ('k \<times> 'v) list \<Rightarrow> ('k \<times> 'v) list" where
  "dict_put kv d =
     (if fst kv \<in> fst ` set d then map (\<lambda>e. if fst e = fst kv then kv else e) d else d @ [kv])"

definition dict_of :: "('k \<times> 'v) list \<Rightarrow> ('k \<times> 'v) list" where
  "dict_of kvs = fold dict_put kvs []"

definition matrix_issue ::
  "string option \<Rightarrow> (string \<Rightarrow> string list) \<Rightarrow> string \<times> string list \<Rightarrow>
   stage_error + PlanTestMatrixIssue option" where
  "matrix_issue unit_id observed entry =
     (case entry of (criterion, levels) \<Rightarrow>
      let missing = filter (\<lambda>l. l \<notin> set (observed criterion)) (remdups levels);
          issue = \<lparr>ti_unit_id = unit_id, ti_acceptance_criterion_id = criterion,
                   ti_required_levels = sort (remdups levels),
                   ti_observed_levels = sort (remdups (observed criterion)),
                   ti_missing_levels = sort missing\<rparr>
      in if missing = [] then Inr None
         else if valid_PlanTestMatrixIssue issue then Inr (Some issue) else Inl StageValidationError)"

definition validate_plan_test_matrix ::
  "PlanWorkGraph \<Rightarrow> (string \<times> string list) list \<Rightarrow> string option \<Rightarrow> stage_error + unit" where
  "validate_plan_test_matrix g required_levels unit_id =
     bind_res (map_res (matrix_issue unit_id (observed_levels g)) (sort_key fst required_levels)) (\<lambda>issues.
     let found = List.map_filter id issues in
     guard_res (found = []) (PlanTestMatrixError found))"

definition design_levels :: "TechnicalDesign \<Rightarrow> (string \<times> string list) list" where
  "design_levels d =
     dict_of (map (\<lambda>m. (adm_acceptance_criterion_id m, adm_test_levels m)) (dsn_acceptance_mappings d))"

definition validate_work_packages ::
  "ProductSpec \<Rightarrow> TechnicalDesign \<Rightarrow> PlanWorkGraph \<Rightarrow> stage_error + unit" where
  "validate_work_packages s d g =
     bind_res (guard_res (pg_max_parallelism g = 1) StageContractMismatch) (\<lambda>_.
     bind_res (guard_res
        (set (concat (map pw_acceptance_criterion_ids (pg_packages g))) =
         set (map ac_id (spec_acceptance_criteria s))) StageContractMismatch) (\<lambda>_.
     bind_res (guard_res
        (set (concat (map pw_component_ids (pg_packages g))) = set (map dc_id (dsn_components d)))
        StageContractMismatch) (\<lambda>_.
     bind_res (guard_res
        (set (concat (map pw_step_ids (pg_packages g))) = set (map ds_id (dsn_implementation_steps d)))
        StageContractMismatch) (\<lambda>_.
     validate_plan_test_matrix g (design_levels d) None))))"

definition validate_execution_plan ::
  "stage_hash \<Rightarrow> ProductSpec \<Rightarrow> TechnicalDesign \<Rightarrow> ExecutionPlan \<Rightarrow> stage_error + unit" where
  "validate_execution_plan H s d p =
     bind_res (spec_integrity H s) (\<lambda>_.
     bind_res (design_integrity H d) (\<lambda>_.
     bind_res (plan_integrity H p) (\<lambda>_.
     bind_res (guard_res
        (\<not> (dsn_request_id d \<noteq> spec_request_id s \<or> dsn_repository_id d \<noteq> spec_repository_id s \<or>
            dsn_product_spec_id d \<noteq> spec_id s \<or>
            dsn_product_spec_sha256 d \<noteq> spec_product_spec_sha256 s)) StageContractMismatch) (\<lambda>_.
     bind_res (guard_res
        ((plan_request_id p, plan_repository_id p, plan_product_spec_id p, plan_product_spec_sha256 p,
          plan_technical_design_id p, plan_technical_design_sha256 p) =
         (spec_request_id s, spec_repository_id s, spec_id s, spec_product_spec_sha256 s,
          dsn_id d, dsn_technical_design_sha256 d)) StageContractMismatch) (\<lambda>_.
     case plan_work_graph p of
       None \<Rightarrow> Inr ()
     | Some g \<Rightarrow> validate_work_packages s d g)))))"

definition validate_execution_plan_revision ::
  "ExecutionPlan \<Rightarrow> ExecutionPlan option \<Rightarrow> stage_error + unit" where
  "validate_execution_plan_revision p predecessor =
     (case predecessor of
        None \<Rightarrow>
          guard_res (\<not> (plan_version p \<noteq> 1 \<or> plan_revision_feedback p \<noteq> None)) StageContractMismatch
      | Some q \<Rightarrow>
          (case plan_revision_feedback p of
             None \<Rightarrow> Inl StageContractMismatch
           | Some f \<Rightarrow>
               guard_res
                 (\<not> (plan_version p \<noteq> plan_version q + 1 \<or> pf_previous_plan_id f \<noteq> plan_id q \<or>
                     pf_previous_plan_sha256 f \<noteq> plan_execution_plan_sha256 q \<or>
                     plan_request_id p \<noteq> plan_request_id q \<or>
                     plan_repository_id p \<noteq> plan_repository_id q \<or>
                     plan_product_spec_sha256 p \<noteq> plan_product_spec_sha256 q))
                 StageContractMismatch))"

definition validate_stage_chain ::
  "stage_hash \<Rightarrow> RepositoryPreparation \<Rightarrow> ProjectRequest \<Rightarrow> ProductSpec \<Rightarrow> ProductSpecApproval \<Rightarrow>
   TechnicalDesign \<Rightarrow> ExecutionPlan \<Rightarrow> stage_error + unit" where
  "validate_stage_chain H prep r s a d p =
     bind_res (preparation_integrity H prep) (\<lambda>_.
     bind_res (request_integrity H r) (\<lambda>_.
     bind_res (guard_res (req_status r = PRS_READY_FOR_DELIVERY) StageContractMismatch) (\<lambda>_.
     bind_res (guard_res
        (\<not> (req_repository_id r \<noteq> prep_repository_id prep \<or>
            req_preparation_sha256 r \<noteq> prep_preparation_sha256 prep \<or>
            spec_request_id s \<noteq> req_id r \<or> spec_repository_id s \<noteq> req_repository_id r))
        StageContractMismatch) (\<lambda>_.
     bind_res (validate_technical_design H s a d) (\<lambda>_.
     validate_execution_plan H s d p)))))"

subsection \<open>Creation\<close>

definition create_preparation :: "stage_hash \<Rightarrow> RepositoryPreparation \<Rightarrow> stage_error + RepositoryPreparation" where
  "create_preparation H draft =
     (let provisional = draft\<lparr>prep_preparation_sha256 := zero_digest\<rparr> in
      if valid_RepositoryPreparation provisional
      then Inr (provisional\<lparr>prep_preparation_sha256 := stage_digest H (DocPreparation provisional)\<rparr>)
      else Inl StageValidationError)"

definition create_request :: "stage_hash \<Rightarrow> ProjectRequest \<Rightarrow> instant option \<Rightarrow> stage_error + ProjectRequest" where
  "create_request H draft updated_at =
     (let provisional = draft\<lparr>req_updated_at := (case updated_at of None \<Rightarrow> req_created_at draft | Some u \<Rightarrow> u),
                              req_request_sha256 := zero_digest\<rparr> in
      if valid_ProjectRequest provisional
      then Inr (provisional\<lparr>req_request_sha256 := stage_digest H (DocRequest provisional)\<rparr>)
      else Inl StageValidationError)"

definition create_product_spec :: "stage_hash \<Rightarrow> ProductSpec \<Rightarrow> stage_error + ProductSpec" where
  "create_product_spec H draft =
     (let provisional = draft\<lparr>spec_product_spec_sha256 := zero_digest\<rparr> in
      if valid_ProductSpec provisional
      then Inr (provisional\<lparr>spec_product_spec_sha256 := stage_digest H (DocProductSpec provisional)\<rparr>)
      else Inl StageValidationError)"

definition create_approval ::
  "stage_hash \<Rightarrow> ProductSpec \<Rightarrow> ProductApprovalDecision \<Rightarrow> string \<Rightarrow> string \<Rightarrow> instant \<Rightarrow>
   stage_error + ProductSpecApproval" where
  "create_approval H s decision operator rationale decided_at =
     bind_res (spec_integrity H s) (\<lambda>_.
     let identity = DocApprovalIdentity (spec_request_id s) (spec_repository_id s) (spec_id s)
                      (spec_product_spec_sha256 s) decision operator rationale decided_at;
         provisional =
           \<lparr>appr_id = ''product_approval_'' @ H identity, appr_request_id = spec_request_id s,
            appr_repository_id = spec_repository_id s, appr_product_spec_id = spec_id s,
            appr_product_spec_sha256 = spec_product_spec_sha256 s, appr_decision = decision,
            appr_operator_id = operator, appr_rationale = rationale, appr_decided_at = decided_at,
            appr_approval_sha256 = zero_digest\<rparr> in
     if valid_ProductSpecApproval provisional
     then Inr (provisional\<lparr>appr_approval_sha256 := stage_digest H (DocApproval provisional)\<rparr>)
     else Inl StageValidationError)"

definition create_design ::
  "stage_hash \<Rightarrow> ProductSpec \<Rightarrow> ProductSpecApproval \<Rightarrow> TechnicalDesign \<Rightarrow> stage_error + TechnicalDesign" where
  "create_design H s a draft =
     bind_res (require_product_approval H s a) (\<lambda>_.
     let provisional = draft
           \<lparr>dsn_request_id := spec_request_id s, dsn_repository_id := spec_repository_id s,
            dsn_product_spec_id := spec_id s, dsn_product_spec_sha256 := spec_product_spec_sha256 s,
            dsn_product_approval_id := appr_id a, dsn_technical_design_sha256 := zero_digest\<rparr>;
         design = provisional\<lparr>dsn_technical_design_sha256 := stage_digest H (DocDesign provisional)\<rparr> in
     bind_res (guard_res (valid_TechnicalDesign provisional) StageValidationError) (\<lambda>_.
     bind_res (validate_technical_design H s a design) (\<lambda>_. Inr design)))"

definition create_plan ::
  "stage_hash \<Rightarrow> ProductSpec \<Rightarrow> TechnicalDesign \<Rightarrow> ExecutionPlan \<Rightarrow> stage_error + ExecutionPlan" where
  "create_plan H s d draft =
     bind_res (design_integrity H d) (\<lambda>_.
     let provisional = draft
           \<lparr>plan_request_id := spec_request_id s, plan_repository_id := spec_repository_id s,
            plan_product_spec_id := spec_id s, plan_product_spec_sha256 := spec_product_spec_sha256 s,
            plan_technical_design_id := dsn_id d,
            plan_technical_design_sha256 := dsn_technical_design_sha256 d,
            plan_execution_plan_sha256 := zero_digest\<rparr>;
         plan = provisional\<lparr>plan_execution_plan_sha256 := stage_digest H (DocPlan provisional)\<rparr> in
     bind_res (guard_res (valid_ExecutionPlan provisional) StageValidationError) (\<lambda>_.
     bind_res (validate_execution_plan H s d plan) (\<lambda>_. Inr plan)))"

subsection \<open>The Delivery Task\<close>

record delivery_order =
  do_task_id :: string
  do_repository :: string
  do_base_ref :: string
  do_max_attempts :: int
  do_retry_policy :: "DeliveryRetryPolicy option"
  do_interruption_continuation_policy :: "InterruptionContinuationPolicy option"
  do_engineering_policy :: "EngineeringPolicy option"
  do_created_at :: instant
  do_constraints :: "TaskConstraints option"
  do_owner :: "string option"
  do_labels :: "string list"

definition delivery_metadata ::
  "RepositoryPreparation \<Rightarrow> ProjectRequest \<Rightarrow> ProductSpec \<Rightarrow> ProductSpecApproval \<Rightarrow> TechnicalDesign \<Rightarrow>
   ExecutionPlan \<Rightarrow> (string \<times> json_value) list" where
  "delivery_metadata prep r s a d p =
     [(''repository_id'', JStr (prep_repository_id prep)),
      (''project_request_id'', JStr (req_id r)),
      (''product_spec_id'', JStr (spec_id s)),
      (''product_spec_sha256'', JStr (spec_product_spec_sha256 s)),
      (''product_approval_id'', JStr (appr_id a)),
      (''technical_design_id'', JStr (dsn_id d)),
      (''technical_design_sha256'', JStr (dsn_technical_design_sha256 d)),
      (''execution_plan_id'', JStr (plan_id p)),
      (''execution_plan_sha256'', JStr (plan_execution_plan_sha256 p))]"

definition derive_delivery_task ::
  "stage_hash \<Rightarrow> (string \<Rightarrow> py_path option) \<Rightarrow> RepositoryPreparation \<Rightarrow> ProjectRequest \<Rightarrow> ProductSpec \<Rightarrow>
   ProductSpecApproval \<Rightarrow> TechnicalDesign \<Rightarrow> ExecutionPlan \<Rightarrow> delivery_order \<Rightarrow> stage_error + Task" where
  "derive_delivery_task H resolve prep r s a d p order =
     bind_res (validate_stage_chain H prep r s a d p) (\<lambda>_.
     case resolve (do_repository order) of
       None \<Rightarrow> Inl PathResolutionError
     | Some root \<Rightarrow>
         bind_res (guard_res (root = parse_path (prep_repository_root prep)) StageContractMismatch) (\<lambda>_.
         let task =
           \<lparr>t_id = do_task_id order, t_title = req_title r, t_description = spec_summary s,
            t_repository = path_text root, t_base_ref = do_base_ref order,
            t_branch_name = spec_branch_name s, t_acceptance_criteria = spec_acceptance_criteria s,
            t_constraints = do_constraints order, t_status = TS_NEW,
            t_max_attempts = do_max_attempts order, t_attempts = 0, t_owner = do_owner order,
            t_labels = do_labels order, t_created_at = do_created_at order,
            t_updated_at = do_created_at order, t_metadata = delivery_metadata prep r s a d p,
            t_retry_policy = do_retry_policy order, t_retry_failures = None,
            t_interruption_continuation_policy = do_interruption_continuation_policy order,
            t_engineering_policy = do_engineering_policy order\<rparr> in
         if valid_Task task then Inr task else Inl StageValidationError))"

subsection \<open>Sealed documents\<close>

text \<open>
  All documents are sealed alike: the digest covers a payload that does not contain it. A document
  sealed with its own digest passes its check, and, where the hash does not collide, two documents that
  pass with one digest have the same payload: nothing that the digest covers can have been edited.
\<close>

locale sealed_document =
  fixes doc :: "'d \<Rightarrow> stage_document" and sealed :: "'d \<Rightarrow> string" and seal :: "string \<Rightarrow> 'd \<Rightarrow> 'd"
  assumes payload_seal [simp]: "stage_payload (doc (seal x d)) = stage_payload (doc d)"
    and sealed_seal [simp]: "sealed (seal x d) = x"
begin

lemma digest_seal [simp]: "stage_digest H (doc (seal x d)) = stage_digest H (doc d)"
  by (simp add: stage_digest_def)

lemma seal_passes [simp]:
  "require_digest H (doc (seal (stage_digest H (doc d)) d)) (stage_digest H (doc d)) = Inr ()"
  by (simp add: require_digest_def)

lemma same_digest_same_content:
  assumes "require_digest H (doc d) (sealed d) = Inr ()"
    and "require_digest H (doc e) (sealed e) = Inr ()"
    and "sealed d = sealed e" and "inj_on H {stage_payload (doc d), stage_payload (doc e)}"
  shows "stage_payload (doc d) = stage_payload (doc e)"
proof (rule inj_onD [OF assms(4)])
  show "H (stage_payload (doc d)) = H (stage_payload (doc e))"
    using assms(1-3) by (simp add: require_digest_def stage_digest_def)
qed simp_all

end

interpretation preparation_seal: sealed_document DocPreparation prep_preparation_sha256
    "\<lambda>x. prep_preparation_sha256_update (\<lambda>_. x)"
  by unfold_locales simp_all

interpretation request_seal: sealed_document DocRequest req_request_sha256
    "\<lambda>x. req_request_sha256_update (\<lambda>_. x)"
  by unfold_locales simp_all

interpretation spec_seal: sealed_document DocProductSpec spec_product_spec_sha256
    "\<lambda>x. spec_product_spec_sha256_update (\<lambda>_. x)"
  by unfold_locales simp_all

interpretation approval_seal: sealed_document DocApproval appr_approval_sha256
    "\<lambda>x. appr_approval_sha256_update (\<lambda>_. x)"
  by unfold_locales simp_all

interpretation design_seal: sealed_document DocDesign dsn_technical_design_sha256
    "\<lambda>x. dsn_technical_design_sha256_update (\<lambda>_. x)"
  by unfold_locales simp_all

interpretation plan_seal: sealed_document DocPlan plan_execution_plan_sha256
    "\<lambda>x. plan_execution_plan_sha256_update (\<lambda>_. x)"
  by unfold_locales simp_all

lemmas integrity_defs =
  preparation_integrity_def request_integrity_def spec_integrity_def approval_integrity_def
  design_integrity_def plan_integrity_def

subsection \<open>Lemmas\<close>

lemma observe_test_iff:
  "l \<in> set (observe_test t obs c) \<longleftrightarrow>
     l \<in> set (obs c) \<or> c \<in> set (pt_acceptance_criterion_ids t) \<and> l = pt_level t"
proof -
  have "l \<in> set (fold (\<lambda>c obs. obs(c := List.insert v (obs c))) cs obs c) \<longleftrightarrow>
      l \<in> set (obs c) \<or> c \<in> set cs \<and> l = v" for v :: string and cs :: "string list"
    by (induction cs arbitrary: obs) auto
  then show ?thesis by (simp add: observe_test_def)
qed

lemma observed_levels_iff:
  "l \<in> set (observed_levels g c) \<longleftrightarrow>
     (\<exists>p \<in> set (pg_packages g). \<exists>t \<in> set (pw_tests p).
        c \<in> set (pt_acceptance_criterion_ids t) \<and> l = pt_level t)"
proof -
  have tests: "l \<in> set (fold observe_test ts obs c) \<longleftrightarrow>
      l \<in> set (obs c) \<or> (\<exists>t \<in> set ts. c \<in> set (pt_acceptance_criterion_ids t) \<and> l = pt_level t)" for ts obs
    by (induction ts arbitrary: obs) (auto simp: observe_test_iff)
  have "l \<in> set (fold (\<lambda>p obs. fold observe_test (pw_tests p) obs) ps obs c) \<longleftrightarrow>
      l \<in> set (obs c) \<or> (\<exists>p \<in> set ps. \<exists>t \<in> set (pw_tests p).
        c \<in> set (pt_acceptance_criterion_ids t) \<and> l = pt_level t)" for ps obs
    by (induction ps arbitrary: obs) (auto simp: tests)
  from this [of "pg_packages g" "\<lambda>_. []"] show ?thesis by (simp add: observed_levels_def)
qed

lemma dict_of_distinct: "distinct (map fst kvs) \<Longrightarrow> dict_of kvs = kvs"
proof -
  have "distinct (map fst (d @ kvs)) \<Longrightarrow> fold dict_put kvs d = d @ kvs" for d
    by (induction kvs arbitrary: d) (auto simp: dict_put_def)
  from this [of "[]"] show "distinct (map fst kvs) \<Longrightarrow> dict_of kvs = kvs"
    by (simp add: dict_of_def)
qed

definition missing_levels :: "PlanWorkGraph \<Rightarrow> string \<times> string list \<Rightarrow> string list" where
  "missing_levels g entry =
     sort (filter (\<lambda>l. l \<notin> set (observed_levels g (fst entry))) (remdups (snd entry)))"

definition reported_issue :: "string option \<Rightarrow> PlanWorkGraph \<Rightarrow> string \<times> string list \<Rightarrow> PlanTestMatrixIssue" where
  "reported_issue unit_id g entry =
     \<lparr>ti_unit_id = unit_id, ti_acceptance_criterion_id = fst entry,
      ti_required_levels = sort (remdups (snd entry)),
      ti_observed_levels = sort (remdups (observed_levels g (fst entry))),
      ti_missing_levels = missing_levels g entry\<rparr>"

lemma sort_Nil_iff [simp]: "sort xs = [] \<longleftrightarrow> xs = []"
  by (metis length_0_conv length_sort)

lemma matrix_issue_eq:
  "matrix_issue unit_id (observed_levels g) entry =
     (if missing_levels g entry = [] then Inr None
      else if valid_PlanTestMatrixIssue (reported_issue unit_id g entry)
      then Inr (Some (reported_issue unit_id g entry)) else Inl StageValidationError)"
  by (simp add: matrix_issue_def missing_levels_def reported_issue_def Let_def split: prod.split)

lemma missing_levels_Nil:
  "missing_levels g entry = [] \<longleftrightarrow> set (snd entry) \<subseteq> set (observed_levels g (fst entry))"
  by (auto simp: missing_levels_def filter_empty_conv)

lemma map_res_Inr_Nil: "map_res f xs = Inr ys \<Longrightarrow> List.map_filter id ys = [] \<longleftrightarrow> (\<forall>x \<in> set xs. f x = Inr None)"
  by (induction xs arbitrary: ys) (auto simp: bind_res_Inr_iff map_filter_simps split: option.splits)

lemma test_matrix_passes_iff:
  "validate_plan_test_matrix g req unit_id = Inr () \<longleftrightarrow>
     (\<forall>(c, ls) \<in> set req. set ls \<subseteq> set (observed_levels g c))"
proof -
  let ?f = "matrix_issue unit_id (observed_levels g)"
  have none: "?f e = Inr None \<longleftrightarrow> set (snd e) \<subseteq> set (observed_levels g (fst e))" for e
    by (simp add: matrix_issue_eq missing_levels_Nil)
  have "validate_plan_test_matrix g req unit_id = Inr () \<longleftrightarrow>
      (\<exists>ys. map_res ?f (sort_key fst req) = Inr ys \<and> List.map_filter id ys = [])"
    by (auto simp: validate_plan_test_matrix_def bind_res_Inr_iff Let_def)
  also have "\<dots> \<longleftrightarrow> (\<forall>e \<in> set req. ?f e = Inr None)"
    using map_res_Inr_Nil [of ?f "sort_key fst req"] map_res_all [of "sort_key fst req" ?f "\<lambda>_. None"]
    by (auto simp: map_filter_simps)
  finally show ?thesis by (simp add: none split_beta)
qed

lemma test_matrix_error:
  assumes "\<And>e. e \<in> set req \<Longrightarrow> missing_levels g e \<noteq> [] \<Longrightarrow> valid_PlanTestMatrixIssue (reported_issue unit_id g e)"
  shows "validate_plan_test_matrix g req unit_id =
    (let issues = map (reported_issue unit_id g)
            (filter (\<lambda>e. missing_levels g e \<noteq> []) (sort_key fst req))
     in if issues = [] then Inr () else Inl (PlanTestMatrixError issues))"
proof -
  let ?found = "\<lambda>e. if missing_levels g e = [] then None else Some (reported_issue unit_id g e)"
  have "map_res (matrix_issue unit_id (observed_levels g)) (sort_key fst req) =
      Inr (map ?found (sort_key fst req))"
    using assms by (intro map_res_all) (simp add: matrix_issue_eq)
  moreover have "List.map_filter id (map ?found es) =
      map (reported_issue unit_id g) (filter (\<lambda>e. missing_levels g e \<noteq> []) es)" for es
    by (induction es) (simp_all add: map_filter_simps)
  ultimately show ?thesis
    by (simp add: validate_plan_test_matrix_def Let_def guard_res_def)
qed

text \<open>What a complete chain binds together.\<close>

lemma stage_chainD:
  assumes "validate_stage_chain H prep r s a d p = Inr ()"
  shows "preparation_integrity H prep = Inr ()" "request_integrity H r = Inr ()"
    "spec_integrity H s = Inr ()" "approval_integrity H a = Inr ()" "design_integrity H d = Inr ()"
    "plan_integrity H p = Inr ()" "req_status r = PRS_READY_FOR_DELIVERY"
    "appr_decision a = PAD_APPROVED" "spec_status s = PSS_READY_FOR_REVIEW"
    "appr_product_spec_id a = spec_id s" "appr_product_spec_sha256 a = spec_product_spec_sha256 s"
    "dsn_product_approval_id d = appr_id a" "dsn_product_spec_sha256 d = spec_product_spec_sha256 s"
    "plan_technical_design_sha256 p = dsn_technical_design_sha256 d"
    "plan_product_spec_sha256 p = spec_product_spec_sha256 s"
    "req_preparation_sha256 r = prep_preparation_sha256 prep"
    "spec_request_id s = req_id r" "spec_repository_id s = prep_repository_id prep"
    "appr_request_id a = req_id r" "dsn_request_id d = req_id r" "plan_request_id p = req_id r"
    "set (map rdm_requirement_id (dsn_requirement_mappings d)) = set (map pq_id (spec_requirements s))"
    "set (map adm_acceptance_criterion_id (dsn_acceptance_mappings d)) =
       set (map ac_id (spec_acceptance_criteria s))"
    "\<And>g. plan_work_graph p = Some g \<Longrightarrow> validate_work_packages s d g = Inr ()"
  using assms
  by (auto simp: validate_stage_chain_def validate_technical_design_def validate_execution_plan_def
      require_product_approval_def bind_res_Inr_iff)

lemma work_packages_cover:
  assumes "validate_work_packages s d g = Inr ()"
    and "distinct (map adm_acceptance_criterion_id (dsn_acceptance_mappings d))"
    and "m \<in> set (dsn_acceptance_mappings d)" and "l \<in> set (adm_test_levels m)"
  shows "\<exists>w \<in> set (pg_packages g). \<exists>t \<in> set (pw_tests w).
    adm_acceptance_criterion_id m \<in> set (pt_acceptance_criterion_ids t) \<and> pt_level t = l"
proof -
  let ?levels = "map (\<lambda>m. (adm_acceptance_criterion_id m, adm_test_levels m)) (dsn_acceptance_mappings d)"
  have "dict_of ?levels = ?levels" using assms(2) by (intro dict_of_distinct) (simp add: comp_def)
  with assms(1) have "validate_plan_test_matrix g ?levels None = Inr ()"
    by (auto simp: validate_work_packages_def design_levels_def bind_res_Inr_iff)
  with assms(3,4) have "l \<in> set (observed_levels g (adm_acceptance_criterion_id m))"
    by (auto simp: test_matrix_passes_iff)
  then show ?thesis by (auto simp: observed_levels_iff)
qed

lemma derive_delivery_task_Inr:
  "derive_delivery_task H resolve prep r s a d p order = Inr t \<longleftrightarrow>
     validate_stage_chain H prep r s a d p = Inr () \<and>
     resolve (do_repository order) = Some (parse_path (prep_repository_root prep)) \<and> valid_Task t \<and>
     t = \<lparr>t_id = do_task_id order, t_title = req_title r, t_description = spec_summary s,
          t_repository = path_text (parse_path (prep_repository_root prep)), t_base_ref = do_base_ref order,
          t_branch_name = spec_branch_name s, t_acceptance_criteria = spec_acceptance_criteria s,
          t_constraints = do_constraints order, t_status = TS_NEW,
          t_max_attempts = do_max_attempts order, t_attempts = 0, t_owner = do_owner order,
          t_labels = do_labels order, t_created_at = do_created_at order,
          t_updated_at = do_created_at order, t_metadata = delivery_metadata prep r s a d p,
          t_retry_policy = do_retry_policy order, t_retry_failures = None,
          t_interruption_continuation_policy = do_interruption_continuation_policy order,
          t_engineering_policy = do_engineering_policy order\<rparr>"
  by (auto simp: derive_delivery_task_def bind_res_Inr_iff Let_def split: option.splits)

end
