(* ===== verification/Planning_Gate.thy ===== *)
theory Planning_Gate
  imports Stage_Contracts
begin

section \<open>The planning gate and the zero-model plan\<close>

text \<open>
  \<^verbatim>\<open>planning/gate.py\<close>: the Manager's deterministic classification of a design into a simple or a
  complex change, and \<^verbatim>\<open>planning/fast.py\<close>: the plan that a simple change gets without a model. The
  digest of canonical JSON is a parameter: \<open>D\<close> on the gate's own records, \<open>H\<close> on stage documents, and
  \<open>run_hash\<close> on the text of a run id. Both failures of the gate are a \<open>ValueError\<close>.
\<close>

datatype PlanningMode = PM_SIMPLE | PM_COMPLEX

record PlanningFacts =
  pfa_product_spec_sha256 :: string
  pfa_technical_design_sha256 :: string
  pfa_repository_count :: int
  pfa_component_count :: int
  pfa_integration_group_count :: int
  pfa_technical_risk :: RiskTier
  pfa_design_facts :: DesignComplexityFacts

definition valid_PlanningFacts :: "PlanningFacts \<Rightarrow> bool" where
  "valid_PlanningFacts f \<longleftrightarrow>
     valid_StageSha256 (pfa_product_spec_sha256 f) \<and> valid_StageSha256 (pfa_technical_design_sha256 f) \<and>
     1 \<le> pfa_repository_count f \<and> 1 \<le> pfa_component_count f \<and> 0 \<le> pfa_integration_group_count f \<and>
     list_all non_empty (dx_integration_groups (pfa_design_facts f))"

record HumanPlanningUpgrade =
  hu_input_sha256 :: string
  hu_operator_id :: string
  hu_rationale :: string
  hu_decided_at :: instant

definition valid_HumanPlanningUpgrade :: "HumanPlanningUpgrade \<Rightarrow> bool" where
  "valid_HumanPlanningUpgrade u \<longleftrightarrow>
     valid_StageSha256 (hu_input_sha256 u) \<and> non_empty (hu_operator_id u) \<and> non_empty (hu_rationale u)"

record PlanningDecision =
  gd_facts :: PlanningFacts
  gd_input_sha256 :: string
  gd_mode :: PlanningMode
  gd_reason_codes :: "string list"
  gd_human_upgrade :: "HumanPlanningUpgrade option"
  gd_decision_sha256 :: string

definition valid_PlanningDecision :: "PlanningDecision \<Rightarrow> bool" where
  "valid_PlanningDecision d \<longleftrightarrow>
     valid_PlanningFacts (gd_facts d) \<and> valid_StageSha256 (gd_input_sha256 d) \<and>
     list_all non_empty (gd_reason_codes d) \<and> gd_reason_codes d \<noteq> [] \<and>
     opt_all valid_HumanPlanningUpgrade (gd_human_upgrade d) \<and> valid_StageSha256 (gd_decision_sha256 d)"

datatype gate_document = GateFacts PlanningFacts | GateDecision PlanningDecision

type_synonym gate_hash = "gate_document \<Rightarrow> string"

datatype gate_error = GateValueError | GateStageError stage_error

subsection \<open>Facts of a design\<close>

text \<open>Python's \<open>max\<close> with the key \<^verbatim>\<open>risk_rank\<close>: the first of the greatest entries.\<close>

fun max_risk :: "RiskTier \<Rightarrow> RiskTier list \<Rightarrow> RiskTier" where
  "max_risk best [] = best"
| "max_risk best (r # rs) = max_risk (if risk_rank best < risk_rank r then r else best) rs"

definition highest_risk :: "RiskTier list \<Rightarrow> RiskTier" where
  "highest_risk rs = (case rs of [] \<Rightarrow> RT_LOW | r # rest \<Rightarrow> max_risk r rest)"

definition facts_from_design ::
  "stage_hash \<Rightarrow> ProductSpec \<Rightarrow> TechnicalDesign \<Rightarrow> stage_error + PlanningFacts" where
  "facts_from_design H s d =
     bind_res (spec_integrity H s) (\<lambda>_.
     bind_res (design_integrity H d) (\<lambda>_.
     let design_facts = (case dsn_complexity_facts d of None \<Rightarrow> default_complexity | Some f \<Rightarrow> f);
         facts = \<lparr>pfa_product_spec_sha256 = spec_product_spec_sha256 s,
                  pfa_technical_design_sha256 = dsn_technical_design_sha256 d,
                  pfa_repository_count = 1, pfa_component_count = int (length (dsn_components d)),
                  pfa_integration_group_count = int (card (set (dx_integration_groups design_facts))),
                  pfa_technical_risk = highest_risk (map dk_tier (dsn_risks d)),
                  pfa_design_facts = design_facts\<rparr> in
     if valid_PlanningFacts facts then Inr facts else Inl StageValidationError))"

subsection \<open>Classification\<close>

definition fact_reasons :: "PlanningFacts \<Rightarrow> string list" where
  "fact_reasons f =
     (let x = pfa_design_facts f in
      (if 1 < pfa_repository_count f then [''MULTIPLE_REPOSITORIES''] else []) @
      (if 1 < pfa_component_count f then [''MULTIPLE_MODULES''] else []) @
      (if dx_database_migration x then [''DATABASE_MIGRATION''] else []) @
      (if dx_interface_compatibility x then [''INTERFACE_COMPATIBILITY''] else []) @
      (if dx_data_backfill x then [''DATA_BACKFILL''] else []) @
      (if dx_security x then [''SECURITY''] else []) @
      (if dx_performance x then [''PERFORMANCE''] else []) @
      (if dx_concurrency x then [''CONCURRENCY''] else []) @
      (if dx_work_package_dependencies x then [''WORK_PACKAGE_DEPENDENCIES''] else []) @
      (if 1 < pfa_integration_group_count f then [''MULTIPLE_INTEGRATION_GROUPS''] else []) @
      (if risk_rank RT_NORMAL \<le> risk_rank (pfa_technical_risk f) then [''TECHNICAL_RISK''] else []))"

definition classify ::
  "gate_hash \<Rightarrow> PlanningFacts \<Rightarrow> HumanPlanningUpgrade option \<Rightarrow> gate_error + PlanningDecision" where
  "classify D f upgrade =
     bind_res (case upgrade of
                 None \<Rightarrow> Inr (fact_reasons f)
               | Some u \<Rightarrow>
                   if hu_input_sha256 u \<noteq> D (GateFacts f) then Inl GateValueError
                   else Inr (fact_reasons f @ [''HUMAN_UPGRADE''])) (\<lambda>reasons.
     let provisional =
       \<lparr>gd_facts = f, gd_input_sha256 = D (GateFacts f),
        gd_mode = (if reasons = [] then PM_SIMPLE else PM_COMPLEX),
        gd_reason_codes = (if reasons = [] then [''SIMPLE_CHANGE''] else reasons),
        gd_human_upgrade = upgrade, gd_decision_sha256 = zero_digest\<rparr> in
     if valid_PlanningDecision provisional
     then Inr (provisional\<lparr>gd_decision_sha256 := D (GateDecision (provisional\<lparr>gd_decision_sha256 := []\<rparr>))\<rparr>)
     else Inl GateValueError)"

definition decision_integrity :: "gate_hash \<Rightarrow> PlanningDecision \<Rightarrow> gate_error + unit" where
  "decision_integrity D d =
     bind_res (classify D (gd_facts d) (gd_human_upgrade d)) (\<lambda>expected.
     guard_res (d = expected) GateValueError)"

subsection \<open>The fast plan\<close>

definition fast_phase :: "AcceptanceCriterion list \<Rightarrow> AgentRole \<times> string \<Rightarrow> PlanPhaseDemand" where
  "fast_phase criteria rc =
     (case rc of (role, capability) \<Rightarrow>
      \<lparr>ph_id = ''phase_'' @ AgentRole_value role @ ''_001'', ph_role = role,
       ph_objective = ''Complete '' @ AgentRole_value role @ '' for all exact approved acceptance criteria'',
       ph_required_capabilities = [capability], ph_risk = RT_LOW, ph_minimum_brain_tier = BT_STANDARD,
       ph_checkpoints = map (\<lambda>c. ac_id c @ '': '' @ ac_verification c) criteria, ph_critical_path = True\<rparr>)"

text \<open>
  The result carries the plan and the identities of the request; the model returns the plan. The
  constructor of a phase checks it, which \<open>create_plan\<close> repeats on the whole plan.
\<close>

definition fast_plan ::
  "stage_hash \<Rightarrow> gate_hash \<Rightarrow> (string \<Rightarrow> string) \<Rightarrow> PlanningDecision option \<Rightarrow> ProductSpec \<Rightarrow> TechnicalDesign \<Rightarrow>
   string \<Rightarrow> int \<Rightarrow> PlanExecutionWindow option \<Rightarrow> instant \<Rightarrow> gate_error + ExecutionPlan" where
  "fast_plan H D run_hash decision s d run_id version execution_window built_at =
     (case decision of
        None \<Rightarrow> Inl GateValueError
      | Some dec \<Rightarrow>
          bind_res (guard_res (gd_mode dec = PM_SIMPLE) GateValueError) (\<lambda>_.
          bind_res (decision_integrity D dec) (\<lambda>_.
          let draft =
            \<lparr>plan_execution_window = execution_window,
             plan_id = ''execution_plan_'' @ take 24 (run_hash run_id),
             plan_request_id = [], plan_repository_id = [], plan_product_spec_id = [],
             plan_product_spec_sha256 = [], plan_technical_design_id = [], plan_technical_design_sha256 = [],
             plan_version = version,
             plan_phases = map (fast_phase (spec_acceptance_criteria s))
               [(AR_CODER, ''implementation''), (AR_QA, ''testing''), (AR_REVIEWER, ''review'')],
             plan_feasibility_evidence_uris = [], plan_work_graph = None, plan_revision_feedback = None,
             plan_created_at = built_at, plan_execution_plan_sha256 = []\<rparr> in
          case create_plan H s d draft of Inl e \<Rightarrow> Inl (GateStageError e) | Inr p \<Rightarrow> Inr p)))"

subsection \<open>Lemmas\<close>

lemma classify_mode:
  "classify D f upgrade = Inr dec \<Longrightarrow>
     gd_facts dec = f \<and> gd_human_upgrade dec = upgrade \<and> gd_input_sha256 dec = D (GateFacts f) \<and>
     gd_decision_sha256 dec = D (GateDecision (dec\<lparr>gd_decision_sha256 := []\<rparr>)) \<and>
     (gd_mode dec = PM_SIMPLE \<longleftrightarrow> fact_reasons f = [] \<and> upgrade = None) \<and>
     (fact_reasons f = [] \<and> upgrade = None \<longrightarrow> gd_reason_codes dec = [''SIMPLE_CHANGE'']) \<and>
     (\<not> (fact_reasons f = [] \<and> upgrade = None) \<longrightarrow>
        gd_reason_codes dec = fact_reasons f @ (if upgrade = None then [] else [''HUMAN_UPGRADE'']))"
  by (auto simp: classify_def bind_res_Inr_iff Let_def split: option.splits if_splits)

lemma fact_reasons_Nil:
  "fact_reasons f = [] \<longleftrightarrow>
     pfa_repository_count f \<le> 1 \<and> pfa_component_count f \<le> 1 \<and> pfa_integration_group_count f \<le> 1 \<and>
     pfa_technical_risk f = RT_LOW \<and>
     \<not> dx_database_migration (pfa_design_facts f) \<and> \<not> dx_interface_compatibility (pfa_design_facts f) \<and>
     \<not> dx_data_backfill (pfa_design_facts f) \<and> \<not> dx_security (pfa_design_facts f) \<and>
     \<not> dx_performance (pfa_design_facts f) \<and> \<not> dx_concurrency (pfa_design_facts f) \<and>
     \<not> dx_work_package_dependencies (pfa_design_facts f)"
  by (cases "pfa_technical_risk f") (auto simp: fact_reasons_def Let_def)

lemma decision_integrity_iff:
  "decision_integrity D d = Inr () \<longleftrightarrow> classify D (gd_facts d) (gd_human_upgrade d) = Inr d"
  by (auto simp: decision_integrity_def bind_res_Inr_iff)

lemma max_risk_ge: "risk_rank best \<le> risk_rank (max_risk best rs) \<and> (\<forall>r \<in> set rs. risk_rank r \<le> risk_rank (max_risk best rs))"
proof (induction rs arbitrary: best)
  case (Cons r rs)
  show ?case
    using Cons.IH [of "if risk_rank best < risk_rank r then r else best"] by (auto split: if_splits)
qed simp

lemma highest_risk_ge: "r \<in> set rs \<Longrightarrow> risk_rank r \<le> risk_rank (highest_risk rs)"
  using max_risk_ge by (cases rs) (auto simp: highest_risk_def)

lemma risk_rank_low: "risk_rank r \<le> risk_rank RT_LOW \<longleftrightarrow> r = RT_LOW"
  by (cases r) simp_all

lemma facts_from_design_Inr:
  assumes "facts_from_design H s d = Inr f"
    and "x = (case dsn_complexity_facts d of None \<Rightarrow> default_complexity | Some f \<Rightarrow> f)"
  shows "pfa_repository_count f = 1"
    "pfa_component_count f = int (length (dsn_components d))" "1 \<le> length (dsn_components d)"
    "pfa_integration_group_count f = int (card (set (dx_integration_groups x)))"
    "pfa_technical_risk f = highest_risk (map dk_tier (dsn_risks d))" "pfa_design_facts f = x"
  using assms(1) unfolding facts_from_design_def assms(2) [symmetric]
  by (auto simp: bind_res_Inr_iff Let_def valid_PlanningFacts_def split: if_splits)

subsection \<open>The fast plan\<close>

lemma fast_plan_Inr:
  assumes "fast_plan H D run_hash decision s d run_id version win at = Inr p"
  obtains dec draft where "decision = Some dec" "gd_mode dec = PM_SIMPLE" "decision_integrity D dec = Inr ()"
    "create_plan H s d draft = Inr p" "plan_work_graph draft = None" "plan_version draft = version"
    "plan_phases draft = map (fast_phase (spec_acceptance_criteria s))
       [(AR_CODER, ''implementation''), (AR_QA, ''testing''), (AR_REVIEWER, ''review'')]"
  using assms by (auto simp: fast_plan_def bind_res_Inr_iff Let_def split: option.splits sum.splits)

lemma create_plan_Inr:
  assumes "create_plan H s d draft = Inr p"
  shows "validate_execution_plan H s d p = Inr ()" "plan_phases p = plan_phases draft"
    "plan_work_graph p = plan_work_graph draft" "plan_version p = plan_version draft"
  using assms by (auto simp: create_plan_def bind_res_Inr_iff Let_def)

text \<open>The checkpoints of a fast phase differ because a criterion id holds no colon.\<close>

lemma id_char_no_colon: "id_tail_char c \<Longrightarrow> c \<noteq> CHR '':''"
  by (auto simp: id_tail_char_def lower_or_digit_def less_eq_char_def)

lemma criterion_id_no_colon:
  assumes "valid_AcceptanceCriterionId i"
  shows "CHR '':'' \<notin> set i"
proof -
  have "take 3 i = ''ac_''" and rest: "list_all id_tail_char (drop 3 i)"
    using assms by (auto simp: valid_AcceptanceCriterionId_def match_id_def id_tail_char_def numeral_3_eq_3 split: list.splits)
  then have "set i = set ''ac_'' \<union> set (drop 3 i)" by (metis append_take_drop_id set_append)
  with rest show ?thesis using id_char_no_colon by (auto simp: list_all_iff)
qed

lemma checkpoint_id:
  "CHR '':'' \<notin> set i \<Longrightarrow> takeWhile (\<lambda>c. c \<noteq> CHR '':'') (i @ '': '' @ v) = i"
  by (induction i) auto

lemma fast_phase_valid:
  assumes "validate_product_spec s" and "list_all valid_AcceptanceCriterion (spec_acceptance_criteria s)"
    and "spec_acceptance_criteria s \<noteq> []" and "role \<noteq> AR_ORCHESTRATOR" and "capability \<noteq> []"
  shows "valid_PlanPhaseDemand (fast_phase (spec_acceptance_criteria s) (role, capability))"
proof -
  let ?cs = "spec_acceptance_criteria s" and ?text = "\<lambda>c. ac_id c @ '': '' @ ac_verification c"
  have ids: "distinct (map ac_id ?cs)" using assms(1) by (simp add: validate_product_spec_def)
  have id: "takeWhile (\<lambda>x. x \<noteq> CHR '':'') (?text c) = ac_id c" if "c \<in> set ?cs" for c
  proof (rule checkpoint_id)
    have "valid_AcceptanceCriterion c" using that assms(2) by (simp add: list_all_iff)
    then show "CHR '':'' \<notin> set (ac_id c)"
      by (intro criterion_id_no_colon) (simp add: valid_AcceptanceCriterion_def)
  qed
  have "inj_on ?text (set ?cs)"
  proof (rule inj_onI)
    fix c e assume "c \<in> set ?cs" "e \<in> set ?cs" "?text c = ?text e"
    then have "ac_id c = ac_id e" using id [of c] id [of e] by simp
    with ids \<open>c \<in> _\<close> \<open>e \<in> _\<close> show "c = e" by (auto simp: distinct_map dest: inj_onD)
  qed
  with ids have "distinct (map ?text ?cs)" by (simp add: distinct_map)
  moreover have "valid_PlanPhaseId (''phase_'' @ AgentRole_value role @ ''_001'')"
    by (cases role) (simp_all add: valid_PlanPhaseId_def match_id_def lower_or_digit_def id_tail_char_def less_eq_char_def)
  moreover have "non_empty (?text c)" for c by (simp add: non_empty_def)
  ultimately show ?thesis
    using assms(3,5)
    by (simp add: valid_PlanPhaseDemand_def fast_phase_def list_all_length) (simp add: non_empty_def)
qed

lemma fast_plan_id_valid:
  assumes "valid_StageSha256 h"
  shows "valid_ExecutionPlanId (''execution_plan_'' @ take 24 h)"
proof -
  have h: "length h = 64" "list_all hex_char h" using assms by (auto simp: valid_StageSha256_def match_hex_def)
  then obtain c cs where t: "take 24 h = c # cs" by (cases "take 24 h") auto
  have "length (take 24 h) = 24" using h(1) by simp
  then have "length cs = 23" by (simp add: t)
  moreover have "list_all hex_char (c # cs)"
    unfolding t [symmetric] using h(2) by (auto simp: list_all_iff dest: in_set_takeD)
  moreover have "hex_char x \<Longrightarrow> lower_or_digit x" for x
    by (auto simp: hex_char_def lower_or_digit_def less_eq_char_def)
  ultimately show ?thesis by (auto simp: valid_ExecutionPlanId_def match_id_def t id_tail_char_def list_all_iff)
qed

end
