(* ===== verification/Plan_Store.thy ===== *)
theory Plan_Store
  imports Planning_Gate
begin

section \<open>The execution plan store\<close>

text \<open>
  \<^verbatim>\<open>planning/store.py\<close>: the append-only file store of execution plans and planning decisions. A
  record file is its name, the record and the digest of the envelope; publishing is exclusive. Path
  trust (symbolic links, directory replacement, partial reads) is not modelled; a call runs alone.
  The runs and checkpoints of the same store follow the two generic record methods and are not modelled.
\<close>

datatype plan_store_error =
    ExecutionPlanNotFound | ExecutionPlanConflict | ExecutionPlanCorruption | ExecutionPlanPathError
  | PlanIntegrityValueError

record 'r record_file =
  rf_name :: string
  rf_record :: 'r
  rf_sha256 :: string

record plan_store =
  eps_read_only :: bool
  eps_plans :: "ExecutionPlan record_file list"
  eps_decisions :: "PlanningDecision record_file list"

definition new_plan_store :: plan_store where
  "new_plan_store = \<lparr>eps_read_only = False, eps_plans = [], eps_decisions = []\<rparr>"

subsection \<open>Records\<close>

text \<open>
  \<^verbatim>\<open>_get_record\<close> and \<^verbatim>\<open>_put_record\<close>, which every category of small records shares: \<open>digest\<close> is the
  digest of the wire form, \<open>ok\<close> the model's validation together with its integrity check.
\<close>

definition get_record ::
  "('r \<Rightarrow> string) \<Rightarrow> ('r \<Rightarrow> bool) \<Rightarrow> 'r record_file list \<Rightarrow> string \<Rightarrow> plan_store_error + 'r" where
  "get_record digest ok files i =
     (case row_of rf_name i files of
        None \<Rightarrow> Inl ExecutionPlanNotFound
      | Some f \<Rightarrow>
          if rf_sha256 f \<noteq> digest (rf_record f) \<or> \<not> ok (rf_record f) then Inl ExecutionPlanCorruption
          else Inr (rf_record f))"

definition put_record ::
  "bool \<Rightarrow> ('r \<Rightarrow> string) \<Rightarrow> ('r \<Rightarrow> bool) \<Rightarrow> 'r record_file list \<Rightarrow> string \<Rightarrow> 'r \<Rightarrow>
   plan_store_error + 'r \<times> 'r record_file list" where
  "put_record read_only digest ok files i r =
     (if read_only then Inl ExecutionPlanPathError
      else
        case row_of rf_name i files of
          Some _ \<Rightarrow>
            bind_res (get_record digest ok files i) (\<lambda>existing.
            if existing = r then Inr (existing, files) else Inl ExecutionPlanConflict)
        | None \<Rightarrow>
            (let files' = files @ [\<lparr>rf_name = i, rf_record = r, rf_sha256 = digest r\<rparr>] in
             bind_res (get_record digest ok files' i) (\<lambda>stored. Inr (stored, files'))))"

definition put_planning_decision ::
  "gate_hash \<Rightarrow> plan_store \<Rightarrow> string \<Rightarrow> PlanningDecision \<Rightarrow> plan_store_error + PlanningDecision \<times> plan_store" where
  "put_planning_decision D st run_id d =
     bind_res (guard_res (decision_integrity D d = Inr ()) PlanIntegrityValueError) (\<lambda>_.
     bind_res (guard_res (valid_RunId run_id) ExecutionPlanNotFound) (\<lambda>_.
     bind_res (put_record (eps_read_only st) (\<lambda>d. D (GateDecision d))
                 (\<lambda>d. valid_PlanningDecision d \<and> decision_integrity D d = Inr ()) (eps_decisions st) run_id d)
       (\<lambda>(stored, files). Inr (stored, st\<lparr>eps_decisions := files\<rparr>))))"

definition get_planning_decision ::
  "gate_hash \<Rightarrow> plan_store \<Rightarrow> string \<Rightarrow> plan_store_error + PlanningDecision" where
  "get_planning_decision D st run_id =
     bind_res (guard_res (valid_RunId run_id) ExecutionPlanNotFound) (\<lambda>_.
     get_record (\<lambda>d. D (GateDecision d))
       (\<lambda>d. valid_PlanningDecision d \<and> decision_integrity D d = Inr ()) (eps_decisions st) run_id)"

subsection \<open>Plans\<close>

definition validate_plan_record :: "stage_hash \<Rightarrow> ExecutionPlan \<Rightarrow> plan_store_error + unit" where
  "validate_plan_record H p = guard_res (plan_integrity H p = Inr ()) ExecutionPlanCorruption"

definition get_execution_plan :: "stage_hash \<Rightarrow> plan_store \<Rightarrow> string \<Rightarrow> plan_store_error + ExecutionPlan" where
  "get_execution_plan H st i =
     (if \<not> valid_ExecutionPlanId i then Inl ExecutionPlanNotFound
      else
        case row_of rf_name i (eps_plans st) of
          None \<Rightarrow> Inl ExecutionPlanNotFound
        | Some f \<Rightarrow>
            (let p = rf_record f in
             bind_res (guard_res (rf_sha256 f = H (DocPlan p)) ExecutionPlanCorruption) (\<lambda>_.
             bind_res (guard_res (valid_ExecutionPlan p) ExecutionPlanCorruption) (\<lambda>_.
             bind_res (validate_plan_record H p) (\<lambda>_.
             bind_res (guard_res (plan_id p = i) ExecutionPlanCorruption) (\<lambda>_. Inr p))))))"

text \<open>Every plan file is read, in the order of the file names, before the request is looked at.\<close>

definition stored_plans :: "stage_hash \<Rightarrow> plan_store \<Rightarrow> plan_store_error + ExecutionPlan list" where
  "stored_plans H st =
     map_res (\<lambda>f. get_execution_plan H st (rf_name f)) (sort_key (\<lambda>f. rf_name f @ ''.json'') (eps_plans st))"

fun max_version :: "ExecutionPlan \<Rightarrow> ExecutionPlan list \<Rightarrow> ExecutionPlan" where
  "max_version best [] = best"
| "max_version best (p # ps) = max_version (if plan_version best < plan_version p then p else best) ps"

definition find_for_request ::
  "stage_hash \<Rightarrow> plan_store \<Rightarrow> string \<Rightarrow> plan_store_error + ExecutionPlan option" where
  "find_for_request H st request_id =
     bind_res (stored_plans H st) (\<lambda>all_plans.
     case filter (\<lambda>p. plan_request_id p = request_id) all_plans of
       [] \<Rightarrow> Inr None
     | p # ps \<Rightarrow>
         (let versions = map plan_version (p # ps) in
          bind_res (guard_res (card (set versions) = length versions) ExecutionPlanCorruption) (\<lambda>_.
          bind_res (guard_res (set versions = {1..plan_version (max_version p ps)}) ExecutionPlanCorruption) (\<lambda>_.
          Inr (Some (max_version p ps))))))"

definition put_execution_plan ::
  "stage_hash \<Rightarrow> plan_store \<Rightarrow> ExecutionPlan \<Rightarrow> plan_store_error + ExecutionPlan \<times> plan_store" where
  "put_execution_plan H st p =
     bind_res (validate_plan_record H p) (\<lambda>_.
     bind_res (guard_res (\<not> eps_read_only st) ExecutionPlanPathError) (\<lambda>_.
     case row_of rf_name (plan_id p) (eps_plans st) of
       Some _ \<Rightarrow>
         bind_res (get_execution_plan H st (plan_id p)) (\<lambda>existing.
         if existing = p then Inr (existing, st) else Inl ExecutionPlanConflict)
     | None \<Rightarrow>
         bind_res (find_for_request H st (plan_request_id p)) (\<lambda>latest.
         bind_res (guard_res (validate_execution_plan_revision p latest = Inr ()) ExecutionPlanConflict) (\<lambda>_.
         let st' = st\<lparr>eps_plans := eps_plans st @
               [\<lparr>rf_name = plan_id p, rf_record = p, rf_sha256 = H (DocPlan p)\<rparr>]\<rparr> in
         bind_res (get_execution_plan H st' (plan_id p)) (\<lambda>stored. Inr (stored, st'))))))"

subsection \<open>The invariant\<close>

text \<open>
  Every stored plan is readable under its own id, and the plans of one request are revisions
  \<open>1, 2, ..., n\<close> of which each later one names the id and the digest of the one before.
\<close>

definition plans_of :: "plan_store \<Rightarrow> string \<Rightarrow> ExecutionPlan list" where
  "plans_of st request_id = filter (\<lambda>p. plan_request_id p = request_id) (map rf_record (eps_plans st))"

definition plan_file_ok :: "stage_hash \<Rightarrow> ExecutionPlan record_file \<Rightarrow> bool" where
  "plan_file_ok H f \<longleftrightarrow>
     rf_name f = plan_id (rf_record f) \<and> rf_sha256 f = H (DocPlan (rf_record f)) \<and>
     valid_ExecutionPlan (rf_record f) \<and> plan_integrity H (rf_record f) = Inr ()"

fun revision_chain :: "ExecutionPlan option \<Rightarrow> ExecutionPlan list \<Rightarrow> bool" where
  "revision_chain prev [] = True"
| "revision_chain prev (p # ps) \<longleftrightarrow> validate_execution_plan_revision p prev = Inr () \<and> revision_chain (Some p) ps"

definition plan_store_inv :: "stage_hash \<Rightarrow> plan_store \<Rightarrow> bool" where
  "plan_store_inv H st \<longleftrightarrow>
     unique_key rf_name (eps_plans st) \<and> (\<forall>f \<in> set (eps_plans st). plan_file_ok H f) \<and>
     (\<forall>request_id. revision_chain None (plans_of st request_id))"

lemma revision_chain_append:
  "revision_chain prev (ps @ [p]) \<longleftrightarrow>
     revision_chain prev ps \<and>
     validate_execution_plan_revision p (if ps = [] then prev else Some (last ps)) = Inr ()"
  by (induction ps arbitrary: prev) auto

lemma revision_version:
  "validate_execution_plan_revision p None = Inr () \<Longrightarrow> plan_version p = 1"
  "validate_execution_plan_revision p (Some q) = Inr () \<Longrightarrow> plan_version p = plan_version q + 1"
  by (auto simp: validate_execution_plan_revision_def split: option.splits)

lemma revision_chain_versions:
  "revision_chain None ps \<Longrightarrow> map plan_version ps = map int [1..<Suc (length ps)]"
proof (induction ps rule: rev_induct)
  case (snoc p ps)
  then have ih: "map plan_version ps = map int [1..<Suc (length ps)]"
    by (simp add: revision_chain_append)
  have "plan_version p = int (Suc (length ps))"
  proof (cases ps rule: rev_cases)
    case Nil
    with snoc.prems show ?thesis by (simp add: revision_version)
  next
    case (snoc qs q)
    then have "plan_version q = int (length ps)" using ih by simp
    moreover have "validate_execution_plan_revision p (Some q) = Inr ()"
      using snoc.prems unfolding revision_chain_append by (simp add: snoc)
    then have "plan_version p = plan_version q + 1" by (rule revision_version)
    ultimately show ?thesis by simp
  qed
  with ih show ?case by simp
qed simp

lemma max_version_mem: "max_version p ps \<in> set (p # ps)"
  by (induction ps arbitrary: p) (auto split: if_splits)

lemma max_version_ge: "q \<in> set (p # ps) \<Longrightarrow> plan_version q \<le> plan_version (max_version p ps)"
proof (induction ps arbitrary: p q)
  case (Cons r rs)
  let ?best = "if plan_version p < plan_version r then r else p"
  have "plan_version p \<le> plan_version ?best" "plan_version r \<le> plan_version ?best" by simp_all
  moreover have "plan_version ?best \<le> plan_version (max_version ?best rs)" by (rule Cons.IH) simp
  moreover have "plan_version q \<le> plan_version (max_version ?best rs)" if "q \<in> set rs"
    using that by (intro Cons.IH) simp
  ultimately show ?case using Cons.prems by (auto simp del: if_split)
qed simp

lemma get_plan_ok:
  assumes "plan_store_inv H st" and "f \<in> set (eps_plans st)"
  shows "get_execution_plan H st (rf_name f) = Inr (rf_record f)"
proof -
  have "plan_file_ok H f" "row_of rf_name (rf_name f) (eps_plans st) = Some f"
    using assms row_of_unique by (auto simp: plan_store_inv_def)
  then show ?thesis
    by (simp add: get_execution_plan_def plan_file_ok_def valid_ExecutionPlan_def validate_plan_record_def Let_def)
qed

lemma find_for_request_latest:
  assumes "plan_store_inv H st"
  shows "find_for_request H st i =
    Inr (if plans_of st i = [] then None else Some (last (plans_of st i)))"
proof -
  let ?files = "sort_key (\<lambda>f. rf_name f @ ''.json'') (eps_plans st)"
  let ?found = "filter (\<lambda>p. plan_request_id p = i) (map rf_record ?files)"
  have read: "stored_plans H st = Inr (map rf_record ?files)"
    unfolding stored_plans_def using get_plan_ok [OF assms] by (intro map_res_all) simp
  have perm: "mset ?found = mset (plans_of st i)" by (simp add: plans_of_def)
  have chain: "revision_chain None (plans_of st i)" using assms by (simp add: plan_store_inv_def)
  note V = revision_chain_versions [OF chain]
  show ?thesis
  proof (cases ?found)
    case Nil
    with perm have "plans_of st i = []" by (metis mset.simps(1) mset_zero_iff)
    with Nil read show ?thesis by (simp add: find_for_request_def)
  next
    case (Cons p ps)
    let ?n = "length (plans_of st i)" and ?max = "max_version p ps"
    have set: "set (p # ps) = set (plans_of st i)" using perm Cons by (metis set_mset_mset)
    have nonempty: "plans_of st i \<noteq> []" using set by auto
    have versions: "mset (map plan_version (p # ps)) = mset (map int [1..<Suc ?n])"
      using perm V Cons by (metis mset_map)
    then have "distinct (map plan_version (p # ps))"
      using mset_eq_imp_distinct_iff [OF versions] by (simp add: distinct_map del: upt_Suc)
    moreover have all: "set (map plan_version (p # ps)) = {1..int ?n}"
    proof -
      have "set (map plan_version (p # ps)) = int ` {1..<Suc ?n}"
        using mset_eq_setD [OF versions] by (simp del: upt_Suc)
      also have "\<dots> = {1..int ?n}" by (auto simp: image_int_atLeastLessThan)
      finally show ?thesis .
    qed
    have last: "plan_version (last (plans_of st i)) = int ?n"
      using V nonempty by (cases "plans_of st i" rule: rev_cases) auto
    have "?max = last (plans_of st i)"
    proof -
      have mem: "last (plans_of st i) \<in> set (p # ps)" using nonempty set by simp
      have "plan_version ?max \<in> set (map plan_version (p # ps))" using max_version_mem by (metis image_eqI list.set_map)
      with all have "plan_version ?max \<le> int ?n" by simp
      with max_version_ge [OF mem] last have "plan_version ?max = plan_version (last (plans_of st i))" by simp
      with mem max_version_mem [of p ps] \<open>distinct (map plan_version (p # ps))\<close> show ?thesis
        by (metis distinct_map inj_onD)
    qed
    moreover have "length (plans_of st i) = Suc (length ps)"
      using perm Cons by (metis length_Cons size_mset)
    ultimately show ?thesis
      using read Cons nonempty all last
      by (simp add: find_for_request_def Let_def distinct_card nat_add_distrib del: set_map)
  qed
qed

subsection \<open>Histories\<close>

lemma put_plan_inv:
  assumes "plan_store_inv H st" and "valid_ExecutionPlan p" and "put_execution_plan H st p = Inr (q, st')"
  shows "plan_store_inv H st' \<and> q = p \<and> get_execution_plan H st' (plan_id p) = Inr p \<and>
    (st' = st \<or> plans_of st' (plan_request_id p) = plans_of st (plan_request_id p) @ [p]) \<and>
    (\<forall>f \<in> set (eps_plans st). f \<in> set (eps_plans st'))"
proof (cases "row_of rf_name (plan_id p) (eps_plans st)")
  case (Some f)
  with assms(3) show ?thesis
    using assms(1) by (auto simp: put_execution_plan_def bind_res_Inr_iff split: if_splits)
next
  case None
  let ?f = "\<lparr>rf_name = plan_id p, rf_record = p, rf_sha256 = H (DocPlan p)\<rparr>"
  have intact: "plan_integrity H p = Inr ()"
    and st': "st' = st\<lparr>eps_plans := eps_plans st @ [?f]\<rparr>"
    and rev: "validate_execution_plan_revision p
        (if plans_of st (plan_request_id p) = [] then None else Some (last (plans_of st (plan_request_id p)))) = Inr ()"
    using assms(3) None
    by (auto simp: put_execution_plan_def bind_res_Inr_iff validate_plan_record_def Let_def
        find_for_request_latest [OF assms(1)])
  have plans: "plans_of st' i = plans_of st i @ (if plan_request_id p = i then [p] else [])" for i
    by (simp add: plans_of_def st')
  have "revision_chain None (plans_of st' i)" for i
    using assms(1) rev by (auto simp: plan_store_inv_def plans revision_chain_append)
  moreover have "plan_file_ok H ?f" using assms(2) intact by (simp add: plan_file_ok_def)
  ultimately have inv: "plan_store_inv H st'"
    using assms(1) None by (auto simp: plan_store_inv_def st' row_of_None_iff)
  have "get_execution_plan H st' (plan_id p) = Inr p"
    using get_plan_ok [OF inv, of ?f] by (simp add: st')
  moreover from this have "q = p"
    using assms(3) None by (auto simp: put_execution_plan_def bind_res_Inr_iff Let_def st')
  moreover have "plans_of st' (plan_request_id p) = plans_of st (plan_request_id p) @ [p]" by (simp add: plans)
  moreover have "\<forall>f \<in> set (eps_plans st). f \<in> set (eps_plans st')" by (simp add: st')
  ultimately show ?thesis using inv by blast
qed

definition put_op :: "stage_hash \<Rightarrow> ExecutionPlan \<Rightarrow> plan_store \<Rightarrow> plan_store option" where
  "put_op H p st = map_option snd (res_to_option (put_execution_plan H st p))"

interpretation plan_history: guarded_run "put_op H" "\<lambda>st p. valid_ExecutionPlan p" "plan_store_inv H"
  by unfold_locales (auto simp: put_op_def dest: put_plan_inv)

lemma new_plan_store_inv: "plan_store_inv H new_plan_store"
  by (simp add: plan_store_inv_def new_plan_store_def plans_of_def unique_key_def)

text \<open>A planning decision that was stored is read back, and other content under its run is refused.\<close>

lemma put_record_reads_back:
  assumes "put_record ro digest ok files i r = Inr (s, files')"
  shows "s = r" "get_record digest ok files' i = Inr r"
  using assms
  by (auto simp: put_record_def bind_res_Inr_iff get_record_def Let_def split: if_splits option.splits)

lemma put_record_conflict:
  assumes "put_record ro digest ok files i r = Inr (s, files')" and "r' \<noteq> r"
  shows "put_record ro digest ok files' i r' = Inl ExecutionPlanConflict"
proof -
  have "\<not> ro" using assms(1) by (auto simp: put_record_def)
  moreover have "get_record digest ok files' i = Inr r" using put_record_reads_back [OF assms(1)] by simp
  moreover from this obtain f where "row_of rf_name i files' = Some f"
    by (auto simp: get_record_def split: option.splits)
  ultimately show ?thesis using assms(2) by (simp add: put_record_def)
qed

end
