(* ===== verification/Stage_Properties.thy ===== *)
theory Stage_Properties
  imports Stage_Contracts Delivery_Properties
begin

section \<open>From an approved ProductSpec to a verified delivery\<close>

text \<open>
  The properties of the stage documents: what the work-graph and test-matrix gates guarantee, that
  documents made by the \<^verbatim>\<open>create\<close> methods form a chain that every later check accepts, that digests fix
  the content of a chain, and what a derived Delivery Task, and a delivery of it, owe to the approval.
\<close>

subsection \<open>A concrete chain\<close>

definition sample_stage_hash :: "nat \<Rightarrow> stage_hash" where
  "sample_stage_hash n d =
     replicate n (case d of DocPreparation _ \<Rightarrow> CHR ''a'' | DocRequest _ \<Rightarrow> CHR ''b'' | DocProductSpec _ \<Rightarrow> CHR ''c''
                   | DocApprovalIdentity _ _ _ _ _ _ _ _ \<Rightarrow> CHR ''d'' | DocApproval _ \<Rightarrow> CHR ''e''
                   | DocDesign _ \<Rightarrow> CHR ''f'' | DocPlan _ \<Rightarrow> CHR ''0'')"

definition sample_preparation :: "nat \<Rightarrow> RepositoryPreparation" where
  "sample_preparation n =
     \<lparr>prep_team_id = ''team_a1'', prep_project_id = ''project_a01'', prep_project_manifest_sha256 = zero_digest,
      prep_repository_id = ''repository_a01'', prep_repository_root = ''/w/repo'',
      prep_repository_workspace_root = ''/w/space'', prep_team_root = ''/team'',
      prep_repository_profile_sha256 = zero_digest, prep_runtime_binding_sha256 = zero_digest,
      prep_baseline_spec_sha256 = zero_digest, prep_baseline_source_uris = [], prep_prepared_at = 0,
      prep_preparation_sha256 = replicate n (CHR ''a'')\<rparr>"

definition sample_request :: "nat \<Rightarrow> ProjectRequest" where
  "sample_request n =
     \<lparr>req_id = ''request_a01'', req_repository_id = ''repository_a01'',
      req_preparation_sha256 = replicate n (CHR ''a''), req_title = ''Title'',
      req_original_request = ''please'', req_status = PRS_READY_FOR_DELIVERY, req_created_at = 0,
      req_updated_at = 0, req_request_sha256 = replicate n (CHR ''b'')\<rparr>"

definition sample_spec :: "nat \<Rightarrow> ProductSpec" where
  "sample_spec n =
     \<lparr>spec_id = ''product_spec_a01'', spec_request_id = ''request_a01'', spec_repository_id = ''repository_a01'',
      spec_version = 1, spec_status = PSS_READY_FOR_REVIEW, spec_summary = ''Text'', spec_branch_name = None,
      spec_goals = [''goal''], spec_non_goals = [],
      spec_requirements = [\<lparr>pq_id = ''req_a1'', pq_statement = ''it works'', pq_priority = RP_MUST,
                            pq_rationale = ''why'', pq_acceptance_criterion_ids = [''ac_a1'']\<rparr>],
      spec_acceptance_criteria = t_acceptance_criteria (sample_task TS_NEW 0), spec_assumptions = [],
      spec_open_questions = [], spec_decisions = [], spec_supersedes = None, spec_created_at = 0,
      spec_product_spec_sha256 = replicate n (CHR ''c'')\<rparr>"

definition sample_approval :: "nat \<Rightarrow> ProductSpecApproval" where
  "sample_approval n =
     \<lparr>appr_id = ''product_approval_'' @ replicate n (CHR ''d''), appr_request_id = ''request_a01'',
      appr_repository_id = ''repository_a01'', appr_product_spec_id = ''product_spec_a01'',
      appr_product_spec_sha256 = replicate n (CHR ''c''), appr_decision = PAD_APPROVED,
      appr_operator_id = ''operator'', appr_rationale = ''ok'', appr_decided_at = 0,
      appr_approval_sha256 = replicate n (CHR ''e'')\<rparr>"

definition sample_design :: "nat \<Rightarrow> TechnicalDesign" where
  "sample_design n =
     \<lparr>dsn_id = ''technical_design_a01'', dsn_request_id = ''request_a01'', dsn_repository_id = ''repository_a01'',
      dsn_product_spec_id = ''product_spec_a01'', dsn_product_spec_sha256 = replicate n (CHR ''c''),
      dsn_product_approval_id = ''product_approval_'' @ replicate n (CHR ''d''), dsn_version = 1,
      dsn_summary = ''design'',
      dsn_components = [\<lparr>dc_id = ''component_a1'', dc_name = ''core'', dc_responsibility = ''all'', dc_affected_paths = []\<rparr>],
      dsn_requirement_mappings = [\<lparr>rdm_requirement_id = ''req_a1'', rdm_component_ids = [''component_a1''], rdm_approach = ''code''\<rparr>],
      dsn_acceptance_mappings =
        [\<lparr>adm_acceptance_criterion_id = ''ac_a1'', adm_verification_strategy = ''test'', adm_test_levels = [''unit''],
          adm_verification_argv = None, adm_planned_test_files = None, adm_verification_inspection = None,
          adm_controlled_capability_kind = None\<rparr>],
      dsn_implementation_steps = [\<lparr>ds_id = ''design_step_a1'', ds_description = ''do'', ds_component_ids = [''component_a1''], ds_verification = ''run''\<rparr>],
      dsn_risks = [], dsn_complexity_facts = None, dsn_created_at = 0,
      dsn_technical_design_sha256 = replicate n (CHR ''f'')\<rparr>"

definition sample_phase :: "string \<Rightarrow> AgentRole \<Rightarrow> PlanPhaseDemand" where
  "sample_phase i role =
     \<lparr>ph_id = i, ph_role = role, ph_objective = ''work'', ph_required_capabilities = [''python''], ph_risk = RT_LOW,
      ph_minimum_brain_tier = BT_STANDARD, ph_checkpoints = [''done''], ph_critical_path = True\<rparr>"

definition sample_package :: "string \<Rightarrow> string list \<Rightarrow> string \<Rightarrow> PlanWorkPackage" where
  "sample_package i deps level =
     \<lparr>pw_id = i, pw_component_ids = [''component_a1''], pw_step_ids = [''design_step_a1''],
      pw_acceptance_criterion_ids = [''ac_a1''], pw_depends_on = deps, pw_risk = RT_LOW, pw_checkpoints = [''done''],
      pw_tests = [\<lparr>pt_verification_argv = None, pt_planned_test_files = None, pt_verification_inspection = None,
                   pt_controlled_capability_kind = None, pt_id = ''t1'', pt_acceptance_criterion_ids = [''ac_a1''],
                   pt_level = level, pt_verification = ''run''\<rparr>]\<rparr>"

definition sample_graph :: "int \<Rightarrow> string \<Rightarrow> PlanWorkGraph" where
  "sample_graph parallelism level =
     \<lparr>pg_packages = [sample_package ''one'' [] level, sample_package ''two'' [''one''] level],
      pg_max_parallelism = parallelism\<rparr>"

definition sample_plan :: "nat \<Rightarrow> ExecutionPlan" where
  "sample_plan n =
     \<lparr>plan_execution_window = None, plan_id = ''execution_plan_a01'', plan_request_id = ''request_a01'',
      plan_repository_id = ''repository_a01'', plan_product_spec_id = ''product_spec_a01'',
      plan_product_spec_sha256 = replicate n (CHR ''c''), plan_technical_design_id = ''technical_design_a01'',
      plan_technical_design_sha256 = replicate n (CHR ''f''), plan_version = 1,
      plan_phases = [sample_phase ''phase_c1'' AR_CODER, sample_phase ''phase_q1'' AR_QA, sample_phase ''phase_r1'' AR_REVIEWER],
      plan_feasibility_evidence_uris = [], plan_work_graph = Some (sample_graph 1 ''unit''),
      plan_revision_feedback = None, plan_created_at = 0,
      plan_execution_plan_sha256 = replicate n (CHR ''0'')\<rparr>"

definition sample_order :: delivery_order where
  "sample_order =
     \<lparr>do_task_id = ''task_a01'', do_repository = ''~/repo'', do_base_ref = ''main'', do_max_attempts = 3,
      do_retry_policy = None, do_interruption_continuation_policy = None, do_engineering_policy = None,
      do_created_at = 0, do_constraints = None, do_owner = None, do_labels = []\<rparr>"

definition sample_resolve :: "string \<Rightarrow> py_path option" where
  "sample_resolve s = (if s = ''~/repo'' then Some (parse_path ''/w/repo'') else None)"

definition derived_task :: "nat \<Rightarrow> Task" where
  "derived_task n =
     (sample_task TS_NEW 0)\<lparr>t_repository := ''/w/repo'',
        t_metadata := delivery_metadata (sample_preparation n) (sample_request n) (sample_spec n) (sample_approval n) (sample_design n) (sample_plan n)\<rparr>"

lemma sample_creation:
  "create_preparation (sample_stage_hash 64) (sample_preparation 64) = Inr (sample_preparation 64)"
  "create_request (sample_stage_hash 64) (sample_request 64) None = Inr (sample_request 64)"
  "create_product_spec (sample_stage_hash 64) (sample_spec 64) = Inr (sample_spec 64)"
  "create_approval (sample_stage_hash 64) (sample_spec 64) PAD_APPROVED ''operator'' ''ok'' 0 = Inr (sample_approval 64)"
  "create_design (sample_stage_hash 64) (sample_spec 64) (sample_approval 64) (sample_design 64) = Inr (sample_design 64)"
  "create_plan (sample_stage_hash 64) (sample_spec 64) (sample_design 64) (sample_plan 64) = Inr (sample_plan 64)"
  by code_simp+

lemma sample_derived:
  "derive_delivery_task (sample_stage_hash 64) sample_resolve (sample_preparation 64) (sample_request 64) (sample_spec 64)
     (sample_approval 64) (sample_design 64) (sample_plan 64) sample_order = Inr (derived_task 64)"
  by code_simp

lemma sample_derived_brief:
  "derive_delivery_task (sample_stage_hash 1) sample_resolve (sample_preparation 1) (sample_request 1) (sample_spec 1)
     (sample_approval 1) (sample_design 1) (sample_plan 1) sample_order = Inr (derived_task 1)"
  by code_simp

subsection \<open>The gates of a plan\<close>

text \<open>
  C20. A work graph is accepted exactly when its package ids are distinct, every dependency names an
  earlier package and, if packages may run in parallel, any two packages of which neither depends on the other,
  directly or through others, share no component. An accepted graph has no circular dependency.
\<close>

theorem work_graph_gate:
  "(validate_graph g \<longleftrightarrow>
      distinct (map pw_id (pg_packages g)) \<and> dependencies_precede (pg_packages g) \<and>
      (1 < pg_max_parallelism g \<longrightarrow> parallel_disjoint (pg_packages g))) \<and>
   (validate_graph g \<longrightarrow> acyclic (depends_rel (pg_packages g)))"
  by (simp add: validate_graph_iff dependencies_precede_acyclic)

theorem work_graph_gate_witness:
  "acyclic (depends_rel (pg_packages (sample_graph 2 ''unit''))) \<and>
   (''one'', ''two'') \<in> depends_rel (pg_packages (sample_graph 2 ''unit''))"
proof -
  have "validate_graph (sample_graph 2 ''unit'')" by code_simp
  with work_graph_gate [of "sample_graph 2 ''unit''"]
  have "acyclic (depends_rel (pg_packages (sample_graph 2 ''unit'')))" by blast
  moreover have "(''one'', ''two'') \<in> depends_rel (pg_packages (sample_graph 2 ''unit''))"
    by (force simp: depends_rel_def sample_graph_def sample_package_def)
  ultimately show ?thesis ..
qed

text \<open>Whether some test of the graph checks the criterion at the level.\<close>

definition tested_at :: "PlanWorkGraph \<Rightarrow> string \<Rightarrow> string \<Rightarrow> bool" where
  "tested_at g c l \<longleftrightarrow>
     (\<exists>w \<in> set (pg_packages g). \<exists>t \<in> set (pw_tests w).
        c \<in> set (pt_acceptance_criterion_ids t) \<and> pt_level t = l)"








subsection \<open>Chains of documents\<close>

text \<open>
  C18. Round trip of the hand-offs: documents made by the \<^verbatim>\<open>create\<close> methods, each from the ones before it,
  form a chain that the later reader accepts: every digest check, the approval check, the design and plan checks
  and the whole-chain check pass, provided only that the request is ready and names the same preparation,
  repository and ProductSpec.
\<close>

theorem created_chain_validates:
  assumes "create_preparation H dprep = Inr prep" and "create_request H dr updated = Inr r"
    and "create_product_spec H ds = Inr s" and "create_approval H s decision operator why at = Inr a"
    and "create_design H s a dd = Inr d" and "create_plan H s d dp = Inr p"
    and "req_status r = PRS_READY_FOR_DELIVERY" and "req_preparation_sha256 r = prep_preparation_sha256 prep"
    and "req_repository_id r = prep_repository_id prep" and "spec_repository_id s = req_repository_id r"
    and "spec_request_id s = req_id r"
  shows "validate_stage_chain H prep r s a d p = Inr () \<and> decision = PAD_APPROVED \<and>
    spec_acceptance_criteria s = spec_acceptance_criteria ds \<and>
    dsn_acceptance_mappings d = dsn_acceptance_mappings dd \<and> plan_work_graph p = plan_work_graph dp"
proof -
  have "preparation_integrity H prep = Inr ()" "request_integrity H r = Inr ()"
    using assms(1,2)
    by (auto simp: create_preparation_def create_request_def integrity_defs Let_def split: if_splits)
  moreover have "validate_technical_design H s a d = Inr ()" "dsn_acceptance_mappings d = dsn_acceptance_mappings dd"
    using assms(5) by (auto simp: create_design_def bind_res_Inr_iff Let_def)
  moreover have "validate_execution_plan H s d p = Inr ()" "plan_work_graph p = plan_work_graph dp"
    using assms(6) by (auto simp: create_plan_def bind_res_Inr_iff Let_def)
  moreover have "appr_decision a = decision"
    using assms(4) by (auto simp: create_approval_def bind_res_Inr_iff Let_def split: if_splits)
  moreover have "spec_acceptance_criteria s = spec_acceptance_criteria ds"
    using assms(3) by (auto simp: create_product_spec_def Let_def split: if_splits)
  ultimately show ?thesis
    using assms(7-11)
    by (auto simp: validate_stage_chain_def bind_res_Inr_iff validate_technical_design_def require_product_approval_def)
qed

theorem created_chain_validates_witness:
  "validate_stage_chain (sample_stage_hash 64) (sample_preparation 64) (sample_request 64) (sample_spec 64) (sample_approval 64)
     (sample_design 64) (sample_plan 64) = Inr ()"
proof -
  have "req_status (sample_request 64) = PRS_READY_FOR_DELIVERY"
    "req_preparation_sha256 (sample_request 64) = prep_preparation_sha256 (sample_preparation 64)"
    "req_repository_id (sample_request 64) = prep_repository_id (sample_preparation 64)"
    "spec_repository_id (sample_spec 64) = req_repository_id (sample_request 64)"
    "spec_request_id (sample_spec 64) = req_id (sample_request 64)"
    by (simp_all add: sample_request_def sample_preparation_def sample_spec_def)
  from created_chain_validates [OF sample_creation this] show ?thesis by blast
qed

lemma spec_payload_eq:
  "stage_payload (DocProductSpec s) = stage_payload (DocProductSpec s') \<Longrightarrow>
   spec_product_spec_sha256 s = spec_product_spec_sha256 s' \<Longrightarrow> s' = s\<lparr>spec_created_at := spec_created_at s'\<rparr>"
  by (cases s; cases s') simp

lemma design_payload_eq:
  "stage_payload (DocDesign d) = stage_payload (DocDesign d') \<Longrightarrow>
   dsn_technical_design_sha256 d = dsn_technical_design_sha256 d' \<Longrightarrow> d' = d\<lparr>dsn_created_at := dsn_created_at d'\<rparr>"
  by (cases d; cases d') simp

lemma plan_payload_eq:
  "stage_payload (DocPlan p) = stage_payload (DocPlan p') \<Longrightarrow>
   plan_execution_plan_sha256 p = plan_execution_plan_sha256 p' \<Longrightarrow> p' = p\<lparr>plan_created_at := plan_created_at p'\<rparr>"
  by (cases p; cases p') simp

text \<open>
  C19. The digest of the plan fixes the whole chain: two complete chains that end in plans with one digest have
  the same plan, the same design and the same ProductSpec up to their creation times, unless the hash collides on
  them. No acceptance criterion, work package or design decision can change behind a plan digest.
\<close>

theorem plan_digest_fixes_chain:
  assumes "validate_stage_chain H prep r s a d p = Inr ()"
    and "validate_stage_chain H prep' r' s' a' d' p' = Inr ()"
    and "plan_execution_plan_sha256 p = plan_execution_plan_sha256 p'"
    and no_collision: "inj_on H (stage_payload ` {DocPlan p, DocPlan p', DocDesign d, DocDesign d', DocProductSpec s, DocProductSpec s'})"
  shows "p' = p\<lparr>plan_created_at := plan_created_at p'\<rparr> \<and> d' = d\<lparr>dsn_created_at := dsn_created_at d'\<rparr> \<and>
    s' = s\<lparr>spec_created_at := spec_created_at s'\<rparr> \<and> spec_acceptance_criteria s' = spec_acceptance_criteria s"
proof -
  note C = stage_chainD [OF assms(1)] and C' = stage_chainD [OF assms(2)]
  note I = C(3,5,6) C'(3,5,6)
  have plan: "p' = p\<lparr>plan_created_at := plan_created_at p'\<rparr>"
    using I assms(3) no_collision
    by (intro plan_payload_eq plan_seal.same_digest_same_content) (auto simp: integrity_defs elim: inj_on_subset)
  then have "plan_technical_design_sha256 p' = plan_technical_design_sha256 p"
    by (metis ExecutionPlan.select_convs(8) ExecutionPlan.surjective ExecutionPlan.update_convs(14))
  then have sha: "dsn_technical_design_sha256 d = dsn_technical_design_sha256 d'" using C(14) C'(14) by simp
  have design: "d' = d\<lparr>dsn_created_at := dsn_created_at d'\<rparr>"
    using I sha no_collision
    by (intro design_payload_eq design_seal.same_digest_same_content) (auto simp: integrity_defs elim: inj_on_subset)
  then have "dsn_product_spec_sha256 d' = dsn_product_spec_sha256 d" by (cases d; cases d') simp
  then have "spec_product_spec_sha256 s = spec_product_spec_sha256 s'" using C(13) C'(13) by simp
  then have spec: "s' = s\<lparr>spec_created_at := spec_created_at s'\<rparr>"
    using I no_collision
    by (intro spec_payload_eq spec_seal.same_digest_same_content) (auto simp: integrity_defs elim: inj_on_subset)
  then have "spec_acceptance_criteria s' = spec_acceptance_criteria s" by (cases s; cases s') simp
  with plan design spec show ?thesis by blast
qed

definition later_plan :: ExecutionPlan where
  "later_plan = (sample_plan 64)\<lparr>plan_created_at := 9\<rparr>"

theorem plan_digest_fixes_chain_witness:
  "later_plan \<noteq> (sample_plan 64) \<and> later_plan = (sample_plan 64)\<lparr>plan_created_at := plan_created_at later_plan\<rparr> \<and>
   spec_acceptance_criteria (sample_spec 64) = t_acceptance_criteria (sample_task TS_NEW 0)"
proof -
  have chains: "validate_stage_chain (sample_stage_hash 64) (sample_preparation 64) (sample_request 64) (sample_spec 64)
       (sample_approval 64) (sample_design 64) (sample_plan 64) = Inr ()"
    "validate_stage_chain (sample_stage_hash 64) (sample_preparation 64) (sample_request 64) (sample_spec 64)
       (sample_approval 64) (sample_design 64) later_plan = Inr ()"
    "plan_execution_plan_sha256 (sample_plan 64) = plan_execution_plan_sha256 later_plan"
    by code_simp+
  have "inj_on (sample_stage_hash 64) (stage_payload `
      {DocPlan (sample_plan 64), DocPlan later_plan, DocDesign (sample_design 64), DocDesign (sample_design 64),
       DocProductSpec (sample_spec 64), DocProductSpec (sample_spec 64)})"
    by (auto simp: inj_on_def sample_stage_hash_def later_plan_def)
  note fixed = plan_digest_fixes_chain [OF chains this]
  have "plan_created_at later_plan \<noteq> plan_created_at (sample_plan 64)" by (simp add: later_plan_def sample_plan_def)
  with fixed show ?thesis by (auto simp: sample_spec_def)
qed

subsection \<open>The derived Task\<close>

lemma derived_criteria_known:
  assumes "validate_product_spec s" and "q \<in> set (spec_requirements s)" and "i \<in> set (pq_acceptance_criterion_ids q)"
  shows "i \<in> set (map ac_id (spec_acceptance_criteria s))"
  using assms by (auto simp: validate_product_spec_def Let_def)

text \<open>
  C17. A Delivery Task is derived only from a chain that a human approved and every stage covered: the approval
  names exactly the digest of the ProductSpec's content; every criterion of the Task is mapped by the design,
  and, when the plan has a work graph, tested by some work package at every level the design requires; the Task is a valid,
  unstarted \<open>NEW\<close> Task that carries the criteria, the branch and the digests of the chain; its repository is the
  prepared one, to which the order's path resolves, and not the path as the order spells it.
\<close>

theorem delivery_task_authorized:
  assumes "derive_delivery_task H resolve prep r s a d p order = Inr t" and "valid_TechnicalDesign d"
  shows "appr_decision a = PAD_APPROVED \<and> spec_status s = PSS_READY_FOR_REVIEW \<and>
    appr_product_spec_sha256 a = stage_digest H (DocProductSpec s) \<and>
    t_acceptance_criteria t = spec_acceptance_criteria s \<and>
    (\<forall>c \<in> set (t_acceptance_criteria t). \<exists>m \<in> set (dsn_acceptance_mappings d).
       adm_acceptance_criterion_id m = ac_id c \<and>
       (\<forall>g. plan_work_graph p = Some g \<longrightarrow> (\<forall>l \<in> set (adm_test_levels m). tested_at g (ac_id c) l))) \<and>
    valid_Task t \<and> t_status t = TS_NEW \<and> t_attempts t = 0 \<and>
    resolve (do_repository order) = Some (parse_path (prep_repository_root prep)) \<and>
    t_repository t = path_text (parse_path (prep_repository_root prep)) \<and>
    t_id t = do_task_id order \<and> t_branch_name t = spec_branch_name s \<and> t_base_ref t = do_base_ref order \<and>
    t_max_attempts t = do_max_attempts order \<and> t_metadata t = delivery_metadata prep r s a d p"
proof -
  have t: "validate_stage_chain H prep r s a d p = Inr ()" "valid_Task t" "t_status t = TS_NEW" "t_attempts t = 0"
    "t_acceptance_criteria t = spec_acceptance_criteria s" "t_metadata t = delivery_metadata prep r s a d p"
    "resolve (do_repository order) = Some (parse_path (prep_repository_root prep))"
    "t_repository t = path_text (parse_path (prep_repository_root prep))" "t_id t = do_task_id order"
    "t_branch_name t = spec_branch_name s" "t_base_ref t = do_base_ref order" "t_max_attempts t = do_max_attempts order"
    using assms(1) by (auto simp: derive_delivery_task_Inr)
  note C = stage_chainD [OF t(1)]
  have unique: "distinct (map adm_acceptance_criterion_id (dsn_acceptance_mappings d))"
    using assms(2) by (simp add: valid_TechnicalDesign_def validate_design_def)
  have "\<exists>m \<in> set (dsn_acceptance_mappings d). adm_acceptance_criterion_id m = ac_id c \<and>
      (\<forall>g. plan_work_graph p = Some g \<longrightarrow> (\<forall>l \<in> set (adm_test_levels m). tested_at g (ac_id c) l))"
    if "c \<in> set (spec_acceptance_criteria s)" for c
  proof -
    obtain m where m: "m \<in> set (dsn_acceptance_mappings d)" "adm_acceptance_criterion_id m = ac_id c"
      using C(23) \<open>c \<in> _\<close> by (metis (no_types, lifting) imageE image_eqI list.set_map)
    then show ?thesis
      using work_packages_cover [OF C(24) unique m(1)] by (metis tested_at_def)
  qed
  moreover have "appr_product_spec_sha256 a = stage_digest H (DocProductSpec s)"
    using C(3,11) by (simp add: spec_integrity_def require_digest_def)
  ultimately show ?thesis using t C by auto
qed

lemma sample_order_path: "do_repository sample_order = ''~/repo''"
  by (simp add: sample_order_def)

theorem delivery_task_authorized_witness:
  "t_status (derived_task 64) = TS_NEW \<and> do_repository sample_order = ''~/repo'' \<and>
   t_repository (derived_task 64) = path_text (parse_path (prep_repository_root (sample_preparation 64))) \<and>
   appr_product_spec_sha256 (sample_approval 64) = stage_digest (sample_stage_hash 64) (DocProductSpec (sample_spec 64)) \<and>
   tested_at (sample_graph 1 ''unit'') ''ac_a1'' ''unit''"
proof -
  have v: "valid_TechnicalDesign (sample_design 64)" by code_simp
  have "plan_work_graph (sample_plan 64) = Some (sample_graph 1 ''unit'')" "set (dsn_acceptance_mappings (sample_design 64)) \<noteq> {}"
    "\<forall>m \<in> set (dsn_acceptance_mappings (sample_design 64)). adm_test_levels m = [''unit'']"
    "t_acceptance_criteria (derived_task 64) \<noteq> []" "\<forall>c \<in> set (t_acceptance_criteria (derived_task 64)). ac_id c = ''ac_a1''"
    by (simp_all add: sample_plan_def sample_design_def derived_task_def sample_task_def)
  with delivery_task_authorized [OF sample_derived v] show ?thesis
    by (metis list.set_intros(1) neq_Nil_conv sample_order_path)
qed

text \<open>
  C1. End to end: when a Task derived from an approved chain is created in the repository and an
  orchestrator pass on it returns, every requirement of the approved ProductSpec has been verified:
  the stored QA report of the delivery passes each acceptance criterion of each requirement, the stored review approves the
  same candidate, and the Task is done.
\<close>

theorem approved_requirements_verified:
  assumes "derive_delivery_task H resolve prep r spec a d p order = Inr task" and "validate_product_spec spec"
    and "repo_inv store" and "mysql_create store task = Inr (rs_tasks s)"
    and "store_inv (re_hash env) (rs_artifacts s)" and "env_valid env"
    and "run_task env (t_id task) s = (Inr dlv, s')"
  shows "appr_decision a = PAD_APPROVED \<and>
    appr_product_spec_sha256 a = stage_digest H (DocProductSpec spec) \<and>
    t_status (dv_task dlv) = TS_DONE \<and> mysql_get (rs_tasks s') (t_id task) = Inr (dv_task dlv) \<and>
    (\<exists>qa cq review cr.
       artifact_get (re_hash env) (rs_artifacts s') (art_artifact_id qa) = Inr qa \<and>
       art_content qa = QaReportArtifact cq \<and>
       artifact_get (re_hash env) (rs_artifacts s') (art_artifact_id review) = Inr review \<and>
       art_content review = ReviewReportArtifact cr \<and> rc_verdict cr = RV_APPROVE \<and>
       art_source_revision qa = dv_candidate_revision dlv \<and>
       art_source_revision review = dv_candidate_revision dlv \<and>
       (\<forall>q \<in> set (spec_requirements spec). \<forall>i \<in> set (pq_acceptance_criterion_ids q).
          \<exists>res \<in> set (qa_criteria_results cq). qcr_criterion_id res = i \<and> qcr_status res = QC_PASS))"
proof -
  have t: "validate_stage_chain H prep r spec a d p = Inr ()" "valid_Task task" "t_status task = TS_NEW"
    "t_acceptance_criteria task = spec_acceptance_criteria spec"
    using assms(1) by (auto simp: derive_delivery_task_Inr)
  note C = stage_chainD [OF t(1)]
  have stored: "repo_inv (rs_tasks s)" "mysql_get (rs_tasks s) (t_id task) = Inr task"
    using mysql.create_ok [OF assms(3) t(2,3) assms(4)] by simp_all
  have V: "verified_delivery env s' task dlv"
    using run_task_verified [OF stored(1) assms(5,6) stored(2) assms(7)] by simp
  have approved: "appr_product_spec_sha256 a = stage_digest H (DocProductSpec spec)"
    using C(3,11) by (simp add: spec_integrity_def require_digest_def)
  from V obtain qa cq review cr where qa:
    "artifact_get (re_hash env) (rs_artifacts s') (art_artifact_id qa) = Inr qa"
    "art_content qa = QaReportArtifact cq" "art_source_revision qa = dv_candidate_revision dlv"
    "artifact_get (re_hash env) (rs_artifacts s') (art_artifact_id review) = Inr review"
    "art_content review = ReviewReportArtifact cr" "rc_verdict cr = RV_APPROVE"
    "art_source_revision review = dv_candidate_revision dlv"
    "set (map qcr_criterion_id (qa_criteria_results cq)) = set (map ac_id (spec_acceptance_criteria spec))"
    "\<forall>res \<in> set (qa_criteria_results cq). qcr_status res = QC_PASS"
    unfolding verified_delivery_def t(4) by blast
  have "\<exists>res \<in> set (qa_criteria_results cq). qcr_criterion_id res = i \<and> qcr_status res = QC_PASS"
    if "q \<in> set (spec_requirements spec)" "i \<in> set (pq_acceptance_criterion_ids q)" for q i
    using derived_criteria_known [OF assms(2) that] qa(9) unfolding qa(8) [symmetric] by auto
  moreover have "t_status (dv_task dlv) = TS_DONE" "mysql_get (rs_tasks s') (t_id task) = Inr (dv_task dlv)"
    using V unfolding verified_delivery_def by blast+
  ultimately show ?thesis using qa(1-7) C(8) approved by blast
qed

definition derived_start :: run_state where
  "derived_start = start_with ''/w/repo'' (t_metadata (derived_task 1))"

lemma derived_created: "mysql_create empty_store (derived_task 1) = Inr (rs_tasks derived_start)"
  unfolding derived_start_def start_with_def mysql_create_def empty_store_def derived_task_def sample_task_def
  by (simp add: create_def)

theorem approved_requirements_verified_witness:
  "\<exists>dlv s'. run_task (sample_env None) ''task_a01'' derived_start = (Inr dlv, s') \<and>
     t_status (dv_task dlv) = TS_DONE \<and> appr_decision (sample_approval 1) = PAD_APPROVED"
proof -
  obtain x s' where r: "run_task (sample_env None) ''task_a01'' derived_start = (x, s')" by fastforce
  moreover have "delivered_ids (run_task (sample_env None) ''task_a01'' derived_start) \<noteq> []"
    by (simp only: derived_start_def delivered_with) simp
  ultimately obtain dlv where x: "x = Inr dlv" by (cases x) (auto simp: delivered_ids_def)
  have id: "t_id (derived_task 1) = ''task_a01''" by (simp add: derived_task_def sample_task_def)
  have arts: "store_inv (re_hash (sample_env None)) (rs_artifacts derived_start)"
    using sample_start_inv(2) by (simp add: derived_start_def start_with_def sample_start_def)
  have spec: "validate_product_spec (sample_spec 1)" by code_simp
  from approved_requirements_verified [OF sample_derived_brief spec repo_inv_empty derived_created arts sample_env_valid(1)] r x id
  show ?thesis by auto
qed

end
