(* ===== verification/Planning_Properties.thy ===== *)
theory Planning_Properties
  imports Plan_Store Stage_Properties
begin

section \<open>What planning guarantees\<close>

text \<open>
  The properties of the planning gate, of the zero-model plan and of the plan store, and the runs at
  which they are evaluated.
\<close>

definition sample_gate_hash :: gate_hash where
  "sample_gate_hash g = replicate 64 (case g of GateFacts _ \<Rightarrow> CHR ''a'' | GateDecision _ \<Rightarrow> CHR ''b'')"

definition sample_decision :: "HumanPlanningUpgrade option \<Rightarrow> PlanningDecision" where
  "sample_decision upgrade =
     (case facts_from_design (sample_stage_hash 64) (sample_spec 64) (sample_design 64) of
        Inl _ \<Rightarrow> undefined
      | Inr f \<Rightarrow> (case classify sample_gate_hash f upgrade of Inl _ \<Rightarrow> undefined | Inr d \<Rightarrow> d))"

definition sample_upgrade :: HumanPlanningUpgrade where
  "sample_upgrade = \<lparr>hu_input_sha256 = replicate 64 (CHR ''a''), hu_operator_id = ''op'',
                    hu_rationale = ''why'', hu_decided_at = 0\<rparr>"

lemma sample_decisions:
  "facts_from_design (sample_stage_hash 64) (sample_spec 64) (sample_design 64) = Inr (gd_facts (sample_decision None))"
  "facts_from_design (sample_stage_hash 64) (sample_spec 64) (sample_design 64) = Inr (gd_facts (sample_decision (Some sample_upgrade)))"
  "decision_integrity sample_gate_hash (sample_decision None) = Inr ()"
  "decision_integrity sample_gate_hash (sample_decision (Some sample_upgrade)) = Inr ()"
  "gd_mode (sample_decision None) = PM_SIMPLE"
  "gd_human_upgrade (sample_decision (Some sample_upgrade)) = Some sample_upgrade"
  by code_simp+

subsection \<open>The gate\<close>

text \<open>
  C22. A planning decision that passes its integrity check on the facts of a design is exactly the
  deterministic one: it says \<open>SIMPLE\<close> only for a design with one component, only low risks, at most one integration
  group and no complexity fact, and only without a human upgrade; an upgrade is accepted only when it names
  the digest of these very facts, and it can only make the decision \<open>COMPLEX\<close>.
\<close>

theorem planning_gate_no_downgrade:
  assumes "facts_from_design H s d = Inr (gd_facts dec)" and "decision_integrity D dec = Inr ()"
  shows "(gd_mode dec = PM_SIMPLE \<longleftrightarrow>
      gd_human_upgrade dec = None \<and> length (dsn_components d) = 1 \<and>
      (\<forall>r \<in> set (dsn_risks d). dk_tier r = RT_LOW) \<and>
      (case dsn_complexity_facts d of
         None \<Rightarrow> True
       | Some x \<Rightarrow>
           card (set (dx_integration_groups x)) \<le> 1 \<and> \<not> dx_database_migration x \<and>
           \<not> dx_interface_compatibility x \<and> \<not> dx_data_backfill x \<and> \<not> dx_security x \<and>
           \<not> dx_performance x \<and> \<not> dx_concurrency x \<and> \<not> dx_work_package_dependencies x)) \<and>
    (\<forall>u. gd_human_upgrade dec = Some u \<longrightarrow> hu_input_sha256 u = D (GateFacts (gd_facts dec)) \<and> gd_mode dec = PM_COMPLEX)"
proof -
  define x where "x = (case dsn_complexity_facts d of None \<Rightarrow> default_complexity | Some f \<Rightarrow> f)"
  note f = facts_from_design_Inr [OF assms(1) x_def]
  have c: "classify D (gd_facts dec) (gd_human_upgrade dec) = Inr dec"
    using assms(2) by (simp add: decision_integrity_iff)
  note M = classify_mode [OF c]
  have risk: "highest_risk (map dk_tier (dsn_risks d)) = RT_LOW \<longleftrightarrow> (\<forall>r \<in> set (dsn_risks d). dk_tier r = RT_LOW)"
  proof
    show "\<forall>r \<in> set (dsn_risks d). dk_tier r = RT_LOW" if "highest_risk (map dk_tier (dsn_risks d)) = RT_LOW"
      using highest_risk_ge [of _ "map dk_tier (dsn_risks d)"] that risk_rank_low by fastforce
    have low: "max_risk RT_LOW rs = RT_LOW" if "\<forall>r \<in> set rs. r = RT_LOW" for rs
      using that by (induction rs) auto
    show "highest_risk (map dk_tier (dsn_risks d)) = RT_LOW" if "\<forall>r \<in> set (dsn_risks d). dk_tier r = RT_LOW"
      using that low by (cases "dsn_risks d") (auto simp: highest_risk_def)
  qed
  have simple: "fact_reasons (gd_facts dec) = [] \<longleftrightarrow>
      length (dsn_components d) = 1 \<and> card (set (dx_integration_groups x)) \<le> 1 \<and>
      (\<forall>r \<in> set (dsn_risks d). dk_tier r = RT_LOW) \<and> \<not> dx_database_migration x \<and>
      \<not> dx_interface_compatibility x \<and> \<not> dx_data_backfill x \<and> \<not> dx_security x \<and>
      \<not> dx_performance x \<and> \<not> dx_concurrency x \<and> \<not> dx_work_package_dependencies x"
    using f(3) by (auto simp: fact_reasons_Nil f risk)
  have bound: "hu_input_sha256 u = D (GateFacts (gd_facts dec)) \<and> gd_mode dec = PM_COMPLEX"
    if "gd_human_upgrade dec = Some u" for u
    using c M that by (cases "gd_mode dec") (auto simp: classify_def bind_res_Inr_iff split: if_splits)
  with M simple show ?thesis
    by (auto simp: x_def default_complexity_def split: option.splits)
qed

theorem planning_gate_no_downgrade_witness:
  "gd_mode (sample_decision (Some sample_upgrade)) = PM_COMPLEX \<and>
   length (dsn_components (sample_design 64)) = 1 \<and> gd_mode (sample_decision None) = PM_SIMPLE"
  using planning_gate_no_downgrade [OF sample_decisions(1,3)] planning_gate_no_downgrade [OF sample_decisions(2,4)]
    sample_decisions(5,6) by blast

subsection \<open>The fast plan\<close>

text \<open>
  C23. The zero-model plan never fails on a simple change: for a valid ProductSpec and a design made for
  it, both intact, and an intact \<open>SIMPLE\<close> decision, the fast plan exists, passes the plan check against the
  design, has the three delivery phases in order, and every phase lists a checkpoint for each approved criterion. Without such a
  decision there is no fast plan.
\<close>

theorem fast_plan_total:
  assumes "valid_ProductSpec s" and "spec_integrity H s = Inr ()" and "design_integrity H d = Inr ()"
    and "valid_TechnicalDesign d" and "dsn_request_id d = spec_request_id s"
    and "dsn_repository_id d = spec_repository_id s" and "dsn_product_spec_id d = spec_id s"
    and "dsn_product_spec_sha256 d = spec_product_spec_sha256 s"
    and "valid_StageSha256 (run_hash run_id)" and "1 \<le> version" and "opt_all valid_PlanExecutionWindow win"
  shows "((\<exists>p. fast_plan H D run_hash decision s d run_id version win at = Inr p) \<longleftrightarrow>
      (\<exists>dec. decision = Some dec \<and> gd_mode dec = PM_SIMPLE \<and> decision_integrity D dec = Inr ())) \<and>
    (\<forall>p. fast_plan H D run_hash decision s d run_id version win at = Inr p \<longrightarrow>
      validate_execution_plan H s d p = Inr () \<and> map ph_role (plan_phases p) = [AR_CODER, AR_QA, AR_REVIEWER] \<and>
      (\<forall>ph \<in> set (plan_phases p). \<forall>c \<in> set (spec_acceptance_criteria s).
         ac_id c @ '': '' @ ac_verification c \<in> set (ph_checkpoints ph)) \<and> plan_version p = version)"
proof -
  have spec: "validate_product_spec s" "list_all valid_AcceptanceCriterion (spec_acceptance_criteria s)"
    "spec_acceptance_criteria s \<noteq> []"
    using assms(1) by (auto simp: valid_ProductSpec_def)
  let ?out = "fast_plan H D run_hash decision s d run_id version win at"
  have made: "\<exists>p. ?out = Inr p"
    if dec: "decision = Some dec" "gd_mode dec = PM_SIMPLE" "decision_integrity D dec = Inr ()" for dec
  proof -
    let ?phases = "map (fast_phase (spec_acceptance_criteria s))
        [(AR_CODER, ''implementation''), (AR_QA, ''testing''), (AR_REVIEWER, ''review'')]"
    have "list_all valid_PlanPhaseDemand ?phases" using fast_phase_valid [OF spec] by simp
    moreover have "distinct (map ph_id ?phases)" "map ph_role ?phases = [AR_CODER, AR_QA, AR_REVIEWER]"
      by (simp_all add: fast_phase_def)
    moreover note fast_plan_id_valid [OF assms(9)]
    moreover have "valid_ProjectRequestId (spec_request_id s)" "valid_RepositoryId (spec_repository_id s)"
      "valid_ProductSpecId (spec_id s)" "valid_StageSha256 (spec_product_spec_sha256 s)"
      "valid_TechnicalDesignId (dsn_id d)" "valid_StageSha256 (dsn_technical_design_sha256 d)"
      using assms(1,4) by (simp_all add: valid_ProductSpec_def valid_TechnicalDesign_def)
    moreover have "valid_StageSha256 zero_digest" by code_simp
    ultimately show ?thesis
      using dec assms(2,3,5-8,10,11)
      by (simp add: fast_plan_def create_plan_def Let_def valid_ExecutionPlan_def validate_plan_def
          validate_execution_plan_def plan_integrity_def)
  qed
  have "(\<exists>dec. decision = Some dec \<and> gd_mode dec = PM_SIMPLE \<and> decision_integrity D dec = Inr ()) \<and>
      validate_execution_plan H s d p = Inr () \<and> map ph_role (plan_phases p) = [AR_CODER, AR_QA, AR_REVIEWER] \<and>
      (\<forall>ph \<in> set (plan_phases p). \<forall>c \<in> set (spec_acceptance_criteria s).
         ac_id c @ '': '' @ ac_verification c \<in> set (ph_checkpoints ph)) \<and> plan_version p = version"
    if out: "?out = Inr p" for p
    using out by (elim fast_plan_Inr) (auto simp: create_plan_Inr fast_phase_def dest: create_plan_Inr)
  with made show ?thesis by blast
qed

definition sample_run_hash :: "string \<Rightarrow> string" where
  "sample_run_hash run_id = replicate 64 (CHR ''e'')"

theorem fast_plan_total_witness:
  "\<exists>p. fast_plan (sample_stage_hash 64) sample_gate_hash sample_run_hash (Some (sample_decision None))
         (sample_spec 64) (sample_design 64) ''run_a01'' 1 None 0 = Inr p \<and>
       validate_execution_plan (sample_stage_hash 64) (sample_spec 64) (sample_design 64) p = Inr ()"
proof -
  have "valid_ProductSpec (sample_spec 64)" "spec_integrity (sample_stage_hash 64) (sample_spec 64) = Inr ()"
    "design_integrity (sample_stage_hash 64) (sample_design 64) = Inr ()" "valid_TechnicalDesign (sample_design 64)"
    "dsn_request_id (sample_design 64) = spec_request_id (sample_spec 64)"
    "dsn_repository_id (sample_design 64) = spec_repository_id (sample_spec 64)"
    "dsn_product_spec_id (sample_design 64) = spec_id (sample_spec 64)"
    "dsn_product_spec_sha256 (sample_design 64) = spec_product_spec_sha256 (sample_spec 64)"
    "valid_StageSha256 (sample_run_hash ''run_a01'')" "(1::int) \<le> 1" "opt_all valid_PlanExecutionWindow None"
    by code_simp+
  from fast_plan_total [where run_hash = sample_run_hash and run_id = "''run_a01''" and at = 0
      and decision = "Some (sample_decision None)" and D = sample_gate_hash, OF this]
  show ?thesis using sample_decisions(3,5) by blast
qed

subsection \<open>The plan store\<close>

text \<open>
  C24. After any sequence of publications of valid plans on an empty store, the plans of a request are its
  revisions 1, 2, ..., n in the order of their publication, each bound to the id and digest of the one before; the
  lookup by request never fails and gives the last one; and every stored plan is read back exactly
  under its id. A publication that succeeds is the next revision or a repetition of a stored plan.
\<close>

theorem plan_history_contiguous:
  assumes "\<forall>p \<in> set ps. valid_ExecutionPlan p" and "st = run_ops (put_op H) new_plan_store ps"
  shows "map plan_version (plans_of st i) = map int [1..<Suc (length (plans_of st i))] \<and>
    revision_chain None (plans_of st i) \<and>
    find_for_request H st i = Inr (if plans_of st i = [] then None else Some (last (plans_of st i))) \<and>
    (\<forall>q \<in> set (plans_of st i). get_execution_plan H st (plan_id q) = Inr q) \<and>
    (\<forall>p q st'. valid_ExecutionPlan p \<longrightarrow> put_execution_plan H st p = Inr (q, st') \<longrightarrow>
       st' = st \<or> plans_of st' (plan_request_id p) = plans_of st (plan_request_id p) @ [p])"
proof -
  have ok: "ok_run (put_op H) (\<lambda>st p. valid_ExecutionPlan p) s ps" for s
    using assms(1) by (induction ps arbitrary: s) auto
  have inv: "plan_store_inv H st"
    unfolding assms(2) by (rule plan_history.run_inv [OF new_plan_store_inv ok])
  have "get_execution_plan H st (plan_id q) = Inr q" if q: "q \<in> set (plans_of st i)" for q
  proof -
    obtain f where f: "f \<in> set (eps_plans st)" "q = rf_record f" using q by (auto simp: plans_of_def)
    then have "rf_name f = plan_id q" using inv by (auto simp: plan_store_inv_def plan_file_ok_def)
    with get_plan_ok [OF inv f(1)] f(2) show ?thesis by simp
  qed
  moreover have "revision_chain None (plans_of st i)" using inv by (simp add: plan_store_inv_def)
  ultimately show ?thesis
    using put_plan_inv [OF inv] find_for_request_latest [OF inv] revision_chain_versions by blast
qed

definition second_plan :: ExecutionPlan where
  "second_plan = (sample_plan 64)\<lparr>plan_id := ''execution_plan_a02'', plan_version := 2,
     plan_revision_feedback := Some \<lparr>pf_previous_plan_id = ''execution_plan_a01'',
       pf_previous_plan_sha256 = replicate 64 (CHR ''0''), pf_reason_codes = [''R''], pf_required_changes = [''C'']\<rparr>\<rparr>"

theorem plan_history_contiguous_witness:
  "find_for_request (sample_stage_hash 64)
     (run_ops (put_op (sample_stage_hash 64)) new_plan_store [sample_plan 64, second_plan, sample_plan 64]) ''request_a01'' =
   Inr (Some second_plan)"
proof -
  let ?ps = "[sample_plan 64, second_plan, sample_plan 64]"
  have valid: "\<forall>p \<in> set ?ps. valid_ExecutionPlan p"
    by (simp, intro conjI) code_simp+
  have "plans_of (run_ops (put_op (sample_stage_hash 64)) new_plan_store ?ps) ''request_a01'' = [sample_plan 64, second_plan]"
    by code_simp
  with plan_history_contiguous [OF valid refl, of "sample_stage_hash 64" "''request_a01''"] show ?thesis by simp
qed

end
