(* ===== verification/Execution_Baseline.thy ===== *)
theory Execution_Baseline
  imports Runner Branch_Name
begin

section \<open>Execution baselines\<close>

text \<open>
  \<^verbatim>\<open>domain/execution_baseline.py\<close>: the append-only records that rebind a delivery to another code
  baseline or rescue a stopped one, and the choice of the Coder's input from such a history. The
  digest of a binding and of a Task's frozen intent are parameters; as in the canonical JSON they
  are applied to the record without its digest field, and to the Task without the four fields that
  change during a delivery. All errors of this module are \<^verbatim>\<open>ValueError\<close>.
\<close>

datatype baseline_error = BaselineValueError

datatype BaselineInputMode = BI_PRESERVE_DRAFT | BI_CODER_REAPPLY

datatype BaselinePurpose =
    BP_SOURCE_REBIND | BP_LEGACY_WORKSPACE_RESCUE | BP_COMPLETED_OUTPUT_RESCUE
  | BP_REJECTED_CANDIDATE_RESCUE | BP_STOPPED_PROVIDER_RETRY | BP_STOPPED_FAILURE_RETRY
  | BP_STOPPED_EXECUTION_RESCUE | BP_CONTEXT_CAPACITY_RESUME | BP_KNOWLEDGE_PREPARATION_ISOLATION

datatype BaselineContinuationMode = BC_RESUME | BC_PAUSE

datatype BaselineAuthoritySource = BA_ORGANIZATION_POLICY | BA_OPERATOR_DECISION

record RetainedExecutionPatch =
  rp_uri :: string
  rp_sha256 :: string
  rp_bytes :: int

definition valid_RetainedExecutionPatch :: "RetainedExecutionPatch \<Rightarrow> bool" where
  "valid_RetainedExecutionPatch p \<longleftrightarrow>
     non_empty (rp_uri p) \<and> valid_Sha256 (rp_sha256 p) \<and> in_range 0 8000000 (rp_bytes p)"

subsection \<open>The binding\<close>

record ExecutionBaselineBinding =
  bl_purpose :: BaselinePurpose
  bl_continuation_mode :: BaselineContinuationMode
  bl_native_rule_epoch_sha256 :: "string option"
  bl_legacy_containment_sha256 :: "string option"
  bl_stopped_execution_sha256 :: "string option"
  bl_rejected_candidate_output_sha256 :: "string option"
  bl_completed_output_sha256 :: "string option"
  bl_stopped_provider_failure_sha256 :: "string option"
  bl_stopped_failure_sha256 :: "string option"
  bl_context_capacity_receipt_sha256 :: "string option"
  bl_knowledge_isolation_sha256 :: "string option"
  bl_service_pause_outcome_sha256 :: "string option"
  bl_scope :: EngineeringScope
  bl_task_id :: string
  bl_task_intent_sha256 :: string
  bl_sequence :: int
  bl_previous_binding_sha256 :: "string option"
  bl_approved_base_ref :: string
  bl_branch_name :: string
  bl_worktree_path :: string
  bl_prior_execution_base_ref :: string
  bl_prior_source_revision :: string
  bl_execution_base_ref :: string
  bl_execution_source_revision :: string
  bl_input_mode :: BaselineInputMode
  bl_superseded_implementation_artifact_id :: "string option"
  bl_superseded_progress_artifact_id :: "string option"
  bl_source_artifact_ids :: "string list"
  bl_resolved_interruption_receipt_sha256s :: "string list"
  bl_retained_patch :: RetainedExecutionPatch
  bl_authority_source :: BaselineAuthoritySource
  bl_authority_sha256 :: string
  bl_plan_sha256 :: string
  bl_facts_sha256 :: string
  bl_prior_task_revision :: int
  bl_before_inventory_sha256 :: string
  bl_after_inventory_sha256 :: string
  bl_completed_at :: instant
  bl_binding_sha256 :: string

text \<open>
  The validator, one definition per branch of its case distinction on the purpose: each is the
  negation of the condition under which that branch raises.
\<close>

definition keeps_base :: "ExecutionBaselineBinding \<Rightarrow> bool" where
  "keeps_base b \<longleftrightarrow> bl_execution_base_ref b = bl_prior_execution_base_ref b"

definition keeps_source :: "ExecutionBaselineBinding \<Rightarrow> bool" where
  "keeps_source b \<longleftrightarrow> bl_execution_source_revision b = bl_prior_source_revision b"

definition paused_draft :: "ExecutionBaselineBinding \<Rightarrow> bool" where
  "paused_draft b \<longleftrightarrow>
     bl_input_mode b = BI_PRESERVE_DRAFT \<and> bl_continuation_mode b = BC_PAUSE \<and>
     bl_authority_source b = BA_OPERATOR_DECISION"

definition keeps_inventory :: "ExecutionBaselineBinding \<Rightarrow> bool" where
  "keeps_inventory b \<longleftrightarrow> bl_before_inventory_sha256 b = bl_after_inventory_sha256 b"

definition knowledge_isolation_ok :: "ExecutionBaselineBinding \<Rightarrow> bool" where
  "knowledge_isolation_ok b \<longleftrightarrow>
     bl_knowledge_isolation_sha256 b \<noteq> None \<and> keeps_base b \<and> keeps_source b \<and> paused_draft b \<and>
     bl_superseded_implementation_artifact_id b = None \<and> bl_superseded_progress_artifact_id b = None \<and>
     keeps_inventory b \<and>
     list_all (\<lambda>v. v = None)
       [bl_legacy_containment_sha256 b, bl_stopped_execution_sha256 b, bl_completed_output_sha256 b,
        bl_stopped_provider_failure_sha256 b, bl_stopped_failure_sha256 b,
        bl_context_capacity_receipt_sha256 b, bl_service_pause_outcome_sha256 b]"

definition legacy_rescue_ok :: "ExecutionBaselineBinding \<Rightarrow> bool" where
  "legacy_rescue_ok b \<longleftrightarrow>
     keeps_base b \<and> keeps_source b \<and> bl_input_mode b = BI_PRESERVE_DRAFT \<and>
     bl_authority_source b = BA_OPERATOR_DECISION \<and> bl_legacy_containment_sha256 b \<noteq> None \<and>
     bl_superseded_implementation_artifact_id b = None"

definition stopped_execution_ok :: "ExecutionBaselineBinding \<Rightarrow> bool" where
  "stopped_execution_ok b \<longleftrightarrow>
     bl_stopped_execution_sha256 b \<noteq> None \<and> keeps_base b \<and> keeps_source b \<and> paused_draft b \<and>
     bl_legacy_containment_sha256 b = None \<and> bl_completed_output_sha256 b = None \<and>
     bl_stopped_provider_failure_sha256 b = None \<and> bl_context_capacity_receipt_sha256 b = None \<and>
     bl_service_pause_outcome_sha256 b = None \<and> bl_superseded_implementation_artifact_id b = None \<and>
     keeps_inventory b"

definition rejected_candidate_ok :: "ExecutionBaselineBinding \<Rightarrow> bool" where
  "rejected_candidate_ok b \<longleftrightarrow>
     keeps_base b \<and> \<not> keeps_source b \<and> paused_draft b \<and>
     bl_superseded_implementation_artifact_id b = None \<and> keeps_inventory b \<and>
     list_all (\<lambda>v. v = None)
       [bl_knowledge_isolation_sha256 b, bl_legacy_containment_sha256 b, bl_stopped_execution_sha256 b,
        bl_completed_output_sha256 b, bl_stopped_provider_failure_sha256 b, bl_stopped_failure_sha256 b,
        bl_context_capacity_receipt_sha256 b, bl_service_pause_outcome_sha256 b]"

definition completed_output_ok :: "ExecutionBaselineBinding \<Rightarrow> bool" where
  "completed_output_ok b \<longleftrightarrow>
     keeps_base b \<and> keeps_source b \<and> paused_draft b \<and> bl_completed_output_sha256 b \<noteq> None \<and>
     bl_legacy_containment_sha256 b = None \<and> bl_superseded_implementation_artifact_id b = None \<and>
     keeps_inventory b"

definition provider_retry_ok :: "ExecutionBaselineBinding \<Rightarrow> bool" where
  "provider_retry_ok b \<longleftrightarrow>
     keeps_base b \<and> keeps_source b \<and> paused_draft b \<and> bl_stopped_provider_failure_sha256 b \<noteq> None \<and>
     bl_legacy_containment_sha256 b = None \<and> bl_completed_output_sha256 b = None \<and>
     bl_superseded_implementation_artifact_id b = None \<and> keeps_inventory b"

definition failure_retry_ok :: "ExecutionBaselineBinding \<Rightarrow> bool" where
  "failure_retry_ok b \<longleftrightarrow>
     keeps_base b \<and> keeps_source b \<and> paused_draft b \<and> bl_stopped_failure_sha256 b \<noteq> None \<and>
     bl_legacy_containment_sha256 b = None \<and> bl_completed_output_sha256 b = None \<and>
     bl_stopped_provider_failure_sha256 b = None \<and> bl_stopped_execution_sha256 b = None \<and>
     bl_context_capacity_receipt_sha256 b = None \<and> bl_service_pause_outcome_sha256 b = None \<and>
     bl_superseded_implementation_artifact_id b = None \<and> keeps_inventory b"

definition capacity_resume_ok :: "ExecutionBaselineBinding \<Rightarrow> bool" where
  "capacity_resume_ok b \<longleftrightarrow>
     bl_context_capacity_receipt_sha256 b \<noteq> None \<and> keeps_base b \<and> keeps_source b \<and> paused_draft b \<and>
     bl_legacy_containment_sha256 b = None \<and> bl_completed_output_sha256 b = None \<and>
     bl_stopped_provider_failure_sha256 b = None \<and> bl_superseded_implementation_artifact_id b = None \<and>
     bl_superseded_progress_artifact_id b = None \<and> keeps_inventory b"

definition source_rebind_ok :: "ExecutionBaselineBinding \<Rightarrow> bool" where
  "source_rebind_ok b \<longleftrightarrow>
     \<not> (keeps_base b \<and> bl_service_pause_outcome_sha256 b = None) \<and> bl_legacy_containment_sha256 b = None"

fun purpose_ok :: "BaselinePurpose \<Rightarrow> ExecutionBaselineBinding \<Rightarrow> bool" where
  "purpose_ok BP_KNOWLEDGE_PREPARATION_ISOLATION b = knowledge_isolation_ok b"
| "purpose_ok BP_LEGACY_WORKSPACE_RESCUE b = legacy_rescue_ok b"
| "purpose_ok BP_STOPPED_EXECUTION_RESCUE b = stopped_execution_ok b"
| "purpose_ok BP_REJECTED_CANDIDATE_RESCUE b = rejected_candidate_ok b"
| "purpose_ok BP_COMPLETED_OUTPUT_RESCUE b = completed_output_ok b"
| "purpose_ok BP_STOPPED_PROVIDER_RETRY b = provider_retry_ok b"
| "purpose_ok BP_STOPPED_FAILURE_RETRY b = failure_retry_ok b"
| "purpose_ok BP_CONTEXT_CAPACITY_RESUME b = capacity_resume_ok b"
| "purpose_ok BP_SOURCE_REBIND b = source_rebind_ok b"

definition completed_evidence_ok :: "ExecutionBaselineBinding \<Rightarrow> bool" where
  "completed_evidence_ok b \<longleftrightarrow>
     bl_completed_output_sha256 b = None \<or>
     bl_purpose b \<in> {BP_COMPLETED_OUTPUT_RESCUE, BP_SOURCE_REBIND} \<and> bl_continuation_mode b = BC_PAUSE \<and>
     bl_authority_source b = BA_OPERATOR_DECISION \<and> bl_legacy_containment_sha256 b = None \<and>
     bl_stopped_provider_failure_sha256 b = None \<and> bl_superseded_implementation_artifact_id b = None"

definition provider_evidence_ok :: "ExecutionBaselineBinding \<Rightarrow> bool" where
  "provider_evidence_ok b \<longleftrightarrow>
     bl_stopped_provider_failure_sha256 b = None \<or>
     bl_purpose b \<in> {BP_STOPPED_PROVIDER_RETRY, BP_SOURCE_REBIND} \<and> bl_continuation_mode b = BC_PAUSE \<and>
     bl_authority_source b = BA_OPERATOR_DECISION \<and> bl_completed_output_sha256 b = None \<and>
     bl_legacy_containment_sha256 b = None \<and> bl_superseded_implementation_artifact_id b = None"

definition pause_evidence_ok :: "ExecutionBaselineBinding \<Rightarrow> bool" where
  "pause_evidence_ok b \<longleftrightarrow>
     bl_service_pause_outcome_sha256 b = None \<or>
     bl_purpose b = BP_SOURCE_REBIND \<and> bl_legacy_containment_sha256 b = None \<and>
     bl_completed_output_sha256 b = None \<and> bl_stopped_provider_failure_sha256 b = None"

definition superseded_recorded :: "ExecutionBaselineBinding \<Rightarrow> string option \<Rightarrow> bool" where
  "superseded_recorded b identity \<longleftrightarrow> opt_all (\<lambda>i. i \<in> set (bl_source_artifact_ids b)) identity"

definition validate_binding :: "ExecutionBaselineBinding \<Rightarrow> bool" where
  "validate_binding b \<longleftrightarrow>
     (bl_purpose b = BP_KNOWLEDGE_PREPARATION_ISOLATION) = (bl_knowledge_isolation_sha256 b \<noteq> None) \<and>
     (bl_purpose b = BP_REJECTED_CANDIDATE_RESCUE) = (bl_rejected_candidate_output_sha256 b \<noteq> None) \<and>
     ensure_unique (bl_source_artifact_ids b) \<and> ensure_unique (bl_resolved_interruption_receipt_sha256s b) \<and>
     (bl_sequence b = 1) = (bl_previous_binding_sha256 b = None) \<and>
     purpose_ok (bl_purpose b) b \<and>
     (bl_purpose b = BP_STOPPED_EXECUTION_RESCUE) = (bl_stopped_execution_sha256 b \<noteq> None) \<and>
     pause_evidence_ok b \<and>
     \<not> (bl_purpose b \<noteq> BP_CONTEXT_CAPACITY_RESUME \<and> bl_context_capacity_receipt_sha256 b \<noteq> None) \<and>
     completed_evidence_ok b \<and> provider_evidence_ok b \<and>
     (bl_purpose b = BP_STOPPED_FAILURE_RETRY) = (bl_stopped_failure_sha256 b \<noteq> None) \<and>
     \<not> (bl_input_mode b = BI_CODER_REAPPLY \<and> bl_execution_source_revision b \<noteq> bl_execution_base_ref b) \<and>
     superseded_recorded b (bl_superseded_implementation_artifact_id b) \<and>
     superseded_recorded b (bl_superseded_progress_artifact_id b)"

text \<open>The nine evidence fields that stand for why a binding was made.\<close>

definition binding_evidence :: "ExecutionBaselineBinding \<Rightarrow> string option list" where
  "binding_evidence b =
     [bl_legacy_containment_sha256 b, bl_stopped_execution_sha256 b, bl_rejected_candidate_output_sha256 b,
      bl_completed_output_sha256 b, bl_stopped_provider_failure_sha256 b, bl_stopped_failure_sha256 b,
      bl_context_capacity_receipt_sha256 b, bl_knowledge_isolation_sha256 b, bl_service_pause_outcome_sha256 b]"

definition valid_ExecutionBaselineBinding :: "ExecutionBaselineBinding \<Rightarrow> bool" where
  "valid_ExecutionBaselineBinding b \<longleftrightarrow>
     opt_all valid_Sha256 (bl_native_rule_epoch_sha256 b) \<and> list_all (opt_all valid_Sha256) (binding_evidence b) \<and>
     valid_EngineeringScope (bl_scope b) \<and> valid_TaskId (bl_task_id b) \<and> valid_Sha256 (bl_task_intent_sha256 b) \<and>
     in_range 1 100 (bl_sequence b) \<and> opt_all valid_Sha256 (bl_previous_binding_sha256 b) \<and>
     valid_FullGitRevision (bl_approved_base_ref b) \<and> valid_BranchName (bl_branch_name b) \<and>
     non_empty (bl_worktree_path b) \<and> valid_FullGitRevision (bl_prior_execution_base_ref b) \<and>
     valid_FullGitRevision (bl_prior_source_revision b) \<and> valid_FullGitRevision (bl_execution_base_ref b) \<and>
     valid_FullGitRevision (bl_execution_source_revision b) \<and>
     opt_all valid_ArtifactId (bl_superseded_implementation_artifact_id b) \<and>
     opt_all valid_ArtifactId (bl_superseded_progress_artifact_id b) \<and>
     list_all valid_ArtifactId (bl_source_artifact_ids b) \<and>
     list_all valid_Sha256 (bl_resolved_interruption_receipt_sha256s b) \<and>
     valid_RetainedExecutionPatch (bl_retained_patch b) \<and> valid_Sha256 (bl_authority_sha256 b) \<and>
     valid_Sha256 (bl_plan_sha256 b) \<and> valid_Sha256 (bl_facts_sha256 b) \<and> 1 \<le> bl_prior_task_revision b \<and>
     valid_Sha256 (bl_before_inventory_sha256 b) \<and> valid_Sha256 (bl_after_inventory_sha256 b) \<and>
     valid_Sha256 (bl_binding_sha256 b) \<and> validate_binding b"

subsection \<open>Integrity and lineage\<close>

type_synonym binding_hash = "ExecutionBaselineBinding \<Rightarrow> string"
type_synonym intent_hash = "Task \<Rightarrow> string"

definition binding_payload :: "ExecutionBaselineBinding \<Rightarrow> ExecutionBaselineBinding" where
  "binding_payload b = b\<lparr>bl_binding_sha256 := []\<rparr>"

definition recompute_sha256 :: "binding_hash \<Rightarrow> ExecutionBaselineBinding \<Rightarrow> string" where
  "recompute_sha256 H b = H (binding_payload b)"

definition binding_integrity :: "binding_hash \<Rightarrow> ExecutionBaselineBinding \<Rightarrow> baseline_error + unit" where
  "binding_integrity H b =
     bind_res (guard_res (valid_ExecutionBaselineBinding b) BaselineValueError) (\<lambda>_.
     guard_res (recompute_sha256 H b = bl_binding_sha256 b) BaselineValueError)"

definition create_binding ::
  "binding_hash \<Rightarrow> ExecutionBaselineBinding \<Rightarrow> baseline_error + ExecutionBaselineBinding" where
  "create_binding H values =
     (let binding = values\<lparr>bl_binding_sha256 := replicate 64 (CHR ''0'')\<rparr>
      in bind_res (guard_res (valid_ExecutionBaselineBinding binding) BaselineValueError) (\<lambda>_.
         Inr (binding\<lparr>bl_binding_sha256 := recompute_sha256 H binding\<rparr>)))"

text \<open>\<^verbatim>\<open>task_intent_sha256\<close> of \<^verbatim>\<open>domain/continuation.py\<close> leaves out the fields a delivery changes.\<close>

definition intent_payload :: "Task \<Rightarrow> Task" where
  "intent_payload t = t\<lparr>t_status := TS_NEW, t_attempts := 0, t_updated_at := 0, t_retry_failures := None\<rparr>"

definition task_intent_sha256 :: "intent_hash \<Rightarrow> Task \<Rightarrow> string" where
  "task_intent_sha256 I t = I (intent_payload t)"

definition require_task ::
  "binding_hash \<Rightarrow> intent_hash \<Rightarrow> ExecutionBaselineBinding \<Rightarrow> Task \<Rightarrow> baseline_error + unit" where
  "require_task H I b t =
     bind_res (binding_integrity H b) (\<lambda>_.
     guard_res
       (t_id t = bl_task_id b \<and> t_repository t = es_repository_root (bl_scope b) \<and>
        t_base_ref t = bl_approved_base_ref b \<and> t_branch_name t = Some (bl_branch_name b) \<and>
        task_intent_sha256 I t = bl_task_intent_sha256 b)
       BaselineValueError)"

definition require_predecessor ::
  "binding_hash \<Rightarrow> ExecutionBaselineBinding \<Rightarrow> ExecutionBaselineBinding option \<Rightarrow> baseline_error + unit" where
  "require_predecessor H b previous =
     bind_res (binding_integrity H b) (\<lambda>_.
     case previous of
       None \<Rightarrow>
         guard_res
           (bl_sequence b = 1 \<and> bl_previous_binding_sha256 b = None \<and>
            bl_prior_execution_base_ref b = bl_approved_base_ref b)
           BaselineValueError
     | Some p \<Rightarrow>
         bind_res (binding_integrity H p) (\<lambda>_.
         guard_res
           (bl_scope b = bl_scope p \<and> bl_task_id b = bl_task_id p \<and>
            bl_task_intent_sha256 b = bl_task_intent_sha256 p \<and>
            bl_approved_base_ref b = bl_approved_base_ref p \<and> bl_branch_name b = bl_branch_name p \<and>
            bl_worktree_path b = bl_worktree_path p \<and> bl_sequence b = bl_sequence p + 1 \<and>
            bl_previous_binding_sha256 b = Some (bl_binding_sha256 p) \<and>
            bl_prior_execution_base_ref b = bl_execution_base_ref p \<and>
            \<not> bl_completed_at b < bl_completed_at p)
           BaselineValueError))"

subsection \<open>The Coder's input\<close>

text \<open>
  \<^verbatim>\<open>resolve_coder_execution_input\<close> in general; \<open>resolve_coder_execution_input\<close> of \<^verbatim>\<open>Runner\<close> is the
  case without a baseline. Of the binding, the model of \<^verbatim>\<open>CoderExecutionInput\<close> keeps the digest.
\<close>

fun require_history ::
  "binding_hash \<Rightarrow> intent_hash \<Rightarrow> Task \<Rightarrow> ExecutionBaselineBinding option \<Rightarrow> ExecutionBaselineBinding list \<Rightarrow>
   baseline_error + unit" where
  "require_history H I t previous [] = Inr ()"
| "require_history H I t previous (b # bs) =
     bind_res (require_task H I b t) (\<lambda>_.
     bind_res (require_predecessor H b previous) (\<lambda>_.
     require_history H I t (Some b) bs))"

definition superseded_implementations :: "ExecutionBaselineBinding list \<Rightarrow> string list" where
  "superseded_implementations history =
     dict_fromkeys (List.map_filter bl_superseded_implementation_artifact_id history)"

definition superseded_progress :: "ExecutionBaselineBinding list \<Rightarrow> string list" where
  "superseded_progress history = dict_fromkeys (List.map_filter bl_superseded_progress_artifact_id history)"

definition resolve_bound_input ::
  "ExecutionBaselineBinding \<Rightarrow> ExecutionBaselineBinding list \<Rightarrow> Artifact option \<Rightarrow> Artifact option \<Rightarrow>
   baseline_error + CoderExecutionInput" where
  "resolve_bound_input b history implementation progress =
     (let implementations = superseded_implementations history;
          checkpoints = superseded_progress history;
          current = (case implementation of
                       None \<Rightarrow> None
                     | Some a \<Rightarrow> if art_artifact_id a \<in> set implementations then None else Some a);
          active = (case progress of
                      None \<Rightarrow> None
                    | Some a \<Rightarrow> if art_artifact_id a \<in> set checkpoints then None else Some a)
      in case (case current of None \<Rightarrow> Some (bl_execution_source_revision b) | Some a \<Rightarrow> commit_sha_of a) of
           None \<Rightarrow> Inl BaselineValueError
         | Some source \<Rightarrow>
             if \<not> opt_all (\<lambda>p. art_source_revision p = source) active then Inl BaselineValueError
             else Inr \<lparr>ci_source_revision = source, ci_execution_base_ref = bl_execution_base_ref b,
                       ci_active_progress = active, ci_baseline_sha256 = Some (bl_binding_sha256 b),
                       ci_superseded_implementation_artifact_ids = implementations,
                       ci_superseded_progress_artifact_ids = checkpoints\<rparr>)"

definition resolve_execution_input ::
  "binding_hash \<Rightarrow> intent_hash \<Rightarrow> Task \<Rightarrow> Artifact option \<Rightarrow> Artifact option \<Rightarrow>
   ExecutionBaselineBinding option \<Rightarrow> ExecutionBaselineBinding list \<Rightarrow> baseline_error + CoderExecutionInput" where
  "resolve_execution_input H I task implementation progress baseline history =
     bind_res (guard_res (opt_all (\<lambda>a. art_task_id a = t_id task) implementation) BaselineValueError) (\<lambda>_.
     bind_res (guard_res (opt_all (\<lambda>a. art_task_id a = t_id task) progress) BaselineValueError) (\<lambda>_.
     bind_res (if history = [] then Inr ()
               else bind_res (guard_res (baseline = Some (last history)) BaselineValueError) (\<lambda>_.
                    require_history H I task None history)) (\<lambda>_.
     case baseline of
       None \<Rightarrow>
         (case resolve_coder_execution_input task implementation progress of
            None \<Rightarrow> Inl BaselineValueError | Some i \<Rightarrow> Inr i)
     | Some b \<Rightarrow>
         bind_res (require_task H I b task) (\<lambda>_.
         resolve_bound_input b (if history = [] then [b] else history) implementation progress))))"

text \<open>
  \<^verbatim>\<open>StoredCoderExecutionInputResolver.current\<close> of \<^verbatim>\<open>manager/execution_baseline.py\<close>: the stored
  history of a Task, read by its identity, is an argument. A raised error is \<open>None\<close>, as the
  orchestrator's \<open>re_inputs\<close> has it.
\<close>

definition stored_current ::
  "binding_hash \<Rightarrow> intent_hash \<Rightarrow> (string \<Rightarrow> ExecutionBaselineBinding list) \<Rightarrow>
   Task \<Rightarrow> Artifact option \<Rightarrow> Artifact option \<Rightarrow> CoderExecutionInput option" where
  "stored_current H I bindings_for_task task implementation progress =
     (let history = bindings_for_task (t_id task)
      in res_to_option (resolve_execution_input H I task implementation progress
           (if history = [] then None else Some (last history)) history))"

end
