(* ===== verification/Baseline_Properties.thy ===== *)
theory Baseline_Properties
  imports Execution_Baseline Runner_Properties Delivery_Samples
begin

section \<open>Baseline histories and the Coder's input\<close>

text \<open>
  What a valid binding may claim, what an accepted history of bindings looks like and fixes, and
  that the orchestrator codes on the last binding of a history and never on superseded work.
\<close>

subsection \<open>Purpose and evidence\<close>

fun own_evidence :: "BaselinePurpose \<Rightarrow> ExecutionBaselineBinding \<Rightarrow> string option" where
  "own_evidence BP_LEGACY_WORKSPACE_RESCUE b = bl_legacy_containment_sha256 b"
| "own_evidence BP_STOPPED_EXECUTION_RESCUE b = bl_stopped_execution_sha256 b"
| "own_evidence BP_REJECTED_CANDIDATE_RESCUE b = bl_rejected_candidate_output_sha256 b"
| "own_evidence BP_COMPLETED_OUTPUT_RESCUE b = bl_completed_output_sha256 b"
| "own_evidence BP_STOPPED_PROVIDER_RETRY b = bl_stopped_provider_failure_sha256 b"
| "own_evidence BP_STOPPED_FAILURE_RETRY b = bl_stopped_failure_sha256 b"
| "own_evidence BP_CONTEXT_CAPACITY_RESUME b = bl_context_capacity_receipt_sha256 b"
| "own_evidence BP_KNOWLEDGE_PREPARATION_ISOLATION b = bl_knowledge_isolation_sha256 b"
| "own_evidence BP_SOURCE_REBIND b = None"

lemmas purpose_branches =
  knowledge_isolation_ok_def legacy_rescue_ok_def stopped_execution_ok_def rejected_candidate_ok_def
  completed_output_ok_def provider_retry_ok_def failure_retry_ok_def capacity_resume_ok_def source_rebind_ok_def

lemmas evidence_rules = pause_evidence_ok_def completed_evidence_ok_def provider_evidence_ok_def

lemma rescue_evidence:
  assumes "validate_binding b" and "bl_purpose b \<noteq> BP_SOURCE_REBIND"
  shows "filter (\<lambda>e. e \<noteq> None) (binding_evidence b) = [own_evidence (bl_purpose b) b]"
  using assms
  by (cases "bl_purpose b"; simp add: validate_binding_def binding_evidence_def purpose_branches evidence_rules;
      blast?)

lemma rebind_evidence:
  assumes "validate_binding b" and "bl_purpose b = BP_SOURCE_REBIND"
  shows "length (filter (\<lambda>e. e \<noteq> None) (binding_evidence b)) \<le> 1"
  using assms
  by (auto simp: validate_binding_def binding_evidence_def purpose_branches evidence_rules)

lemma rescue_keeps:
  assumes "validate_binding b" and "bl_purpose b \<noteq> BP_SOURCE_REBIND"
  shows "keeps_base b \<and> bl_input_mode b = BI_PRESERVE_DRAFT \<and> bl_authority_source b = BA_OPERATOR_DECISION \<and>
     bl_superseded_implementation_artifact_id b = None \<and>
     (keeps_source b \<longleftrightarrow> bl_purpose b \<noteq> BP_REJECTED_CANDIDATE_RESCUE) \<and>
     (bl_purpose b \<noteq> BP_LEGACY_WORKSPACE_RESCUE \<longrightarrow> bl_continuation_mode b = BC_PAUSE \<and> keeps_inventory b)"
  using assms
  by (cases "bl_purpose b"; simp add: validate_binding_def purpose_branches paused_draft_def)

subsection \<open>Histories\<close>

lemma binding_integrityD:
  "binding_integrity H b = Inr () \<longleftrightarrow> valid_ExecutionBaselineBinding b \<and> bl_binding_sha256 b = recompute_sha256 H b"
  by (auto simp: binding_integrity_def bind_res_Inr_iff)

lemma valid_binding_sequence: "valid_ExecutionBaselineBinding b \<Longrightarrow> 1 \<le> bl_sequence b \<and> bl_sequence b \<le> 100"
  by (simp add: valid_ExecutionBaselineBinding_def in_range_def)

definition extends_binding :: "ExecutionBaselineBinding option \<Rightarrow> ExecutionBaselineBinding \<Rightarrow> bool" where
  "extends_binding previous b \<longleftrightarrow>
     (case previous of
        None \<Rightarrow> bl_sequence b = 1 \<and> bl_prior_execution_base_ref b = bl_approved_base_ref b
      | Some p \<Rightarrow> bl_sequence b = bl_sequence p + 1 \<and> bl_previous_binding_sha256 b = Some (bl_binding_sha256 p) \<and>
          bl_prior_execution_base_ref b = bl_execution_base_ref p \<and> bl_worktree_path b = bl_worktree_path p \<and>
          bl_scope b = bl_scope p \<and> bl_completed_at p \<le> bl_completed_at b)"

definition binds_task :: "binding_hash \<Rightarrow> intent_hash \<Rightarrow> Task \<Rightarrow> ExecutionBaselineBinding \<Rightarrow> bool" where
  "binds_task H I t b \<longleftrightarrow>
     valid_ExecutionBaselineBinding b \<and> bl_binding_sha256 b = recompute_sha256 H b \<and> bl_task_id b = t_id t \<and>
     bl_approved_base_ref b = t_base_ref t \<and> t_branch_name t = Some (bl_branch_name b) \<and>
     bl_task_intent_sha256 b = task_intent_sha256 I t \<and> es_repository_root (bl_scope b) = t_repository t"

lemma require_task_iff: "require_task H I b t = Inr () \<longleftrightarrow> binds_task H I t b"
  by (auto simp: require_task_def binds_task_def binding_integrityD bind_res_Inr_iff)

lemma require_history_Cons:
  "require_history H I t previous (b # bs) = Inr () \<longleftrightarrow>
     binds_task H I t b \<and> require_predecessor H b previous = Inr () \<and> require_history H I t (Some b) bs = Inr ()"
  by (auto simp: require_task_iff bind_res_Inr_iff)

declare require_history.simps(2) [simp del]

lemma require_predecessorD:
  assumes "require_predecessor H b previous = Inr ()"
  shows "extends_binding previous b"
  using assms by (auto simp: require_predecessor_def extends_binding_def bind_res_Inr_iff split: option.splits)

lemma require_history_binds:
  "require_history H I t previous hist = Inr () \<Longrightarrow> b \<in> set hist \<Longrightarrow> binds_task H I t b"
  by (induction hist arbitrary: previous) (auto simp: require_history_Cons)

lemma require_history_nth:
  assumes "require_history H I t previous hist = Inr ()" and "k < length hist"
  shows "extends_binding (if k = 0 then previous else Some (hist ! (k - 1))) (hist ! k)"
  using assms
proof (induction hist arbitrary: previous k)
  case (Cons b bs)
  from Cons.prems(1) have h: "require_predecessor H b previous = Inr ()" "require_history H I t (Some b) bs = Inr ()"
    by (simp_all add: require_history_Cons)
  show ?case
  proof (cases k)
    case 0
    with h(1) show ?thesis by (simp add: require_predecessorD)
  next
    case (Suc j)
    with Cons.IH [OF h(2), of j] Cons.prems(2) show ?thesis by (cases j) simp_all
  qed
qed simp

lemma history_sequence:
  assumes "require_history H I t None hist = Inr ()" and "k < length hist"
  shows "bl_sequence (hist ! k) = int k + 1"
  using assms(2)
proof (induction k)
  case 0
  with require_history_nth [OF assms(1), of 0] show ?case by (simp add: extends_binding_def)
next
  case (Suc k)
  with require_history_nth [OF assms(1), of "Suc k"] show ?case by (simp add: extends_binding_def)
qed

lemma history_length:
  assumes "require_history H I t None hist = Inr ()"
  shows "length hist \<le> 100"
proof (cases hist rule: rev_cases)
  case (snoc xs b)
  have "bl_sequence b = int (length hist)" using history_sequence [OF assms, of "length xs"] snoc by simp
  moreover have "binds_task H I t b" using require_history_binds [OF assms] snoc by simp
  ultimately show ?thesis using valid_binding_sequence [of b] by (simp add: binds_task_def)
qed simp

lemma require_history_prefix: "require_history H I t previous (xs @ ys) = Inr () \<Longrightarrow> require_history H I t previous xs = Inr ()"
  by (induction xs arbitrary: previous) (auto simp: require_history_Cons)

lemma payload_restored: "(binding_payload b)\<lparr>bl_binding_sha256 := bl_binding_sha256 b\<rparr> = b"
  by (simp add: binding_payload_def)

lemma same_binding:
  assumes "binds_task H I t b" and "binds_task H I t' c" and "bl_binding_sha256 b = bl_binding_sha256 c"
    and "inj_on H {binding_payload b, binding_payload c}"
  shows "b = c"
proof -
  have "H (binding_payload b) = H (binding_payload c)"
    using assms(1-3) by (simp add: binds_task_def recompute_sha256_def)
  then have "binding_payload b = binding_payload c" by (rule inj_onD [OF assms(4)]) simp_all
  then show ?thesis by (metis payload_restored assms(3))
qed

lemma history_fixed:
  assumes "require_history H I t None xs = Inr ()" and "require_history H I t' None ys = Inr ()"
    and "inj_on H (binding_payload ` (set xs \<union> set ys))" and "xs \<noteq> []" and "ys \<noteq> []"
    and "bl_binding_sha256 (last xs) = bl_binding_sha256 (last ys)"
  shows "xs = ys"
  using assms
proof (induction xs arbitrary: ys rule: rev_induct)
  case (snoc b xs)
  obtain ys' c where ys: "ys = ys' @ [c]" using snoc.prems(5) by (cases ys rule: rev_cases) auto
  have bound: "binds_task H I t b" "binds_task H I t' c"
    using require_history_binds [OF snoc.prems(1)] require_history_binds [OF snoc.prems(2)] ys by auto
  have "b = c"
    by (rule same_binding [OF bound _ inj_on_subset [OF snoc.prems(3)]]) (use snoc.prems(6) in \<open>auto simp: ys\<close>)
  have len: "length xs = length ys'"
    using history_sequence [OF snoc.prems(1), of "length xs"] history_sequence [OF snoc.prems(2), of "length ys'"]
      ys \<open>b = c\<close> by simp
  show ?case
  proof (cases "xs = []")
    case True
    with len ys \<open>b = c\<close> show ?thesis by simp
  next
    case False
    with len have ne: "ys' \<noteq> []" by auto
    have "extends_binding (Some (last xs)) b"
      using require_history_nth [OF snoc.prems(1), of "length xs"] False by (simp add: nth_append last_conv_nth)
    moreover have "extends_binding (Some (last ys')) c"
      using require_history_nth [OF snoc.prems(2), of "length ys'"] ys ne by (simp add: nth_append last_conv_nth)
    ultimately have "bl_binding_sha256 (last xs) = bl_binding_sha256 (last ys')"
      using \<open>b = c\<close> by (simp add: extends_binding_def)
    moreover have "inj_on H (binding_payload ` (set xs \<union> set ys'))"
      by (rule inj_on_subset [OF snoc.prems(3)]) (auto simp: ys)
    ultimately have "xs = ys'"
      using snoc.IH [OF require_history_prefix [OF snoc.prems(1)]
          require_history_prefix [OF snoc.prems(2) [unfolded ys]] _ False ne] by simp
    with ys \<open>b = c\<close> show ?thesis by simp
  qed
qed simp

subsection \<open>The chosen input\<close>

lemma set_fromkeys_loop: "set (dict_fromkeys_loop seen xs) = set seen \<union> set xs"
  by (induction seen xs rule: dict_fromkeys_loop.induct) auto

lemma set_dict_fromkeys [simp]: "set (dict_fromkeys xs) = set xs"
  by (simp add: dict_fromkeys_def set_fromkeys_loop)

lemma in_superseded:
  "i \<in> set (superseded_implementations history) \<longleftrightarrow> (\<exists>b \<in> set history. bl_superseded_implementation_artifact_id b = Some i)"
  "i \<in> set (superseded_progress history) \<longleftrightarrow> (\<exists>b \<in> set history. bl_superseded_progress_artifact_id b = Some i)"
  by (force simp: superseded_implementations_def superseded_progress_def List.map_filter_def image_iff)+

lemma resolve_Inr:
  assumes "resolve_execution_input H I task implementation progress baseline history = Inr i" and "history \<noteq> []"
  shows "baseline = Some (last history)" and "require_history H I task None history = Inr ()"
    and "resolve_bound_input (last history) history implementation progress = Inr i"
  using assms by (auto simp: resolve_execution_input_def bind_res_Inr_iff split: option.splits)

lemma resolve_bound_Inr:
  assumes "resolve_bound_input b history implementation progress = Inr i"
  shows "ci_execution_base_ref i = bl_execution_base_ref b" and "ci_baseline_sha256 i = Some (bl_binding_sha256 b)"
    and "ci_superseded_implementation_artifact_ids i = superseded_implementations history"
    and "ci_superseded_progress_artifact_ids i = superseded_progress history"
    and "opt_all (\<lambda>p. progress = Some p \<and> art_source_revision p = ci_source_revision i \<and>
           art_artifact_id p \<notin> set (superseded_progress history)) (ci_active_progress i)"
    and "ci_source_revision i = bl_execution_source_revision b \<or>
       (\<exists>a. implementation = Some a \<and> commit_sha_of a = Some (ci_source_revision i) \<and>
          art_artifact_id a \<notin> set (superseded_implementations history))"
  using assms
  by (auto simp: resolve_bound_input_def Let_def opt_all_def split: option.splits if_splits)

lemma stored_current_Some:
  assumes "stored_current H I bindings task implementation progress = Some i" and "bindings (t_id task) \<noteq> []"
  shows "require_history H I task None (bindings (t_id task)) = Inr ()"
    and "resolve_bound_input (last (bindings (t_id task))) (bindings (t_id task)) implementation progress = Inr i"
  using assms resolve_Inr [of H I task implementation progress _ "bindings (t_id task)" i]
  by (auto simp: stored_current_def Let_def res_to_option_def split: sum.splits)

lemma current_input_cases:
  assumes "current_coder_input env task s = (Inr i, s')" and "re_inputs env = Some current"
  obtains i0 as implementation latest progress where "s' = s" and "current task None None = Some i0"
    and "list_for_task (re_hash env) (rs_artifacts s) (t_id task) = Inr as"
    and "latest_accepted_artifact as AK_IMPLEMENTATION_REPORT None (superseded_artifact_ids i0) = Inr implementation"
    and "latest_accepted_artifact as AK_CODER_PROGRESS None (superseded_artifact_ids i0) = Inr latest"
    and "current_progress as implementation latest = Inr progress"
    and "current task implementation progress = Some i"
  using assms(1) unfolding current_coder_input_def
  by (clarsimp simp: assms(2) rbind_Inr_iff)


subsection \<open>Sealing\<close>

lemma validate_binding_seal: "validate_binding (b\<lparr>bl_binding_sha256 := x\<rparr>) = validate_binding b"
  by (cases "bl_purpose b"; simp add: validate_binding_def purpose_branches evidence_rules paused_draft_def
      keeps_base_def keeps_source_def keeps_inventory_def superseded_recorded_def)

lemma valid_binding_seal:
  "valid_ExecutionBaselineBinding b \<Longrightarrow> valid_Sha256 x \<Longrightarrow> valid_ExecutionBaselineBinding (b\<lparr>bl_binding_sha256 := x\<rparr>)"
  by (simp add: valid_ExecutionBaselineBinding_def validate_binding_seal binding_evidence_def)

lemma created_binding_intact:
  assumes "create_binding H values = Inr b" and "\<And>p. valid_Sha256 (H p)"
  shows "binding_integrity H b = Inr ()"
proof -
  let ?zero = "values\<lparr>bl_binding_sha256 := replicate 64 (CHR ''0'')\<rparr>"
  have b: "valid_ExecutionBaselineBinding ?zero" "b = ?zero\<lparr>bl_binding_sha256 := recompute_sha256 H ?zero\<rparr>"
    using assms(1) by (simp_all add: create_binding_def Let_def bind_res_Inr_iff)
  have "valid_ExecutionBaselineBinding b"
    unfolding b(2) by (rule valid_binding_seal [OF b(1)]) (simp add: recompute_sha256_def assms(2))
  moreover have "bl_binding_sha256 b = recompute_sha256 H b"
    by (simp add: b(2) recompute_sha256_def binding_payload_def)
  ultimately show ?thesis by (simp add: binding_integrityD)
qed

lemma require_task_frozen:
  assumes "intent_payload t = intent_payload t'"
  shows "require_task H I b t = require_task H I b t'"
proof -
  have frozen: "t_id x = t_id (intent_payload x)" "t_repository x = t_repository (intent_payload x)"
    "t_base_ref x = t_base_ref (intent_payload x)" "t_branch_name x = t_branch_name (intent_payload x)" for x
    by (simp_all add: intent_payload_def)
  show ?thesis
    unfolding require_task_def task_intent_sha256_def frozen [of t] frozen [of t'] assms ..
qed

subsection \<open>Samples\<close>

definition sample_baseline_hash :: binding_hash where
  "sample_baseline_hash b = replicate 64 (if bl_sequence b = 1 then CHR ''a'' else CHR ''b'')"

definition sample_intent_hash :: intent_hash where
  "sample_intent_hash t = sample_sha"

definition baseline_task :: Task where
  "baseline_task = (sample_task TS_IMPLEMENTING 0)\<lparr>t_repository := ''/w/repo'', t_base_ref := replicate 40 (CHR ''a''),
     t_branch_name := Some ''ai/feature/part-one''\<rparr>"

definition sample_rebind :: ExecutionBaselineBinding where
  "sample_rebind =
     \<lparr>bl_purpose = BP_SOURCE_REBIND, bl_continuation_mode = BC_RESUME, bl_native_rule_epoch_sha256 = None,
      bl_legacy_containment_sha256 = None, bl_stopped_execution_sha256 = None, bl_rejected_candidate_output_sha256 = None,
      bl_completed_output_sha256 = None, bl_stopped_provider_failure_sha256 = None, bl_stopped_failure_sha256 = None,
      bl_context_capacity_receipt_sha256 = None, bl_knowledge_isolation_sha256 = None,
      bl_service_pause_outcome_sha256 = None,
      bl_scope = \<lparr>es_team_id = ''t'', es_project_id = ''p'', es_repository_id = ''r'', es_repository_root = ''/w/repo''\<rparr>,
      bl_task_id = ''task_a01'', bl_task_intent_sha256 = sample_sha, bl_sequence = 1, bl_previous_binding_sha256 = None,
      bl_approved_base_ref = replicate 40 (CHR ''a''), bl_branch_name = ''ai/feature/part-one'', bl_worktree_path = ''/w/tree'',
      bl_prior_execution_base_ref = replicate 40 (CHR ''a''), bl_prior_source_revision = replicate 40 (CHR ''a''),
      bl_execution_base_ref = replicate 40 (CHR ''b''), bl_execution_source_revision = replicate 40 (CHR ''b''),
      bl_input_mode = BI_CODER_REAPPLY, bl_superseded_implementation_artifact_id = Some ''art_impl'',
      bl_superseded_progress_artifact_id = None, bl_source_artifact_ids = [''art_plan'', ''art_impl''],
      bl_resolved_interruption_receipt_sha256s = [],
      bl_retained_patch = \<lparr>rp_uri = ''file'', rp_sha256 = sample_sha, rp_bytes = 10\<rparr>,
      bl_authority_source = BA_ORGANIZATION_POLICY, bl_authority_sha256 = sample_sha, bl_plan_sha256 = sample_sha,
      bl_facts_sha256 = sample_sha, bl_prior_task_revision = 3, bl_before_inventory_sha256 = sample_sha,
      bl_after_inventory_sha256 = sample_sha, bl_completed_at = 5, bl_binding_sha256 = sample_sha\<rparr>"

definition sample_retry :: ExecutionBaselineBinding where
  "sample_retry = sample_rebind\<lparr>bl_purpose := BP_STOPPED_FAILURE_RETRY, bl_continuation_mode := BC_PAUSE,
     bl_stopped_failure_sha256 := Some sample_sha, bl_sequence := 2, bl_previous_binding_sha256 := Some sample_sha,
     bl_prior_execution_base_ref := replicate 40 (CHR ''b''), bl_prior_source_revision := replicate 40 (CHR ''b''),
     bl_input_mode := BI_PRESERVE_DRAFT, bl_superseded_implementation_artifact_id := None,
     bl_authority_source := BA_OPERATOR_DECISION, bl_completed_at := 6,
     bl_binding_sha256 := replicate 64 (CHR ''b'')\<rparr>"

definition sample_baselines :: "string \<Rightarrow> ExecutionBaselineBinding list" where
  "sample_baselines i = (if i = ''task_a01'' then [sample_rebind, sample_retry] else [])"

definition baseline_env :: runner_env where
  "baseline_env = (sample_env None)\<lparr>re_inputs :=
     Some (stored_current sample_baseline_hash sample_intent_hash sample_baselines)\<rparr>"

definition baseline_state :: run_state where
  "baseline_state = sample_start\<lparr>rs_artifacts := put_all sample_hash new_store
     [sample_plan, sample_artifact ''art_impl'' AR_CODER ''run_a02'' [''art_plan''] sample_commit ''ctx''
        (ImplementationReportArtifact (sample_implementation_content sample_commit))]\<rparr>"

lemma sample_rebind_valid: "valid_ExecutionBaselineBinding sample_rebind"
  by code_simp

lemma sample_retry_valid: "valid_ExecutionBaselineBinding sample_retry"
  by code_simp

lemma sample_resolved:
  "resolve_execution_input sample_baseline_hash sample_intent_hash baseline_task None None (Some sample_retry)
     [sample_rebind, sample_retry] =
   Inr \<lparr>ci_source_revision = replicate 40 (CHR ''b''), ci_execution_base_ref = replicate 40 (CHR ''b''),
        ci_active_progress = None, ci_baseline_sha256 = Some (replicate 64 (CHR ''b'')),
        ci_superseded_implementation_artifact_ids = [''art_impl''], ci_superseded_progress_artifact_ids = []\<rparr>"
  by code_simp

lemma sample_resolved_later:
  "resolve_execution_input sample_baseline_hash sample_intent_hash (baseline_task\<lparr>t_status := TS_QA, t_attempts := 2\<rparr>)
     None None (Some sample_retry) [sample_rebind, sample_retry] =
   Inr \<lparr>ci_source_revision = replicate 40 (CHR ''b''), ci_execution_base_ref = replicate 40 (CHR ''b''),
        ci_active_progress = None, ci_baseline_sha256 = Some (replicate 64 (CHR ''b'')),
        ci_superseded_implementation_artifact_ids = [''art_impl''], ci_superseded_progress_artifact_ids = []\<rparr>"
  by code_simp

lemma sample_coder_input:
  "map_sum (\<lambda>_. ()) ci_source_revision (fst (current_coder_input baseline_env baseline_task baseline_state)) =
     Inr (replicate 40 (CHR ''b''))"
  unfolding baseline_state_def sample_start_def created_store_def by code_simp

section \<open>Properties\<close>

text \<open>
  C16. A valid binding claims exactly what its purpose allows. A rescue or retry carries one piece of
  evidence, its own; a human decided it; it keeps the code baseline, the draft and the candidate, and
  the source too unless it adopts a rejected candidate; and all but the legacy rescue pause with an
  unchanged inventory. A source rebind carries at most one piece of evidence, changes the baseline
  unless it resumes a service pause, and with evidence of a finished or failed execution it is a
  human decision that pauses.
\<close>

theorem baseline_purpose_evidence:
  assumes "valid_ExecutionBaselineBinding b"
  shows "if bl_purpose b = BP_SOURCE_REBIND
    then length (filter (\<lambda>e. e \<noteq> None) (binding_evidence b)) \<le> 1 \<and>
      (bl_execution_base_ref b = bl_prior_execution_base_ref b \<longrightarrow> bl_service_pause_outcome_sha256 b \<noteq> None) \<and>
      (bl_completed_output_sha256 b \<noteq> None \<or> bl_stopped_provider_failure_sha256 b \<noteq> None \<longrightarrow>
         bl_authority_source b = BA_OPERATOR_DECISION \<and> bl_continuation_mode b = BC_PAUSE)
    else filter (\<lambda>e. e \<noteq> None) (binding_evidence b) = [own_evidence (bl_purpose b) b] \<and>
      bl_execution_base_ref b = bl_prior_execution_base_ref b \<and> bl_input_mode b = BI_PRESERVE_DRAFT \<and>
      bl_authority_source b = BA_OPERATOR_DECISION \<and> bl_superseded_implementation_artifact_id b = None \<and>
      (bl_execution_source_revision b = bl_prior_source_revision b \<longleftrightarrow> bl_purpose b \<noteq> BP_REJECTED_CANDIDATE_RESCUE) \<and>
      (bl_purpose b \<noteq> BP_LEGACY_WORKSPACE_RESCUE \<longrightarrow>
         bl_continuation_mode b = BC_PAUSE \<and> bl_before_inventory_sha256 b = bl_after_inventory_sha256 b)"
proof -
  have v: "validate_binding b" using assms by (simp add: valid_ExecutionBaselineBinding_def)
  show ?thesis
  proof (cases "bl_purpose b = BP_SOURCE_REBIND")
    case True
    with v have "source_rebind_ok b" "completed_evidence_ok b" "provider_evidence_ok b"
      by (simp_all add: validate_binding_def)
    with True rebind_evidence [OF v] show ?thesis
      by (auto simp: source_rebind_ok_def completed_evidence_ok_def provider_evidence_ok_def keeps_base_def)
  next
    case False
    with rescue_evidence [OF v] rescue_keeps [OF v] show ?thesis
      by (simp add: keeps_base_def keeps_source_def keeps_inventory_def)
  qed
qed

theorem baseline_purpose_evidence_witness:
  "filter (\<lambda>e. e \<noteq> None) (binding_evidence sample_retry) = [Some sample_sha] \<and>
     bl_continuation_mode sample_retry = BC_PAUSE"
  using baseline_purpose_evidence [OF sample_retry_valid] by (simp add: sample_retry_def)

text \<open>
  C14. Whenever the Coder's input is resolved from a history of bindings, that history is the Task's
  own append-only lineage: at most one hundred intact bindings of the Task's frozen intent, numbered
  from one, the first on the approved base, each on the baseline that its predecessor left and naming
  its digest, with times that do not decrease; and the input is based on the last one.
\<close>

theorem baseline_history_lineage:
  assumes "resolve_execution_input H I task implementation progress baseline history = Inr i"
    and "history \<noteq> []"
  shows "map bl_sequence history = map int [1..<length history + 1] \<and> length history \<le> 100 \<and>
    (\<forall>b \<in> set history. binding_integrity H b = Inr () \<and> bl_task_id b = t_id task \<and>
       bl_task_intent_sha256 b = task_intent_sha256 I task \<and> bl_approved_base_ref b = t_base_ref task \<and>
       t_branch_name task = Some (bl_branch_name b)) \<and>
    bl_prior_execution_base_ref (hd history) = t_base_ref task \<and>
    (\<forall>k. Suc k < length history \<longrightarrow>
       bl_previous_binding_sha256 (history ! Suc k) = Some (bl_binding_sha256 (history ! k)) \<and>
       bl_prior_execution_base_ref (history ! Suc k) = bl_execution_base_ref (history ! k) \<and>
       bl_completed_at (history ! k) \<le> bl_completed_at (history ! Suc k)) \<and>
    ci_execution_base_ref i = bl_execution_base_ref (last history) \<and>
    ci_baseline_sha256 i = Some (bl_binding_sha256 (last history))"
proof -
  note h = resolve_Inr(2) [OF assms] and r = resolve_bound_Inr [OF resolve_Inr(3) [OF assms]]
  have "map bl_sequence history = map int [1..<length history + 1]"
    by (rule nth_equalityI) (simp_all add: history_sequence [OF h] del: upt_Suc)
  moreover have "bl_prior_execution_base_ref (hd history) = t_base_ref task"
    using require_history_nth [OF h, of 0] require_history_binds [OF h, of "hd history"] assms(2)
    by (simp add: extends_binding_def binds_task_def hd_conv_nth)
  moreover have "extends_binding (Some (history ! k)) (history ! Suc k)" if "Suc k < length history" for k
    using require_history_nth [OF h that] by simp
  ultimately show ?thesis
    using require_history_binds [OF h] history_length [OF h] r(1,2)
    by (auto simp: extends_binding_def binds_task_def binding_integrityD)
qed

theorem baseline_history_lineage_witness:
  "map bl_sequence [sample_rebind, sample_retry] = [1, 2] \<and>
     bl_prior_execution_base_ref sample_rebind = t_base_ref baseline_task"
  using baseline_history_lineage [OF sample_resolved] by (simp add: upt_rec)

text \<open>
  C15. The digest that a Coder request carries fixes the whole history behind it: two inputs resolved
  with the same baseline digest, for whatever Tasks and Artifacts, come from the same history and the
  same frozen intent, unless the hash collides on their bindings.
\<close>

theorem baseline_digest_fixes_history:
  assumes "resolve_execution_input H I task implementation progress baseline history = Inr i"
    and "resolve_execution_input H I task' implementation' progress' baseline' history' = Inr i'"
    and "history \<noteq> []" and "history' \<noteq> []" and "ci_baseline_sha256 i = ci_baseline_sha256 i'"
    and "inj_on H (binding_payload ` (set history \<union> set history'))"
  shows "history = history' \<and> t_id task = t_id task' \<and> t_base_ref task = t_base_ref task' \<and>
    t_branch_name task = t_branch_name task' \<and> task_intent_sha256 I task = task_intent_sha256 I task' \<and>
    set (superseded_artifact_ids i) = set (superseded_artifact_ids i')"
proof -
  note h = resolve_Inr [OF assms(1,3)] and h' = resolve_Inr [OF assms(2,4)]
  note r = resolve_bound_Inr [OF h(3)] and r' = resolve_bound_Inr [OF h'(3)]
  have same: "history = history'"
    using history_fixed [OF h(2) h'(2) assms(6,3,4)] assms(5) r(2) r'(2) by simp
  have "binds_task H I task (last history)" "binds_task H I task' (last history)"
    using require_history_binds [OF h(2)] require_history_binds [OF h'(2)] same assms(3) by simp_all
  with same r(3,4) r'(3,4) show ?thesis by (simp add: binds_task_def superseded_artifact_ids_def)
qed

lemma sample_payloads_apart:
  "inj_on sample_baseline_hash (binding_payload ` (set [sample_rebind, sample_retry] \<union> set [sample_rebind, sample_retry]))"
  by (simp add: sample_baseline_hash_def binding_payload_def sample_retry_def sample_rebind_def numeral_eq_Suc)

theorem baseline_digest_fixes_history_witness:
  "task_intent_sha256 sample_intent_hash baseline_task =
     task_intent_sha256 sample_intent_hash (baseline_task\<lparr>t_status := TS_QA, t_attempts := 2\<rparr>)"
  using baseline_digest_fixes_history [OF sample_resolved sample_resolved_later _ _ _ sample_payloads_apart]
  by simp

text \<open>
  C13. With stored baselines the orchestrator codes on the last one: its Coder input names the last
  binding and its base, changes no store, and takes its source either from that binding or from a
  stored candidate of the Task that no binding of the history superseded; a progress checkpoint is
  continued only if it is stored, not superseded, and sealed on that source.
\<close>

theorem coder_codes_on_last_baseline:
  assumes "current_coder_input env task s = (Inr i, s')"
    and "re_inputs env = Some (stored_current H I bindings)" and "bindings (t_id task) = history" and "history \<noteq> []"
  shows "\<exists>as. list_for_task (re_hash env) (rs_artifacts s) (t_id task) = Inr as \<and> s' = s \<and>
    ci_baseline_sha256 i = Some (bl_binding_sha256 (last history)) \<and>
    ci_execution_base_ref i = bl_execution_base_ref (last history) \<and>
    (ci_source_revision i = bl_execution_source_revision (last history) \<or>
     (\<exists>a \<in> set as. art_kind a = AK_IMPLEMENTATION_REPORT \<and> commit_sha_of a = Some (ci_source_revision i) \<and>
        (\<forall>b \<in> set history. bl_superseded_implementation_artifact_id b \<noteq> Some (art_artifact_id a)))) \<and>
    (\<forall>p. ci_active_progress i = Some p \<longrightarrow>
       p \<in> set as \<and> art_kind p = AK_CODER_PROGRESS \<and> art_source_revision p = ci_source_revision i \<and>
       (\<forall>b \<in> set history. bl_superseded_progress_artifact_id b \<noteq> Some (art_artifact_id p)))"
proof -
  from current_input_cases [OF assms(1,2)] obtain i0 as implementation latest progress where c: "s' = s"
    "list_for_task (re_hash env) (rs_artifacts s) (t_id task) = Inr as"
    "latest_accepted_artifact as AK_IMPLEMENTATION_REPORT None (superseded_artifact_ids i0) = Inr implementation"
    "latest_accepted_artifact as AK_CODER_PROGRESS None (superseded_artifact_ids i0) = Inr latest"
    "current_progress as implementation latest = Inr progress"
    "stored_current H I bindings task implementation progress = Some i" by metis
  have "bindings (t_id task) \<noteq> []" using assms(3,4) by simp
  note r = resolve_bound_Inr [OF stored_current_Some(2) [OF c(6) this], unfolded assms(3)]
  have stored: "a \<in> set as \<and> art_kind a = AK_IMPLEMENTATION_REPORT" if "implementation = Some a" for a
    using latest_accepted_member [of as _ None _ a] c(3) that by simp
  have "progress = Some p \<Longrightarrow> latest = Some p" for p
    using c(5) by (auto simp: current_progress_def bind_res_Inr_iff split: option.splits if_splits)
  then have filed: "p \<in> set as \<and> art_kind p = AK_CODER_PROGRESS" if "progress = Some p" for p
    using latest_accepted_member [of as _ None _ p] c(4) that by simp
  from r(6) have "ci_source_revision i = bl_execution_source_revision (last history) \<or>
     (\<exists>a \<in> set as. art_kind a = AK_IMPLEMENTATION_REPORT \<and> commit_sha_of a = Some (ci_source_revision i) \<and>
        (\<forall>b \<in> set history. bl_superseded_implementation_artifact_id b \<noteq> Some (art_artifact_id a)))"
    using stored in_superseded(1) [of _ history] by blast
  moreover have "p \<in> set as \<and> art_kind p = AK_CODER_PROGRESS \<and> art_source_revision p = ci_source_revision i \<and>
       (\<forall>b \<in> set history. bl_superseded_progress_artifact_id b \<noteq> Some (art_artifact_id p))"
    if "ci_active_progress i = Some p" for p
    using r(5) that filed in_superseded(2) [of _ history] by auto
  ultimately show ?thesis using c(1,2) r(1,2) by blast
qed

theorem coder_codes_on_last_baseline_witness:
  "\<exists>i. fst (current_coder_input baseline_env baseline_task baseline_state) = Inr i \<and>
     ci_execution_base_ref i = replicate 40 (CHR ''b'')"
proof -
  obtain x s' where r: "current_coder_input baseline_env baseline_task baseline_state = (x, s')" by fastforce
  with sample_coder_input obtain i where x: "x = Inr i" by (cases x) auto
  have "t_id baseline_task = ''task_a01''" by (simp add: baseline_task_def sample_task_def)
  with coder_codes_on_last_baseline [OF r [unfolded x], of sample_baseline_hash sample_intent_hash sample_baselines
      "[sample_rebind, sample_retry]"] r x
  show ?thesis by (auto simp: baseline_env_def sample_baselines_def sample_retry_def sample_rebind_def)
qed

end
