(* ===== verification/Planning_Preview.thy ===== *)
theory Planning_Preview
  imports Stage_Contracts Portfolio
begin

section \<open>The planning preview\<close>

text \<open>
  \<^verbatim>\<open>planning/preview.py\<close> and the preview records of \<^verbatim>\<open>planning/models.py\<close>: before a plan is handed to
  delivery, the scheduler and the model router are asked, phase by phase, whether it could run now,
  each phase seeing the assignments and leases of the ones before. Nothing is stored. The digests of
  canonical JSON are one parameter over the documents that are hashed, and the length of the JSON of
  Task and plan, from which the context size is estimated, is another.
\<close>

datatype preview_error =
    PlanningPreviewInputError
  | PlanningPreviewRejected string AssignmentDecision "ModelRoutingDecision option"
  | PlanningPreviewExpired | PreviewValueError | PreviewStageError stage_error
  | PreviewSchedulerError sched_error | PreviewRouterError route_error | PreviewLookupError

definition preview_lift :: "('e \<Rightarrow> preview_error) \<Rightarrow> 'e + 'a \<Rightarrow> preview_error + 'a" where
  "preview_lift wrap r = map_sum wrap id r"

subsection \<open>Records\<close>

record PlanningPhasePreview =
  pp_phase_id :: string
  pp_role :: AgentRole
  pp_demand :: RunDemand
  pp_assignment_decision :: AssignmentDecision
  pp_model_routing_decision :: ModelRoutingDecision

definition validate_phase_decisions :: "PlanningPhasePreview \<Rightarrow> bool" where
  "validate_phase_decisions p \<longleftrightarrow>
     (let a = pp_assignment_decision p; r = pp_model_routing_decision p in
      ad_status a = AD_ASSIGNED \<and> md_status r = MD_SELECTED \<and>
      \<not> (ad_agent_id a = None \<or> ad_assignment a = None \<or> ad_lease a = None) \<and> md_selection r \<noteq> None \<and>
      rd_task_id (pp_demand p) = ad_task_id a \<and> rd_task_id (pp_demand p) = md_task_id r \<and>
      rd_role (pp_demand p) = pp_role p \<and> ad_role a = pp_role p \<and> md_role r = pp_role p \<and>
      Some (md_agent_id r) = ad_agent_id a)"

definition valid_PlanningPhasePreview :: "PlanningPhasePreview \<Rightarrow> bool" where
  "valid_PlanningPhasePreview p \<longleftrightarrow>
     valid_PlanPhaseId (pp_phase_id p) \<and> valid_RunDemand (pp_demand p) \<and>
     valid_AssignmentDecision (pp_assignment_decision p) \<and>
     valid_ModelRoutingDecision (pp_model_routing_decision p) \<and> validate_phase_decisions p"

record PlanningPreview =
  pv_id :: string
  pv_repository_id :: string
  pv_task_id :: string
  pv_task_sha256 :: string
  pv_work_item_sha256 :: string
  pv_execution_plan_id :: string
  pv_execution_plan_sha256 :: string
  pv_workforce_snapshot_sha256 :: string
  pv_phases :: "PlanningPhasePreview list"
  pv_previewed_at :: instant
  pv_valid_until :: instant
  pv_preview_sha256 :: string

definition phase_aligned :: "PlanningPreview \<Rightarrow> PlanningPhasePreview \<Rightarrow> bool" where
  "phase_aligned p phase \<longleftrightarrow>
     (let d = pp_assignment_decision phase in
      case (ad_assignment d, ad_lease d) of
        (Some a, Some l) \<Rightarrow>
          ad_repository_id d = pv_repository_id p \<and> ra_repository_id a = pv_repository_id p \<and>
          ad_task_id d = pv_task_id p \<and> ra_task_id a = pv_task_id p \<and> tl_task_id l = pv_task_id p \<and>
          md_task_id (pp_model_routing_decision phase) = pv_task_id p \<and> ra_role a = pp_role phase
      | _ \<Rightarrow> False)"

definition validate_preview_shape :: "PlanningPreview \<Rightarrow> bool" where
  "validate_preview_shape p \<longleftrightarrow>
     \<not> pv_valid_until p \<le> pv_previewed_at p \<and>
     map pp_role (pv_phases p) = [AR_CODER, AR_QA, AR_REVIEWER] \<and>
     list_all (\<lambda>phase. rd_task_id (pp_demand phase) = pv_task_id p) (pv_phases p) \<and>
     list_all (phase_aligned p) (pv_phases p)"

definition valid_PlanningPreviewId :: "string \<Rightarrow> bool" where
  "valid_PlanningPreviewId s \<longleftrightarrow> take 17 s = ''planning_preview_'' \<and> match_hex 64 64 (drop 17 s)"

definition valid_PlanningPreview :: "PlanningPreview \<Rightarrow> bool" where
  "valid_PlanningPreview p \<longleftrightarrow>
     valid_PlanningPreviewId (pv_id p) \<and> valid_RepositoryId (pv_repository_id p) \<and> valid_TaskId (pv_task_id p) \<and>
     valid_StageSha256 (pv_task_sha256 p) \<and> valid_StageSha256 (pv_work_item_sha256 p) \<and>
     valid_ExecutionPlanId (pv_execution_plan_id p) \<and> valid_StageSha256 (pv_execution_plan_sha256 p) \<and>
     valid_StageSha256 (pv_workforce_snapshot_sha256 p) \<and> list_all valid_PlanningPhasePreview (pv_phases p) \<and>
     length (pv_phases p) = 3 \<and> valid_StageSha256 (pv_preview_sha256 p) \<and> validate_preview_shape p"

subsection \<open>Digests\<close>

record workforce_snapshot =
  sn_work_item :: WorkItem
  sn_phase_demands :: "RunDemand list"
  sn_agents :: "AgentProfile list"
  sn_active_leases :: "TaskLease list"
  sn_assignments :: "RoleAssignment list"
  sn_policies :: "ModelPolicy list"

datatype preview_document =
    PvTask Task | PvWorkItem WorkItem | PvSnapshot workforce_snapshot | PvPreview PlanningPreview

type_synonym preview_hash = "preview_document \<Rightarrow> string"

definition workforce_snapshot_digest ::
  "preview_hash \<Rightarrow> WorkItem \<Rightarrow> RunDemand list \<Rightarrow> AgentProfile list \<Rightarrow> TaskLease list \<Rightarrow> RoleAssignment list \<Rightarrow>
   ModelPolicy list \<Rightarrow> string" where
  "workforce_snapshot_digest P item demands agents leases assignments policies =
     P (PvSnapshot \<lparr>sn_work_item = item, sn_phase_demands = demands, sn_agents = sort_key ap_id agents,
        sn_active_leases = sort_key tl_id leases, sn_assignments = sort_key ra_id assignments,
        sn_policies = sort_key (\<lambda>p. (mp_id p, mp_version p)) policies\<rparr>)"

definition preview_payload :: "PlanningPreview \<Rightarrow> PlanningPreview" where
  "preview_payload p = p\<lparr>pv_id := [], pv_preview_sha256 := []\<rparr>"

definition preview_digest :: "preview_hash \<Rightarrow> PlanningPreview \<Rightarrow> string" where
  "preview_digest P p = P (PvPreview (preview_payload p))"

definition preview_integrity :: "preview_hash \<Rightarrow> PlanningPreview \<Rightarrow> preview_error + unit" where
  "preview_integrity P p =
     (let expected = preview_digest P p
      in guard_res (\<not> (pv_preview_sha256 p \<noteq> expected \<or> pv_id p \<noteq> ''planning_preview_'' @ expected))
           (PreviewStageError StageIntegrityError))"

definition require_valid_at :: "preview_hash \<Rightarrow> PlanningPreview \<Rightarrow> py_datetime \<Rightarrow> preview_error + unit" where
  "require_valid_at P p at =
     (case at of
        Naive _ \<Rightarrow> Inl PreviewValueError
      | Aware t \<Rightarrow>
          bind_res (preview_integrity P p) (\<lambda>_.
          bind_res (guard_res (\<not> t < pv_previewed_at p) PreviewValueError) (\<lambda>_.
          guard_res (\<not> pv_valid_until p \<le> t) PlanningPreviewExpired)))"

definition create_preview ::
  "preview_hash \<Rightarrow> Task \<Rightarrow> WorkItem \<Rightarrow> ExecutionPlan \<Rightarrow> string \<Rightarrow> PlanningPhasePreview list \<Rightarrow> instant \<Rightarrow>
   instant \<Rightarrow> preview_error + PlanningPreview" where
  "create_preview P task item plan snapshot phases previewed_at valid_until =
     (let provisional =
        \<lparr>pv_id = ''planning_preview_'' @ zero_digest, pv_repository_id = wi_repository_id item,
         pv_task_id = t_id task, pv_task_sha256 = P (PvTask task), pv_work_item_sha256 = P (PvWorkItem item),
         pv_execution_plan_id = plan_id plan, pv_execution_plan_sha256 = plan_execution_plan_sha256 plan,
         pv_workforce_snapshot_sha256 = snapshot, pv_phases = phases, pv_previewed_at = previewed_at,
         pv_valid_until = valid_until, pv_preview_sha256 = zero_digest\<rparr>;
        digest = preview_digest P provisional
      in bind_res (guard_res (valid_PlanningPreview provisional) PreviewValueError) (\<lambda>_.
         Inr (provisional\<lparr>pv_id := ''planning_preview_'' @ digest, pv_preview_sha256 := digest\<rparr>)))"

subsection \<open>Phase demands\<close>

definition first_segment :: "string \<Rightarrow> string" where
  "first_segment path = takeWhile (\<lambda>c. c \<noteq> CHR ''/'') path"

definition affected_layers :: "string list \<Rightarrow> string list" where
  "affected_layers paths =
     sort (remdups (map first_segment
       (filter (\<lambda>p. p \<noteq> [] \<and> first_segment p \<notin> {''*'', ''**''}) paths)))"

definition phase_demand :: "Task \<Rightarrow> int \<Rightarrow> string list \<Rightarrow> PlanPhaseDemand \<Rightarrow> preview_error + RunDemand" where
  "phase_demand task context_tokens planned_paths phase =
     (let demand =
        \<lparr>rd_task_id = t_id task, rd_role = ph_role phase, rd_risk = ph_risk phase,
         rd_required_capabilities = ph_required_capabilities phase, rd_context_tokens = context_tokens,
         rd_planned_files = int (length planned_paths), rd_affected_layers = affected_layers planned_paths,
         rd_failed_runs = t_attempts task, rd_qa_failures = 0, rd_review_rejections = 0,
         rd_touches_critical_paths = ph_critical_path phase\<rparr>
      in if valid_RunDemand demand then Inr demand else Inl PreviewValueError)"

definition derive_phase_demands ::
  "(Task \<Rightarrow> ExecutionPlan \<Rightarrow> nat) \<Rightarrow> Task \<Rightarrow> ExecutionPlan \<Rightarrow> preview_error + RunDemand list" where
  "derive_phase_demands wire_size task plan =
     (let context_tokens = (int (wire_size task plan) + 3) div 4;
          planned_paths = (case t_constraints task of None \<Rightarrow> [] | Some c \<Rightarrow> tc_allowed_paths c)
      in bind_res (map_res (phase_demand task context_tokens planned_paths) (plan_phases plan)) (\<lambda>demands.
         bind_res (guard_res (3 \<le> length demands) PreviewLookupError) (\<lambda>_.
         Inr (take 3 demands))))"

subsection \<open>The service\<close>

record PlanningPreviewService =
  ps_sha :: "string \<Rightarrow> string"
  ps_lease_duration :: int
  ps_router :: ModelRouter
  ps_preview_valid_for :: int

definition valid_PlanningPreviewService :: "PlanningPreviewService \<Rightarrow> bool" where
  "valid_PlanningPreviewService s \<longleftrightarrow> 0 < ps_preview_valid_for s"

definition require_unique_ids :: "'a list \<Rightarrow> preview_error + unit" where
  "require_unique_ids values = guard_res (length values = card (set values)) PlanningPreviewInputError"

definition metadata_is :: "Task \<Rightarrow> string \<Rightarrow> string \<Rightarrow> bool" where
  "metadata_is task key value \<longleftrightarrow> map_of (t_metadata task) key = Some (JStr value)"

definition validate_preview_inputs ::
  "stage_hash \<Rightarrow> Task \<Rightarrow> WorkItem \<Rightarrow> ExecutionPlan \<Rightarrow> AgentProfile list \<Rightarrow> TaskLease list \<Rightarrow>
   RoleAssignment list \<Rightarrow> ModelPolicy list \<Rightarrow> py_datetime \<Rightarrow> preview_error + unit" where
  "validate_preview_inputs H task item plan agents leases assignments policies previewed_at =
     bind_res (guard_res (is_aware previewed_at) PlanningPreviewInputError) (\<lambda>_.
     bind_res (preview_lift PreviewStageError (plan_integrity H plan)) (\<lambda>_.
     bind_res (guard_res (t_status task = TS_NEW) PlanningPreviewInputError) (\<lambda>_.
     bind_res (guard_res (t_id task = wi_task_id item) PlanningPreviewInputError) (\<lambda>_.
     bind_res (guard_res
        (metadata_is task ''repository_id'' (wi_repository_id item) \<and>
         metadata_is task ''repository_id'' (plan_repository_id plan)) PlanningPreviewInputError) (\<lambda>_.
     bind_res (guard_res
        (metadata_is task ''execution_plan_id'' (plan_id plan) \<and>
         metadata_is task ''execution_plan_sha256'' (plan_execution_plan_sha256 plan))
        PlanningPreviewInputError) (\<lambda>_.
     bind_res (require_unique_ids (map ap_id agents)) (\<lambda>_.
     bind_res (require_unique_ids (map tl_id leases)) (\<lambda>_.
     bind_res (require_unique_ids (map ra_id assignments)) (\<lambda>_.
     require_unique_ids (map mp_id policies))))))))))"

definition selection_name :: "ModelSelection \<Rightarrow> string" where
  "selection_name s =
     ms_provider s @ ''/'' @ ms_model s @ ''@'' @
     (case ms_reasoning_effort s of None \<Rightarrow> ''None'' | Some e \<Rightarrow> ReasoningEffort_value e) @
     (case ms_route_kind s of None \<Rightarrow> [] | Some k \<Rightarrow> ''#'' @ ProviderRouteKind_value k) @
     (case ms_connection_mode s of None \<Rightarrow> [] | Some c \<Rightarrow> '':'' @ CodexConnectionMode_value c)"

definition enforce_minimum_brain_tier ::
  "PlanPhaseDemand \<Rightarrow> ModelRoutingDecision \<Rightarrow> instant \<Rightarrow> preview_error + ModelRoutingDecision" where
  "enforce_minimum_brain_tier phase routing previewed_at =
     (case md_selection routing of
        None \<Rightarrow> Inr routing
      | Some selection \<Rightarrow>
          if TIER_RANK (ph_minimum_brain_tier phase) \<le> TIER_RANK (ms_tier selection) then Inr routing
          else
            (let refusal =
               \<lparr>mf_code = MC_NO_ELIGIBLE_ROUTE,
                mf_message = MsgBelowPlanMinimum (ms_tier selection) (ph_minimum_brain_tier phase),
                mf_required_tier = Some (ph_minimum_brain_tier phase), mf_missing_capabilities = [],
                mf_considered_routes = [selection_name selection]\<rparr>;
               decision =
               \<lparr>md_status = MD_REJECTED, md_task_id = md_task_id routing, md_agent_id = md_agent_id routing,
                md_role = md_role routing, md_selection = None, md_refusal = Some refusal,
                md_decided_at = previewed_at\<rparr>
             in if valid_ModelRoutingDecision decision then Inr decision else Inl PreviewValueError))"

text \<open>A dictionary built from a list keeps the last entry of a key.\<close>

definition dict_by :: "('a \<Rightarrow> string) \<Rightarrow> 'a list \<Rightarrow> string \<Rightarrow> 'a option" where
  "dict_by key xs = map_of (rev (map (\<lambda>x. (key x, x)) xs))"

definition route_phase ::
  "PlanningPreviewService \<Rightarrow> AgentProfile list \<Rightarrow> ModelPolicy list \<Rightarrow> instant \<Rightarrow> PlanPhaseDemand \<Rightarrow> RunDemand \<Rightarrow>
   AssignmentDecision \<Rightarrow> string \<Rightarrow> preview_error + PlanningPhasePreview" where
  "route_phase ps agents policies t phase demand assignment agent_id =
     (case dict_by ap_id agents agent_id of
        None \<Rightarrow> Inl PreviewLookupError
      | Some profile \<Rightarrow>
          (case dict_by mp_id policies (ap_default_model_policy_id profile) of
             None \<Rightarrow> Inl PlanningPreviewInputError
           | Some policy \<Rightarrow>
               bind_res (preview_lift PreviewRouterError
                 (route (ps_router ps) demand profile policy (Aware t))) (\<lambda>routed.
               bind_res (enforce_minimum_brain_tier phase routed t) (\<lambda>routing.
               bind_res (guard_res (md_status routing \<noteq> MD_REJECTED)
                 (PlanningPreviewRejected (ph_id phase) assignment (Some routing))) (\<lambda>_.
               let preview = \<lparr>pp_phase_id = ph_id phase, pp_role = ph_role phase, pp_demand = demand,
                 pp_assignment_decision = assignment, pp_model_routing_decision = routing\<rparr>
               in if valid_PlanningPhasePreview preview then Inr preview else Inl PreviewValueError)))))"

definition preview_phase ::
  "PlanningPreviewService \<Rightarrow> WorkItem \<Rightarrow> AgentProfile list \<Rightarrow> ModelPolicy list \<Rightarrow> instant \<Rightarrow>
   PlanPhaseDemand \<Rightarrow> RunDemand \<Rightarrow> TaskLease list \<Rightarrow> RoleAssignment list \<Rightarrow>
   preview_error + PlanningPhasePreview \<times> RoleAssignment \<times> TaskLease" where
  "preview_phase ps item agents policies t phase demand leases assignments =
     (let phase_item = item\<lparr>wi_required_capabilities := ph_required_capabilities phase\<rparr> in
      bind_res (preview_lift PreviewSchedulerError
        (match_item (ps_sha ps) (ps_lease_duration ps) plain_ident phase_item (ph_role phase) agents leases
           assignments (Aware t) 1 [phase_item])) (\<lambda>assignment.
      bind_res (guard_res (ad_status assignment \<noteq> AD_REJECTED)
        (PlanningPreviewRejected (ph_id phase) assignment None)) (\<lambda>_.
      case (ad_agent_id assignment, ad_assignment assignment, ad_lease assignment) of
        (Some agent_id, Some ra, Some lease) \<Rightarrow>
          bind_res (route_phase ps agents policies t phase demand assignment agent_id) (\<lambda>preview.
          Inr (preview, ra, lease))
      | _ \<Rightarrow> Inl PreviewValueError)))"

fun preview_phases ::
  "(PlanPhaseDemand \<Rightarrow> RunDemand \<Rightarrow> TaskLease list \<Rightarrow> RoleAssignment list \<Rightarrow>
     preview_error + PlanningPhasePreview \<times> RoleAssignment \<times> TaskLease) \<Rightarrow>
   PlanPhaseDemand list \<Rightarrow> RunDemand list \<Rightarrow> TaskLease list \<Rightarrow> RoleAssignment list \<Rightarrow>
   preview_error + PlanningPhasePreview list" where
  "preview_phases one [] [] leases assignments = Inr []"
| "preview_phases one (phase # phases) (demand # demands) leases assignments =
     bind_res (one phase demand leases assignments) (\<lambda>(preview, ra, lease).
     bind_res (preview_phases one phases demands (leases @ [lease]) (assignments @ [ra])) (\<lambda>previews.
     Inr (preview # previews)))"
| "preview_phases one phases demands leases assignments = Inl PreviewValueError"

definition preview ::
  "stage_hash \<Rightarrow> preview_hash \<Rightarrow> (Task \<Rightarrow> ExecutionPlan \<Rightarrow> nat) \<Rightarrow> PlanningPreviewService \<Rightarrow> Task \<Rightarrow> WorkItem \<Rightarrow>
   ExecutionPlan \<Rightarrow> AgentProfile list \<Rightarrow> TaskLease list \<Rightarrow> RoleAssignment list \<Rightarrow> ModelPolicy list \<Rightarrow>
   py_datetime \<Rightarrow> preview_error + PlanningPreview" where
  "preview H P wire_size ps task item plan agents leases assignments policies previewed_at =
     bind_res (derive_phase_demands wire_size task plan) (\<lambda>demands.
     bind_res (validate_preview_inputs H task item plan agents leases assignments policies previewed_at) (\<lambda>_.
     case previewed_at of
       Naive _ \<Rightarrow> Inl PlanningPreviewInputError
     | Aware t \<Rightarrow>
         bind_res (preview_phases (preview_phase ps item agents policies t) (plan_phases plan) demands
            leases assignments) (\<lambda>phases.
         create_preview P task item plan
           (workforce_snapshot_digest P item demands agents leases assignments policies)
           phases t (t + ps_preview_valid_for ps))))"

end
