(* ===== verification/Preview_Properties.thy ===== *)
theory Preview_Properties
  imports Planning_Preview State_Machine
begin

section \<open>What a planning preview shows\<close>

text \<open>
  A preview that is returned is evidence that every phase of the plan could be staffed and routed at
  its time; it does not depend on the order in which the facts are supplied; and it can be used
  exactly within its window and not after an edit.
\<close>

subsection \<open>One phase\<close>

lemma preview_lift_Inr [simp]: "preview_lift w r = Inr a \<longleftrightarrow> r = Inr a"
  by (cases r) (simp_all add: preview_lift_def)


lemma dict_by_perm:
  assumes "mset xs = mset ys" and "distinct (map key xs)"
  shows "dict_by key xs = dict_by key ys"
proof -
  have d: "distinct (map key ys)"
    using assms mset_eq_imp_distinct_iff [of "map key xs" "map key ys"] by simp
  have keys: "map fst (map (\<lambda>x. (key x, x)) zs) = map key zs" for zs by (simp add: comp_def)
  have "map_of (map (\<lambda>x. (key x, x)) xs) = map_of (map (\<lambda>x. (key x, x)) ys)"
    by (rule map_of_inject_set [THEN iffD2]) (simp_all only: keys assms(2) d set_map mset_eq_setD [OF assms(1)])
  moreover have "map_of (rev (map (\<lambda>x. (key x, x)) zs)) = map_of (map (\<lambda>x. (key x, x)) zs)"
    if "distinct (map key zs)" for zs
    by (rule map_of_inject_set [THEN iffD2]) (simp_all only: set_rev rev_map [symmetric] keys that distinct_rev)
  ultimately show ?thesis using assms(2) d by (simp only: dict_by_def)
qed




subsection \<open>The three phases\<close>




lemma create_preview_Inr:
  assumes "create_preview P task item plan snapshot phases t u = Inr p"
  shows "pv_phases p = phases" and "pv_previewed_at p = t" and "pv_valid_until p = u"
    and "preview_integrity P p = Inr ()" and "length phases = 3" and "t < u"
    and "pv_task_id p = t_id task" and "pv_execution_plan_sha256 p = plan_execution_plan_sha256 plan"
    and "map pp_role phases = [AR_CODER, AR_QA, AR_REVIEWER]" and "list_all valid_PlanningPhasePreview phases"
    and "pv_task_sha256 p = P (PvTask task)" and "pv_workforce_snapshot_sha256 p = snapshot"
  using assms
  by (auto simp: create_preview_def Let_def bind_res_Inr_iff preview_integrity_def preview_digest_def
      preview_payload_def valid_PlanningPreview_def validate_preview_shape_def)

lemma preview_Inr:
  assumes "preview H P wire_size ps task item plan agents leases assignments policies previewed_at = Inr p"
  obtains t demands where "previewed_at = Aware t" "derive_phase_demands wire_size task plan = Inr demands"
    "validate_preview_inputs H task item plan agents leases assignments policies previewed_at = Inr ()"
    "preview_phases (preview_phase ps item agents policies t) (plan_phases plan) demands leases assignments = Inr (pv_phases p)"
    "create_preview P task item plan (workforce_snapshot_digest P item demands agents leases assignments policies)
       (pv_phases p) t (t + ps_preview_valid_for ps) = Inr p"
proof -
  obtain demands where d: "derive_phase_demands wire_size task plan = Inr demands"
    "validate_preview_inputs H task item plan agents leases assignments policies previewed_at = Inr ()"
    using assms by (auto simp: preview_def bind_res_Inr_iff)
  obtain t where t: "previewed_at = Aware t"
    using assms d by (cases previewed_at) (simp_all add: preview_def)
  obtain phases where ph: "preview_phases (preview_phase ps item agents policies t) (plan_phases plan) demands leases assignments = Inr phases"
    "create_preview P task item plan (workforce_snapshot_digest P item demands agents leases assignments policies)
       phases t (t + ps_preview_valid_for ps) = Inr p"
    using assms d t by (auto simp: preview_def bind_res_Inr_iff)
  with create_preview_Inr(1) [OF ph(2)] d t show thesis by (intro that [of t demands]) simp_all
qed









subsection \<open>Order of the supplied facts\<close>

lemma unique_ids_Inr: "require_unique_ids xs = Inr () \<longleftrightarrow> distinct xs"
  using card_distinct [of xs] distinct_card [of xs] by (auto simp: require_unique_ids_def)

lemma unique_ids_perm: "mset xs = mset ys \<Longrightarrow> require_unique_ids (map f xs) = require_unique_ids (map f ys)"
  using mset_eq_setD [of xs ys] mset_eq_length [of xs ys] by (simp add: require_unique_ids_def)

lemma preview_phase_perm:
  assumes "mset agents = mset agents'" and "mset policies = mset policies'"
    and "distinct (map ap_id agents)" and "distinct (map mp_id policies)"
  shows "preview_phase ps item agents policies t = preview_phase ps item agents' policies' t"
proof -
  have "route_phase ps agents policies t = route_phase ps agents' policies' t"
    by (intro ext) (simp only: route_phase_def dict_by_perm [OF assms(1,3)] dict_by_perm [OF assms(2,4)])
  then show ?thesis
    by (intro ext) (unfold preview_phase_def match_order_independent [OF assms(1,3)], simp only:)
qed

lemma snapshot_perm:
  assumes "mset agents = mset agents'" and "mset policies = mset policies'"
    and "distinct (map ap_id agents)" and "distinct (map mp_id policies)"
  shows "workforce_snapshot_digest P item demands agents leases assignments policies =
    workforce_snapshot_digest P item demands agents' leases assignments policies'"
proof -
  have "sort_key ap_id agents = sort_key ap_id agents'"
    by (rule sort_key_perm_eq [OF assms(1)]) (use assms(3) in \<open>simp add: distinct_map\<close>)
  moreover have "sort_key (\<lambda>p. (mp_id p, mp_version p)) policies = sort_key (\<lambda>p. (mp_id p, mp_version p)) policies'"
    by (rule sort_key_perm_eq [OF assms(2)]) (use assms(4) in \<open>auto simp: distinct_map inj_on_def\<close>)
  ultimately show ?thesis by (simp add: workforce_snapshot_digest_def)
qed

lemma validated_inputs_distinct:
  assumes "validate_preview_inputs H task item plan agents leases assignments policies at = Inr ()"
  shows "distinct (map ap_id agents)" and "distinct (map mp_id policies)" and "t_status task = TS_NEW"
    and "t_id task = wi_task_id item" and "plan_integrity H plan = Inr ()"
  using assms by (auto simp: validate_preview_inputs_def bind_res_Inr_iff unique_ids_Inr)

subsection \<open>Samples\<close>

definition preview_phase_of :: "string \<Rightarrow> AgentRole \<Rightarrow> PlanPhaseDemand" where
  "preview_phase_of i role =
     \<lparr>ph_id = i, ph_role = role, ph_objective = ''do'', ph_required_capabilities = [''py''], ph_risk = RT_LOW,
      ph_minimum_brain_tier = BT_ECONOMY, ph_checkpoints = [''c''], ph_critical_path = False\<rparr>"

definition previewed_plan :: ExecutionPlan where
  "previewed_plan =
     \<lparr>plan_execution_window = None, plan_id = ''execution_plan_a01'', plan_request_id = ''request_a01'',
      plan_repository_id = ''repository_a01'', plan_product_spec_id = ''product_spec_a01'',
      plan_product_spec_sha256 = zero_digest, plan_technical_design_id = ''technical_design_a01'',
      plan_technical_design_sha256 = zero_digest, plan_version = 1,
      plan_phases = [preview_phase_of ''phase_c1'' AR_CODER, preview_phase_of ''phase_q1'' AR_QA,
                     preview_phase_of ''phase_r1'' AR_REVIEWER],
      plan_feasibility_evidence_uris = [], plan_work_graph = None, plan_revision_feedback = None,
      plan_created_at = 0, plan_execution_plan_sha256 = zero_digest\<rparr>"

definition previewed_task :: Task where
  "previewed_task = (sample_task TS_NEW 0)\<lparr>t_metadata :=
     [(''repository_id'', JStr ''repository_a01''), (''execution_plan_id'', JStr ''execution_plan_a01''),
      (''execution_plan_sha256'', JStr zero_digest)]\<rparr>"

definition preview_service :: PlanningPreviewService where
  "preview_service = \<lparr>ps_sha = const_sha, ps_lease_duration = 10, ps_router = sample_router, ps_preview_valid_for = 600\<rparr>"

definition preview_agents :: "AgentProfile list" where
  "preview_agents = [sample_agent, sample_agent\<lparr>ap_id := ''agent_b01''\<rparr>, sample_agent\<lparr>ap_id := ''agent_c01''\<rparr>]"

abbreviation sample_preview :: "AgentProfile list \<Rightarrow> preview_error + PlanningPreview" where
  "sample_preview agents \<equiv>
     preview (\<lambda>_. zero_digest) (\<lambda>_. zero_digest) (\<lambda>_ _. 13) preview_service previewed_task
       (sample_item ''task_a01'' WI_READY) previewed_plan agents [] [] [sample_policy] (Aware 100)"

lemma sample_previewed: "\<not> isl (sample_preview preview_agents)"
  by code_simp

text \<open>With two Agents the review phase has nobody who did not take part before.\<close>

lemma sample_preview_refused:
  "(case sample_preview (take 2 preview_agents) of Inl (PlanningPreviewRejected i d None) \<Rightarrow> i = ''phase_r1'' | _ \<Rightarrow> False)"
  by code_simp

section \<open>Properties\<close>



text \<open>
  C11. The order in which Agents and model policies are supplied does not matter: the preview, its
  identity and every error are the same for a permutation of both.
\<close>

theorem preview_order_independent:
  assumes "mset agents = mset agents'" and "mset policies = mset policies'"
  shows "preview H P wire_size ps task item plan agents leases assignments policies at =
    preview H P wire_size ps task item plan agents' leases assignments policies' at"
proof -
  let ?v = "validate_preview_inputs H task item plan agents leases assignments policies at"
  have v: "?v = validate_preview_inputs H task item plan agents' leases assignments policies' at"
    by (simp add: validate_preview_inputs_def unique_ids_perm [OF assms(1)] unique_ids_perm [OF assms(2)])
  show ?thesis
  proof (cases ?v)
    case (Inl e)
    show ?thesis unfolding preview_def v [symmetric] Inl by (simp only: bind_res_simps)
  next
    case (Inr u)
    then have d: "distinct (map ap_id agents)" "distinct (map mp_id policies)"
      using validated_inputs_distinct by simp_all
    show ?thesis
      unfolding preview_def v [symmetric] preview_phase_perm [OF assms d] snapshot_perm [OF assms d] ..
  qed
qed

theorem preview_order_independent_witness:
  "sample_preview preview_agents = sample_preview (rev preview_agents)"
  by (rule preview_order_independent) simp_all

text \<open>
  C12. A returned preview is intact and can be used exactly from its time until its window ends,
  never with a naive time; and, unless the hash collides, an intact preview under its identity is
  this very preview, so an edit is always noticed.
\<close>

theorem preview_usable_in_window:
  assumes "preview H P wire_size ps task item plan agents leases assignments policies (Aware t) = Inr p"
  shows "require_valid_at P p (Naive u) = Inl PreviewValueError \<and>
    require_valid_at P p (Aware u) =
      (if u < t then Inl PreviewValueError
       else if t + ps_preview_valid_for ps \<le> u then Inl PlanningPreviewExpired else Inr ()) \<and>
    (\<forall>q. preview_integrity P q = Inr () \<and> pv_id q = pv_id p \<and>
       inj_on P {PvPreview (preview_payload p), PvPreview (preview_payload q)} \<longrightarrow> q = p)"
proof -
  from assms obtain t' demands where t: "Aware t = Aware t'"
    "create_preview P task item plan (workforce_snapshot_digest P item demands agents leases assignments policies)
       (pv_phases p) t' (t' + ps_preview_valid_for ps) = Inr p"
    by (rule preview_Inr)
  note c = create_preview_Inr [OF t(2)]
  have "q = p" if q: "preview_integrity P q = Inr ()" "pv_id q = pv_id p"
    "inj_on P {PvPreview (preview_payload p), PvPreview (preview_payload q)}" for q
  proof -
    have sealed: "pv_id x = ''planning_preview_'' @ preview_digest P x" "pv_preview_sha256 x = preview_digest P x"
      if "preview_integrity P x = Inr ()" for x using that by (simp_all add: preview_integrity_def Let_def)
    have same: "preview_digest P q = preview_digest P p" using sealed [OF q(1)] sealed [OF c(4)] q(2) by simp
    then have "PvPreview (preview_payload q) = PvPreview (preview_payload p)"
      by (intro inj_onD [OF q(3)]) (simp_all add: preview_digest_def)
    then have "preview_payload q = preview_payload p" by simp
    moreover have "(preview_payload x)\<lparr>pv_id := pv_id x, pv_preview_sha256 := pv_preview_sha256 x\<rparr> = x" for x
      by (simp add: preview_payload_def)
    ultimately show ?thesis using sealed(2) [OF q(1)] sealed(2) [OF c(4)] same q(2) by metis
  qed
  with c t(1) show ?thesis by (simp add: require_valid_at_def)
qed

theorem preview_usable_in_window_witness:
  "\<exists>p. sample_preview preview_agents = Inr p \<and> require_valid_at (\<lambda>_. zero_digest) p (Aware 699) = Inr () \<and>
     require_valid_at (\<lambda>_. zero_digest) p (Aware 700) = Inl PlanningPreviewExpired"
proof -
  obtain p where "sample_preview preview_agents = Inr p"
    using sample_previewed by (cases "sample_preview preview_agents") auto
  with preview_usable_in_window [OF this] show ?thesis by (auto simp: preview_service_def)
qed

end
