(* ===== verification/Spec2Isabelle.thy ===== *)
theory Spec2Isabelle
  imports Dispatcher_Properties Bounded_Run Retry_Properties Planning_Properties Baseline_Properties
    Preview_Properties
begin

text \<open>
  \<^bold>\<open>The delivery core of the AI software engineering platform.\<close>

  The platform turns a requirement into approved stage documents, derives a Task (a change request
  with acceptance criteria) from them, lets Agents plan, code, test and review it, and records every
  step durably. All paths below are under
  \<^verbatim>\<open>src/src/ai_software_engineer/\<close>.

  \<^bold>\<open>The parts and how they interact.\<close>
  \<^item> The \<^emph>\<open>stage documents\<close> of a delivery are a chain of sealed records: preparation, request,
    ProductSpec, human approval, technical design, execution plan. Each names the digest of its
    predecessors; an approved ProductSpec is the only way to a delivery Task. The \<^emph>\<open>planning gate\<close>
    decides from the repository and the design whether a fast plan may replace the Planner, and the
    \<^emph>\<open>plan store\<close> keeps every revision and approval of the execution plan.
  \<^item> A \<^emph>\<open>Task\<close> is a frozen intent plus a status. The \<^emph>\<open>state machine\<close> says which status
    changes are legal; the \<^emph>\<open>Task repository\<close> stores the Task with an append-only event log and only
    accepts events the state machine accepts.
  \<^item> The \<^emph>\<open>serial orchestrator\<close> drives one Task: it asks an Agent for each role's Artifact,
    publishes the Artifact in the immutable \<^emph>\<open>Artifact store\<close>, checks it and appends the transition to
    the repository. A \<^emph>\<open>run control\<close> limits a pass to one delivery run; long plans are cut into
    \<^emph>\<open>Coder work slices\<close>. The \<^emph>\<open>retrying orchestrator\<close> is built on its runs and transitions: it
    resumes a Task at any status, repeats failed runs within the frozen budgets, sends QA and review
    findings back to the Coder and records why it stops.
  \<^item> Roles of different Tasks are executed by workers that take items from the \<^emph>\<open>persistent work
    queue\<close>. The \<^emph>\<open>dispatcher\<close> matches an item with an Agent (\<^emph>\<open>portfolio scheduler\<close>), picks a
    model route (\<^emph>\<open>model router\<close>) and claims the item. When a delivery fails, the \<^emph>\<open>disposition\<close>
    table decides who acts next, and the queue resumes the item only on that authority.

  \<^bold>\<open>Theories, the code they model, and what they show.\<close>
  \<^item> \<^verbatim>\<open>Ase_Prelude\<close>: results as sums with \<open>bind_res\<close> and \<open>guard_res\<close>, Python datetimes, identifier
    patterns, \<^verbatim>\<open>domain/model.py\<close>, tables as lists of rows, and the locale \<open>guarded_run\<close> of invariants
    over operation sequences. \<^verbatim>\<open>Domain_Enums\<close>: \<^verbatim>\<open>domain/enums.py\<close>.
  \<^item> \<^verbatim>\<open>Branch_Name\<close> (\<^verbatim>\<open>domain/branch.py\<close>), \<^verbatim>\<open>Retry_Policy\<close> (\<^verbatim>\<open>domain/retry_policy.py\<close>,
    \<^verbatim>\<open>domain/continuation.py\<close>, \<^verbatim>\<open>domain/engineering_authority.py\<close>), \<^verbatim>\<open>Domain_Task\<close>
    (\<^verbatim>\<open>domain/task.py\<close>, \<^verbatim>\<open>domain/event.py\<close>): the data model with every validator.
  \<^item> \<^verbatim>\<open>Stage_Domain\<close>, \<^verbatim>\<open>Stage_Contracts\<close>, \<^verbatim>\<open>Stage_Properties\<close> (\<^verbatim>\<open>domain/project_delivery.py\<close>):
    the stage documents, the work graph of a plan (accepted exactly when it is a DAG over known work
    items), the locale \<open>sealed_document\<close> interpreted on all six documents, the checks between
    stages, and the Task derived at the end. A passed chain fixes every document below it, and a
    delivery of a derived Task has verified every approved requirement.
  \<^item> \<^verbatim>\<open>Planning_Gate\<close> (\<^verbatim>\<open>planning/gate.py\<close>, \<^verbatim>\<open>planning/fast.py\<close>), \<^verbatim>\<open>Plan_Store\<close>
    (\<^verbatim>\<open>planning/store.py\<close>), \<^verbatim>\<open>Planning_Properties\<close>: the gate never downgrades a recorded need for
    planning, the fast plan is a valid plan, and the stored revisions have no gap.
  \<^item> \<^verbatim>\<open>Planning_Preview\<close> (\<^verbatim>\<open>planning/preview.py\<close> and the preview records of
    \<^verbatim>\<open>planning/models.py\<close>), \<^verbatim>\<open>Preview_Properties\<close>: scheduler and router asked phase by phase; a preview
    staffs the three phases with different, capable, free Agents on routes the plan permits, does not
    depend on the order of the facts, and is usable only intact and in its window.
  \<^item> \<^verbatim>\<open>State_Machine\<close> (\<^verbatim>\<open>orchestration/state_machine.py\<close>): no history reaches \<open>DONE\<close> without QA and
    review, terminal statuses are final, every other status can be delivered.
  \<^item> \<^verbatim>\<open>Task_Repository\<close> (\<^verbatim>\<open>store/repository.py\<close>, \<^verbatim>\<open>store/mysql_repository.py\<close>): the locale
    \<open>task_repository\<close> states the protocol of \<^verbatim>\<open>store/ports.py\<close> and is interpreted on both stores; the
    log replays to the snapshot after any calls, appends are idempotent, and the MySQL store refines
    the SQLite one.
  \<^item> \<^verbatim>\<open>Disposition\<close> (\<^verbatim>\<open>domain/delivery_disposition.py\<close>): the decision is total on valid
    facts, and the facts that lead to a retry, a remediation, a termination or a human decision are
    exactly the ones listed; the first two need authority and budget.
  \<^item> \<^verbatim>\<open>Workforce\<close> (\<^verbatim>\<open>domain/workforce.py\<close>), \<^verbatim>\<open>Model_Router\<close> and \<^verbatim>\<open>Portfolio\<close> (\<^verbatim>\<open>scheduling/\<close>): a
    selected route is sound, complete and minimal; a match is sound, complete and independent of the
    order of the Agents, and takes the preferred Agent, else the one with the most free units, the
    largest limit, the smallest id; batches respect capacity.
  \<^item> \<^verbatim>\<open>Queue_Model\<close> (\<^verbatim>\<open>work_queue/models.py\<close>, \<^verbatim>\<open>ports.py\<close>, \<^verbatim>\<open>mysql.py\<close>), \<^verbatim>\<open>Queue_Safety\<close>,
    \<^verbatim>\<open>Queue_Properties\<close>, \<^verbatim>\<open>Queue_Validity\<close>, \<^verbatim>\<open>Queue_Samples\<close>: exclusive fenced ownership, bounded
    live claims, idempotent publication and completion, readability of stored items, and resumption
    only with the recorded disposition.
  \<^item> \<^verbatim>\<open>Dispatcher\<close>, \<^verbatim>\<open>Dispatcher_Properties\<close> (\<^verbatim>\<open>work_queue/dispatcher.py\<close>): a tick claims at most one
    item and a dispatched claim carries every authority, whatever other processes do in between.
  \<^item> \<^verbatim>\<open>Execution_Window\<close> (\<^verbatim>\<open>domain/execution_window.py\<close>), \<^verbatim>\<open>Artifact_Domain\<close>
    (\<^verbatim>\<open>domain/artifact.py\<close>), \<^verbatim>\<open>Artifact_Samples\<close>: the Artifacts and their validators.
  \<^item> \<^verbatim>\<open>Artifact_Store\<close>, \<^verbatim>\<open>Artifact_Ordering\<close> (\<^verbatim>\<open>artifacts/\<close>): the locale \<open>artifact_store\<close>,
    immutability, and that the latest accepted Artifact is the greatest of its history.
  \<^item> \<^verbatim>\<open>Coder_Work\<close> (\<^verbatim>\<open>domain/coder_work.py\<close>): slices partition the plan, the output gate loses no
    step, and the allowance suffices.
  \<^item> \<^verbatim>\<open>Agent_Contracts\<close> (\<^verbatim>\<open>domain/agent.py\<close>, \<^verbatim>\<open>agents/models.py\<close>), \<^verbatim>\<open>Runner\<close>
    (\<^verbatim>\<open>orchestration/runner.py\<close>, \<^verbatim>\<open>steps.py\<close>), \<^verbatim>\<open>Runner_Properties\<close>, \<^verbatim>\<open>Delivery_Properties\<close>,
    \<^verbatim>\<open>Delivery_Samples\<close>, \<^verbatim>\<open>Bounded_Run\<close>: a pass that returns has delivered a verified candidate, one
    that raises has not finished the Task, and a bounded pass makes one delivery run, on a permit that names
    its source revision and checkpoint.
  \<^item> \<^verbatim>\<open>Execution_Baseline\<close> (\<^verbatim>\<open>domain/execution_baseline.py\<close>, and the stored resolver of
    \<^verbatim>\<open>manager/execution_baseline.py\<close>), \<^verbatim>\<open>Baseline_Properties\<close>: bindings that rebind or rescue a delivery
    on another code baseline. Evidence fits the purpose, a history is the Task's own append-only
    lineage and is fixed by its last digest, and the orchestrator of \<^verbatim>\<open>Runner\<close> codes on the last
    binding and never on superseded work.
  \<^item> \<^verbatim>\<open>Model_Failure\<close> (the failures of \<^verbatim>\<open>agents/structured.py\<close> and \<^verbatim>\<open>knowledge/\<close> that are told
    apart), \<^verbatim>\<open>Retry_Runner\<close> (\<^verbatim>\<open>orchestration/retry.py\<close>, \<^verbatim>\<open>domain/coder_feedback.py\<close>): every method
    of \<^verbatim>\<open>RetryingOrchestrator\<close>. \<^verbatim>\<open>Retry_Logic\<close> is a weakest-precondition calculus for programs over
    the two stores, \<^verbatim>\<open>Retry_Accounting\<close> verifies the attempt loop, \<^verbatim>\<open>Retry_Stages\<close> the run of each
    role, \<^verbatim>\<open>Retry_Delivery\<close> the stages and the delivery loop. \<^verbatim>\<open>Retry_Properties\<close>,
    \<^verbatim>\<open>Retry_Samples\<close>: a delivery is verified however often it was retried, a stopped pass is recorded
    completely, the loops end, and transient failures do not use up work.

  \<^bold>\<open>Conventions.\<close> A Python class is a record whose fields carry a short prefix, and \<open>valid_X\<close> is the
  Pydantic validation of \<open>X\<close>: the field constraints and the validators in source order. \<^verbatim>\<open>model_copy\<close>
  is a record update, which checks nothing, as in Python. A raised exception is \<open>Inl\<close> of an error
  datatype with the source's exception classes (messages are dropped unless code compares them);
  \<^verbatim>\<open>ValidationError\<close> counts as the \<^verbatim>\<open>ValueError\<close> it is. Database tables are lists of rows; a
  transaction that raises leaves the tables unchanged. The orchestrator writes to two stores, so there
  an error comes with the state it leaves behind.

  \<^bold>\<open>Parameters.\<close> SHA-256 digests (facts, tokens, dispositions, Artifacts, stable identities, stage
  documents, gate inputs, plan runs, previews, baseline bindings, Task intents), the length of a
  document's JSON, the resolution of a path by the file system, the mutation fence of the MySQL repository, the token and identity factories, the clocks, the Agent
  adapter, the context builder, the invocation journal, the transition gate and the calls of other
  processes between the statements of a dispatcher tick are arguments. Theorems assume of them only
  what their statement says.

  A property that recovers a document from its digest assumes that the digest function has no
  collision on the documents it names. Named assumptions of the retry properties: \<open>sane\<close> (both stores satisfy their invariants and the event
  ids still to come are unused), \<open>env_valid\<close> (collaborators return validated models), \<open>journal_ok\<close>
  (a replayed run keeps its attempt) and \<open>interruption_ok\<close> (an interrupted run is continued under a
  later attempt, as \<^verbatim>\<open>NativeCoderContinuation\<close> reserves it).

  \<^bold>\<open>Termination and fuel.\<close> The searches of \<^verbatim>\<open>Artifact_Ordering\<close> end by the number of unseen identities,
  the successor-branch search of \<^verbatim>\<open>Branch_Name\<close> by its finite range; all other loops but two run over
  a list. The two \<^verbatim>\<open>while True\<close> loops of \<^verbatim>\<open>retry.py\<close> carry fuel. An attempt is at most 400 and every
  repetition raises it, so \<open>attempt_fuel\<close> is 401; a turn of the delivery loop raises the attempt or
  ends in \<open>CONTINUE_REQUIRED\<close>, so \<open>delivery_fuel\<close> is 802. That neither runs out is the property
  \<open>retry_terminates\<close>, which also gives both store invariants for every outcome.

  \<^bold>\<open>Simplifications.\<close> An exception of a collaborator that \<^verbatim>\<open>Model_Failure\<close> does not tell
  apart is one error, since no code handles it by its class; the execution inputs and the transition
  gate of a pass are functions of their arguments. \<open>fast_plan\<close> returns the plan without the
  \<^verbatim>\<open>PlannerAgentResult\<close> around it. A digest is a function of the record with the excluded fields
  blanked, so two spellings of one instant have one digest. The property \<open>latest_accepted_is_greatest\<close>
  is about the default order; the definition also takes a trusted order.

  \<^bold>\<open>Not modelled.\<close> Failures of the operating system, the file system and the network; JSON text;
  the upgrade of legacy queue tables; interleaving of other writers inside one orchestrator pass; the
  native continuation of \<^verbatim>\<open>orchestration/continuation.py\<close>; of \<^verbatim>\<open>planning/\<close> the Planner's runs,
  checkpoints and stage service; the service that proposes and executes a baseline rebind; the Product and Designer dialogue; the services of \<^verbatim>\<open>manager/\<close>,
  \<^verbatim>\<open>team_view/\<close>, \<^verbatim>\<open>multi_directory/\<close>, \<^verbatim>\<open>git/\<close>, the Agent providers and the consoles, which are
  compositions of I/O around the parts above.
\<close>

end
